(* ===== verification/Prelude.thy ===== *)
theory Prelude
  imports Main "HOL-Library.AList" "HOL-Library.List_Lexorder" "HOL-Library.Char_ord" "HOL-Library.Multiset"
begin

text \<open>
  Shared vocabulary of the development: the errors the runner throws, operations as functions
  from a state to a result and a new state (a JavaScript method keeps the mutations it made
  before it throws, so the new state is returned in both cases), the rules that evaluate such
  operations, and generic facts on lists and association lists.
\<close>

named_theorems run_simps \<open>equations that decompose a run of an operation into the runs of its parts\<close>

subsection \<open>Errors\<close>

text \<open>
  One constructor per class of error the sources construct or distinguish with \<open>instanceof\<close>:
  the persistence errors of \<open>persistence/types.ts\<close>, the private \<open>TransitionConflict\<close> of the
  journal, the protocol error of \<open>reverse-etl/meta.ts\<close>, the manual reconciliation error of
  \<open>reverse-etl/failure.ts\<close>, other \<open>Error\<close> objects by message, and the error an aborted signal
  raises. \<open>NonError\<close> is a thrown value that is no \<open>Error\<close> at all.
\<close>

datatype exn =
    PersistenceError string
  | TransitionConflict string
  | PersistenceResetRequiredError
  | ReverseEtlProtocolError string
  | ReverseEtlManualReconciliationError
  | MirrorRunError string
  | PlainError string
  | AbortError
  | NonError

type_synonym 'a result = "exn + 'a"

type_synonym ('s, 'a) oper = "'s \<Rightarrow> 'a result \<times> 's"

definition resultE :: "'a result \<Rightarrow> ('s, 'a) oper" where
  "resultE r = (\<lambda>s. (r, s))"

definition returnE :: "'a \<Rightarrow> ('s, 'a) oper" where
  "returnE a = (\<lambda>s. (Inr a, s))"

definition throwE :: "exn \<Rightarrow> ('s, 'a) oper" where
  "throwE e = (\<lambda>s. (Inl e, s))"

definition bindE :: "('s, 'a) oper \<Rightarrow> ('a \<Rightarrow> ('s, 'b) oper) \<Rightarrow> ('s, 'b) oper" where
  "bindE m f = (\<lambda>s. case m s of (Inl e, s') \<Rightarrow> (Inl e, s') | (Inr a, s') \<Rightarrow> f a s')"

definition thenE :: "('s, 'a) oper \<Rightarrow> ('s, 'b) oper \<Rightarrow> ('s, 'b) oper" where
  "thenE m n = bindE m (\<lambda>_. n)"

definition getE :: "('s \<Rightarrow> 'a) \<Rightarrow> ('s, 'a) oper" where
  "getE f = (\<lambda>s. (Inr (f s), s))"

definition modifyE :: "('s \<Rightarrow> 's) \<Rightarrow> ('s, unit) oper" where
  "modifyE f = (\<lambda>s. (Inr (), f s))"

text \<open>A handler sees the state the throwing computation left behind.\<close>

definition catchE :: "('s, 'a) oper \<Rightarrow> (exn \<Rightarrow> ('s, 'a) oper) \<Rightarrow> ('s, 'a) oper" where
  "catchE m h = (\<lambda>s. case m s of (Inl e, s') \<Rightarrow> h e s' | (Inr a, s') \<Rightarrow> (Inr a, s'))"

definition whenE :: "bool \<Rightarrow> ('s, unit) oper \<Rightarrow> ('s, unit) oper" where
  "whenE b m = (if b then m else returnE ())"

text \<open>\<open>ensure(value, message)\<close> of \<open>persistence/types.ts\<close>.\<close>

definition ensure :: "bool \<Rightarrow> string \<Rightarrow> ('s, unit) oper" where
  "ensure b msg = (if b then returnE () else throwE (PersistenceError msg))"

definition ensureR :: "bool \<Rightarrow> string \<Rightarrow> unit result" where
  "ensureR b msg = (if b then Inr () else Inl (PersistenceError msg))"

fun mapE :: "('a \<Rightarrow> ('s, 'b) oper) \<Rightarrow> 'a list \<Rightarrow> ('s, 'b list) oper" where
  "mapE f [] = returnE []"
| "mapE f (x # xs) = bindE (f x) (\<lambda>y. bindE (mapE f xs) (\<lambda>ys. returnE (y # ys)))"

fun forE :: "'a list \<Rightarrow> ('a \<Rightarrow> ('s, unit) oper) \<Rightarrow> ('s, unit) oper" where
  "forE [] f = returnE ()"
| "forE (x # xs) f = thenE (f x) (forE xs f)"

subsection \<open>Pure computations that may throw\<close>

definition bindR :: "'a result \<Rightarrow> ('a \<Rightarrow> 'b result) \<Rightarrow> 'b result" where
  "bindR r f = (case r of Inl e \<Rightarrow> Inl e | Inr a \<Rightarrow> f a)"

fun mapR :: "('a \<Rightarrow> 'b result) \<Rightarrow> 'a list \<Rightarrow> 'b list result" where
  "mapR f [] = Inr []"
| "mapR f (x # xs) = bindR (f x) (\<lambda>y. bindR (mapR f xs) (\<lambda>ys. Inr (y # ys)))"

fun foldR :: "('a \<Rightarrow> 's \<Rightarrow> 's result) \<Rightarrow> 'a list \<Rightarrow> 's \<Rightarrow> 's result" where
  "foldR f [] s = Inr s"
| "foldR f (x # xs) s = bindR (f x s) (foldR f xs)"

subsection \<open>Evaluating runs\<close>

lemma resultE_run [simp]: "resultE r s = (r, s)"
  by (simp add: resultE_def)

lemma returnE_run [simp]: "returnE a s = (Inr a, s)"
  by (simp add: returnE_def)

lemma throwE_run [simp]: "throwE e s = (Inl e, s)"
  by (simp add: throwE_def)

lemma getE_run [simp]: "getE f s = (Inr (f s), s)"
  by (simp add: getE_def)

lemma modifyE_run [simp]: "modifyE f s = (Inr (), f s)"
  by (simp add: modifyE_def)

lemma ensure_run: "ensure b msg s = (if b then Inr () else Inl (PersistenceError msg), s)"
  by (simp add: ensure_def)

lemma ensure_True [simp]: "ensure True msg = returnE ()"
  by (simp add: ensure_def)

lemma ensureR_True [simp]: "ensureR True msg = Inr ()"
  by (simp add: ensureR_def)

lemma ensure_Inr [run_simps]: "ensure b msg s = (Inr u, s') \<longleftrightarrow> b \<and> s' = s"
  by (auto simp: ensure_def)

lemma ensure_Inl [run_simps]: "ensure b msg s = (Inl e, s') \<longleftrightarrow> \<not> b \<and> e = PersistenceError msg \<and> s' = s"
  by (auto simp: ensure_def)

lemma ensureR_Inr [run_simps]: "ensureR b msg = Inr u \<longleftrightarrow> b"
  by (simp add: ensureR_def)

lemma ensureR_Inl [run_simps]: "ensureR b msg = Inl e \<longleftrightarrow> \<not> b \<and> e = PersistenceError msg"
  by (auto simp: ensureR_def)

lemma bindE_Inr [run_simps]:
  "bindE m f s = (Inr b, t) \<longleftrightarrow> (\<exists>a s'. m s = (Inr a, s') \<and> f a s' = (Inr b, t))"
  by (auto simp: bindE_def split: prod.splits sum.splits)

lemma bindE_Inl [run_simps]:
  "bindE m f s = (Inl e, t) \<longleftrightarrow>
     m s = (Inl e, t) \<or> (\<exists>a s'. m s = (Inr a, s') \<and> f a s' = (Inl e, t))"
  by (auto simp: bindE_def split: prod.splits sum.splits)

lemma thenE_Inr [run_simps]:
  "thenE m n s = (Inr b, t) \<longleftrightarrow> (\<exists>a s'. m s = (Inr a, s') \<and> n s' = (Inr b, t))"
  by (simp add: thenE_def bindE_Inr)

lemma thenE_Inl [run_simps]:
  "thenE m n s = (Inl e, t) \<longleftrightarrow>
     m s = (Inl e, t) \<or> (\<exists>a s'. m s = (Inr a, s') \<and> n s' = (Inl e, t))"
  by (simp add: thenE_def bindE_Inl)

lemma whenE_Inr [run_simps]:
  "whenE b m s = (Inr u, t) \<longleftrightarrow> (if b then m s = (Inr u, t) else t = s)"
  by (auto simp: whenE_def)

lemma whenE_Inl [run_simps]: "whenE b m s = (Inl e, t) \<longleftrightarrow> b \<and> m s = (Inl e, t)"
  by (auto simp: whenE_def)

lemma catchE_Inr [run_simps]:
  "catchE m h s = (Inr a, t) \<longleftrightarrow>
     m s = (Inr a, t) \<or> (\<exists>e s'. m s = (Inl e, s') \<and> h e s' = (Inr a, t))"
  by (auto simp: catchE_def split: prod.splits sum.splits)

lemma catchE_Inl [run_simps]:
  "catchE m h s = (Inl e, t) \<longleftrightarrow> (\<exists>e' s'. m s = (Inl e', s') \<and> h e' s' = (Inl e, t))"
  by (auto simp: catchE_def split: prod.splits sum.splits)

lemma bindR_Inr [run_simps]: "bindR r f = Inr b \<longleftrightarrow> (\<exists>a. r = Inr a \<and> f a = Inr b)"
  by (auto simp: bindR_def split: sum.splits)

lemma bindR_Inl [run_simps]:
  "bindR r f = Inl e \<longleftrightarrow> r = Inl e \<or> (\<exists>a. r = Inr a \<and> f a = Inl e)"
  by (auto simp: bindR_def split: sum.splits)

lemma bindR_simps [simp]: "bindR (Inr a) f = f a" "bindR (Inl e) f = Inl e"
  by (simp_all add: bindR_def)

lemma mapR_Inr_length: "mapR f xs = Inr ys \<Longrightarrow> length ys = length xs"
  by (induction xs arbitrary: ys) (auto simp: run_simps)

lemma mapR_Inr_nth: "mapR f xs = Inr ys \<Longrightarrow> i < length xs \<Longrightarrow> f (xs ! i) = Inr (ys ! i)"
  by (induction xs arbitrary: ys i) (auto simp: run_simps nth_Cons split: nat.splits)

lemma mapR_Inr_set: "mapR f xs = Inr ys \<Longrightarrow> y \<in> set ys \<Longrightarrow> \<exists>x \<in> set xs. f x = Inr y"
  by (induction xs arbitrary: ys) (auto simp: run_simps)

lemma mapR_pure [simp]: "mapR (\<lambda>x. Inr (g x)) xs = Inr (map g xs)"
  by (induction xs) auto

lemma mapR_cong_Inr: "(\<And>x. x \<in> set xs \<Longrightarrow> f x = Inr (g x)) \<Longrightarrow> mapR f xs = Inr (map g xs)"
  by (induction xs) auto

lemma foldR_append: "foldR f (xs @ ys) s = bindR (foldR f xs s) (foldR f ys)"
  by (induction xs arbitrary: s) (auto simp: bindR_def split: sum.splits)

text \<open>An invariant that every step keeps is kept by the whole loop.\<close>

lemma foldR_invariant:
  assumes "foldR f xs s = Inr t" and "P s"
    and "\<And>x s t. x \<in> set xs \<Longrightarrow> P s \<Longrightarrow> f x s = Inr t \<Longrightarrow> P t"
  shows "P t"
  using assms
proof (induction xs arbitrary: s)
  case (Cons x xs)
  then obtain u where "f x s = Inr u" "foldR f xs u = Inr t" by (auto simp: run_simps)
  with Cons.prems Cons.IH[of u] show ?case by auto
qed simp

lemma forE_invariant:
  assumes "forE xs f s = (Inr u, t)" and "P s"
    and "\<And>x s t u. x \<in> set xs \<Longrightarrow> P s \<Longrightarrow> f x s = (Inr u, t) \<Longrightarrow> P t"
  shows "P t"
  using assms
proof (induction xs arbitrary: s)
  case (Cons x xs)
  then obtain v s' where "f x s = (Inr v, s')" "forE xs f s' = (Inr u, t)"
    by (auto simp: run_simps)
  with Cons.prems Cons.IH[of s'] show ?case by auto
qed simp

subsection \<open>Frame conditions\<close>

text \<open>
  A relation between the states before and after an operation that holds whether the operation
  returns or throws. Reflexive and transitive relations are composed along the structure of an
  operation.
\<close>

definition frames :: "('s \<Rightarrow> 's \<Rightarrow> bool) \<Rightarrow> ('s, 'a) oper \<Rightarrow> bool" where
  "frames R m \<longleftrightarrow> (\<forall>s. R s (snd (m s)))"

lemma framesD: "frames R m \<Longrightarrow> m s = (r, t) \<Longrightarrow> R s t"
  by (metis frames_def snd_conv)

lemma framesI: "(\<And>s r t. m s = (r, t) \<Longrightarrow> R s t) \<Longrightarrow> frames R m"
  unfolding frames_def by (metis prod.collapse)

locale frame =
  fixes R :: "'s \<Rightarrow> 's \<Rightarrow> bool"
  assumes frame_refl: "R s s" and frame_trans: "R s t \<Longrightarrow> R t u \<Longrightarrow> R s u"
begin

lemma frame_result: "frames R (resultE r)"
  by (simp add: frames_def frame_refl)

lemma frame_return: "frames R (returnE a)"
  by (simp add: frames_def frame_refl)

lemma frame_throw: "frames R (throwE e)"
  by (simp add: frames_def frame_refl)

lemma frame_get: "frames R (getE f)"
  by (simp add: frames_def frame_refl)

lemma frame_ensure: "frames R (ensure b msg)"
  by (simp add: frames_def ensure_run frame_refl)

lemma frame_bind: "frames R m \<Longrightarrow> (\<And>a. frames R (f a)) \<Longrightarrow> frames R (bindE m f)"
  by (rule framesI, auto simp: bindE_def split: prod.splits sum.splits)
    (blast dest: framesD intro: frame_trans)+

lemma frame_then: "frames R m \<Longrightarrow> frames R n \<Longrightarrow> frames R (thenE m n)"
  unfolding thenE_def by (rule frame_bind)

lemma frame_catch: "frames R m \<Longrightarrow> (\<And>e. frames R (h e)) \<Longrightarrow> frames R (catchE m h)"
  by (rule framesI, auto simp: catchE_def split: prod.splits sum.splits)
    (blast dest: framesD intro: frame_trans)+

lemma frame_when: "frames R m \<Longrightarrow> frames R (whenE b m)"
  by (simp add: whenE_def frame_return)

lemma frame_if: "frames R m \<Longrightarrow> frames R n \<Longrightarrow> frames R (if b then m else n)"
  by simp

lemma frame_let: "(\<And>x. frames R (f x)) \<Longrightarrow> frames R (let x = a in f x)"
  by simp

lemma frame_option: "frames R m \<Longrightarrow> (\<And>x. frames R (f x)) \<Longrightarrow> frames R (case v of None \<Rightarrow> m | Some x \<Rightarrow> f x)"
  by (cases v) auto

lemma frame_for: "(\<And>x. x \<in> set xs \<Longrightarrow> frames R (f x)) \<Longrightarrow> frames R (forE xs f)"
  by (induction xs) (auto intro: frame_then frame_return)

lemma frame_map: "(\<And>x. x \<in> set xs \<Longrightarrow> frames R (f x)) \<Longrightarrow> frames R (mapE f xs)"
  by (induction xs) (auto intro!: frame_bind frame_return)

lemmas frame_rules = frame_result frame_return frame_throw frame_get frame_ensure frame_bind frame_then frame_catch
  frame_when frame_if frame_let frame_option frame_for frame_map

end

subsection \<open>Weakest preconditions\<close>

text \<open>
  What has to hold before an operation for \<open>Q\<close> to hold of its value and final state when it
  returns, and \<open>E\<close> of its error and final state when it throws.
\<close>

definition wp :: "('s, 'a) oper \<Rightarrow> ('a \<Rightarrow> 's \<Rightarrow> bool) \<Rightarrow> (exn \<Rightarrow> 's \<Rightarrow> bool) \<Rightarrow> 's \<Rightarrow> bool" where
  "wp m Q E s = (case m s of (Inr a, t) \<Rightarrow> Q a t | (Inl e, t) \<Rightarrow> E e t)"

named_theorems wp_simps \<open>weakest preconditions of the combinators\<close>

lemma wp_bind [wp_simps]: "wp (bindE m f) Q E = wp m (\<lambda>a. wp (f a) Q E) E"
  by (auto simp: fun_eq_iff wp_def bindE_def split: prod.splits sum.splits)

lemma wp_then [wp_simps]: "wp (thenE m n) Q E = wp m (\<lambda>_. wp n Q E) E"
  by (simp add: thenE_def wp_bind)

lemma wp_return [wp_simps]: "wp (returnE a) Q E = Q a"
  by (simp add: fun_eq_iff wp_def)

lemma wp_result [wp_simps]: "wp (resultE r) Q E = (case r of Inl e \<Rightarrow> E e | Inr a \<Rightarrow> Q a)"
  by (simp add: fun_eq_iff wp_def split: sum.splits)

lemma wp_throw [wp_simps]: "wp (throwE e) Q E = E e"
  by (simp add: fun_eq_iff wp_def)

lemma wp_get [wp_simps]: "wp (getE f) Q E = (\<lambda>s. Q (f s) s)"
  by (simp add: fun_eq_iff wp_def)

lemma wp_modify [wp_simps]: "wp (modifyE f) Q E = (\<lambda>s. Q () (f s))"
  by (simp add: fun_eq_iff wp_def)

lemma wp_ensure [wp_simps]: "wp (ensure b msg) Q E = (\<lambda>s. if b then Q () s else E (PersistenceError msg) s)"
  by (simp add: fun_eq_iff wp_def ensure_run)

lemma wp_when [wp_simps]: "wp (whenE b m) Q E = (\<lambda>s. if b then wp m Q E s else Q () s)"
  by (simp add: fun_eq_iff wp_def whenE_def)

lemma wp_catch [wp_simps]: "wp (catchE m h) Q E = wp m Q (\<lambda>e. wp (h e) Q E)"
  by (auto simp: fun_eq_iff wp_def catchE_def split: prod.splits sum.splits)

lemma wp_if [wp_simps]: "wp (if b then m else n) Q E = (\<lambda>s. if b then wp m Q E s else wp n Q E s)"
  by simp

lemma wp_option [wp_simps]:
  "wp (case v of None \<Rightarrow> m | Some x \<Rightarrow> f x) Q E = (\<lambda>s. case v of None \<Rightarrow> wp m Q E s | Some x \<Rightarrow> wp (f x) Q E s)"
  by (cases v) simp_all

lemma wp_conseq:
  "wp m Q E s \<Longrightarrow> (\<And>a t. Q a t \<Longrightarrow> Q' a t) \<Longrightarrow> (\<And>e t. E e t \<Longrightarrow> E' e t) \<Longrightarrow> wp m Q' E' s"
  by (simp add: wp_def split: prod.splits sum.splits)

lemma wp_for:
  assumes "I s" and "\<And>x s. x \<in> set xs \<Longrightarrow> I s \<Longrightarrow> wp (f x) (\<lambda>_. I) E s"
  shows "wp (forE xs f) (\<lambda>_. I) E s"
  using assms
proof (induction xs arbitrary: s)
  case (Cons x xs)
  have "wp (f x) (\<lambda>_. wp (forE xs f) (\<lambda>_. I) E) E s"
    by (rule wp_conseq[OF Cons.prems(2)[of x s]]) (use Cons in auto)
  then show ?case by (simp add: wp_then)
qed (simp add: wp_return)

lemma wp_map:
  assumes "I s" and "\<And>x s. x \<in> set xs \<Longrightarrow> I s \<Longrightarrow> wp (f x) (\<lambda>_. I) E s"
  shows "wp (mapE f xs) (\<lambda>_. I) E s"
  using assms
proof (induction xs arbitrary: s)
  case (Cons x xs)
  have "wp (f x) (\<lambda>y. wp (mapE f xs) (\<lambda>ys. I) E) E s"
    by (rule wp_conseq[OF Cons.prems(2)[of x s]]) (use Cons in auto)
  then show ?case by (simp add: wp_bind wp_return)
qed (simp add: wp_return)

lemma wpD_Inr: "wp m Q E s \<Longrightarrow> m s = (Inr a, t) \<Longrightarrow> Q a t"
  by (simp add: wp_def)

lemma wpD_Inl: "wp m Q E s \<Longrightarrow> m s = (Inl e, t) \<Longrightarrow> E e t"
  by (simp add: wp_def)

lemma wpI: "(\<And>a t. m s = (Inr a, t) \<Longrightarrow> Q a t) \<Longrightarrow> (\<And>e t. m s = (Inl e, t) \<Longrightarrow> E e t) \<Longrightarrow> wp m Q E s"
  by (simp add: wp_def split: prod.splits sum.splits)

lemma wp_always: "wp m (\<lambda>_. P) (\<lambda>_. P) s \<longleftrightarrow> P (snd (m s))"
  by (cases "m s") (auto simp: wp_def split: sum.splits)

subsection \<open>Lists and association lists\<close>

text \<open>JavaScript's \<open>Number.isSafeInteger\<close> on an integer.\<close>

definition safe_integer :: "int \<Rightarrow> bool" where
  "safe_integer n \<longleftrightarrow> - 9007199254740991 \<le> n \<and> n \<le> 9007199254740991"

lemma find_Some_iff_first:
  "find P xs = Some x \<Longrightarrow> x \<in> set xs \<and> P x"
  by (auto simp: find_Some_iff)

lemma map_of_update [simp]: "map_of (AList.update k v al) = (map_of al)(k \<mapsto> v)"
  by (simp add: update_conv')

lemma map_of_filter_fst:
  "map_of (filter (\<lambda>(k, v). P k) al) k = (if P k then map_of al k else None)"
  by (induction al) auto

lemma distinct_filter_keys: "distinct (map fst al) \<Longrightarrow> distinct (map fst (filter P al))"
  by (induction al) auto

lemma sum_list_map_filter_split:
  "sum_list (map f xs) = sum_list (map f (filter P xs)) + sum_list (map f (filter (\<lambda>x. \<not> P x) xs))"
  for f :: "'a \<Rightarrow> 'b::comm_monoid_add"
  by (induction xs) (simp_all add: ac_simps)

lemma length_filter_split: "length xs = length (filter P xs) + length (filter (\<lambda>x. \<not> P x) xs)"
  by (induction xs) auto

end
