(* ===== verification/JsonValue.thy ===== *)
theory JsonValue
  imports Prelude
begin

text \<open>
  JavaScript values as the reverse ETL protocol sees them, and \<open>reverse-etl/identity.ts\<close>: the
  canonical JSON text of a value, content hashes, record keys and the bounded sync store.

  A string is a list of code units below 256 (the Latin-1 part of JavaScript's strings); its UTF-8
  length counts two bytes from 128 on. A finite number is represented by the text
  \<open>Number::toString\<close> gives it, which identifies it (both zeroes are \<open>0\<close>, as in
  \<open>JSON.stringify\<close>). \<open>JLossy\<close> stands for every value JSON has no text for: \<open>undefined\<close>, the
  non-finite numbers, functions, symbols, big integers and class instances.
\<close>

subsection \<open>Values\<close>

datatype json =
    JNull
  | JBool bool
  | JNum string
  | JStr string
  | JArr "json list"
  | JObj "(string \<times> json) list"
  | JLossy

subsection \<open>Text of numbers and strings\<close>

definition digit_char :: "nat \<Rightarrow> char" where
  "digit_char n = char_of (48 + n)"

fun nat_text :: "nat \<Rightarrow> string" where
  "nat_text n = (if n < 10 then [digit_char n] else nat_text (n div 10) @ [digit_char (n mod 10)])"

declare nat_text.simps [simp del]

definition int_text :: "int \<Rightarrow> string" where
  "int_text n = (if n < 0 then CHR ''-'' # nat_text (nat (- n)) else nat_text (nat n))"

abbreviation JInt :: "int \<Rightarrow> json" where
  "JInt n \<equiv> JNum (int_text n)"

definition hex_digit :: "nat \<Rightarrow> char" where
  "hex_digit n = (if n < 10 then char_of (48 + n) else char_of (87 + n))"

text \<open>\<open>JSON.stringify\<close> on one code unit of a string.\<close>

definition escape_char :: "char \<Rightarrow> string" where
  "escape_char c =
     (let n = (of_char c :: nat) in
      if n = 34 then [CHR 0x5C, CHR 0x22]
      else if n = 92 then [CHR 0x5C, CHR 0x5C]
      else if n = 8 then [CHR 0x5C, CHR ''b'']
      else if n = 12 then [CHR 0x5C, CHR ''f'']
      else if n = 10 then [CHR 0x5C, CHR ''n'']
      else if n = 13 then [CHR 0x5C, CHR ''r'']
      else if n = 9 then [CHR 0x5C, CHR ''t'']
      else if n < 32 then [CHR 0x5C, CHR ''u'', CHR ''0'', CHR ''0'', hex_digit (n div 16), hex_digit (n mod 16)]
      else [c])"

definition quote_string :: "string \<Rightarrow> string" where
  "quote_string s = [CHR 0x22] @ concat (map escape_char s) @ [CHR 0x22]"

text \<open>\<open>Buffer.byteLength\<close>: UTF-8 bytes.\<close>

definition char_bytes :: "char \<Rightarrow> nat" where
  "char_bytes c = (if (of_char c :: nat) < 128 then 1 else 2)"

definition byteLength :: "string \<Rightarrow> nat" where
  "byteLength s = sum_list (map char_bytes s)"

text \<open>\<open>Array.prototype.join\<close>.\<close>

fun join :: "string \<Rightarrow> string list \<Rightarrow> string" where
  "join sep [] = []"
| "join sep [x] = x"
| "join sep (x # y # ys) = x @ sep @ join sep (y # ys)"

text \<open>The regular expression \<open>/^[a-f0-9]{64}$/\<close>.\<close>

definition hex_char :: "char \<Rightarrow> bool" where
  "hex_char c = (let n = (of_char c :: nat) in (48 \<le> n \<and> n \<le> 57) \<or> (97 \<le> n \<and> n \<le> 102))"

definition hex64 :: "string \<Rightarrow> bool" where
  "hex64 s \<longleftrightarrow> length s = 64 \<and> list_all hex_char s"

subsection \<open>Canonical JSON\<close>

definition lossy_error :: exn where
  "lossy_error = ReverseEtlProtocolError ''Reverse ETL payloads must be lossless JSON values''"

definition member_text :: "string \<times> string \<Rightarrow> string" where
  "member_text m = quote_string (fst m) @ '':'' @ snd m"

fun pair_result :: "'a \<times> 'b result \<Rightarrow> ('a \<times> 'b) result" where
  "pair_result (k, r) = bindR r (\<lambda>v. Inr (k, v))"

fun canonicalJson :: "json \<Rightarrow> string result" where
  "canonicalJson JNull = Inr ''null''"
| "canonicalJson (JBool b) = Inr (if b then ''true'' else ''false'')"
| "canonicalJson (JNum t) = Inr t"
| "canonicalJson (JStr s) = Inr (quote_string s)"
| "canonicalJson (JArr xs) =
     bindR (mapR id (map canonicalJson xs)) (\<lambda>ts. Inr (''['' @ join '','' ts @ '']''))"
| "canonicalJson (JObj kvs) =
     bindR (mapR pair_result (sort_key fst (map (\<lambda>(k, v). (k, canonicalJson v)) kvs)))
       (\<lambda>ms. Inr (''{'' @ join '','' (map member_text ms) @ ''}''))"
| "canonicalJson JLossy = Inl lossy_error"

text \<open>
  The two halves of \<open>canonicalJson\<close>: which values have a text, and the text they have. The typed
  components below handle values that were checked before, so they use the text directly.
\<close>

fun lossless :: "json \<Rightarrow> bool" where
  "lossless (JArr xs) = list_all id (map lossless xs)"
| "lossless (JObj kvs) = list_all id (map (\<lambda>(k, v). lossless v) kvs)"
| "lossless JLossy = False"
| "lossless _ = True"

fun json_text :: "json \<Rightarrow> string" where
  "json_text JNull = ''null''"
| "json_text (JBool b) = (if b then ''true'' else ''false'')"
| "json_text (JNum t) = t"
| "json_text (JStr s) = quote_string s"
| "json_text (JArr xs) = ''['' @ join '','' (map json_text xs) @ '']''"
| "json_text (JObj kvs) =
     ''{'' @ join '','' (map member_text (sort_key fst (map (\<lambda>(k, v). (k, json_text v)) kvs))) @ ''}''"
| "json_text JLossy = []"

text \<open>\<open>createHash("sha256").update(text).digest("hex")\<close> is the parameter \<open>sha\<close>.\<close>

definition contentHash :: "(string \<Rightarrow> string) \<Rightarrow> json \<Rightarrow> string result" where
  "contentHash sha v = bindR (canonicalJson v) (\<lambda>t. Inr (sha t))"

definition text_hash :: "(string \<Rightarrow> string) \<Rightarrow> json \<Rightarrow> string" where
  "text_hash sha v = sha (json_text v)"

text \<open>\<open>JSON.parse(canonicalJson(value))\<close>: a deep copy with the keys in canonical order.\<close>

fun canon :: "json \<Rightarrow> json" where
  "canon (JArr xs) = JArr (map canon xs)"
| "canon (JObj kvs) = JObj (sort_key fst (map (\<lambda>(k, v). (k, canon v)) kvs))"
| "canon v = v"

definition copy :: "json \<Rightarrow> json result" where
  "copy v = bindR (canonicalJson v) (\<lambda>_. Inr (canon v))"

subsection \<open>Record keys\<close>

text \<open>
  \<open>Number.isInteger\<close> and \<open>Number.isSafeInteger\<close>, read off the text of the number: an exponent
  with a plus sign starts at \<open>1e+21\<close>, where every double is an integer.
\<close>

definition plain_integer_text :: "string \<Rightarrow> bool" where
  "plain_integer_text t \<longleftrightarrow> CHR ''.'' \<notin> set t \<and> CHR ''e'' \<notin> set t"

definition num_is_integer :: "string \<Rightarrow> bool" where
  "num_is_integer t \<longleftrightarrow> plain_integer_text t \<or> (CHR ''e'' \<in> set t \<and> CHR ''+'' \<in> set t)"

fun digits_value :: "nat \<Rightarrow> string \<Rightarrow> nat" where
  "digits_value acc [] = acc"
| "digits_value acc (c # cs) = digits_value (10 * acc + (of_char c - 48)) cs"

fun text_value :: "string \<Rightarrow> int" where
  "text_value (c # cs) = (if c = CHR ''-'' then - int (digits_value 0 cs) else int (digits_value 0 (c # cs)))"
| "text_value [] = 0"

definition num_is_safe_integer :: "string \<Rightarrow> bool" where
  "num_is_safe_integer t \<longleftrightarrow> plain_integer_text t \<and> safe_integer (text_value t)"

fun key_value_ok :: "json \<Rightarrow> bool" where
  "key_value_ok (JStr _) = True"
| "key_value_ok (JBool _) = True"
| "key_value_ok (JNum t) = (\<not> (num_is_integer t \<and> \<not> num_is_safe_integer t))"
| "key_value_ok _ = False"

fun typeof_value :: "json \<Rightarrow> string" where
  "typeof_value (JStr _) = ''string''"
| "typeof_value (JBool _) = ''boolean''"
| "typeof_value (JNum _) = ''number''"
| "typeof_value JLossy = ''undefined''"
| "typeof_value _ = ''object''"

definition recordKey :: "(string \<Rightarrow> string) \<Rightarrow> json list \<Rightarrow> string result" where
  "recordKey sha vs =
     (if vs = [] \<or> list_ex (\<lambda>v. \<not> key_value_ok v) vs
      then Inl (ReverseEtlProtocolError ''Primary keys require non-null lossless scalar values'')
      else contentHash sha (JArr (map (\<lambda>v. JArr [JStr (typeof_value v), v]) vs)))"

subsection \<open>The buffered sync store\<close>

record sync_store =
  ss_state :: "(string \<times> json) list"
  ss_maxBytes :: nat

definition store_check :: "nat \<Rightarrow> (string \<times> json) list \<Rightarrow> unit result" where
  "store_check maxBytes st =
     (if byteLength (json_text (JObj st)) > maxBytes
      then Inl (ReverseEtlProtocolError ''Provider state exceeds its byte limit'') else Inr ())"

definition createBufferedSyncStore :: "json \<Rightarrow> int \<Rightarrow> sync_store result" where
  "createBufferedSyncStore initial maxBytes =
     (if \<not> safe_integer maxBytes \<or> maxBytes < 1 \<or> maxBytes > 65536
      then Inl (ReverseEtlProtocolError ''Invalid provider state byte limit'')
      else bindR (copy initial) (\<lambda>v. case v of
          JObj kvs \<Rightarrow> bindR (store_check (nat maxBytes) kvs)
             (\<lambda>_. Inr \<lparr>ss_state = kvs, ss_maxBytes = nat maxBytes\<rparr>)
        | _ \<Rightarrow> Inl (PlainError ''not a JSON object'')))"

definition store_get :: "string \<Rightarrow> sync_store \<Rightarrow> json option" where
  "store_get k s = map_option canon (map_of (ss_state s) k)"

definition store_set :: "string \<Rightarrow> json \<Rightarrow> sync_store \<Rightarrow> sync_store result" where
  "store_set k v s =
     bindR (copy v) (\<lambda>c. let nxt = AList.update k c (ss_state s) in
       bindR (store_check (ss_maxBytes s) nxt) (\<lambda>_. Inr (s\<lparr>ss_state := nxt\<rparr>)))"

definition store_delete :: "string \<Rightarrow> sync_store \<Rightarrow> sync_store" where
  "store_delete k s = s\<lparr>ss_state := AList.delete k (ss_state s)\<rparr>"

definition store_snapshot :: "sync_store \<Rightarrow> json" where
  "store_snapshot s = canon (JObj (ss_state s))"

end
