(* ===== verification/JsonText.thy ===== *)
theory JsonText
  imports JsonValue
begin

text \<open>
  \<open>JSON.parse\<close> on canonical texts, and the facts the typed components rest on: parsing the
  canonical text of a value gives the value back with its keys in canonical order, so two values
  have the same canonical text exactly when they are equal up to key order, and the text of a copy
  is the text of the original. Number literals are kept as they are read, which is what
  \<open>JSON.parse\<close> does with the literals \<open>Number::toString\<close> writes.
\<close>

subsection \<open>JSON.parse\<close>

definition num_char :: "char \<Rightarrow> bool" where
  "num_char c \<longleftrightarrow> c \<in> set ''0123456789+-.e''"

definition number_text :: "string \<Rightarrow> bool" where
  "number_text t \<longleftrightarrow> t \<noteq> [] \<and> hd t \<in> set ''0123456789-'' \<and> list_all num_char t"

fun wf_json :: "json \<Rightarrow> bool" where
  "wf_json (JNum t) = number_text t"
| "wf_json (JArr xs) = list_all id (map wf_json xs)"
| "wf_json (JObj kvs) = (distinct (map fst kvs) \<and> list_all id (map (\<lambda>(k, v). wf_json v) kvs))"
| "wf_json JLossy = False"
| "wf_json _ = True"

definition hex_value :: "char \<Rightarrow> nat" where
  "hex_value c = (let n = (of_char c :: nat) in if n < 58 then n - 48 else n - 87)"

fun parse_string :: "string \<Rightarrow> (string \<times> string) option" where
  "parse_string [] = None"
| "parse_string (c # cs) =
     (if c = CHR 0x22 then Some ([], cs)
      else if c \<noteq> CHR 0x5C then map_option (\<lambda>(s, r). (c # s, r)) (parse_string cs)
      else (case cs of
          [] \<Rightarrow> None
        | d # ds \<Rightarrow>
            (if d = CHR ''u'' then (case ds of
                 z1 # z2 # x # y # r \<Rightarrow>
                   map_option (\<lambda>(s, r'). (char_of (16 * hex_value x + hex_value y) # s, r')) (parse_string r)
               | _ \<Rightarrow> None)
             else if d = CHR ''b'' then map_option (\<lambda>(s, r). (CHR 0x08 # s, r)) (parse_string ds)
             else if d = CHR ''f'' then map_option (\<lambda>(s, r). (CHR 0x0C # s, r)) (parse_string ds)
             else if d = CHR ''n'' then map_option (\<lambda>(s, r). (CHR 0x0A # s, r)) (parse_string ds)
             else if d = CHR ''r'' then map_option (\<lambda>(s, r). (CHR 0x0D # s, r)) (parse_string ds)
             else if d = CHR ''t'' then map_option (\<lambda>(s, r). (CHR 0x09 # s, r)) (parse_string ds)
             else map_option (\<lambda>(s, r). (d # s, r)) (parse_string ds))))"

fun strip_prefix :: "string \<Rightarrow> string \<Rightarrow> string option" where
  "strip_prefix [] s = Some s"
| "strip_prefix (c # cs) (d # ds) = (if c = d then strip_prefix cs ds else None)"
| "strip_prefix (c # cs) [] = None"

fun parse_value :: "nat \<Rightarrow> string \<Rightarrow> (json \<times> string) option"
and parse_elems :: "nat \<Rightarrow> string \<Rightarrow> (json list \<times> string) option"
and parse_members :: "nat \<Rightarrow> string \<Rightarrow> ((string \<times> json) list \<times> string) option" where
  "parse_value 0 s = None"
| "parse_value (Suc n) s = (case s of
      [] \<Rightarrow> None
    | c # cs \<Rightarrow>
        (if c = CHR 0x22 then map_option (\<lambda>(t, r). (JStr t, r)) (parse_string cs)
         else if c = CHR ''['' then
           (if cs \<noteq> [] \<and> hd cs = CHR '']'' then Some (JArr [], tl cs)
            else map_option (\<lambda>(vs, r). (JArr vs, r)) (parse_elems n cs))
         else if c = CHR ''{'' then
           (if cs \<noteq> [] \<and> hd cs = CHR ''}'' then Some (JObj [], tl cs)
            else map_option (\<lambda>(ms, r). (JObj ms, r)) (parse_members n cs))
         else if c = CHR ''n'' then map_option (\<lambda>r. (JNull, r)) (strip_prefix ''ull'' cs)
         else if c = CHR ''t'' then map_option (\<lambda>r. (JBool True, r)) (strip_prefix ''rue'' cs)
         else if c = CHR ''f'' then map_option (\<lambda>r. (JBool False, r)) (strip_prefix ''alse'' cs)
         else if num_char c then Some (JNum (takeWhile num_char s), dropWhile num_char s)
         else None))"
| "parse_elems 0 s = None"
| "parse_elems (Suc n) s = (case parse_value n s of
      None \<Rightarrow> None
    | Some (v, r) \<Rightarrow> (case r of
        [] \<Rightarrow> None
      | c # r' \<Rightarrow>
          (if c = CHR '','' then map_option (\<lambda>(vs, r''). (v # vs, r'')) (parse_elems n r')
           else if c = CHR '']'' then Some ([v], r') else None)))"
| "parse_members 0 s = None"
| "parse_members (Suc n) s = (case s of
      [] \<Rightarrow> None
    | q # qs \<Rightarrow>
       (if q \<noteq> CHR 0x22 then None else (case parse_string qs of
           None \<Rightarrow> None
         | Some (k, r0) \<Rightarrow> (case r0 of
             [] \<Rightarrow> None
           | col # r1 \<Rightarrow>
              (if col \<noteq> CHR '':'' then None else (case parse_value n r1 of
                  None \<Rightarrow> None
                | Some (v, r) \<Rightarrow> (case r of
                    [] \<Rightarrow> None
                  | c # r' \<Rightarrow>
                     (if c = CHR '','' then map_option (\<lambda>(ms, r''). ((k, v) # ms, r'')) (parse_members n r')
                      else if c = CHR ''}'' then Some ([(k, v)], r') else None))))))))"

definition json_parse :: "string \<Rightarrow> json option" where
  "json_parse s = (case parse_value (Suc (length s)) s of Some (v, []) \<Rightarrow> Some v | _ \<Rightarrow> None)"

subsection \<open>Strings\<close>

lemma char_by_code: "(of_char c :: nat) = of_char d \<Longrightarrow> c = d"
  by (simp only: of_char_eq_iff)

lemma hex_value_digit: "n < 16 \<Longrightarrow> hex_value (hex_digit n) = n"
  by (auto simp: hex_value_def hex_digit_def Let_def)

lemma parse_string_escape:
  "parse_string (escape_char c @ rest) = map_option (\<lambda>(s, r). (c # s, r)) (parse_string rest)"
proof -
  have code: "c = char_of (of_char c :: nat)" by simp
  show ?thesis
  proof (cases "(of_char c :: nat) < 32")
    case True
    show ?thesis
    proof (cases "(of_char c :: nat) \<in> {8, 9, 10, 12, 13}")
      case True
      then have "c = CHR 0x08 \<or> c = CHR 0x09 \<or> c = CHR 0x0A \<or> c = CHR 0x0C \<or> c = CHR 0x0D"
        by (auto intro: char_by_code)
      then show ?thesis by (auto simp: escape_char_def)
    next
      case False
      with True have e: "escape_char c = [CHR 0x5C, CHR ''u'', CHR ''0'', CHR ''0'',
          hex_digit (of_char c div 16), hex_digit (of_char c mod 16)]"
        by (auto simp: escape_char_def Let_def)
      from True have "(of_char c :: nat) div 16 < 16" by simp
      then have "16 * hex_value (hex_digit (of_char c div 16)) + hex_value (hex_digit (of_char c mod 16)) = of_char c"
        by (simp add: hex_value_digit)
      with e show ?thesis by simp
    qed
  next
    case False
    show ?thesis
    proof (cases "(of_char c :: nat) \<in> {34, 92}")
      case True
      then have "c = CHR 0x22 \<or> c = CHR 0x5C"
        by (auto intro: char_by_code)
      then show ?thesis by (auto simp: escape_char_def)
    next
      case no: False
      with False have "escape_char c = [c]" by (auto simp: escape_char_def Let_def)
      moreover from no have "c \<noteq> CHR 0x22" "c \<noteq> CHR 0x5C" by auto
      ultimately show ?thesis by simp
    qed
  qed
qed

lemma parse_string_quoted:
  "parse_string (concat (map escape_char s) @ CHR 0x22 # rest) = Some (s, rest)"
  by (induction s) (simp_all add: parse_string_escape)

subsection \<open>Sorting of keys commutes with mapping the values\<close>

lemma insort_key_fst_map:
  "insort_key fst (k, f v) (map (\<lambda>(k, v). (k, f v)) xs) = map (\<lambda>(k, v). (k, f v)) (insort_key fst (k, v) xs)"
  by (induction xs) auto

lemma sort_key_fst_map:
  "sort_key fst (map (\<lambda>(k, v). (k, f v)) kvs) = map (\<lambda>(k, v). (k, f v)) (sort_key fst kvs)"
proof (induction kvs)
  case (Cons kv kvs)
  then show ?case by (cases kv) (simp add: insort_key_fst_map)
qed simp

lemma json_text_obj:
  "json_text (JObj kvs) = ''{'' @ join '','' (map (\<lambda>(k, v). member_text (k, json_text v)) (sort_key fst kvs)) @ ''}''"
  unfolding json_text.simps sort_key_fst_map by (simp add: case_prod_unfold comp_def)

lemma canon_obj: "canon (JObj kvs) = JObj (map (\<lambda>(k, v). (k, canon v)) (sort_key fst kvs))"
  by (simp add: sort_key_fst_map)

subsection \<open>Parsing a canonical text\<close>

definition ends_number :: "string \<Rightarrow> bool" where
  "ends_number rest \<longleftrightarrow> rest = [] \<or> \<not> num_char (hd rest)"

definition parses :: "json \<Rightarrow> bool" where
  "parses v \<longleftrightarrow> (\<forall>n rest. length (json_text v) < n \<longrightarrow> ends_number rest \<longrightarrow>
      parse_value n (json_text v @ rest) = Some (canon v, rest))"

lemma parsesD:
  "parses v \<Longrightarrow> length (json_text v) < n \<Longrightarrow> ends_number rest \<Longrightarrow>
    parse_value n (json_text v @ rest) = Some (canon v, rest)"
  by (simp add: parses_def)

lemma num_char_simps [simp]:
  "num_char CHR 0x22 = False" "num_char CHR ''['' = False" "num_char CHR ''{'' = False"
  "num_char CHR ''n'' = False" "num_char CHR ''t'' = False" "num_char CHR ''f'' = False"
  "num_char CHR '','' = False" "num_char CHR '']'' = False" "num_char CHR ''}'' = False"
  by (simp_all add: num_char_def)

lemma ends_number_simps [simp]:
  "ends_number []" "ends_number (CHR '','' # r)" "ends_number (CHR '']'' # r)" "ends_number (CHR ''}'' # r)"
  by (simp_all add: ends_number_def)

lemma takeWhile_number:
  "list_all num_char t \<Longrightarrow> ends_number rest \<Longrightarrow>
    takeWhile num_char (t @ rest) = t \<and> dropWhile num_char (t @ rest) = rest"
  by (cases rest) (auto simp: list_all_iff ends_number_def takeWhile_append dropWhile_append)

lemma parses_num:
  assumes "number_text t"
  shows "parses (JNum t)"
proof -
  from assms obtain c cs where t: "t = c # cs" by (cases t) (auto simp: number_text_def)
  with assms have num: "list_all num_char t" "num_char c" by (auto simp: number_text_def)
  have other: "c \<noteq> CHR 0x22" "c \<noteq> CHR ''[''" "c \<noteq> CHR ''{''" "c \<noteq> CHR ''n''" "c \<noteq> CHR ''t''" "c \<noteq> CHR ''f''"
    using num(2) by (auto simp: num_char_def)
  show ?thesis unfolding parses_def
  proof (intro allI impI)
    fix n rest
    assume "length (json_text (JNum t)) < n" "ends_number rest"
    then obtain m where "n = Suc m" by (cases n) auto
    with other num takeWhile_number[OF num(1) \<open>ends_number rest\<close>]
    show "parse_value n (json_text (JNum t) @ rest) = Some (canon (JNum t), rest)"
      by (simp add: t)
  qed
qed

lemma parse_elems_join:
  assumes "vs \<noteq> []" and "\<And>v. v \<in> set vs \<Longrightarrow> parses v"
    and "length (join '','' (map json_text vs)) + 1 < n"
  shows "parse_elems n (join '','' (map json_text vs) @ CHR '']'' # rest) = Some (map canon vs, rest)"
  using assms
proof (induction vs arbitrary: n)
  case (Cons v vs)
  then obtain m where n: "n = Suc m" by (cases n) auto
  show ?case
  proof (cases vs)
    case Nil
    with Cons.prems n show ?thesis by (auto simp: parses_def)
  next
    case (Cons w ws)
    let ?r = "join '','' (map json_text vs) @ CHR '']'' # rest"
    have "parses v" "length (json_text v) < m"
      using Cons.prems n Cons by auto
    then have "parse_value m (json_text v @ CHR '','' # ?r) = Some (canon v, CHR '','' # ?r)"
      by (rule parsesD) simp
    moreover have "parse_elems m ?r = Some (map canon vs, rest)"
      using Cons.IH[of m] Cons.prems n Cons by auto
    ultimately show ?thesis using n Cons by simp
  qed
qed simp

lemma member_text_parse:
  "member_text (k, t) = CHR 0x22 # concat (map escape_char k) @ CHR 0x22 # CHR '':'' # t"
  by (simp add: member_text_def quote_string_def)

lemma parse_members_join:
  assumes "kvs \<noteq> []" and "\<And>k v. (k, v) \<in> set kvs \<Longrightarrow> parses v"
    and "length (join '','' (map (\<lambda>(k, v). member_text (k, json_text v)) kvs)) + 1 < n"
  shows "parse_members n (join '','' (map (\<lambda>(k, v). member_text (k, json_text v)) kvs) @ CHR ''}'' # rest)
         = Some (map (\<lambda>(k, v). (k, canon v)) kvs, rest)"
  using assms
proof (induction kvs arbitrary: n)
  case (Cons kv kvs)
  obtain k v where kv: "kv = (k, v)" by force
  from Cons.prems obtain m where n: "n = Suc m" by (cases n) auto
  show ?case
  proof (cases kvs)
    case Nil
    have "parses v" "length (json_text v) < m"
      using Cons.prems n Nil kv by (auto simp: member_text_parse)
    then have "parse_value m (json_text v @ CHR ''}'' # rest) = Some (canon v, CHR ''}'' # rest)"
      by (rule parsesD) simp
    with Nil kv n show ?thesis by (simp add: member_text_parse parse_string_quoted)
  next
    case (Cons w ws)
    let ?r = "join '','' (map (\<lambda>(k, v). member_text (k, json_text v)) kvs) @ CHR ''}'' # rest"
    have "parses v" "length (json_text v) < m"
      using Cons.prems n Cons kv by (auto simp: member_text_parse)
    then have "parse_value m (json_text v @ CHR '','' # ?r) = Some (canon v, CHR '','' # ?r)"
      by (rule parsesD) simp
    moreover have "parse_members m ?r = Some (map (\<lambda>(k, v). (k, canon v)) kvs, rest)"
      using Cons.IH[of m] Cons.prems n Cons kv by (auto simp: member_text_parse)
    ultimately show ?thesis using n Cons kv by (simp add: member_text_parse parse_string_quoted)
  qed
qed simp

lemma set_sort_key_fst: "set (sort_key fst kvs) = set kvs"
  by simp

lemma wf_json_parses: "wf_json v \<Longrightarrow> parses v"
proof (induction v)
  case JNull
  show ?case unfolding parses_def
  proof (intro allI impI)
    fix n rest assume "length (json_text JNull) < n"
    then show "parse_value n (json_text JNull @ rest) = Some (canon JNull, rest)" by (cases n) auto
  qed
next
  case (JBool b)
  show ?case unfolding parses_def
  proof (intro allI impI)
    fix n rest assume "length (json_text (JBool b)) < n"
    then show "parse_value n (json_text (JBool b) @ rest) = Some (canon (JBool b), rest)"
      by (cases n) auto
  qed
next
  case (JNum t)
  then show ?case by (simp add: parses_num)
next
  case (JStr s)
  show ?case unfolding parses_def
  proof (intro allI impI)
    fix n rest assume "length (json_text (JStr s)) < n"
    then show "parse_value n (json_text (JStr s) @ rest) = Some (canon (JStr s), rest)"
      by (cases n) (auto simp: quote_string_def parse_string_quoted)
  qed
next
  case (JArr xs)
  then have all: "\<And>v. v \<in> set xs \<Longrightarrow> parses v" by (auto simp: list_all_iff)
  show ?case unfolding parses_def
  proof (intro allI impI)
    fix n rest
    assume len: "length (json_text (JArr xs)) < n"
    then obtain m where n: "n = Suc m" by (cases n) auto
    show "parse_value n (json_text (JArr xs) @ rest) = Some (canon (JArr xs), rest)"
    proof (cases xs)
      case Nil
      then show ?thesis by (simp add: n)
    next
      case (Cons y ys)
      have ne: "xs \<noteq> []" by (simp add: Cons)
      have nb: "hd (join '','' (map json_text xs) @ CHR '']'' # rest) \<noteq> CHR '']''"
      proof -
        have "parses y" using all Cons by simp
        then have "parse_value (Suc (length (json_text y))) (json_text y @ []) = Some (canon y, [])"
          unfolding parses_def by (simp only: ends_number_simps lessI)
        then show ?thesis
          by (cases "json_text y"; cases ys)
            (auto simp: Cons num_char_def split: if_splits)
      qed
      from parse_elems_join[OF ne all, where n = m and rest = rest] len n nb show ?thesis by simp
    qed
  qed
next
  case (JObj kvs)
  then have all: "\<And>k v. (k, v) \<in> set (sort_key fst kvs) \<Longrightarrow> parses v"
    by (fastforce simp: list_all_iff snds.simps)
  show ?case unfolding parses_def
  proof (intro allI impI)
    fix n rest
    assume len: "length (json_text (JObj kvs)) < n"
    then obtain m where n: "n = Suc m" by (cases n) auto
    show "parse_value n (json_text (JObj kvs) @ rest) = Some (canon (JObj kvs), rest)"
    proof (cases "sort_key fst kvs")
      case Nil
      then have "kvs = []" by (metis set_sort_key_fst set_empty2)
      then show ?thesis by (simp add: n)
    next
      case (Cons m0 ms)
      have ne: "sort_key fst kvs \<noteq> []" by (simp add: Cons)
      have nb: "hd (join '','' (map (\<lambda>(k, v). member_text (k, json_text v)) (sort_key fst kvs)) @ CHR ''}'' # rest) = CHR 0x22"
        by (cases m0; cases ms) (simp_all add: Cons member_text_parse)
      from parse_members_join[OF ne all, where n = m and rest = rest] len n nb show ?thesis
        by (simp add: json_text_obj canon_obj del: json_text.simps canon.simps)
    qed
  qed
next
  case JLossy
  then show ?case by simp
qed

theorem json_parse_text: "wf_json v \<Longrightarrow> json_parse (json_text v) = Some (canon v)"
  using wf_json_parses[of v] by (auto simp: parses_def json_parse_def dest!: spec[of _ "Suc (length (json_text v))"] spec[of _ "[]"])

subsection \<open>Canonical texts as an equality test\<close>

lemma mapR_uniform_error:
  assumes "\<And>x. x \<in> set xs \<Longrightarrow> (if P x then f x = Inr (g x) else f x = Inl e)"
  shows "mapR f xs = (if list_all P xs then Inr (map g xs) else Inl e)"
  using assms
proof (induction xs)
  case (Cons x xs)
  then have "mapR f xs = (if list_all P xs then Inr (map g xs) else Inl e)" by simp
  with Cons.prems[of x] show ?case by (simp split: if_splits)
qed simp

lemma canonicalJson_eq: "canonicalJson v = (if lossless v then Inr (json_text v) else Inl lossy_error)"
proof (induction v)
  case (JArr xs)
  then have "mapR id (map canonicalJson xs) = mapR canonicalJson xs"
    by (induction xs) auto
  moreover have "mapR canonicalJson xs = (if list_all lossless xs then Inr (map json_text xs) else Inl lossy_error)"
    using JArr by (intro mapR_uniform_error) auto
  ultimately show ?case by (simp add: list.pred_map comp_def)
next
  case (JObj kvs)
  let ?f = "\<lambda>kv. pair_result (fst kv, canonicalJson (snd kv))"
  have step: "mapR pair_result (map (\<lambda>(k, v). (k, canonicalJson v)) xs) = mapR ?f xs" for xs
    by (induction xs) auto
  have all: "mapR ?f (sort_key fst kvs) =
      (if list_all (\<lambda>kv. lossless (snd kv)) (sort_key fst kvs)
       then Inr (map (\<lambda>kv. (fst kv, json_text (snd kv))) (sort_key fst kvs)) else Inl lossy_error)"
  proof (rule mapR_uniform_error)
    fix kv assume "kv \<in> set (sort_key fst kvs)"
    then have kv: "kv \<in> set kvs" by simp
    have "canonicalJson (snd kv) = (if lossless (snd kv) then Inr (json_text (snd kv)) else Inl lossy_error)"
      by (rule JObj[OF kv]) (cases kv, simp add: snds.simps)
    then show "if lossless (snd kv) then ?f kv = Inr (fst kv, json_text (snd kv)) else ?f kv = Inl lossy_error"
      by simp
  qed
  have "list_all (\<lambda>kv. lossless (snd kv)) (sort_key fst kvs) = lossless (JObj kvs)"
    by (auto simp: list_all_iff)
  then show ?case
    unfolding canonicalJson.simps sort_key_fst_map json_text_obj step all
    by (simp add: case_prod_unfold comp_def del: lossless.simps)
qed simp_all

lemma sort_key_fst_idem: "sort_key fst (map (\<lambda>(k, v). (k, f v)) (sort_key fst kvs)) = map (\<lambda>(k, v). (k, f v)) (sort_key fst kvs)"
proof -
  have "sort_key fst (sort_key fst kvs) = sort_key fst kvs"
    by (rule sort_key_id_if_sorted) (simp add: sorted_sort_key)
  then show ?thesis by (simp add: sort_key_fst_map)
qed

lemma json_text_canon [simp]: "json_text (canon v) = json_text v"
proof (induction v)
  case (JObj kvs)
  have "json_text (canon v) = json_text v" if "(k, v) \<in> set kvs" for k v
    using that by (intro JObj) (auto simp: snds.simps)
  then have "map (\<lambda>(k, v). member_text (k, json_text v)) (map (\<lambda>(k, v). (k, canon v)) (sort_key fst kvs))
      = map (\<lambda>(k, v). member_text (k, json_text v)) (sort_key fst kvs)"
    by auto
  then show ?case
    by (simp only: canon_obj json_text_obj sort_key_fst_idem)
next
  case (JArr xs)
  then have "map json_text (map canon xs) = map json_text xs" by auto
  then show ?case by (simp only: canon.simps json_text.simps)
qed simp_all

theorem json_text_eq_iff:
  assumes "wf_json u" and "wf_json v"
  shows "json_text u = json_text v \<longleftrightarrow> canon u = canon v"
  by (metis assms json_parse_text json_text_canon option.inject)

subsection \<open>Integers\<close>

lemma digit_char_table: "list_all (\<lambda>n. digit_char n \<in> set ''0123456789'') [0..<10]"
  by code_simp

lemma digit_char_num: "n < 10 \<Longrightarrow> {digit_char n} \<subseteq> set ''0123456789''"
  using digit_char_table by (simp only: list_all_iff set_upt) simp

lemma nat_text_digits: "nat_text n \<noteq> [] \<and> set (nat_text n) \<subseteq> set ''0123456789''"
proof (induction n rule: nat_text.induct)
  case (1 n)
  show ?case
  proof (cases "n < 10")
    case True
    then have "nat_text n = [digit_char n]" by (subst nat_text.simps) simp
    with digit_char_num[OF True] show ?thesis by (simp only: set_simps list.distinct simp_thms)
  next
    case False
    then have "nat_text n = nat_text (n div 10) @ [digit_char (n mod 10)]" by (subst nat_text.simps) simp
    with 1[OF False] digit_char_num[of "n mod 10"] show ?thesis
      by (simp only: set_append set_simps Un_subset_iff append_is_Nil_conv) simp
  qed
qed

lemma number_text_int [simp]: "number_text (int_text n)"
proof -
  have d: "set ''0123456789'' \<subseteq> {c. num_char c}" by (auto simp: num_char_def)
  have m: "num_char CHR ''-''" by (simp add: num_char_def)
  have h: "hd (nat_text k) \<in> set ''0123456789''" for k
    using nat_text_digits[of k] by (meson hd_in_set subsetD)
  have "set ''0123456789'' \<subseteq> set ''0123456789-''" by auto
  with h have "hd (nat_text k) \<in> set ''0123456789-''" for k by blast
  moreover have "list_all num_char (nat_text k)" for k
    using nat_text_digits[of k] d by (auto simp: list_all_iff simp del: set_simps(2))
  ultimately show ?thesis using nat_text_digits m
    by (auto simp: number_text_def int_text_def simp del: set_simps(2))
       (simp_all)
qed

lemma digits_value_append: "digits_value acc (s @ [c]) = 10 * digits_value acc s + (of_char c - 48)"
  by (induction s arbitrary: acc) auto

lemma digit_char_value: "n < 10 \<Longrightarrow> (of_char (digit_char n) :: nat) - 48 = n"
  by (simp add: digit_char_def)

lemma digits_value_nat_text: "digits_value 0 (nat_text n) = n"
proof (induction n rule: nat_text.induct)
  case (1 n)
  show ?case
  proof (cases "n < 10")
    case True
    then show ?thesis by (subst nat_text.simps) (simp add: digit_char_value)
  next
    case False
    with 1 show ?thesis
      by (subst nat_text.simps) (simp add: digits_value_append digit_char_value)
  qed
qed

lemma text_value_int_text [simp]: "text_value (int_text n) = n"
proof (cases "n < 0")
  case True
  then show ?thesis by (simp add: int_text_def digits_value_nat_text)
next
  case False
  obtain c cs where t: "nat_text (nat n) = c # cs" using nat_text_digits[of "nat n"] by (cases "nat_text (nat n)") auto
  with nat_text_digits[of "nat n"] have "c \<noteq> CHR ''-''" by auto
  with False t digits_value_nat_text[of "nat n"] show ?thesis by (simp add: int_text_def)
qed

lemma int_text_inj [simp]: "int_text m = int_text n \<longleftrightarrow> m = n"
  by (metis text_value_int_text)

end
