(* ===== verification/Serialization.thy ===== *)
theory Serialization
  imports JsonText
begin

text \<open>
  \<open>persistence/serialization.ts\<close>: the versioned envelope of the \<open>bytea\<close> columns, with the
  byte budget of each value, and its round trip. The buffered sync store of
  \<open>reverse-etl/identity.ts\<close> keeps its contents within the same budget, so a snapshot of it can
  always be persisted.
\<close>

subsection \<open>Envelopes\<close>

definition envelope_text :: "string \<Rightarrow> string" where
  "envelope_text payload = [CHR ''{'', CHR 0x22] @ ''version'' @ [CHR 0x22] @ '':1,'' @ [CHR 0x22] @ ''value'' @ [CHR 0x22, CHR '':''] @ payload @ [CHR ''}'']"

definition envelopeBytes :: nat where
  "envelopeBytes = byteLength (envelope_text [])"

definition jsonByteBudget :: "nat \<Rightarrow> nat" where
  "jsonByteBudget payloadBytes = payloadBytes + envelopeBytes"

definition encodeJson :: "json \<Rightarrow> nat \<Rightarrow> string result" where
  "encodeJson value maxBytes =
     bindR (canonicalJson value) (\<lambda>payload.
     bindR (ensureR (byteLength payload \<le> maxBytes) ''Persisted value exceeds its byte budget'') (\<lambda>_.
     Inr (envelope_text payload)))"

definition decode_failure :: exn where
  "decode_failure =
     PersistenceError ''Recovery data could not be decoded; unsupported or invalid persistence format''"

definition decodeJson :: "string \<Rightarrow> json result" where
  "decodeJson bytes = (case json_parse bytes of
      Some (JObj kvs) \<Rightarrow>
        (if map_of kvs ''version'' = Some (JInt 1) \<and> map_of kvs ''value'' \<noteq> None
         then Inr (the (map_of kvs ''value'')) else Inl decode_failure)
    | _ \<Rightarrow> Inl decode_failure)"

subsection \<open>Round trip\<close>

lemma wf_json_lossless: "wf_json v \<Longrightarrow> lossless v"
  by (induction v) (fastforce simp: list_all_iff snds.simps)+

lemma byteLength_append [simp]: "byteLength (s @ t) = byteLength s + byteLength t"
  by (simp add: byteLength_def)

lemma byteLength_Nil [simp]: "byteLength [] = 0"
  by (simp add: byteLength_def)

lemma byteLength_Cons [simp]: "byteLength (c # s) = char_bytes c + byteLength s"
  by (simp add: byteLength_def)

lemma int_text_1: "int_text 1 = ''1''"
  by code_simp

lemma parse_value_one: "ends_number r \<Longrightarrow> 1 < n \<Longrightarrow> parse_value n (CHR ''1'' # r) = Some (JInt 1, r)"
  using parsesD[OF parses_num[OF number_text_int[of 1]], of n r] by (simp add: int_text_1)

lemma parse_envelope_members:
  assumes "parse_value n (t @ ''}'') = Some (v, ''}'')" and "0 < n"
  shows "parse_value (Suc (Suc (Suc n))) (envelope_text t) = Some (JObj [(''version'', JInt 1), (''value'', v)], [])"
proof -
  let ?rest = "CHR '','' # CHR 0x22 # ''value'' @ CHR 0x22 # CHR '':'' # t @ ''}''"
  have "parse_value (Suc n) (CHR ''1'' # ?rest) = Some (JInt 1, ?rest)"
    by (rule parse_value_one) (use assms(2) in simp_all)
  then have "parse_members (Suc (Suc n)) (CHR 0x22 # ''version'' @ CHR 0x22 # CHR '':'' # CHR ''1'' # ?rest)
     = Some ([(''version'', JInt 1), (''value'', v)], [])"
    using assms(1) by simp
  then show ?thesis by (simp add: envelope_text_def)
qed

lemma json_parse_envelope:
  assumes "wf_json v"
  shows "json_parse (envelope_text (json_text v)) = Some (JObj [(''version'', JInt 1), (''value'', canon v)])"
proof -
  have len: "length (envelope_text (json_text v)) = Suc (Suc (length (json_text v) + 20))"
    by (simp add: envelope_text_def)
  have "parse_value (length (json_text v) + 20) (json_text v @ ''}'') = Some (canon v, ''}'')"
    by (rule parsesD[OF wf_json_parses[OF assms]]) simp_all
  from parse_envelope_members[OF this] show ?thesis
    unfolding json_parse_def len by simp
qed

lemma encodeJson_Inr:
  "encodeJson v m = Inr b \<longleftrightarrow> lossless v \<and> byteLength (json_text v) \<le> m \<and> b = envelope_text (json_text v)"
  by (auto simp: encodeJson_def canonicalJson_eq run_simps split: if_splits)

lemma encode_decode:
  assumes "wf_json v" and "encodeJson v m = Inr b"
  shows "decodeJson b = Inr (canon v)"
  using assms by (simp add: encodeJson_Inr decodeJson_def json_parse_envelope)

lemma encodeJson_bytes:
  "encodeJson v m = Inr b \<Longrightarrow> byteLength b = jsonByteBudget (byteLength (json_text v)) \<and> byteLength b \<le> jsonByteBudget m"
  by (auto simp: encodeJson_Inr jsonByteBudget_def envelopeBytes_def envelope_text_def)

subsection \<open>The sync store stays within its budget\<close>

definition store_bounded :: "sync_store \<Rightarrow> bool" where
  "store_bounded s \<longleftrightarrow> byteLength (json_text (JObj (ss_state s))) \<le> ss_maxBytes s \<and> ss_maxBytes s \<le> 65536
     \<and> distinct (map fst (ss_state s)) \<and> list_all (\<lambda>(k, v). wf_json v) (ss_state s)"

lemma char_bytes_pos: "0 < char_bytes c"
  by (simp add: char_bytes_def)

definition member_cost :: "string \<times> json \<Rightarrow> nat" where
  "member_cost kv = byteLength (member_text (fst kv, json_text (snd kv)))"

lemma byteLength_join:
  "byteLength (join '','' xs) = sum_list (map byteLength xs) + (length xs - 1)"
  by (induction "'',''::string" xs rule: join.induct) (auto simp: char_bytes_def)

lemma sum_list_sort_key: "sum_list (map f (sort_key g xs)) = sum_list (map f xs)"
  for f :: "'a \<Rightarrow> nat"
  by (metis mset_map mset_sort sum_mset_sum_list)

lemma json_object_bytes:
  "byteLength (json_text (JObj kvs)) = 2 + sum_list (map member_cost kvs) + (length kvs - 1)"
proof -
  have "map byteLength (map (\<lambda>(k, v). member_text (k, json_text v)) (sort_key fst kvs)) = map member_cost (sort_key fst kvs)"
    by (auto simp: member_cost_def)
  then show ?thesis
    by (simp add: json_text_obj byteLength_join sum_list_sort_key char_bytes_def del: json_text.simps map_map)
qed

lemma sum_list_filter_le: "sum_list (map f (filter P xs)) \<le> sum_list (map f xs)"
  for f :: "'a \<Rightarrow> nat"
  by (induction xs) auto

lemma store_delete_bytes:
  "byteLength (json_text (JObj (AList.delete k kvs))) \<le> byteLength (json_text (JObj kvs))"
proof -
  have "length (AList.delete k kvs) - 1 \<le> length kvs - 1"
    using length_delete_le[of k kvs] by simp
  moreover have "sum_list (map member_cost (AList.delete k kvs)) \<le> sum_list (map member_cost kvs)"
    by (simp add: AList.delete_eq sum_list_filter_le)
  ultimately show ?thesis by (simp only: json_object_bytes)
qed

lemma delete_subset: "set (AList.delete k al) \<subseteq> set al"
  by (auto simp: AList.delete_eq)

lemma list_all_update:
  "list_all (\<lambda>(k, v). P v) al \<Longrightarrow> P v \<Longrightarrow> list_all (\<lambda>(k, v). P v) (AList.update k v al)"
  by (induction al) auto

lemma wf_json_canon: "wf_json v \<Longrightarrow> wf_json (canon v)"
proof (induction v)
  case (JObj kvs)
  have "wf_json (canon v)" if "(k, v) \<in> set kvs" for k v
    using that JObj.prems by (intro JObj.IH[of "(k, v)"]) (auto simp: list_all_iff snds.simps)
  moreover have "distinct (map fst (sort_key fst kvs))"
    using JObj.prems by (simp add: distinct_map inj_on_def)
  ultimately show ?case by (auto simp: canon_obj list_all_iff comp_def case_prod_unfold simp del: canon.simps)
qed (auto simp: list_all_iff)

lemma store_set_bounded:
  assumes "store_bounded s" and "wf_json v" and "store_set k v s = Inr t"
  shows "store_bounded t"
  using assms wf_json_canon[of v] wf_json_lossless[of v]
  by (auto simp: store_bounded_def store_set_def copy_def canonicalJson_eq Let_def run_simps store_check_def
      distinct_update list_all_update split: if_splits)

lemma store_delete_bounded: "store_bounded s \<Longrightarrow> store_bounded (store_delete k s)"
  using store_delete_bytes[of k "ss_state s"]
  by (auto simp: store_bounded_def store_delete_def distinct_delete list_all_iff simp del: json_text.simps
      dest: set_mp[OF delete_subset])

lemma store_get_set:
  "store_set k v s = Inr t \<Longrightarrow> store_get k' t = (if k' = k then Some (canon (canon v)) else store_get k' s)"
  by (auto simp: store_set_def store_get_def copy_def Let_def run_simps)

text \<open>
  A bounded store can always be written: \<open>encodeJson\<close> with its default budget accepts the
  snapshot.
\<close>

lemma store_snapshot_encodes:
  assumes "store_bounded s"
  shows "encodeJson (store_snapshot s) 65536 = Inr (envelope_text (json_text (JObj (ss_state s))))"
proof -
  have "wf_json (JObj (ss_state s))"
    using assms by (auto simp: store_bounded_def list_all_iff)
  then have "lossless (store_snapshot s)"
    unfolding store_snapshot_def by (intro wf_json_lossless wf_json_canon)
  with assms show ?thesis
    by (simp add: encodeJson_Inr store_snapshot_def store_bounded_def del: json_text.simps canon.simps)
qed

end
