(* ===== verification/Protocol.thy ===== *)
theory Protocol
  imports Serialization
begin

text \<open>
  The reverse ETL protocol: the data of \<open>types/protocols/reverse-etl.d.ts\<close> and the validators of
  \<open>reverse-etl/meta.ts\<close>. What a provider's writer returns is an arbitrary JavaScript value, so the
  Zod schemas are parse functions from \<open>json\<close> to the typed results; a member a caller leaves
  \<open>undefined\<close> is a member the object does not have.
\<close>

subsection \<open>Data\<close>

datatype action = Upsert | Remove

record source_cursor =
  cur_value :: string
  cur_keys :: "string list"

record batch_record =
  rec_key :: string
  rec_seq :: int
  rec_row :: json
  rec_op :: string

record prepared_batch =
  pb_id :: string
  pb_action :: action
  pb_records :: "batch_record list"
  pb_payloadHash :: string
  pb_cursor :: "source_cursor option"

datatype outcome =
    Accepted string
  | Staged string
  | Rejected string string string

record batch_result =
  br_outcomes :: "outcome list"
  br_jobs :: "string list option"
  br_checkpoint :: "json option"

datatype delivery = DeliveryAccepted | DeliveryPending

record finish_result =
  fr_delivery :: delivery
  fr_jobs :: "string list option"
  fr_checkpoint :: "json option"

record resume_point =
  rp_seq :: int
  rp_cursor :: "source_cursor option"

datatype mirror_capability = MirrorNone | SnapshotDiff | NativeReplace

datatype replay_capability = IdempotencyKey | IdempotentOperation | ReconcileRequired

record capabilities =
  supportsUpsert :: bool
  supportsExplicitRemove :: bool
  cap_mirror :: mirror_capability
  cap_replay :: replay_capability

fun outcome_op :: "outcome \<Rightarrow> string" where
  "outcome_op (Accepted op) = op"
| "outcome_op (Staged op) = op"
| "outcome_op (Rejected op _ _) = op"

fun is_accepted :: "outcome \<Rightarrow> bool" where
  "is_accepted (Accepted _) = True"
| "is_accepted _ = False"

fun is_staged :: "outcome \<Rightarrow> bool" where
  "is_staged (Staged _) = True"
| "is_staged _ = False"

fun is_rejected :: "outcome \<Rightarrow> bool" where
  "is_rejected (Rejected _ _ _) = True"
| "is_rejected _ = False"

definition batch_ops :: "prepared_batch \<Rightarrow> string list" where
  "batch_ops b = map rec_op (pb_records b)"

subsection \<open>The JavaScript objects behind the data\<close>

fun action_text :: "action \<Rightarrow> string" where
  "action_text Upsert = ''upsert''"
| "action_text Remove = ''remove''"

definition optional_member :: "string \<Rightarrow> ('a \<Rightarrow> json) \<Rightarrow> 'a option \<Rightarrow> (string \<times> json) list" where
  "optional_member k f v = (case v of None \<Rightarrow> [] | Some a \<Rightarrow> [(k, f a)])"

definition json_of_strings :: "string list \<Rightarrow> json" where
  "json_of_strings xs = JArr (map JStr xs)"

definition json_of_cursor :: "source_cursor \<Rightarrow> json" where
  "json_of_cursor c = JObj [(''value'', JStr (cur_value c)), (''primaryKeyValues'', json_of_strings (cur_keys c))]"

definition json_of_record :: "batch_record \<Rightarrow> json" where
  "json_of_record r = JObj [(''key'', JStr (rec_key r)), (''sourceSequence'', JInt (rec_seq r)),
     (''row'', rec_row r), (''operationId'', JStr (rec_op r))]"

definition json_of_batch :: "prepared_batch \<Rightarrow> json" where
  "json_of_batch b = JObj ([(''batchId'', JStr (pb_id b)), (''action'', JStr (action_text (pb_action b))),
     (''records'', JArr (map json_of_record (pb_records b))), (''payloadHash'', JStr (pb_payloadHash b))]
     @ optional_member ''cursor'' json_of_cursor (pb_cursor b))"

fun json_of_outcome :: "outcome \<Rightarrow> json" where
  "json_of_outcome (Accepted op) = JObj [(''operationId'', JStr op), (''status'', JStr ''accepted'')]"
| "json_of_outcome (Staged op) = JObj [(''operationId'', JStr op), (''status'', JStr ''staged'')]"
| "json_of_outcome (Rejected op code reason) = JObj [(''operationId'', JStr op), (''status'', JStr ''rejected''),
     (''code'', JStr code), (''safeReason'', JStr reason)]"

definition result_members :: "string list option \<Rightarrow> json option \<Rightarrow> (string \<times> json) list" where
  "result_members jobs checkpoint =
     optional_member ''remoteJobIds'' json_of_strings jobs @ optional_member ''providerCheckpoint'' id checkpoint"

definition json_of_batch_result :: "batch_result \<Rightarrow> json" where
  "json_of_batch_result r =
     JObj ((''outcomes'', JArr (map json_of_outcome (br_outcomes r))) # result_members (br_jobs r) (br_checkpoint r))"

fun delivery_text :: "delivery \<Rightarrow> string" where
  "delivery_text DeliveryAccepted = ''accepted''"
| "delivery_text DeliveryPending = ''pending''"

definition json_of_finish_result :: "finish_result \<Rightarrow> json" where
  "json_of_finish_result r =
     JObj ((''delivery'', JStr (delivery_text (fr_delivery r))) # result_members (fr_jobs r) (fr_checkpoint r))"

subsection \<open>Zod schemas\<close>

fun string_between :: "nat \<Rightarrow> nat \<Rightarrow> json \<Rightarrow> string option" where
  "string_between lo hi (JStr s) = (if lo \<le> length s \<and> length s \<le> hi then Some s else None)"
| "string_between lo hi _ = None"

abbreviation id_schema :: "json \<Rightarrow> string option" where
  "id_schema \<equiv> string_between 1 512"

fun parse_all :: "('a \<Rightarrow> 'b option) \<Rightarrow> 'a list \<Rightarrow> 'b list option" where
  "parse_all f [] = Some []"
| "parse_all f (x # xs) = (case f x of None \<Rightarrow> None | Some y \<Rightarrow> map_option (Cons y) (parse_all f xs))"

fun array_schema :: "(json \<Rightarrow> 'b option) \<Rightarrow> nat \<Rightarrow> json \<Rightarrow> 'b list option" where
  "array_schema f hi (JArr xs) = (if length xs \<le> hi then parse_all f xs else None)"
| "array_schema f hi _ = None"

text \<open>\<open>jsonValue\<close> accepts exactly the lossless values; \<open>jsonObject\<close> also bounds their size.\<close>

fun object_schema :: "json \<Rightarrow> json option" where
  "object_schema (JObj kvs) =
     (if lossless (JObj kvs) \<and> byteLength (json_text (JObj kvs)) \<le> 65536 then Some (JObj kvs) else None)"
| "object_schema _ = None"

text \<open>\<open>.strict()\<close>: no member outside the schema.\<close>

definition strict_keys :: "string list \<Rightarrow> (string \<times> json) list \<Rightarrow> bool" where
  "strict_keys ks kvs \<longleftrightarrow> list_all (\<lambda>(k, _). k \<in> set ks) kvs"

definition required :: "string \<Rightarrow> (json \<Rightarrow> 'a option) \<Rightarrow> (string \<times> json) list \<Rightarrow> 'a option" where
  "required k f kvs = Option.bind (map_of kvs k) f"

text \<open>\<open>.optional()\<close>: absent gives \<open>Some None\<close>.\<close>

definition optional :: "string \<Rightarrow> (json \<Rightarrow> 'a option) \<Rightarrow> (string \<times> json) list \<Rightarrow> 'a option option" where
  "optional k f kvs = (case map_of kvs k of None \<Rightarrow> Some None | Some v \<Rightarrow> map_option Some (f v))"

fun outcome_schema :: "json \<Rightarrow> outcome option" where
  "outcome_schema (JObj kvs) =
     (if map_of kvs ''status'' = Some (JStr ''accepted'') \<and> strict_keys [''operationId'', ''status''] kvs
      then map_option Accepted (required ''operationId'' id_schema kvs)
      else if map_of kvs ''status'' = Some (JStr ''staged'') \<and> strict_keys [''operationId'', ''status''] kvs
      then map_option Staged (required ''operationId'' id_schema kvs)
      else if map_of kvs ''status'' = Some (JStr ''rejected'')
           \<and> strict_keys [''operationId'', ''status'', ''code'', ''safeReason''] kvs
      then Option.bind (required ''operationId'' id_schema kvs) (\<lambda>op.
           Option.bind (required ''code'' (string_between 1 128) kvs) (\<lambda>code.
           map_option (Rejected op code) (required ''safeReason'' (string_between 0 1024) kvs)))
      else None)"
| "outcome_schema _ = None"

fun batchResult_schema :: "json \<Rightarrow> batch_result option" where
  "batchResult_schema (JObj kvs) =
     (if strict_keys [''outcomes'', ''remoteJobIds'', ''providerCheckpoint''] kvs
      then Option.bind (required ''outcomes'' (array_schema outcome_schema 10000) kvs) (\<lambda>outs.
           Option.bind (optional ''remoteJobIds'' (array_schema id_schema 100) kvs) (\<lambda>jobs.
           Option.bind (optional ''providerCheckpoint'' object_schema kvs) (\<lambda>cp.
           Some \<lparr>br_outcomes = outs, br_jobs = jobs, br_checkpoint = cp\<rparr>)))
      else None)"
| "batchResult_schema _ = None"

fun delivery_schema :: "json \<Rightarrow> delivery option" where
  "delivery_schema (JStr s) =
     (if s = ''accepted'' then Some DeliveryAccepted else if s = ''pending'' then Some DeliveryPending else None)"
| "delivery_schema _ = None"

fun finishResult_schema :: "json \<Rightarrow> finish_result option" where
  "finishResult_schema (JObj kvs) =
     (if strict_keys [''delivery'', ''remoteJobIds'', ''providerCheckpoint''] kvs
      then Option.bind (required ''delivery'' delivery_schema kvs) (\<lambda>d.
           Option.bind (optional ''remoteJobIds'' (array_schema id_schema 100) kvs) (\<lambda>jobs.
           Option.bind (optional ''providerCheckpoint'' object_schema kvs) (\<lambda>cp.
           Some \<lparr>fr_delivery = d, fr_jobs = jobs, fr_checkpoint = cp\<rparr>)))
      else None)"
| "finishResult_schema _ = None"

subsection \<open>Validators\<close>

text \<open>The loop of \<open>validateBatchResult\<close> over the outcomes; \<open>seen\<close> is its set.\<close>

fun check_outcomes :: "string set \<Rightarrow> outcome list \<Rightarrow> string set \<Rightarrow> string set result" where
  "check_outcomes expected [] seen = Inr seen"
| "check_outcomes expected (r # rs) seen =
     (if outcome_op r \<notin> expected \<or> outcome_op r \<in> seen
      then Inl (ReverseEtlProtocolError ''Foreign or duplicate outcome operation ID'')
      else check_outcomes expected rs (insert (outcome_op r) seen))"

definition validateBatchResult :: "prepared_batch \<Rightarrow> json \<Rightarrow> batch_result result" where
  "validateBatchResult batch value = (case batchResult_schema value of
      None \<Rightarrow> Inl (ReverseEtlProtocolError ''Malformed writer batch response'')
    | Some r \<Rightarrow>
        (let expected = set (batch_ops batch) in
         if card expected \<noteq> length (pb_records batch)
         then Inl (ReverseEtlProtocolError ''Duplicate input operation IDs'')
         else bindR (check_outcomes expected (br_outcomes r) {}) (\<lambda>seen.
           if card seen \<noteq> card expected
           then Inl (ReverseEtlProtocolError ''Writer omitted operation outcomes'')
           else Inr r)))"

definition validateFinishResult :: "json \<Rightarrow> finish_result result" where
  "validateFinishResult value = (case finishResult_schema value of
      None \<Rightarrow> Inl (ReverseEtlProtocolError ''Malformed writer finish response'')
    | Some r \<Rightarrow>
        if fr_delivery r = DeliveryPending \<and> (fr_jobs r = None \<or> fr_jobs r = Some [])
        then Inl (ReverseEtlProtocolError ''Pending finish requires recoverable remote job IDs'')
        else Inr r)"

text \<open>
  Stream metadata: the row schemas and the options schema belong to the providers; a row type is
  the parse function of its schema together with its object shape, when it has one (field name and
  whether the field is optional, after unwrapping effects).
\<close>

record row_type =
  rt_parse :: "json \<Rightarrow> json option"
  rt_shape :: "(string \<times> bool) list option"

record stream_metadata =
  st_name :: string
  st_rowType :: row_type
  st_removeRowType :: "row_type option"
  st_options :: "json \<Rightarrow> json option"
  st_batchSize :: int
  st_asynchronous :: bool
  st_caps :: capabilities

definition validateStream :: "stream_metadata \<Rightarrow> unit result" where
  "validateStream stream =
     (if st_name stream = [] \<or> \<not> safe_integer (st_batchSize stream) \<or> st_batchSize stream < 1 \<or> st_batchSize stream > 10000
      then Inl (ReverseEtlProtocolError ''Stream requires a name and batch size between 1 and 10000'')
      else if supportsExplicitRemove (st_caps stream) \<and> st_removeRowType stream = None
      then Inl (ReverseEtlProtocolError ''Explicit remove requires a removal schema'')
      else Inr ())"

record config_input =
  ci_mirror :: bool
  ci_cursor :: bool
  ci_deleteColumn :: string
  ci_mapping :: "(string \<times> string) list"
  ci_columns :: "string list"
  ci_options :: json

definition mapping_fits_shape :: "(string \<times> bool) list \<Rightarrow> (string \<times> string) list \<Rightarrow> bool" where
  "mapping_fits_shape shape mapping \<longleftrightarrow>
     \<not> (list_ex (\<lambda>(field, _). map_of shape field = None) mapping
      \<or> list_ex (\<lambda>(field, opt). \<not> opt \<and> map_of mapping field = None) shape)"

definition validateReverseEtlConfig :: "stream_metadata \<Rightarrow> config_input \<Rightarrow> json result" where
  "validateReverseEtlConfig stream input =
     bindR (validateStream stream) (\<lambda>_.
      if \<not> supportsUpsert (st_caps stream)
      then Inl (ReverseEtlProtocolError ''Stream does not support upserts'')
      else if ci_mirror input \<and> (ci_cursor input \<or> cap_mirror (st_caps stream) = MirrorNone)
      then Inl (ReverseEtlProtocolError ''Mirror requires a full model and mirror-capable stream'')
      else if ci_deleteColumn input \<noteq> [] \<and> \<not> supportsExplicitRemove (st_caps stream)
      then Inl (ReverseEtlProtocolError ''Delete-column models require explicit remove support'')
      else if ci_mapping input = [] \<or> list_ex (\<lambda>(_, column). column \<notin> set (ci_columns input)) (ci_mapping input)
      then Inl (ReverseEtlProtocolError ''Mappings must reference projected model columns'')
      else if (case rt_shape (st_rowType stream) of None \<Rightarrow> False
               | Some shape \<Rightarrow> \<not> mapping_fits_shape shape (ci_mapping input))
      then Inl (ReverseEtlProtocolError ''Mapping must include required stream fields and no unknown fields'')
      else case st_options stream (ci_options input) of
          None \<Rightarrow> Inl (ReverseEtlProtocolError ''Invalid reverse stream options'')
        | Some options \<Rightarrow> Inr options)"

subsection \<open>What a validated result guarantees\<close>

lemma check_outcomes_Inr:
  "check_outcomes expected rs seen = Inr t \<Longrightarrow>
     t = seen \<union> set (map outcome_op rs) \<and> set (map outcome_op rs) \<subseteq> expected
     \<and> distinct (map outcome_op rs) \<and> seen \<inter> set (map outcome_op rs) = {}"
  by (induction rs arbitrary: seen) (force split: if_splits)+

lemma check_outcomes_ok:
  "distinct (map outcome_op rs) \<Longrightarrow> set (map outcome_op rs) \<subseteq> expected \<Longrightarrow> seen \<inter> set (map outcome_op rs) = {} \<Longrightarrow>
     check_outcomes expected rs seen = Inr (seen \<union> set (map outcome_op rs))"
proof (induction rs arbitrary: seen)
  case (Cons r rs)
  have "check_outcomes expected rs (insert (outcome_op r) seen) = Inr (insert (outcome_op r) seen \<union> set (map outcome_op rs))"
    using Cons.prems by (intro Cons.IH) auto
  then show ?case using Cons.prems by auto
qed simp

text \<open>A validated result answers every operation of the batch exactly once, and no other.\<close>

lemma validateBatchResult_Inr:
  assumes "validateBatchResult b v = Inr r"
  shows "distinct (batch_ops b)" and "distinct (map outcome_op (br_outcomes r))"
    and "set (map outcome_op (br_outcomes r)) = set (batch_ops b)"
    and "length (br_outcomes r) = length (pb_records b)"
    and "batchResult_schema v = Some r"
proof -
  let ?E = "set (batch_ops b)"
  from assms obtain seen where card: "card ?E = length (pb_records b)"
    and run: "check_outcomes ?E (br_outcomes r) {} = Inr seen" and all: "card seen = card ?E"
    and schema: "batchResult_schema v = Some r"
    by (auto simp: validateBatchResult_def Let_def run_simps split: option.splits if_splits)
  from check_outcomes_Inr[OF run] have seen: "seen = set (map outcome_op (br_outcomes r))" "seen \<subseteq> ?E"
    and d: "distinct (map outcome_op (br_outcomes r))" by auto
  have eq: "seen = ?E"
    using seen all by (intro card_subset_eq) auto
  show "distinct (batch_ops b)"
    using card by (intro card_distinct) (simp add: batch_ops_def)
  show "distinct (map outcome_op (br_outcomes r))" by (rule d)
  show "set (map outcome_op (br_outcomes r)) = ?E" using eq seen by simp
  show "length (br_outcomes r) = length (pb_records b)"
    using distinct_card[OF d] card eq seen by simp
  show "batchResult_schema v = Some r" by (rule schema)
qed

lemma validateBatchResult_ok:
  assumes "batchResult_schema v = Some r" and "distinct (batch_ops b)"
    and "distinct (map outcome_op (br_outcomes r))" and "set (map outcome_op (br_outcomes r)) = set (batch_ops b)"
  shows "validateBatchResult b v = Inr r"
proof -
  have "card (set (batch_ops b)) = length (pb_records b)"
    using distinct_card[OF assms(2)] by (simp add: batch_ops_def)
  moreover have "check_outcomes (set (batch_ops b)) (br_outcomes r) {} = Inr (set (batch_ops b))"
    using check_outcomes_ok[OF assms(3), of "set (batch_ops b)" "{}"] assms(4) by simp
  ultimately show ?thesis using assms(1) by (simp add: validateBatchResult_def)
qed

lemma outcome_exclusive:
  "is_accepted r \<Longrightarrow> \<not> is_staged r" "is_accepted r \<Longrightarrow> \<not> is_rejected r" "is_staged r \<Longrightarrow> \<not> is_rejected r"
  by (cases r; simp)+

text \<open>Accepted, staged and rejected outcomes partition a result.\<close>

lemma outcomes_partition:
  "length rs = length (filter is_accepted rs) + length (filter is_staged rs) + length (filter is_rejected rs)"
proof (induction rs)
  case (Cons r rs)
  then show ?case by (cases r) auto
qed simp

subsection \<open>Validation of a typed result\<close>

text \<open>
  The journal validates again what was validated before it was stored: on the object of a result
  that came out of the schema, the schema gives that result back.
\<close>

lemma parse_all_map: "(\<And>x. x \<in> set xs \<Longrightarrow> f (g x) = Some x) \<Longrightarrow> parse_all f (map g xs) = Some xs"
  by (induction xs) auto

lemma parse_all_Some: "parse_all f xs = Some ys \<Longrightarrow> length ys = length xs \<and> (\<forall>y \<in> set ys. \<exists>x \<in> set xs. f x = Some y)"
  by (induction xs arbitrary: ys) (fastforce split: option.splits)+

lemma string_between_range: "string_between lo hi v = Some s \<Longrightarrow> v = JStr s \<and> lo \<le> length s \<and> length s \<le> hi"
  by (cases v) (auto split: if_splits)

lemma outcome_schema_json: "outcome_schema v = Some r \<Longrightarrow> outcome_schema (json_of_outcome r) = Some r"
  by (cases v) (auto simp: required_def strict_keys_def bind_eq_Some_conv dest!: string_between_range split: if_splits)

lemma array_schema_strings: "array_schema id_schema n v = Some xs \<Longrightarrow> array_schema id_schema n (json_of_strings xs) = Some xs"
  by (cases v) (auto simp: json_of_strings_def dest!: parse_all_Some split: if_splits intro!: parse_all_map
      dest: string_between_range)

lemma object_schema_json: "object_schema v = Some w \<Longrightarrow> w = v"
  by (cases v) (auto split: if_splits)

lemma array_schema_outcomes:
  "array_schema outcome_schema n v = Some rs \<Longrightarrow> array_schema outcome_schema n (JArr (map json_of_outcome rs)) = Some rs"
  by (cases v) (auto dest!: parse_all_Some split: if_splits intro!: parse_all_map dest: outcome_schema_json)

lemma optional_Some_Some: "optional k f kvs = Some (Some a) \<Longrightarrow> \<exists>v. f v = Some a"
  by (auto simp: optional_def split: option.splits)

lemma batchResult_schema_json:
  assumes "batchResult_schema v = Some r"
  shows "batchResult_schema (json_of_batch_result r) = Some r"
proof -
  from assms obtain kvs where v: "v = JObj kvs" by (cases v) auto
  from assms obtain w where w: "array_schema outcome_schema 10000 w = Some (br_outcomes r)"
    unfolding v by (auto simp: required_def bind_eq_Some_conv split: if_splits)
  have jobs: "optional ''remoteJobIds'' (array_schema id_schema 100) kvs = Some (br_jobs r)"
    and cp: "optional ''providerCheckpoint'' object_schema kvs = Some (br_checkpoint r)"
    using assms unfolding v by (auto simp: bind_eq_Some_conv split: if_splits)
  have j: "array_schema id_schema 100 (json_of_strings js) = Some js" if "br_jobs r = Some js" for js
    using jobs that optional_Some_Some[of "''remoteJobIds''"] array_schema_strings by metis
  have c: "object_schema p = Some p" if "br_checkpoint r = Some p" for p
    using cp that optional_Some_Some[of "''providerCheckpoint''" object_schema kvs p] object_schema_json by auto
  have o: "array_schema outcome_schema 10000 (JArr (map json_of_outcome (br_outcomes r))) = Some (br_outcomes r)"
    by (rule array_schema_outcomes[OF w])
  show ?thesis
    by (cases "br_jobs r"; cases "br_checkpoint r")
      (simp_all add: json_of_batch_result_def result_members_def optional_member_def required_def optional_def
        strict_keys_def o j c del: array_schema.simps One_nat_def)
qed

lemma validateBatchResult_again:
  assumes "validateBatchResult b v = Inr r"
  shows "validateBatchResult b (json_of_batch_result r) = Inr r"
  using validateBatchResult_Inr[OF assms] batchResult_schema_json by (intro validateBatchResult_ok) auto

lemma validateFinishResult_Inr:
  "validateFinishResult v = Inr r \<Longrightarrow> fr_delivery r = DeliveryPending \<Longrightarrow> \<exists>j js. fr_jobs r = Some (j # js)"
  by (auto simp: validateFinishResult_def split: option.splits if_splits) (metis list.exhaust option.exhaust)

end
