(* ===== verification/LocalIndex.thy ===== *)
theory LocalIndex
  imports Protocol
begin

text \<open>
  The projection of source rows to member identities (\<open>persistence/effects.ts\<close>) and the
  disposable SQLite index of a worker (\<open>artifacts/local.ts\<close>). A table is an association list
  with the primary key as its key; \<open>INSERT .. ON CONFLICT DO UPDATE\<close> is \<open>AList.update\<close> and
  \<open>ORDER BY\<close> on the key is \<open>sort_key fst\<close>. A column that holds the canonical text of an effect
  holds the effect here; texts are compared as texts.
\<close>

subsection \<open>Effects\<close>

record identity =
  id_identity :: json
  id_upsert :: json
  id_remove :: json

record effect = identity +
  ef_identityHash :: string
  ef_payloadHash :: string

definition json_of_effect :: "effect \<Rightarrow> json" where
  "json_of_effect e = JObj [(''identity'', id_identity e), (''upsert'', id_upsert e), (''remove'', id_remove e),
     (''identityHash'', JStr (ef_identityHash e)), (''payloadHash'', JStr (ef_payloadHash e))]"

definition effect_text :: "effect \<Rightarrow> string" where
  "effect_text e = json_text (json_of_effect e)"

text \<open>\<open>record.row as Effect\<close>: reading the members of a JSON object as the fields of an effect.\<close>

fun member :: "json \<Rightarrow> string \<Rightarrow> json" where
  "member (JObj kvs) k = (case map_of kvs k of None \<Rightarrow> JLossy | Some v \<Rightarrow> v)"
| "member _ k = JLossy"

fun string_of_json :: "json \<Rightarrow> string" where
  "string_of_json (JStr s) = s"
| "string_of_json _ = []"

definition effect_of_json :: "json \<Rightarrow> effect" where
  "effect_of_json v = \<lparr>id_identity = member v ''identity'', id_upsert = member v ''upsert'', id_remove = member v ''remove'',
     ef_identityHash = string_of_json (member v ''identityHash''), ef_payloadHash = string_of_json (member v ''payloadHash'')\<rparr>"

fun truthy :: "json \<Rightarrow> bool" where
  "truthy JNull = False"
| "truthy (JBool b) = b"
| "truthy (JNum t) = (t \<noteq> ''0'')"
| "truthy (JStr s) = (s \<noteq> [])"
| "truthy JLossy = False"
| "truthy _ = True"

definition project_effect :: "(string \<Rightarrow> string) \<Rightarrow> identity \<Rightarrow> effect result" where
  "project_effect sha v =
     bindR (ensureR (id_identity v \<noteq> JNull \<and> truthy (id_upsert v) \<and> truthy (id_remove v)) ''Invalid identity projection'') (\<lambda>_.
     bindR (contentHash sha (id_identity v)) (\<lambda>identityHash.
     bindR (contentHash sha (id_upsert v)) (\<lambda>payloadHash.
     Inr (identity.extend v \<lparr>ef_identityHash = identityHash, ef_payloadHash = payloadHash\<rparr>))))"

definition effects :: "(string \<Rightarrow> string) \<Rightarrow> bool \<Rightarrow> identity list \<Rightarrow> effect list result" where
  "effects sha allowEmpty identities =
     bindR (ensureR ((allowEmpty \<or> identities \<noteq> []) \<and> length identities \<le> 100) ''Invalid identity projection size'') (\<lambda>_.
     bindR (mapR (project_effect sha) identities) (\<lambda>result.
     bindR (ensureR (card (set (map ef_identityHash result)) = length result) ''Duplicate projected identity'') (\<lambda>_.
     Inr result)))"

subsection \<open>Tables\<close>

datatype op_status = OpPrepared | OpUnknown | OpAcknowledged | OpCancelled | OpAccepted | OpStaged | OpRejected

record member_row =
  m_payload :: "string option"
  m_value :: "effect option"
  m_at :: string
  m_seq :: int
  m_uncertain :: bool

record op_row =
  o_seq :: int
  o_status :: op_status
  o_batch :: string

record desired_row =
  d_payload :: string
  d_value :: effect

record local_index =
  li_keys :: "string list"
  li_desired :: "(string \<times> desired_row) list"
  li_members :: "(string \<times> member_row) list"
  li_ops :: "(string \<times> op_row) list"
  li_touched :: "string list"

definition create_index :: local_index where
  "create_index = \<lparr>li_keys = [], li_desired = [], li_members = [], li_ops = [], li_touched = []\<rparr>"

definition constraint_failed :: "string \<Rightarrow> exn" where
  "constraint_failed column = PlainError (''UNIQUE constraint failed: '' @ column)"

subsection \<open>Source rows\<close>

text \<open>
  \<open>LocalIndex.transaction\<close> rolls back what its work did: the pure work below returns a new index
  only when it succeeds.
\<close>

definition append_effect :: "effect \<Rightarrow> local_index \<Rightarrow> local_index result" where
  "append_effect e li = (case map_of (li_desired li) (ef_identityHash e) of
      None \<Rightarrow> Inr (li\<lparr>li_desired := AList.update (ef_identityHash e) \<lparr>d_payload = ef_payloadHash e, d_value = e\<rparr> (li_desired li)\<rparr>)
    | Some old \<Rightarrow> bindR (ensureR (effect_text (d_value old) = effect_text e) ''Conflicting payloads for shared identity'') (\<lambda>_. Inr li))"

definition append_row :: "string \<times> effect list \<Rightarrow> local_index \<Rightarrow> local_index result" where
  "append_row row li =
     bindR (ensureR (fst row \<notin> set (li_keys li)) ''Duplicate snapshot source key'') (\<lambda>_.
     foldR append_effect (snd row) (li\<lparr>li_keys := li_keys li @ [fst row]\<rparr>))"

definition append_rows :: "(string \<times> effect list) list \<Rightarrow> local_index \<Rightarrow> local_index result" where
  "append_rows rows li = foldR append_row rows li"

definition restore_desired :: "effect \<Rightarrow> local_index \<Rightarrow> local_index result" where
  "restore_desired e li =
     (if map_of (li_desired li) (ef_identityHash e) \<noteq> None then Inl (constraint_failed ''desired.identity'')
      else Inr (li\<lparr>li_desired := AList.update (ef_identityHash e) \<lparr>d_payload = ef_payloadHash e, d_value = e\<rparr> (li_desired li)\<rparr>))"

definition restoreDesired :: "effect list \<Rightarrow> local_index \<Rightarrow> local_index result" where
  "restoreDesired values li = foldR restore_desired values li"

subsection \<open>Membership\<close>

record member_update =
  u_effect :: effect
  u_action :: action
  u_seq :: int
  u_at :: string
  u_uncertain :: bool

definition update_key :: "member_update \<Rightarrow> string" where
  "update_key u = ef_identityHash (u_effect u)"

definition update_row :: "member_update \<Rightarrow> member_row" where
  "update_row u = \<lparr>
     m_payload = (if u_action u = Upsert then Some (ef_payloadHash (u_effect u)) else None),
     m_value = (if u_action u = Upsert then Some (u_effect u) else None),
     m_at = u_at u, m_seq = u_seq u, m_uncertain = u_uncertain u\<rparr>"

text \<open>
  \<open>LocalIndex.apply\<close>: a conflicting row is replaced only by a greater sequence. Tombstones are
  rows without a value.
\<close>

definition apply_member :: "member_update \<Rightarrow> (string \<times> member_row) list \<Rightarrow> (string \<times> member_row) list" where
  "apply_member u ms = (case map_of ms (update_key u) of
      None \<Rightarrow> AList.update (update_key u) (update_row u) ms
    | Some old \<Rightarrow> if m_seq old < u_seq u then AList.update (update_key u) (update_row u) ms else ms)"

definition apply_update :: "member_update \<Rightarrow> local_index \<Rightarrow> local_index" where
  "apply_update u li = li\<lparr>li_members := apply_member u (li_members li)\<rparr>"

record stored_member =
  sm_effect :: effect
  sm_at :: string
  sm_uncertain :: bool

definition baseline_update :: "stored_member \<Rightarrow> member_update" where
  "baseline_update m = \<lparr>u_effect = sm_effect m, u_action = Upsert, u_seq = 0, u_at = sm_at m, u_uncertain = sm_uncertain m\<rparr>"

definition restoreMembers :: "stored_member list \<Rightarrow> local_index \<Rightarrow> local_index" where
  "restoreMembers values li = fold (\<lambda>m. apply_update (baseline_update m)) values li"

text \<open>The statements \<open>ObjectJournal\<close> runs on the index directly.\<close>

definition all_uncertain :: "local_index \<Rightarrow> local_index" where
  "all_uncertain li = li\<lparr>li_members := map (\<lambda>(i, m). (i, m\<lparr>m_uncertain := True\<rparr>)) (li_members li)\<rparr>"

definition live :: "string \<times> member_row \<Rightarrow> bool" where
  "live im \<longleftrightarrow> m_value (snd im) \<noteq> None"

definition new_generation :: "local_index \<Rightarrow> local_index" where
  "new_generation li = li\<lparr>li_desired := [], li_ops := [], li_touched := [],
     li_members := map (\<lambda>(i, m). (i, m\<lparr>m_seq := 0\<rparr>)) (filter live (li_members li))\<rparr>"

definition put_operation :: "string \<Rightarrow> int \<Rightarrow> op_status \<Rightarrow> string \<Rightarrow> local_index \<Rightarrow> local_index result" where
  "put_operation op sq status batch li = (case map_of (li_ops li) op of
      Some old \<Rightarrow> Inr (li\<lparr>li_ops := AList.update op (old\<lparr>o_status := status\<rparr>) (li_ops li)\<rparr>)
    | None \<Rightarrow> if list_ex (\<lambda>(_, r). o_seq r = sq) (li_ops li) then Inl (constraint_failed ''operations.sequence'')
        else Inr (li\<lparr>li_ops := AList.update op \<lparr>o_seq = sq, o_status = status, o_batch = batch\<rparr> (li_ops li)\<rparr>))"

definition touch :: "string \<Rightarrow> local_index \<Rightarrow> local_index" where
  "touch i li = (if i \<in> set (li_touched li) then li else li\<lparr>li_touched := li_touched li @ [i]\<rparr>)"

definition has_operation :: "string \<Rightarrow> local_index \<Rightarrow> bool" where
  "has_operation op li \<longleftrightarrow> map_of (li_ops li) op \<noteq> None"

definition accepted_between :: "int \<Rightarrow> int \<Rightarrow> local_index \<Rightarrow> nat" where
  "accepted_between lo hi li =
     length (filter (\<lambda>(_, r). lo < o_seq r \<and> o_seq r \<le> hi \<and> o_status r = OpAccepted) (li_ops li))"

subsection \<open>Queries\<close>

text \<open>\<open>accepted_at <= ?\<close>: never true when the bound is \<open>NULL\<close>.\<close>

definition stale :: "string option \<Rightarrow> member_row \<Rightarrow> bool" where
  "stale refreshBefore m = (case refreshBefore of None \<Rightarrow> False | Some t \<Rightarrow> m_at m \<le> t)"

definition member_of :: "local_index \<Rightarrow> string \<Rightarrow> member_row option" where
  "member_of li i = map_of (li_members li) i"

definition live_member :: "local_index \<Rightarrow> string \<Rightarrow> member_row option" where
  "live_member li i = (case member_of li i of None \<Rightarrow> None | Some m \<Rightarrow> if m_value m = None then None else Some m)"

definition is_new :: "local_index \<Rightarrow> string \<times> desired_row \<Rightarrow> bool" where
  "is_new li d \<longleftrightarrow> live_member li (fst d) = None"

definition is_changed :: "local_index \<Rightarrow> string \<times> desired_row \<Rightarrow> bool" where
  "is_changed li d = (case live_member li (fst d) of None \<Rightarrow> False | Some m \<Rightarrow> m_payload m \<noteq> Some (d_payload (snd d)))"

definition is_refresh :: "local_index \<Rightarrow> string option \<Rightarrow> string \<times> desired_row \<Rightarrow> bool" where
  "is_refresh li rb d = (case live_member li (fst d) of None \<Rightarrow> False
     | Some m \<Rightarrow> m_payload m = Some (d_payload (snd d)) \<and> (m_uncertain m \<or> stale rb m))"

definition needs_addition :: "local_index \<Rightarrow> string option \<Rightarrow> string \<times> desired_row \<Rightarrow> bool" where
  "needs_addition li rb d = (case live_member li (fst d) of None \<Rightarrow> True
     | Some m \<Rightarrow> m_payload m \<noteq> Some (d_payload (snd d)) \<or> m_uncertain m \<or> stale rb m)"

definition desired_sorted :: "local_index \<Rightarrow> (string \<times> desired_row) list" where
  "desired_sorted li = sort_key fst (li_desired li)"

definition additions_page :: "string \<Rightarrow> nat \<Rightarrow> string option \<Rightarrow> bool \<Rightarrow> local_index \<Rightarrow> effect list" where
  "additions_page after limit rb unpreparedOnly li =
     map (d_value \<circ> snd) (take limit (filter (\<lambda>d. after < fst d \<and> needs_addition li rb d
        \<and> (unpreparedOnly \<longrightarrow> fst d \<notin> set (li_touched li))) (desired_sorted li)))"

definition removable :: "local_index \<Rightarrow> string \<times> member_row \<Rightarrow> bool" where
  "removable li im \<longleftrightarrow> live im \<and> map_of (li_desired li) (fst im) = None"

definition removals_page :: "string \<Rightarrow> nat \<Rightarrow> local_index \<Rightarrow> effect list" where
  "removals_page after limit li =
     map (the \<circ> m_value \<circ> snd) (take limit (filter (\<lambda>im. after < fst im \<and> removable li im) (sort_key fst (li_members li))))"

definition replacementPage :: "string \<Rightarrow> nat \<Rightarrow> local_index \<Rightarrow> effect list" where
  "replacementPage after limit li =
     map (d_value \<circ> snd) (take limit (filter (\<lambda>d. after < fst d \<and> fst d \<notin> set (li_touched li)) (desired_sorted li)))"

definition applyReplacement :: "local_index \<Rightarrow> local_index" where
  "applyReplacement li = li\<lparr>li_members := filter (\<lambda>(i, m). map_of (li_desired li) i \<noteq> None) (li_members li)\<rparr>"

record comparison =
  baselineMembers :: int
  uniqueMembers :: int
  newMembers :: int
  changedMembers :: int
  refreshMembers :: int
  unchangedMembers :: int
  cmp_removals :: int

definition compare_index :: "string option \<Rightarrow> local_index \<Rightarrow> comparison" where
  "compare_index rb li =
     (let unique = int (length (li_desired li));
          added = int (length (filter (is_new li) (li_desired li)));
          changed = int (length (filter (is_changed li) (li_desired li)));
          refresh = int (length (filter (is_refresh li rb) (li_desired li))) in
      \<lparr>baselineMembers = int (length (filter live (li_members li))),
       uniqueMembers = unique, newMembers = added, changedMembers = changed, refreshMembers = refresh,
       unchangedMembers = unique - added - changed - refresh,
       cmp_removals = int (length (filter (removable li) (li_members li)))\<rparr>)"

definition stats_entries :: "local_index \<Rightarrow> nat" where
  "stats_entries li = length (filter live (li_members li))"

definition stats_bytes :: "local_index \<Rightarrow> nat" where
  "stats_bytes li = sum_list (map (\<lambda>im. byteLength (effect_text (the (m_value (snd im))))) (filter live (li_members li)))"

subsection \<open>Pages of artifacts\<close>

definition maxPageBytes :: nat where
  "maxPageBytes = 15000000"

text \<open>
  \<open>artifactPages\<close> is a generator: the pages it yielded before a value that is too large were
  already consumed, so the pages come with the outcome of the loop.
\<close>

fun artifactPages :: "('a \<Rightarrow> nat) \<Rightarrow> nat \<Rightarrow> 'a list \<Rightarrow> 'a list \<Rightarrow> nat \<Rightarrow> 'a list list \<times> unit result" where
  "artifactPages len sz [] page bytes = ((if page = [] then [] else [page]), Inr ())"
| "artifactPages len sz (v # rows) page bytes =
     (if len v + 2 > maxPageBytes then ([], Inl (PersistenceError ''Member exceeds artifact page limit''))
      else if page \<noteq> [] \<and> (length page = sz \<or> bytes + len v + 1 > maxPageBytes)
      then (let (pages, r) = artifactPages len sz rows [v] (2 + len v) in (page # pages, r))
      else artifactPages len sz rows (page @ [v]) (bytes + len v + (if page = [] then 0 else 1)))"

definition json_of_member :: "stored_member \<Rightarrow> json" where
  "json_of_member m = JObj ([(''effect'', json_of_effect (sm_effect m)), (''acceptedAt'', JStr (sm_at m))]
     @ (if sm_uncertain m then [(''uncertain'', JBool True)] else []))"

definition desiredPages :: "local_index \<Rightarrow> effect list list \<times> unit result" where
  "desiredPages li = artifactPages (\<lambda>e. byteLength (effect_text e)) 1000 (map (d_value \<circ> snd) (desired_sorted li)) [] 2"

definition stored_members :: "local_index \<Rightarrow> stored_member list" where
  "stored_members li = map (\<lambda>im. \<lparr>sm_effect = the (m_value (snd im)), sm_at = m_at (snd im), sm_uncertain = m_uncertain (snd im)\<rparr>)
     (filter live (sort_key fst (li_members li)))"

definition memberPages :: "local_index \<Rightarrow> stored_member list list \<times> unit result" where
  "memberPages li = artifactPages (\<lambda>m. byteLength (json_text (json_of_member m))) 1000 (stored_members li) [] 2"

subsection \<open>Last writer wins\<close>

text \<open>
  The contract of a table of registers that are overwritten by greater sequence numbers only. What
  such a table holds after a series of updates depends on the set of the updates and not on their
  order, so an index can be rebuilt from stored updates in any order and an update can be applied
  again.
\<close>

definition win :: "('r \<Rightarrow> int) \<Rightarrow> 'r \<Rightarrow> 'r option \<Rightarrow> 'r option" where
  "win rseq w r = (case r of None \<Rightarrow> Some w | Some x \<Rightarrow> Some (if rseq x < rseq w then w else x))"

lemma win_simps [simp]: "win f w None = Some w" "win f w (Some x) = Some (if f x < f w then w else x)"
  by (simp_all add: win_def)

lemma fold_win_ex: "\<exists>q. fold (win f) ws (Some r) = Some q"
  by (induction ws arbitrary: r) auto

lemma fold_win_Some:
  "fold (win f) ws (Some r) = Some q \<Longrightarrow>
     (q = r \<or> q \<in> set ws \<and> f r < f q) \<and> (\<forall>w \<in> set ws. f w \<le> f q)"
proof (induction ws arbitrary: r)
  case (Cons w ws)
  then show ?case by (fastforce split: if_splits)
qed simp

lemma fold_win_determined:
  assumes "set ws = set vs" and comp: "\<And>x y. x \<in> set ws \<Longrightarrow> y \<in> set ws \<Longrightarrow> f x = f y \<Longrightarrow> x = y"
  shows "fold (win f) ws r = fold (win f) vs r"
proof (cases r)
  case None
  show ?thesis
  proof (cases ws)
    case Nil
    with assms show ?thesis by simp
  next
    case (Cons w ws')
    with assms obtain v vs' where vs: "vs = v # vs'" by (cases vs) auto
    obtain p q where p: "fold (win f) ws' (Some w) = Some p" and q: "fold (win f) vs' (Some v) = Some q"
      using fold_win_ex by metis
    have wp: "p \<in> set ws" "\<And>x. x \<in> set ws \<Longrightarrow> f x \<le> f p" using fold_win_Some[OF p] Cons by auto
    have vq: "q \<in> set ws" "\<And>x. x \<in> set ws \<Longrightarrow> f x \<le> f q" using fold_win_Some[OF q] vs assms(1) by auto
    have "p = q" using comp wp vq by (meson order_antisym)
    with p q None Cons vs show ?thesis by simp
  qed
next
  case (Some x)
  obtain p q where p: "fold (win f) ws (Some x) = Some p" and q: "fold (win f) vs (Some x) = Some q"
    using fold_win_ex by metis
  note P = fold_win_Some[OF p] and Q = fold_win_Some[OF q]
  have "p = q"
  proof (cases "f p = f x")
    case True
    with P Q assms(1) show ?thesis by force
  next
    case False
    with P have px: "p \<in> set ws" "f x < f p" by auto
    then have "f p \<le> f q" using Q assms(1) by auto
    with px Q have qx: "q \<in> set ws" using assms(1) by auto
    then have "f q \<le> f p" using P by auto
    with \<open>f p \<le> f q\<close> px qx comp show ?thesis by auto
  qed
  with p q Some show ?thesis by simp
qed

locale sequenced_table =
  fixes upd :: "'u \<Rightarrow> 't \<Rightarrow> 't" and look :: "'t \<Rightarrow> 'k \<Rightarrow> 'r option"
    and ukey :: "'u \<Rightarrow> 'k" and urow :: "'u \<Rightarrow> 'r" and rseq :: "'r \<Rightarrow> int"
  assumes look_upd: "look (upd u t) k = (if k = ukey u then win rseq (urow u) (look t k) else look t k)"
begin

definition rows_for :: "'k \<Rightarrow> 'u list \<Rightarrow> 'r list" where
  "rows_for k us = map urow (filter (\<lambda>u. ukey u = k) us)"

lemma look_fold: "look (fold upd us t) k = fold (win rseq) (rows_for k us) (look t k)"
  by (induction us arbitrary: t) (auto simp: look_upd rows_for_def)

definition compatible :: "'u set \<Rightarrow> bool" where
  "compatible U \<longleftrightarrow> (\<forall>u \<in> U. \<forall>v \<in> U. ukey u = ukey v \<longrightarrow> rseq (urow u) = rseq (urow v) \<longrightarrow> urow u = urow v)"

text \<open>The table is a function of the set of updates.\<close>

lemma fold_set_determined:
  assumes "set us = set vs" and "compatible (set us)"
  shows "look (fold upd us t) k = look (fold upd vs t) k"
  unfolding look_fold
proof (rule fold_win_determined)
  show "set (rows_for k us) = set (rows_for k vs)" using assms(1) by (simp add: rows_for_def)
  show "x = y" if "x \<in> set (rows_for k us)" "y \<in> set (rows_for k us)" "rseq x = rseq y" for x y
  proof -
    from that obtain u v where "u \<in> set us" "ukey u = k" "x = urow u" "v \<in> set us" "ukey v = k" "y = urow v"
      unfolding rows_for_def by auto
    with that(3) assms(2) show ?thesis unfolding compatible_def by simp
  qed
qed

text \<open>Replaying updates the table has already seen changes nothing.\<close>

lemma fold_replay:
  assumes "set vs \<subseteq> set us" and "compatible (set us)"
  shows "look (fold upd vs (fold upd us t)) k = look (fold upd us t) k"
  using fold_set_determined[of "us @ vs" us t k] assms by (simp add: sup_absorb1)

text \<open>What the table holds for a key dominates every update of the key and what was there before.\<close>

lemma fold_dominates:
  assumes "u \<in> set us"
  shows "\<exists>r. look (fold upd us t) (ukey u) = Some r \<and> rseq (urow u) \<le> rseq r"
proof -
  let ?ws = "rows_for (ukey u) us"
  have w: "urow u \<in> set ?ws" using assms by (auto simp: rows_for_def)
  obtain r where r: "fold (win rseq) ?ws (look t (ukey u)) = Some r"
  proof (cases "look t (ukey u)")
    case None
    from w obtain x xs where "?ws = x # xs" by (cases ?ws) auto
    with None fold_win_ex[of rseq xs x] that show ?thesis by auto
  next
    case (Some y)
    with fold_win_ex[of rseq ?ws y] that show ?thesis by auto
  qed
  have "rseq (urow u) \<le> rseq r"
  proof (cases "look t (ukey u)")
    case None
    from w obtain x xs where ws: "?ws = x # xs" by (cases ?ws) auto
    with r None have "fold (win rseq) xs (Some x) = Some r" by simp
    from fold_win_Some[OF this] w ws show ?thesis by auto
  next
    case (Some y)
    with r have "fold (win rseq) ?ws (Some y) = Some r" by simp
    from fold_win_Some[OF this] w show ?thesis by auto
  qed
  with r show ?thesis by (auto simp: look_fold)
qed

end

lemma map_of_apply_member:
  "map_of (apply_member u ms) k =
    (if k = update_key u then win m_seq (update_row u) (map_of ms k) else map_of ms k)"
  by (auto simp: apply_member_def update_row_def win_def split: option.splits)

interpretation members: sequenced_table apply_member map_of update_key update_row m_seq
  by unfold_locales (rule map_of_apply_member)

end
