(* ===== verification/LocalFacts.thy ===== *)
theory LocalFacts
  imports LocalIndex
begin

text \<open>
  What the operations of the local index keep and what its queries return: the well-formedness of
  the tables, the partition of the desired members by their comparison with the baseline, the pages
  of artifacts, and the round trip of the baseline through member pages.
\<close>

subsection \<open>Well-formed tables\<close>

definition desired_ok :: "string \<times> desired_row \<Rightarrow> bool" where
  "desired_ok d \<longleftrightarrow> ef_identityHash (d_value (snd d)) = fst d \<and> d_payload (snd d) = ef_payloadHash (d_value (snd d))"

definition member_ok :: "string \<times> member_row \<Rightarrow> bool" where
  "member_ok im \<longleftrightarrow> m_payload (snd im) = map_option ef_payloadHash (m_value (snd im))
     \<and> (case m_value (snd im) of None \<Rightarrow> True | Some e \<Rightarrow> ef_identityHash e = fst im)"

definition index_ok :: "local_index \<Rightarrow> bool" where
  "index_ok li \<longleftrightarrow> distinct (li_keys li)
     \<and> distinct (map fst (li_desired li)) \<and> list_all desired_ok (li_desired li)
     \<and> distinct (map fst (li_members li)) \<and> list_all member_ok (li_members li)
     \<and> distinct (map fst (li_ops li)) \<and> distinct (map (o_seq \<circ> snd) (li_ops li))
     \<and> distinct (li_touched li)"

lemma set_update_subset: "set (AList.update k v al) \<subseteq> insert (k, v) (set al)"
  by (induction al) auto

lemma list_all_update_row: "list_all P al \<Longrightarrow> P (k, v) \<Longrightarrow> list_all P (AList.update k v al)"
  using set_update_subset[of k v al] by (auto simp: list_all_iff)

lemma update_new: "map_of al k = None \<Longrightarrow> AList.update k v al = al @ [(k, v)]"
  by (induction al) (auto split: if_splits)

lemma map_update_same:
  "map_of al k = Some w \<Longrightarrow> f v = f w \<Longrightarrow> map (f \<circ> snd) (AList.update k v al) = map (f \<circ> snd) al"
  by (induction al) (auto split: if_splits)

lemma member_ok_fields [simp]:
  "member_ok (i, m\<lparr>m_uncertain := b\<rparr>) = member_ok (i, m)" "member_ok (i, m\<lparr>m_seq := n\<rparr>) = member_ok (i, m)"
  by (simp_all add: member_ok_def split: option.splits)

lemma create_index_ok [simp]: "index_ok create_index"
  by (simp add: index_ok_def create_index_def)

lemma append_effect_ok: "index_ok li \<Longrightarrow> append_effect e li = Inr li' \<Longrightarrow> index_ok li'"
  by (auto simp: index_ok_def append_effect_def desired_ok_def run_simps distinct_update split: option.splits
      intro!: list_all_update_row)

lemma append_row_ok: "index_ok li \<Longrightarrow> append_row row li = Inr li' \<Longrightarrow> index_ok li'"
proof -
  assume ok: "index_ok li" and run: "append_row row li = Inr li'"
  from run have key: "fst row \<notin> set (li_keys li)"
    and fold: "foldR append_effect (snd row) (li\<lparr>li_keys := li_keys li @ [fst row]\<rparr>) = Inr li'"
    by (auto simp: append_row_def run_simps)
  have "index_ok (li\<lparr>li_keys := li_keys li @ [fst row]\<rparr>)" using ok key by (simp add: index_ok_def)
  from foldR_invariant[where P = index_ok, OF fold this] show "index_ok li'" by (blast intro: append_effect_ok)
qed

lemma append_rows_ok: "index_ok li \<Longrightarrow> append_rows rows li = Inr li' \<Longrightarrow> index_ok li'"
  unfolding append_rows_def by (rule foldR_invariant[where P = index_ok]) (auto intro: append_row_ok)

lemma restore_desired_ok: "index_ok li \<Longrightarrow> restore_desired e li = Inr li' \<Longrightarrow> index_ok li'"
  by (auto simp: index_ok_def restore_desired_def desired_ok_def distinct_update split: if_splits
      intro!: list_all_update_row)

lemma restoreDesired_ok: "index_ok li \<Longrightarrow> restoreDesired es li = Inr li' \<Longrightarrow> index_ok li'"
  unfolding restoreDesired_def by (rule foldR_invariant[where P = index_ok]) (auto intro: restore_desired_ok)

lemma update_row_ok: "member_ok (update_key u, update_row u)"
  by (simp add: member_ok_def update_key_def update_row_def)

lemma apply_update_ok: "index_ok li \<Longrightarrow> index_ok (apply_update u li)"
  by (auto simp: index_ok_def apply_update_def apply_member_def distinct_update update_row_ok
      split: option.splits intro!: list_all_update_row)

lemma restoreMembers_ok: "index_ok li \<Longrightarrow> index_ok (restoreMembers ms li)"
  unfolding restoreMembers_def by (induction ms arbitrary: li) (auto intro: apply_update_ok)

lemma put_operation_ok: "index_ok li \<Longrightarrow> put_operation op sq st b li = Inr li' \<Longrightarrow> index_ok li'"
proof (cases "map_of (li_ops li) op")
  case (Some old)
  assume "index_ok li" "put_operation op sq st b li = Inr li'"
  with Some map_update_same[OF Some, of o_seq "old\<lparr>o_status := st\<rparr>"] show ?thesis
    by (auto simp: index_ok_def put_operation_def distinct_update)
next
  case None
  assume "index_ok li" "put_operation op sq st b li = Inr li'"
  moreover have "op \<notin> fst ` set (li_ops li)" using None by (simp add: map_of_eq_None_iff)
  ultimately show ?thesis
    using None by (auto simp: index_ok_def put_operation_def update_new list_ex_iff case_prod_unfold split: if_splits)
qed

lemma touch_ok: "index_ok li \<Longrightarrow> index_ok (touch i li)"
  by (auto simp: index_ok_def touch_def)

lemma all_uncertain_ok: "index_ok li \<Longrightarrow> index_ok (all_uncertain li)"
  by (auto simp: index_ok_def all_uncertain_def list_all_iff comp_def case_prod_unfold)

lemma new_generation_ok: "index_ok li \<Longrightarrow> index_ok (new_generation li)"
  by (auto simp: index_ok_def new_generation_def list_all_iff comp_def case_prod_unfold distinct_filter_keys)

lemma applyReplacement_ok: "index_ok li \<Longrightarrow> index_ok (applyReplacement li)"
  by (auto simp: index_ok_def applyReplacement_def list_all_iff distinct_filter_keys)

lemmas index_ok_intros =
  append_rows_ok restoreDesired_ok apply_update_ok restoreMembers_ok put_operation_ok touch_ok all_uncertain_ok
  new_generation_ok applyReplacement_ok

subsection \<open>Comparison with the baseline\<close>

lemma needs_addition_cases: "needs_addition li rb d \<longleftrightarrow> is_new li d \<or> is_changed li d \<or> is_refresh li rb d"
  by (auto simp: needs_addition_def is_new_def is_changed_def is_refresh_def split: option.splits)

lemma length_filter_disjoint:
  "(\<And>x. x \<in> set xs \<Longrightarrow> \<not> (P x \<and> Q x)) \<Longrightarrow> length (filter (\<lambda>x. P x \<or> Q x) xs) = length (filter P xs) + length (filter Q xs)"
  by (induction xs) auto

lemma comparison_additions:
  "newMembers (compare_index rb li) + changedMembers (compare_index rb li) + refreshMembers (compare_index rb li)
   = int (length (filter (needs_addition li rb) (li_desired li)))"
proof -
  have "filter (needs_addition li rb) (li_desired li)
      = filter (\<lambda>d. is_new li d \<or> (is_changed li d \<or> is_refresh li rb d)) (li_desired li)"
    by (rule filter_cong) (simp_all add: needs_addition_cases)
  also have "length \<dots> = length (filter (is_new li) (li_desired li))
      + length (filter (\<lambda>d. is_changed li d \<or> is_refresh li rb d) (li_desired li))"
    by (rule length_filter_disjoint) (auto simp: is_new_def is_changed_def is_refresh_def)
  also have "length (filter (\<lambda>d. is_changed li d \<or> is_refresh li rb d) (li_desired li))
      = length (filter (is_changed li) (li_desired li)) + length (filter (is_refresh li rb) (li_desired li))"
    by (rule length_filter_disjoint) (auto simp: is_changed_def is_refresh_def split: option.splits)
  finally show ?thesis by (simp add: compare_index_def Let_def)
qed

lemma comparison_partition:
  "unchangedMembers (compare_index rb li) = int (length (filter (\<lambda>d. \<not> needs_addition li rb d) (li_desired li)))
   \<and> uniqueMembers (compare_index rb li) = newMembers (compare_index rb li) + changedMembers (compare_index rb li)
       + refreshMembers (compare_index rb li) + unchangedMembers (compare_index rb li)"
proof -
  have "int (length (li_desired li)) = int (length (filter (needs_addition li rb) (li_desired li)))
      + int (length (filter (\<lambda>d. \<not> needs_addition li rb d) (li_desired li)))"
    using length_filter_split[of "li_desired li" "needs_addition li rb"] by linarith
  with comparison_additions[of rb li] show ?thesis by (simp add: compare_index_def Let_def)
qed

lemma comparison_removals:
  "cmp_removals (compare_index rb li) \<le> baselineMembers (compare_index rb li)"
proof -
  have "length (filter (removable li) ms) \<le> length (filter live ms)" for ms
    by (induction ms) (auto simp: removable_def)
  then show ?thesis by (simp add: compare_index_def Let_def)
qed

subsection \<open>Pages\<close>

lemma filter_sort_key_length: "length (filter P (sort_key f xs)) = length (filter P xs)"
  by (simp add: filter_sort)

text \<open>An empty first page of additions means that nothing desired is missing, changed or due for refresh.\<close>

lemma additions_page_empty:
  assumes "[] \<notin> fst ` set (li_desired li)"
  shows "additions_page [] (Suc n) rb False li = [] \<longleftrightarrow> (\<forall>d \<in> set (li_desired li). \<not> needs_addition li rb d)"
proof -
  have "[] < fst d" if "d \<in> set (li_desired li)" for d
    using assms that by (cases "fst d") (auto simp: image_iff)
  then show ?thesis
    by (auto simp: additions_page_def desired_sorted_def filter_empty_conv)
qed

lemma removals_page_empty:
  assumes "[] \<notin> fst ` set (li_members li)"
  shows "removals_page [] (Suc n) li = [] \<longleftrightarrow> (\<forall>m \<in> set (li_members li). \<not> removable li m)"
proof -
  have "[] < fst d" if "d \<in> set (li_members li)" for d
    using assms that by (cases "fst d") (auto simp: image_iff)
  then show ?thesis
    by (auto simp: removals_page_def filter_empty_conv)
qed

text \<open>
  Walking a keyed, sorted list page by page, each page starting after the last key of the page
  before, visits every entry exactly once and in order.
\<close>

fun walk_pages :: "(string \<Rightarrow> (string \<times> 'b) list) \<Rightarrow> nat \<Rightarrow> string \<Rightarrow> (string \<times> 'b) list" where
  "walk_pages page 0 after = []"
| "walk_pages page (Suc n) after =
     (if page after = [] then [] else page after @ walk_pages page n (fst (last (page after))))"

lemma sorted_wrt_le_last:
  "sorted_wrt (\<lambda>x y. fst x < fst y) (xs :: (string \<times> 'b) list) \<Longrightarrow> x \<in> set xs \<Longrightarrow> fst x \<le> fst (last xs)"
  by (induction xs) (auto dest: last_in_set simp: less_imp_le)

lemma sorted_take_drop_filter:
  assumes "sorted_wrt (\<lambda>x y. fst x < fst y) (xs :: (string \<times> 'b) list)" and "take (Suc n) xs \<noteq> []"
  shows "filter (\<lambda>d. fst (last (take (Suc n) xs)) < fst d) xs = drop (Suc n) xs"
proof -
  let ?p = "take (Suc n) xs" and ?r = "drop (Suc n) xs"
  have split: "xs = ?p @ ?r" by simp
  have sw: "sorted_wrt (\<lambda>x y. fst x < fst y) (?p @ ?r)" using assms(1) by simp
  have lst: "last ?p \<in> set ?p" using assms(2) by (rule last_in_set)
  have "fst x \<le> fst (last ?p)" if "x \<in> set ?p" for x
    using sw[unfolded sorted_wrt_append] that by (blast intro: sorted_wrt_le_last)
  then have "filter (\<lambda>d. fst (last ?p) < fst d) ?p = []" by (auto simp: filter_empty_conv not_less)
  moreover have "filter (\<lambda>d. fst (last ?p) < fst d) ?r = ?r"
    using sw[unfolded sorted_wrt_append] lst by (auto simp: filter_id_conv simp del: append_take_drop_id)
  ultimately show ?thesis
    by (subst split) (simp only: filter_append append_Nil)
qed

lemma filter_less_filter:
  "after < k \<Longrightarrow> filter (\<lambda>d. k < fst d) (filter (\<lambda>d. after < fst d) L) = filter (\<lambda>d. k < fst d) L"
  for after k :: string
  unfolding filter_filter by (rule filter_cong) (auto intro: order_less_trans)

lemma walk_pages_complete:
  assumes "sorted_wrt (\<lambda>x y. fst x < fst y) (L :: (string \<times> 'b) list)"
    and "length (filter (\<lambda>d. after < fst d) L) < n" and "0 < limit"
  shows "walk_pages (\<lambda>a. take limit (filter (\<lambda>d. a < fst d) L)) n after = filter (\<lambda>d. after < fst d) L"
  using assms(2)
proof (induction n arbitrary: after)
  case (Suc n)
  let ?F = "filter (\<lambda>d. after < fst d) L"
  obtain l where l: "limit = Suc l" using assms(3) gr0_implies_Suc by blast
  show ?case
  proof (cases "?F = []")
    case False
    let ?p = "take limit ?F"
    let ?k = "fst (last ?p)"
    have ne: "?p \<noteq> []" using False l by simp
    have sF: "sorted_wrt (\<lambda>x y. fst x < fst y) ?F" using assms(1) by (rule sorted_wrt_filter)
    have "last ?p \<in> set ?F" using last_in_set[OF ne] by (rule in_set_takeD)
    then have "after < ?k" by simp
    from filter_less_filter[OF this, of L] have k: "filter (\<lambda>d. ?k < fst d) L = drop limit ?F"
      using sorted_take_drop_filter[OF sF, of l] ne l by simp
    have "length (drop limit ?F) < n" using Suc.prems False l by (cases ?F) auto
    with Suc.IH[of ?k] k have "walk_pages (\<lambda>a. take limit (filter (\<lambda>d. a < fst d) L)) n ?k = drop limit ?F" by simp
    with ne show ?thesis by (simp only: walk_pages.simps if_False append_take_drop_id)
  qed simp
qed simp

text \<open>The walk of \<open>deliver\<close>: the next page starts after the identity of the last effect.\<close>

fun walk_effects :: "(string \<Rightarrow> effect list) \<Rightarrow> nat \<Rightarrow> string \<Rightarrow> effect list" where
  "walk_effects page 0 after = []"
| "walk_effects page (Suc n) after =
     (if page after = [] then [] else page after @ walk_effects page n (ef_identityHash (last (page after))))"

lemma walk_effects_map:
  assumes "\<And>x. x \<in> set L \<Longrightarrow> ef_identityHash (g x) = fst x"
  shows "walk_effects (\<lambda>a. map g (take limit (filter (\<lambda>d. a < fst d) L))) n after =
     map g (walk_pages (\<lambda>a. take limit (filter (\<lambda>d. a < fst d) L)) n after)"
proof (induction n arbitrary: after)
  case (Suc n)
  let ?p = "take limit (filter (\<lambda>d. after < fst d) L)"
  have "ef_identityHash (last (map g ?p)) = fst (last ?p)" if "?p \<noteq> []"
  proof -
    have "last ?p \<in> set L" using last_in_set[OF that] by (auto dest: in_set_takeD)
    with assms that show ?thesis by (simp add: last_map)
  qed
  with Suc.IH show ?case by simp
qed simp

lemma strictly_sorted: "distinct (map fst xs) \<Longrightarrow> sorted_wrt (\<lambda>x y. fst x < fst y) (sort_key fst xs)"
  for xs :: "(string \<times> 'b) list"
proof -
  assume "distinct (map fst xs)"
  then have "distinct (map fst (sort_key fst xs))" by (simp add: distinct_map inj_on_def)
  then have "sorted_wrt (<) (map fst (sort_key fst xs))" by (simp add: strict_sorted_iff)
  then show ?thesis by (simp add: sorted_wrt_map)
qed

lemma additions_walk:
  assumes "index_ok li" and "length (li_desired li) < n" and "0 < limit"
  shows "walk_effects (\<lambda>a. additions_page a limit rb fresh li) n [] =
     map (d_value \<circ> snd) (filter (\<lambda>d. [] < fst d \<and> needs_addition li rb d \<and> (fresh \<longrightarrow> fst d \<notin> set (li_touched li))) (desired_sorted li))"
proof -
  let ?L = "filter (\<lambda>d. needs_addition li rb d \<and> (fresh \<longrightarrow> fst d \<notin> set (li_touched li))) (desired_sorted li)"
  have page: "additions_page a limit rb fresh li = map (d_value \<circ> snd) (take limit (filter (\<lambda>d. a < fst d) ?L))" for a
    by (simp add: additions_page_def conj_ac)
  have hash: "ef_identityHash ((d_value \<circ> snd) d) = fst d" if "d \<in> set ?L" for d
    using that assms(1) by (auto simp: index_ok_def desired_sorted_def list_all_iff desired_ok_def)
  have srt: "sorted_wrt (\<lambda>x y. fst x < fst y) ?L"
    using assms(1) by (auto simp: index_ok_def desired_sorted_def intro!: sorted_wrt_filter strictly_sorted)
  have len: "length (filter (\<lambda>d. [] < fst d) ?L) < n"
    using assms(2) by (rule le_less_trans[rotated]) (auto simp: desired_sorted_def filter_sort intro: order_trans[OF length_filter_le])
  have "walk_effects (\<lambda>a. map (d_value \<circ> snd) (take limit (filter (\<lambda>d. a < fst d) ?L))) n [] =
      map (d_value \<circ> snd) (walk_pages (\<lambda>a. take limit (filter (\<lambda>d. a < fst d) ?L)) n [])"
    by (rule walk_effects_map) (rule hash)
  also note walk_pages_complete[OF srt len assms(3)]
  finally show ?thesis unfolding page by (simp add: conj_ac comp_def)
qed

lemma removals_walk:
  assumes "index_ok li" and "length (li_members li) < n" and "0 < limit"
  shows "walk_effects (\<lambda>a. removals_page a limit li) n [] =
     map (the \<circ> m_value \<circ> snd) (filter (\<lambda>im. [] < fst im \<and> removable li im) (sort_key fst (li_members li)))"
proof -
  let ?L = "filter (removable li) (sort_key fst (li_members li))"
  have page: "removals_page a limit li = map (the \<circ> m_value \<circ> snd) (take limit (filter (\<lambda>d. a < fst d) ?L))" for a
    by (simp add: removals_page_def conj_ac)
  have hash: "ef_identityHash ((the \<circ> m_value \<circ> snd) d) = fst d" if "d \<in> set ?L" for d
    using that assms(1) by (fastforce simp: index_ok_def list_all_iff member_ok_def removable_def live_def split: option.splits)
  have srt: "sorted_wrt (\<lambda>x y. fst x < fst y) ?L"
    using assms(1) by (auto simp: index_ok_def intro!: sorted_wrt_filter strictly_sorted)
  have len: "length (filter (\<lambda>d. [] < fst d) ?L) < n"
    using assms(2) by (rule le_less_trans[rotated]) (auto simp: filter_sort intro: order_trans[OF length_filter_le])
  have "walk_effects (\<lambda>a. map (the \<circ> m_value \<circ> snd) (take limit (filter (\<lambda>d. a < fst d) ?L))) n [] =
      map (the \<circ> m_value \<circ> snd) (walk_pages (\<lambda>a. take limit (filter (\<lambda>d. a < fst d) ?L)) n [])"
    by (rule walk_effects_map) (rule hash)
  also note walk_pages_complete[OF srt len assms(3)]
  finally show ?thesis unfolding page by (simp add: conj_ac comp_def)
qed

subsection \<open>Artifact pages\<close>

definition page_bytes :: "('a \<Rightarrow> nat) \<Rightarrow> 'a list \<Rightarrow> nat" where
  "page_bytes len page = 2 + sum_list (map len page) + (length page - 1)"

lemma artifactPages_spec:
  assumes "artifactPages len sz rows page bytes = (pages, Inr ())" and "0 < sz" and "length page \<le> sz"
    and "bytes = page_bytes len page" and "bytes \<le> maxPageBytes"
  shows "concat pages = page @ rows"
    and "\<forall>p \<in> set pages. p \<noteq> [] \<and> length p \<le> sz \<and> page_bytes len p \<le> maxPageBytes"
proof -
  have "concat pages = page @ rows \<and> (\<forall>p \<in> set pages. p \<noteq> [] \<and> length p \<le> sz \<and> page_bytes len p \<le> maxPageBytes)"
    using assms
  proof (induction len sz rows page bytes arbitrary: pages rule: artifactPages.induct)
    case (2 len sz v rows page bytes)
    show ?case
    proof (cases "page \<noteq> [] \<and> (length page = sz \<or> bytes + len v + 1 > maxPageBytes)")
      case True
      with "2.prems"(1) obtain ps where "artifactPages len sz rows [v] (2 + len v) = (ps, Inr ())"
        and "pages = page # ps" and "\<not> len v + 2 > maxPageBytes"
        by (auto simp: case_prod_unfold Let_def prod_eq_iff split: if_splits)
      with "2.IH"(1)[of ps] "2.prems" True show ?thesis by (auto simp: page_bytes_def)
    next
      case False
      with "2.prems"(1) have "artifactPages len sz rows (page @ [v]) (bytes + len v + (if page = [] then 0 else 1)) = (pages, Inr ())"
        and "\<not> len v + 2 > maxPageBytes"
        by (auto split: if_splits)
      with "2.IH"(2)[of pages] "2.prems" False show ?thesis by (cases page) (auto simp: page_bytes_def)
    qed
  qed (auto split: if_splits)
  then show "concat pages = page @ rows"
    and "\<forall>p \<in> set pages. p \<noteq> [] \<and> length p \<le> sz \<and> page_bytes len p \<le> maxPageBytes" by auto
qed

text \<open>The counter \<open>bytes\<close> is the exact size of the JSON array of the page.\<close>

lemma page_bytes_text:
  "page_bytes (\<lambda>x. byteLength (json_text (f x))) xs = byteLength (json_text (JArr (map f xs)))"
  by (simp add: page_bytes_def byteLength_join comp_def char_bytes_def)

lemma artifactPages_ok:
  "(\<And>v. v \<in> set rows \<Longrightarrow> len v + 2 \<le> maxPageBytes) \<Longrightarrow> \<exists>pages. artifactPages len sz rows page bytes = (pages, Inr ())"
proof (induction len sz rows page bytes rule: artifactPages.induct)
  case (2 len sz v rows page bytes)
  have v: "\<not> len v + 2 > maxPageBytes" using "2.prems"[of v] by simp
  have rows: "\<And>w. w \<in> set rows \<Longrightarrow> len w + 2 \<le> maxPageBytes" using "2.prems" by simp
  show ?case
  proof (cases "page \<noteq> [] \<and> (length page = sz \<or> bytes + len v + 1 > maxPageBytes)")
    case True
    from "2.IH"(1)[OF v True rows] obtain ps where "artifactPages len sz rows [v] (2 + len v) = (ps, Inr ())" by blast
    with v True show ?thesis by simp
  next
    case False
    from "2.IH"(2)[OF v False rows] show ?thesis
      unfolding artifactPages.simps(2) using v False by (simp only: if_False)
  qed
qed auto

subsection \<open>The baseline of a new run\<close>

text \<open>
  A new logical run starts from the live members of the previous one, with their sequences reset.
  Restoring the pages of these members into an empty index gives the same membership.
\<close>

definition generation_row :: "member_row \<Rightarrow> member_row option" where
  "generation_row m = (if m_value m = None then None else Some (m\<lparr>m_seq := 0\<rparr>))"

lemma map_of_new_generation:
  "distinct (map fst ms) \<Longrightarrow>
   map_of (map (\<lambda>(i, m). (i, m\<lparr>m_seq := 0\<rparr>)) (filter live ms)) i = Option.bind (map_of ms i) generation_row"
proof (induction ms)
  case (Cons im ms)
  obtain j m where im: "im = (j, m)" by fastforce
  have "map_of ms j = None" using Cons.prems im by (simp add: map_of_eq_None_iff)
  with Cons im show ?case by (auto simp: live_def generation_row_def)
qed simp

lemma fold_apply_updates:
  "fold (\<lambda>m. apply_update (g m)) xs li = li\<lparr>li_members := fold apply_member (map g xs) (li_members li)\<rparr>"
  by (induction xs arbitrary: li) (simp_all add: apply_update_def)

lemma fold_apply_fresh:
  assumes "distinct (map update_key us)"
  shows "map_of (fold apply_member us []) i = map_option update_row (find (\<lambda>u. update_key u = i) us)"
proof -
  have one: "filter (\<lambda>u. update_key u = i) us = (case find (\<lambda>u. update_key u = i) us of None \<Rightarrow> [] | Some u \<Rightarrow> [u])"
    using assms
  proof (induction us)
    case (Cons u us)
    have "filter (\<lambda>v. update_key v = i) us = []" if "update_key u = i"
      using Cons.prems that by (metis (mono_tags, lifting) distinct.simps(2) filter_False image_eqI list.map(2) set_map)
    with Cons show ?case by simp
  qed simp
  show ?thesis
    unfolding members.look_fold members.rows_for_def one by (simp split: option.splits)
qed

definition stored_member_of :: "string \<times> member_row \<Rightarrow> stored_member" where
  "stored_member_of im = \<lparr>sm_effect = the (m_value (snd im)), sm_at = m_at (snd im), sm_uncertain = m_uncertain (snd im)\<rparr>"

lemma stored_member_row:
  "member_ok im \<Longrightarrow> live im \<Longrightarrow> update_key (baseline_update (stored_member_of im)) = fst im
   \<and> Some (update_row (baseline_update (stored_member_of im))) = generation_row (snd im)"
  by (auto simp: member_ok_def live_def update_key_def update_row_def baseline_update_def stored_member_of_def generation_row_def)

lemma find_map_of:
  assumes "distinct (map fst xs)" and "\<And>x. x \<in> set xs \<Longrightarrow> k (f x) = fst x \<and> Some (r (f x)) = g (snd x)"
  shows "map_option r (find (\<lambda>y. k y = i) (map f xs)) = Option.bind (map_of xs i) g"
  using assms by (induction xs) auto

lemma map_of_filter_live:
  "distinct (map fst ms) \<Longrightarrow> Option.bind (map_of (filter live ms) i) generation_row = Option.bind (map_of ms i) generation_row"
proof (induction ms)
  case (Cons im ms)
  obtain j m where im: "im = (j, m)" by fastforce
  have "map_of ms j = None" "map_of (filter live ms) j = None"
    using Cons.prems im by (auto simp: map_of_eq_None_iff)
  with Cons im show ?case by (auto simp: live_def generation_row_def)
qed simp

lemma map_of_sort_key: "distinct (map fst xs) \<Longrightarrow> map_of (sort_key fst xs) = map_of xs"
  by (rule map_of_inject_set[THEN iffD2]) (simp_all add: distinct_map inj_on_def)

lemma baseline_round_trip:
  assumes "index_ok li"
  shows "member_of (restoreMembers (stored_members li) create_index) i = member_of (new_generation li) i"
proof -
  let ?ms = "sort_key fst (li_members li)"
  let ?xs = "filter live ?ms"
  have d: "distinct (map fst (li_members li))" and all: "list_all member_ok (li_members li)"
    using assms by (auto simp: index_ok_def)
  have ds: "distinct (map fst ?ms)" using d by (simp add: distinct_map inj_on_def)
  have rows: "k \<in> set ?xs \<Longrightarrow> update_key (baseline_update (stored_member_of k)) = fst k
      \<and> Some (update_row (baseline_update (stored_member_of k))) = generation_row (snd k)" for k
    using all by (intro stored_member_row) (auto simp: list_all_iff)
  have sm: "stored_members li = map stored_member_of ?xs"
    by (simp add: stored_members_def stored_member_of_def)
  have keys: "map update_key (map baseline_update (stored_members li)) = map fst ?xs"
    unfolding sm using rows by simp
  have "member_of (restoreMembers (stored_members li) create_index) i
      = map_option update_row (find (\<lambda>u. update_key u = i) (map (\<lambda>k. baseline_update (stored_member_of k)) ?xs))"
    unfolding member_of_def restoreMembers_def fold_apply_updates
    using fold_apply_fresh[of "map baseline_update (stored_members li)" i, unfolded keys, OF distinct_filter_keys[OF ds]]
    by (simp add: create_index_def sm comp_def)
  also have "\<dots> = Option.bind (map_of ?xs i) generation_row"
    by (rule find_map_of) (use rows distinct_filter_keys[OF ds, of live] in auto)
  also have "\<dots> = Option.bind (map_of (li_members li) i) generation_row"
    using map_of_filter_live[OF ds, of i] map_of_sort_key[OF d] by simp
  finally show ?thesis
    using map_of_new_generation[OF d, of i] by (simp add: member_of_def new_generation_def)
qed

end
