(* ===== verification/Artifacts.thy ===== *)
theory Artifacts
  imports LocalFacts
begin

text \<open>
  Immutable artifacts in object storage: the two cloud providers of \<open>artifacts/cloud.ts\<close>, their
  choice in \<open>artifacts/config.ts\<close>, and the checksummed, scoped and bounded artifacts of
  \<open>artifacts/store.ts\<close>. A bucket maps keys to bytes; an upload may fail before or after the
  object is stored. SHA-256 and gzip are parameters.
\<close>

subsection \<open>Run scope\<close>

datatype run_mode = ModeUpsert | ModeMirror

datatype extraction_mode = ExtractCursor | ExtractFull

record run_scope =
  sc_workspaceId :: string
  sc_syncId :: string
  sc_taskId :: string
  sc_logicalRunId :: string
  sc_configRevision :: string
  sc_targetIdentity :: string
  sc_mode :: run_mode
  sc_extraction :: extraction_mode
  sc_insertOnly :: bool

subsection \<open>Object stores\<close>

datatype upload_fault = UploadFailed | UploadLost

record bucket =
  bk_objects :: "(string \<times> string) list"
  bk_faults :: "upload_fault option list"

definition next_fault :: "bucket \<Rightarrow> upload_fault option \<times> bucket" where
  "next_fault b = (case bk_faults b of [] \<Rightarrow> (None, b) | f # fs \<Rightarrow> (f, b\<lparr>bk_faults := fs\<rparr>))"

text \<open>\<open>collect\<close> reads a stream of chunks and stops at the declared length.\<close>

fun collect_chunks :: "string list \<Rightarrow> nat \<Rightarrow> nat \<Rightarrow> string \<Rightarrow> string result" where
  "collect_chunks [] maxBytes sz acc = Inr acc"
| "collect_chunks (c # cs) maxBytes sz acc =
     bindR (ensureR (sz + length c \<le> maxBytes) ''Object exceeds declared byte limit'') (\<lambda>_.
     collect_chunks cs maxBytes (sz + length c) (acc @ c))"

definition request_failed :: exn where
  "request_failed = PlainError ''Object storage request failed''"

definition gcs_get :: "string \<Rightarrow> bool \<Rightarrow> string \<Rightarrow> nat \<Rightarrow> bucket \<Rightarrow> string result" where
  "gcs_get prefix aborted key maxBytes b =
     (if aborted then Inl AbortError
      else case map_of (bk_objects b) (prefix @ key) of
          None \<Rightarrow> Inl request_failed
        | Some data \<Rightarrow> collect_chunks [data] maxBytes 0 [])"

text \<open>
  The precondition \<open>ifGenerationMatch: 0\<close> fails with code 412 when the object exists; then the
  stored bytes are compared. Any other error is rethrown.
\<close>

definition gcs_put :: "string \<Rightarrow> bool \<Rightarrow> string \<Rightarrow> string \<Rightarrow> (bucket, unit) oper" where
  "gcs_put prefix aborted key data b =
     (if aborted then (Inl AbortError, b)
      else let (f, b') = next_fault b in
        if f = Some UploadFailed then (Inl request_failed, b')
        else if map_of (bk_objects b') (prefix @ key) \<noteq> None then
          (if f = None then
             (bindR (gcs_get prefix aborted key (length data) b') (\<lambda>existing.
                ensureR (existing = data) ''Immutable object collision''), b')
           else (Inl request_failed, b'))
        else (if f = None then Inr () else Inl request_failed,
              b'\<lparr>bk_objects := (prefix @ key, data) # bk_objects b'\<rparr>))"

definition s3_get :: "string \<Rightarrow> bool \<Rightarrow> string \<Rightarrow> nat \<Rightarrow> bucket \<Rightarrow> string result" where
  "s3_get prefix aborted key maxBytes b =
     (if aborted then Inl AbortError
      else case map_of (bk_objects b) (prefix @ key) of
          None \<Rightarrow> Inl (PersistenceError ''Missing object body'')
        | Some data \<Rightarrow> collect_chunks [data] maxBytes 0 [])"

definition s3_put :: "string \<Rightarrow> bool \<Rightarrow> string \<Rightarrow> string \<Rightarrow> (bucket, unit) oper" where
  "s3_put prefix aborted key data b =
     (if aborted then (Inl AbortError, b)
      else let (f, b') = next_fault b in
        if f = Some UploadFailed then (Inl request_failed, b')
        else if map_of (bk_objects b') (prefix @ key) \<noteq> None then
          (if f = None then
             (bindR (s3_get prefix aborted key (length data) b') (\<lambda>existing.
                ensureR (existing = data) ''Immutable object collision''), b')
           else (Inl request_failed, b'))
        else (if f = None then Inr () else Inl request_failed,
              b'\<lparr>bk_objects := (prefix @ key, data) # bk_objects b'\<rparr>))"

subsection \<open>Configuration\<close>

datatype cloud = Gcs | S3

record store_config =
  cf_cloud :: cloud
  cf_prefix :: string

definition alnum :: "char \<Rightarrow> bool" where
  "alnum c = (let n = (of_char c :: nat) in (97 \<le> n \<and> n \<le> 122) \<or> (65 \<le> n \<and> n \<le> 90) \<or> (48 \<le> n \<and> n \<le> 57))"

definition bucket_name_ok :: "string \<Rightarrow> bool" where
  "bucket_name_ok s \<longleftrightarrow> 3 \<le> length s \<and> length s \<le> 222 \<and> alnum (hd s)
     \<and> list_all (\<lambda>c. alnum c \<or> c \<in> set ''._-'') (tl s)"

definition object_prefix_ok :: "string \<Rightarrow> bool" where
  "object_prefix_ok s \<longleftrightarrow> list_all (\<lambda>c. alnum c \<or> c \<in> set ''/_-'') s"

definition parse_failed :: exn where
  "parse_failed = PlainError ''ZodError''"

text \<open>\<open>objectStorageFromEnv\<close>, without the endpoint and region that only the S3 client sees.\<close>

definition objectStorageFromEnv :: "(string \<times> string) list \<Rightarrow> store_config result" where
  "objectStorageFromEnv env =
     (let kind = map_of env ''RETL_OBJECT_STORE''; bname = map_of env ''RETL_OBJECT_BUCKET'';
          prefix = (case map_of env ''RETL_OBJECT_PREFIX'' of None \<Rightarrow> ''reverse-etl/'' | Some p \<Rightarrow> p) in
      if (case kind of None \<Rightarrow> False | Some k \<Rightarrow> k \<noteq> ''gcs'' \<and> k \<noteq> ''s3'')
         \<or> (case bname of None \<Rightarrow> False | Some n \<Rightarrow> \<not> bucket_name_ok n) \<or> \<not> object_prefix_ok prefix
      then Inl parse_failed
      else case kind of
          None \<Rightarrow> Inl (PlainError ''RETL_OBJECT_STORE is required (gcs or s3)'')
        | Some k \<Rightarrow>
            if bname = None then Inl (PlainError ''RETL_OBJECT_BUCKET is required'')
            else Inr \<lparr>cf_cloud = (if k = ''gcs'' then Gcs else S3),
                      cf_prefix = (if prefix \<noteq> [] \<and> last prefix = CHR ''/'' then prefix else prefix @ ''/'')\<rparr>)"

definition cloud_get :: "store_config \<Rightarrow> bool \<Rightarrow> string \<Rightarrow> nat \<Rightarrow> bucket \<Rightarrow> string result" where
  "cloud_get c = (case cf_cloud c of Gcs \<Rightarrow> gcs_get (cf_prefix c) | S3 \<Rightarrow> s3_get (cf_prefix c))"

definition cloud_put :: "store_config \<Rightarrow> bool \<Rightarrow> string \<Rightarrow> string \<Rightarrow> (bucket, unit) oper" where
  "cloud_put c = (case cf_cloud c of Gcs \<Rightarrow> gcs_put (cf_prefix c) | S3 \<Rightarrow> s3_put (cf_prefix c))"

subsection \<open>Artifacts\<close>

record artifact_ref =
  ar_key :: string
  ar_sha256 :: string
  ar_bytes :: nat
  ar_compressedBytes :: nat

record artifact_env =
  e_sha :: "string \<Rightarrow> string"
  e_gzip :: "string \<Rightarrow> string"
  e_gunzip :: "string \<Rightarrow> nat \<Rightarrow> string option"
  e_store :: store_config

record artifact_world =
  w_bucket :: bucket
  w_aborted :: bool

definition artifact_ref_ok :: "artifact_ref \<Rightarrow> bool" where
  "artifact_ref_ok r \<longleftrightarrow> hex64 (ar_sha256 r) \<and> 0 < ar_bytes r \<and> ar_bytes r \<le> 16000000
     \<and> 0 < ar_compressedBytes r \<and> ar_compressedBytes r \<le> 16000000"

definition artifact_prefix :: "(string \<Rightarrow> string) \<Rightarrow> run_scope \<Rightarrow> string" where
  "artifact_prefix sha sc = ''v1/'' @ text_hash sha (JArr [JStr (sc_workspaceId sc), JStr (sc_syncId sc),
     JStr (sc_configRevision sc), JStr (sc_targetIdentity sc)]) @ ''/''"

definition artifact_key :: "(string \<Rightarrow> string) \<Rightarrow> run_scope \<Rightarrow> string \<Rightarrow> string" where
  "artifact_key sha sc digest = artifact_prefix sha sc @ digest @ ''.json.gz''"

definition versioned :: "json \<Rightarrow> json" where
  "versioned v = JObj [(''version'', JInt 1), (''value'', v)]"

definition upload_failed :: exn where
  "upload_failed = PlainError ''Reverse ETL artifact upload failed; no delivery is authorized''"

definition corrupt_artifact :: exn where
  "corrupt_artifact = PlainError ''Reverse ETL recovery artifact is missing or corrupt; delivery blocked''"

definition throwIfAborted :: "('a artifact_world_scheme, unit) oper" where
  "throwIfAborted = (\<lambda>w. (if w_aborted w then Inl AbortError else Inr (), w))"

definition upload :: "('b artifact_env_scheme) \<Rightarrow> string \<Rightarrow> string \<Rightarrow> ('a artifact_world_scheme, unit) oper" where
  "upload env key data w = (case cloud_put (e_store env) (w_aborted w) key data (w_bucket w) of
      (r, b) \<Rightarrow> (r, w\<lparr>w_bucket := b\<rparr>))"

definition put_artifact ::
    "('b artifact_env_scheme) \<Rightarrow> run_scope \<Rightarrow> json \<Rightarrow> ('a artifact_world_scheme, artifact_ref) oper" where
  "put_artifact env sc v =
     thenE throwIfAborted
     (bindE (resultE (canonicalJson (versioned v))) (\<lambda>raw.
      thenE (ensure (byteLength raw \<le> 16000000) ''Artifact exceeds byte limit'')
      (let digest = e_sha env raw; key = artifact_key (e_sha env) sc digest; compressed = e_gzip env raw in
       thenE (ensure (length compressed \<le> 16000000) ''Compressed artifact exceeds byte limit'')
       (thenE (catchE (upload env key compressed) (\<lambda>_. throwE upload_failed))
        (returnE \<lparr>ar_key = key, ar_sha256 = digest, ar_bytes = byteLength raw, ar_compressedBytes = length compressed\<rparr>)))))"

text \<open>The part of \<open>get\<close> inside its \<open>try\<close>; every error there becomes the one redacted error.\<close>

definition read_artifact :: "('b artifact_env_scheme) \<Rightarrow> artifact_ref \<Rightarrow> 'a artifact_world_scheme \<Rightarrow> json result" where
  "read_artifact env ref w =
     bindR (cloud_get (e_store env) (w_aborted w) (ar_key ref) (ar_compressedBytes ref) (w_bucket w)) (\<lambda>compressed.
     bindR (ensureR (length compressed = ar_compressedBytes ref) ''Artifact length mismatch'') (\<lambda>_.
     case e_gunzip env compressed (ar_bytes ref) of
       None \<Rightarrow> Inl (PlainError ''gunzip'')
     | Some raw \<Rightarrow>
       bindR (ensureR (byteLength raw = ar_bytes ref \<and> e_sha env raw = ar_sha256 ref) ''Artifact checksum mismatch'') (\<lambda>_.
       case json_parse raw of
         Some (JObj kvs) \<Rightarrow>
           if map_of kvs ''version'' = Some (JInt 1) \<and> map_of kvs ''value'' \<noteq> None
           then Inr (the (map_of kvs ''value'')) else Inl (PersistenceError ''Invalid artifact envelope'')
       | _ \<Rightarrow> Inl (PlainError ''JSON.parse''))))"

definition get_artifact ::
    "('b artifact_env_scheme) \<Rightarrow> run_scope \<Rightarrow> artifact_ref \<Rightarrow> 'a artifact_world_scheme \<Rightarrow> json result" where
  "get_artifact env sc ref w =
     (if w_aborted w then Inl AbortError
      else if \<not> artifact_ref_ok ref then Inl parse_failed
      else bindR (ensureR (ar_key ref = artifact_key (e_sha env) sc (ar_sha256 ref)) ''Artifact scope mismatch'') (\<lambda>_.
        case read_artifact env ref w of Inl _ \<Rightarrow> Inl corrupt_artifact | Inr v \<Rightarrow> Inr v))"

subsection \<open>The contract of an object store\<close>

text \<open>
  What the artifacts rely on: a successful put makes the bytes readable under their length, and no
  put changes an object that is already there.
\<close>

locale object_store =
  fixes get_object :: "bool \<Rightarrow> string \<Rightarrow> nat \<Rightarrow> 's \<Rightarrow> string result"
    and put_object :: "bool \<Rightarrow> string \<Rightarrow> string \<Rightarrow> ('s, unit) oper"
  assumes put_get: "put_object a key data s = (Inr u, s') \<Longrightarrow> length data \<le> n \<Longrightarrow> get_object False key n s' = Inr data"
    and put_keeps: "put_object a key data s = (r, s') \<Longrightarrow> get_object False key' n s = Inr d \<Longrightarrow> get_object False key' n s' = Inr d"
begin

text \<open>Objects written earlier survive any later series of uploads, successful or not.\<close>

fun uploads :: "(bool \<times> string \<times> string) list \<Rightarrow> 's \<Rightarrow> 's" where
  "uploads [] s = s"
| "uploads ((a, key, data) # us) s = uploads us (snd (put_object a key data s))"

lemma uploads_keep: "get_object False key n s = Inr d \<Longrightarrow> get_object False key n (uploads us s) = Inr d"
proof (induction us s rule: uploads.induct)
  case (2 a k data us s)
  have "get_object False key n (snd (put_object a k data s)) = Inr d"
    using put_keeps[of a k data s "fst (put_object a k data s)" "snd (put_object a k data s)"] "2.prems" by simp
  with "2.IH" show ?case by simp
qed simp

lemma put_uploads_get:
  "put_object a key data s = (Inr u, s') \<Longrightarrow> length data \<le> n \<Longrightarrow> get_object False key n (uploads us s') = Inr data"
  by (blast intro: uploads_keep put_get)

end

lemma collect_chunks_eq:
  "sz \<le> maxBytes \<Longrightarrow> collect_chunks cs maxBytes sz acc =
     (if sz + length (concat cs) \<le> maxBytes then Inr (acc @ concat cs)
      else Inl (PersistenceError ''Object exceeds declared byte limit''))"
  by (induction cs arbitrary: sz acc) (auto simp: ensureR_def)

lemma collect_one: "collect_chunks [data] n 0 [] = (if length data \<le> n then Inr data else Inl (PersistenceError ''Object exceeds declared byte limit''))"
  using collect_chunks_eq[of 0 n "[data]" "[]"] by simp

declare collect_chunks.simps [simp del]

lemma objects_next_fault: "bk_objects (snd (next_fault b)) = bk_objects b"
  by (simp add: next_fault_def split: list.splits)

lemma gcs_get_eq:
  "gcs_get prefix False key n b = Inr d \<longleftrightarrow> map_of (bk_objects b) (prefix @ key) = Some d \<and> length d \<le> n"
  by (auto simp: gcs_get_def collect_one split: option.splits)

lemma s3_get_eq:
  "s3_get prefix False key n b = Inr d \<longleftrightarrow> map_of (bk_objects b) (prefix @ key) = Some d \<and> length d \<le> n"
  by (auto simp: s3_get_def collect_one split: option.splits)

lemma gcs_put_objects:
  assumes "gcs_put prefix a key data b = (r, b')"
  shows "map_of (bk_objects b) k = Some d \<Longrightarrow> map_of (bk_objects b') k = Some d"
    and "r = Inr u \<Longrightarrow> map_of (bk_objects b') (prefix @ key) = Some data"
proof -
  obtain f c where fc: "next_fault b = (f, c)" by fastforce
  then have obj: "bk_objects c = bk_objects b" using objects_next_fault[of b] by simp
  show "map_of (bk_objects b) k = Some d \<Longrightarrow> map_of (bk_objects b') k = Some d"
    using assms fc obj by (auto simp: gcs_put_def Let_def split: if_splits)
  show "r = Inr u \<Longrightarrow> map_of (bk_objects b') (prefix @ key) = Some data"
    using assms fc obj by (auto simp: gcs_put_def gcs_get_def collect_one Let_def run_simps split: if_splits option.splits)
qed

lemma s3_put_objects:
  assumes "s3_put prefix a key data b = (r, b')"
  shows "map_of (bk_objects b) k = Some d \<Longrightarrow> map_of (bk_objects b') k = Some d"
    and "r = Inr u \<Longrightarrow> map_of (bk_objects b') (prefix @ key) = Some data"
proof -
  obtain f c where fc: "next_fault b = (f, c)" by fastforce
  then have obj: "bk_objects c = bk_objects b" using objects_next_fault[of b] by simp
  show "map_of (bk_objects b) k = Some d \<Longrightarrow> map_of (bk_objects b') k = Some d"
    using assms fc obj by (auto simp: s3_put_def Let_def split: if_splits)
  show "r = Inr u \<Longrightarrow> map_of (bk_objects b') (prefix @ key) = Some data"
    using assms fc obj by (auto simp: s3_put_def s3_get_def collect_one Let_def run_simps split: if_splits option.splits)
qed

interpretation gcs: object_store "gcs_get prefix" "gcs_put prefix" for prefix
  by unfold_locales (auto simp: gcs_get_eq dest: gcs_put_objects)

interpretation s3: object_store "s3_get prefix" "s3_put prefix" for prefix
  by unfold_locales (auto simp: s3_get_eq dest: s3_put_objects)

interpretation objects: object_store "cloud_get c" "cloud_put c" for c
proof unfold_locales
  fix a key data s u s' n
  show "cloud_put c a key data s = (Inr u, s') \<Longrightarrow> length data \<le> n \<Longrightarrow> cloud_get c False key n s' = Inr data"
    by (cases "cf_cloud c") (auto simp: cloud_put_def cloud_get_def intro: gcs.put_get s3.put_get)
next
  fix a key data s r s' key' n d
  show "cloud_put c a key data s = (r, s') \<Longrightarrow> cloud_get c False key' n s = Inr d \<Longrightarrow> cloud_get c False key' n s' = Inr d"
    by (cases "cf_cloud c") (auto simp: cloud_put_def cloud_get_def intro: gcs.put_keeps s3.put_keeps)
qed

subsection \<open>Artifacts are readable once written, for ever\<close>

text \<open>The documented behaviour of the two libraries.\<close>

definition gzip_ok :: "('b artifact_env_scheme) \<Rightarrow> bool" where
  "gzip_ok env \<longleftrightarrow> (\<forall>t n. (byteLength t \<le> n \<longrightarrow> e_gunzip env (e_gzip env t) n = Some t) \<and> e_gzip env t \<noteq> [])"

definition sha_ok :: "('b artifact_env_scheme) \<Rightarrow> bool" where
  "sha_ok env \<longleftrightarrow> (\<forall>t. hex64 (e_sha env t))"

lemma json_parse_versioned:
  assumes "wf_json v"
  shows "json_parse (json_text (versioned v)) = Some (JObj [(''value'', canon v), (''version'', JInt 1)])"
proof -
  have "wf_json (versioned v)" using assms by (simp add: versioned_def)
  moreover have "canon (versioned v) = JObj [(''value'', canon v), (''version'', JInt 1)]"
    by (simp add: versioned_def)
  ultimately show ?thesis using json_parse_text by metis
qed

lemma versioned_bytes: "0 < byteLength (json_text (versioned v))"
  by (simp add: versioned_def json_object_bytes del: json_text.simps)

lemma put_artifact_Inr:
  "put_artifact env sc v w = (Inr ref, w') \<longleftrightarrow>
    (let raw = json_text (versioned v) in
     \<not> w_aborted w \<and> lossless v \<and> byteLength raw \<le> 16000000 \<and> length (e_gzip env raw) \<le> 16000000
     \<and> upload env (artifact_key (e_sha env) sc (e_sha env raw)) (e_gzip env raw) w = (Inr (), w')
     \<and> ref = \<lparr>ar_key = artifact_key (e_sha env) sc (e_sha env raw), ar_sha256 = e_sha env raw,
              ar_bytes = byteLength raw, ar_compressedBytes = length (e_gzip env raw)\<rparr>)"
proof -
  have "lossless (versioned v) = lossless v" by (simp add: versioned_def)
  then show ?thesis
    by (auto simp: put_artifact_def throwIfAborted_def canonicalJson_eq Let_def run_simps split: if_splits
        simp del: json_text.simps)
qed

text \<open>No operation on artifacts loses an object or changes anything outside the bucket.\<close>

definition store_extends :: "('b artifact_env_scheme) \<Rightarrow> 'a artifact_world_scheme \<Rightarrow> 'a artifact_world_scheme \<Rightarrow> bool" where
  "store_extends env w w' \<longleftrightarrow> w_aborted w' = w_aborted w \<and> artifact_world.more w' = artifact_world.more w
     \<and> (\<forall>key n d. cloud_get (e_store env) False key n (w_bucket w) = Inr d \<longrightarrow>
           cloud_get (e_store env) False key n (w_bucket w') = Inr d)"

interpretation extends: frame "store_extends env" for env
  by unfold_locales (auto simp: store_extends_def)

lemma upload_extends: "frames (store_extends env) (upload env key data)"
proof (rule framesI)
  fix w r w'
  assume "upload env key data w = (r, w')"
  then obtain b where b: "cloud_put (e_store env) (w_aborted w) key data (w_bucket w) = (r, b)" and w': "w' = w\<lparr>w_bucket := b\<rparr>"
    by (auto simp: upload_def split: prod.splits)
  show "store_extends env w w'"
    using objects.put_keeps[OF b] by (auto simp: store_extends_def w')
qed

lemma put_artifact_extends: "frames (store_extends env) (put_artifact env sc v)"
proof -
  have "frames (store_extends env) throwIfAborted"
    by (rule framesI) (simp add: throwIfAborted_def store_extends_def)
  then show ?thesis
    unfolding put_artifact_def by (intro extends.frame_rules upload_extends)
qed

lemma upload_world: "upload env key data w = (r, w') \<Longrightarrow> w_aborted w' = w_aborted w"
  using framesD[OF upload_extends, of env key data w r w'] by (simp add: store_extends_def)

lemma put_get_artifact:
  assumes "gzip_ok env" and "sha_ok env" and "wf_json v" and "put_artifact env sc v w = (Inr ref, w')"
  shows "get_artifact env sc ref w' = Inr (canon v)"
proof -
  let ?raw = "json_text (versioned v)"
  from assms(4) have na: "\<not> w_aborted w" and len: "byteLength ?raw \<le> 16000000" "length (e_gzip env ?raw) \<le> 16000000"
    and up: "upload env (artifact_key (e_sha env) sc (e_sha env ?raw)) (e_gzip env ?raw) w = (Inr (), w')"
    and ref: "ref = \<lparr>ar_key = artifact_key (e_sha env) sc (e_sha env ?raw), ar_sha256 = e_sha env ?raw,
              ar_bytes = byteLength ?raw, ar_compressedBytes = length (e_gzip env ?raw)\<rparr>"
    by (auto simp: put_artifact_Inr Let_def simp del: json_text.simps)
  have na': "\<not> w_aborted w'" using upload_world[OF up] na by simp
  have ok: "artifact_ref_ok ref"
    using assms(1,2) len versioned_bytes[of v] by (simp add: artifact_ref_ok_def ref sha_ok_def gzip_ok_def del: json_text.simps)
  have got: "cloud_get (e_store env) False (ar_key ref) (ar_compressedBytes ref) (w_bucket w') = Inr (e_gzip env ?raw)"
    using up ref objects.put_get[of "e_store env"] by (auto simp: upload_def split: prod.splits)
  have "e_gunzip env (e_gzip env ?raw) (byteLength ?raw) = Some ?raw"
    using assms(1) by (simp add: gzip_ok_def)
  then have "read_artifact env ref w' = Inr (canon v)"
    unfolding read_artifact_def using got na' json_parse_versioned[OF assms(3)]
    by (simp add: ref del: json_text.simps)
  with na' ok show ?thesis by (simp add: get_artifact_def ref)
qed

lemma get_artifact_Inr:
  "get_artifact env sc ref w = Inr v \<longleftrightarrow> \<not> w_aborted w \<and> artifact_ref_ok ref
     \<and> ar_key ref = artifact_key (e_sha env) sc (ar_sha256 ref) \<and> read_artifact env ref w = Inr v"
  by (auto simp: get_artifact_def run_simps split: sum.splits)

lemma get_artifact_extends:
  assumes "store_extends env w w'" and "get_artifact env sc ref w = Inr v"
  shows "get_artifact env sc ref w' = Inr v"
proof -
  from assms(2) have g: "\<not> w_aborted w" "artifact_ref_ok ref"
    "ar_key ref = artifact_key (e_sha env) sc (ar_sha256 ref)" "read_artifact env ref w = Inr v"
    by (simp_all add: get_artifact_Inr)
  from g(1,4) obtain c where c: "cloud_get (e_store env) False (ar_key ref) (ar_compressedBytes ref) (w_bucket w) = Inr c"
    by (auto simp: read_artifact_def bindR_Inr)
  with assms(1) have c': "cloud_get (e_store env) False (ar_key ref) (ar_compressedBytes ref) (w_bucket w') = Inr c"
    by (simp add: store_extends_def)
  have na: "\<not> w_aborted w'" using assms(1) g(1) by (simp add: store_extends_def)
  have "read_artifact env ref w' = read_artifact env ref w"
    unfolding read_artifact_def using c c' g(1) na by simp
  with g na show ?thesis by (simp add: get_artifact_Inr)
qed

end
