(* ===== verification/ArtifactState.thy ===== *)
theory ArtifactState
  imports Artifacts
begin

text \<open>
  The contents of the artifacts (\<open>artifacts/state.ts\<close>) and their JSON objects. \<open>json_of_X\<close> is the
  object the runner stores and \<open>X_of_json\<close> reads an object back as \<open>get<T>\<close> does, by its fields.
  Reading back what was stored gives the stored value, with the row data in canonical form.
\<close>

subsection \<open>Data\<close>

datatype batch_status = BPrepared | BUnknown | BAcknowledged | BCancelled

datatype replacement_status = RPrepared | RPending | RAccepted

record batch_head =
  b_id :: string
  b_action :: action
  b_first :: int
  b_last :: int
  b_data :: artifact_ref
  b_effectBytes :: nat
  b_receipt :: "artifact_ref option"
  b_status :: batch_status
  b_accepted :: nat
  b_staged :: nat
  b_rejected :: nat
  b_submittedRecords :: "nat option"
  b_reservedEntries :: nat
  b_reservedBytes :: nat
  b_resultBudget :: nat

record snapshot_summary =
  su_comparison :: comparison
  su_projectedMembers :: "int option"
  su_excludedRows :: "int option"

record snapshot_head =
  sn_native :: bool
  sn_replacementStatus :: "replacement_status option"
  sn_sealed :: bool
  sn_parts :: "artifact_ref list"
  sn_keys :: nat
  sn_entries :: nat
  sn_bytes :: nat
  sn_page :: int
  sn_pageHash :: string
  sn_refreshBefore :: "string option"
  sn_summary :: "snapshot_summary option"

record artifact_head =
  h_runId :: string
  h_baseline :: "artifact_ref list"
  h_snapshot :: "snapshot_head option"
  h_batches :: "batch_head list"

record stored_batch =
  sb_batch :: prepared_batch
  sb_effects :: "artifact_ref option"

record batch_data =
  bd_batch :: prepared_batch
  bd_effects :: "effect list list"

record receipt_data =
  rd_result :: batch_result
  rd_acceptedAt :: "(string \<times> string) list"

subsection \<open>Objects\<close>

definition json_of_ref :: "artifact_ref \<Rightarrow> json" where
  "json_of_ref r = JObj [(''key'', JStr (ar_key r)), (''sha256'', JStr (ar_sha256 r)),
     (''bytes'', JInt (int (ar_bytes r))), (''compressedBytes'', JInt (int (ar_compressedBytes r)))]"

fun batch_status_text :: "batch_status \<Rightarrow> string" where
  "batch_status_text BPrepared = ''prepared''"
| "batch_status_text BUnknown = ''unknown''"
| "batch_status_text BAcknowledged = ''acknowledged''"
| "batch_status_text BCancelled = ''cancelled''"

fun replacement_status_text :: "replacement_status \<Rightarrow> string" where
  "replacement_status_text RPrepared = ''prepared''"
| "replacement_status_text RPending = ''pending''"
| "replacement_status_text RAccepted = ''accepted''"

definition json_of_batch_head :: "batch_head \<Rightarrow> json" where
  "json_of_batch_head b = JObj ([(''id'', JStr (b_id b)), (''action'', JStr (action_text (b_action b))),
     (''first'', JInt (b_first b)), (''last'', JInt (b_last b)), (''data'', json_of_ref (b_data b)),
     (''effectBytes'', JInt (int (b_effectBytes b)))]
     @ optional_member ''receipt'' json_of_ref (b_receipt b)
     @ [(''status'', JStr (batch_status_text (b_status b))), (''accepted'', JInt (int (b_accepted b))),
        (''staged'', JInt (int (b_staged b))), (''rejected'', JInt (int (b_rejected b)))]
     @ optional_member ''submittedRecords'' (\<lambda>n. JInt (int n)) (b_submittedRecords b)
     @ [(''reservedEntries'', JInt (int (b_reservedEntries b))), (''reservedBytes'', JInt (int (b_reservedBytes b))),
        (''resultBudget'', JInt (int (b_resultBudget b)))])"

definition json_of_summary :: "snapshot_summary \<Rightarrow> json" where
  "json_of_summary s = (let c = su_comparison s in
     JObj ([(''baselineMembers'', JInt (baselineMembers c)), (''uniqueMembers'', JInt (uniqueMembers c)),
       (''newMembers'', JInt (newMembers c)), (''changedMembers'', JInt (changedMembers c)),
       (''refreshMembers'', JInt (refreshMembers c)), (''unchangedMembers'', JInt (unchangedMembers c)),
       (''removals'', JInt (cmp_removals c))]
       @ optional_member ''projectedMembers'' JInt (su_projectedMembers s)
       @ optional_member ''excludedRows'' JInt (su_excludedRows s)))"

definition json_of_snapshot :: "snapshot_head \<Rightarrow> json" where
  "json_of_snapshot s = JObj ((if sn_native s then [(''strategy'', JStr ''native-replace'')] else [])
     @ optional_member ''replacementStatus'' (\<lambda>r. JStr (replacement_status_text r)) (sn_replacementStatus s)
     @ [(''sealed'', JBool (sn_sealed s)), (''parts'', JArr (map json_of_ref (sn_parts s))),
        (''keys'', JInt (int (sn_keys s))), (''entries'', JInt (int (sn_entries s))), (''bytes'', JInt (int (sn_bytes s))),
        (''page'', JInt (sn_page s)), (''pageHash'', JStr (sn_pageHash s)),
        (''refreshBefore'', (case sn_refreshBefore s of None \<Rightarrow> JNull | Some t \<Rightarrow> JStr t))]
     @ optional_member ''summary'' json_of_summary (sn_summary s))"

definition json_of_head :: "artifact_head \<Rightarrow> json" where
  "json_of_head h = JObj ([(''version'', JInt 1), (''runId'', JStr (h_runId h)),
     (''baseline'', JArr (map json_of_ref (h_baseline h)))]
     @ optional_member ''snapshot'' json_of_snapshot (h_snapshot h)
     @ [(''batches'', JArr (map json_of_batch_head (h_batches h)))])"

definition json_of_stored_batch :: "stored_batch \<Rightarrow> json" where
  "json_of_stored_batch s = JObj [(''batch'', json_of_batch (sb_batch s)),
     (''effects'', (case sb_effects s of None \<Rightarrow> JNull | Some r \<Rightarrow> json_of_ref r))]"

definition json_of_projection :: "effect list list \<Rightarrow> json" where
  "json_of_projection ess = JArr (map (\<lambda>es. JArr (map json_of_effect es)) ess)"

definition json_of_receipt :: "receipt_data \<Rightarrow> json" where
  "json_of_receipt r = JObj [(''result'', json_of_batch_result (rd_result r)),
     (''acceptedAt'', JObj (map (\<lambda>(op, t). (op, JStr t)) (rd_acceptedAt r)))]"

definition json_of_members :: "stored_member list \<Rightarrow> json" where
  "json_of_members ms = JArr (map json_of_member ms)"

definition json_of_effects :: "effect list \<Rightarrow> json" where
  "json_of_effects es = JArr (map json_of_effect es)"

subsection \<open>Reading objects\<close>

fun int_of_json :: "json \<Rightarrow> int" where
  "int_of_json (JNum t) = text_value t"
| "int_of_json _ = 0"

definition nat_of_json :: "json \<Rightarrow> nat" where
  "nat_of_json v = nat (int_of_json v)"

fun list_of_json :: "(json \<Rightarrow> 'a) \<Rightarrow> json \<Rightarrow> 'a list" where
  "list_of_json f (JArr xs) = map f xs"
| "list_of_json f _ = []"

definition present :: "(json \<Rightarrow> 'a) \<Rightarrow> json \<Rightarrow> 'a option" where
  "present f v = (if v = JLossy \<or> v = JNull then None else Some (f v))"

definition action_of_json :: "json \<Rightarrow> action" where
  "action_of_json v = (if v = JStr ''remove'' then Remove else Upsert)"

definition ref_of_json :: "json \<Rightarrow> artifact_ref" where
  "ref_of_json v = \<lparr>ar_key = string_of_json (member v ''key''), ar_sha256 = string_of_json (member v ''sha256''),
     ar_bytes = nat_of_json (member v ''bytes''), ar_compressedBytes = nat_of_json (member v ''compressedBytes'')\<rparr>"

definition batch_status_of_json :: "json \<Rightarrow> batch_status" where
  "batch_status_of_json v = (if v = JStr ''prepared'' then BPrepared else if v = JStr ''unknown'' then BUnknown
     else if v = JStr ''acknowledged'' then BAcknowledged else BCancelled)"

definition replacement_status_of_json :: "json \<Rightarrow> replacement_status" where
  "replacement_status_of_json v =
     (if v = JStr ''prepared'' then RPrepared else if v = JStr ''pending'' then RPending else RAccepted)"

definition batch_head_of_json :: "json \<Rightarrow> batch_head" where
  "batch_head_of_json v = \<lparr>b_id = string_of_json (member v ''id''), b_action = action_of_json (member v ''action''),
     b_first = int_of_json (member v ''first''), b_last = int_of_json (member v ''last''),
     b_data = ref_of_json (member v ''data''), b_effectBytes = nat_of_json (member v ''effectBytes''),
     b_receipt = present ref_of_json (member v ''receipt''), b_status = batch_status_of_json (member v ''status''),
     b_accepted = nat_of_json (member v ''accepted''), b_staged = nat_of_json (member v ''staged''),
     b_rejected = nat_of_json (member v ''rejected''),
     b_submittedRecords = present nat_of_json (member v ''submittedRecords''),
     b_reservedEntries = nat_of_json (member v ''reservedEntries''),
     b_reservedBytes = nat_of_json (member v ''reservedBytes''), b_resultBudget = nat_of_json (member v ''resultBudget'')\<rparr>"

definition summary_of_json :: "json \<Rightarrow> snapshot_summary" where
  "summary_of_json v = \<lparr>su_comparison = \<lparr>baselineMembers = int_of_json (member v ''baselineMembers''),
       uniqueMembers = int_of_json (member v ''uniqueMembers''), newMembers = int_of_json (member v ''newMembers''),
       changedMembers = int_of_json (member v ''changedMembers''), refreshMembers = int_of_json (member v ''refreshMembers''),
       unchangedMembers = int_of_json (member v ''unchangedMembers''), cmp_removals = int_of_json (member v ''removals'')\<rparr>,
     su_projectedMembers = present int_of_json (member v ''projectedMembers''),
     su_excludedRows = present int_of_json (member v ''excludedRows'')\<rparr>"

definition snapshot_of_json :: "json \<Rightarrow> snapshot_head" where
  "snapshot_of_json v = \<lparr>sn_native = (member v ''strategy'' = JStr ''native-replace''),
     sn_replacementStatus = present replacement_status_of_json (member v ''replacementStatus''),
     sn_sealed = (member v ''sealed'' = JBool True), sn_parts = list_of_json ref_of_json (member v ''parts''),
     sn_keys = nat_of_json (member v ''keys''), sn_entries = nat_of_json (member v ''entries''),
     sn_bytes = nat_of_json (member v ''bytes''), sn_page = int_of_json (member v ''page''),
     sn_pageHash = string_of_json (member v ''pageHash''),
     sn_refreshBefore = present string_of_json (member v ''refreshBefore''),
     sn_summary = present summary_of_json (member v ''summary'')\<rparr>"

definition head_of_json :: "json \<Rightarrow> artifact_head" where
  "head_of_json v = \<lparr>h_runId = string_of_json (member v ''runId''),
     h_baseline = list_of_json ref_of_json (member v ''baseline''),
     h_snapshot = present snapshot_of_json (member v ''snapshot''),
     h_batches = list_of_json batch_head_of_json (member v ''batches'')\<rparr>"

definition cursor_of_json :: "json \<Rightarrow> source_cursor" where
  "cursor_of_json v = \<lparr>cur_value = string_of_json (member v ''value''),
     cur_keys = list_of_json string_of_json (member v ''primaryKeyValues'')\<rparr>"

definition record_of_json :: "json \<Rightarrow> batch_record" where
  "record_of_json v = \<lparr>rec_key = string_of_json (member v ''key''), rec_seq = int_of_json (member v ''sourceSequence''),
     rec_row = member v ''row'', rec_op = string_of_json (member v ''operationId'')\<rparr>"

definition batch_of_json :: "json \<Rightarrow> prepared_batch" where
  "batch_of_json v = \<lparr>pb_id = string_of_json (member v ''batchId''), pb_action = action_of_json (member v ''action''),
     pb_records = list_of_json record_of_json (member v ''records''),
     pb_payloadHash = string_of_json (member v ''payloadHash''), pb_cursor = present cursor_of_json (member v ''cursor'')\<rparr>"

definition stored_batch_of_json :: "json \<Rightarrow> stored_batch" where
  "stored_batch_of_json v = \<lparr>sb_batch = batch_of_json (member v ''batch''),
     sb_effects = present ref_of_json (member v ''effects'')\<rparr>"

definition projection_of_json :: "json \<Rightarrow> effect list list" where
  "projection_of_json = list_of_json (list_of_json effect_of_json)"

definition outcome_of_json :: "json \<Rightarrow> outcome" where
  "outcome_of_json v = (let op = string_of_json (member v ''operationId'') in
     if member v ''status'' = JStr ''accepted'' then Accepted op
     else if member v ''status'' = JStr ''staged'' then Staged op
     else Rejected op (string_of_json (member v ''code'')) (string_of_json (member v ''safeReason'')))"

definition batch_result_of_json :: "json \<Rightarrow> batch_result" where
  "batch_result_of_json v = \<lparr>br_outcomes = list_of_json outcome_of_json (member v ''outcomes''),
     br_jobs = present (list_of_json string_of_json) (member v ''remoteJobIds''),
     br_checkpoint = present id (member v ''providerCheckpoint'')\<rparr>"

fun entries_of_json :: "json \<Rightarrow> (string \<times> string) list" where
  "entries_of_json (JObj kvs) = map (\<lambda>(k, v). (k, string_of_json v)) kvs"
| "entries_of_json _ = []"

definition receipt_of_json :: "json \<Rightarrow> receipt_data" where
  "receipt_of_json v = \<lparr>rd_result = batch_result_of_json (member v ''result''),
     rd_acceptedAt = entries_of_json (member v ''acceptedAt'')\<rparr>"

definition member_of_json :: "json \<Rightarrow> stored_member" where
  "member_of_json v = \<lparr>sm_effect = effect_of_json (member v ''effect''), sm_at = string_of_json (member v ''acceptedAt''),
     sm_uncertain = (member v ''uncertain'' = JBool True)\<rparr>"

definition members_of_json :: "json \<Rightarrow> stored_member list" where
  "members_of_json = list_of_json member_of_json"

definition effects_of_json :: "json \<Rightarrow> effect list" where
  "effects_of_json = list_of_json effect_of_json"

subsection \<open>Canonical copies\<close>

definition canon_record :: "batch_record \<Rightarrow> batch_record" where
  "canon_record r = r\<lparr>rec_row := canon (rec_row r)\<rparr>"

definition canon_batch :: "prepared_batch \<Rightarrow> prepared_batch" where
  "canon_batch b = b\<lparr>pb_records := map canon_record (pb_records b)\<rparr>"

definition canon_effect :: "effect \<Rightarrow> effect" where
  "canon_effect e = e\<lparr>id_identity := canon (id_identity e), id_upsert := canon (id_upsert e), id_remove := canon (id_remove e)\<rparr>"

definition canon_result :: "batch_result \<Rightarrow> batch_result" where
  "canon_result r = r\<lparr>br_checkpoint := map_option canon (br_checkpoint r)\<rparr>"

definition canon_receipt :: "receipt_data \<Rightarrow> receipt_data" where
  "canon_receipt r = r\<lparr>rd_result := canon_result (rd_result r), rd_acceptedAt := sort_key fst (rd_acceptedAt r)\<rparr>"

definition canon_stored_member :: "stored_member \<Rightarrow> stored_member" where
  "canon_stored_member m = m\<lparr>sm_effect := canon_effect (sm_effect m)\<rparr>"

subsection \<open>Round trips\<close>

lemma member_canon:
  assumes "distinct (map fst kvs)"
  shows "member (canon (JObj kvs)) k = canon (member (JObj kvs) k)"
proof -
  have d: "distinct (map fst (sort_key fst kvs))" using assms by (simp add: distinct_map inj_on_def)
  have "map_of (map (\<lambda>(k, v). (k, canon v)) (sort_key fst kvs)) k = map_option canon (map_of (sort_key fst kvs) k)"
    by (simp add: map_of_map)
  moreover have "map_of (sort_key fst kvs) = map_of kvs" by (rule map_of_sort_key[OF assms])
  ultimately show ?thesis by (simp add: canon_obj del: canon.simps split: option.splits) simp
qed

lemma member_simps [simp]: "member (JObj ((k, v) # kvs)) k' = (if k = k' then v else member (JObj kvs) k')"
  "member (JObj []) k' = JLossy"
  by simp_all

lemma canon_leaves [simp]: "canon (JStr s) = JStr s" "canon (JNum t) = JNum t" "canon (JBool b) = JBool b"
  "canon JNull = JNull" "canon JLossy = JLossy" "canon (JArr xs) = JArr (map canon xs)"
  by simp_all

declare canon.simps(2) [simp del] member.simps(1) [simp del]

lemma nat_of_json_int [simp]: "nat_of_json (JInt (int n)) = n"
  by (simp add: nat_of_json_def)

lemma present_simps [simp]: "present f JLossy = None" "present f JNull = None" "present f (JStr s) = Some (f (JStr s))"
  "present f (JNum t) = Some (f (JNum t))" "present f (JObj kvs) = Some (f (JObj kvs))" "present f (JArr xs) = Some (f (JArr xs))"
  by (simp_all add: present_def)

lemma present_canon_obj [simp]: "present f (canon (JObj kvs)) = Some (f (canon (JObj kvs)))"
  by (simp add: canon.simps(2))

lemma action_of_json_text [simp]: "action_of_json (JStr (action_text a)) = a"
  by (cases a) (simp_all add: action_of_json_def)

lemma batch_status_of_json_text [simp]: "batch_status_of_json (JStr (batch_status_text a)) = a"
  by (cases a) (simp_all add: batch_status_of_json_def)

lemma replacement_status_of_json_text [simp]: "replacement_status_of_json (JStr (replacement_status_text a)) = a"
  by (cases a) (simp_all add: replacement_status_of_json_def)

lemma ref_round_trip [simp]: "ref_of_json (canon (json_of_ref r)) = r"
  by (simp add: json_of_ref_def ref_of_json_def member_canon)

lemma present_ref [simp]: "present f (canon (json_of_ref r)) = Some (f (canon (json_of_ref r)))"
  by (simp add: json_of_ref_def)

lemma map_round_trip: "(\<And>x. x \<in> set xs \<Longrightarrow> f (canon (g x)) = h x) \<Longrightarrow> map f (map canon (map g xs)) = map h xs"
  by simp

lemma batch_head_round_trip [simp]: "batch_head_of_json (canon (json_of_batch_head b)) = b"
  by (cases "b_receipt b"; cases "b_submittedRecords b")
    (simp_all add: json_of_batch_head_def batch_head_of_json_def optional_member_def member_canon)

lemma summary_round_trip [simp]: "summary_of_json (canon (json_of_summary s)) = s"
  by (cases "su_projectedMembers s"; cases "su_excludedRows s")
    (simp_all add: json_of_summary_def summary_of_json_def optional_member_def member_canon Let_def)

lemma present_summary [simp]: "present f (canon (json_of_summary s)) = Some (f (canon (json_of_summary s)))"
  by (simp add: json_of_summary_def Let_def)

lemma snapshot_round_trip [simp]: "snapshot_of_json (canon (json_of_snapshot s)) = s"
  by (cases "sn_native s"; cases "sn_replacementStatus s"; cases "sn_summary s"; cases "sn_refreshBefore s")
    (simp_all add: json_of_snapshot_def snapshot_of_json_def optional_member_def member_canon comp_def)

lemma present_snapshot [simp]: "present f (canon (json_of_snapshot s)) = Some (f (canon (json_of_snapshot s)))"
  by (simp add: json_of_snapshot_def)

lemma head_round_trip [simp]: "head_of_json (canon (json_of_head h)) = h"
  by (cases "h_snapshot h") (simp_all add: json_of_head_def head_of_json_def optional_member_def member_canon comp_def)

lemma cursor_round_trip [simp]: "cursor_of_json (canon (json_of_cursor c)) = c"
  by (simp add: json_of_cursor_def cursor_of_json_def member_canon json_of_strings_def comp_def)

lemma present_cursor [simp]: "present f (canon (json_of_cursor s)) = Some (f (canon (json_of_cursor s)))"
  by (simp add: json_of_cursor_def)

lemma record_round_trip [simp]: "record_of_json (canon (json_of_record r)) = canon_record r"
  by (simp add: json_of_record_def record_of_json_def canon_record_def member_canon)

lemma batch_round_trip [simp]: "batch_of_json (canon (json_of_batch b)) = canon_batch b"
  by (cases "pb_cursor b")
    (simp_all add: json_of_batch_def batch_of_json_def canon_batch_def optional_member_def member_canon comp_def)

lemma stored_batch_round_trip [simp]:
  "stored_batch_of_json (canon (json_of_stored_batch s)) = s\<lparr>sb_batch := canon_batch (sb_batch s)\<rparr>"
  by (cases "sb_effects s") (simp_all add: json_of_stored_batch_def stored_batch_of_json_def member_canon)

lemma effect_round_trip [simp]: "effect_of_json (canon (json_of_effect e)) = canon_effect e"
  by (simp add: json_of_effect_def effect_of_json_def canon_effect_def member_canon)

lemma projection_round_trip [simp]:
  "projection_of_json (canon (json_of_projection ess)) = map (map canon_effect) ess"
  by (simp add: json_of_projection_def projection_of_json_def comp_def)

lemma outcome_round_trip [simp]: "outcome_of_json (canon (json_of_outcome r)) = r"
  by (cases r) (simp_all add: outcome_of_json_def member_canon)

lemma present_result_checkpoint: "p \<noteq> JLossy \<Longrightarrow> p \<noteq> JNull \<Longrightarrow> present id (canon p) = Some (canon p)"
  by (cases p) (simp_all add: present_def canon.simps(2))

definition checkpoint_object :: "batch_result \<Rightarrow> bool" where
  "checkpoint_object r = (case br_checkpoint r of None \<Rightarrow> True | Some p \<Rightarrow> p \<noteq> JLossy \<and> p \<noteq> JNull)"

lemma batch_result_round_trip [simp]:
  "checkpoint_object r \<Longrightarrow> batch_result_of_json (canon (json_of_batch_result r)) = canon_result r"
  by (cases "br_jobs r"; cases "br_checkpoint r")
    (simp_all add: json_of_batch_result_def batch_result_of_json_def canon_result_def result_members_def optional_member_def
      member_canon json_of_strings_def comp_def checkpoint_object_def present_result_checkpoint)

lemma entries_round_trip [simp]:
  "entries_of_json (canon (JObj (map (\<lambda>(op, t). (op, JStr t)) at))) = sort_key fst at"
  by (simp add: canon.simps(2) comp_def case_prod_unfold sort_key_fst_map[of "\<lambda>t. JStr t", unfolded case_prod_unfold])

lemma receipt_round_trip [simp]:
  "checkpoint_object (rd_result r) \<Longrightarrow> receipt_of_json (canon (json_of_receipt r)) = canon_receipt r"
  by (simp add: json_of_receipt_def receipt_of_json_def canon_receipt_def member_canon)

lemma member_round_trip [simp]: "member_of_json (canon (json_of_member m)) = canon_stored_member m"
  by (simp add: json_of_member_def member_of_json_def canon_stored_member_def member_canon)

lemma members_round_trip [simp]: "members_of_json (canon (json_of_members ms)) = map canon_stored_member ms"
  by (simp add: json_of_members_def members_of_json_def comp_def)

lemma effects_round_trip [simp]: "effects_of_json (canon (json_of_effects es)) = map canon_effect es"
  by (simp add: json_of_effects_def effects_of_json_def comp_def)

lemmas artifact_round_trips = head_round_trip stored_batch_round_trip projection_round_trip receipt_round_trip
  members_round_trip effects_round_trip

end
