(* ===== verification/RunState.thy ===== *)
theory RunState
  imports ArtifactState
begin

text \<open>
  The network database and the admission of runs: the tables of \<open>persistence/rows.ts\<close>, the
  transactions of \<open>persistence/database.ts\<close>, the process-local cache of
  \<open>persistence/control-cache.ts\<close> and \<open>openRun\<close> of \<open>persistence/run-state.ts\<close>.

  A transaction takes its fate from a list of faults: no connection, a failed statement or commit,
  or a commit whose acknowledgement is lost. Calls of one process are serialized by the queue of
  the cache; what other processes do to the tables happens between calls.
\<close>

subsection \<open>Rows\<close>

datatype phase = PNew | PInitPrepared | PRunning | PBatchesPending | PAbortPrepared | PAborted
  | PFinishPrepared | PFinishPending | PFinishResolving | PFinishAccepted | PComplete

definition ended :: "phase \<Rightarrow> bool" where
  "ended p \<longleftrightarrow> p = PComplete \<or> p = PAborted"

record control_row =
  c_workspace :: string
  c_sync :: string
  c_run :: string
  c_order :: int
  c_detached :: bool
  c_revision :: string
  c_targetHash :: string
  c_phase :: phase
  c_mode :: run_mode
  c_extraction :: extraction_mode
  c_head :: "string option"
  c_base :: int
  c_next :: int
  c_checkpoint :: int
  c_finishSequence :: "int option"
  c_store :: "string option"
  c_providerState :: "string option"
  c_finishResult :: "string option"
  c_generation :: "string option"

record database =
  db_controls :: "control_row list"
  db_states :: "((string \<times> string) \<times> json) list"
  db_owners :: "(string \<times> (string \<times> string)) list"

definition control_key :: "control_row \<Rightarrow> string \<times> string \<times> string" where
  "control_key c = (c_workspace c, c_sync c, c_run c)"

definition scope_key :: "run_scope \<Rightarrow> string \<times> string \<times> string" where
  "scope_key sc = (sc_workspaceId sc, sc_syncId sc, sc_logicalRunId sc)"

subsection \<open>Transactions\<close>

datatype tx_fault = TxNoConnection | TxRolledBack | TxLostAck

record world = artifact_world +
  w_db :: database
  w_faults :: "tx_fault option list"
  w_cache :: "((string \<times> string \<times> string) \<times> control_row) list"
  w_now :: string

text \<open>Inside a transaction: the tables and the \<open>pending\<close> row of the control cache.\<close>

record tx =
  tx_db :: database
  tx_pending :: "control_row option"

text \<open>Errors of the persistence layer pass; any other error is replaced by a fixed one.\<close>

fun persistence_error :: "exn \<Rightarrow> exn" where
  "persistence_error (PersistenceError m) = PersistenceError m"
| "persistence_error (TransitionConflict m) = TransitionConflict m"
| "persistence_error PersistenceResetRequiredError = PersistenceResetRequiredError"
| "persistence_error _ = PersistenceError ''Reverse ETL persistence transaction failed''"

definition take_fault :: "world \<Rightarrow> tx_fault option \<times> world" where
  "take_fault w = (case w_faults w of [] \<Rightarrow> (None, w) | f # fs \<Rightarrow> (f, w\<lparr>w_faults := fs\<rparr>))"

definition db_transaction :: "control_row option \<Rightarrow> (tx, 'a) oper \<Rightarrow> (world, 'a \<times> control_row option) oper" where
  "db_transaction pending work w =
     (let (f, w1) = take_fault w in
      if f = Some TxNoConnection then (Inl (PersistenceError ''Reverse ETL database connection failed''), w1)
      else case work \<lparr>tx_db = w_db w1, tx_pending = pending\<rparr> of
          (Inl e, _) \<Rightarrow> (Inl (persistence_error e), w1)
        | (Inr a, t) \<Rightarrow> (case f of
              None \<Rightarrow> (Inr (a, tx_pending t), w1\<lparr>w_db := tx_db t\<rparr>)
            | Some TxLostAck \<Rightarrow> (Inl (PersistenceError ''Reverse ETL persistence transaction failed''), w1\<lparr>w_db := tx_db t\<rparr>)
            | Some _ \<Rightarrow> (Inl (PersistenceError ''Reverse ETL persistence transaction failed''), w1)))"

subsection \<open>The control cache\<close>

definition selectControl :: "run_scope \<Rightarrow> (tx, control_row) oper" where
  "selectControl sc t = (case find (\<lambda>c. control_key c = scope_key sc) (db_controls (tx_db t)) of
      None \<Rightarrow> (Inl (PersistenceError ''Run state missing or changed''), t)
    | Some c \<Rightarrow> (Inr c, t))"

definition invalidate :: "(tx, unit) oper" where
  "invalidate = modifyE (\<lambda>t. t\<lparr>tx_pending := None\<rparr>)"

definition lock_control :: "run_scope \<Rightarrow> (tx, control_row) oper" where
  "lock_control sc = thenE invalidate (selectControl sc)"

definition remember :: "run_scope \<Rightarrow> control_row \<Rightarrow> (tx, unit) oper" where
  "remember sc row = thenE (ensure (control_key row = scope_key sc) ''Run state missing or changed'')
     (modifyE (\<lambda>t. t\<lparr>tx_pending := Some row\<rparr>))"

definition set_cache :: "run_scope \<Rightarrow> control_row option \<Rightarrow> world \<Rightarrow> world" where
  "set_cache sc row w = w\<lparr>w_cache := (case row of None \<Rightarrow> AList.delete (scope_key sc) (w_cache w)
     | Some c \<Rightarrow> AList.update (scope_key sc) c (w_cache w))\<rparr>"

definition cached :: "run_scope \<Rightarrow> world \<Rightarrow> control_row option" where
  "cached sc w = map_of (w_cache w) (scope_key sc)"

definition cache_transaction :: "run_scope \<Rightarrow> (tx, 'a) oper \<Rightarrow> (world, 'a) oper" where
  "cache_transaction sc work w = (case db_transaction (cached sc w) work w of
      (Inr (a, pending), w') \<Rightarrow> (Inr a, set_cache sc pending w')
    | (Inl e, w') \<Rightarrow> (Inl e, set_cache sc None w'))"

definition observe :: "run_scope \<Rightarrow> (world, control_row) oper" where
  "observe sc w = (case cached sc w of
      Some c \<Rightarrow>
        if c_run c = sc_logicalRunId sc then (Inr c, w)
        else (case db_transaction None (selectControl sc) w of
            (Inr (row, _), w') \<Rightarrow> (Inr row, set_cache sc (Some row) w')
          | (Inl e, w') \<Rightarrow> (Inl e, set_cache sc None w'))
    | None \<Rightarrow> (case db_transaction None (selectControl sc) w of
            (Inr (row, _), w') \<Rightarrow> (Inr row, set_cache sc (Some row) w')
          | (Inl e, w') \<Rightarrow> (Inl e, set_cache sc None w')))"

subsection \<open>Saved state\<close>

record saved_state =
  sv_point :: resume_point
  sv_store :: json
  sv_generation :: "string option"

definition stateStream :: string where
  "stateStream = ''_REVERSE_ETL_''"

definition json_of_point :: "resume_point \<Rightarrow> json" where
  "json_of_point p = JObj ((''sourceSequence'', JInt (rp_seq p)) # optional_member ''cursor'' json_of_cursor (rp_cursor p))"

definition json_of_saved :: "saved_state \<Rightarrow> json" where
  "json_of_saved s = JObj ([(''point'', json_of_point (sv_point s)), (''store'', sv_store s)]
     @ optional_member ''generation'' JStr (sv_generation s))"

definition point_of_json :: "json \<Rightarrow> resume_point" where
  "point_of_json v = \<lparr>rp_seq = int_of_json (member v ''sourceSequence''), rp_cursor = present cursor_of_json (member v ''cursor'')\<rparr>"

definition saved_of_json :: "json \<Rightarrow> saved_state" where
  "saved_of_json v = \<lparr>sv_point = point_of_json (member v ''point''), sv_store = member v ''store'',
     sv_generation = present string_of_json (member v ''generation'')\<rparr>"

fun is_object :: "json \<Rightarrow> bool" where
  "is_object (JObj _) = True"
| "is_object _ = False"

fun is_string :: "json \<Rightarrow> bool" where
  "is_string (JStr _) = True"
| "is_string _ = False"

definition target_hash :: "(string \<Rightarrow> string) \<Rightarrow> run_scope \<Rightarrow> string" where
  "target_hash sha sc = text_hash sha (JStr (sc_targetIdentity sc))"

definition readSavedState :: "(string \<Rightarrow> string) \<Rightarrow> json \<Rightarrow> run_scope \<Rightarrow> saved_state result" where
  "readSavedState sha value sc =
     bindR (ensureR (is_object value) ''Unsupported saved state format'') (\<lambda>_.
     bindR (ensureR (member value ''version'' = JInt 2 \<and> is_string (member value ''value'')) ''Unsupported saved state format'') (\<lambda>_.
     bindR (ensureR (member value ''workspaceId'' = JStr (sc_workspaceId sc) \<and> member value ''revision'' = JStr (sc_configRevision sc)
        \<and> member value ''targetHash'' = JStr (target_hash sha sc)) ''Saved state scope mismatch'') (\<lambda>_.
     bindR (decodeJson (string_of_json (member value ''value''))) (\<lambda>v. Inr (saved_of_json v)))))"

definition select_state :: "run_scope \<Rightarrow> database \<Rightarrow> json option" where
  "select_state sc d = map_of (db_states d) (sc_syncId sc, stateStream)"

subsection \<open>Admission of a run\<close>

definition scope_values :: "run_scope \<Rightarrow> string list" where
  "scope_values sc = [sc_workspaceId sc, sc_syncId sc, sc_taskId sc, sc_logicalRunId sc, sc_configRevision sc, sc_targetIdentity sc]"

definition sync_rows :: "run_scope \<Rightarrow> database \<Rightarrow> control_row list" where
  "sync_rows sc d = filter (\<lambda>c. c_workspace c = sc_workspaceId sc \<and> c_sync c = sc_syncId sc) (db_controls d)"

text \<open>\<open>ORDER BY run_order DESC LIMIT 1\<close>.\<close>

fun latest_row :: "control_row list \<Rightarrow> control_row option" where
  "latest_row [] = None"
| "latest_row (c # cs) = (case latest_row cs of None \<Rightarrow> Some c | Some d \<Rightarrow> if c_order d < c_order c then Some c else Some d)"

definition new_control_row ::
    "(string \<Rightarrow> string) \<Rightarrow> run_scope \<Rightarrow> control_row option \<Rightarrow> string \<Rightarrow> control_row" where
  "new_control_row sha sc previous initialHead = \<lparr>
     c_workspace = sc_workspaceId sc, c_sync = sc_syncId sc, c_run = sc_logicalRunId sc,
     c_order = (case previous of None \<Rightarrow> -1 | Some p \<Rightarrow> c_order p) + 1, c_detached = False,
     c_revision = sc_configRevision sc, c_targetHash = target_hash sha sc, c_phase = PNew,
     c_mode = sc_mode sc, c_extraction = sc_extraction sc,
     c_head = Some (case previous of None \<Rightarrow> initialHead | Some p \<Rightarrow> (case c_head p of None \<Rightarrow> initialHead | Some h \<Rightarrow> h)),
     c_base = 0, c_next = 0, c_checkpoint = 0, c_finishSequence = None, c_store = None, c_providerState = None,
     c_finishResult = None, c_generation = (case previous of None \<Rightarrow> None | Some p \<Rightarrow> c_generation p)\<rparr>"

definition update_control :: "control_row \<Rightarrow> database \<Rightarrow> database" where
  "update_control row d = d\<lparr>db_controls := map (\<lambda>c. if control_key c = control_key row then row else c) (db_controls d)\<rparr>"

text \<open>The mirror branch claims the target for ever; the upsert branch only respects a claim.\<close>

definition claim_target :: "(string \<Rightarrow> string) \<Rightarrow> run_scope \<Rightarrow> (tx, unit) oper" where
  "claim_target sha sc =
     (let target = target_hash sha sc in
      if sc_mode sc = ModeMirror then
        bindE (getE (\<lambda>t. list_ex (\<lambda>c. c_targetHash c = target \<and> (c_workspace c \<noteq> sc_workspaceId sc \<or> c_sync c \<noteq> sc_syncId sc)
            \<and> \<not> ended (c_phase c)) (db_controls (tx_db t)))) (\<lambda>other.
        thenE (ensure (\<not> other) ''Audience already belongs to another mirror or upsert sync'')
        (thenE (modifyE (\<lambda>t. let d = tx_db t in
            if map_of (db_owners d) target \<noteq> None
               \<or> list_ex (\<lambda>(_, o'). o' = (sc_workspaceId sc, sc_syncId sc)) (db_owners d) then t
            else t\<lparr>tx_db := d\<lparr>db_owners := db_owners d @ [(target, (sc_workspaceId sc, sc_syncId sc))]\<rparr>\<rparr>))
        (bindE (getE (\<lambda>t. map_of (db_owners (tx_db t)) target)) (\<lambda>owner.
         ensure (owner = Some (sc_workspaceId sc, sc_syncId sc)) ''Audience already belongs to another mirror sync''))))
      else
        bindE (getE (\<lambda>t. map_of (db_owners (tx_db t)) target)) (\<lambda>owner.
        ensure (owner = None) ''Audience is exclusively managed by a mirror sync''))"

definition resume_base :: "(string \<Rightarrow> string) \<Rightarrow> run_scope \<Rightarrow> database \<Rightarrow> (int \<times> string option) result" where
  "resume_base sha sc d = (case select_state sc d of
      None \<Rightarrow> Inr (0, None)
    | Some st \<Rightarrow> bindR (readSavedState sha st sc) (\<lambda>value.
        bindR (encodeJson (sv_store value) 65536) (\<lambda>store.
        Inr (if sc_extraction sc = ExtractCursor \<and> rp_cursor (sv_point value) \<noteq> None then rp_seq (sv_point value) else 0,
             Some store))))"

definition admission_base :: "(string \<Rightarrow> string) \<Rightarrow> run_scope \<Rightarrow> bool \<Rightarrow> control_row \<Rightarrow> (tx, int \<times> string option) oper" where
  "admission_base sha sc sameRun c = (if \<not> sameRun \<or> c_phase c = PNew
     then bindE (getE tx_db) (\<lambda>d. resultE (resume_base sha sc d)) else returnE (0, None))"

definition admitted_row :: "run_scope \<Rightarrow> bool \<Rightarrow> int \<Rightarrow> string option \<Rightarrow> control_row \<Rightarrow> control_row" where
  "admitted_row sc sameRun base store c =
     (let keep = (sameRun \<and> c_phase c \<noteq> PNew) in
      c\<lparr>c_extraction := sc_extraction sc, c_store := (if sameRun then c_store c else store),
        c_phase := (if sameRun then c_phase c else PNew),
        c_base := (if keep then c_base c else base), c_next := (if keep then c_next c else base),
        c_checkpoint := (if keep then c_checkpoint c else base),
        c_finishSequence := (if sameRun then c_finishSequence c else None),
        c_finishResult := (if sameRun then c_finishResult c else None)\<rparr>)"

definition bound_to :: "(string \<Rightarrow> string) \<Rightarrow> run_scope \<Rightarrow> control_row \<Rightarrow> bool" where
  "bound_to sha sc c \<longleftrightarrow> c_targetHash c = target_hash sha sc \<and> c_revision c = sc_configRevision sc \<and> c_mode c = sc_mode sc"

definition check_bound :: "(string \<Rightarrow> string) \<Rightarrow> run_scope \<Rightarrow> control_row \<Rightarrow> unit result" where
  "check_bound sha sc c = (if c_head c = None then Inl PersistenceResetRequiredError
     else ensureR (bound_to sha sc c) ''Target/config changes require controlled reset'')"

definition known_run :: "run_scope \<Rightarrow> database \<Rightarrow> bool" where
  "known_run sc d \<longleftrightarrow> list_ex (\<lambda>c. control_key c = scope_key sc) (db_controls d)"

text \<open>The checks before the row of the run is inserted.\<close>

definition check_admission :: "(string \<Rightarrow> string) \<Rightarrow> run_scope \<Rightarrow> database \<Rightarrow> unit result" where
  "check_admission sha sc d =
     bindR (ensureR (\<not> list_ex (\<lambda>c. c_sync c = sc_syncId sc \<and> c_workspace c \<noteq> sc_workspaceId sc) (db_controls d))
        ''Sync belongs to another workspace'') (\<lambda>_.
     bindR (case latest_row (sync_rows sc d) of None \<Rightarrow> Inr () | Some p \<Rightarrow> check_bound sha sc p) (\<lambda>_.
     if known_run sc d then Inr ()
     else ensureR (\<not> list_ex (\<lambda>c. (\<not> c_detached c \<or> sc_insertOnly sc) \<and> \<not> ended (c_phase c)) (sync_rows sc d))
        (if sc_insertOnly sc then ''Previous conversion run requires status refresh before new extraction''
         else ''Previous logical run requires recovery'')))"

text \<open>\<open>INSERT ... ON CONFLICT DO NOTHING\<close>.\<close>

definition insert_run :: "(string \<Rightarrow> string) \<Rightarrow> run_scope \<Rightarrow> string \<Rightarrow> database \<Rightarrow> database" where
  "insert_run sha sc initialHead d = (if known_run sc d then d
     else d\<lparr>db_controls := db_controls d @ [new_control_row sha sc (latest_row (sync_rows sc d)) initialHead]\<rparr>)"

definition check_control :: "(string \<Rightarrow> string) \<Rightarrow> run_scope \<Rightarrow> bool \<Rightarrow> control_row \<Rightarrow> unit result" where
  "check_control sha sc sameRun c =
     bindR (check_bound sha sc c) (\<lambda>_.
     if sameRun then
       bindR (ensureR (\<not> ended (c_phase c)) ''Logical run already ended; use a new run ID'') (\<lambda>_.
       ensureR (c_extraction c = sc_extraction sc) ''Recovery must preserve the original run configuration'')
     else Inr ())"

definition write_admitted :: "run_scope \<Rightarrow> control_row \<Rightarrow> (tx, unit) oper" where
  "write_admitted sc row = thenE (modifyE (\<lambda>t. t\<lparr>tx_db := update_control row (tx_db t)\<rparr>)) (remember sc row)"

definition admit :: "(string \<Rightarrow> string) \<Rightarrow> run_scope \<Rightarrow> string \<Rightarrow> (tx, bool) oper" where
  "admit sha sc initialHead =
     thenE invalidate
     (bindE (getE tx_db) (\<lambda>d.
      let sameRun = known_run sc d in
      thenE (resultE (check_admission sha sc d))
      (thenE (modifyE (\<lambda>t. t\<lparr>tx_db := insert_run sha sc initialHead d\<rparr>))
      (bindE (selectControl sc) (\<lambda>control.
       thenE (resultE (check_control sha sc sameRun control))
       (thenE (claim_target sha sc)
       (bindE (admission_base sha sc sameRun control) (\<lambda>(base, store).
        thenE (write_admitted sc (admitted_row sc sameRun base store control))
        (returnE (sameRun \<and> c_phase control \<noteq> PNew))))))))))"

definition openRun :: "(string \<Rightarrow> string) \<Rightarrow> run_scope \<Rightarrow> string \<Rightarrow> (world, bool) oper" where
  "openRun sha sc initialHead =
     thenE (ensure (list_all (\<lambda>v. 0 < length v \<and> length v \<le> 512) (scope_values sc)) ''Invalid run scope'')
     (thenE (ensure (sc_mode sc = ModeMirror \<longrightarrow> sc_extraction sc = ExtractFull) ''Mirror requires full extraction'')
     (cache_transaction sc (admit sha sc initialHead)))"

end
