(* ===== verification/Journal.thy ===== *)
theory Journal
  imports RunState
begin

text \<open>
  The delivery journal (\<open>artifacts/journal.ts\<close>) with its snapshots (\<open>artifacts/snapshots.ts\<close>): a
  session of one logical run over the object store, the control row in the database and the local
  index. Every transition writes its artifacts first and then one atomic update of the control row.
  The publish observer cannot fail a publish and is left out.
\<close>

subsection \<open>Sessions\<close>

record limits =
  batchRecords :: nat
  batchBytes :: nat
  snapshotEntries :: nat
  snapshotBytes :: nat
  journalBytes :: nat

definition defaultLimits :: limits where
  "defaultLimits = \<lparr>batchRecords = 1000, batchBytes = 10000000, snapshotEntries = 1000000,
     snapshotBytes = 256000000, journalBytes = 256000000\<rparr>"

text \<open>The pure delivery adapter \<open>Project\<close> is a parameter.\<close>

record journal_env = artifact_env +
  e_limits :: limits
  e_projection :: "action \<Rightarrow> json \<Rightarrow> identity list result"

record session =
  s_scope :: run_scope
  s_recovered :: bool
  s_local :: local_index
  s_head :: artifact_head
  s_headBytes :: "string option"
  s_broken :: bool
  s_pending :: "snapshot_head option"
  s_world :: world

definition liftW :: "(world, 'a) oper \<Rightarrow> (session, 'a) oper" where
  "liftW m s = (case m (s_world s) of (r, w) \<Rightarrow> (r, s\<lparr>s_world := w\<rparr>))"

definition readE :: "('s \<Rightarrow> 'a result) \<Rightarrow> ('s, 'a) oper" where
  "readE f s = (f s, s)"

definition modifyR :: "('s \<Rightarrow> 's result) \<Rightarrow> ('s, unit) oper" where
  "modifyR f s = (case f s of Inl e \<Rightarrow> (Inl e, s) | Inr t \<Rightarrow> (Inr (), t))"

definition current :: "(session, control_row) oper" where
  "current =
     bindE (getE s_broken) (\<lambda>b. thenE (ensure (\<not> b) ''Artifact session requires reopening after a failed commit'')
     (bindE (getE s_scope) (\<lambda>sc. liftW (observe sc))))"

definition put_json :: "journal_env \<Rightarrow> json \<Rightarrow> (session, artifact_ref) oper" where
  "put_json env v = bindE (getE s_scope) (\<lambda>sc. liftW (put_artifact env sc v))"

definition get_json :: "journal_env \<Rightarrow> artifact_ref \<Rightarrow> (session, json) oper" where
  "get_json env ref = readE (\<lambda>s. get_artifact env (s_scope s) ref (s_world s))"

subsection \<open>Publishing\<close>

text \<open>\<open>x ?? y\<close> on a member of the saved envelope that holds a run order.\<close>

definition order_member :: "json \<Rightarrow> string \<Rightarrow> int option" where
  "order_member v k = present (\<lambda>x. text_value (string_of_json x)) (member v k)"

definition coalesce :: "'a option \<Rightarrow> 'a \<Rightarrow> 'a" where
  "coalesce a b = (case a of None \<Rightarrow> b | Some x \<Rightarrow> x)"

definition replaces_state :: "control_row \<Rightarrow> json option \<Rightarrow> bool" where
  "replaces_state old previous = (case previous of None \<Rightarrow> True
     | Some e \<Rightarrow> coalesce (order_member e ''runOrder'') 0 \<le> c_order old)"

definition checkpoint_order :: "json option \<Rightarrow> int" where
  "checkpoint_order previous = (case previous of None \<Rightarrow> -1
     | Some e \<Rightarrow> coalesce (order_member e ''checkpointRunOrder'') (coalesce (order_member e ''runOrder'') (-1)))"

definition replaces_point :: "run_scope \<Rightarrow> control_row \<Rightarrow> json option \<Rightarrow> saved_state \<Rightarrow> bool" where
  "replaces_point sc old previous cp \<longleftrightarrow>
     (sc_mode sc \<noteq> ModeUpsert \<or> sc_extraction sc \<noteq> ExtractCursor \<or> rp_seq (sv_point cp) > c_base old)
     \<and> checkpoint_order previous \<le> c_order old"

definition saved_envelope ::
    "(string \<Rightarrow> string) \<Rightarrow> run_scope \<Rightarrow> control_row \<Rightarrow> json option \<Rightarrow> saved_state option \<Rightarrow> saved_state \<Rightarrow> json result" where
  "saved_envelope sha sc old envelope previous cp =
     (let rs = replaces_state old envelope; rp = replaces_point sc old envelope cp;
          value = (case previous of None \<Rightarrow> cp | Some p \<Rightarrow> (if rs then cp else p))
            \<lparr>sv_point := (if rp then sv_point cp else case previous of None \<Rightarrow> sv_point cp | Some p \<Rightarrow> sv_point p)\<rparr> in
      bindR (encodeJson (json_of_saved value) (192 * 1024)) (\<lambda>text. Inr (JObj [
        (''version'', JInt 2), (''workspaceId'', JStr (sc_workspaceId sc)), (''revision'', JStr (sc_configRevision sc)),
        (''targetHash'', JStr (target_hash sha sc)),
        (''runOrder'', JStr (int_text (if rs then c_order old
           else case envelope of None \<Rightarrow> 0 | Some e \<Rightarrow> coalesce (order_member e ''runOrder'') 0))),
        (''checkpointRunOrder'', JStr (int_text (if rp then c_order old else checkpoint_order envelope))),
        (''value'', JStr text)])))"

definition save_checkpoint :: "(string \<Rightarrow> string) \<Rightarrow> run_scope \<Rightarrow> control_row \<Rightarrow> saved_state \<Rightarrow> (tx, unit) oper" where
  "save_checkpoint sha sc old cp =
     bindE (getE (\<lambda>t. select_state sc (tx_db t))) (\<lambda>envelope.
     bindE (case envelope of None \<Rightarrow> returnE None
        | Some e \<Rightarrow> bindE (resultE (readSavedState sha e sc)) (\<lambda>p. returnE (Some p))) (\<lambda>previous.
     bindE (resultE (saved_envelope sha sc old envelope previous cp)) (\<lambda>e.
     modifyE (\<lambda>t. let d = tx_db t in
       if (case envelope of None \<Rightarrow> True
           | Some p \<Rightarrow> coalesce (order_member p ''runOrder'') 0 \<le> coalesce (order_member e ''runOrder'') 0)
       then t\<lparr>tx_db := d\<lparr>db_states := AList.update (sc_syncId sc, stateStream) e (db_states d)\<rparr>\<rparr> else t))))"

definition publish_work ::
    "(string \<Rightarrow> string) \<Rightarrow> run_scope \<Rightarrow> string option \<Rightarrow> string \<Rightarrow> (control_row \<Rightarrow> control_row) \<Rightarrow> saved_state option \<Rightarrow>
     phase option \<Rightarrow> (tx, unit) oper" where
  "publish_work sha sc oldBytes headBytes changes checkpoint expectedPhase =
     bindE (lock_control sc) (\<lambda>old.
     thenE (case expectedPhase of None \<Rightarrow> returnE ()
        | Some p \<Rightarrow> if c_phase old \<noteq> p then throwE (TransitionConflict ''Lifecycle phase changed; transition rejected'') else returnE ())
     (thenE (ensure (c_head old = oldBytes) ''Artifact head changed; reopen recovery'')
     (thenE (case checkpoint of None \<Rightarrow> returnE () | Some cp \<Rightarrow> save_checkpoint sha sc old cp)
     (let row = (changes old)\<lparr>c_head := Some headBytes\<rparr> in
      thenE (modifyE (\<lambda>t. t\<lparr>tx_db := update_control row (tx_db t)\<rparr>))
      (remember sc row)))))"

fun is_conflict :: "exn \<Rightarrow> bool" where
  "is_conflict (TransitionConflict _) = True"
| "is_conflict _ = False"

definition head_bytes_for :: "journal_env \<Rightarrow> artifact_head \<Rightarrow> (session, string) oper" where
  "head_bytes_for env head =
     bindE (getE s_headBytes) (\<lambda>hb.
     bindE (case hb of None \<Rightarrow> returnE None
        | Some b \<Rightarrow> bindE (resultE (decodeJson b)) (\<lambda>v. returnE (Some (ref_of_json v, b)))) (\<lambda>existing.
     case existing of
       Some (ref, b) \<Rightarrow>
         if ar_sha256 ref = text_hash (e_sha env) (versioned (json_of_head head)) then returnE b
         else bindE (put_json env (json_of_head head)) (\<lambda>r. resultE (encodeJson (json_of_ref r) 65536))
     | None \<Rightarrow> bindE (put_json env (json_of_head head)) (\<lambda>r. resultE (encodeJson (json_of_ref r) 65536))))"

definition publish ::
    "journal_env \<Rightarrow> artifact_head \<Rightarrow> (control_row \<Rightarrow> control_row) \<Rightarrow> saved_state option \<Rightarrow> phase option \<Rightarrow> (session, unit) oper" where
  "publish env head changes checkpoint expectedPhase =
     bindE (getE s_broken) (\<lambda>b. thenE (ensure (\<not> b) ''Artifact session requires reopening after a failed commit'')
     (thenE (liftW throwIfAborted)
     (bindE (head_bytes_for env head) (\<lambda>headBytes.
     bindE (getE (\<lambda>s. (s_scope s, s_headBytes s))) (\<lambda>(sc, oldBytes).
     catchE
       (thenE (liftW (cache_transaction sc (publish_work (e_sha env) sc oldBytes headBytes changes checkpoint expectedPhase)))
        (modifyE (\<lambda>s. s\<lparr>s_head := head, s_headBytes := Some headBytes\<rparr>)))
       (\<lambda>e. thenE (whenE (\<not> is_conflict e) (modifyE (\<lambda>s. s\<lparr>s_broken := True\<rparr>))) (throwE e)))))))"

subsection \<open>Batches\<close>

definition find_batch :: "string \<Rightarrow> (session, batch_head) oper" where
  "find_batch bid =
     readE (\<lambda>s. case find (\<lambda>b. b_id b = bid) (h_batches (s_head s)) of
        None \<Rightarrow> Inl (PersistenceError ''Prepared batch not found'') | Some b \<Rightarrow> Inr b)"

definition load_data :: "journal_env \<Rightarrow> run_scope \<Rightarrow> world \<Rightarrow> batch_head \<Rightarrow> batch_data result" where
  "load_data env sc w head =
     bindR (get_artifact env sc (b_data head) w) (\<lambda>v. let stored = stored_batch_of_json v in
     bindR (ensureR (sb_effects stored \<noteq> None \<or> sc_mode sc = ModeMirror) ''Missing projected effects'') (\<lambda>_.
     bindR (case sb_effects stored of
         Some ref \<Rightarrow> bindR (get_artifact env sc ref w) (\<lambda>p. Inr (projection_of_json p))
       | None \<Rightarrow> Inr (map (\<lambda>r. [effect_of_json (rec_row r)]) (pb_records (sb_batch stored)))) (\<lambda>effs.
     bindR (ensureR (pb_id (sb_batch stored) = b_id head
          \<and> int (length (pb_records (sb_batch stored))) = b_last head - b_first head + 1
          \<and> length effs = length (pb_records (sb_batch stored))) ''Invalid batch artifact binding'') (\<lambda>_.
     Inr \<lparr>bd_batch = sb_batch stored, bd_effects = effs\<rparr>))))"

definition data :: "journal_env \<Rightarrow> batch_head \<Rightarrow> (session, batch_data) oper" where
  "data env head = readE (\<lambda>s. load_data env (s_scope s) (s_world s) head)"

definition load_receipt :: "journal_env \<Rightarrow> run_scope \<Rightarrow> world \<Rightarrow> batch_head \<Rightarrow> receipt_data option result" where
  "load_receipt env sc w head = (case b_receipt head of
      None \<Rightarrow> Inr None
    | Some ref \<Rightarrow> bindR (get_artifact env sc ref w) (\<lambda>v. Inr (Some (receipt_of_json v))))"

fun status_of_batch :: "batch_status \<Rightarrow> op_status" where
  "status_of_batch BPrepared = OpPrepared"
| "status_of_batch BUnknown = OpUnknown"
| "status_of_batch BAcknowledged = OpAcknowledged"
| "status_of_batch BCancelled = OpCancelled"

fun status_of_outcome :: "outcome \<Rightarrow> op_status" where
  "status_of_outcome (Accepted _) = OpAccepted"
| "status_of_outcome (Staged _) = OpStaged"
| "status_of_outcome (Rejected _ _ _) = OpRejected"

definition outcome_of :: "batch_result option \<Rightarrow> string \<Rightarrow> outcome option" where
  "outcome_of r op = (case r of None \<Rightarrow> None | Some res \<Rightarrow> map_of (map (\<lambda>x. (outcome_op x, x)) (br_outcomes res)) op)"

definition operation_status :: "batch_head \<Rightarrow> batch_result option \<Rightarrow> string \<Rightarrow> op_status" where
  "operation_status head r op = (case outcome_of r op of
      None \<Rightarrow> status_of_batch (b_status head)
    | Some out \<Rightarrow> if is_staged out \<and> b_status head = BCancelled then OpCancelled else status_of_outcome out)"

text \<open>The timestamps of the runner have the form of \<open>toISOString\<close>.\<close>

definition digit_at :: "string \<Rightarrow> nat \<Rightarrow> bool" where
  "digit_at s i = (let n = (of_char (s ! i) :: nat) in 48 \<le> n \<and> n \<le> 57)"

definition iso_timestamp :: "string \<Rightarrow> bool" where
  "iso_timestamp s \<longleftrightarrow> length s = 24 \<and> list_all (digit_at s) [0, 1, 2, 3, 5, 6, 8, 9, 11, 12, 14, 15, 17, 18, 20, 21, 22]
     \<and> s ! 4 = CHR ''-'' \<and> s ! 7 = CHR ''-'' \<and> s ! 10 = CHR ''T'' \<and> s ! 13 = CHR '':'' \<and> s ! 16 = CHR '':''
     \<and> s ! 19 = CHR ''.'' \<and> s ! 23 = CHR ''Z''"

definition epoch :: string where
  "epoch = ''1970-01-01T00:00:00.000Z''"

definition index_effect ::
    "action \<Rightarrow> int \<Rightarrow> op_status \<Rightarrow> string option \<Rightarrow> effect \<Rightarrow> local_index \<Rightarrow> local_index result" where
  "index_effect act sq status at e li =
     (let li' = touch (ef_identityHash e) li in
      if status = OpAccepted then
        bindR (ensureR (case at of None \<Rightarrow> False | Some t \<Rightarrow> iso_timestamp t) ''Missing acceptance evidence'') (\<lambda>_.
        Inr (apply_update \<lparr>u_effect = e, u_action = act, u_seq = sq, u_at = the at, u_uncertain = False\<rparr> li'))
      else Inr li')"

definition index_record ::
    "batch_head \<Rightarrow> action \<Rightarrow> batch_result option \<Rightarrow> (string \<times> string) list \<Rightarrow> batch_record \<times> effect list \<Rightarrow>
     local_index \<Rightarrow> local_index result" where
  "index_record head act r acceptedAt re li =
     (let status = operation_status head r (rec_op (fst re)) in
      bindR (put_operation (rec_op (fst re)) (rec_seq (fst re)) status (b_id head) li)
        (foldR (index_effect act (rec_seq (fst re)) status (map_of acceptedAt (rec_op (fst re)))) (snd re)))"

definition index_batch :: "batch_head \<Rightarrow> batch_data \<Rightarrow> receipt_data option \<Rightarrow> local_index \<Rightarrow> local_index result" where
  "index_batch head bd receipt li =
     bindR (case receipt of None \<Rightarrow> Inr None
        | Some rc \<Rightarrow> bindR (validateBatchResult (bd_batch bd) (json_of_batch_result (rd_result rc))) (\<lambda>r. Inr (Some r))) (\<lambda>r.
     foldR (index_record head (pb_action (bd_batch bd)) r (case receipt of None \<Rightarrow> [] | Some rc \<Rightarrow> rd_acceptedAt rc))
       (zip (pb_records (bd_batch bd)) (bd_effects bd)) li)"

definition index :: "batch_head \<Rightarrow> batch_data \<Rightarrow> receipt_data option \<Rightarrow> (session, unit) oper" where
  "index head bd receipt =
     modifyR (\<lambda>s. bindR (index_batch head bd receipt (s_local s)) (\<lambda>li. Inr (s\<lparr>s_local := li\<rparr>)))"

subsection \<open>Opening\<close>

definition restore_batch :: "journal_env \<Rightarrow> run_scope \<Rightarrow> world \<Rightarrow> batch_head \<Rightarrow> local_index \<Rightarrow> local_index result" where
  "restore_batch env sc w b li =
     bindR (load_data env sc w b) (\<lambda>bd.
     bindR (load_receipt env sc w b) (\<lambda>rc. index_batch b bd rc li))"

definition accepted_replacement :: "artifact_head \<Rightarrow> bool" where
  "accepted_replacement h = (case h_snapshot h of None \<Rightarrow> False
     | Some sn \<Rightarrow> sn_native sn \<and> sn_replacementStatus sn = Some RAccepted)"

definition restore_index :: "journal_env \<Rightarrow> run_scope \<Rightarrow> world \<Rightarrow> artifact_head \<Rightarrow> local_index \<Rightarrow> local_index result" where
  "restore_index env sc w h li0 =
     bindR (foldR (\<lambda>ref li. bindR (get_artifact env sc ref w) (\<lambda>v. Inr (restoreMembers (members_of_json v) li))) (h_baseline h) li0) (\<lambda>li1.
     bindR (case h_snapshot h of None \<Rightarrow> Inr li1
        | Some sn \<Rightarrow> if sn_sealed sn
            then foldR (\<lambda>ref li. bindR (get_artifact env sc ref w) (\<lambda>v. restoreDesired (effects_of_json v) li)) (sn_parts sn) li1
            else Inr li1) (\<lambda>li2.
     bindR (foldR (restore_batch env sc w) (sort_key b_first (h_batches h)) li2) (\<lambda>li3.
     Inr (if accepted_replacement h then applyReplacement li3 else li3))))"

definition restore :: "journal_env \<Rightarrow> (session, unit) oper" where
  "restore env = modifyR (\<lambda>s.
     bindR (restore_index env (s_scope s) (s_world s) (s_head s) (s_local s)) (\<lambda>li. Inr (s\<lparr>s_local := li\<rparr>)))"

definition unresolved :: "batch_head \<Rightarrow> bool" where
  "unresolved b \<longleftrightarrow> b_status b = BPrepared \<or> b_status b = BUnknown"

text \<open>Pending memberships of the previous run become uncertain members of the new one.\<close>

definition keep_pending :: "journal_env \<Rightarrow> run_scope \<Rightarrow> world \<Rightarrow> batch_head \<Rightarrow> local_index \<Rightarrow> local_index result" where
  "keep_pending env sc w b li =
     bindR (load_data env sc w b) (\<lambda>bd.
     bindR (load_receipt env sc w b) (\<lambda>rc.
     case rc of None \<Rightarrow> Inl parse_failed
     | Some receipt \<Rightarrow>
       (let pending = map outcome_op (filter is_staged (br_outcomes (rd_result receipt))) in
        Inr (fold (\<lambda>(r, es). if rec_op r \<in> set pending
               then fold (\<lambda>e. apply_update \<lparr>u_effect = e, u_action = Upsert, u_seq = rec_seq r, u_at = epoch, u_uncertain = True\<rparr>) es
               else id) (zip (pb_records (bd_batch bd)) (bd_effects bd)) li))))"

definition put_pages :: "journal_env \<Rightarrow> ('a list \<Rightarrow> json) \<Rightarrow> 'a list list \<times> unit result \<Rightarrow> (session, artifact_ref list) oper" where
  "put_pages env f pages =
     bindE (mapE (\<lambda>p. put_json env (f p)) (fst pages)) (\<lambda>refs.
     thenE (resultE (snd pages)) (returnE refs))"

definition next_generation :: "journal_env \<Rightarrow> (session, unit) oper" where
  "next_generation env =
     bindE (getE s_head) (\<lambda>head. bindE (getE s_scope) (\<lambda>sc.
     thenE (ensure (\<not> list_ex unresolved (h_batches head)) ''Unresolved artifact batches require recovery'')
     (thenE (modifyR (\<lambda>s. bindR (foldR (keep_pending env (s_scope s) (s_world s)) (filter (\<lambda>b. b_staged b > 0) (h_batches head)) (s_local s))
          (\<lambda>li. Inr (s\<lparr>s_local := li\<rparr>))))
     (thenE (whenE (list_ex (\<lambda>b. b_staged b > 0) (h_batches head)
          \<or> (case h_snapshot head of None \<Rightarrow> False | Some sn \<Rightarrow> sn_native sn \<and> sn_replacementStatus sn \<noteq> Some RAccepted))
        (modifyE (\<lambda>s. s\<lparr>s_local := all_uncertain (s_local s)\<rparr>)))
     (bindE (getE (\<lambda>s. memberPages (s_local s))) (\<lambda>pages.
      bindE (put_pages env json_of_members pages) (\<lambda>baseline.
      let fresh = \<lparr>h_runId = sc_logicalRunId sc, h_baseline = baseline, h_snapshot = None, h_batches = []\<rparr> in
      thenE (modifyE (\<lambda>s. s\<lparr>s_head := fresh, s_local := new_generation (s_local s)\<rparr>))
      (publish env fresh id None None))))))))"

definition head_manifest_ok :: "json \<Rightarrow> bool" where
  "head_manifest_ok v \<longleftrightarrow> member v ''version'' = JInt 1
     \<and> (case member v ''baseline'' of JArr _ \<Rightarrow> True | _ \<Rightarrow> False) \<and> (case member v ''batches'' of JArr _ \<Rightarrow> True | _ \<Rightarrow> False)"

definition open_session :: "journal_env \<Rightarrow> (session, unit) oper" where
  "open_session env =
     thenE (restore env)
     (bindE (getE (\<lambda>s. h_runId (s_head s) \<noteq> sc_logicalRunId (s_scope s))) (\<lambda>other.
      whenE other (next_generation env)))"

definition open_journal :: "journal_env \<Rightarrow> run_scope \<Rightarrow> bool \<Rightarrow> (world, session) oper" where
  "open_journal env sc recovery w = (case observe sc w of
      (Inl e, w1) \<Rightarrow> (Inl e, w1)
    | (Inr control, w1) \<Rightarrow> (case c_head control of
        None \<Rightarrow> (Inl (PersistenceError ''Artifact head is required; legacy state requires an explicit test-sync reset''), w1)
      | Some hb \<Rightarrow> (case bindR (decodeJson hb) (\<lambda>v. get_artifact env sc (ref_of_json v) w1) of
          Inl e \<Rightarrow> (Inl e, w1)
        | Inr v \<Rightarrow>
            if \<not> head_manifest_ok v then (Inl (PersistenceError ''Invalid artifact manifest''), w1)
            else (case open_session env \<lparr>s_scope = sc, s_recovered = recovery, s_local = create_index,
                s_head = head_of_json v, s_headBytes = Some hb, s_broken = False, s_pending = None, s_world = w1\<rparr> of
              (Inl e, s) \<Rightarrow> (Inl e, s_world s)
            | (Inr _, s) \<Rightarrow> (Inr s, s_world s)))))"

text \<open>\<open>openPersistence\<close> of \<open>persistence/index.ts\<close>.\<close>

definition openPersistence :: "journal_env \<Rightarrow> run_scope \<Rightarrow> (world, session) oper" where
  "openPersistence env sc =
     bindE (put_artifact env sc (json_of_head \<lparr>h_runId = sc_logicalRunId sc, h_baseline = [], h_snapshot = None, h_batches = []\<rparr>)) (\<lambda>ref.
     bindE (resultE (encodeJson (json_of_ref ref) 65536)) (\<lambda>initialHead.
     bindE (openRun (e_sha env) sc initialHead) (\<lambda>recovery.
     open_journal env sc recovery)))"

end
