(* ===== verification/Delivery.thy ===== *)
theory Delivery
  imports Journal
begin

text \<open>
  The operations of the delivery journal on an open session: the snapshots of a mirror
  (\<open>artifacts/snapshots.ts\<close>) and the lifecycle of \<open>artifacts/journal.ts\<close>, from the preparation of
  the writer to the final checkpoint. Values the callers hand over were copied by
  \<open>JSON.parse(canonicalJson(..))\<close> before use, which fails for values that are not lossless.
\<close>

subsection \<open>Guards of a mirror\<close>

definition sealed_snapshot :: "artifact_head \<Rightarrow> bool" where
  "sealed_snapshot h = (case h_snapshot h of None \<Rightarrow> False | Some sn \<Rightarrow> sn_sealed sn)"

definition native_snapshot :: "artifact_head \<Rightarrow> bool" where
  "native_snapshot h = (case h_snapshot h of None \<Rightarrow> False | Some sn \<Rightarrow> sn_native sn)"

definition refresh_before :: "artifact_head \<Rightarrow> string option" where
  "refresh_before h = (case h_snapshot h of None \<Rightarrow> None | Some sn \<Rightarrow> sn_refreshBefore sn)"

definition batch_size :: "batch_head \<Rightarrow> int" where
  "batch_size b = b_last b - b_first b + 1"

definition removals_allowed :: "artifact_head \<Rightarrow> local_index \<Rightarrow> unit result" where
  "removals_allowed h li =
     bindR (ensureR (\<not> native_snapshot h) ''Native replacement does not use individual removals'') (\<lambda>_.
     bindR (ensureR (sealed_snapshot h) ''Full source must be sealed before removals'') (\<lambda>_.
     bindR (ensureR (\<not> list_ex (\<lambda>b. b_action b = Upsert \<and> int (b_accepted b) \<noteq> batch_size b) (h_batches h))
        ''Unaccepted additions prohibit removals'') (\<lambda>_.
     ensureR (additions_page [] 1 (refresh_before h) False li = []) ''Desired additions are not durably accepted'')))"

definition replacement_ready :: "artifact_head \<Rightarrow> local_index \<Rightarrow> unit result" where
  "replacement_ready h li =
     bindR (ensureR (sealed_snapshot h \<and> native_snapshot h) ''Replacement requires a sealed snapshot'') (\<lambda>_.
     bindR (ensureR (list_all (\<lambda>b. b_action b = Upsert \<and> int (b_accepted b) = batch_size b) (h_batches h))
        ''Unaccepted uploads prohibit replacement cleanup'') (\<lambda>_.
     ensureR (replacementPage [] 1 li = []) ''Incomplete uploads prohibit replacement cleanup''))"

definition promotable :: "artifact_head \<Rightarrow> local_index \<Rightarrow> unit result" where
  "promotable h li =
     (if native_snapshot h then
        bindR (replacement_ready h li) (\<lambda>_.
        ensureR (accepted_replacement h) ''Replacement cleanup is not accepted'')
      else
        bindR (removals_allowed h li) (\<lambda>_.
        ensureR (removals_page [] 1 li = []) ''Unremoved memberships prohibit promotion''))"

definition assertRemovalsAllowed :: "(session, unit) oper" where
  "assertRemovalsAllowed = readE (\<lambda>s. removals_allowed (s_head s) (s_local s))"

definition assertReplacementReady :: "(session, unit) oper" where
  "assertReplacementReady = readE (\<lambda>s. replacement_ready (s_head s) (s_local s))"

definition assertPromotable :: "(session, unit) oper" where
  "assertPromotable = readE (\<lambda>s. promotable (s_head s) (s_local s))"

subsection \<open>Snapshots\<close>

text \<open>
  \<open>start\<close> takes the refresh boundary as the timestamp \<open>new Date(Date.now() - refreshAfterMs)\<close>
  that its caller's interval gives.
\<close>

definition snapshot_start :: "journal_env \<Rightarrow> int option \<Rightarrow> (int \<Rightarrow> string) \<Rightarrow> bool \<Rightarrow> (session, unit) oper" where
  "snapshot_start env refreshAfterMs ago native =
     thenE (ensure (case refreshAfterMs of None \<Rightarrow> True | Some n \<Rightarrow> safe_integer n \<and> n > 0) ''Invalid refresh interval'')
     (bindE current (\<lambda>control.
      thenE (ensure (c_mode control = ModeMirror \<and> (c_phase control = PNew \<or> c_phase control = PRunning)) ''Cannot start snapshot'')
      (bindE (getE s_head) (\<lambda>h.
       thenE (ensure (\<not> sealed_snapshot h) ''Snapshot is sealed'')
       (bindE (getE s_pending) (\<lambda>pending. whenE (pending = None)
        (let sn = \<lparr>sn_native = native, sn_replacementStatus = None, sn_sealed = False, sn_parts = [], sn_keys = 0,
               sn_entries = 0, sn_bytes = 0, sn_page = 0, sn_pageHash = [],
               sn_refreshBefore = (case refresh_before h of Some t \<Rightarrow> Some t | None \<Rightarrow> map_option ago refreshAfterMs),
               sn_summary = None\<rparr> in
         thenE (modifyE (\<lambda>s. s\<lparr>s_pending := Some sn\<rparr>))
         (publish env (h\<lparr>h_snapshot := Some sn\<rparr>) id None None))))))))"

definition json_of_snapshot_row :: "string \<times> effect list \<Rightarrow> json" where
  "json_of_snapshot_row r = JObj [(''key'', JStr (fst r)), (''effects'', json_of_effects (snd r))]"

definition json_of_identity :: "identity \<Rightarrow> json" where
  "json_of_identity i = JObj [(''identity'', id_identity i), (''upsert'', id_upsert i), (''remove'', id_remove i)]"

definition canon_identity :: "identity \<Rightarrow> identity" where
  "canon_identity i = \<lparr>id_identity = canon (id_identity i), id_upsert = canon (id_upsert i), id_remove = canon (id_remove i)\<rparr>"

definition copy_rows :: "(string \<times> identity list) list \<Rightarrow> (string \<times> identity list) list result" where
  "copy_rows rows = bindR (canonicalJson (JArr (map (\<lambda>(k, ids).
       JObj [(''key'', JStr k), (''identities'', JArr (map json_of_identity ids))]) rows)))
     (\<lambda>_. Inr (map (\<lambda>(k, ids). (k, map canon_identity ids)) rows))"

text \<open>A new page: the budgets, the local index, and the advanced pending snapshot.\<close>

definition append_page ::
    "journal_env \<Rightarrow> snapshot_head \<Rightarrow> (string \<times> effect list) list \<Rightarrow> string \<Rightarrow> int \<Rightarrow> (session, unit) oper" where
  "append_page env sn projected text pageSequence =
     thenE (ensure (safe_integer pageSequence \<and> pageSequence = sn_page sn + 1) ''Snapshot page sequence must be contiguous'')
     (thenE (ensure (list_all (\<lambda>r. hex64 (fst r)) projected) ''Invalid source key'')
     (let entries = sn_entries sn + sum_list (map (\<lambda>r. max 1 (length (snd r))) projected);
          bytes = sn_bytes sn + byteLength text in
      thenE (ensure (entries \<le> snapshotEntries (e_limits env) \<and> bytes \<le> snapshotBytes (e_limits env)) ''Snapshot storage budget exceeded'')
      (thenE (modifyR (\<lambda>s. bindR (append_rows projected (s_local s)) (\<lambda>li. Inr (s\<lparr>s_local := li\<rparr>))))
      (modifyE (\<lambda>s. s\<lparr>s_pending := Some (sn\<lparr>sn_entries := entries, sn_bytes := bytes,
         sn_keys := sn_keys sn + length projected, sn_page := pageSequence, sn_pageHash := e_sha env text\<rparr>)\<rparr>)))))"

definition snapshot_status :: "(session, (bool \<times> int \<times> nat) option) oper" where
  "snapshot_status = getE (\<lambda>s. map_option (\<lambda>sn. (sn_sealed sn, sn_page sn, sn_keys sn))
     (case s_pending s of Some sn \<Rightarrow> Some sn | None \<Rightarrow> h_snapshot (s_head s)))"

definition snapshot_append :: "journal_env \<Rightarrow> (string \<times> identity list) list \<Rightarrow> int \<Rightarrow> (session, unit) oper" where
  "snapshot_append env input pageSequence =
     bindE (resultE (copy_rows input)) (\<lambda>rows.
     bindE current (\<lambda>control.
     thenE (ensure (c_phase control = PNew \<or> c_phase control = PRunning) ''Cannot append snapshot in this phase'')
     (bindE (getE s_pending) (\<lambda>pending. case pending of
        None \<Rightarrow> throwE (PersistenceError ''Snapshot is absent or sealed'')
      | Some sn \<Rightarrow>
        thenE (ensure (\<not> sn_sealed sn) ''Snapshot is absent or sealed'')
        (thenE (ensure (0 < length rows \<and> length rows \<le> batchRecords (e_limits env)) ''Snapshot page exceeds entry limit'')
        (bindE (resultE (mapR (\<lambda>(k, ids). bindR (effects (e_sha env) True ids) (\<lambda>es. Inr (k, es))) rows)) (\<lambda>projected.
        let text = json_text (JArr (map json_of_snapshot_row projected)) in
        thenE (ensure (byteLength text \<le> batchBytes (e_limits env)) ''Snapshot page exceeds byte limit'')
        (if pageSequence = sn_page sn then ensure (e_sha env text = sn_pageHash sn) ''Snapshot page retry differs''
         else append_page env sn projected text pageSequence))))))))"

definition snapshot_seal :: "journal_env \<Rightarrow> (int \<times> int) option \<Rightarrow> (session, nat) oper" where
  "snapshot_seal env counts =
     bindE current (\<lambda>control.
     thenE (ensure (c_phase control = PRunning) ''Cannot seal snapshot in this phase'')
     (bindE (getE s_pending) (\<lambda>pending. case pending of
        None \<Rightarrow> throwE (PersistenceError ''Snapshot is absent or sealed'')
      | Some sn \<Rightarrow>
        thenE (ensure (\<not> sn_sealed sn) ''Snapshot is absent or sealed'')
        (bindE (getE (\<lambda>s. desiredPages (s_local s))) (\<lambda>pages.
         bindE (put_pages env json_of_effects pages) (\<lambda>parts.
         bindE (getE (\<lambda>s. compare_index (sn_refreshBefore sn) (s_local s))) (\<lambda>cmp.
         let sealed = sn\<lparr>sn_parts := parts, sn_sealed := True, sn_summary := Some \<lparr>su_comparison = cmp,
               su_projectedMembers = map_option fst counts, su_excludedRows = map_option snd counts\<rparr>\<rparr> in
         bindE (getE s_head) (\<lambda>h.
         thenE (publish env (h\<lparr>h_snapshot := Some sealed\<rparr>) id None None)
         (thenE (modifyE (\<lambda>s. s\<lparr>s_pending := None\<rparr>))
         (returnE (length (concat (fst pages)))))))))))))"

datatype page_kind = Additions | Removals

definition snapshot_page :: "page_kind \<Rightarrow> string \<Rightarrow> int \<Rightarrow> (session, effect list) oper" where
  "snapshot_page kind after limit =
     thenE (ensure ((after = [] \<or> hex64 after) \<and> safe_integer limit \<and> limit > 0 \<and> limit \<le> 1000) ''Invalid diff page'')
     (bindE (getE s_head) (\<lambda>h.
      thenE (ensure (sealed_snapshot h) ''Full snapshot must be sealed'')
      (if native_snapshot h then
         thenE (ensure (kind = Additions) ''Native replacement does not use individual removals'')
         (getE (\<lambda>s. replacementPage after (nat limit) (s_local s)))
       else
         thenE (whenE (kind = Removals) assertRemovalsAllowed)
         (getE (\<lambda>s. if kind = Additions then additions_page after (nat limit) (refresh_before h) True (s_local s)
                    else removals_page after (nat limit) (s_local s))))))"

subsection \<open>Lifecycle before delivery\<close>

definition state_json :: "string option \<Rightarrow> json result" where
  "state_json b = (case b of None \<Rightarrow> Inr (JObj []) | Some bytes \<Rightarrow> decodeJson bytes)"

definition journal_state :: "(session, json \<times> json) oper" where
  "journal_state = bindE current (\<lambda>c.
     bindE (resultE (state_json (c_store c))) (\<lambda>store.
     bindE (resultE (state_json (c_providerState c))) (\<lambda>provider. returnE (store, provider))))"

definition saved :: "journal_env \<Rightarrow> (session, saved_state option) oper" where
  "saved env = bindE (getE s_scope) (\<lambda>sc.
     bindE (liftW (db_transaction None (bindE (getE (\<lambda>t. select_state sc (tx_db t))) (\<lambda>row. case row of
         None \<Rightarrow> returnE None | Some st \<Rightarrow> bindE (resultE (readSavedState (e_sha env) st sc)) (\<lambda>v. returnE (Some v))))))
       (\<lambda>r. returnE (fst r)))"

definition assertReady :: "journal_env \<Rightarrow> (session, resume_point) oper" where
  "assertReady env = bindE current (\<lambda>c.
     bindE (getE id) (\<lambda>s.
     thenE (ensure (c_phase c = PNew \<and> \<not> s_recovered s) ''Recover previous lifecycle before extraction'')
     (thenE (ensure (h_batches (s_head s) = []) ''Unresolved operations require recovery'')
     (if sc_extraction (s_scope s) = ExtractCursor
      then bindE (saved env) (\<lambda>v. returnE (case v of None \<Rightarrow> \<lparr>rp_seq = 0, rp_cursor = None\<rparr> | Some st \<Rightarrow> sv_point st))
      else returnE \<lparr>rp_seq = 0, rp_cursor = None\<rparr>))))"

definition encode_store :: "json \<Rightarrow> (session, string) oper" where
  "encode_store v = resultE (encodeJson v 65536)"

definition copyE :: "json \<Rightarrow> (session, json) oper" where
  "copyE v = resultE (copy v)"

definition prepareInit :: "journal_env \<Rightarrow> json \<Rightarrow> (session, unit) oper" where
  "prepareInit env store = bindE (copyE store) (\<lambda>st.
     bindE (getE s_recovered) (\<lambda>rec. thenE (ensure (\<not> rec) ''Initialization is not allowed'')
     (bindE current (\<lambda>c.
      thenE (ensure (c_phase c = PNew) ''Initialization is not allowed'')
      (bindE (encode_store st) (\<lambda>b. bindE (getE s_head) (\<lambda>h.
       publish env h (\<lambda>r. r\<lparr>c_phase := PInitPrepared, c_store := Some b\<rparr>) None (Some PNew))))))))"

definition acknowledgeInit :: "journal_env \<Rightarrow> json \<Rightarrow> (session, unit) oper" where
  "acknowledgeInit env store = bindE (copyE store) (\<lambda>st.
     bindE (getE s_recovered) (\<lambda>rec. thenE (ensure (\<not> rec) ''Initialization is not prepared'')
     (bindE current (\<lambda>c.
      thenE (ensure (c_phase c = PInitPrepared) ''Initialization is not prepared'')
      (bindE (encode_store st) (\<lambda>b. bindE (getE s_head) (\<lambda>h.
       publish env h (\<lambda>r. r\<lparr>c_phase := PRunning, c_store := Some b\<rparr>) None (Some PInitPrepared))))))))"

definition resetInitAfterReconciliation :: "journal_env \<Rightarrow> string \<Rightarrow> json \<Rightarrow> (session, unit) oper" where
  "resetInitAfterReconciliation env resolution store = bindE (copyE store) (\<lambda>st.
     bindE (getE s_recovered) (\<lambda>rec. thenE (ensure (rec \<and> resolution \<in> {''absent'', ''cleaned-up''}) ''Initialization requires reconciliation'')
     (bindE current (\<lambda>c. whenE (c_phase c \<noteq> PNew)
      (thenE (ensure (c_phase c = PInitPrepared) ''Only prepared initialization can be reset'')
      (bindE (encode_store st) (\<lambda>b. bindE (getE s_head) (\<lambda>h.
       publish env h (\<lambda>r. r\<lparr>c_phase := PNew, c_store := Some b, c_providerState := None\<rparr>) None (Some (c_phase c))))))))))"

definition saveProviderState :: "journal_env \<Rightarrow> json \<Rightarrow> (session, unit) oper" where
  "saveProviderState env state = bindE (copyE state) (\<lambda>st.
     bindE current (\<lambda>c.
     thenE (ensure (c_phase c \<noteq> PNew \<and> \<not> ended (c_phase c)) ''No active provider lifecycle'')
     (bindE (encode_store st) (\<lambda>b. bindE (getE s_head) (\<lambda>h.
      publish env h (\<lambda>r. r\<lparr>c_providerState := Some b\<rparr>) None None)))))"

subsection \<open>Preparing a batch\<close>

definition batch_id :: "(string \<Rightarrow> string) \<Rightarrow> string \<Rightarrow> action \<Rightarrow> batch_record list \<Rightarrow> string" where
  "batch_id sha runId act rs = text_hash sha (JArr [JStr runId, JStr (action_text act), json_of_strings (map rec_op rs)])"

definition payload_hash :: "(string \<Rightarrow> string) \<Rightarrow> batch_record list \<Rightarrow> string" where
  "payload_hash sha rs = text_hash sha (JArr (map rec_row rs))"

definition operation_id :: "(string \<Rightarrow> string) \<Rightarrow> run_scope \<Rightarrow> action \<Rightarrow> string \<Rightarrow> json \<Rightarrow> string" where
  "operation_id sha sc act key row = text_hash sha (JArr [JStr (sc_syncId sc), JStr (sc_logicalRunId sc),
     JStr (sc_configRevision sc), JStr (sc_targetIdentity sc), JStr (action_text act), JStr key, JStr (text_hash sha row)])"

text \<open>The inner loop over the effects of one record; the result is the new \<open>seen\<close>.\<close>

fun check_effects :: "bool \<Rightarrow> bool \<Rightarrow> local_index \<Rightarrow> effect list \<Rightarrow> string set \<Rightarrow> string set result" where
  "check_effects separate mirror_remove li [] seen = Inr seen"
| "check_effects separate mirror_remove li (e # es) seen =
     bindR (ensureR (separate \<longrightarrow> ef_identityHash e \<notin> seen \<and> ef_identityHash e \<notin> set (li_touched li))
        ''Async batches require distinct member identities'') (\<lambda>_.
     bindR (ensureR (mirror_remove \<longrightarrow> map_of (li_desired li) (ef_identityHash e) = None)
        ''Cannot remove desired shared identity'') (\<lambda>_.
     check_effects separate mirror_remove li es (insert (ef_identityHash e) seen)))"

text \<open>The loop over the records; the result is the last sequence.\<close>

fun check_records ::
    "(string \<Rightarrow> string) \<Rightarrow> run_scope \<Rightarrow> action \<Rightarrow> bool \<Rightarrow> local_index \<Rightarrow> (batch_record \<times> effect list) list \<Rightarrow>
     int \<Rightarrow> string set \<Rightarrow> string set \<Rightarrow> int result" where
  "check_records sha sc act separate li [] sq ids seen = Inr sq"
| "check_records sha sc act separate li ((r, es) # rs) sq ids seen =
     bindR (ensureR (rec_op r \<notin> ids \<and> \<not> has_operation (rec_op r) li) ''Duplicate input operation IDs'') (\<lambda>_.
     bindR (ensureR (hex64 (rec_key r) \<and> safe_integer (rec_seq r) \<and> rec_seq r = sq + 1) ''Source sequence is not contiguous'') (\<lambda>_.
     bindR (ensureR (rec_op r = operation_id sha sc act (rec_key r) (rec_row r)) ''Operation identity mismatch'') (\<lambda>_.
     bindR (check_effects separate (sc_mode sc = ModeMirror \<and> act = Remove) li es seen) (\<lambda>seen'.
     check_records sha sc act separate li rs (sq + 1) (insert (rec_op r) ids) seen'))))"

definition check_replacement :: "local_index \<Rightarrow> effect list list \<Rightarrow> unit result" where
  "check_replacement li projected =
     bindR (mapR (\<lambda>e.
        bindR (ensureR (case map_of (li_desired li) (ef_identityHash e) of None \<Rightarrow> False
            | Some d \<Rightarrow> effect_text (d_value d) = effect_text e) ''Replacement upload is outside the sealed snapshot'') (\<lambda>_.
        ensureR (ef_identityHash e \<notin> set (li_touched li)) ''Replacement identity already prepared''))
      (concat projected)) (\<lambda>_. Inr ())"

definition projection_bytes :: "effect list list \<Rightarrow> nat" where
  "projection_bytes ess = byteLength (json_text (json_of_projection ess))"

definition sum_batches :: "(batch_head \<Rightarrow> nat) \<Rightarrow> artifact_head \<Rightarrow> nat" where
  "sum_batches f h = sum_list (map f (h_batches h))"

definition receipt_bytes :: "batch_head \<Rightarrow> nat" where
  "receipt_bytes b = (case b_receipt b of None \<Rightarrow> b_resultBudget b | Some r \<Rightarrow> ar_bytes r)"

definition blocks_delivery :: "batch_head \<Rightarrow> bool" where
  "blocks_delivery b \<longleftrightarrow> unresolved b \<or> b_rejected b > 0"

text \<open>Everything \<open>prepare\<close> checks before it writes; the result is the projection and the last sequence.\<close>

definition check_manifest :: "journal_env \<Rightarrow> run_scope \<Rightarrow> artifact_head \<Rightarrow> prepared_batch \<Rightarrow> unit result" where
  "check_manifest env sc h p =
     (let n = length (pb_records p) in
      bindR (ensureR (n > 0 \<and> n \<le> batchRecords (e_limits env)) ''Invalid batch size or action'') (\<lambda>_.
      bindR (ensureR (byteLength (json_text (json_of_batch p)) \<le> batchBytes (e_limits env)) ''Prepared manifest exceeds byte budget'') (\<lambda>_.
      bindR (ensureR (pb_payloadHash p = payload_hash (e_sha env) (pb_records p)
          \<and> pb_id p = batch_id (e_sha env) (sc_logicalRunId sc) (pb_action p) (pb_records p)) ''Prepared manifest hash mismatch'') (\<lambda>_.
      ensureR (\<not> list_ex blocks_delivery (h_batches h)) ''Outstanding or rejected operation blocks new delivery''))))"

definition check_mirror :: "run_scope \<Rightarrow> artifact_head \<Rightarrow> local_index \<Rightarrow> prepared_batch \<Rightarrow> effect list list \<Rightarrow> unit result" where
  "check_mirror sc h li p projected =
     (if sc_mode sc = ModeMirror then
        bindR (ensureR (sealed_snapshot h) ''Full source must be sealed before delivery'') (\<lambda>_.
        bindR (if native_snapshot h then
            bindR (ensureR (pb_action p = Upsert) ''Native replacement does not use individual removals'') (\<lambda>_.
            check_replacement li projected) else Inr ()) (\<lambda>_.
        if pb_action p = Remove then removals_allowed h li else Inr ()))
      else Inr ())"

definition reserved_entries :: "action \<Rightarrow> effect list list \<Rightarrow> nat" where
  "reserved_entries act ess = (if act = Upsert then length (concat ess) else 0)"

definition result_budget :: "nat \<Rightarrow> nat" where
  "result_budget n = n * 8192 + 512 * 1024"

definition check_budgets :: "journal_env \<Rightarrow> artifact_head \<Rightarrow> local_index \<Rightarrow> prepared_batch \<Rightarrow> effect list list \<Rightarrow> unit result" where
  "check_budgets env h li p projected =
     bindR (ensureR (stats_entries li + sum_batches b_reservedEntries h + reserved_entries (pb_action p) projected \<le> snapshotEntries (e_limits env)
        \<and> stats_bytes li + sum_batches b_reservedBytes h + (if pb_action p = Upsert then projection_bytes projected else 0)
            \<le> snapshotBytes (e_limits env)) ''Effective membership reservation budget exceeded'') (\<lambda>_.
     ensureR (sum_batches (\<lambda>b. ar_bytes (b_data b) + b_effectBytes b + receipt_bytes b) h
        + byteLength (json_text (JObj [(''batch'', json_of_batch p), (''effects'', json_of_projection projected)]))
        + result_budget (length (pb_records p)) \<le> journalBytes (e_limits env)) ''Recovery journal budget exceeded'')"

definition check_prepare ::
    "journal_env \<Rightarrow> run_scope \<Rightarrow> artifact_head \<Rightarrow> local_index \<Rightarrow> control_row \<Rightarrow> bool \<Rightarrow> prepared_batch \<Rightarrow> (effect list list \<times> int) result" where
  "check_prepare env sc h li control independent p =
     bindR (check_manifest env sc h p) (\<lambda>_.
     bindR (mapR (\<lambda>r. bindR (e_projection env (pb_action p) (rec_row r)) (effects (e_sha env) False)) (pb_records p)) (\<lambda>projected.
     bindR (ensureR (projection_bytes projected \<le> batchBytes (e_limits env)) ''Projected effects exceed byte budget'') (\<lambda>_.
     bindR (check_records (e_sha env) sc (pb_action p) (independent \<or> native_snapshot h) li (zip (pb_records p) projected)
        (c_next control) {} {}) (\<lambda>sq.
     bindR (check_mirror sc h li p projected) (\<lambda>_.
     bindR (check_budgets env h li p projected) (\<lambda>_.
     Inr (projected, sq)))))))"

definition exact_envelopes :: "effect list list \<Rightarrow> batch_record list \<Rightarrow> bool" where
  "exact_envelopes projected rs \<longleftrightarrow>
     list_all (\<lambda>(es, r). length es = 1 \<and> effect_text (hd es) = json_text (rec_row r)) (zip projected rs)"

definition copy_batch :: "prepared_batch \<Rightarrow> prepared_batch result" where
  "copy_batch b = bindR (canonicalJson (json_of_batch b)) (\<lambda>_. Inr (canon_batch b))"

text \<open>The artifacts of a batch: a mirror stores the exact effect envelopes as its rows.\<close>

definition store_batch ::
    "journal_env \<Rightarrow> run_scope \<Rightarrow> prepared_batch \<Rightarrow> effect list list \<Rightarrow> (session, artifact_ref option \<times> artifact_ref) oper" where
  "store_batch env sc p projected =
     (if sc_mode sc = ModeMirror then
        thenE (ensure (exact_envelopes projected (pb_records p)) ''Mirror batch must contain exact effect envelopes'')
        (bindE (put_json env (json_of_stored_batch \<lparr>sb_batch = p, sb_effects = None\<rparr>)) (\<lambda>d. returnE (None, d)))
      else
        bindE (put_json env (json_of_projection projected)) (\<lambda>r.
        bindE (put_json env (json_of_stored_batch \<lparr>sb_batch = p, sb_effects = Some r\<rparr>)) (\<lambda>d. returnE (Some r, d))))"

definition prepared_head :: "prepared_batch \<Rightarrow> effect list list \<Rightarrow> int \<Rightarrow> artifact_ref option \<Rightarrow> artifact_ref \<Rightarrow> batch_head" where
  "prepared_head p projected sq projectionRef dataRef =
     (let n = length (pb_records p) in
      \<lparr>b_id = pb_id p, b_action = pb_action p, b_first = sq - int n + 1, b_last = sq, b_data = dataRef,
       b_effectBytes = (case projectionRef of None \<Rightarrow> 0 | Some r \<Rightarrow> ar_bytes r), b_receipt = None, b_status = BPrepared,
       b_accepted = 0, b_staged = 0, b_rejected = 0, b_submittedRecords = None,
       b_reservedEntries = reserved_entries (pb_action p) projected,
       b_reservedBytes = (if pb_action p = Upsert then projection_bytes projected else 0),
       b_resultBudget = result_budget n\<rparr>)"

definition write_batch :: "journal_env \<Rightarrow> prepared_batch \<Rightarrow> effect list list \<Rightarrow> int \<Rightarrow> json \<Rightarrow> (session, unit) oper" where
  "write_batch env p projected sq store =
     bindE (getE s_scope) (\<lambda>sc.
     bindE (store_batch env sc p projected) (\<lambda>refs.
     let bh = prepared_head p projected sq (fst refs) (snd refs) in
     bindE (encode_store store) (\<lambda>b. bindE (getE s_head) (\<lambda>h.
     thenE (publish env (h\<lparr>h_batches := h_batches h @ [bh]\<rparr>) (\<lambda>r. r\<lparr>c_next := sq, c_store := Some b\<rparr>) None None)
     (index bh \<lparr>bd_batch = p, bd_effects = projected\<rparr> None)))))"

definition prepare :: "journal_env \<Rightarrow> prepared_batch \<Rightarrow> json \<Rightarrow> bool \<Rightarrow> (session, unit) oper" where
  "prepare env batch store independent =
     bindE (resultE (copy_batch batch)) (\<lambda>p. bindE (copyE store) (\<lambda>st.
     bindE current (\<lambda>control.
     thenE (ensure (c_phase control = PRunning) ''Cannot prepare delivery in this phase'')
     (bindE (getE s_scope) (\<lambda>sc.
      bindE (readE (\<lambda>s. check_prepare env sc (s_head s) (s_local s) control independent p)) (\<lambda>checked.
      write_batch env p (fst checked) (snd checked) st))))))"

end
