(* ===== verification/Lifecycle.thy ===== *)
theory Lifecycle
  imports Delivery
begin

text \<open>
  The rest of \<open>artifacts/journal.ts\<close>: reading back prepared batches, acknowledging receipts,
  cleanup, the finish of a run, detaching and checkpoints.
\<close>

subsection \<open>Reading\<close>

definition loadBatch :: "journal_env \<Rightarrow> string \<Rightarrow> (session, prepared_batch) oper" where
  "loadBatch env bid = bindE (find_batch bid) (\<lambda>b. bindE (data env b) (\<lambda>bd. returnE (bd_batch bd)))"

record recovery_status =
  rs_phase :: phase
  rs_nextSequence :: int
  rs_finishSequence :: "int option"
  rs_finish :: "json option"
  rs_providerState :: json

definition recoveryStatus :: "(session, recovery_status) oper" where
  "recoveryStatus = bindE current (\<lambda>c.
     bindE (case c_finishResult c of None \<Rightarrow> returnE None
        | Some b \<Rightarrow> bindE (resultE (decodeJson b)) (\<lambda>v. returnE (Some (member v ''result'')))) (\<lambda>fin.
     bindE (resultE (state_json (c_providerState c))) (\<lambda>ps.
     returnE \<lparr>rs_phase = c_phase c, rs_nextSequence = c_next c, rs_finishSequence = c_finishSequence c,
       rs_finish = fin, rs_providerState = ps\<rparr>)))"

definition recoveryPage :: "string \<Rightarrow> int \<Rightarrow> (session, (string \<times> batch_status) list) oper" where
  "recoveryPage after limit =
     thenE (ensure (safe_integer limit \<and> limit > 0 \<and> limit \<le> 1000) ''Invalid recovery page'')
     (getE (\<lambda>s. map (\<lambda>b. (b_id b, b_status b))
        (take (nat limit) (sort_key b_id (filter (\<lambda>b. after < b_id b) (h_batches (s_head s)))))))"

record recovery_operation =
  ro_operationId :: string
  ro_status :: op_status
  ro_acceptedAt :: "string option"

record recovery_batch =
  rb_batch :: prepared_batch
  rb_result :: "batch_result option"
  rb_operations :: "recovery_operation list"

definition recoveryBatch :: "journal_env \<Rightarrow> string \<Rightarrow> (session, recovery_batch) oper" where
  "recoveryBatch env bid = bindE (find_batch bid) (\<lambda>b. bindE (data env b) (\<lambda>bd.
     bindE (readE (\<lambda>s. load_receipt env (s_scope s) (s_world s) b)) (\<lambda>rc.
     returnE \<lparr>rb_batch = bd_batch bd, rb_result = map_option rd_result rc,
       rb_operations = map (\<lambda>r. \<lparr>ro_operationId = rec_op r,
           ro_status = operation_status b (map_option rd_result rc) (rec_op r),
           ro_acceptedAt = (case rc of None \<Rightarrow> None | Some x \<Rightarrow> map_of (rd_acceptedAt x) (rec_op r))\<rparr>) (pb_records (bd_batch bd))\<rparr>)))"

definition replace_batch :: "batch_head \<Rightarrow> artifact_head \<Rightarrow> artifact_head" where
  "replace_batch b h = h\<lparr>h_batches := map (\<lambda>r. if b_id r = b_id b then b else r) (h_batches h)\<rparr>"

definition markUnknown :: "journal_env \<Rightarrow> string \<Rightarrow> (session, unit) oper" where
  "markUnknown env bid = bindE current (\<lambda>c.
     thenE (ensure (c_phase c = PRunning) ''Cannot mark unknown in this phase'')
     (bindE (find_batch bid) (\<lambda>old. whenE (b_status old = BPrepared)
      (bindE (getE s_head) (\<lambda>h.
       publish env (h\<lparr>h_batches := map (\<lambda>r. if b_id r = bid then r\<lparr>b_status := BUnknown\<rparr> else r) (h_batches h)\<rparr>) id None None)))))"

subsection \<open>Acknowledging a batch\<close>

definition outcome_text :: "outcome \<Rightarrow> string" where
  "outcome_text r = json_text (json_of_outcome r)"

definition receiptKey :: "batch_result \<Rightarrow> string" where
  "receiptKey r = json_text (JObj ((''outcomes'', JObj (map (\<lambda>x. (outcome_op x, json_of_outcome x)) (br_outcomes r)))
     # result_members (br_jobs r) (br_checkpoint r)))"

definition metadata_text :: "batch_result \<Rightarrow> string" where
  "metadata_text r = json_text (JObj (result_members (br_jobs r) (br_checkpoint r)))"

text \<open>
  The comparison with an earlier receipt. The result says whether the new receipt advances it;
  an unchanged one returns without a write.
\<close>

definition check_previous :: "batch_result \<Rightarrow> batch_result \<Rightarrow> bool result" where
  "check_previous previous res =
     (let incoming = outcome_of (Some res) in
      bindR (mapR (\<lambda>row. if is_staged row then Inr () else
          (case incoming (outcome_op row) of None \<Rightarrow> Inl lossy_error
           | Some r \<Rightarrow> ensureR (outcome_text row = outcome_text r) ''Cannot overwrite a terminal receipt'')) (br_outcomes previous)) (\<lambda>_.
      if list_ex (\<lambda>row. is_staged row \<and> (case incoming (outcome_op row) of None \<Rightarrow> True | Some r \<Rightarrow> \<not> is_staged r)) (br_outcomes previous)
      then bindR (if list_ex is_staged (br_outcomes res)
          then ensureR (metadata_text previous = metadata_text res) ''Cannot overwrite pending batch metadata'' else Inr ()) (\<lambda>_.
          Inr True)
      else bindR (ensureR (receiptKey previous = receiptKey res) ''Cannot overwrite an unchanged receipt'') (\<lambda>_. Inr False)))"

definition accepted_at :: "string \<Rightarrow> batch_result \<Rightarrow> (string \<times> string) list \<Rightarrow> (string \<times> string) list" where
  "accepted_at now res at0 =
     fold (\<lambda>row at. if is_accepted row \<and> map_of at (outcome_op row) = None then AList.update (outcome_op row) now at else at)
       (br_outcomes res) at0"

definition retained_effects :: "batch_result \<Rightarrow> batch_data \<Rightarrow> effect list list" where
  "retained_effects res bd = map snd (filter (\<lambda>(r, es). rec_op r \<in> set (map outcome_op (filter is_staged (br_outcomes res))))
     (zip (pb_records (bd_batch bd)) (bd_effects bd)))"

definition acknowledged_head :: "batch_head \<Rightarrow> batch_data \<Rightarrow> batch_result \<Rightarrow> artifact_ref \<Rightarrow> batch_head" where
  "acknowledged_head old bd res ref =
     (let outs = br_outcomes res; retained = retained_effects res bd in
      old\<lparr>b_receipt := Some ref, b_status := BAcknowledged,
        b_accepted := length (filter is_accepted outs), b_staged := length (filter is_staged outs),
        b_rejected := length (filter is_rejected outs),
        b_submittedRecords := Some (max (case b_submittedRecords old of None \<Rightarrow> b_accepted old + b_staged old | Some n \<Rightarrow> n)
          (if br_jobs res \<noteq> None \<and> br_jobs res \<noteq> Some [] then length outs
           else length (filter (\<lambda>r. \<not> is_rejected r) outs))),
        b_reservedEntries := (if pb_action (bd_batch bd) = Upsert then length (concat retained) else 0),
        b_reservedBytes := (if pb_action (bd_batch bd) = Upsert \<and> retained \<noteq> [] then projection_bytes retained else 0)\<rparr>)"

definition copy_result :: "batch_result \<Rightarrow> batch_result result" where
  "copy_result r = bindR (canonicalJson (json_of_batch_result r)) (\<lambda>_. Inr (canon_result r))"

definition write_receipt ::
    "journal_env \<Rightarrow> batch_head \<Rightarrow> batch_data \<Rightarrow> receipt_data \<Rightarrow> json \<Rightarrow> (session, unit) oper" where
  "write_receipt env old bd receipt store =
     bindE (put_json env (json_of_receipt receipt)) (\<lambda>ref.
     let updated = acknowledged_head old bd (rd_result receipt) ref in
     thenE (ensure (ar_bytes ref \<le> b_resultBudget old + 512 * 1024) ''Recovery receipt exceeds byte budget'')
     (bindE (encode_store store) (\<lambda>b. bindE (getE s_head) (\<lambda>h.
      thenE (publish env (replace_batch updated h) (\<lambda>r. r\<lparr>c_store := Some b\<rparr>) None None)
      (index updated bd (Some receipt))))))"

definition ack :: "journal_env \<Rightarrow> string \<Rightarrow> batch_result \<Rightarrow> json \<Rightarrow> bool \<Rightarrow> string option \<Rightarrow> (session, unit) oper" where
  "ack env bid input0 store reconciled finishAt =
     bindE (resultE (copy_result input0)) (\<lambda>input. bindE (copyE store) (\<lambda>st.
     bindE current (\<lambda>c.
     thenE (ensure (c_phase c = PRunning \<or> (reconciled \<and> c_phase c = PBatchesPending)
        \<or> (finishAt \<noteq> None \<and> c_phase c = PFinishResolving)) ''Cannot acknowledge batch in this phase'')
     (bindE (find_batch bid) (\<lambda>old. bindE (data env old) (\<lambda>bd.
      bindE (resultE (validateBatchResult (bd_batch bd) (json_of_batch_result input))) (\<lambda>res.
      bindE (readE (\<lambda>s. load_receipt env (s_scope s) (s_world s) old)) (\<lambda>previous.
      bindE (case previous of None \<Rightarrow> returnE True | Some p \<Rightarrow> resultE (check_previous (rd_result p) res)) (\<lambda>advance.
      whenE advance
       (bindE (getE s_recovered) (\<lambda>rec. thenE (ensure (\<not> rec \<or> reconciled) ''Recovered batch requires explicit reconciliation'')
        (bindE (getE (\<lambda>s. w_now (s_world s))) (\<lambda>now.
         write_receipt env old bd \<lparr>rd_result = res,
             rd_acceptedAt = accepted_at (coalesce finishAt now) res (case previous of None \<Rightarrow> [] | Some p \<Rightarrow> rd_acceptedAt p)\<rparr> st)))))))))))))"

definition acknowledge :: "journal_env \<Rightarrow> string \<Rightarrow> batch_result \<Rightarrow> json \<Rightarrow> (session, unit) oper" where
  "acknowledge env bid res store = ack env bid res store False None"

definition acknowledgeRecovered :: "journal_env \<Rightarrow> string \<Rightarrow> batch_result \<Rightarrow> json \<Rightarrow> (session, unit) oper" where
  "acknowledgeRecovered env bid res store = ack env bid res store True None"

subsection \<open>Cleanup\<close>

definition prepareAbort :: "journal_env \<Rightarrow> (session, unit) oper" where
  "prepareAbort env = bindE current (\<lambda>c.
     thenE (ensure (c_phase c = PRunning \<or> c_phase c = PBatchesPending) ''Cleanup is unsafe in this phase'')
     (bindE (getE s_head) (\<lambda>h.
      thenE (ensure (\<not> list_ex (\<lambda>b. unresolved b \<or> (c_phase c = PBatchesPending \<and> b_staged b > 0)) (h_batches h))
        ''Unacknowledged operations require reconciliation before cleanup'')
      (publish env h (\<lambda>r. r\<lparr>c_phase := PAbortPrepared\<rparr>) None (Some (c_phase c))))))"

definition cancel_staged :: "batch_head \<Rightarrow> batch_head" where
  "cancel_staged b = (if b_staged b > 0
     then b\<lparr>b_status := BCancelled, b_staged := 0, b_reservedEntries := 0, b_reservedBytes := 0\<rparr> else b)"

definition acknowledgeAbort :: "journal_env \<Rightarrow> (session, unit) oper" where
  "acknowledgeAbort env = bindE current (\<lambda>c.
     thenE (ensure (c_phase c = PAbortPrepared) ''Cleanup is not prepared'')
     (bindE (getE s_head) (\<lambda>h.
      publish env (h\<lparr>h_batches := map cancel_staged (h_batches h)\<rparr>) (\<lambda>r. r\<lparr>c_phase := PAborted\<rparr>) None (Some PAbortPrepared))))"

subsection \<open>Finish\<close>

definition set_replacement :: "replacement_status \<Rightarrow> artifact_head \<Rightarrow> artifact_head" where
  "set_replacement st h = h\<lparr>h_snapshot := map_option (\<lambda>sn. sn\<lparr>sn_replacementStatus := Some st\<rparr>) (h_snapshot h)\<rparr>"

definition prepareFinish :: "journal_env \<Rightarrow> int \<Rightarrow> json \<Rightarrow> (session, unit) oper" where
  "prepareFinish env sq store = bindE (copyE store) (\<lambda>st. bindE current (\<lambda>c.
     thenE (ensure (safe_integer sq \<and> c_next c = sq \<and> (c_phase c = PRunning \<or> c_phase c = PBatchesPending)) ''Invalid finish boundary'')
     (bindE (getE s_head) (\<lambda>h. bindE (getE s_scope) (\<lambda>sc.
      thenE (ensure (\<not> list_ex (\<lambda>b. blocks_delivery b \<or> (c_phase c = PBatchesPending \<and> b_staged b > 0)) (h_batches h))
        ''Unresolved/rejected operations prohibit finish'')
      (thenE (if native_snapshot h then assertReplacementReady else whenE (sc_mode sc = ModeMirror) assertPromotable)
      (bindE (encode_store st) (\<lambda>b.
       publish env (if native_snapshot h then set_replacement RPrepared h else h)
         (\<lambda>r. r\<lparr>c_phase := PFinishPrepared, c_finishSequence := Some sq, c_store := Some b\<rparr>) None (Some (c_phase c))))))))))"

definition sealExtraction :: "journal_env \<Rightarrow> int \<Rightarrow> json \<Rightarrow> (session, unit) oper" where
  "sealExtraction env sq store = bindE (copyE store) (\<lambda>st. bindE current (\<lambda>c.
     bindE (getE s_scope) (\<lambda>sc. bindE (getE s_head) (\<lambda>h.
     thenE (ensure (sc_mode sc = ModeUpsert \<and> c_phase c = PRunning \<and> safe_integer sq \<and> sq = c_next c
        \<and> \<not> list_ex blocks_delivery (h_batches h)) ''Cannot seal incomplete or rejected extraction'')
     (bindE (encode_store st) (\<lambda>b.
      publish env h (\<lambda>r. r\<lparr>c_phase := PBatchesPending, c_store := Some b\<rparr>) None (Some (c_phase c))))))))"

definition canon_finish :: "finish_result \<Rightarrow> finish_result" where
  "canon_finish r = r\<lparr>fr_checkpoint := map_option canon (fr_checkpoint r)\<rparr>"

definition finish_text :: "finish_result \<Rightarrow> string" where
  "finish_text r = json_text (json_of_finish_result r)"

definition json_of_finish_record :: "finish_result \<Rightarrow> string \<Rightarrow> json" where
  "json_of_finish_record r at = JObj [(''result'', json_of_finish_result r), (''at'', JStr at)]"

definition decode_finish :: "string option \<Rightarrow> json result" where
  "decode_finish b = (case b of None \<Rightarrow> Inl decode_failure | Some bytes \<Rightarrow> decodeJson bytes)"

definition accept_staged :: "batch_result \<Rightarrow> batch_result" where
  "accept_staged r = r\<lparr>br_outcomes := map (\<lambda>x. if is_staged x then Accepted (outcome_op x) else x) (br_outcomes r)\<rparr>"

definition resolve_staged :: "journal_env \<Rightarrow> json \<Rightarrow> string \<Rightarrow> batch_head \<Rightarrow> (session, unit) oper" where
  "resolve_staged env store at b =
     bindE (readE (\<lambda>s. load_receipt env (s_scope s) (s_world s) b)) (\<lambda>rc. case rc of
        None \<Rightarrow> throwE parse_failed
      | Some receipt \<Rightarrow> ack env (b_id b) (accept_staged (rd_result receipt)) store True (Some at))"

text \<open>The first publish records the result durably, before any staged operation is resolved.\<close>

definition record_finish :: "journal_env \<Rightarrow> finish_result \<Rightarrow> json \<Rightarrow> string \<Rightarrow> (session, unit) oper" where
  "record_finish env res st at =
     bindE (getE s_head) (\<lambda>h.
     bindE (resultE (encodeJson (json_of_finish_record res at) (384 * 1024))) (\<lambda>fb.
     bindE (encode_store st) (\<lambda>b.
     publish env (if native_snapshot h \<and> fr_delivery res = DeliveryPending then set_replacement RPending h else h)
       (\<lambda>r. r\<lparr>c_phase := (if fr_delivery res = DeliveryPending then PFinishPending else PFinishResolving),
              c_finishResult := Some fb, c_store := Some b\<rparr>) None None)))"

text \<open>Then every staged batch is acknowledged as accepted, and the finish with them.\<close>

definition accept_finish :: "journal_env \<Rightarrow> json \<Rightarrow> string \<Rightarrow> (session, unit) oper" where
  "accept_finish env st at =
     bindE (getE (\<lambda>s. filter (\<lambda>b. b_staged b > 0) (h_batches (s_head s)))) (\<lambda>pending.
     thenE (forE pending (resolve_staged env st at))
     (bindE (getE s_head) (\<lambda>h.
      thenE (whenE (native_snapshot h) assertReplacementReady)
      (thenE (publish env (if native_snapshot h then set_replacement RAccepted h else h)
         (\<lambda>r. r\<lparr>c_phase := PFinishAccepted\<rparr>) None None)
      (whenE (native_snapshot h) (modifyE (\<lambda>s. s\<lparr>s_local := applyReplacement (s_local s)\<rparr>)))))))"

definition finish :: "journal_env \<Rightarrow> finish_result \<Rightarrow> json \<Rightarrow> bool \<Rightarrow> (session, unit) oper" where
  "finish env input0 store reconciled =
     bindE (resultE (canonicalJson (json_of_finish_result input0))) (\<lambda>_. bindE (copyE store) (\<lambda>st.
     bindE (resultE (validateFinishResult (json_of_finish_result (canon_finish input0)))) (\<lambda>res.
     bindE current (\<lambda>c. bindE (getE s_recovered) (\<lambda>rec.
     thenE (ensure (c_phase c = PFinishPrepared \<or> c_phase c = PFinishPending \<or> c_phase c = PFinishResolving) ''Finish is not prepared'')
     (thenE (ensure (\<not> rec \<or> reconciled \<or> fr_delivery res \<noteq> DeliveryAccepted \<or> c_phase c = PFinishResolving)
        ''Recovered finish requires explicit reconciliation'')
     (if c_phase c = PFinishPending \<and> fr_delivery res = DeliveryPending then
        bindE (resultE (decode_finish (c_finishResult c))) (\<lambda>v.
        ensure (json_text (member v ''result'') = finish_text res) ''Cannot overwrite pending finish receipt'')
      else
        thenE (ensure (c_phase c \<noteq> PFinishResolving \<or> fr_delivery res = DeliveryAccepted) ''Accepted finish cannot become pending'')
        (bindE (if c_phase c = PFinishResolving
            then bindE (resultE (decode_finish (c_finishResult c))) (\<lambda>v. returnE (string_of_json (member v ''at'')))
            else getE (\<lambda>s. w_now (s_world s))) (\<lambda>at.
        thenE (whenE (c_phase c \<noteq> PFinishResolving) (record_finish env res st at))
        (whenE (fr_delivery res = DeliveryAccepted) (accept_finish env st at)))))))))))"

definition acknowledgeFinish :: "journal_env \<Rightarrow> finish_result \<Rightarrow> json \<Rightarrow> (session, unit) oper" where
  "acknowledgeFinish env res store = finish env res store False"

definition acknowledgeRecoveredFinish :: "journal_env \<Rightarrow> finish_result \<Rightarrow> json \<Rightarrow> (session, unit) oper" where
  "acknowledgeRecoveredFinish env res store = finish env res store True"

subsection \<open>Checkpoints\<close>

definition finalPoint :: "journal_env \<Rightarrow> int \<Rightarrow> (session, resume_point) oper" where
  "finalPoint env sq = bindE (getE (\<lambda>s. find (\<lambda>b. b_last b = sq) (h_batches (s_head s)))) (\<lambda>last. case last of
      Some b \<Rightarrow> bindE (loadBatch env (b_id b)) (\<lambda>p. returnE \<lparr>rp_seq = sq, rp_cursor = pb_cursor p\<rparr>)
    | None \<Rightarrow> bindE (saved env) (\<lambda>v. bindE (getE s_scope) (\<lambda>sc.
        returnE \<lparr>rp_seq = sq, rp_cursor = (case v of None \<Rightarrow> None
          | Some st \<Rightarrow> if sc_extraction sc = ExtractCursor then rp_cursor (sv_point st) else None)\<rparr>)))"

definition hasEventKey :: "journal_env \<Rightarrow> string \<Rightarrow> session \<Rightarrow> bool" where
  "hasEventKey env key s = (live_member (s_local s) (text_hash (e_sha env) (JObj [(''eventKey'', JStr key)])) \<noteq> None)"

definition hasRejected :: "session \<Rightarrow> bool" where
  "hasRejected s = list_ex (\<lambda>b. b_rejected b > 0) (h_batches (s_head s))"

definition planned_members :: "snapshot_head \<Rightarrow> snapshot_summary \<Rightarrow> int" where
  "planned_members sn su = (let c = su_comparison su in
     if sn_native sn then uniqueMembers c else newMembers c + changedMembers c + refreshMembers c)"

definition detachable :: "run_scope \<Rightarrow> control_row \<Rightarrow> artifact_head \<Rightarrow> bool" where
  "detachable sc c h \<longleftrightarrow> \<not> c_detached c \<and> \<not> list_ex blocks_delivery (h_batches h)
     \<and> (if sc_mode sc = ModeMirror then
          (case h_snapshot h of None \<Rightarrow> False
           | Some sn \<Rightarrow> sn_sealed sn \<and> (case sn_summary sn of None \<Rightarrow> False
               | Some su \<Rightarrow> sum_list (map batch_size (filter (\<lambda>b. b_action b = Upsert) (h_batches h))) = planned_members sn su))
        else c_phase c = PBatchesPending \<or> c_phase c = PFinishPending)"

definition detach :: "journal_env \<Rightarrow> (session, unit) oper" where
  "detach env = bindE current (\<lambda>c. bindE (getE s_scope) (\<lambda>sc. bindE (getE s_head) (\<lambda>h.
     whenE (detachable sc c h) (publish env h (\<lambda>r. r\<lparr>c_detached := True\<rparr>) None None))))"

definition cursor_ok :: "source_cursor \<Rightarrow> bool" where
  "cursor_ok c \<longleftrightarrow> 0 < length (cur_keys c) \<and> length (cur_keys c) \<le> 8 \<and> byteLength (json_text (json_of_cursor c)) \<le> 65536"

definition cursor_json :: "source_cursor option \<Rightarrow> json" where
  "cursor_json c = (case c of None \<Rightarrow> JNull | Some x \<Rightarrow> json_of_cursor x)"

definition commitCheckpoint :: "journal_env \<Rightarrow> resume_point \<Rightarrow> json \<Rightarrow> bool \<Rightarrow> (session, unit) oper" where
  "commitCheckpoint env point store complete =
     bindE (copyE store) (\<lambda>st. bindE current (\<lambda>c. bindE (getE s_scope) (\<lambda>sc. let n = rp_seq point in
     thenE (ensure (case rp_cursor point of None \<Rightarrow> True | Some cur \<Rightarrow> cursor_ok cur) ''Invalid checkpoint cursor'')
     (thenE (ensure (safe_integer n \<and> c_checkpoint c \<le> n \<and> n \<le> c_next c) ''Checkpoint is outside prepared prefix'')
     (thenE (ensure (if complete then c_phase c = PFinishAccepted
          else c_phase c = PRunning \<and> sc_mode sc = ModeUpsert \<and> sc_extraction sc = ExtractCursor) ''Checkpoint is not allowed in this phase'')
     (thenE (ensure (complete \<longrightarrow> Some n = c_finishSequence c \<and> n = c_next c) ''Completion must cover all operations'')
     (bindE (getE s_local) (\<lambda>li.
      thenE (ensure (int (accepted_between (c_base c) n li) = n - c_base c) ''Checkpoint crosses an unaccepted operation'')
      (bindE (finalPoint env n) (\<lambda>expected.
       thenE (ensure (json_text (cursor_json (rp_cursor point)) = json_text (cursor_json (rp_cursor expected)))
          ''Checkpoint cursor does not match prepared boundary'')
       (bindE (getE s_head) (\<lambda>h.
        thenE (ensure (n > c_base c \<longrightarrow> list_ex (\<lambda>b. b_last b = n) (h_batches h)) ''Checkpoint must end at a batch boundary'')
        (thenE (whenE (sc_mode sc = ModeMirror) assertPromotable)
        (let generation = (if sc_mode sc = ModeMirror then Some (sc_logicalRunId sc) else c_generation c) in
         bindE (encode_store st) (\<lambda>b.
         publish env h (\<lambda>r. r\<lparr>c_checkpoint := n, c_phase := (if complete then PComplete else c_phase c), c_generation := generation,
             c_store := Some b\<rparr>)
           (Some \<lparr>sv_point = point, sv_store = st, sv_generation = generation\<rparr>) None)))))))))))))))"

end
