(* ===== verification/JournalFacts.thy ===== *)
theory JournalFacts
  imports Lifecycle
begin

text \<open>
  What a publish does: it is atomic in the database, it compares and swaps the artifact head, it
  never loses an artifact, and a session that does not know the outcome of its commit stops.
\<close>

subsection \<open>Transactions\<close>

lemma readE_run [simp]: "readE f s = (f s, s)"
  by (simp add: readE_def)

lemma take_fault_world:
  "take_fault w = (f, w1) \<Longrightarrow> w_db w1 = w_db w \<and> w_bucket w1 = w_bucket w \<and> w_aborted w1 = w_aborted w
     \<and> w_cache w1 = w_cache w \<and> w_now w1 = w_now w"
  by (auto simp: take_fault_def split: list.splits)

text \<open>The tables after a transaction are those before it or those its work produced.\<close>

lemma db_transaction_Inr:
  assumes "db_transaction pending work w = (Inr (a, p), w')"
  shows "\<exists>t. work \<lparr>tx_db = w_db w, tx_pending = pending\<rparr> = (Inr a, t) \<and> p = tx_pending t \<and> w_db w' = tx_db t
     \<and> w_bucket w' = w_bucket w \<and> w_aborted w' = w_aborted w \<and> w_cache w' = w_cache w \<and> w_now w' = w_now w"
proof -
  obtain f w1 where f: "take_fault w = (f, w1)" by fastforce
  note w1 = take_fault_world[OF f]
  from assms f w1 show ?thesis
    by (auto simp: db_transaction_def Let_def split: if_splits prod.splits sum.splits option.splits tx_fault.splits)
qed

lemma db_transaction_Inl:
  assumes "db_transaction pending work w = (Inl e, w')"
  shows "w_bucket w' = w_bucket w \<and> w_aborted w' = w_aborted w \<and> w_cache w' = w_cache w \<and> w_now w' = w_now w
     \<and> (w_db w' = w_db w \<or> (\<exists>a t. work \<lparr>tx_db = w_db w, tx_pending = pending\<rparr> = (Inr a, t) \<and> w_db w' = tx_db t
          \<and> e = PersistenceError ''Reverse ETL persistence transaction failed''))"
proof -
  obtain f w1 where f: "take_fault w = (f, w1)" by fastforce
  note w1 = take_fault_world[OF f]
  from assms f w1 show ?thesis
    by (auto simp: db_transaction_def Let_def split: if_splits prod.splits sum.splits option.splits tx_fault.splits)
qed

lemma persistence_error_conflict: "persistence_error e = TransitionConflict m \<Longrightarrow> e = TransitionConflict m"
  by (cases e) auto

lemma db_transaction_conflict:
  assumes "db_transaction pending work w = (Inl (TransitionConflict m), w')"
  shows "w_db w' = w_db w \<and> (\<exists>t. work \<lparr>tx_db = w_db w, tx_pending = pending\<rparr> = (Inl (TransitionConflict m), t))"
proof -
  obtain f w1 where f: "take_fault w = (f, w1)" by fastforce
  note w1 = take_fault_world[OF f]
  from assms f w1 show ?thesis
    by (auto simp: db_transaction_def Let_def dest!: persistence_error_conflict sym[of "TransitionConflict m"]
        split: if_splits prod.splits sum.splits option.splits tx_fault.splits)
qed

lemma set_cache_world [simp]:
  "w_db (set_cache sc r w) = w_db w" "w_bucket (set_cache sc r w) = w_bucket w" "w_aborted (set_cache sc r w) = w_aborted w"
  "w_now (set_cache sc r w) = w_now w"
  by (simp_all add: set_cache_def)

lemma cached_set_cache [simp]: "cached sc (set_cache sc r w) = r"
  by (cases r) (simp_all add: set_cache_def cached_def delete_conv')

lemma cache_transaction_Inr:
  assumes "cache_transaction sc work w = (Inr a, w')"
  shows "\<exists>t. work \<lparr>tx_db = w_db w, tx_pending = cached sc w\<rparr> = (Inr a, t) \<and> w_db w' = tx_db t
     \<and> cached sc w' = tx_pending t \<and> w_bucket w' = w_bucket w \<and> w_aborted w' = w_aborted w \<and> w_now w' = w_now w"
  using assms by (auto simp: cache_transaction_def split: prod.splits sum.splits dest!: db_transaction_Inr)

lemma cache_transaction_Inl:
  assumes "cache_transaction sc work w = (Inl e, w')"
  shows "cached sc w' = None \<and> w_bucket w' = w_bucket w \<and> w_aborted w' = w_aborted w \<and> w_now w' = w_now w
     \<and> (w_db w' = w_db w \<or> (\<exists>a t. work \<lparr>tx_db = w_db w, tx_pending = cached sc w\<rparr> = (Inr a, t) \<and> w_db w' = tx_db t
          \<and> e = PersistenceError ''Reverse ETL persistence transaction failed''))"
  using assms by (auto simp: cache_transaction_def split: prod.splits sum.splits dest!: db_transaction_Inl)

lemma cache_transaction_conflict:
  "cache_transaction sc work w = (Inl (TransitionConflict m), w') \<Longrightarrow> w_db w' = w_db w"
  by (auto simp: cache_transaction_def split: prod.splits sum.splits dest!: db_transaction_conflict)

subsection \<open>The control row of a run\<close>

definition control_of :: "run_scope \<Rightarrow> database \<Rightarrow> control_row option" where
  "control_of sc d = find (\<lambda>c. control_key c = scope_key sc) (db_controls d)"

lemma control_of_key: "control_of sc d = Some c \<Longrightarrow> control_key c = scope_key sc"
  unfolding control_of_def by (blast dest: find_Some_iff_first)

lemma control_of_update:
  "control_key row = scope_key sc \<Longrightarrow> control_of sc d \<noteq> None \<Longrightarrow> control_of sc (update_control row d) = Some row"
proof -
  have "find (\<lambda>c. control_key c = k) cs \<noteq> None \<Longrightarrow> control_key row = k \<Longrightarrow>
      find (\<lambda>c. control_key c = k) (map (\<lambda>c. if control_key c = k then row else c) cs) = Some row" for k cs
    by (induction cs) auto
  then show "control_key row = scope_key sc \<Longrightarrow> control_of sc d \<noteq> None \<Longrightarrow> ?thesis"
    by (simp add: control_of_def update_control_def)
qed

lemma control_of_update_other:
  assumes "control_key row \<noteq> scope_key sc"
  shows "control_of sc (update_control row d) = control_of sc d"
proof -
  have "find (\<lambda>c. control_key c = k) (map (\<lambda>c. if control_key c = control_key row then row else c) cs)
      = find (\<lambda>c. control_key c = k) cs" if "control_key row \<noteq> k" for k cs
    using that by (induction cs) auto
  with assms show ?thesis by (simp add: control_of_def update_control_def)
qed

definition keeps_key :: "(control_row \<Rightarrow> control_row) \<Rightarrow> bool" where
  "keeps_key changes \<longleftrightarrow> (\<forall>r. control_key (changes r) = control_key r)"

lemma keeps_keyI: "(\<And>r. control_key (changes r) = control_key r) \<Longrightarrow> keeps_key changes"
  by (simp add: keeps_key_def)

lemma save_checkpoint_controls:
  "save_checkpoint sha sc old cp t = (r, t') \<Longrightarrow> db_controls (tx_db t') = db_controls (tx_db t) \<and> tx_pending t' = tx_pending t
     \<and> db_owners (tx_db t') = db_owners (tx_db t)"
  by (auto simp: save_checkpoint_def bindE_def Let_def split: sum.splits prod.splits option.splits if_splits)

text \<open>A successful transaction of a publish, and the only way it can find a conflict.\<close>

lemma publish_work_Inr:
  assumes "publish_work sha sc oldBytes hb changes cp ex t = (Inr u, t')" and "keeps_key changes"
  shows "\<exists>old. control_of sc (tx_db t) = Some old \<and> c_head old = oldBytes \<and> (ex = None \<or> ex = Some (c_phase old))
     \<and> tx_pending t' = Some ((changes old)\<lparr>c_head := Some hb\<rparr>)
     \<and> db_controls (tx_db t') = db_controls (update_control ((changes old)\<lparr>c_head := Some hb\<rparr>) (tx_db t))
     \<and> db_owners (tx_db t') = db_owners (tx_db t)
     \<and> (cp = None \<longrightarrow> db_states (tx_db t') = db_states (tx_db t))"
proof -
  from assms(1) obtain old t1 where old: "control_of sc (tx_db t) = Some old" "c_head old = oldBytes"
      "ex = None \<or> ex = Some (c_phase old)"
    and cp: "(case cp of None \<Rightarrow> returnE () | Some c \<Rightarrow> save_checkpoint sha sc old c) (t\<lparr>tx_pending := None\<rparr>) = (Inr (), t1)"
    and t': "t' = t1\<lparr>tx_db := update_control ((changes old)\<lparr>c_head := Some hb\<rparr>) (tx_db t1), tx_pending := Some ((changes old)\<lparr>c_head := Some hb\<rparr>)\<rparr>"
    by (auto simp: publish_work_def lock_control_def invalidate_def selectControl_def control_of_def remember_def Let_def run_simps
        split: option.splits if_splits)
  have "db_controls (tx_db t1) = db_controls (tx_db t) \<and> db_owners (tx_db t1) = db_owners (tx_db t)
      \<and> (cp = None \<longrightarrow> t1 = t\<lparr>tx_pending := None\<rparr>)"
    using cp save_checkpoint_controls by (auto split: option.splits)
  with old t' show ?thesis by (auto simp: update_control_def)
qed

subsection \<open>Frames of a session\<close>

text \<open>Writing artifacts changes nothing but the bucket, and loses nothing there.\<close>

definition only_writes :: "journal_env \<Rightarrow> session \<Rightarrow> session \<Rightarrow> bool" where
  "only_writes env s s' \<longleftrightarrow> s' = s\<lparr>s_world := s_world s'\<rparr> \<and> store_extends env (s_world s) (s_world s')"

interpretation writes: frame "only_writes env" for env
proof unfold_locales
  show "only_writes env s s" for s by (simp add: only_writes_def extends.frame_refl)
  show "only_writes env s u" if "only_writes env s t" "only_writes env t u" for s t u
    using that unfolding only_writes_def
    by (metis (no_types, lifting) extends.frame_trans session.surjective session.update_convs(8))
qed

lemma liftW_Inr: "liftW m s = (r, s') \<longleftrightarrow> (\<exists>w. m (s_world s) = (r, w) \<and> s' = s\<lparr>s_world := w\<rparr>)"
  by (auto simp: liftW_def split: prod.splits)

lemma put_json_writes: "frames (only_writes env) (put_json env v)"
  by (rule framesI) (auto simp: put_json_def bindE_def liftW_def only_writes_def split: prod.splits
      dest: framesD[OF put_artifact_extends])

lemma readE_writes: "frames (only_writes env) (readE f)"
  by (simp add: frames_def writes.frame_refl)

lemma head_bytes_writes: "frames (only_writes env) (head_bytes_for env h)"
  unfolding head_bytes_for_def
  by (intro writes.frame_rules put_json_writes) (auto split: option.splits intro!: writes.frame_rules put_json_writes)

lemma only_writes_fields:
  assumes "only_writes env s s'"
  shows "s_scope s' = s_scope s" "s_recovered s' = s_recovered s" "s_local s' = s_local s" "s_head s' = s_head s"
    "s_headBytes s' = s_headBytes s" "s_broken s' = s_broken s" "s_pending s' = s_pending s"
    "w_db (s_world s') = w_db (s_world s)" "w_cache (s_world s') = w_cache (s_world s)" "w_now (s_world s') = w_now (s_world s)"
    "w_aborted (s_world s') = w_aborted (s_world s)"
proof -
  from assms have eq: "s' = s\<lparr>s_world := s_world s'\<rparr>" and ext: "store_extends env (s_world s) (s_world s')"
    by (simp_all add: only_writes_def)
  show "s_scope s' = s_scope s" "s_recovered s' = s_recovered s" "s_local s' = s_local s" "s_head s' = s_head s"
    "s_headBytes s' = s_headBytes s" "s_broken s' = s_broken s" "s_pending s' = s_pending s"
    by (subst eq, simp)+
  from ext have "artifact_world.more (s_world s') = artifact_world.more (s_world s)" by (simp add: store_extends_def)
  then show "w_db (s_world s') = w_db (s_world s)" "w_cache (s_world s') = w_cache (s_world s)" "w_now (s_world s') = w_now (s_world s)"
    by (cases "s_world s"; cases "s_world s'"; simp)+
  from ext show "w_aborted (s_world s') = w_aborted (s_world s)" by (simp add: store_extends_def)
qed

subsection \<open>Publishing\<close>

text \<open>A publish that returns has committed exactly the new row over a row with the expected head.\<close>

definition published ::
    "session \<Rightarrow> artifact_head \<Rightarrow> (control_row \<Rightarrow> control_row) \<Rightarrow> phase option \<Rightarrow> control_row \<Rightarrow> string \<Rightarrow> session \<Rightarrow> bool" where
  "published s h changes ex old hb s' \<longleftrightarrow>
     \<not> s_broken s \<and> control_of (s_scope s) (w_db (s_world s)) = Some old \<and> c_head old = s_headBytes s
     \<and> (ex = None \<or> ex = Some (c_phase old))
     \<and> db_controls (w_db (s_world s')) = db_controls (update_control ((changes old)\<lparr>c_head := Some hb\<rparr>) (w_db (s_world s)))
     \<and> db_owners (w_db (s_world s')) = db_owners (w_db (s_world s))
     \<and> cached (s_scope s) (s_world s') = Some ((changes old)\<lparr>c_head := Some hb\<rparr>)
     \<and> s_head s' = h \<and> s_headBytes s' = Some hb
     \<and> s_scope s' = s_scope s \<and> s_recovered s' = s_recovered s \<and> s_local s' = s_local s \<and> s_pending s' = s_pending s
     \<and> \<not> s_broken s'"

lemma publish_Inr:
  assumes "publish env h changes cp ex s = (Inr u, s')" and "keeps_key changes"
  shows "\<exists>old hb. published s h changes ex old hb s' \<and> \<not> w_aborted (s_world s)
     \<and> (cp = None \<longrightarrow> db_states (w_db (s_world s')) = db_states (w_db (s_world s)))"
proof -
  from assms(1) obtain hb s1 w where nb: "\<not> s_broken s" "\<not> w_aborted (s_world s)"
    and hb: "head_bytes_for env h s = (Inr hb, s1)"
    and tx: "cache_transaction (s_scope s1) (publish_work (e_sha env) (s_scope s1) (s_headBytes s1) hb changes cp ex) (s_world s1) = (Inr (), w)"
    and s': "s' = s1\<lparr>s_world := w, s_head := h, s_headBytes := Some hb\<rparr>"
    by (auto simp: publish_def run_simps throwIfAborted_def liftW_Inr split: if_splits)
  have ow: "only_writes env s s1" by (rule framesD[OF head_bytes_writes hb])
  note f = only_writes_fields[OF ow]
  from cache_transaction_Inr[OF tx] obtain t where
    work: "publish_work (e_sha env) (s_scope s) (s_headBytes s) hb changes cp ex
        \<lparr>tx_db = w_db (s_world s), tx_pending = cached (s_scope s) (s_world s1)\<rparr> = (Inr (), t)"
    and w: "w_db w = tx_db t" "cached (s_scope s) w = tx_pending t" by (auto simp: f)
  from publish_work_Inr[OF work assms(2)] show ?thesis
    using nb by (auto simp: published_def s' w f)
qed

text \<open>
  A publish that throws leaves the session where it was; the tables are untouched, or they are those
  of a commit whose acknowledgement was lost, and then the session is broken.
\<close>

lemma publish_Inl:
  assumes "publish env h changes cp ex s = (Inl e, s')" and "keeps_key changes"
  shows "s_head s' = s_head s \<and> s_headBytes s' = s_headBytes s \<and> s_local s' = s_local s \<and> s_scope s' = s_scope s
     \<and> (w_db (s_world s') = w_db (s_world s)
        \<or> s_broken s' \<and> (\<exists>old hb. control_of (s_scope s) (w_db (s_world s)) = Some old \<and> c_head old = s_headBytes s
            \<and> (ex = None \<or> ex = Some (c_phase old))
            \<and> db_controls (w_db (s_world s')) = db_controls (update_control ((changes old)\<lparr>c_head := Some hb\<rparr>) (w_db (s_world s)))))
     \<and> (is_conflict e \<longrightarrow> s_broken s' = s_broken s \<and> w_db (s_world s') = w_db (s_world s))"
proof (cases "s_broken s \<or> w_aborted (s_world s)")
  case True
  with assms(1) have "s' = s \<and> \<not> is_conflict e"
    by (auto simp: publish_def run_simps throwIfAborted_def liftW_Inr ensure_run split: if_splits)
  then show ?thesis by simp
next
  case False
  then have nb: "\<not> s_broken s" and na: "\<not> w_aborted (s_world s)" by auto
  obtain r s1 where hb: "head_bytes_for env h s = (r, s1)" by fastforce
  have ow: "only_writes env s s1" by (rule framesD[OF head_bytes_writes hb])
  note f = only_writes_fields[OF ow]
  show ?thesis
  proof (cases r)
    case (Inl e')
    with assms(1) hb nb na have "s' = s1" "e' = e"
      by (auto simp: publish_def bindE_def thenE_def throwIfAborted_def liftW_def)
    with f show ?thesis by simp
  next
    case (Inr b)
    let ?tx = "cache_transaction (s_scope s) (publish_work (e_sha env) (s_scope s) (s_headBytes s) b changes cp ex) (s_world s1)"
    from assms(1) hb nb na Inr obtain w where tx: "?tx = (Inl e, w)"
      and s': "s' = (if is_conflict e then s1\<lparr>s_world := w\<rparr> else s1\<lparr>s_world := w, s_broken := True\<rparr>)"
      by (auto simp: publish_def bindE_def thenE_def catchE_def whenE_def throwIfAborted_def liftW_def f
          split: prod.splits sum.splits if_splits)
    note t = cache_transaction_Inl[OF tx]
    have c: "w_db w = w_db (s_world s)" if "is_conflict e"
      using that tx f(8) by (cases e) (auto dest: cache_transaction_conflict)
    show ?thesis
    proof (cases "is_conflict e")
      case True
      with s' f c show ?thesis by simp
    next
      case False
      have "w_db w = w_db (s_world s) \<or> (\<exists>old. control_of (s_scope s) (w_db (s_world s)) = Some old \<and> c_head old = s_headBytes s
            \<and> (ex = None \<or> ex = Some (c_phase old))
            \<and> db_controls (w_db w) = db_controls (update_control ((changes old)\<lparr>c_head := Some b\<rparr>) (w_db (s_world s))))"
        using t f(8) publish_work_Inr[OF _ assms(2)] by fastforce
      with False s' f show ?thesis by auto
    qed
  qed
qed

lemma broken_current: "s_broken s \<Longrightarrow> current s = (Inl (PersistenceError ''Artifact session requires reopening after a failed commit''), s)"
  by (simp add: current_def bindE_def thenE_def ensure_run)

lemma broken_publish:
  "s_broken s \<Longrightarrow> publish env h ch cp ex s = (Inl (PersistenceError ''Artifact session requires reopening after a failed commit''), s)"
  by (simp add: publish_def bindE_def thenE_def ensure_run)

end
