(* ===== verification/PhaseMachine.thy ===== *)
theory PhaseMachine
  imports JournalFacts
begin

text \<open>
  The lifecycle of a run as a state machine over the durable phase of its control row. A session
  whose cached row is current moves the durable phase along the edges of this machine only, whatever
  its operations return; the terminal phases have no edge. The publishes of \<open>finish\<close> and
  \<open>commitCheckpoint\<close> do not state the phase they expect, so a session with a stale cached row can
  leave the machine (\<open>record_finish_overwrites\<close> in \<open>Checkpoints\<close>).
\<close>

subsection \<open>The machine\<close>

inductive phase_step :: "phase \<Rightarrow> phase \<Rightarrow> bool" where
  init: "phase_step PNew PInitPrepared"
| run: "phase_step PInitPrepared PRunning"
| reset_init: "phase_step PInitPrepared PNew"
| seal: "phase_step PRunning PBatchesPending"
| abort_running: "phase_step PRunning PAbortPrepared"
| abort_pending: "phase_step PBatchesPending PAbortPrepared"
| aborted: "phase_step PAbortPrepared PAborted"
| finish_running: "phase_step PRunning PFinishPrepared"
| finish_batches: "phase_step PBatchesPending PFinishPrepared"
| finish_wait: "phase_step PFinishPrepared PFinishPending"
| finish_now: "phase_step PFinishPrepared PFinishResolving"
| finish_later: "phase_step PFinishPending PFinishResolving"
| accept: "phase_step PFinishResolving PFinishAccepted"
| complete: "phase_step PFinishAccepted PComplete"

inductive_cases phase_step_fromE: "phase_step p q"

inductive_simps phase_step_ended: "phase_step PComplete q" "phase_step PAborted q"

code_pred phase_step .

abbreviation phase_reach :: "phase \<Rightarrow> phase \<Rightarrow> bool" where
  "phase_reach \<equiv> phase_step\<^sup>*\<^sup>*"

lemmas phase_edges [simp] = phase_step.intros [THEN r_into_rtranclp [of phase_step]]

lemma ended_stays:
  assumes "phase_reach p q" and "ended p"
  shows "q = p"
  using assms by (induction rule: rtranclp_induct) (auto simp: ended_def phase_step_ended)

text \<open>Progress of a run: every edge but the reset of an initialization increases the rank.\<close>

fun phase_rank :: "phase \<Rightarrow> nat" where
  "phase_rank PNew = 0"
| "phase_rank PInitPrepared = 1"
| "phase_rank PRunning = 2"
| "phase_rank PBatchesPending = 3"
| "phase_rank PAbortPrepared = 4"
| "phase_rank PAborted = 5"
| "phase_rank PFinishPrepared = 4"
| "phase_rank PFinishPending = 5"
| "phase_rank PFinishResolving = 6"
| "phase_rank PFinishAccepted = 7"
| "phase_rank PComplete = 8"

lemma phase_step_rank: "phase_step p q \<Longrightarrow> q \<noteq> PNew \<Longrightarrow> phase_rank p < phase_rank q"
  by (induction rule: phase_step.induct) auto

text \<open>Once a run is past its initialization it never returns to extraction.\<close>

lemma phase_reach_rank: "phase_reach p q \<Longrightarrow> 2 \<le> phase_rank p \<Longrightarrow> phase_rank p \<le> phase_rank q"
proof (induction rule: rtranclp_induct)
  case (step q r)
  then have "2 \<le> phase_rank q" by simp
  with step(2) have "r \<noteq> PNew" by (auto elim: phase_step_fromE)
  with step phase_step_rank[of q r] show ?case by simp
qed simp

subsection \<open>Sessions with a current row\<close>

definition coherent :: "session \<Rightarrow> bool" where
  "coherent s \<longleftrightarrow> cached (s_scope s) (s_world s) = None
     \<or> cached (s_scope s) (s_world s) = control_of (s_scope s) (w_db (s_world s))"

definition control :: "session \<Rightarrow> control_row option" where
  "control s = control_of (s_scope s) (w_db (s_world s))"

definition observed :: "session \<Rightarrow> session \<Rightarrow> bool" where
  "observed s s' \<longleftrightarrow> s_scope s' = s_scope s \<and> s_recovered s' = s_recovered s \<and> s_local s' = s_local s \<and> s_head s' = s_head s
     \<and> s_headBytes s' = s_headBytes s \<and> s_broken s' = s_broken s \<and> s_pending s' = s_pending s
     \<and> w_db (s_world s') = w_db (s_world s) \<and> w_bucket (s_world s') = w_bucket (s_world s)
     \<and> w_aborted (s_world s') = w_aborted (s_world s) \<and> w_now (s_world s') = w_now (s_world s)
     \<and> (coherent s \<longrightarrow> coherent s')"

lemma observed_control: "observed s s' \<Longrightarrow> control s' = control s"
  by (simp add: observed_def control_def)

lemma select_transaction:
  "db_transaction None (selectControl sc) w = (Inr (row, p), w') \<Longrightarrow>
     control_of sc (w_db w) = Some row \<and> w_db w' = w_db w \<and> w_bucket w' = w_bucket w \<and> w_aborted w' = w_aborted w \<and> w_now w' = w_now w"
  by (auto dest!: db_transaction_Inr simp: selectControl_def control_of_def split: option.splits)

lemma select_transaction_error:
  "db_transaction None (selectControl sc) w = (Inl e, w') \<Longrightarrow>
     w_db w' = w_db w \<and> w_bucket w' = w_bucket w \<and> w_aborted w' = w_aborted w \<and> w_now w' = w_now w"
  by (auto dest!: db_transaction_Inl simp: selectControl_def split: option.splits)

lemma observe_run:
  assumes "observe sc w = (r, w')"
  shows "w_db w' = w_db w \<and> w_bucket w' = w_bucket w \<and> w_aborted w' = w_aborted w \<and> w_now w' = w_now w
     \<and> (case r of Inl e \<Rightarrow> cached sc w' = None
        | Inr c \<Rightarrow> cached sc w' = Some c \<and> (cached sc w = Some c \<or> control_of sc (w_db w) = Some c))"
  using assms
  by (auto simp: observe_def split: option.splits if_splits prod.splits sum.splits
      dest!: select_transaction select_transaction_error)

lemma wp_current:
  assumes "\<And>c s'. observed s s' \<Longrightarrow> \<not> s_broken s \<Longrightarrow> cached (s_scope s') (s_world s') = Some c
      \<Longrightarrow> (coherent s \<Longrightarrow> control s = Some c) \<Longrightarrow> Q c s'"
    and "\<And>e s'. observed s s' \<Longrightarrow> E e s'"
  shows "wp current Q E s"
proof (cases "s_broken s")
  case True
  have "observed s s" by (simp add: observed_def)
  with True show ?thesis by (simp add: wp_def broken_current assms(2))
next
  case False
  obtain r w' where o: "observe (s_scope s) (s_world s) = (r, w')" by fastforce
  note ob = observe_run[OF o]
  have cur: "current s = (r, s\<lparr>s_world := w'\<rparr>)"
    using False o by (simp add: current_def bindE_def thenE_def ensure_run liftW_def)
  have obs: "observed s (s\<lparr>s_world := w'\<rparr>)"
    using ob by (auto simp: observed_def coherent_def split: sum.splits option.splits)
  show ?thesis
  proof (cases r)
    case (Inl e)
    with cur obs assms(2) show ?thesis by (simp add: wp_def)
  next
    case (Inr c)
    have "coherent s \<Longrightarrow> control s = Some c"
      using ob Inr by (auto simp: coherent_def control_def)
    with cur obs Inr ob False show ?thesis by (simp add: wp_def assms(1))
  qed
qed

subsection \<open>Observers, guards and updates\<close>

text \<open>Reading the saved state is a transaction that writes nothing.\<close>

lemma read_only_transaction:
  assumes "\<And>t r t'. work t = (r, t') \<Longrightarrow> t' = t" and "db_transaction None work (s_world s) = (r, w')"
  shows "observed s (s\<lparr>s_world := w'\<rparr>)"
proof (cases r)
  case (Inl e)
  with assms(2) have "db_transaction None work (s_world s) = (Inl e, w')" by simp
  from db_transaction_Inl[OF this] show ?thesis
    by (auto simp: observed_def coherent_def cached_def dest: assms(1))
next
  case (Inr x)
  with assms(2) have "db_transaction None work (s_world s) = (Inr (fst x, snd x), w')" by simp
  from db_transaction_Inr[OF this] show ?thesis
    by (auto simp: observed_def coherent_def cached_def dest: assms(1))
qed

lemma saved_observed: "frames observed (saved env)"
proof (rule framesI)
  fix s t :: session and r
  let ?work = "bindE (getE (\<lambda>t. select_state (s_scope s) (tx_db t))) (\<lambda>row. case row of
         None \<Rightarrow> returnE None | Some st \<Rightarrow> bindE (resultE (readSavedState (e_sha env) st (s_scope s))) (\<lambda>v. returnE (Some v)))"
  assume "saved env s = (r, t)"
  then obtain r' w' where run: "db_transaction None ?work (s_world s) = (r', w')" and t: "t = s\<lparr>s_world := w'\<rparr>"
    by (auto simp: saved_def bindE_def liftW_def split: prod.splits sum.splits)
  have "?work u = (q, u') \<Longrightarrow> u' = u" for u q u'
    by (auto simp: bindE_def split: option.splits sum.splits prod.splits)
  from read_only_transaction[OF this run] show "observed s t" by (simp add: t)
qed

lemma coherent_only_writes: "only_writes env s s' \<Longrightarrow> coherent s \<Longrightarrow> coherent s'"
  using only_writes_fields[of env s s'] by (simp add: coherent_def cached_def)

lemma control_of_controls: "db_controls d = db_controls d' \<Longrightarrow> control_of sc d = control_of sc d'"
  by (simp add: control_of_def)

lemma cache_transaction_incoherent: "cache_transaction sc work w = (Inl e, w') \<Longrightarrow> cached sc w' = None"
  using cache_transaction_Inl by blast

lemma publish_cache_Inl:
  assumes "publish env h changes cp ex s = (Inl e, s')"
  shows "cached (s_scope s) (s_world s') = cached (s_scope s) (s_world s) \<and> w_db (s_world s') = w_db (s_world s)
     \<or> cached (s_scope s) (s_world s') = None"
proof -
  obtain r s1 where hb: "head_bytes_for env h s = (r, s1)" by fastforce
  have ow: "only_writes env s s1" by (rule framesD[OF head_bytes_writes hb])
  note f = only_writes_fields[OF ow]
  have same: "cached (s_scope s) (s_world s1) = cached (s_scope s) (s_world s) \<and> w_db (s_world s1) = w_db (s_world s)"
    by (simp add: f cached_def)
  consider "s' = s" | "s' = s1"
    | w where "cache_transaction (s_scope s) (publish_work (e_sha env) (s_scope s) (s_headBytes s) (projr r) changes cp ex) (s_world s1) = (Inl e, w)"
        "s_world s' = w"
    using assms hb
    by (auto simp: publish_def bindE_def thenE_def catchE_def whenE_def throwIfAborted_def liftW_def ensure_run f
        split: prod.splits sum.splits if_splits)
  then show ?thesis
    using same by cases (auto dest: cache_transaction_incoherent)
qed

lemma wp_readE [wp_simps]: "wp (readE f) Q E = (\<lambda>s. case f s of Inl e \<Rightarrow> E e s | Inr a \<Rightarrow> Q a s)"
  by (simp add: fun_eq_iff wp_def split: sum.splits)

lemma wp_modifyR [wp_simps]: "wp (modifyR f) Q E = (\<lambda>s. case f s of Inl e \<Rightarrow> E e s | Inr t \<Rightarrow> Q () t)"
  by (simp add: fun_eq_iff wp_def modifyR_def split: sum.splits)

lemma keeps_key_updates [simp]:
  "keeps_key id"
  "keeps_key (\<lambda>r. r\<lparr>c_phase := p r\<rparr>)" "keeps_key (\<lambda>r. r\<lparr>c_phase := p r, c_store := st\<rparr>)"
  "keeps_key (\<lambda>r. r\<lparr>c_phase := p r, c_store := st, c_providerState := ps\<rparr>)" "keeps_key (\<lambda>r. r\<lparr>c_providerState := ps\<rparr>)"
  "keeps_key (\<lambda>r. r\<lparr>c_store := st\<rparr>)" "keeps_key (\<lambda>r. r\<lparr>c_next := n, c_store := st\<rparr>)"
  "keeps_key (\<lambda>r. r\<lparr>c_phase := p r, c_finishSequence := fs, c_store := st\<rparr>)"
  "keeps_key (\<lambda>r. r\<lparr>c_phase := p r, c_finishResult := fr, c_store := st\<rparr>)"
  "keeps_key (\<lambda>r. r\<lparr>c_detached := b\<rparr>)"
  "keeps_key (\<lambda>r. r\<lparr>c_checkpoint := n, c_phase := p r, c_generation := g, c_store := st\<rparr>)"
  by (simp_all add: keeps_key_def control_key_def)

lemmas track_simps = wp_simps encode_store_def copyE_def

text \<open>Guards only read the session.\<close>

lemma wp_reads: "frames (\<lambda>s t. t = s) m \<Longrightarrow> (\<And>a. Q a s) \<Longrightarrow> (\<And>e. E e s) \<Longrightarrow> wp m Q E s"
  by (rule wpI) (auto dest: framesD)

lemma mirror_guard_reads:
  "frames (\<lambda>s t. t = s) assertReplacementReady" "frames (\<lambda>s t. t = s) assertPromotable"
  "frames (\<lambda>s t. t = s) (whenE b assertPromotable)" "frames (\<lambda>s t. t = s) (whenE b assertReplacementReady)"
  by (simp_all add: frames_def whenE_def assertReplacementReady_def assertPromotable_def)

lemmas mirror_guards = mirror_guard_reads [THEN wp_reads]

lemma find_batch_reads: "frames (\<lambda>s t. t = s) (find_batch bid)"
  by (simp add: frames_def find_batch_def)

lemma data_reads: "frames (\<lambda>s t. t = s) (data env b)"
  by (simp add: frames_def data_def)

lemmas read_intros = wp_reads [OF find_batch_reads] wp_reads [OF data_reads]

lemma loadBatch_reads: "frames (\<lambda>s t. t = s) (loadBatch env bid)"
  by (rule framesI) (auto simp: loadBatch_def bindE_def find_batch_def data_def split: prod.splits sum.splits)

subsection \<open>On track\<close>

text \<open>
  A relation on phases that is reflexive and transitive is kept along a computation when every
  publish keeps it. The operations that do not move the phase keep every such relation.
\<close>

locale phase_relation =
  fixes R :: "phase \<Rightarrow> phase \<Rightarrow> bool"
  assumes R_refl [simp]: "R p p" and R_trans: "R p q \<Longrightarrow> R q r \<Longrightarrow> R p r"
begin

definition on_track :: "session \<Rightarrow> session \<Rightarrow> bool" where
  "on_track s0 s \<longleftrightarrow> s_scope s = s_scope s0 \<and> coherent s
     \<and> (\<exists>c0 c. control s0 = Some c0 \<and> control s = Some c \<and> R (c_phase c0) (c_phase c))"

lemma on_track_refl: "coherent s \<Longrightarrow> control s \<noteq> None \<Longrightarrow> on_track s s"
  by (auto simp: on_track_def R_refl)

lemma on_track_trans: "on_track s t \<Longrightarrow> on_track t u \<Longrightarrow> on_track s u"
  by (auto simp: on_track_def intro: R_trans)

lemma on_track_observed: "on_track s0 s \<Longrightarrow> observed s s' \<Longrightarrow> on_track s0 s'"
  by (auto simp: on_track_def observed_def control_def)

lemma on_track_writes: "on_track s0 s \<Longrightarrow> only_writes env s s' \<Longrightarrow> on_track s0 s'"
  using only_writes_fields[of env s s'] coherent_only_writes[of env s s'] by (auto simp: on_track_def control_def)

lemma on_track_fields:
  "on_track s0 s \<Longrightarrow> on_track s0 (s\<lparr>s_local := li\<rparr>)" "on_track s0 s \<Longrightarrow> on_track s0 (s\<lparr>s_head := h\<rparr>)"
  "on_track s0 s \<Longrightarrow> on_track s0 (s\<lparr>s_headBytes := hb\<rparr>)" "on_track s0 s \<Longrightarrow> on_track s0 (s\<lparr>s_pending := p\<rparr>)"
  "on_track s0 s \<Longrightarrow> on_track s0 (s\<lparr>s_broken := b\<rparr>)"
  by (auto simp: on_track_def coherent_def control_def)

text \<open>The one fact about publishes the operations below need.\<close>

lemma wp_publish_track:
  assumes "on_track s0 s" and "keeps_key changes"
    and "\<And>c. control s = Some c \<Longrightarrow> ex = None \<or> ex = Some (c_phase c) \<Longrightarrow> R (c_phase c) (c_phase (changes c))"
    and "\<And>s' old c. on_track s0 s' \<Longrightarrow> s_head s' = h \<Longrightarrow> s_local s' = s_local s \<Longrightarrow> control s = Some old \<Longrightarrow>
          control s' = Some c \<Longrightarrow> c_phase c = c_phase (changes old) \<Longrightarrow> Q () s'"
    and "\<And>e s'. on_track s0 s' \<Longrightarrow> E e s'"
  shows "wp (publish env h changes cp ex) Q E s"
proof (rule wpI)
  fix a s'
  assume "publish env h changes cp ex s = (Inr a, s')"
  from publish_Inr[OF this assms(2)] obtain old hb where p: "published s h changes ex old hb s'" by blast
  let ?row = "(changes old)\<lparr>c_head := Some hb\<rparr>"
  have old: "control s = Some old" using p by (simp add: published_def control_def)
  have k: "control_key ?row = scope_key (s_scope s)"
    using assms(2) control_of_key[of "s_scope s" _ old] old by (simp add: keeps_key_def control_def control_key_def)
  have new: "control_of (s_scope s) (w_db (s_world s')) = Some ?row"
    using p control_of_update[OF k, of "w_db (s_world s)"] old control_of_controls by (metis control_def option.distinct(1) published_def)
  have "R (c_phase old) (c_phase ?row)" using assms(3)[OF old] p by (simp add: published_def)
  then have "on_track s s'"
    using p old new assms(1) by (auto simp: on_track_def published_def coherent_def control_def)
  with assms(1) have "on_track s0 s'" by (rule on_track_trans)
  with assms(4)[of s' old ?row] p old new show "Q a s'" by (simp add: published_def control_def)
next
  fix e s'
  assume run: "publish env h changes cp ex s = (Inl e, s')"
  note i = publish_Inl[OF run assms(2)] and c = publish_cache_Inl[OF run]
  from assms(1) obtain old where old: "control s = Some old" by (auto simp: on_track_def)
  have coh: "coherent s" and sc: "s_scope s' = s_scope s" using assms(1) i by (auto simp: on_track_def)
  have "on_track s s'"
  proof (cases "w_db (s_world s') = w_db (s_world s)")
    case True
    with c sc coh old show ?thesis by (auto simp: on_track_def coherent_def control_def)
  next
    case False
    with i old obtain hb where ex: "ex = None \<or> ex = Some (c_phase old)"
      and db: "db_controls (w_db (s_world s')) = db_controls (update_control ((changes old)\<lparr>c_head := Some hb\<rparr>) (w_db (s_world s)))"
      by (auto simp: control_def)
    let ?row = "(changes old)\<lparr>c_head := Some hb\<rparr>"
    have k: "control_key ?row = scope_key (s_scope s)"
      using assms(2) control_of_key[of "s_scope s" _ old] old by (simp add: keeps_key_def control_def control_key_def)
    have "control s' = Some ?row"
      using db control_of_update[OF k, of "w_db (s_world s)"] old control_of_controls sc by (metis control_def option.distinct(1))
    moreover have "cached (s_scope s) (s_world s') = None" using c False by blast
    moreover have "R (c_phase old) (c_phase ?row)" using assms(3)[OF old ex] by simp
    ultimately show ?thesis using old sc by (simp add: on_track_def coherent_def)
  qed
  with assms(1) have "on_track s0 s'" by (rule on_track_trans)
  then show "E e s'" by (rule assms(5))
qed

lemma wp_put_json_track:
  assumes "on_track s0 s" and "\<And>r s'. on_track s0 s' \<Longrightarrow> only_writes env s s' \<Longrightarrow> Q r s'" and "\<And>e s'. on_track s0 s' \<Longrightarrow> E e s'"
  shows "wp (put_json env v) Q E s"
  by (rule wpI) (use assms framesD[OF put_json_writes] on_track_writes in blast)+

lemma wp_current_track:
  assumes "on_track s0 s"
    and "\<And>c s'. on_track s0 s' \<Longrightarrow> observed s s' \<Longrightarrow> control s' = Some c \<Longrightarrow> Q c s'" and "\<And>e s'. on_track s0 s' \<Longrightarrow> E e s'"
  shows "wp current Q E s"
proof (rule wp_current)
  show "Q c s'" if "observed s s'" "coherent s \<Longrightarrow> control s = Some c" for c s'
    using that assms on_track_observed[OF assms(1) that(1)] observed_control[OF that(1)] by (auto simp: on_track_def)
  show "E e s'" if "observed s s'" for e s'
    using that assms on_track_observed by blast
qed

lemma wp_index_track:
  assumes "on_track s0 s" and "\<And>s'. on_track s0 s' \<Longrightarrow> Q () s'" and "\<And>e s'. on_track s0 s' \<Longrightarrow> E e s'"
  shows "wp (index bh bd rc) Q E s"
  using assms by (auto simp: index_def wp_modifyR bindR_def on_track_fields split: sum.splits)

lemma wp_saved_track:
  assumes "on_track s0 s" and "\<And>v s'. on_track s0 s' \<Longrightarrow> observed s s' \<Longrightarrow> Q v s'" and "\<And>e s'. on_track s0 s' \<Longrightarrow> E e s'"
  shows "wp (saved env) Q E s"
  by (rule wpI) (use assms framesD[OF saved_observed] on_track_observed in blast)+

lemmas track_intros = wp_current_track wp_publish_track wp_put_json_track wp_index_track wp_saved_track

definition tracked :: "(session, 'a) oper \<Rightarrow> bool" where
  "tracked m \<longleftrightarrow> (\<forall>s0 s. on_track s0 s \<longrightarrow> wp m (\<lambda>_. on_track s0) (\<lambda>_. on_track s0) s)"

lemma trackedI: "(\<And>s0 s. on_track s0 s \<Longrightarrow> wp m (\<lambda>_. on_track s0) (\<lambda>_. on_track s0) s) \<Longrightarrow> tracked m"
  by (simp add: tracked_def)

lemma saveProviderState_tracked: "tracked (saveProviderState env st)"
  by (rule trackedI) (auto simp: saveProviderState_def track_simps split: sum.splits intro!: track_intros)

lemma markUnknown_tracked: "tracked (markUnknown env bid)"
  by (rule trackedI) (auto simp: markUnknown_def find_batch_def track_simps split: sum.splits option.splits intro!: track_intros)

lemma detach_tracked: "tracked (detach env)"
  by (rule trackedI) (auto simp: detach_def track_simps split: sum.splits intro!: track_intros)

lemma wp_tracked:
  "tracked m \<Longrightarrow> on_track s0 s \<Longrightarrow> (\<And>a s'. on_track s0 s' \<Longrightarrow> Q a s') \<Longrightarrow> (\<And>e s'. on_track s0 s' \<Longrightarrow> E e s') \<Longrightarrow> wp m Q E s"
  unfolding tracked_def by (blast intro: wp_conseq)

lemma store_batch_tracked: "tracked (store_batch env sc p projected)"
  by (rule trackedI) (auto simp: store_batch_def track_simps intro!: track_intros)

lemma write_batch_tracked: "tracked (write_batch env p projected sq store)"
  by (rule trackedI)
    (auto simp: write_batch_def Let_def track_simps split: sum.splits intro!: track_intros wp_tracked[OF store_batch_tracked])

lemma prepare_tracked: "tracked (prepare env b store ind)"
  by (rule trackedI)
    (auto simp: prepare_def track_simps split: sum.splits intro!: track_intros wp_tracked[OF write_batch_tracked])

lemma write_receipt_tracked: "tracked (write_receipt env old bd rc store)"
  by (rule trackedI) (auto simp: write_receipt_def Let_def track_simps split: sum.splits intro!: track_intros)

lemma ack_tracked: "tracked (ack env bid res store reconciled at)"
proof (rule trackedI)
  fix s0 s
  assume "on_track s0 s"
  then show "wp (ack env bid res store reconciled at) (\<lambda>_. on_track s0) (\<lambda>_. on_track s0) s"
    unfolding ack_def
    by (auto simp: track_simps split: sum.splits option.splits
        intro!: wp_current_track read_intros wp_tracked[OF write_receipt_tracked])
qed

lemma resolve_staged_tracked: "tracked (resolve_staged env store at b)"
  by (rule trackedI)
    (auto simp: resolve_staged_def track_simps split: sum.splits option.splits intro!: wp_tracked[OF ack_tracked])

lemma wp_finalPoint_track:
  assumes "on_track s0 s" and "\<And>v s'. on_track s0 s' \<Longrightarrow> observed s s' \<Longrightarrow> Q v s'" and "\<And>e s'. on_track s0 s' \<Longrightarrow> E e s'"
  shows "wp (finalPoint env n) Q E s"
proof -
  have "observed s s" by (simp add: observed_def)
  with assms show ?thesis
    by (auto simp: finalPoint_def wp_simps split: option.splits intro!: wp_reads[OF loadBatch_reads] wp_saved_track)
qed

lemma snapshot_start_tracked: "tracked (snapshot_start env ms ago native)"
  by (rule trackedI)
    (auto simp: snapshot_start_def Let_def track_simps split: sum.splits intro!: track_intros on_track_fields)

lemma snapshot_append_tracked: "tracked (snapshot_append env rows n)"
  by (rule trackedI)
    (auto simp: snapshot_append_def append_page_def Let_def track_simps bindR_def split: sum.splits option.splits
      intro!: track_intros on_track_fields)

lemma put_pages_tracked: "tracked (put_pages env f pages)"
proof (rule trackedI)
  fix s0 s
  assume ot: "on_track s0 s"
  have "wp (mapE (\<lambda>p. put_json env (f p)) (fst pages)) (\<lambda>_. on_track s0) (\<lambda>_. on_track s0) s"
    by (rule wp_map[where I = "on_track s0", OF ot]) (auto intro: wp_put_json_track)
  then show "wp (put_pages env f pages) (\<lambda>_. on_track s0) (\<lambda>_. on_track s0) s"
    unfolding put_pages_def wp_bind
    by (rule wp_conseq) (auto simp: wp_simps split: sum.splits)
qed

lemma snapshot_seal_tracked: "tracked (snapshot_seal env counts)"
  by (rule trackedI)
    (auto simp: snapshot_seal_def Let_def track_simps split: sum.splits option.splits
      intro!: track_intros on_track_fields wp_tracked[OF put_pages_tracked])



end

interpretation reach: phase_relation phase_reach
  by unfold_locales auto

interpretation same: phase_relation "(=)"
  by unfold_locales auto

subsection \<open>Operations that move the phase\<close>

lemma prepareInit_tracked: "reach.tracked (prepareInit env store)"
  by (rule reach.trackedI)
    (auto simp: prepareInit_def track_simps split: sum.splits intro!: reach.track_intros)

lemma acknowledgeInit_tracked: "reach.tracked (acknowledgeInit env store)"
  by (rule reach.trackedI)
    (auto simp: acknowledgeInit_def track_simps split: sum.splits intro!: reach.track_intros)

lemma resetInit_tracked: "reach.tracked (resetInitAfterReconciliation env resolution store)"
  by (rule reach.trackedI)
    (auto simp: resetInitAfterReconciliation_def track_simps split: sum.splits intro!: reach.track_intros)

lemma prepareAbort_tracked: "reach.tracked (prepareAbort env)"
  by (rule reach.trackedI) (auto simp: prepareAbort_def track_simps split: sum.splits intro!: reach.track_intros)

lemma acknowledgeAbort_tracked: "reach.tracked (acknowledgeAbort env)"
  by (rule reach.trackedI) (auto simp: acknowledgeAbort_def track_simps split: sum.splits intro!: reach.track_intros)

lemma sealExtraction_tracked: "reach.tracked (sealExtraction env n store)"
  by (rule reach.trackedI) (auto simp: sealExtraction_def track_simps split: sum.splits intro!: reach.track_intros)

lemma prepareFinish_tracked: "reach.tracked (prepareFinish env n store)"
proof (rule reach.trackedI)
  fix s0 s
  assume ot: "reach.on_track s0 s"
  have pub: "wp (publish env h (\<lambda>r. r\<lparr>c_phase := PFinishPrepared, c_finishSequence := Some m, c_store := Some b\<rparr>) None ex)
      (\<lambda>_. reach.on_track s0) (\<lambda>_. reach.on_track s0) s'"
    if "reach.on_track s0 s'" "control s' = Some c" "c_phase c = PRunning \<or> c_phase c = PBatchesPending" for h m b c s' ex
    by (rule reach.wp_publish_track[OF that(1)]) (use that in auto)
  show "wp (prepareFinish env n store) (\<lambda>_. reach.on_track s0) (\<lambda>_. reach.on_track s0) s"
    unfolding prepareFinish_def copyE_def encode_store_def wp_bind wp_then wp_result wp_get wp_ensure
    using ot by (auto intro!: reach.wp_current_track mirror_guards pub split: sum.splits)
qed

lemma commitCheckpoint_tracked: "reach.tracked (commitCheckpoint env point store whole)"
proof (rule reach.trackedI)
  fix s0 s
  assume ot: "reach.on_track s0 s"
  have pub: "wp (publish env h (\<lambda>r. r\<lparr>c_checkpoint := n, c_phase := q, c_generation := g, c_store := Some b\<rparr>) cp None)
      (\<lambda>_. reach.on_track s0) (\<lambda>_. reach.on_track s0) s2"
    if "reach.on_track s0 s2" "observed s1 s2" "control s1 = Some c" "q = c_phase c \<or> c_phase c = PFinishAccepted \<and> q = PComplete"
    for h n q g b cp c s1 s2
    by (rule reach.wp_publish_track[OF that(1)]) (use that observed_control[OF that(2)] in auto)
  show "wp (commitCheckpoint env point store whole) (\<lambda>_. reach.on_track s0) (\<lambda>_. reach.on_track s0) s"
    unfolding commitCheckpoint_def Let_def track_simps
    using ot by (auto split: sum.splits intro!: reach.wp_current_track reach.wp_finalPoint_track mirror_guards pub)
qed

text \<open>The second half of \<open>finish\<close>: acknowledging staged batches keeps the phase, then it is accepted.\<close>

lemma accept_finish_tracked:
  assumes ot: "reach.on_track s0 s1" and p: "control s1 = Some c" "c_phase c = PFinishResolving"
  shows "wp (accept_finish env st at) (\<lambda>_. reach.on_track s0) (\<lambda>_. reach.on_track s0) s1"
proof -
  have both: "reach.on_track s0 s2" if "same.on_track s1 s2" for s2
    using that ot p by (auto simp: same.on_track_def reach.on_track_def)
  have "same.on_track s1 s1" using ot p by (auto simp: same.on_track_def reach.on_track_def)
  then have loop: "wp (forE pending (resolve_staged env st at)) (\<lambda>_. same.on_track s1) (\<lambda>_. same.on_track s1) s1" for pending
    using same.resolve_staged_tracked by (intro wp_for[where I = "same.on_track s1"]) (auto simp: same.tracked_def)
  show ?thesis
    unfolding accept_finish_def wp_bind[of "getE _"] wp_get wp_then[of "forE _ _"]
  proof (rule wp_conseq[OF loop])
    fix a s2
    assume s2: "same.on_track s1 s2"
    then have "reach.on_track s0 s2" "\<And>d. control s2 = Some d \<Longrightarrow> c_phase d = PFinishResolving"
      using both p by (auto simp: same.on_track_def)
    then show "wp (thenE (whenE (native_snapshot (s_head s2)) assertReplacementReady)
             (thenE (publish env (if native_snapshot (s_head s2) then set_replacement RAccepted (s_head s2) else s_head s2)
                (\<lambda>r. r\<lparr>c_phase := PFinishAccepted\<rparr>) None None)
             (whenE (native_snapshot (s_head s2)) (modifyE (\<lambda>s. s\<lparr>s_local := applyReplacement (s_local s)\<rparr>)))))
       (\<lambda>_. reach.on_track s0) (\<lambda>_. reach.on_track s0) s2"
      unfolding wp_then wp_when wp_modify
      by (auto intro!: mirror_guards reach.wp_publish_track reach.on_track_fields)
  qed (use both in simp)
qed

lemma record_finish_tracked:
  assumes ot: "reach.on_track s0 s1" and c: "control s1 = Some c" "c_phase c = PFinishPrepared \<or> c_phase c = PFinishPending"
    and d: "c_phase c = PFinishPending \<Longrightarrow> fr_delivery res = DeliveryAccepted"
    and Q: "\<And>s2 c2. reach.on_track s0 s2 \<Longrightarrow> control s2 = Some c2 \<Longrightarrow>
      (fr_delivery res = DeliveryAccepted \<Longrightarrow> c_phase c2 = PFinishResolving) \<Longrightarrow> Q () s2"
  shows "wp (record_finish env res st at) Q (\<lambda>_. reach.on_track s0) s1"
proof -
  have "wp (publish env h (\<lambda>r. r\<lparr>c_phase := (if fr_delivery res = DeliveryPending then PFinishPending else PFinishResolving),
              c_finishResult := Some fb, c_store := Some b\<rparr>) None None) Q (\<lambda>_. reach.on_track s0) s1" for h fb b
    by (rule reach.wp_publish_track[OF ot]) (use c d Q in auto)
  then show ?thesis
    unfolding record_finish_def using ot by (auto simp: track_simps split: sum.splits)
qed

lemma finish_tracked: "reach.tracked (finish env input store reconciled)"
proof (rule reach.trackedI)
  fix s0 s
  assume ot: "reach.on_track s0 s"
  show "wp (finish env input store reconciled) (\<lambda>_. reach.on_track s0) (\<lambda>_. reach.on_track s0) s"
    unfolding finish_def copyE_def wp_bind wp_then wp_result wp_get wp_ensure wp_when wp_if wp_return
    using ot by (auto split: sum.splits intro!: reach.wp_current_track record_finish_tracked accept_finish_tracked
        intro: delivery.exhaust)
qed

end
