(* ===== verification/DeliveryFacts.thy ===== *)
theory DeliveryFacts
  imports PhaseMachine LocalFacts
begin

text \<open>
  What the operations of the journal guarantee when they return: the batches and receipts they add,
  the guards they enforced, and what the checkpoint they wrote covers.
\<close>

subsection \<open>Runs of the building blocks\<close>

lemma current_Inr:
  assumes "current s = (Inr c, s1)"
  shows "observed s s1 \<and> \<not> s_broken s \<and> (coherent s \<longrightarrow> control s = Some c)"
  by (rule wpD_Inr[OF wp_current assms]) auto

lemma put_json_Inr: "put_json env v s = (r, s1) \<Longrightarrow> only_writes env s s1"
  by (rule framesD[OF put_json_writes])

text \<open>The durable row before and after a publish that returned.\<close>

lemma publish_control:
  assumes "publish env h changes cp ex s = (Inr u, s')" and "keeps_key changes"
  shows "\<exists>old hb. control s = Some old \<and> c_head old = s_headBytes s \<and> (ex = None \<or> ex = Some (c_phase old))
     \<and> control s' = Some ((changes old)\<lparr>c_head := Some hb\<rparr>) \<and> coherent s'
     \<and> s_head s' = h \<and> s_headBytes s' = Some hb \<and> s_local s' = s_local s \<and> s_scope s' = s_scope s \<and> s_pending s' = s_pending s"
proof -
  from publish_Inr[OF assms] obtain old hb where p: "published s h changes ex old hb s'" by blast
  let ?row = "(changes old)\<lparr>c_head := Some hb\<rparr>"
  have old: "control s = Some old" using p by (simp add: published_def control_def)
  have k: "control_key ?row = scope_key (s_scope s)"
    using assms(2) control_of_key[of "s_scope s" _ old] old by (simp add: keeps_key_def control_def control_key_def)
  have "control_of (s_scope s) (w_db (s_world s')) = Some ?row"
    using p control_of_update[OF k, of "w_db (s_world s)"] old control_of_controls by (metis control_def option.distinct(1) published_def)
  with p old show ?thesis by (auto simp: published_def control_def coherent_def)
qed

text \<open>An operation up to its publish leaves the durable row, the head and the index alone.\<close>

definition quiet :: "session \<Rightarrow> session \<Rightarrow> bool" where
  "quiet s t \<longleftrightarrow> control t = control s \<and> s_head t = s_head s \<and> s_local t = s_local s \<and> s_scope t = s_scope s
     \<and> s_pending t = s_pending s \<and> (coherent s \<longrightarrow> coherent t)"

lemma quiet_observed: "observed s t \<Longrightarrow> quiet s t"
  by (simp add: quiet_def observed_def control_def)

lemma quiet_writes: "only_writes env s t \<Longrightarrow> quiet s t"
  using only_writes_fields[of env s t] coherent_only_writes[of env s t] by (simp add: quiet_def control_def)

lemma quiet_refl: "quiet s s"
  by (simp add: quiet_def)

lemma quiet_trans: "quiet s t \<Longrightarrow> quiet t u \<Longrightarrow> quiet s u"
  by (simp add: quiet_def)

interpretation quiet: frame quiet
  by unfold_locales (auto intro: quiet_refl quiet_trans)

lemma finalPoint_quiet: "frames quiet (finalPoint env n)"
  unfolding finalPoint_def
  by (intro quiet.frame_rules) (auto intro!: framesI dest: framesD[OF loadBatch_reads] framesD[OF saved_observed]
      intro: quiet_refl quiet_observed)

subsection \<open>Preparing a batch\<close>

lemma canon_batch_fields [simp]:
  "pb_id (canon_batch b) = pb_id b" "pb_action (canon_batch b) = pb_action b" "pb_cursor (canon_batch b) = pb_cursor b"
  "map rec_seq (pb_records (canon_batch b)) = map rec_seq (pb_records b)"
  "map rec_op (pb_records (canon_batch b)) = map rec_op (pb_records b)"
  "length (pb_records (canon_batch b)) = length (pb_records b)"
  by (simp_all add: canon_batch_def canon_record_def)

text \<open>The loop over the records: contiguous sequence numbers, fresh and distinct operations, bound identities.\<close>

definition record_checked :: "(string \<Rightarrow> string) \<Rightarrow> run_scope \<Rightarrow> action \<Rightarrow> local_index \<Rightarrow> batch_record \<times> effect list \<Rightarrow> bool" where
  "record_checked sha sc act li re \<longleftrightarrow> \<not> has_operation (rec_op (fst re)) li \<and> hex64 (rec_key (fst re))
     \<and> rec_op (fst re) = operation_id sha sc act (rec_key (fst re)) (rec_row (fst re))
     \<and> (sc_mode sc = ModeMirror \<and> act = Remove \<longrightarrow> (\<forall>e \<in> set (snd re). map_of (li_desired li) (ef_identityHash e) = None))"

lemma check_effects_Inr:
  "check_effects separate mirror_remove li es seen = Inr seen' \<Longrightarrow>
     seen' = seen \<union> ef_identityHash ` set es
     \<and> (mirror_remove \<longrightarrow> (\<forall>e \<in> set es. map_of (li_desired li) (ef_identityHash e) = None))
     \<and> (separate \<longrightarrow> distinct (map ef_identityHash es) \<and> seen \<inter> ef_identityHash ` set es = {}
         \<and> set (li_touched li) \<inter> ef_identityHash ` set es = {})"
  by (induction separate mirror_remove li es seen arbitrary: seen' rule: check_effects.induct) (auto simp: run_simps)

lemma check_records_Inr:
  "check_records sha sc act separate li rs sq ids seen = Inr sq' \<Longrightarrow>
     sq' = sq + int (length rs) \<and> map (\<lambda>re. rec_seq (fst re)) rs = [sq + 1..sq'] \<and> distinct (map (\<lambda>re. rec_op (fst re)) rs)
     \<and> ids \<inter> set (map (\<lambda>re. rec_op (fst re)) rs) = {} \<and> list_all (record_checked sha sc act li) rs"
proof (induction sha sc act separate li rs sq ids seen rule: check_records.induct)
  case (2 sha sc act separate li r es rs sq ids seen)
  then obtain seen' where r: "rec_op r \<notin> ids" "\<not> has_operation (rec_op r) li" "hex64 (rec_key r)" "rec_seq r = sq + 1"
      "rec_op r = operation_id sha sc act (rec_key r) (rec_row r)"
    and e: "check_effects separate (sc_mode sc = ModeMirror \<and> act = Remove) li es seen = Inr seen'"
    and rest: "check_records sha sc act separate li rs (sq + 1) (insert (rec_op r) ids) seen' = Inr sq'"
    by (auto simp: run_simps)
  have ih: "sq' = sq + 1 + int (length rs)" "map (\<lambda>re. rec_seq (fst re)) rs = [sq + 1 + 1..sq']" "distinct (map (\<lambda>re. rec_op (fst re)) rs)"
     "insert (rec_op r) ids \<inter> set (map (\<lambda>re. rec_op (fst re)) rs) = {}" "list_all (record_checked sha sc act li) rs"
    using "2.IH"[OF rest] by (auto simp: comp_def)
  moreover have "[sq + 1..sq'] = (sq + 1) # [sq + 1 + 1..sq']"
    using ih(1) upto.simps[of "sq + 1" sq'] by simp
  moreover have "record_checked sha sc act li (r, es)"
    using r check_effects_Inr[OF e] unfolding record_checked_def by simp
  ultimately show ?case using r by auto
qed simp

text \<open>Everything \<open>prepare\<close> checked.\<close>

definition batch_checked ::
    "journal_env \<Rightarrow> run_scope \<Rightarrow> artifact_head \<Rightarrow> local_index \<Rightarrow> int \<Rightarrow> prepared_batch \<Rightarrow> effect list list \<Rightarrow> int \<Rightarrow> bool" where
  "batch_checked env sc h li nxt p projected sq \<longleftrightarrow>
     0 < length (pb_records p) \<and> length (pb_records p) \<le> batchRecords (e_limits env)
     \<and> byteLength (json_text (json_of_batch p)) \<le> batchBytes (e_limits env)
     \<and> \<not> list_ex blocks_delivery (h_batches h) \<and> length projected = length (pb_records p)
     \<and> sq = nxt + int (length (pb_records p)) \<and> map rec_seq (pb_records p) = [nxt + 1..sq]
     \<and> distinct (map rec_op (pb_records p))
     \<and> list_all (record_checked (e_sha env) sc (pb_action p) li) (zip (pb_records p) projected)
     \<and> check_mirror sc h li p projected = Inr ()"

lemma check_prepare_Inr:
  assumes "check_prepare env sc h li c ind p = Inr (projected, sq)"
  shows "batch_checked env sc h li (c_next c) p projected sq"
proof -
  from assms have m: "check_manifest env sc h p = Inr ()"
    and pr: "mapR (\<lambda>r. bindR (e_projection env (pb_action p) (rec_row r)) (effects (e_sha env) False)) (pb_records p) = Inr projected"
    and rs: "check_records (e_sha env) sc (pb_action p) (ind \<or> native_snapshot h) li (zip (pb_records p) projected) (c_next c) {} {} = Inr sq"
    and mi: "check_mirror sc h li p projected = Inr ()"
    by (auto simp: check_prepare_def run_simps)
  have len: "length projected = length (pb_records p)" by (rule mapR_Inr_length[OF pr])
  have zip: "map (\<lambda>re. f (fst re)) (zip (pb_records p) projected) = map f (pb_records p)" for f :: "batch_record \<Rightarrow> 'x"
  proof -
    have "map (\<lambda>re. f (fst re)) (zip (pb_records p) projected) = map f (map fst (zip (pb_records p) projected))" by simp
    with len show ?thesis by (simp only: map_fst_zip)
  qed
  from check_records_Inr[OF rs] m mi len show ?thesis
    by (auto simp: batch_checked_def check_manifest_def run_simps Let_def zip)
qed

text \<open>A batch that is prepared extends the durable journal by exactly its records.\<close>

definition batch_added :: "prepared_batch \<Rightarrow> session \<Rightarrow> session \<Rightarrow> bool" where
  "batch_added b s s' \<longleftrightarrow> (\<exists>old new bh. control s = Some old \<and> control s' = Some new \<and> c_phase old = PRunning \<and> c_phase new = PRunning
     \<and> c_next new = c_next old + int (length (pb_records b)) \<and> map rec_seq (pb_records b) = [c_next old + 1..c_next new]
     \<and> s_head s' = (s_head s)\<lparr>h_batches := h_batches (s_head s) @ [bh]\<rparr>
     \<and> b_id bh = pb_id b \<and> b_action bh = pb_action b \<and> b_first bh = c_next old + 1 \<and> b_last bh = c_next new
     \<and> b_status bh = BPrepared \<and> b_accepted bh = 0 \<and> b_staged bh = 0 \<and> b_rejected bh = 0)"

lemma store_batch_quiet: "frames quiet (store_batch env sc p projected)"
  unfolding store_batch_def
  by (intro quiet.frame_rules) (auto intro!: framesI intro: quiet_writes dest: put_json_Inr)

lemma write_batch_Inr:
  assumes "write_batch env p projected sq store s = (Inr u, s')"
  shows "\<exists>old hb refs b. control s = Some old
     \<and> control s' = Some (old\<lparr>c_next := sq, c_store := Some b, c_head := Some hb\<rparr>)
     \<and> s_head s' = (s_head s)\<lparr>h_batches := h_batches (s_head s) @ [prepared_head p projected sq (fst refs) (snd refs)]\<rparr> \<and> coherent s'
     \<and> index_batch (prepared_head p projected sq (fst refs) (snd refs)) \<lparr>bd_batch = p, bd_effects = projected\<rparr> None (s_local s) = Inr (s_local s')"
proof -
  from assms obtain refs s1 b s2 where
    st: "store_batch env (s_scope s) p projected s = (Inr refs, s1)"
    and pb: "publish env ((s_head s1)\<lparr>h_batches := h_batches (s_head s1) @ [prepared_head p projected sq (fst refs) (snd refs)]\<rparr>)
        (\<lambda>r. r\<lparr>c_next := sq, c_store := Some b\<rparr>) None None s1 = (Inr (), s2)"
    and ix: "index (prepared_head p projected sq (fst refs) (snd refs)) \<lparr>bd_batch = p, bd_effects = projected\<rparr> None s2 = (Inr (), s')"
    by (auto simp: write_batch_def run_simps Let_def encode_store_def)
  have q: "quiet s s1" by (rule framesD[OF store_batch_quiet st])
  from ix obtain li where li: "index_batch (prepared_head p projected sq (fst refs) (snd refs)) \<lparr>bd_batch = p, bd_effects = projected\<rparr> None (s_local s2) = Inr li"
     "s' = s2\<lparr>s_local := li\<rparr>"
    by (auto simp: index_def modifyR_def bindR_def split: sum.splits)
  have "keeps_key (\<lambda>r. r\<lparr>c_next := sq, c_store := Some b\<rparr>)" by simp
  from publish_control[OF pb this] obtain old hb where "control s1 = Some old"
      "control s2 = Some (old\<lparr>c_next := sq, c_store := Some b, c_head := Some hb\<rparr>)" "coherent s2" "s_local s2 = s_local s1"
      "s_head s2 = (s_head s1)\<lparr>h_batches := h_batches (s_head s1) @ [prepared_head p projected sq (fst refs) (snd refs)]\<rparr>"
    by auto
  with q li show ?thesis
    by - (rule exI[of _ old], rule exI[of _ hb], rule exI[of _ refs], rule exI[of _ b], auto simp: quiet_def control_def coherent_def)
qed

lemma prepare_Inr:
  assumes "prepare env b store ind s = (Inr u, s')" and "coherent s"
  shows "\<exists>old projected. control s = Some old
     \<and> batch_checked env (s_scope s) (s_head s) (s_local s) (c_next old) (canon_batch b) projected (c_next old + int (length (pb_records b)))
     \<and> batch_added b s s'"
proof -
  from assms(1) obtain st c s1 checked where cur: "current s = (Inr c, s1)" and ph: "c_phase c = PRunning"
    and ck: "check_prepare env (s_scope s1) (s_head s1) (s_local s1) c ind (canon_batch b) = Inr checked"
    and w: "write_batch env (canon_batch b) (fst checked) (snd checked) st s1 = (Inr u, s')"
    by (auto simp: prepare_def run_simps copy_batch_def copyE_def)
  have q: "quiet s s1" and c: "control s = Some c" using current_Inr[OF cur] assms(2) by (auto intro: quiet_observed)
  have bc: "batch_checked env (s_scope s) (s_head s) (s_local s) (c_next c) (canon_batch b) (fst checked) (snd checked)"
    using check_prepare_Inr[of env _ _ _ c ind _ "fst checked" "snd checked"] ck q by (simp add: quiet_def)
  then have sq: "snd checked = c_next c + int (length (pb_records b))"
      and seqs: "map rec_seq (pb_records b) = [c_next c + 1..c_next c + int (length (pb_records b))]"
    by (auto simp: batch_checked_def)
  from write_batch_Inr[OF w] q c have "batch_added b s s'"
    unfolding batch_added_def using ph sq seqs
    by (fastforce simp: quiet_def prepared_head_def Let_def)
  with c bc sq show ?thesis by auto
qed

subsection \<open>Guards of a mirror\<close>

text \<open>Removals are allowed only when every desired member is durably present with its desired payload.\<close>

definition member_current :: "local_index \<Rightarrow> string option \<Rightarrow> string \<times> desired_row \<Rightarrow> bool" where
  "member_current li rb d = (case live_member li (fst d) of None \<Rightarrow> False
     | Some m \<Rightarrow> m_payload m = Some (d_payload (snd d)) \<and> \<not> m_uncertain m \<and> \<not> stale rb m)"

lemma member_current_iff: "member_current li rb d \<longleftrightarrow> \<not> needs_addition li rb d"
  by (auto simp: member_current_def needs_addition_def split: option.splits)

lemma removals_allowed_Inr:
  assumes "removals_allowed h li = Inr u" and "[] \<notin> fst ` set (li_desired li)"
  shows "\<not> native_snapshot h \<and> sealed_snapshot h
     \<and> (\<forall>b \<in> set (h_batches h). b_action b = Upsert \<longrightarrow> int (b_accepted b) = batch_size b)
     \<and> (\<forall>d \<in> set (li_desired li). member_current li (refresh_before h) d)"
  using assms additions_page_empty[OF assms(2), of 0]
  by (auto simp: removals_allowed_def run_simps list_ex_iff member_current_iff)

text \<open>
  A promoted mirror holds exactly the desired members: every desired identity is live with the desired
  payload, and no other identity is live.
\<close>

lemma promotable_members:
  assumes "promotable h li = Inr u" and "\<not> native_snapshot h" and "index_ok li"
    and "[] \<notin> fst ` set (li_desired li)" and "[] \<notin> fst ` set (li_members li)"
  shows "(live_member li i \<noteq> None) = (map_of (li_desired li) i \<noteq> None)
     \<and> (\<forall>d m. map_of (li_desired li) i = Some d \<and> live_member li i = Some m \<longrightarrow> m_payload m = Some (d_payload d) \<and> \<not> m_uncertain m)"
proof -
  from assms(1,2) have r: "removals_allowed h li = Inr ()" and e: "removals_page [] 1 li = []"
    by (auto simp: promotable_def run_simps)
  note cur = removals_allowed_Inr[OF r assms(4)]
  have none: "\<not> removable li m" if "m \<in> set (li_members li)" for m
    using removals_page_empty[OF assms(5), of 0] e that by simp
  have desired: "map_of (li_desired li) i \<noteq> None" if "live_member li i = Some m" for m
  proof -
    from that have "map_of (li_members li) i = Some m" "m_value m \<noteq> None"
      by (auto simp: live_member_def member_of_def split: option.splits if_splits)
    with none[of "(i, m)"] show ?thesis by (auto simp: removable_def live_def dest: map_of_SomeD)
  qed
  have present: "\<exists>m. live_member li i = Some m \<and> m_payload m = Some (d_payload d) \<and> \<not> m_uncertain m"
    if "map_of (li_desired li) i = Some d" for d
    using cur map_of_SomeD[OF that] by (force simp: member_current_def split: option.splits)
  show ?thesis using desired present by force
qed

text \<open>What a removals page offers was accepted in an earlier state and is not desired any more.\<close>

lemma removals_page_members:
  "e \<in> set (removals_page after n li) \<Longrightarrow> \<exists>i m. (i, m) \<in> set (li_members li) \<and> m_value m = Some e \<and> map_of (li_desired li) i = None"
  by (fastforce simp: removals_page_def removable_def live_def dest!: in_set_takeD)

lemma snapshot_page_removals:
  assumes "snapshot_page Removals after n s = (Inr es, s')" and "[] \<notin> fst ` set (li_desired (s_local s))"
  shows "s' = s \<and> sealed_snapshot (s_head s)
     \<and> (\<forall>d \<in> set (li_desired (s_local s)). member_current (s_local s) (refresh_before (s_head s)) d)
     \<and> (\<forall>e \<in> set es. \<exists>i m. (i, m) \<in> set (li_members (s_local s)) \<and> m_value m = Some e \<and> map_of (li_desired (s_local s)) i = None)"
proof -
  from assms(1) have "removals_allowed (s_head s) (s_local s) = Inr ()" "s' = s" "es = removals_page after (nat n) (s_local s)"
    by (auto simp: snapshot_page_def run_simps assertRemovalsAllowed_def split: if_splits)
  with removals_allowed_Inr[OF _ assms(2)] show ?thesis by (auto dest: removals_page_members)
qed

subsection \<open>Receipts\<close>

text \<open>The text of an outcome determines it.\<close>

lemma outcome_text_eq: "outcome_text r = outcome_text r' \<longleftrightarrow> r = r'"
proof
  assume "outcome_text r = outcome_text r'"
  moreover have "wf_json (json_of_outcome q)" for q by (cases q) auto
  ultimately have "canon (json_of_outcome r) = canon (json_of_outcome r')"
    by (simp add: outcome_text_def json_text_eq_iff)
  then show "r = r'" by (metis outcome_round_trip)
qed simp

text \<open>A receipt can only resolve staged outcomes: what was accepted or rejected stays exactly as it is.\<close>

lemma check_previous_Inr:
  assumes "check_previous previous res = Inr advance" and "row \<in> set (br_outcomes previous)" and "\<not> is_staged row"
  shows "row \<in> set (br_outcomes res)"
proof -
  let ?f = "\<lambda>row. if is_staged row then Inr () else
          (case outcome_of (Some res) (outcome_op row) of None \<Rightarrow> Inl lossy_error
           | Some r \<Rightarrow> ensureR (outcome_text row = outcome_text r) ''Cannot overwrite a terminal receipt'')"
  from assms(1) obtain us where us: "mapR ?f (br_outcomes previous) = Inr us" by (auto simp: check_previous_def run_simps Let_def)
  have "mapR ?f xs = Inr us \<Longrightarrow> x \<in> set xs \<Longrightarrow> ?f x = Inr ()" for xs us x
    by (induction xs arbitrary: us) (auto simp: run_simps)
  from this[OF us assms(2)] assms(3) obtain r where "outcome_of (Some res) (outcome_op row) = Some r" "r = row"
    by (auto simp: run_simps outcome_text_eq split: option.splits)
  then show ?thesis by (auto simp: outcome_of_def dest!: map_of_SomeD)
qed

text \<open>The counts of an acknowledged batch are those of its receipt and cover the whole batch.\<close>

definition receipt_recorded :: "batch_head \<Rightarrow> batch_data \<Rightarrow> batch_result \<Rightarrow> batch_head \<Rightarrow> bool" where
  "receipt_recorded old bd res bh \<longleftrightarrow> b_id bh = b_id old \<and> b_first bh = b_first old \<and> b_last bh = b_last old \<and> b_action bh = b_action old
     \<and> b_status bh = BAcknowledged \<and> b_receipt bh \<noteq> None
     \<and> b_accepted bh = length (filter is_accepted (br_outcomes res)) \<and> b_staged bh = length (filter is_staged (br_outcomes res))
     \<and> b_rejected bh = length (filter is_rejected (br_outcomes res))
     \<and> int (b_accepted bh + b_staged bh + b_rejected bh) = batch_size bh"

lemma load_data_Inr:
  "load_data env sc w b = Inr bd \<Longrightarrow> pb_id (bd_batch bd) = b_id b \<and> int (length (pb_records (bd_batch bd))) = batch_size b
     \<and> length (bd_effects bd) = length (pb_records (bd_batch bd))"
  by (auto simp: load_data_def run_simps Let_def batch_size_def split: option.splits)

lemma acknowledged_recorded:
  assumes "validateBatchResult (bd_batch bd) v = Inr res" and "load_data env sc w old = Inr bd"
  shows "receipt_recorded old bd res (acknowledged_head old bd res ref)"
  using validateBatchResult_Inr(4)[OF assms(1)] load_data_Inr[OF assms(2)] outcomes_partition[of "br_outcomes res"]
  by (simp add: receipt_recorded_def acknowledged_head_def Let_def batch_size_def)

lemma write_receipt_Inr:
  assumes "write_receipt env old bd rc store s = (Inr u, s')"
  shows "\<exists>ref row hb b. control s = Some row \<and> control s' = Some (row\<lparr>c_store := Some b, c_head := Some hb\<rparr>)
     \<and> s_head s' = replace_batch (acknowledged_head old bd (rd_result rc) ref) (s_head s)
     \<and> index_batch (acknowledged_head old bd (rd_result rc) ref) bd (Some rc) (s_local s) = Inr (s_local s')"
proof -
  let ?up = "acknowledged_head old bd (rd_result rc)"
  from assms obtain ref s1 b s2 where pj: "put_json env (json_of_receipt rc) s = (Inr ref, s1)"
    and pb: "publish env (replace_batch (?up ref) (s_head s1)) (\<lambda>r. r\<lparr>c_store := Some b\<rparr>) None None s1 = (Inr (), s2)"
    and ix: "index (?up ref) bd (Some rc) s2 = (Inr (), s')"
    by (auto simp: write_receipt_def run_simps Let_def encode_store_def)
  have q: "quiet s s1" by (rule quiet_writes[OF put_json_Inr[OF pj]])
  have "keeps_key (\<lambda>r. r\<lparr>c_store := Some b\<rparr>)" by simp
  from publish_control[OF pb this] obtain row hb where p: "control s1 = Some row"
      "control s2 = Some (row\<lparr>c_store := Some b, c_head := Some hb\<rparr>)" "s_local s2 = s_local s1"
      "s_head s2 = replace_batch (?up ref) (s_head s1)"
    by auto
  from ix p obtain li where "index_batch (?up ref) bd (Some rc) (s_local s1) = Inr li" "s' = s2\<lparr>s_local := li\<rparr>"
    by (auto simp: index_def modifyR_def bindR_def split: sum.splits)
  with p q show ?thesis
    by - (rule exI[of _ ref], rule exI[of _ row], rule exI[of _ hb], rule exI[of _ b], auto simp: quiet_def control_def)
qed

text \<open>
  An acknowledgement that returns either repeats the stored receipt and changes nothing, or replaces the head
  of its batch by one with the counts of the new receipt, which keeps every terminal outcome of the old one.
\<close>

definition acknowledged :: "journal_env \<Rightarrow> string \<Rightarrow> session \<Rightarrow> session \<Rightarrow> bool" where
  "acknowledged env bid s s' \<longleftrightarrow> quiet s s' \<or> (\<exists>old bd res bh previous. find (\<lambda>b. b_id b = bid) (h_batches (s_head s)) = Some old
     \<and> load_data env (s_scope s) (s_world s) old = Inr bd \<and> load_receipt env (s_scope s) (s_world s) old = Inr previous
     \<and> set (map outcome_op (br_outcomes res)) = set (batch_ops (bd_batch bd)) \<and> distinct (map outcome_op (br_outcomes res))
     \<and> (case previous of None \<Rightarrow> True | Some p \<Rightarrow> set (filter (\<lambda>r. \<not> is_staged r) (br_outcomes (rd_result p))) \<subseteq> set (br_outcomes res))
     \<and> receipt_recorded old bd res bh \<and> s_head s' = replace_batch bh (s_head s))"

lemma observed_get: "observed s s1 \<Longrightarrow> get_artifact env sc ref (s_world s1) = get_artifact env sc ref (s_world s)"
proof -
  assume o: "observed s s1"
  then have "read_artifact env ref (s_world s1) = read_artifact env ref (s_world s)"
    unfolding read_artifact_def by (simp add: observed_def)
  with o show ?thesis unfolding get_artifact_def by (simp add: observed_def)
qed

lemma observed_loads:
  "observed s s1 \<Longrightarrow> load_data env (s_scope s1) (s_world s1) b = load_data env (s_scope s) (s_world s) b
     \<and> load_receipt env (s_scope s1) (s_world s1) b = load_receipt env (s_scope s) (s_world s) b"
proof -
  assume o: "observed s s1"
  then have g: "get_artifact env sc ref (s_world s1) = get_artifact env sc ref (s_world s)" for sc ref by (rule observed_get)
  from o have "s_scope s1 = s_scope s" by (simp add: observed_def)
  then show ?thesis unfolding load_data_def load_receipt_def by (simp add: g cong: option.case_cong)
qed

lemma ack_Inr:
  assumes "ack env bid input store reconciled at s = (Inr u, s')"
  shows "acknowledged env bid s s'"
proof -
  let ?rc = "\<lambda>res previous now. \<lparr>rd_result = res, rd_acceptedAt = accepted_at (coalesce at now) res
      (case previous of None \<Rightarrow> [] | Some p \<Rightarrow> rd_acceptedAt p)\<rparr>"
  from assms obtain c s1 st old bd res previous advance s2 where cur: "current s = (Inr c, s1)"
    and find: "find_batch bid s1 = (Inr old, s1)" and bd: "data env old s1 = (Inr bd, s1)"
    and res: "validateBatchResult (bd_batch bd) (json_of_batch_result (canon_result input)) = Inr res"
    and prev: "load_receipt env (s_scope s1) (s_world s1) old = Inr previous"
    and adv: "(case previous of None \<Rightarrow> returnE True | Some p \<Rightarrow> resultE (check_previous (rd_result p) res)) s1 = (Inr advance, s2)"
    and run: "whenE advance (bindE (getE s_recovered) (\<lambda>rec. thenE (ensure (\<not> rec \<or> reconciled) ''Recovered batch requires explicit reconciliation'')
        (bindE (getE (\<lambda>s. w_now (s_world s))) (\<lambda>now. write_receipt env old bd (?rc res previous now) st)))) s2 = (Inr u, s')"
    unfolding ack_def copyE_def copy_result_def
    by (auto simp: find_batch_def data_def run_simps simp del: whenE_Inr)
  from adv have s2: "s2 = s1" by (auto split: option.splits)
  from find bd have find: "find (\<lambda>b. b_id b = bid) (h_batches (s_head s1)) = Some old"
    and bd: "load_data env (s_scope s1) (s_world s1) old = Inr bd"
    by (auto simp: find_batch_def data_def split: option.splits)
  note ob = current_Inr[OF cur, THEN conjunct1]
  have q: "quiet s s1" by (rule quiet_observed[OF ob])
  note ld = observed_loads[OF ob, of env old]
  have keeps: "case previous of None \<Rightarrow> True | Some p \<Rightarrow> set (filter (\<lambda>r. \<not> is_staged r) (br_outcomes (rd_result p))) \<subseteq> set (br_outcomes res)"
    using adv by (auto split: option.splits dest: check_previous_Inr)
  show ?thesis
  proof (cases advance)
    case False
    with run q s2 show ?thesis by (simp add: acknowledged_def whenE_def)
  next
    case True
    with run s2 have w: "write_receipt env old bd (?rc res previous (w_now (s_world s1))) st s1 = (Inr u, s')" by (auto simp: run_simps)
    from write_receipt_Inr[OF w] obtain ref where "s_head s' = replace_batch (acknowledged_head old bd res ref) (s_head s1)" by auto
    then show ?thesis
      unfolding acknowledged_def
      using q find bd prev keeps ld validateBatchResult_Inr[OF res] acknowledged_recorded[OF res bd, of ref]
      by - (rule disjI2, rule exI[of _ old], rule exI[of _ bd], rule exI[of _ res], rule exI[of _ "acknowledged_head old bd res ref"],
          rule exI[of _ previous], simp add: quiet_def)
  qed
qed

subsection \<open>Boundaries of a run\<close>

text \<open>A prefix that is fully accepted: counting accepted operations over distinct sequence numbers is exact.\<close>

lemma accepted_prefix:
  assumes "index_ok li" and "int (accepted_between lo hi li) = hi - lo" and "lo < k" and "k \<le> hi"
  shows "\<exists>op r. (op, r) \<in> set (li_ops li) \<and> o_seq r = k \<and> o_status r = OpAccepted"
proof -
  let ?P = "\<lambda>(_ :: string, r). lo < o_seq r \<and> o_seq r \<le> hi \<and> o_status r = OpAccepted"
  let ?S = "(o_seq \<circ> snd) ` set (filter ?P (li_ops li))"
  have "distinct (map (o_seq \<circ> snd) (filter ?P (li_ops li)))"
    using assms(1) by (simp add: index_ok_def distinct_map_filter)
  from distinct_card[OF this] have "card ?S = accepted_between lo hi li" by (simp add: accepted_between_def)
  then have "card ?S = card {lo<..hi}" using assms(2) by simp
  moreover have "?S \<subseteq> {lo<..hi}" by auto
  ultimately have "?S = {lo<..hi}" by (intro card_subset_eq) auto
  with assms(3,4) have "k \<in> ?S" by simp
  then show ?thesis by fastforce
qed

lemma commitCheckpoint_Inr:
  assumes "commitCheckpoint env point store whole s = (Inr u, s')" and "coherent s"
  shows "\<exists>old new. control s = Some old \<and> control s' = Some new
     \<and> c_checkpoint old \<le> c_checkpoint new \<and> c_checkpoint new = rp_seq point \<and> rp_seq point \<le> c_next old
     \<and> int (accepted_between (c_base old) (rp_seq point) (s_local s)) = rp_seq point - c_base old
     \<and> (if whole then c_phase old = PFinishAccepted \<and> c_phase new = PComplete \<and> rp_seq point = c_next old
        else c_phase old = PRunning \<and> c_phase new = PRunning)
     \<and> (sc_mode (s_scope s) = ModeMirror \<longrightarrow> promotable (s_head s) (s_local s) = Inr ())
     \<and> s_head s' = s_head s \<and> s_local s' = s_local s"
proof -
  let ?n = "rp_seq point"
  let ?gen = "\<lambda>c sc. if sc_mode sc = ModeMirror then Some (sc_logicalRunId sc) else c_generation c"
  from assms(1) obtain st c s1 v s2 s3 b where cur: "current s = (Inr c, s1)"
    and n: "c_checkpoint c \<le> ?n" "?n \<le> c_next c"
    and ph: "if whole then c_phase c = PFinishAccepted else c_phase c = PRunning \<and> sc_mode (s_scope s1) = ModeUpsert \<and> sc_extraction (s_scope s1) = ExtractCursor"
    and all: "whole \<longrightarrow> Some ?n = c_finishSequence c \<and> ?n = c_next c"
    and acc: "int (accepted_between (c_base c) ?n (s_local s1)) = ?n - c_base c"
    and fin: "finalPoint env ?n s1 = (Inr v, s2)"
    and pro: "whenE (sc_mode (s_scope s1) = ModeMirror) assertPromotable s2 = (Inr (), s3)"
    and pub: "publish env (s_head s2) (\<lambda>r. r\<lparr>c_checkpoint := ?n, c_phase := (if whole then PComplete else c_phase c),
         c_generation := ?gen c (s_scope s1), c_store := Some b\<rparr>)
        (Some \<lparr>sv_point = point, sv_store = st, sv_generation = ?gen c (s_scope s1)\<rparr>) None s3 = (Inr u, s')"
    unfolding commitCheckpoint_def copyE_def encode_store_def Let_def
    by (auto simp: run_simps simp del: whenE_Inr split del: if_split)
  have q1: "quiet s s1" and c: "control s = Some c" using current_Inr[OF cur] assms(2) by (auto intro: quiet_observed)
  have q2: "quiet s1 s2" by (rule framesD[OF finalPoint_quiet fin])
  have s3: "s3 = s2" and pr: "sc_mode (s_scope s1) = ModeMirror \<longrightarrow> promotable (s_head s2) (s_local s2) = Inr ()"
    using pro by (auto simp: whenE_def assertPromotable_def split: if_splits)
  have q: "quiet s s2" by (rule quiet_trans[OF q1 q2])
  have "keeps_key (\<lambda>r. r\<lparr>c_checkpoint := ?n, c_phase := (if whole then PComplete else c_phase c),
         c_generation := ?gen c (s_scope s1), c_store := Some b\<rparr>)" by simp
  from publish_control[OF pub this] obtain old hb where p: "control s2 = Some old" "s_head s' = s_head s2" "s_local s' = s_local s2"
      "control s' = Some (old\<lparr>c_checkpoint := ?n, c_phase := (if whole then PComplete else c_phase c),
         c_generation := ?gen c (s_scope s1), c_store := Some b, c_head := Some hb\<rparr>)"
    by (auto simp: s3)
  have "old = c" using p(1) q c by (simp add: quiet_def)
  with p c q q1 n ph all acc pr show ?thesis
    by (auto simp: quiet_def split: if_splits)
qed

lemma prepareFinish_Inr:
  assumes "prepareFinish env n store s = (Inr u, s')" and "coherent s"
  shows "\<exists>old new. control s = Some old \<and> control s' = Some new \<and> n = c_next old \<and> c_phase new = PFinishPrepared
     \<and> c_finishSequence new = Some n \<and> \<not> list_ex blocks_delivery (h_batches (s_head s))
     \<and> (native_snapshot (s_head s) \<longrightarrow> replacement_ready (s_head s) (s_local s) = Inr ())
     \<and> (sc_mode (s_scope s) = ModeMirror \<and> \<not> native_snapshot (s_head s) \<longrightarrow> promotable (s_head s) (s_local s) = Inr ())"
proof -
  from assms(1) obtain c s1 b s2 ex where cur: "current s = (Inr c, s1)" and n: "c_next c = n"
    and bl: "\<not> list_ex (\<lambda>b. blocks_delivery b \<or> (c_phase c = PBatchesPending \<and> b_staged b > 0)) (h_batches (s_head s1))"
    and g: "(if native_snapshot (s_head s1) then assertReplacementReady
        else whenE (sc_mode (s_scope s1) = ModeMirror) assertPromotable) s1 = (Inr (), s2)"
    and pub: "publish env (if native_snapshot (s_head s1) then set_replacement RPrepared (s_head s1) else s_head s1)
         (\<lambda>r. r\<lparr>c_phase := PFinishPrepared, c_finishSequence := Some n, c_store := Some b\<rparr>) None ex s2 = (Inr u, s')"
    unfolding prepareFinish_def copyE_def encode_store_def by (auto simp: run_simps simp del: whenE_Inr split del: if_split)
  have q: "quiet s s1" and c: "control s = Some c" using current_Inr[OF cur] assms(2) by (auto intro: quiet_observed)
  have s2: "s2 = s1" "native_snapshot (s_head s1) \<longrightarrow> replacement_ready (s_head s1) (s_local s1) = Inr ()"
     "\<not> native_snapshot (s_head s1) \<longrightarrow> sc_mode (s_scope s1) = ModeMirror \<longrightarrow> promotable (s_head s1) (s_local s1) = Inr ()"
    using g by (auto simp: whenE_def assertPromotable_def assertReplacementReady_def split: if_splits)
  have "keeps_key (\<lambda>r. r\<lparr>c_phase := PFinishPrepared, c_finishSequence := Some n, c_store := Some b\<rparr>)" by simp
  from publish_control[OF pub this] show ?thesis
    using q c n bl s2 by (auto simp: quiet_def list_ex_iff)
qed

lemma prepareAbort_Inr:
  assumes "prepareAbort env s = (Inr u, s')" and "coherent s"
  shows "\<exists>old new. control s = Some old \<and> control s' = Some new \<and> c_phase new = PAbortPrepared
     \<and> (c_phase old = PRunning \<or> c_phase old = PBatchesPending) \<and> s_head s' = s_head s
     \<and> (\<forall>b \<in> set (h_batches (s_head s)). \<not> unresolved b \<and> (c_phase old = PBatchesPending \<longrightarrow> b_staged b = 0))"
proof -
  from assms(1) obtain c s1 where cur: "current s = (Inr c, s1)" and ph: "c_phase c = PRunning \<or> c_phase c = PBatchesPending"
    and bl: "\<not> list_ex (\<lambda>b. unresolved b \<or> (c_phase c = PBatchesPending \<and> b_staged b > 0)) (h_batches (s_head s1))"
    and pub: "publish env (s_head s1) (\<lambda>r. r\<lparr>c_phase := PAbortPrepared\<rparr>) None (Some (c_phase c)) s1 = (Inr u, s')"
    unfolding prepareAbort_def by (auto simp: run_simps)
  have q: "quiet s s1" and c: "control s = Some c" using current_Inr[OF cur] assms(2) by (auto intro: quiet_observed)
  have "keeps_key (\<lambda>r. r\<lparr>c_phase := PAbortPrepared\<rparr>)" by simp
  from publish_control[OF pub this] show ?thesis
    using q c ph bl by (auto simp: quiet_def list_ex_iff)
qed

text \<open>A new extraction starts only on a fresh run with no batch; it resumes at the saved cursor or at zero.\<close>

lemma assertReady_Inr:
  assumes "assertReady env s = (Inr point, s')" and "coherent s"
  shows "\<exists>c. control s = Some c \<and> c_phase c = PNew \<and> \<not> s_recovered s \<and> h_batches (s_head s) = []
     \<and> (sc_extraction (s_scope s) \<noteq> ExtractCursor \<longrightarrow> point = \<lparr>rp_seq = 0, rp_cursor = None\<rparr>)"
proof -
  from assms(1) obtain c s1 where cur: "current s = (Inr c, s1)" and "c_phase c = PNew" "\<not> s_recovered s1" "h_batches (s_head s1) = []"
     "sc_extraction (s_scope s1) \<noteq> ExtractCursor \<longrightarrow> point = \<lparr>rp_seq = 0, rp_cursor = None\<rparr>"
    unfolding assertReady_def by (auto simp: run_simps split: if_splits)
  with current_Inr[OF cur] assms(2) show ?thesis by (auto simp: observed_def)
qed

end
