(* ===== verification/Failure.thy ===== *)
theory Failure
  imports Prelude
begin

text \<open>
  Redaction of errors: the allowlisted reasons of \<open>reverse-etl/failure.ts\<close> and the diagnostics of
  \<open>retl-runner/src/diagnostics.ts\<close>. Error messages of SDKs, drivers and providers can contain
  row data and credentials; what leaves the process is one of a fixed set of constants.
\<close>

subsection \<open>Messages of the errors of the model\<close>

text \<open>\<open>error.message\<close>, for the values that are \<open>instanceof Error\<close>.\<close>

fun error_message :: "exn \<Rightarrow> string option" where
  "error_message (PersistenceError m) = Some m"
| "error_message (TransitionConflict m) = Some m"
| "error_message PersistenceResetRequiredError =
     Some ''Legacy Reverse ETL state requires an explicit test-sync reset before enabling object storage''"
| "error_message (ReverseEtlProtocolError m) = Some m"
| "error_message ReverseEtlManualReconciliationError =
     Some ''Google conversion results require manual reconciliation; no replay''"
| "error_message (MirrorRunError m) = Some m"
| "error_message (PlainError m) = Some m"
| "error_message AbortError = Some ''This operation was aborted''"
| "error_message NonError = None"

subsection \<open>Known failures\<close>

definition terminalReplacementReasons :: "string list" where
  "terminalReplacementReasons =
  [''Google replacement cutoff is missing or bound to another run; do not reset or replay'',
   ''Google replacement cleanup receipt unavailable; manual reconciliation required, no automatic replay'',
   ''Malformed Google replacement status; manual reconciliation required'',
   ''Google replacement status target mismatch'',
   ''Google replacement cleanup failed or is unverified; manual reconciliation required, no automatic replay'']"

definition requiresManualReconciliation :: "exn \<Rightarrow> bool" where
  "requiresManualReconciliation e \<longleftrightarrow>
     e = ReverseEtlManualReconciliationError \<or> (case error_message e of None \<Rightarrow> False | Some m \<Rightarrow> m \<in> set terminalReplacementReasons)"

definition failures :: "(string \<times> string) list" where
  "failures =
  [(''Mobile audiences require an App ID and mobile platform'',
    ''Set the App ID and mobile platform before creating a mobile audience. No audience creation was attempted; edit this sync and try again.''),
   (''Google conversion results require manual reconciliation; no replay'',
    ''Google returned partial or unverified conversion results. Some events may have been accepted. Contact your Jitsu administrator with this run ID; saved requests are retained and will not be uploaded again automatically.''),
   (''Google audience creation is unconfirmed; retry status discovery without resetting state'',
    ''Google has not confirmed audience creation. Run this same sync again to check for the audience; do not reset state or create another sync to retry it.''),
   (''Managed audience state is missing; preserve delivery state and reconcile'',
    ''The saved Google audience identity is missing. Ask your Jitsu administrator to restore or migrate its runtime state; do not reset this sync.''),
   (''Managed audience configuration changed; preserve provisioning state and reconcile'',
    ''The audience settings no longer match the saved creation request. Restore the original settings or contact your Jitsu administrator; do not reset state.''),
   (''Model query contains duplicate primary keys'',
    ''The model returns multiple rows with the same primary key. Return one deterministic row per primary key, then retry. Audience-identity deduplication does not deduplicate source primary keys.''),
   (''Async batches require distinct member identities'',
    ''Multiple source rows identify the same audience member. Update the model to return one row per normalized audience identity (for example, email or phone), then retry.'')] @
  map (\<lambda>reason. (reason, ''This audience is reserved by another sync. Choose a different audience or ask your Jitsu administrator to review and release the previous sync's ownership.''))
  [''Audience is exclusively managed by a mirror sync'',
   ''Audience already belongs to another mirror sync'',
   ''Audience already belongs to another mirror or upsert sync''] @
  [(''Source row failed destination validation'',
    ''A source row has invalid identifiers or consent. Check the model output, field mappings and raw versus hashed identifier settings, then retry.''),
   (''Destination rejected a row; the run stopped without skipping it'',
    ''The destination rejected a row, so the sync stopped. Check identifier mappings and consent. Some other rows may already have been accepted.''),
   (''Batch delivery is uncertain; reconcile its journal before retrying'',
    ''The destination did not confirm a submitted batch. Some changes may have been accepted. Contact support or your Jitsu administrator before retrying; do not reset sync state.''),
   (''Reverse ETL artifact upload failed; no delivery is authorized'',
    ''Sync progress could not be saved to object storage. Ask your Jitsu administrator to check storage connectivity and permissions before retrying. Earlier batches may already have been submitted.''),
   (''Reverse ETL recovery artifact is missing or corrupt; delivery blocked'',
    ''Saved sync data is missing or unreadable, so delivery was stopped. Contact support or your Jitsu administrator; do not reset sync state.''),
   (''Target/config changes require controlled reset'',
    ''This configuration is incompatible with the saved sync state. Revert the configuration change or contact your Jitsu administrator before resetting state.''),
   (''Previous logical run requires recovery'',
    ''A previous run still has unresolved work. Contact support or your Jitsu administrator to finish that run before starting another; do not reset sync state.''),
   (''Previous conversion run requires status refresh before new extraction'',
    ''A previous conversion run is still unresolved. Refresh its delivery status before starting another run. No new conversions were submitted by this attempt.''),
   (''Google replacement cutoff unavailable; no audience changes submitted'',
    ''Jitsu could not verify Google's clock and audience identity before replacement. No audience changes were submitted by this attempt. Ask your Jitsu administrator to check Google API access and connectivity, then retry.'')] @
  map (\<lambda>reason. (reason, ''Google audience replacement could not be confirmed. Uploaded members may already be present, but cleanup is not confirmed. Contact support or your Jitsu administrator with the run ID; do not reset state or start another replacement.''))
  [''Google replacement cutoff is missing or bound to another run; do not reset or replay'',
   ''Google replacement cleanup receipt unavailable; manual reconciliation required, no automatic replay'',
   ''Malformed Google replacement status; manual reconciliation required'',
   ''Google replacement status target mismatch'',
   ''Google replacement cleanup failed or is unverified; manual reconciliation required, no automatic replay'']"

text \<open>The argument is \<open>error.message\<close> of an \<open>Error\<close>, and \<open>None\<close> for any other thrown value.\<close>

definition failure_of_message :: "string option \<Rightarrow> (string \<times> string) option" where
  "failure_of_message m = (case m of None \<Rightarrow> None | Some t \<Rightarrow> map_option (Pair t) (map_of failures t))"

definition reverseEtlFailure :: "exn \<Rightarrow> (string \<times> string) option" where
  "reverseEtlFailure e = failure_of_message (error_message e)"

subsection \<open>Diagnostics\<close>

datatype failure_stage = Startup | LeaseAcquire | TaskStart | Admission | Execution

text \<open>
  A thrown value as \<open>failureDiagnostic\<close> inspects it: whether it is an \<open>Error\<close>, its \<open>message\<close> and
  \<open>code\<close> when they are strings, the status when it is a \<open>KubernetesHttpError\<close>, and its \<open>cause\<close>.
  \<open>NoObject\<close> is \<open>undefined\<close>, \<open>null\<close> or a primitive.
\<close>

datatype thrown =
    NoObject
  | Thrown (th_is_error: bool) (th_message: "string option") (th_code: "string option")
      (th_status: "int option") (th_cause: thrown)

record diagnostic =
  dg_event :: string
  dg_stage :: failure_stage
  dg_reason :: "string option"
  dg_code :: "string option"
  dg_httpStatus :: "int option"

definition diagnostic_codes :: "string list" where
  "diagnostic_codes =
  [''EACCES'', ''ENOENT'', ''ECONNREFUSED'', ''ECONNRESET'', ''ETIMEDOUT'', ''ENOTFOUND'', ''EAI_AGAIN'', ''ERR_TLS_CERT_ALTNAME_INVALID'', ''CERT_HAS_EXPIRED'', ''UNABLE_TO_VERIFY_LEAF_SIGNATURE'', ''SELF_SIGNED_CERT_IN_CHAIN'', ''DEPTH_ZERO_SELF_SIGNED_CERT'', ''28P01'', ''28000'', ''3D000'', ''3F000'', ''42P01'', ''42703'', ''42501'', ''23502'', ''23505'', ''57014'', ''53300'']"

definition diagnostic_reasons :: "string list" where
  "diagnostic_reasons =
  [''Kubernetes lease read failed'',
   ''Kubernetes lease acquisition failed'',
   ''Reverse sync already running'',
   ''Kubernetes request failed'',
   ''Kubernetes deadline exceeded'',
   ''Invalid Kubernetes response'',
   ''Reverse ETL database connection failed'',
   ''Reverse ETL persistence transaction failed'',
   ''Task already exists'']"

text \<open>\<open>a ??= b\<close>.\<close>

definition orElse :: "'a option \<Rightarrow> 'a option \<Rightarrow> 'a option" where
  "orElse a b = (case a of None \<Rightarrow> b | Some _ \<Rightarrow> a)"

definition listed :: "string list \<Rightarrow> string option \<Rightarrow> string option" where
  "listed xs m = (case m of None \<Rightarrow> None | Some t \<Rightarrow> if t \<in> set xs then Some t else None)"

text \<open>The loop over the chain of causes; \<open>depth\<close> counts the iterations left.\<close>

fun diagnose :: "nat \<Rightarrow> thrown \<Rightarrow> diagnostic \<Rightarrow> diagnostic" where
  "diagnose (Suc depth) (Thrown err msg code status cause) d =
     diagnose depth cause (d\<lparr>
       dg_reason := orElse (orElse (dg_reason d) (map_option fst (failure_of_message (if err then msg else None))))
         (listed diagnostic_reasons msg),
       dg_code := orElse (dg_code d) (listed diagnostic_codes code),
       dg_httpStatus := (case status of None \<Rightarrow> dg_httpStatus d | Some n \<Rightarrow> Some n)\<rparr>)"
| "diagnose _ _ d = d"

definition failureDiagnostic :: "failure_stage \<Rightarrow> thrown \<Rightarrow> diagnostic" where
  "failureDiagnostic stage e = diagnose 5 e
     \<lparr>dg_event = ''reverse_etl_failure'', dg_stage = stage, dg_reason = None, dg_code = None, dg_httpStatus = None\<rparr>"

definition default_failure_message :: string where
  "default_failure_message =
     ''Reverse ETL could not complete. Contact support or your Jitsu administrator. Some changes may already have been submitted; do not reset sync state.''"

definition failureMessage :: "exn \<Rightarrow> string \<Rightarrow> string" where
  "failureMessage e taskId =
     (case reverseEtlFailure e of Some (_, m) \<Rightarrow> m | None \<Rightarrow> default_failure_message)
     @ '' Run ID: '' @ taskId @ ''.''"

subsection \<open>Only allowlisted constants get out\<close>

definition public_reasons :: "string set" where
  "public_reasons = set (map fst failures) \<union> set diagnostic_reasons"

lemma failure_of_message_reason: "failure_of_message m = Some (r, t) \<Longrightarrow> m = Some r \<and> (r, t) \<in> set failures"
  by (auto simp: failure_of_message_def split: option.splits dest: map_of_SomeD)

lemma listed_set: "listed xs m = Some t \<Longrightarrow> t \<in> set xs"
  by (auto simp: listed_def split: option.splits if_splits)

lemma orElse_Some: "orElse a b = Some t \<Longrightarrow> a = Some t \<or> b = Some t"
  by (auto simp: orElse_def split: option.splits)

definition redacted :: "diagnostic \<Rightarrow> bool" where
  "redacted d \<longleftrightarrow> (case dg_reason d of None \<Rightarrow> True | Some r \<Rightarrow> r \<in> public_reasons)
     \<and> (case dg_code d of None \<Rightarrow> True | Some c \<Rightarrow> c \<in> set diagnostic_codes)"

lemma redactedI:
  "(\<And>t. dg_reason d = Some t \<Longrightarrow> t \<in> public_reasons) \<Longrightarrow> (\<And>t. dg_code d = Some t \<Longrightarrow> t \<in> set diagnostic_codes)
   \<Longrightarrow> redacted d"
  by (simp add: redacted_def split: option.splits)

lemma diagnose_redacted: "redacted d \<Longrightarrow> redacted (diagnose n e d)"
proof (induction n e d rule: diagnose.induct)
  case (1 depth err msg code status cause d)
  have r: "t \<in> public_reasons"
    if "orElse (orElse (dg_reason d) (map_option fst (failure_of_message (if err then msg else None))))
         (listed diagnostic_reasons msg) = Some t" for t
  proof -
    from that consider "dg_reason d = Some t" | u where "failure_of_message (if err then msg else None) = Some (t, u)"
      | "listed diagnostic_reasons msg = Some t"
      by (auto dest!: orElse_Some)
    then show ?thesis
    proof cases
      case 1
      with \<open>redacted d\<close> show ?thesis by (simp add: redacted_def)
    next
      case 2
      then have "(t, u) \<in> set failures" by (blast dest: failure_of_message_reason)
      then show ?thesis unfolding public_reasons_def set_map by force
    next
      case 3
      then show ?thesis unfolding public_reasons_def by (blast dest: listed_set)
    qed
  qed
  have c: "t \<in> set diagnostic_codes" if "orElse (dg_code d) (listed diagnostic_codes code) = Some t" for t
    using orElse_Some[OF that] 1(2) by (auto simp: redacted_def dest: listed_set)
  show ?case
    unfolding diagnose.simps by (rule 1(1), rule redactedI) (use r c in simp_all)
qed simp_all

lemma failureDiagnostic_redacted: "redacted (failureDiagnostic stage e)"
  unfolding failureDiagnostic_def by (rule diagnose_redacted) (simp add: redacted_def)

text \<open>Every terminal replacement reason has a message of its own for the user.\<close>

lemma terminal_reasons_listed: "set terminalReplacementReasons \<subseteq> fst ` set failures"
proof -
  have "\<exists>xs. map fst failures = xs @ terminalReplacementReasons"
    unfolding failures_def terminalReplacementReasons_def map_append append_assoc[symmetric]
    by (rule exI, rule arg_cong2[where f = append], rule refl) (simp only: list.map fst_conv)
  then show ?thesis by (metis (no_types) list.set_map le_sup_iff order_refl set_append)
qed

end
