(* ===== verification/Runner.thy ===== *)
theory Runner
  imports Lifecycle Failure
begin

text \<open>
  What the runs of \<open>reverse-etl/run.ts\<close>, \<open>mirror.ts\<close> and \<open>recovery.ts\<close> share: the interfaces they
  call and the state of one attempt. The journal is a record of operations; the narrow facade of
  \<open>persistence/index.ts\<close> and the core session behind it are instances. The provider is not part of the
  development: its operations are arbitrary, and they may use the journal they were handed. The signal
  may be aborted between any two of its observations, so the observations are taken from a list. A trace
  records the calls that cross the interfaces, for the properties; the program does not read it.
\<close>

subsection \<open>Interfaces\<close>

record 'j journal_ops =
  j_assertReady :: "('j, resume_point) oper"
  j_prepareInit :: "json \<Rightarrow> ('j, unit) oper"
  j_acknowledgeInit :: "json \<Rightarrow> ('j, unit) oper"
  j_prepareAbort :: "('j, unit) oper"
  j_acknowledgeAbort :: "('j, unit) oper"
  j_prepare :: "prepared_batch \<Rightarrow> json \<Rightarrow> bool \<Rightarrow> ('j, unit) oper"
  j_acknowledge :: "string \<Rightarrow> batch_result \<Rightarrow> json \<Rightarrow> ('j, unit) oper"
  j_markUnknown :: "string \<Rightarrow> ('j, unit) oper"
  j_saveProviderState :: "json \<Rightarrow> ('j, unit) oper"
  j_sealExtraction :: "int \<Rightarrow> json \<Rightarrow> ('j, unit) oper"
  j_prepareFinish :: "int \<Rightarrow> json \<Rightarrow> ('j, unit) oper"
  j_acknowledgeFinish :: "finish_result \<Rightarrow> json \<Rightarrow> ('j, unit) oper"
  j_commitCheckpoint :: "resume_point \<Rightarrow> json \<Rightarrow> bool \<Rightarrow> ('j, unit) oper"

text \<open>The narrow facade that \<open>openPersistence\<close> hands out, on an open session.\<close>

definition delivery_facade :: "journal_env \<Rightarrow> session journal_ops" where
  "delivery_facade env = \<lparr>j_assertReady = assertReady env, j_prepareInit = prepareInit env, j_acknowledgeInit = acknowledgeInit env,
     j_prepareAbort = prepareAbort env, j_acknowledgeAbort = acknowledgeAbort env, j_prepare = prepare env,
     j_acknowledge = acknowledge env, j_markUnknown = markUnknown env, j_saveProviderState = saveProviderState env,
     j_sealExtraction = sealExtraction env, j_prepareFinish = prepareFinish env, j_acknowledgeFinish = acknowledgeFinish env,
     j_commitCheckpoint = commitCheckpoint env\<rparr>"

text \<open>
  The session as the mirror and the recovery see it: the facade, and the core behind it with its
  snapshots. \<open>k_strategy\<close> reads the strategy of \<open>core.head.snapshot\<close>.
\<close>

record 'j core_ops = "'j journal_ops" +
  k_state :: "('j, json \<times> json) oper"
  k_recoveryStatus :: "('j, recovery_status) oper"
  k_recoveryPage :: "string \<Rightarrow> int \<Rightarrow> ('j, (string \<times> batch_status) list) oper"
  k_recoveryBatch :: "string \<Rightarrow> ('j, recovery_batch) oper"
  k_resetInit :: "string \<Rightarrow> json \<Rightarrow> ('j, unit) oper"
  k_acknowledgeRecovered :: "string \<Rightarrow> batch_result \<Rightarrow> json \<Rightarrow> ('j, unit) oper"
  k_acknowledgeRecoveredFinish :: "finish_result \<Rightarrow> json \<Rightarrow> ('j, unit) oper"
  k_finalPoint :: "int \<Rightarrow> ('j, resume_point) oper"
  k_strategy :: "('j, bool option) oper"
  k_start :: "int option \<Rightarrow> bool \<Rightarrow> ('j, unit) oper"
  k_append :: "(string \<times> identity list) list \<Rightarrow> int \<Rightarrow> ('j, unit) oper"
  k_seal :: "(int \<times> int) option \<Rightarrow> ('j, nat) oper"
  k_page :: "page_kind \<Rightarrow> string \<Rightarrow> int \<Rightarrow> ('j, effect list) oper"
  k_status :: "('j, (bool \<times> int \<times> nat) option) oper"

definition core_facade :: "journal_env \<Rightarrow> (int \<Rightarrow> string) \<Rightarrow> session core_ops" where
  "core_facade env ago = journal_ops.extend (delivery_facade env) \<lparr>k_state = journal_state, k_recoveryStatus = recoveryStatus,
     k_recoveryPage = recoveryPage, k_recoveryBatch = recoveryBatch env, k_resetInit = resetInitAfterReconciliation env,
     k_acknowledgeRecovered = acknowledgeRecovered env, k_acknowledgeRecoveredFinish = acknowledgeRecoveredFinish env,
     k_finalPoint = finalPoint env, k_strategy = getE (\<lambda>s. map_option sn_native (h_snapshot (s_head s))),
     k_start = (\<lambda>ms native. snapshot_start env ms ago native), k_append = snapshot_append env, k_seal = snapshot_seal env,
     k_page = snapshot_page, k_status = snapshot_status\<rparr>"

record writer_methods =
  wm_remove :: bool
  wm_reconcile :: bool

text \<open>What a writer is handed: \<open>WriteBatch\<close> of the protocol.\<close>

record write_batch =
  wb_id :: string
  wb_records :: "batch_record list"

definition write_batch_of :: "prepared_batch \<Rightarrow> write_batch" where
  "write_batch_of b = \<lparr>wb_id = pb_id b, wb_records = pb_records b\<rparr>"

type_synonym ('j, 'p, 'a) external = "('j \<times> 'p \<times> sync_store, 'a) oper"

record ('j, 'p) provider =
  p_createWriter :: "('j, 'p, writer_methods) external"
  p_init :: "('j, 'p, unit) external"
  p_upsert :: "write_batch \<Rightarrow> ('j, 'p, json) external"
  p_remove :: "write_batch \<Rightarrow> ('j, 'p, json) external"
  p_finish :: "('j, 'p, json) external"
  p_abort :: "bool \<Rightarrow> ('j, 'p, unit) external"

text \<open>The recovery callbacks of an adapter; all but the attachment are optional.\<close>

record ('j, 'p) recovery_hooks =
  rh_attachWriter :: "('j, 'p, writer_methods) external"
  rh_reconcileBatch :: "(write_batch \<Rightarrow> action \<Rightarrow> batch_result option \<Rightarrow> ('j, 'p, json) external) option"
  rh_reconcileFinish :: "(json option \<Rightarrow> ('j, 'p, json) external) option"
  rh_reconcileInit :: "('j, 'p, string) external option"
  rh_reconcileAbort :: "('j, 'p, unit) external option"

record source_record =
  sr_key :: string
  sr_row :: "(string \<times> json) list"
  sr_deleted :: bool
  sr_checkpoint :: "source_cursor option"

subsection \<open>One attempt\<close>

datatype event =
    Journaled string
  | JournaledBatch prepared_batch
  | Acknowledged string
  | Called string
  | CalledBatch prepared_batch

record ('j, 'p) attempt =
  r_journal :: 'j
  r_provider :: 'p
  r_store :: sync_store
  r_signal :: "bool list"
  r_aborted :: bool
  r_writer :: "writer_methods option"
  r_unacknowledged :: bool
  r_trace :: "event list"

definition signal_aborted :: "(('j, 'p, 'z) attempt_scheme, bool) oper" where
  "signal_aborted s =
     (let a = (r_aborted s \<or> (case r_signal s of [] \<Rightarrow> False | b # _ \<Rightarrow> b)) in
      (Inr a, s\<lparr>r_signal := tl (r_signal s), r_aborted := a\<rparr>))"

definition observe_signal :: "(('j, 'p, 'z) attempt_scheme, unit) oper" where
  "observe_signal = bindE signal_aborted (\<lambda>a. if a then throwE AbortError else returnE ())"

definition trace :: "event \<Rightarrow> ('j, 'p, 'z) attempt_scheme \<Rightarrow> ('j, 'p, 'z) attempt_scheme" where
  "trace ev s = s\<lparr>r_trace := r_trace s @ [ev]\<rparr>"

text \<open>A journal call leaves its event when it returns; a provider call leaves it when it is made.\<close>

definition journal_call :: "event \<Rightarrow> ('j, 'a) oper \<Rightarrow> (('j, 'p, 'z) attempt_scheme, 'a) oper" where
  "journal_call ev m s = (case m (r_journal s) of
      (Inr a, j) \<Rightarrow> (Inr a, trace ev (s\<lparr>r_journal := j\<rparr>))
    | (Inl e, j) \<Rightarrow> (Inl e, s\<lparr>r_journal := j\<rparr>))"

text \<open>Observers of the journal leave no event.\<close>

definition journal_read :: "('j, 'a) oper \<Rightarrow> (('j, 'p, 'z) attempt_scheme, 'a) oper" where
  "journal_read m s = (case m (r_journal s) of (r, j) \<Rightarrow> (r, s\<lparr>r_journal := j\<rparr>))"

definition provider_call :: "event \<Rightarrow> ('j, 'p, 'a) external \<Rightarrow> (('j, 'p, 'z) attempt_scheme, 'a) oper" where
  "provider_call ev m s = (case m (r_journal s, r_provider s, r_store s) of
      (r, (j, p, st)) \<Rightarrow> (r, trace ev (s\<lparr>r_journal := j, r_provider := p, r_store := st\<rparr>)))"

definition snapshot_store :: "(('j, 'p, 'z) attempt_scheme, json) oper" where
  "snapshot_store = getE (\<lambda>s. store_snapshot (r_store s))"

definition set_writer :: "writer_methods \<Rightarrow> (('j, 'p, 'z) attempt_scheme, unit) oper" where
  "set_writer m = modifyE (\<lambda>s. s\<lparr>r_writer := Some m\<rparr>)"

definition set_unacknowledged :: "bool \<Rightarrow> (('j, 'p, 'z) attempt_scheme, unit) oper" where
  "set_unacknowledged b = modifyE (\<lambda>s. s\<lparr>r_unacknowledged := b\<rparr>)"

definition ensureP :: "bool \<Rightarrow> string \<Rightarrow> ('s, unit) oper" where
  "ensureP b msg = (if b then returnE () else throwE (ReverseEtlProtocolError msg))"

text \<open>\<open>for (;;)\<close> with a body that says whether to go on. The result tells whether the loop ended within the fuel.\<close>

fun loopE :: "nat \<Rightarrow> ('s, bool) oper \<Rightarrow> ('s, bool) oper" where
  "loopE 0 body = returnE False"
| "loopE (Suc n) body = bindE body (\<lambda>go. if go then loopE n body else returnE True)"

end
