(* ===== verification/Run.thy ===== *)
theory Run
  imports Runner
begin

text \<open>
  The upsert lifecycle \<open>runReverseEtl\<close> of \<open>reverse-etl/run.ts\<close>, a client of the journal and of a
  provider.
\<close>

text \<open>The rows a source yields, and how the iteration ends.\<close>

type_synonym source = "source_cursor option \<Rightarrow> source_record list \<times> unit result"

record run_options =
  ro_stream :: stream_metadata
  ro_scope :: run_scope
  ro_fullRefresh :: bool
  ro_options :: json
  ro_mapping :: "(string \<times> string) list"
  ro_sourceKeyField :: string
  ro_checkpointEvery :: int
  ro_maxBatchBytes :: int

record ('j, 'p) run_state = "('j, 'p) attempt" +
  r_point :: resume_point
  r_batch :: "batch_record list"
  r_action :: action
  r_bytes :: nat
  r_staged :: bool
  r_finishStarted :: bool
  r_sinceCheckpoint :: int

definition copyCursor :: "source_cursor option \<Rightarrow> source_cursor option result" where
  "copyCursor c = (case c of None \<Rightarrow> Inr None
    | Some x \<Rightarrow>
        if length (cur_keys x) < 1 \<or> length (cur_keys x) > 8 then Inl (ReverseEtlProtocolError ''Invalid source cursor'')
        else if byteLength (json_text (json_of_cursor x)) > 65536
        then Inl (ReverseEtlProtocolError ''Source cursor exceeds its byte limit'')
        else Inr (Some x))"

subsection \<open>Flushing a batch\<close>

definition prepared_batch_of :: "(string \<Rightarrow> string) \<Rightarrow> run_options \<Rightarrow> ('j, 'p) run_state \<Rightarrow> prepared_batch" where
  "prepared_batch_of sha opts s = \<lparr>
     pb_id = batch_id sha (sc_logicalRunId (ro_scope opts)) (r_action s) (r_batch s), pb_action = r_action s,
     pb_records = r_batch s, pb_payloadHash = payload_hash sha (r_batch s), pb_cursor = rp_cursor (r_point s)\<rparr>"

definition deliver :: "('j, 'z) journal_ops_scheme \<Rightarrow> ('j, 'p) provider \<Rightarrow> prepared_batch \<Rightarrow> (('j, 'p) run_state, batch_result) oper" where
  "deliver J P b =
     catchE
       (bindE (provider_call (CalledBatch b) (if pb_action b = Upsert then p_upsert P (write_batch_of b) else p_remove P (write_batch_of b))) (\<lambda>raw.
        resultE (validateBatchResult b raw)))
       (\<lambda>_. thenE (journal_call (Journaled ''markUnknown'') (j_markUnknown J (pb_id b)))
          (throwE (ReverseEtlProtocolError ''Batch delivery is uncertain; reconcile its journal before retrying'')))"

definition flush :: "(string \<Rightarrow> string) \<Rightarrow> ('j, 'z) journal_ops_scheme \<Rightarrow> ('j, 'p) provider \<Rightarrow> run_options \<Rightarrow> (('j, 'p) run_state, unit) oper" where
  "flush sha J P opts = bindE (getE r_batch) (\<lambda>rows. whenE (rows \<noteq> [])
     (thenE observe_signal
     (bindE (getE (prepared_batch_of sha opts)) (\<lambda>b.
      bindE snapshot_store (\<lambda>st.
      thenE (journal_call (JournaledBatch b) (j_prepare J b st (st_asynchronous (ro_stream opts))))
      (thenE observe_signal
      (thenE (set_unacknowledged True)
      (bindE (deliver J P b) (\<lambda>res.
       bindE snapshot_store (\<lambda>st'.
       thenE (journal_call (Acknowledged (pb_id b)) (j_acknowledge J (pb_id b) res st'))
       (let pending = list_ex is_staged (br_outcomes res) in
        thenE (modifyE (\<lambda>s. s\<lparr>r_unacknowledged := (st_asynchronous (ro_stream opts) \<and> (r_staged s \<or> pending))\<rparr>))
        (thenE (ensureP (\<not> (st_asynchronous (ro_stream opts) \<and> pending \<and> (br_jobs res = None \<or> br_jobs res = Some [])))
           ''Asynchronous batches require recoverable remote job IDs'')
        (thenE (ensureP (\<not> list_ex is_rejected (br_outcomes res)) ''Destination rejected a row; the run stopped without skipping it'')
        (thenE (modifyE (\<lambda>s. s\<lparr>r_staged := (r_staged s \<or> pending), r_batch := [], r_bytes := 0\<rparr>))
        observe_signal))))))))))))))"

subsection \<open>One source record\<close>

definition mapped_row :: "run_options \<Rightarrow> source_record \<Rightarrow> json" where
  "mapped_row opts r =
     (let fields = map (\<lambda>(field, column). (field, case map_of (sr_row r) column of None \<Rightarrow> JLossy | Some v \<Rightarrow> v)) (ro_mapping opts) in
      JObj (if ro_sourceKeyField opts = [] then fields else AList.update (ro_sourceKeyField opts) (JStr (sr_key r)) fields))"

definition zero_hash :: string where
  "zero_hash = replicate 64 (CHR ''0'')"

definition header_size :: "action \<Rightarrow> source_cursor option \<Rightarrow> nat" where
  "header_size act cur = byteLength (json_text (JObj ([(''batchId'', JStr zero_hash), (''action'', JStr (action_text act)),
     (''records'', JArr []), (''payloadHash'', JStr zero_hash)] @ optional_member ''cursor'' json_of_cursor cur)))"

definition parse_row :: "run_options \<Rightarrow> source_record \<Rightarrow> json result" where
  "parse_row opts r =
     (let rt = (if sr_deleted r then the (st_removeRowType (ro_stream opts)) else st_rowType (ro_stream opts)) in
      case rt_parse rt (mapped_row opts r) of
        None \<Rightarrow> Inl (ReverseEtlProtocolError ''Source row failed destination validation'')
      | Some row \<Rightarrow> Inr row)"

definition record_action :: "source_record \<Rightarrow> action" where
  "record_action r = (if sr_deleted r then Remove else Upsert)"

definition read_entry ::
    "(string \<Rightarrow> string) \<Rightarrow> run_options \<Rightarrow> source_record \<Rightarrow> ('j, 'p) run_state \<Rightarrow> (batch_record \<times> source_cursor option) result" where
  "read_entry sha opts r s =
     bindR (parse_row opts r) (\<lambda>row.
     let sq = rp_seq (r_point s) + 1 in
     bindR (if safe_integer sq then Inr () else Inl (ReverseEtlProtocolError ''Source sequence limit exceeded'')) (\<lambda>_.
     bindR (copyCursor (sr_checkpoint r)) (\<lambda>cur.
     bindR (canonicalJson row) (\<lambda>_.
     Inr (\<lparr>rec_key = sr_key r, rec_seq = sq, rec_row = row,
           rec_op = operation_id sha (ro_scope opts) (record_action r) (sr_key r) row\<rparr>, cur)))))"

definition entry_size :: "batch_record \<Rightarrow> nat" where
  "entry_size e = byteLength (json_text (json_of_record e))"

definition flush_when ::
    "(string \<Rightarrow> string) \<Rightarrow> ('j, 'z) journal_ops_scheme \<Rightarrow> ('j, 'p) provider \<Rightarrow> run_options \<Rightarrow> (('j, 'p) run_state \<Rightarrow> bool) \<Rightarrow> (('j, 'p) run_state, unit) oper" where
  "flush_when sha J P opts cond = bindE (getE cond) (\<lambda>c. whenE c (flush sha J P opts))"

definition batch_full :: "run_options \<Rightarrow> action \<Rightarrow> nat \<Rightarrow> ('j, 'p) run_state \<Rightarrow> bool" where
  "batch_full opts nextAction sz s \<longleftrightarrow>
     r_batch s \<noteq> [] \<and> (nextAction \<noteq> r_action s \<or> r_bytes s + 1 + sz > nat (ro_maxBatchBytes opts))"

definition push_state :: "action \<Rightarrow> batch_record \<Rightarrow> source_cursor option \<Rightarrow> ('j, 'p) run_state \<Rightarrow> ('j, 'p) run_state" where
  "push_state act entry cur s = s\<lparr>r_action := act, r_point := \<lparr>rp_seq = rec_seq entry, rp_cursor = cur\<rparr>,
     r_bytes := r_bytes s + entry_size entry + (if r_batch s = [] then 0 else 1), r_batch := r_batch s @ [entry],
     r_sinceCheckpoint := r_sinceCheckpoint s + 1\<rparr>"

definition checkpoint_when_due :: "('j, 'z) journal_ops_scheme \<Rightarrow> run_options \<Rightarrow> (('j, 'p) run_state, unit) oper" where
  "checkpoint_when_due J opts = bindE (getE id) (\<lambda>s. whenE (r_sinceCheckpoint s \<ge> ro_checkpointEvery opts)
     (thenE (whenE (\<not> ro_fullRefresh opts \<and> \<not> r_staged s \<and> rp_cursor (r_point s) \<noteq> None)
        (journal_call (Journaled ''commitCheckpoint'') (j_commitCheckpoint J (r_point s) (store_snapshot (r_store s)) False)))
      (modifyE (\<lambda>s. s\<lparr>r_sinceCheckpoint := 0\<rparr>))))"

definition removal_supported :: "run_options \<Rightarrow> ('j, 'p) run_state \<Rightarrow> bool" where
  "removal_supported opts s \<longleftrightarrow>
     supportsExplicitRemove (st_caps (ro_stream opts)) \<and> (case r_writer s of None \<Rightarrow> False | Some m \<Rightarrow> wm_remove m)"

definition batch_ready :: "run_options \<Rightarrow> ('j, 'p) run_state \<Rightarrow> bool" where
  "batch_ready opts s \<longleftrightarrow> int (length (r_batch s)) \<ge> st_batchSize (ro_stream opts) \<or> r_sinceCheckpoint s \<ge> ro_checkpointEvery opts"

definition add_entry ::
    "(string \<Rightarrow> string) \<Rightarrow> ('j, 'z) journal_ops_scheme \<Rightarrow> ('j, 'p) provider \<Rightarrow> run_options \<Rightarrow> action \<Rightarrow> batch_record \<Rightarrow> source_cursor option
     \<Rightarrow> (('j, 'p) run_state, unit) oper" where
  "add_entry sha J P opts act entry cur =
     (let sz = entry_size entry + header_size act cur in
      thenE (ensureP (sz \<le> nat (ro_maxBatchBytes opts)) ''Source envelope exceeds the delivery byte limit'')
      (thenE (flush_when sha J P opts (batch_full opts act sz))
      (thenE (modifyE (push_state act entry cur))
      (thenE (flush_when sha J P opts (batch_ready opts))
      (checkpoint_when_due J opts)))))"

definition take_record ::
    "(string \<Rightarrow> string) \<Rightarrow> ('j, 'z) journal_ops_scheme \<Rightarrow> ('j, 'p) provider \<Rightarrow> run_options \<Rightarrow> source_record \<Rightarrow> (('j, 'p) run_state, unit) oper" where
  "take_record sha J P opts r =
     thenE observe_signal
     (thenE (ensureP (hex64 (sr_key r)) ''Invalid source record envelope'')
     (bindE (getE (removal_supported opts)) (\<lambda>removable.
      thenE (ensureP (\<not> sr_deleted r \<or> removable) ''Stream does not support explicit remove'')
      (bindE (readE (read_entry sha opts r)) (\<lambda>(entry, cur).
       add_entry sha J P opts (record_action r) entry cur)))))"

subsection \<open>The run\<close>

definition start_writer :: "('j, 'z) journal_ops_scheme \<Rightarrow> ('j, 'p) provider \<Rightarrow> run_options \<Rightarrow> (('j, 'p) run_state, unit) oper" where
  "start_writer J P opts =
     thenE observe_signal
     (bindE snapshot_store (\<lambda>st.
      thenE (journal_call (Journaled ''prepareInit'') (j_prepareInit J st))
      (thenE observe_signal
      (thenE (set_unacknowledged True)
      (bindE (provider_call (Called ''createWriter'') (p_createWriter P)) (\<lambda>m.
       thenE (set_writer m)
       (thenE (ensureP (\<not> (supportsExplicitRemove (st_caps (ro_stream opts)) \<and> \<not> wm_remove m)) ''Writer is missing its declared remove method'')
       (thenE (ensureP (\<not> (cap_replay (st_caps (ro_stream opts)) = ReconcileRequired \<and> \<not> wm_reconcile m)) ''Writer requires a reconciliation method'')
       (thenE observe_signal
       (thenE (provider_call (Called ''init'') (p_init P))
       (bindE snapshot_store (\<lambda>st'.
        thenE (journal_call (Journaled ''acknowledgeInit'') (j_acknowledgeInit J st'))
        (thenE (set_unacknowledged False) observe_signal)))))))))))))"

definition read_source ::
    "(string \<Rightarrow> string) \<Rightarrow> ('j, 'z) journal_ops_scheme \<Rightarrow> ('j, 'p) provider \<Rightarrow> run_options \<Rightarrow> source \<Rightarrow> (('j, 'p) run_state, unit) oper" where
  "read_source sha J P opts src =
     bindE (readE (\<lambda>s. copyCursor (rp_cursor (r_point s)))) (\<lambda>after.
     thenE (forE (fst (src after)) (take_record sha J P opts))
     (thenE (resultE (snd (src after))) (flush sha J P opts)))"

definition end_run :: "('j, 'z) journal_ops_scheme \<Rightarrow> ('j, 'p) provider \<Rightarrow> run_options \<Rightarrow> (('j, 'p) run_state, delivery \<times> int) oper" where
  "end_run J P opts =
     thenE observe_signal
     (bindE (getE (\<lambda>s. rp_seq (r_point s))) (\<lambda>n.
      thenE (whenE (st_asynchronous (ro_stream opts))
        (bindE snapshot_store (\<lambda>st. journal_call (Journaled ''sealExtraction'') (j_sealExtraction J n st))))
      (bindE (getE r_staged) (\<lambda>staged.
       if st_asynchronous (ro_stream opts) \<and> staged then returnE (DeliveryPending, n)
       else
         bindE snapshot_store (\<lambda>st.
         thenE (journal_call (Journaled ''prepareFinish'') (j_prepareFinish J n st))
         (thenE observe_signal
         (thenE (modifyE (\<lambda>s. s\<lparr>r_finishStarted := True\<rparr>))
         (bindE (provider_call (Called ''finish'') (p_finish P)) (\<lambda>raw.
          bindE (resultE (validateFinishResult raw)) (\<lambda>res.
          bindE snapshot_store (\<lambda>st'.
          thenE (journal_call (Journaled ''acknowledgeFinish'') (j_acknowledgeFinish J res st'))
          (thenE observe_signal
          (if fr_delivery res = DeliveryPending then returnE (DeliveryPending, n)
           else
             bindE snapshot_store (\<lambda>st''. bindE (getE r_point) (\<lambda>point.
             thenE (journal_call (Journaled ''commitCheckpoint'') (j_commitCheckpoint J point st'' True))
             (returnE (DeliveryAccepted, n)))))))))))))))))"

definition cleanup :: "('j, 'z) journal_ops_scheme \<Rightarrow> ('j, 'p) provider \<Rightarrow> (('j, 'p) run_state, unit) oper" where
  "cleanup J P = catchE
     (bindE (getE (\<lambda>s. r_writer s \<noteq> None \<and> \<not> r_finishStarted s \<and> \<not> r_unacknowledged s)) (\<lambda>safe. whenE safe
       (thenE (journal_call (Journaled ''prepareAbort'') (j_prepareAbort J))
       (bindE signal_aborted (\<lambda>a.
        thenE (provider_call (Called ''abort'') (p_abort P a))
        (journal_call (Journaled ''acknowledgeAbort'') (j_acknowledgeAbort J)))))))
     (\<lambda>_. returnE ())"

fun is_protocol_error :: "exn \<Rightarrow> bool" where
  "is_protocol_error (ReverseEtlProtocolError _) = True"
| "is_protocol_error _ = False"

definition rethrow_redacted :: "exn \<Rightarrow> (('j, 'p) run_state, 'a) oper" where
  "rethrow_redacted e =
     (if is_protocol_error e then throwE e
      else bindE signal_aborted (\<lambda>aborted. throwE (ReverseEtlProtocolError (if aborted then ''Reverse ETL run cancelled''
        else case reverseEtlFailure e of Some (reason, _) \<Rightarrow> reason
          | None \<Rightarrow> ''Reverse ETL run failed; inspect acknowledged recovery state''))))"

definition run_body ::
    "(string \<Rightarrow> string) \<Rightarrow> ('j, 'z) journal_ops_scheme \<Rightarrow> ('j, 'p) provider \<Rightarrow> run_options \<Rightarrow> source \<Rightarrow> (('j, 'p) run_state, delivery \<times> int) oper" where
  "run_body sha J P opts src =
     catchE (thenE (start_writer J P opts) (thenE (read_source sha J P opts src) (end_run J P opts)))
       (\<lambda>e. thenE (cleanup J P) (rethrow_redacted e))"

definition check_options :: "run_options \<Rightarrow> unit result" where
  "check_options opts =
     bindR (validateStream (ro_stream opts)) (\<lambda>_.
     if st_options (ro_stream opts) (ro_options opts) = None then Inl (ReverseEtlProtocolError ''Invalid reverse stream options'')
     else if sc_mode (ro_scope opts) \<noteq> ModeUpsert then Inl (ReverseEtlProtocolError ''Mirror execution is not enabled in this runner yet'')
     else if \<not> supportsUpsert (st_caps (ro_stream opts)) \<or> \<not> safe_integer (ro_checkpointEvery opts)
        \<or> ro_checkpointEvery opts < 1 \<or> ro_checkpointEvery opts > 1000000
     then Inl (ReverseEtlProtocolError ''Invalid upsert/checkpoint configuration'')
     else if \<not> safe_integer (ro_maxBatchBytes opts) \<or> ro_maxBatchBytes opts < 1 \<or> ro_maxBatchBytes opts > 10000000 \<or> ro_mapping opts = []
     then Inl (ReverseEtlProtocolError ''Invalid batch byte limit or empty mapping'')
     else Inr ())"

definition initial_state :: "'j \<Rightarrow> 'p \<Rightarrow> sync_store \<Rightarrow> bool list \<Rightarrow> ('j, 'p) run_state" where
  "initial_state j p store signal = \<lparr>r_journal = j, r_provider = p, r_store = store, r_signal = signal, r_aborted = False,
     r_writer = None, r_unacknowledged = False, r_trace = [], r_point = \<lparr>rp_seq = 0, rp_cursor = None\<rparr>, r_batch = [],
     r_action = Upsert, r_bytes = 0, r_staged = False, r_finishStarted = False, r_sinceCheckpoint = 0\<rparr>"

definition start_point :: "run_options \<Rightarrow> resume_point \<Rightarrow> resume_point result" where
  "start_point opts resume =
     (if ro_fullRefresh opts \<or> rp_cursor resume = None then Inr \<lparr>rp_seq = 0, rp_cursor = None\<rparr>
      else bindR (copyCursor (rp_cursor resume)) (\<lambda>cur. Inr \<lparr>rp_seq = rp_seq resume, rp_cursor = cur\<rparr>))"

definition runReverseEtl ::
    "(string \<Rightarrow> string) \<Rightarrow> ('j, 'z) journal_ops_scheme \<Rightarrow> ('j, 'p) provider \<Rightarrow> run_options \<Rightarrow> source \<Rightarrow> (('j, 'p) run_state, delivery \<times> int) oper" where
  "runReverseEtl sha J P opts src =
     thenE (resultE (check_options opts))
     (thenE observe_signal
     (bindE (catchE (journal_call (Journaled ''assertReady'') (j_assertReady J))
        (\<lambda>_. throwE (ReverseEtlProtocolError ''Recovery admission failed; reconcile outstanding work before running''))) (\<lambda>resume.
      thenE (ensureP (safe_integer (rp_seq resume) \<and> rp_seq resume \<ge> 0) ''Invalid resume sequence'')
      (bindE (resultE (start_point opts resume)) (\<lambda>point.
       thenE (modifyE (\<lambda>s. s\<lparr>r_point := point\<rparr>)) (run_body sha J P opts src))))))"

end
