(* ===== verification/RunnerFacts.thy ===== *)
theory RunnerFacts
  imports Runner PhaseMachine
begin

text \<open>
  The delivery protocol as an automaton over the calls of an attempt, and the rules that carry
  invariants through the calls an attempt makes.
\<close>

subsection \<open>The delivery protocol\<close>

datatype stage =
    Idle | Ready | InitPrepared | WriterCreated | InitCalled | Writing
  | BatchPrepared prepared_batch | BatchSent prepared_batch | Uncertain
  | Sealed | FinishPrepared | FinishCalled | FinishAcknowledged | Committed
  | AbortPrepared | AbortCalled | AbortDone

fun journaled :: "stage \<Rightarrow> string \<Rightarrow> stage option" where
  "journaled Idle op = (if op = ''assertReady'' then Some Ready else None)"
| "journaled Ready op = (if op = ''prepareInit'' then Some InitPrepared else None)"
| "journaled InitCalled op = (if op = ''acknowledgeInit'' then Some Writing else None)"
| "journaled Writing op = (if op = ''commitCheckpoint'' then Some Writing else if op = ''sealExtraction'' then Some Sealed
     else if op = ''prepareFinish'' then Some FinishPrepared else if op = ''prepareAbort'' then Some AbortPrepared else None)"
| "journaled (BatchPrepared b) op = (if op = ''prepareAbort'' then Some AbortPrepared else None)"
| "journaled (BatchSent b) op = (if op = ''markUnknown'' then Some Uncertain else None)"
| "journaled Sealed op = (if op = ''prepareFinish'' then Some FinishPrepared
     else if op = ''prepareAbort'' then Some AbortPrepared else None)"
| "journaled FinishPrepared op = (if op = ''prepareAbort'' then Some AbortPrepared else None)"
| "journaled FinishCalled op = (if op = ''acknowledgeFinish'' then Some FinishAcknowledged else None)"
| "journaled FinishAcknowledged op = (if op = ''commitCheckpoint'' then Some Committed else None)"
| "journaled AbortCalled op = (if op = ''acknowledgeAbort'' then Some AbortDone else None)"
| "journaled _ op = None"

fun called :: "stage \<Rightarrow> string \<Rightarrow> stage option" where
  "called InitPrepared op = (if op = ''createWriter'' then Some WriterCreated else None)"
| "called WriterCreated op = (if op = ''init'' then Some InitCalled else None)"
| "called FinishPrepared op = (if op = ''finish'' then Some FinishCalled else None)"
| "called AbortPrepared op = (if op = ''abort'' then Some AbortCalled else None)"
| "called _ op = None"

fun next_stage :: "stage \<Rightarrow> event \<Rightarrow> stage option" where
  "next_stage st (Journaled op) = journaled st op"
| "next_stage st (Called op) = called st op"
| "next_stage Writing (JournaledBatch b) = Some (BatchPrepared b)"
| "next_stage (BatchPrepared b) (CalledBatch b') = (if b' = b then Some (BatchSent b) else None)"
| "next_stage (BatchSent b) (Acknowledged i) = (if i = pb_id b then Some Writing else None)"
| "next_stage _ _ = None"

fun follow :: "stage \<Rightarrow> event list \<Rightarrow> stage option" where
  "follow st [] = Some st"
| "follow st (ev # evs) = Option.bind (next_stage st ev) (\<lambda>st'. follow st' evs)"

lemma follow_append: "follow st (evs @ evs') = Option.bind (follow st evs) (\<lambda>st'. follow st' evs')"
  by (induction evs arbitrary: st) (auto split: option.splits bind_splits)

subsection \<open>One finalization, no call after it\<close>

fun is_call :: "event \<Rightarrow> bool" where
  "is_call (Called _) = True"
| "is_call (CalledBatch _) = True"
| "is_call _ = False"

lemma follow_after_finish:
  "follow st evs = Some st' \<Longrightarrow> st \<in> {FinishCalled, FinishAcknowledged, Committed} \<Longrightarrow> \<not> list_ex is_call evs"
proof (induction evs arbitrary: st)
  case (Cons ev evs)
  from Cons.prems show ?case
    by (cases ev) (auto split: bind_splits if_splits dest: Cons.IH)
qed simp

lemma called_finish: "next_stage st (Called ''finish'') = Some st' \<Longrightarrow> st' = FinishCalled"
  by (cases st) (auto split: if_splits)

fun finish_last :: "event list \<Rightarrow> bool" where
  "finish_last [] = True"
| "finish_last (ev # evs) = (if ev = Called ''finish'' then \<not> list_ex is_call evs else finish_last evs)"

lemma follow_finish_last: "follow st evs = Some st' \<Longrightarrow> finish_last evs"
proof (induction evs arbitrary: st)
  case (Cons ev evs)
  then obtain st1 where st1: "next_stage st ev = Some st1" "follow st1 evs = Some st'" by (auto split: bind_splits)
  with Cons.IH show ?case using called_finish[of st st1] follow_after_finish[of st1 evs] by auto
qed simp

subsection \<open>Every batch is journaled directly before it is sent\<close>

lemma next_stage_sent: "next_stage st (CalledBatch b) = Some st' \<Longrightarrow> st = BatchPrepared b"
  by (cases st) (auto split: if_splits)

lemma next_stage_prepared: "next_stage st ev = Some (BatchPrepared b) \<Longrightarrow> ev = JournaledBatch b"
  by (cases "(st, ev)" rule: next_stage.cases)
    (auto split: if_splits elim!: journaled.elims called.elims)

fun calls_prepared :: "event option \<Rightarrow> event list \<Rightarrow> bool" where
  "calls_prepared prev [] = True"
| "calls_prepared prev (ev # evs) =
     ((case ev of CalledBatch b \<Rightarrow> prev = Some (JournaledBatch b) | _ \<Rightarrow> True) \<and> calls_prepared (Some ev) evs)"

lemma follow_calls_prepared:
  "follow st evs = Some st' \<Longrightarrow> (\<And>b. st = BatchPrepared b \<Longrightarrow> prev = Some (JournaledBatch b)) \<Longrightarrow> calls_prepared prev evs"
proof (induction evs arbitrary: st prev)
  case (Cons ev evs)
  then obtain st1 where st1: "next_stage st ev = Some st1" "follow st1 evs = Some st'" by (auto split: bind_splits)
  have "calls_prepared (Some ev) evs"
  proof (rule Cons.IH[OF st1(2)])
    show "Some ev = Some (JournaledBatch b)" if "st1 = BatchPrepared b" for b
      using next_stage_prepared st1(1) that by simp
  qed
  moreover have "prev = Some (JournaledBatch b)" if "ev = CalledBatch b" for b
    using Cons.prems(2)[OF next_stage_sent] st1(1) that by simp
  ultimately show ?case by (auto split: event.splits)
qed simp

text \<open>The batches an attempt journaled.\<close>

fun journaled_batches :: "event list \<Rightarrow> prepared_batch list" where
  "journaled_batches [] = []"
| "journaled_batches (JournaledBatch b # evs) = b # journaled_batches evs"
| "journaled_batches (_ # evs) = journaled_batches evs"

lemma journaled_batches_append [simp]: "journaled_batches (evs @ evs') = journaled_batches evs @ journaled_batches evs'"
  by (induction evs rule: journaled_batches.induct) auto

subsection \<open>Calls\<close>

lemma wp_journal_call:
  "(\<And>a j. Q a (trace ev (s\<lparr>r_journal := j\<rparr>))) \<Longrightarrow> (\<And>e j. E e (s\<lparr>r_journal := j\<rparr>)) \<Longrightarrow> wp (journal_call ev m) Q E s"
  by (auto simp: wp_def journal_call_def split: prod.splits sum.splits)

lemma wp_provider_call:
  "(\<And>a j p st. Q a (trace ev (s\<lparr>r_journal := j, r_provider := p, r_store := st\<rparr>))) \<Longrightarrow>
   (\<And>e j p st. E e (trace ev (s\<lparr>r_journal := j, r_provider := p, r_store := st\<rparr>))) \<Longrightarrow> wp (provider_call ev m) Q E s"
  by (auto simp: wp_def provider_call_def split: prod.splits sum.splits)

lemma wp_signal_aborted:
  "(\<And>a sig. Q a (s\<lparr>r_signal := sig, r_aborted := a\<rparr>)) \<Longrightarrow> wp signal_aborted Q E s"
  by (simp add: wp_def signal_aborted_def Let_def)

lemma wp_observe_signal:
  "(\<And>a sig. Q () (s\<lparr>r_signal := sig, r_aborted := a\<rparr>)) \<Longrightarrow> (\<And>a sig. E AbortError (s\<lparr>r_signal := sig, r_aborted := a\<rparr>)) \<Longrightarrow>
   wp observe_signal Q E s"
  unfolding observe_signal_def by (auto simp: wp_simps intro!: wp_signal_aborted)

lemma wp_ensureP [wp_simps]: "wp (ensureP b msg) Q E = (\<lambda>s. if b then Q () s else E (ReverseEtlProtocolError msg) s)"
  by (simp add: fun_eq_iff wp_def ensureP_def)

lemma wp_snapshot_store [wp_simps]: "wp snapshot_store Q E = (\<lambda>s. Q (store_snapshot (r_store s)) s)"
  by (simp add: snapshot_store_def wp_get)

lemma wp_journal_read:
  "(\<And>a j. Q a (s\<lparr>r_journal := j\<rparr>)) \<Longrightarrow> (\<And>e j. E e (s\<lparr>r_journal := j\<rparr>)) \<Longrightarrow> wp (journal_read m) Q E s"
  by (auto simp: wp_def journal_read_def split: prod.splits sum.splits)

lemma wp_set_fields [wp_simps]:
  "wp (set_writer m) Q E = (\<lambda>s. Q () (s\<lparr>r_writer := Some m\<rparr>))"
  "wp (set_unacknowledged b) Q E = (\<lambda>s. Q () (s\<lparr>r_unacknowledged := b\<rparr>))"
  by (simp_all add: set_writer_def set_unacknowledged_def wp_modify)

lemma wp_loop:
  assumes "I s" and "\<And>s. I s \<Longrightarrow> wp body (\<lambda>_. I) E s"
  shows "wp (loopE n body) (\<lambda>_. I) E s"
  using assms(1)
proof (induction n arbitrary: s)
  case (Suc n)
  have "wp body (\<lambda>go. wp (if go then loopE n body else returnE True) (\<lambda>_. I) E) E s"
    by (rule wp_conseq[OF assms(2)[OF Suc.prems]]) (auto simp: wp_return Suc.IH)
  then show ?case by (simp add: wp_bind)
qed (simp add: wp_return)

text \<open>More fuel does not change a loop that ended.\<close>

lemma loopE_more:
  "loopE n body s = (r, t) \<Longrightarrow> r \<noteq> Inr False \<Longrightarrow> n \<le> m \<Longrightarrow> loopE m body s = (r, t)"
proof (induction n arbitrary: m s)
  case (Suc n)
  then obtain m' where m: "m = Suc m'" "n \<le> m'" by (cases m) auto
  obtain q u where b: "body s = (q, u)" by fastforce
  show ?case
  proof (cases q)
    case (Inr go)
    with Suc.prems b m Suc.IH[of u m'] show ?thesis by (cases go) (auto simp: bindE_def)
  qed (use Suc.prems b m in \<open>auto simp: bindE_def\<close>)
qed simp

lemma r_trace_trace [simp]: "r_trace (trace ev s) = r_trace s @ [ev]"
  and trace_keeps [simp]: "r_writer (trace ev s) = r_writer s" "r_unacknowledged (trace ev s) = r_unacknowledged s"
    "r_journal (trace ev s) = r_journal s" "attempt.more (trace ev s) = attempt.more s"
  by (simp_all add: trace_def)

lemmas run_calls = wp_journal_call wp_journal_read wp_provider_call wp_observe_signal wp_signal_aborted

end
