(* ===== verification/RunFacts.thy ===== *)
theory RunFacts
  imports Run RunnerFacts
begin

text \<open>
  What \<open>runReverseEtl\<close> promises about the calls that cross its two interfaces, for every journal,
  every provider, every source and every pattern of cancellation: the calls follow the delivery
  protocol below, the batches respect the limits of the stream, and no foreign error text leaves
  the function.
\<close>

subsection \<open>Runs follow the protocol\<close>

definition abortable :: "stage \<Rightarrow> bool" where
  "abortable st \<longleftrightarrow> st \<in> {Writing, Sealed, FinishPrepared} \<or> (\<exists>b. st = BatchPrepared b)"

text \<open>
  The stage a run is in, and what its flags say of it: cleanup is only allowed to start where the
  protocol has an abort.
\<close>

definition stage_is :: "stage \<Rightarrow> ('j, 'p) run_state \<Rightarrow> bool" where
  "stage_is st s \<longleftrightarrow> follow Idle (r_trace s) = Some st"

definition safe_stop :: "('j, 'p) run_state \<Rightarrow> bool" where
  "safe_stop s \<longleftrightarrow> (\<exists>st. stage_is st s \<and> (r_writer s \<noteq> None \<and> \<not> r_finishStarted s \<and> \<not> r_unacknowledged s \<longrightarrow> abortable st))"

definition writing :: "('j, 'p) run_state \<Rightarrow> bool" where
  "writing s \<longleftrightarrow> stage_is Writing s \<and> \<not> r_finishStarted s"

lemma trace_keeps_run [simp]: "r_finishStarted (trace ev s) = r_finishStarted s" "r_batch (trace ev s) = r_batch s"
    "r_point (trace ev s) = r_point s" "r_action (trace ev s) = r_action s" "r_bytes (trace ev s) = r_bytes s"
  by (simp_all add: trace_def)

lemmas stage_simps = follow_append stage_is_def safe_stop_def writing_def abortable_def

lemma deliver_stage:
  "stage_is (BatchPrepared b) s \<Longrightarrow> r_unacknowledged s \<Longrightarrow> \<not> r_finishStarted s \<Longrightarrow>
   wp (deliver J P b) (\<lambda>_ s'. stage_is (BatchSent b) s' \<and> r_unacknowledged s' \<and> \<not> r_finishStarted s') (\<lambda>_. safe_stop) s"
  by (auto simp: deliver_def wp_simps stage_simps intro!: run_calls split: sum.splits)

lemma flush_stage: "writing s \<Longrightarrow> wp (flush sha J P opts) (\<lambda>_. writing) (\<lambda>_. safe_stop) s"
  unfolding flush_def
  by (auto simp: wp_simps stage_simps Let_def intro!: run_calls deliver_stage[THEN wp_conseq])

lemma flush_when_stage: "writing s \<Longrightarrow> wp (flush_when sha J P opts c) (\<lambda>_. writing) (\<lambda>_. safe_stop) s"
  by (auto simp: flush_when_def wp_simps intro: flush_stage)

lemma checkpoint_stage: "writing s \<Longrightarrow> wp (checkpoint_when_due J opts) (\<lambda>_. writing) (\<lambda>_. safe_stop) s"
  by (auto simp: checkpoint_when_due_def wp_simps stage_simps intro!: run_calls)

lemma writing_safe: "writing s \<Longrightarrow> safe_stop s"
  by (auto simp: stage_simps)

lemma writing_keeps [simp]:
  "writing (s\<lparr>r_signal := sig, r_aborted := a\<rparr>) = writing s"
  "writing (push_state act entry cur s) = writing s"
  by (simp_all add: writing_def stage_is_def push_state_def)

lemma add_entry_stage: "writing s \<Longrightarrow> wp (add_entry sha J P opts act entry cur) (\<lambda>_. writing) (\<lambda>_. safe_stop) s"
  unfolding add_entry_def
  by (auto simp: wp_simps Let_def writing_safe intro!: flush_when_stage[THEN wp_conseq] checkpoint_stage)

lemma take_record_stage: "writing s \<Longrightarrow> wp (take_record sha J P opts r) (\<lambda>_. writing) (\<lambda>_. safe_stop) s"
  unfolding take_record_def
  by (auto simp: wp_simps writing_safe split: sum.splits prod.splits intro!: wp_observe_signal add_entry_stage)

lemma read_source_stage: "writing s \<Longrightarrow> wp (read_source sha J P opts src) (\<lambda>_. writing) (\<lambda>_. safe_stop) s"
  unfolding read_source_def
  by (auto simp: wp_simps writing_safe split: sum.splits
      intro!: wp_for[where I = writing, THEN wp_conseq] take_record_stage flush_stage)

lemma end_run_stage: "writing s \<Longrightarrow> wp (end_run J P opts) (\<lambda>_. safe_stop) (\<lambda>_. safe_stop) s"
  unfolding end_run_def
  by (auto simp: wp_simps stage_simps split: sum.splits intro!: run_calls)

lemma start_writer_stage:
  "stage_is Ready s \<Longrightarrow> r_writer s = None \<Longrightarrow> \<not> r_finishStarted s \<Longrightarrow>
   wp (start_writer J P opts) (\<lambda>_. writing) (\<lambda>_. safe_stop) s"
  unfolding start_writer_def
  by (auto simp: wp_simps stage_simps split: sum.splits intro!: run_calls)

definition followed :: "('j, 'p) run_state \<Rightarrow> bool" where
  "followed s \<longleftrightarrow> (\<exists>st. stage_is st s)"

lemma safe_stop_followed: "safe_stop s \<Longrightarrow> followed s"
  by (auto simp: safe_stop_def followed_def)

lemma cleanup_stage: "safe_stop s \<Longrightarrow> wp (cleanup J P) (\<lambda>_. followed) (\<lambda>_. followed) s"
  unfolding cleanup_def
  by (auto simp: wp_simps stage_simps followed_def intro!: run_calls)

lemma rethrow_followed: "followed s \<Longrightarrow> wp (rethrow_redacted e) (\<lambda>_. followed) (\<lambda>_. followed) s"
  by (auto simp: rethrow_redacted_def wp_simps followed_def stage_is_def intro!: run_calls)

lemma run_body_stage:
  "stage_is Ready s \<Longrightarrow> r_writer s = None \<Longrightarrow> \<not> r_finishStarted s \<Longrightarrow>
   wp (run_body sha J P opts src) (\<lambda>_. followed) (\<lambda>_. followed) s"
  unfolding run_body_def
  by (auto simp: wp_simps safe_stop_followed intro!: start_writer_stage[THEN wp_conseq] read_source_stage[THEN wp_conseq]
      end_run_stage[THEN wp_conseq] cleanup_stage[THEN wp_conseq] rethrow_followed)

lemma followed_start: "r_trace s = [] \<Longrightarrow> followed s" "r_trace s = [Journaled ''assertReady''] \<Longrightarrow> followed s"
  by (simp_all add: followed_def stage_is_def)

lemma run_followed:
  "wp (runReverseEtl sha J P opts src) (\<lambda>_. followed) (\<lambda>_. followed) (initial_state j p store signal)"
  unfolding runReverseEtl_def
  by (auto simp: wp_simps initial_state_def stage_is_def followed_start split: sum.splits
      intro!: run_calls run_body_stage)

lemma run_trace:
  "\<exists>st. follow Idle (r_trace (snd (runReverseEtl sha J P opts src (initial_state j p store signal)))) = Some st"
  using run_followed[of sha J P opts src j p store signal] by (simp add: wp_always followed_def stage_is_def)

subsection \<open>Batches within the limits\<close>

definition entry_ok :: "(string \<Rightarrow> string) \<Rightarrow> run_options \<Rightarrow> action \<Rightarrow> batch_record \<Rightarrow> bool" where
  "entry_ok sha opts act r \<longleftrightarrow>
     hex64 (rec_key r) \<and> lossless (rec_row r) \<and> rec_op r = operation_id sha (ro_scope opts) act (rec_key r) (rec_row r)"

definition batch_within :: "(string \<Rightarrow> string) \<Rightarrow> run_options \<Rightarrow> prepared_batch \<Rightarrow> bool" where
  "batch_within sha opts b \<longleftrightarrow> pb_records b \<noteq> [] \<and> int (length (pb_records b)) \<le> st_batchSize (ro_stream opts)
     \<and> byteLength (json_text (json_of_batch b)) \<le> nat (ro_maxBatchBytes opts)
     \<and> list_all (entry_ok sha opts (pb_action b)) (pb_records b)"

definition batch_bytes :: "batch_record list \<Rightarrow> nat" where
  "batch_bytes rs = sum_list (map entry_size rs) + (length rs - 1)"

lemma byteLength_plain: "list_all (\<lambda>c. 48 \<le> (of_char c :: nat) \<and> of_char c \<noteq> (92 :: nat) \<and> of_char c < (128 :: nat)) t \<Longrightarrow>
    byteLength (quote_string t) = length t + 2"
  by (induction t) (auto simp: quote_string_def escape_char_def Let_def char_bytes_def)

lemma byteLength_hex64: "hex64 t \<Longrightarrow> byteLength (quote_string t) = 66"
  by (subst byteLength_plain) (auto simp: hex64_def hex_char_def list_all_iff Let_def)

text \<open>The cost the loop adds up is exactly the size of the serialized manifest.\<close>

lemma json_array_bytes: "byteLength (json_text (JArr xs)) = 2 + sum_list (map (\<lambda>v. byteLength (json_text v)) xs) + (length xs - 1)"
  by (simp add: byteLength_join comp_def char_bytes_def)

lemma manifest_bytes:
  assumes "hex64 i" and "hex64 p"
  shows "byteLength (json_text (json_of_batch \<lparr>pb_id = i, pb_action = act, pb_records = rs, pb_payloadHash = p, pb_cursor = cur\<rparr>))
    = batch_bytes rs + header_size act cur"
proof -
  have "hex64 zero_hash" by (simp add: hex64_def zero_hash_def hex_char_def list_all_iff Let_def)
  with assms show ?thesis
    unfolding json_of_batch_def header_size_def json_object_bytes
    by (simp add: member_cost_def member_text_def byteLength_hex64 json_array_bytes batch_bytes_def entry_size_def[abs_def] comp_def
        del: json_text.simps(5,6))
qed

text \<open>
  The records journaled so far and the ones gathered for the next batch are numbered without gaps
  from the start of the run, and the gathered ones fit into one batch.
\<close>

definition journaled_upto :: "(string \<Rightarrow> string) \<Rightarrow> run_options \<Rightarrow> int \<Rightarrow> int \<Rightarrow> prepared_batch list \<Rightarrow> bool" where
  "journaled_upto sha opts p0 m bs \<longleftrightarrow> p0 \<le> m \<and> list_all (batch_within sha opts) bs
     \<and> map rec_seq (concat (map pb_records bs)) = [p0 + 1..m]"

definition gathered :: "(string \<Rightarrow> string) \<Rightarrow> run_options \<Rightarrow> int \<Rightarrow> ('j, 'p) run_state \<Rightarrow> bool" where
  "gathered sha opts p0 s \<longleftrightarrow>
     journaled_upto sha opts p0 (rp_seq (r_point s) - int (length (r_batch s))) (journaled_batches (r_trace s))
     \<and> map rec_seq (r_batch s) = [rp_seq (r_point s) - int (length (r_batch s)) + 1..rp_seq (r_point s)]
     \<and> list_all (entry_ok sha opts (r_action s)) (r_batch s)
     \<and> r_bytes s = batch_bytes (r_batch s)
     \<and> int (length (r_batch s)) \<le> st_batchSize (ro_stream opts)
     \<and> (r_batch s \<noteq> [] \<longrightarrow> r_bytes s + header_size (r_action s) (rp_cursor (r_point s)) \<le> nat (ro_maxBatchBytes opts))"

definition log_ok :: "(string \<Rightarrow> string) \<Rightarrow> run_options \<Rightarrow> int \<Rightarrow> prepared_batch list \<Rightarrow> bool" where
  "log_ok sha opts p0 bs \<longleftrightarrow> (\<exists>m. journaled_upto sha opts p0 m bs)"

abbreviation logged :: "(string \<Rightarrow> string) \<Rightarrow> run_options \<Rightarrow> int \<Rightarrow> ('j, 'p) run_state \<Rightarrow> bool" where
  "logged sha opts p0 s \<equiv> log_ok sha opts p0 (journaled_batches (r_trace s))"

lemma log_okI: "journaled_upto sha opts p0 m bs \<Longrightarrow> log_ok sha opts p0 bs"
  by (auto simp: log_ok_def)

lemma gathered_logged: "gathered sha opts p0 s \<Longrightarrow> logged sha opts p0 s"
  by (auto simp: gathered_def intro: log_okI)

lemma batch_seqs: "p0 \<le> m - n \<Longrightarrow> 0 \<le> n \<Longrightarrow> [p0 + 1..m - n] @ [m - n + 1..m] = [p0 + 1..m]"
  for p0 m n :: int
  using upto_split1[of "p0 + 1" "m - n + 1" m] by (cases "n = 0") simp_all

lemma prepared_within:
  assumes "gathered sha opts p0 s" and "r_batch s \<noteq> []" and "\<And>t. hex64 (sha t)"
  shows "batch_within sha opts (prepared_batch_of sha opts s)"
proof -
  have "hex64 (batch_id sha i act rs)" "hex64 (payload_hash sha rs)" for i act rs
    using assms(3) by (simp_all add: batch_id_def payload_hash_def text_hash_def del: json_text.simps)
  then show ?thesis
    using assms by (simp add: batch_within_def prepared_batch_of_def manifest_bytes gathered_def)
qed

lemma prepared_upto:
  assumes "gathered sha opts p0 s" and "r_batch s \<noteq> []" and "\<And>t. hex64 (sha t)"
  shows "journaled_upto sha opts p0 (rp_seq (r_point s)) (journaled_batches (r_trace s) @ [prepared_batch_of sha opts s])"
  using assms prepared_within[OF assms] batch_seqs[of p0 "rp_seq (r_point s)" "int (length (r_batch s))"]
  by (simp add: gathered_def journaled_upto_def prepared_batch_of_def)

lemma deliver_logged:
  "logged sha opts p0 s \<Longrightarrow>
   wp (deliver J P b) (\<lambda>_ t. r_batch t = r_batch s \<and> r_point t = r_point s \<and> journaled_batches (r_trace t) = journaled_batches (r_trace s))
     (\<lambda>_. logged sha opts p0) s"
  by (auto simp: deliver_def wp_simps intro!: run_calls split: sum.splits)

lemma gathered_empty:
  "journaled_upto sha opts p0 (rp_seq (r_point s)) (journaled_batches (r_trace s)) \<Longrightarrow> r_batch s = [] \<Longrightarrow> r_bytes s = 0 \<Longrightarrow>
   1 \<le> st_batchSize (ro_stream opts) \<Longrightarrow> gathered sha opts p0 s"
  by (simp add: gathered_def batch_bytes_def)

lemma flush_gathered:
  assumes "gathered sha opts p0 s" and "\<And>t. hex64 (sha t)" and "1 \<le> st_batchSize (ro_stream opts)"
  shows "wp (flush sha J P opts) (\<lambda>_ t. gathered sha opts p0 t \<and> r_batch t = [] \<and> r_point t = r_point s) (\<lambda>_. logged sha opts p0) s"
proof (cases "r_batch s = []")
  case False
  note upto = prepared_upto[OF assms(1) False assms(2)]
  have logged: "logged sha opts p0 s" using assms(1) by (rule gathered_logged)
  have prepared: "prepared_batch_of sha opts (s\<lparr>r_signal := sig, r_aborted := a\<rparr>) = prepared_batch_of sha opts s" for sig a
    by (simp add: prepared_batch_of_def)
  show ?thesis
    unfolding flush_def using upto log_okI[OF upto] logged assms(3)
    by (auto simp: wp_simps False Let_def prepared
        intro!: run_calls deliver_logged[where sha = sha and opts = opts and ?p0.0 = p0, THEN wp_conseq] gathered_empty)
qed (use assms in \<open>simp add: flush_def wp_simps\<close>)

lemma flush_when_gathered:
  assumes "gathered sha opts p0 s" and "\<And>t. hex64 (sha t)" and "1 \<le> st_batchSize (ro_stream opts)"
  shows "wp (flush_when sha J P opts c) (\<lambda>_ t. gathered sha opts p0 t \<and> r_point t = r_point s \<and> (r_batch t \<noteq> [] \<longrightarrow> t = s \<and> \<not> c s)) (\<lambda>_. logged sha opts p0) s"
  unfolding flush_when_def
  by (auto simp: wp_simps assms(1) intro!: flush_gathered[OF assms, THEN wp_conseq])

lemma batch_bytes_small [simp]: "batch_bytes [] = 0" "batch_bytes [r] = entry_size r"
  by (simp_all add: batch_bytes_def)

lemma batch_bytes_snoc: "batch_bytes (rs @ [r]) = batch_bytes rs + entry_size r + (if rs = [] then 0 else 1)"
  by (cases rs) (simp_all add: batch_bytes_def)

lemma read_entry_Inr:
  "read_entry sha opts r s = Inr (entry, cur) \<Longrightarrow>
   rec_key entry = sr_key r \<and> rec_seq entry = rp_seq (r_point s) + 1 \<and> lossless (rec_row entry)
   \<and> rec_op entry = operation_id sha (ro_scope opts) (record_action r) (sr_key r) (rec_row entry)"
  by (auto simp: read_entry_def run_simps Let_def canonicalJson_eq split: if_splits)

lemma push_gathered:
  assumes "gathered sha opts p0 s" and "r_batch s \<noteq> [] \<longrightarrow> \<not> batch_full opts act (entry_size entry + header_size act cur) s"
    and "int (length (r_batch s)) < st_batchSize (ro_stream opts)"
    and "entry_ok sha opts act entry" and "rec_seq entry = rp_seq (r_point s) + 1"
    and "entry_size entry + header_size act cur \<le> nat (ro_maxBatchBytes opts)"
  shows "gathered sha opts p0 (push_state act entry cur s)"
proof -
  have "[rp_seq (r_point s) - int (length (r_batch s)) + 1..rp_seq (r_point s)] @ [rp_seq (r_point s) + 1]
    = [rp_seq (r_point s) - int (length (r_batch s)) + 1..rp_seq (r_point s) + 1]"
    by (simp add: upto_rec2)
  then show ?thesis
    using assms unfolding gathered_def push_state_def
    by (cases "r_batch s = []") (auto simp: batch_bytes_snoc batch_full_def)
qed

lemma checkpoint_gathered:
  "gathered sha opts p0 s \<Longrightarrow> wp (checkpoint_when_due J opts) (\<lambda>_ t. gathered sha opts p0 t \<and> r_batch t = r_batch s) (\<lambda>_. logged sha opts p0) s"
  by (auto simp: checkpoint_when_due_def wp_simps gathered_def intro!: run_calls intro: log_okI)

definition open_batch :: "(string \<Rightarrow> string) \<Rightarrow> run_options \<Rightarrow> int \<Rightarrow> ('j, 'p) run_state \<Rightarrow> bool" where
  "open_batch sha opts p0 s \<longleftrightarrow> gathered sha opts p0 s \<and> int (length (r_batch s)) < st_batchSize (ro_stream opts)"

lemma open_batch_signal [simp]: "gathered sha opts p0 (s\<lparr>r_signal := sig, r_aborted := a\<rparr>) = gathered sha opts p0 s"
    "open_batch sha opts p0 (s\<lparr>r_signal := sig, r_aborted := a\<rparr>) = open_batch sha opts p0 s"
  by (simp_all add: open_batch_def gathered_def)

lemma add_entry_gathered:
  assumes "open_batch sha opts p0 s" and "\<And>t. hex64 (sha t)"
    and "entry_ok sha opts act entry" and "rec_seq entry = rp_seq (r_point s) + 1"
  shows "wp (add_entry sha J P opts act entry cur) (\<lambda>_. open_batch sha opts p0) (\<lambda>_. logged sha opts p0) s"
proof -
  have B: "1 \<le> st_batchSize (ro_stream opts)" using assms(1) by (simp add: open_batch_def)
  note fl = flush_when_gathered[where ?p0.0 = p0, OF _ assms(2) B]
  have rest: "wp (flush_when sha J P opts (batch_ready opts)) (\<lambda>_. wp (checkpoint_when_due J opts) (\<lambda>_. open_batch sha opts p0)
      (\<lambda>_. logged sha opts p0)) (\<lambda>_. logged sha opts p0) t" if "gathered sha opts p0 t" for t
    by (rule fl[OF that, THEN wp_conseq])
      (use B in \<open>auto simp: open_batch_def batch_ready_def intro!: checkpoint_gathered[THEN wp_conseq]\<close>)
  have "gathered sha opts p0 (push_state act entry cur v)"
    if "gathered sha opts p0 v" "r_point v = r_point s" "entry_size entry + header_size act cur \<le> nat (ro_maxBatchBytes opts)"
      "r_batch v \<noteq> [] \<longrightarrow> v = s \<and> \<not> batch_full opts act (entry_size entry + header_size act cur) s" for v
    using that assms(1,3,4) B by (intro push_gathered) (auto simp: open_batch_def)
  then show ?thesis
    using assms(1) unfolding add_entry_def
    by (auto simp: wp_simps Let_def open_batch_def gathered_logged intro!: fl[THEN wp_conseq] rest)
qed

lemma take_record_gathered:
  assumes "open_batch sha opts p0 s" and "\<And>t. hex64 (sha t)"
  shows "wp (take_record sha J P opts r) (\<lambda>_. open_batch sha opts p0) (\<lambda>_. logged sha opts p0) s"
proof -
  have "logged sha opts p0 s" using assms(1) by (simp add: open_batch_def gathered_logged)
  then show ?thesis
    using assms unfolding take_record_def
    by (auto simp: wp_simps entry_ok_def dest: read_entry_Inr split: sum.splits prod.splits
        intro!: wp_observe_signal add_entry_gathered)
qed

lemma read_source_gathered:
  assumes "open_batch sha opts p0 s" and "\<And>t. hex64 (sha t)"
  shows "wp (read_source sha J P opts src) (\<lambda>_. logged sha opts p0) (\<lambda>_. logged sha opts p0) s"
  using assms(1) unfolding read_source_def
  by (auto simp: wp_simps open_batch_def gathered_logged split: sum.splits
      intro!: wp_for[where I = "open_batch sha opts p0", THEN wp_conseq] take_record_gathered assms(2)
        flush_gathered[where ?p0.0 = p0, THEN wp_conseq])

text \<open>Nothing else journals a batch.\<close>

lemma end_run_logged:
  "logged sha opts p0 s \<Longrightarrow> wp (end_run J P opts) (\<lambda>_. logged sha opts p0) (\<lambda>_. logged sha opts p0) s"
  unfolding end_run_def
  by (auto simp: wp_simps split: sum.splits intro!: run_calls)

lemma stop_logged:
  "logged sha opts p0 s \<Longrightarrow> wp (thenE (cleanup J P) (rethrow_redacted e)) (\<lambda>_. logged sha opts p0) (\<lambda>_. logged sha opts p0) s"
  unfolding cleanup_def rethrow_redacted_def
  by (auto simp: wp_simps intro!: run_calls)

lemma start_writer_gathered:
  "gathered sha opts p0 s \<Longrightarrow> r_batch s = [] \<Longrightarrow>
   wp (start_writer J P opts) (\<lambda>_ t. gathered sha opts p0 t \<and> r_batch t = []) (\<lambda>_. logged sha opts p0) s"
  unfolding start_writer_def
  by (auto simp: wp_simps gathered_def split: sum.splits intro!: run_calls intro: log_okI)

lemma run_body_logged:
  assumes "gathered sha opts p0 s" and "r_batch s = []" and "1 \<le> st_batchSize (ro_stream opts)" and "\<And>t. hex64 (sha t)"
  shows "wp (run_body sha J P opts src) (\<lambda>_. logged sha opts p0) (\<lambda>_. logged sha opts p0) s"
  unfolding run_body_def wp_catch
  using assms stop_logged[unfolded wp_then, of sha opts p0]
  by (auto simp: wp_then open_batch_def gathered_logged intro!: start_writer_gathered[THEN wp_conseq]
      read_source_gathered[where ?p0.0 = p0, THEN wp_conseq] end_run_logged[THEN wp_conseq])

lemma check_options_Inr:
  "check_options opts = Inr u \<Longrightarrow> 1 \<le> st_batchSize (ro_stream opts) \<and> sc_mode (ro_scope opts) = ModeUpsert"
  by (auto simp: check_options_def validateStream_def run_simps split: if_splits)

definition run_batches_ok :: "(string \<Rightarrow> string) \<Rightarrow> run_options \<Rightarrow> prepared_batch list \<Rightarrow> bool" where
  "run_batches_ok sha opts bs \<longleftrightarrow> (\<exists>p0 \<ge> 0. (ro_fullRefresh opts \<longrightarrow> p0 = 0) \<and> log_ok sha opts p0 bs)"

lemma start_point_Inr:
  "start_point opts resume = Inr point \<Longrightarrow> rp_seq point = (if ro_fullRefresh opts \<or> rp_cursor resume = None then 0 else rp_seq resume)"
  by (auto simp: start_point_def run_simps split: if_splits)

lemma run_batches:
  assumes "\<And>t. hex64 (sha t)"
  shows "wp (runReverseEtl sha J P opts src) (\<lambda>_ t. run_batches_ok sha opts (journaled_batches (r_trace t)))
     (\<lambda>_ t. run_batches_ok sha opts (journaled_batches (r_trace t))) (initial_state j p store signal)"
proof -
  have none: "run_batches_ok sha opts []"
    by (auto simp: run_batches_ok_def log_ok_def journaled_upto_def intro!: exI[of _ 0])
  have body: "wp (run_body sha J P opts src) (\<lambda>_ t. run_batches_ok sha opts (journaled_batches (r_trace t)))
     (\<lambda>_ t. run_batches_ok sha opts (journaled_batches (r_trace t))) s"
    if "r_trace s = [Journaled ''assertReady'']" "r_batch s = []" "r_bytes s = 0" "check_options opts = Inr u"
      "start_point opts resume = Inr (r_point s)" "0 \<le> rp_seq resume" for s :: "('a, 'b) run_state" and u resume
  proof -
    have "gathered sha opts (rp_seq (r_point s)) s"
      using that check_options_Inr by (intro gathered_empty) (auto simp: journaled_upto_def)
    then show ?thesis
      using that assms check_options_Inr[OF that(4)] start_point_Inr[OF that(5)]
      by (intro run_body_logged[THEN wp_conseq]) (auto simp: run_batches_ok_def split: if_splits)
  qed
  show ?thesis
    unfolding runReverseEtl_def
    by (auto simp: wp_simps initial_state_def none split: sum.splits intro!: run_calls body)
qed

end
