(* ===== verification/Facade.thy ===== *)
theory Facade
  imports RunnerFacts
begin

text \<open>
  The interface between an attempt and its journal, as locales: a relation between journal states
  that every operation of the journal keeps is kept by every computation an attempt composes of them,
  whatever the signal does and as long as the provider keeps it. The fenced session of
  \<open>artifacts/journal.ts\<close> is an instance, with the phase machine as the relation.
\<close>

subsection \<open>Providers that respect the journal\<close>

definition external_keeps :: "('j \<Rightarrow> 'j \<Rightarrow> bool) \<Rightarrow> ('j, 'p, 'a) external \<Rightarrow> bool" where
  "external_keeps K m \<longleftrightarrow> (\<forall>j0 j p st. K j0 j \<longrightarrow> K j0 (fst (snd (m (j, p, st)))))"

definition provider_keeps :: "('j \<Rightarrow> 'j \<Rightarrow> bool) \<Rightarrow> ('j, 'p) provider \<Rightarrow> bool" where
  "provider_keeps K P \<longleftrightarrow> external_keeps K (p_createWriter P) \<and> external_keeps K (p_init P)
     \<and> (\<forall>b. external_keeps K (p_upsert P b)) \<and> (\<forall>b. external_keeps K (p_remove P b))
     \<and> external_keeps K (p_finish P) \<and> (\<forall>c. external_keeps K (p_abort P c))"

definition hooks_keep :: "('j \<Rightarrow> 'j \<Rightarrow> bool) \<Rightarrow> ('j, 'p) recovery_hooks \<Rightarrow> bool" where
  "hooks_keep K H \<longleftrightarrow> external_keeps K (rh_attachWriter H)
     \<and> (\<forall>f b a r. rh_reconcileBatch H = Some f \<longrightarrow> external_keeps K (f b a r))
     \<and> (\<forall>f r. rh_reconcileFinish H = Some f \<longrightarrow> external_keeps K (f r))
     \<and> (\<forall>f. rh_reconcileInit H = Some f \<longrightarrow> external_keeps K f)
     \<and> (\<forall>f. rh_reconcileAbort H = Some f \<longrightarrow> external_keeps K f)"

subsection \<open>The journal a provider is handed\<close>

locale delivery_journal =
  fixes J :: "('j, 'z) journal_ops_scheme" and K :: "'j \<Rightarrow> 'j \<Rightarrow> bool"
  assumes assertReady_keeps: "K j0 j \<Longrightarrow> K j0 (snd (j_assertReady J j))"
    and prepareInit_keeps: "K j0 j \<Longrightarrow> K j0 (snd (j_prepareInit J st j))"
    and acknowledgeInit_keeps: "K j0 j \<Longrightarrow> K j0 (snd (j_acknowledgeInit J st j))"
    and prepareAbort_keeps: "K j0 j \<Longrightarrow> K j0 (snd (j_prepareAbort J j))"
    and acknowledgeAbort_keeps: "K j0 j \<Longrightarrow> K j0 (snd (j_acknowledgeAbort J j))"
    and prepare_keeps: "K j0 j \<Longrightarrow> K j0 (snd (j_prepare J b st ind j))"
    and acknowledge_keeps: "K j0 j \<Longrightarrow> K j0 (snd (j_acknowledge J i res st j))"
    and markUnknown_keeps: "K j0 j \<Longrightarrow> K j0 (snd (j_markUnknown J i j))"
    and saveProviderState_keeps: "K j0 j \<Longrightarrow> K j0 (snd (j_saveProviderState J st j))"
    and sealExtraction_keeps: "K j0 j \<Longrightarrow> K j0 (snd (j_sealExtraction J n st j))"
    and prepareFinish_keeps: "K j0 j \<Longrightarrow> K j0 (snd (j_prepareFinish J n st j))"
    and acknowledgeFinish_keeps: "K j0 j \<Longrightarrow> K j0 (snd (j_acknowledgeFinish J fin st j))"
    and commitCheckpoint_keeps: "K j0 j \<Longrightarrow> K j0 (snd (j_commitCheckpoint J point st whole j))"
begin

lemmas operation_keeps = assertReady_keeps prepareInit_keeps acknowledgeInit_keeps prepareAbort_keeps acknowledgeAbort_keeps
  prepare_keeps acknowledge_keeps markUnknown_keeps saveProviderState_keeps sealExtraction_keeps prepareFinish_keeps
  acknowledgeFinish_keeps commitCheckpoint_keeps

definition kept :: "('j, 'p, 'q) attempt_scheme \<Rightarrow> ('j, 'p, 'q) attempt_scheme \<Rightarrow> bool" where
  "kept s t \<longleftrightarrow> (\<forall>j0. K j0 (r_journal s) \<longrightarrow> K j0 (r_journal t))"

lemma kept_refl: "kept s s"
  by (simp add: kept_def)

lemma kept_trans: "kept s t \<Longrightarrow> kept t u \<Longrightarrow> kept s u"
  by (simp add: kept_def)

lemma kept_calls:
  "(\<And>j0 j. K j0 j \<Longrightarrow> K j0 (snd (m j))) \<Longrightarrow> frames kept (journal_call ev m)"
  "(\<And>j0 j. K j0 j \<Longrightarrow> K j0 (snd (m j))) \<Longrightarrow> frames kept (journal_read m)"
  by (rule framesI; force simp: journal_call_def journal_read_def kept_def trace_def split: prod.splits sum.splits)+

lemma kept_external: "external_keeps K q \<Longrightarrow> frames kept (provider_call ev q)"
  by (rule framesI, clarsimp simp: provider_call_def kept_def external_keeps_def split: prod.splits) (metis fst_conv snd_conv)

lemma kept_signal: "frames kept signal_aborted" "frames kept observe_signal"
  by (auto simp: frames_def kept_def signal_aborted_def observe_signal_def bindE_def Let_def)

lemma kept_modify: "(\<And>s. r_journal (f s) = r_journal s) \<Longrightarrow> frames kept (modifyE f)"
  by (rule framesI) (auto simp: kept_def)

lemma kept_reads: "frames kept (readE f)" "frames kept snapshot_store" "frames kept (ensureP b msg)"
  "frames kept (set_writer w)" "frames kept (set_unacknowledged b)"
  by (auto simp: frames_def kept_def readE_def snapshot_store_def ensureP_def set_writer_def set_unacknowledged_def)

lemma kept_pair: "(\<And>a b. frames kept (f a b)) \<Longrightarrow> frames kept (case p of (a, b) \<Rightarrow> f a b)"
  by (cases p) simp

lemma kept_loop: "frames kept body \<Longrightarrow> frames kept (loopE n body)"
  by (induction n) (auto intro!: frame.frame_rules[OF frame.intro, of kept, OF kept_refl kept_trans])

lemmas kept_rules = frame.frame_rules [OF frame.intro, of kept, OF kept_refl kept_trans]
  kept_calls kept_external kept_signal kept_modify kept_reads kept_pair kept_loop operation_keeps

end

subsection \<open>The core session\<close>

locale core_journal = delivery_journal J K for J :: "'j core_ops" and K :: "'j \<Rightarrow> 'j \<Rightarrow> bool" +
  assumes state_keeps: "K j0 j \<Longrightarrow> K j0 (snd (k_state J j))"
    and recoveryStatus_keeps: "K j0 j \<Longrightarrow> K j0 (snd (k_recoveryStatus J j))"
    and recoveryPage_keeps: "K j0 j \<Longrightarrow> K j0 (snd (k_recoveryPage J i n j))"
    and recoveryBatch_keeps: "K j0 j \<Longrightarrow> K j0 (snd (k_recoveryBatch J i j))"
    and resetInit_keeps: "K j0 j \<Longrightarrow> K j0 (snd (k_resetInit J i st j))"
    and acknowledgeRecovered_keeps: "K j0 j \<Longrightarrow> K j0 (snd (k_acknowledgeRecovered J i res st j))"
    and acknowledgeRecoveredFinish_keeps: "K j0 j \<Longrightarrow> K j0 (snd (k_acknowledgeRecoveredFinish J fin st j))"
    and finalPoint_keeps: "K j0 j \<Longrightarrow> K j0 (snd (k_finalPoint J n j))"
    and strategy_keeps: "K j0 j \<Longrightarrow> K j0 (snd (k_strategy J j))"
    and start_keeps: "K j0 j \<Longrightarrow> K j0 (snd (k_start J ms native j))"
    and append_keeps: "K j0 j \<Longrightarrow> K j0 (snd (k_append J rows n j))"
    and seal_keeps: "K j0 j \<Longrightarrow> K j0 (snd (k_seal J counts j))"
    and page_keeps: "K j0 j \<Longrightarrow> K j0 (snd (k_page J kind i n j))"
    and status_keeps: "K j0 j \<Longrightarrow> K j0 (snd (k_status J j))"
begin

lemmas core_keeps = state_keeps recoveryStatus_keeps recoveryPage_keeps recoveryBatch_keeps resetInit_keeps
  acknowledgeRecovered_keeps acknowledgeRecoveredFinish_keeps finalPoint_keeps strategy_keeps start_keeps append_keeps
  seal_keeps page_keeps status_keeps

end

subsection \<open>The fenced journal\<close>

lemma tracked_snd:
  assumes "reach.tracked m" and "reach.on_track s0 s"
  shows "reach.on_track s0 (snd (m s))"
proof -
  have "wp m (\<lambda>_. reach.on_track s0) (\<lambda>_. reach.on_track s0) s" using assms by (simp add: reach.tracked_def)
  then show ?thesis by (cases "m s") (auto simp: wp_def split: sum.splits)
qed

lemma reads_tracked: "frames (\<lambda>s t. t = s) m \<Longrightarrow> reach.tracked m"
  by (rule reach.trackedI) (auto intro: wp_reads)

lemma assertReady_tracked: "reach.tracked (assertReady env)"
  by (rule reach.trackedI) (auto simp: assertReady_def track_simps intro!: reach.track_intros)

lemmas facade_tracked = assertReady_tracked prepareInit_tracked acknowledgeInit_tracked prepareAbort_tracked acknowledgeAbort_tracked
  reach.prepare_tracked reach.ack_tracked reach.markUnknown_tracked reach.saveProviderState_tracked sealExtraction_tracked
  prepareFinish_tracked finish_tracked commitCheckpoint_tracked

interpretation facade: delivery_journal "delivery_facade env" reach.on_track for env
  by unfold_locales (simp_all add: delivery_facade_def acknowledge_def acknowledgeFinish_def tracked_snd facade_tracked)

lemma observers_tracked:
  "reach.tracked journal_state" "reach.tracked recoveryStatus" "reach.tracked (recoveryPage i n)" "reach.tracked (recoveryBatch env i)"
  "reach.tracked (finalPoint env k)" "reach.tracked (getE f)" "reach.tracked (snapshot_page kind i n)" "reach.tracked snapshot_status"
proof -
  show "reach.tracked journal_state" "reach.tracked recoveryStatus"
    by (rule reach.trackedI, auto simp: journal_state_def recoveryStatus_def track_simps split: sum.splits option.splits
      intro!: reach.track_intros)+
  show "reach.tracked (recoveryPage i n)" "reach.tracked (getE f)" "reach.tracked snapshot_status"
    by (rule reads_tracked, simp add: frames_def recoveryPage_def thenE_def bindE_def ensure_run snapshot_status_def)+
  show "reach.tracked (recoveryBatch env i)"
    by (rule reach.trackedI) (auto simp: recoveryBatch_def track_simps split: sum.splits intro!: read_intros)
  show "reach.tracked (finalPoint env k)"
    by (rule reach.trackedI) (auto intro!: reach.wp_finalPoint_track)
  show "reach.tracked (snapshot_page kind i n)"
    by (rule reads_tracked)
      (auto simp: frames_def snapshot_page_def thenE_def bindE_def whenE_def ensure_run assertRemovalsAllowed_def split: sum.splits)
qed

interpretation core: core_journal "core_facade env ago" reach.on_track for env ago
proof -
  have facade: "delivery_journal (core_facade env ago) reach.on_track"
    by unfold_locales
      (simp_all add: core_facade_def journal_ops.defs delivery_facade_def acknowledge_def acknowledgeFinish_def tracked_snd facade_tracked)
  show "core_journal (core_facade env ago) reach.on_track"
    by (intro core_journal.intro facade core_journal_axioms.intro)
      (simp_all add: core_facade_def journal_ops.defs acknowledgeRecovered_def acknowledgeRecoveredFinish_def tracked_snd
        facade_tracked observers_tracked resetInit_tracked reach.snapshot_start_tracked reach.snapshot_append_tracked
        reach.snapshot_seal_tracked)
qed

end
