(* ===== verification/RunJournal.thy ===== *)
theory RunJournal
  imports RunFacts Facade
begin

text \<open>
  The upsert run as a client of the journal interface: whatever relation the journal and the provider
  keep, the whole run keeps; on the fenced journal, a run only moves the durable phase along the
  phase machine.
\<close>

context delivery_journal
begin

lemma push_state_journal [simp]: "r_journal (push_state act entry cur s) = r_journal s"
  by (simp add: push_state_def)

lemma flush_kept: "provider_keeps K P \<Longrightarrow> frames kept (flush sha J P opts)"
  unfolding flush_def deliver_def Let_def provider_keeps_def by (intro kept_rules) (auto intro: kept_rules)

lemma take_record_kept: "provider_keeps K P \<Longrightarrow> frames kept (take_record sha J P opts r)"
  unfolding take_record_def add_entry_def flush_when_def checkpoint_when_due_def Let_def
  by (intro kept_rules flush_kept) simp_all

lemma run_kept: "provider_keeps K P \<Longrightarrow> frames kept (runReverseEtl sha J P opts src)"
  unfolding runReverseEtl_def run_body_def start_writer_def read_source_def end_run_def cleanup_def rethrow_redacted_def
  by (intro kept_rules take_record_kept flush_kept) (auto simp: provider_keeps_def)

lemma run_keeps:
  assumes "runReverseEtl sha J P opts src s = (r, t)" and "provider_keeps K P" and "K j0 (r_journal s)"
  shows "K j0 (r_journal t)"
  using framesD[OF run_kept[OF assms(2)] assms(1)] assms(3) by (auto simp: kept_def)

end

text \<open>A run on the fenced journal only moves the durable phase along the machine.\<close>

lemma run_on_track:
  assumes "runReverseEtl sha (delivery_facade env) P opts src s = (r, t)" and "provider_keeps reach.on_track P"
    and "coherent (r_journal s)" and "control (r_journal s) \<noteq> None"
  shows "reach.on_track (r_journal s) (r_journal t)"
  using facade.run_keeps[OF assms(1,2) reach.on_track_refl[OF assms(3,4)]] .

end
