(* ===== verification/Invariant.thy ===== *)
theory Invariant
  imports DeliveryFacts RunJournal
begin

text \<open>
  The invariant of an open session: its index is well-formed, the counts of every batch of its manifest
  fit the batch, and the durable checkpoint lies between the base and the next sequence of the run.
  Every operation keeps it, whether it returns or throws; the runs composed of the operations keep it
  through the interface of the journal.
\<close>

subsection \<open>The invariant\<close>

definition batch_ok :: "batch_head \<Rightarrow> bool" where
  "batch_ok b \<longleftrightarrow> b_first b \<le> b_last b \<and> (case b_status b of
      BAcknowledged \<Rightarrow> int (b_accepted b + b_staged b + b_rejected b) = batch_size b
    | BCancelled \<Rightarrow> b_staged b = 0 \<and> int (b_accepted b + b_rejected b) \<le> batch_size b
    | BUnknown \<Rightarrow> int (b_accepted b + b_staged b + b_rejected b) \<le> batch_size b
    | BPrepared \<Rightarrow> b_accepted b = 0 \<and> b_staged b = 0 \<and> b_rejected b = 0)"

definition row_ok :: "control_row \<Rightarrow> bool" where
  "row_ok c \<longleftrightarrow> c_base c \<le> c_checkpoint c \<and> c_checkpoint c \<le> c_next c"

definition sound :: "session \<Rightarrow> bool" where
  "sound s \<longleftrightarrow> coherent s \<and> index_ok (s_local s) \<and> list_all batch_ok (h_batches (s_head s))
     \<and> (\<exists>c. control s = Some c \<and> row_ok c)"

lemma sound_quiet: "sound s \<Longrightarrow> quiet s t \<Longrightarrow> sound t"
  by (auto simp: sound_def quiet_def)

lemma sound_pending: "sound s \<Longrightarrow> sound (s\<lparr>s_pending := p\<rparr>)"
  by (simp add: sound_def coherent_def control_def)

lemma sound_local: "sound s \<Longrightarrow> index_ok li \<Longrightarrow> sound (s\<lparr>s_local := li\<rparr>)"
  by (simp add: sound_def coherent_def control_def)

lemma row_ok_updates [simp]:
  "row_ok (c\<lparr>c_phase := p\<rparr>) = row_ok c" "row_ok (c\<lparr>c_store := st\<rparr>) = row_ok c" "row_ok (c\<lparr>c_providerState := ps\<rparr>) = row_ok c"
  "row_ok (c\<lparr>c_finishSequence := fs\<rparr>) = row_ok c" "row_ok (c\<lparr>c_finishResult := fr\<rparr>) = row_ok c" "row_ok (c\<lparr>c_detached := d\<rparr>) = row_ok c"
  "row_ok (c\<lparr>c_generation := g\<rparr>) = row_ok c" "row_ok (c\<lparr>c_head := h\<rparr>) = row_ok c"
  by (simp_all add: row_ok_def)

subsection \<open>Rules\<close>

lemma wp_publish_sound:
  assumes "sound s" and "keeps_key changes" and "list_all batch_ok (h_batches h)"
    and "\<And>c. control s = Some c \<Longrightarrow> row_ok c \<Longrightarrow> row_ok (changes c)"
    and "\<And>s'. sound s' \<Longrightarrow> s_head s' = h \<Longrightarrow> s_local s' = s_local s \<Longrightarrow> s_scope s' = s_scope s \<Longrightarrow> Q () s'"
    and "\<And>e s'. sound s' \<Longrightarrow> E e s'"
  shows "wp (publish env h changes cp ex) Q E s"
proof (rule wpI)
  fix a s'
  assume "publish env h changes cp ex s = (Inr a, s')"
  from publish_control[OF this assms(2)] assms(1,3,4) have "sound s'" "s_head s' = h" "s_local s' = s_local s" "s_scope s' = s_scope s"
    by (auto simp: sound_def)
  then show "Q a s'" using assms(5) by simp
next
  fix e s'
  assume run: "publish env h changes cp ex s = (Inl e, s')"
  note i = publish_Inl[OF run assms(2)] and c = publish_cache_Inl[OF run]
  from assms(1) obtain old where old: "control s = Some old" "row_ok old" by (auto simp: sound_def)
  have "\<exists>c. control s' = Some c \<and> row_ok c"
  proof (cases "w_db (s_world s') = w_db (s_world s)")
    case True
    with i old show ?thesis by (auto simp: control_def)
  next
    case False
    with i old obtain hb where
      db: "db_controls (w_db (s_world s')) = db_controls (update_control ((changes old)\<lparr>c_head := Some hb\<rparr>) (w_db (s_world s)))"
      by (auto simp: control_def)
    let ?row = "(changes old)\<lparr>c_head := Some hb\<rparr>"
    have k: "control_key ?row = scope_key (s_scope s)"
      using assms(2) control_of_key[of "s_scope s" _ old] old by (simp add: keeps_key_def control_def control_key_def)
    have "control s' = Some ?row"
      using db control_of_update[OF k, of "w_db (s_world s)"] old control_of_controls i by (metis control_def option.distinct(1))
    with assms(4) old show ?thesis by simp
  qed
  moreover have "coherent s'" using i c assms(1) by (auto simp: sound_def coherent_def)
  ultimately have "sound s'" using i assms(1) by (simp add: sound_def)
  then show "E e s'" by (rule assms(6))
qed

lemma wp_quiet:
  "frames quiet m \<Longrightarrow> sound s \<Longrightarrow> (\<And>a t. sound t \<Longrightarrow> quiet s t \<Longrightarrow> Q a t) \<Longrightarrow> (\<And>e t. sound t \<Longrightarrow> E e t) \<Longrightarrow> wp m Q E s"
  by (rule wpI) (metis framesD sound_quiet)+

lemma wp_current_sound:
  assumes "sound s" and "\<And>c t. sound t \<Longrightarrow> observed s t \<Longrightarrow> control t = Some c \<Longrightarrow> Q c t" and "\<And>e t. sound t \<Longrightarrow> E e t"
  shows "wp current Q E s"
proof (rule wp_current)
  show "Q c t" if "observed s t" "coherent s \<Longrightarrow> control s = Some c" for c t
    using assms(2)[of t c] that sound_quiet[OF assms(1) quiet_observed[OF that(1)]] observed_control[OF that(1)] assms(1)
    by (simp add: sound_def)
  show "E e t" if "observed s t" for e t
    using assms(3) sound_quiet[OF assms(1) quiet_observed[OF that]] by simp
qed

lemma put_json_quiet: "frames quiet (put_json env v)"
  by (rule framesI) (blast dest: put_json_Inr intro: quiet_writes)

lemma saved_quiet: "frames quiet (saved env)"
  by (rule framesI) (blast dest: framesD[OF saved_observed] intro: quiet_observed)

lemma index_effect_ok: "index_ok li \<Longrightarrow> index_effect act sq st at e li = Inr li' \<Longrightarrow> index_ok li'"
  by (auto simp: index_effect_def Let_def run_simps touch_ok apply_update_ok split: if_splits)

lemma index_record_ok: "index_ok li \<Longrightarrow> index_record b act r at re li = Inr li' \<Longrightarrow> index_ok li'"
  by (auto simp: index_record_def Let_def run_simps intro: put_operation_ok
      elim!: foldR_invariant[where P = index_ok] dest: index_effect_ok)

lemma index_batch_ok: "index_ok li \<Longrightarrow> index_batch b bd rc li = Inr li' \<Longrightarrow> index_ok li'"
  by (auto simp: index_batch_def run_simps elim!: foldR_invariant[where P = index_ok] dest: index_record_ok)

lemma wp_index_sound:
  assumes "sound s" and "\<And>t. sound t \<Longrightarrow> Q () t" and "\<And>e t. sound t \<Longrightarrow> E e t"
  shows "wp (index bh bd rc) Q E s"
proof (cases "index_batch bh bd rc (s_local s)")
  case (Inl e)
  with assms(1,3) show ?thesis by (simp add: index_def wp_modifyR)
next
  case (Inr li)
  have "index_ok li" using index_batch_ok[OF _ Inr] assms(1) by (simp add: sound_def)
  with Inr assms show ?thesis by (simp add: index_def wp_modifyR sound_local)
qed

definition keeps_sound :: "(session, 'a) oper \<Rightarrow> bool" where
  "keeps_sound m \<longleftrightarrow> (\<forall>s. sound s \<longrightarrow> wp m (\<lambda>_. sound) (\<lambda>_. sound) s)"

lemma keeps_soundI: "(\<And>s. sound s \<Longrightarrow> wp m (\<lambda>_. sound) (\<lambda>_. sound) s) \<Longrightarrow> keeps_sound m"
  by (simp add: keeps_sound_def)

lemma wp_keeps: "keeps_sound m \<Longrightarrow> sound s \<Longrightarrow> (\<And>a t. sound t \<Longrightarrow> Q a t) \<Longrightarrow> (\<And>e t. sound t \<Longrightarrow> E e t) \<Longrightarrow> wp m Q E s"
  unfolding keeps_sound_def by (blast intro: wp_conseq)

lemmas sound_intros = wp_current_sound wp_publish_sound wp_index_sound wp_quiet[OF put_json_quiet] wp_quiet[OF saved_quiet]

subsection \<open>Operations\<close>

lemma batches_observed: "observed s t \<Longrightarrow> s_head t = s_head s"
  by (simp add: observed_def)

lemma sound_batches: "sound s \<Longrightarrow> list_all batch_ok (h_batches (s_head s))"
  by (simp add: sound_def)

lemma sound_batch: "sound s \<Longrightarrow> b \<in> set (h_batches (s_head s)) \<Longrightarrow> batch_ok b"
  by (simp add: sound_def list_all_iff)

lemma init_sound:
  "keeps_sound (prepareInit env st)" "keeps_sound (acknowledgeInit env st)" "keeps_sound (resetInitAfterReconciliation env r st)"
  "keeps_sound (saveProviderState env st)" "keeps_sound (prepareAbort env)" "keeps_sound (sealExtraction env n st)" "keeps_sound (detach env)"
  "keeps_sound (assertReady env)"
  unfolding prepareInit_def acknowledgeInit_def resetInitAfterReconciliation_def saveProviderState_def prepareAbort_def
    sealExtraction_def detach_def assertReady_def
  by (rule keeps_soundI, auto simp: track_simps sound_batches split: sum.splits intro!: sound_intros)+

text \<open>Heads the operations publish keep the counts of their batches.\<close>

lemma batch_ok_updates:
  "batch_ok b \<Longrightarrow> batch_ok (b\<lparr>b_status := BUnknown\<rparr>)" "batch_ok b \<Longrightarrow> batch_ok (cancel_staged b)"
  by (auto simp: batch_ok_def unresolved_def cancel_staged_def batch_size_def split: batch_status.splits)

lemma batch_ok_prepared: "0 < length (pb_records p) \<Longrightarrow> batch_ok (prepared_head p projected sq r d)"
  by (auto simp: batch_ok_def prepared_head_def Let_def Suc_le_eq)

lemma batch_ok_recorded: "receipt_recorded old bd res bh \<Longrightarrow> batch_ok old \<Longrightarrow> batch_ok bh"
  by (auto simp: receipt_recorded_def batch_ok_def split: batch_status.splits)

lemma replace_batch_ok: "list_all batch_ok (h_batches h) \<Longrightarrow> batch_ok b \<Longrightarrow> list_all batch_ok (h_batches (replace_batch b h))"
  by (auto simp: replace_batch_def list_all_iff)

lemma set_replacement_batches [simp]: "h_batches (set_replacement r h) = h_batches h"
  by (simp add: set_replacement_def)

lemma find_batch_member: "find (\<lambda>b. b_id b = i) (h_batches h) = Some b \<Longrightarrow> b \<in> set (h_batches h) \<and> b_id b = i"
  by (auto dest: find_Some_iff_first)

lemma wp_write_batch_sound:
  assumes "sound s" and "0 < length (pb_records p)" and "control s = Some c" and "c_next c \<le> sq"
  shows "wp (write_batch env p projected sq st) (\<lambda>_. sound) (\<lambda>_. sound) s"
proof -
  have row: "row_ok (d\<lparr>c_next := sq, c_store := Some b\<rparr>)" if "row_ok d" "control t = Some d" "quiet s t" for d b t
    using that assms(3,4) by (auto simp: row_ok_def quiet_def)
  show ?thesis
    unfolding write_batch_def Let_def encode_store_def wp_bind wp_get wp_then wp_result
    by (rule wp_quiet[OF store_batch_quiet assms(1)])
      (use row batch_ok_prepared[OF assms(2)] in \<open>auto split: sum.splits simp: sound_batches intro!: sound_intros\<close>)
qed

lemma prepare_sound: "keeps_sound (prepare env b st ind)"
proof (rule keeps_soundI)
  fix s
  assume "sound s"
  moreover have "wp (write_batch env p (fst ck) (snd ck) st') (\<lambda>_. sound) (\<lambda>_. sound) t"
    if "sound t" "control t = Some c" "check_prepare env sc (s_head t) (s_local t) c ind p = Inr ck" for t c sc p ck st'
    using that check_prepare_Inr[of env sc "s_head t" "s_local t" c ind p "fst ck" "snd ck"]
    by (intro wp_write_batch_sound) (auto simp: batch_checked_def)
  ultimately show "wp (prepare env b st ind) (\<lambda>_. sound) (\<lambda>_. sound) s"
    unfolding prepare_def by (auto simp: track_simps split: sum.splits intro!: sound_intros)
qed

lemma markUnknown_sound: "keeps_sound (markUnknown env i)"
  unfolding markUnknown_def find_batch_def
  by (rule keeps_soundI)
    (auto simp: track_simps list_all_iff split: sum.splits option.splits intro!: sound_intros batch_ok_updates intro: sound_batch)

lemma acknowledgeAbort_sound: "keeps_sound (acknowledgeAbort env)"
  unfolding acknowledgeAbort_def
  by (rule keeps_soundI) (auto simp: track_simps list_all_iff batch_ok_updates sound_def intro!: sound_intros)

lemma prepareFinish_sound: "keeps_sound (prepareFinish env n st)"
  unfolding prepareFinish_def
  by (rule keeps_soundI) (auto simp: track_simps sound_batches split: sum.splits intro!: sound_intros mirror_guards)

lemma wp_write_receipt_sound:
  assumes "sound s" and "\<And>ref. batch_ok (acknowledged_head old bd (rd_result rc) ref)"
  shows "wp (write_receipt env old bd rc st) (\<lambda>_. sound) (\<lambda>_. sound) s"
  using assms(1) unfolding write_receipt_def Let_def
  by (auto simp: track_simps assms(2) replace_batch_ok sound_batches split: sum.splits intro!: sound_intros)

lemma ack_sound: "keeps_sound (ack env i res st reconciled at)"
proof (rule keeps_soundI)
  fix s
  assume s: "sound s"
  have rc: "wp (write_receipt env old bd rc st') (\<lambda>_. sound) (\<lambda>_. sound) t"
    if "sound t" "find (\<lambda>b. b_id b = i) (h_batches (s_head t)) = Some old" "load_data env (s_scope t) (s_world t) old = Inr bd"
      "validateBatchResult (bd_batch bd) v = Inr (rd_result rc)" for t old bd rc v st'
    using that sound_batch[of t old] find_batch_member[OF that(2)] acknowledged_recorded[OF that(4,3)]
    by (intro wp_write_receipt_sound) (auto intro: batch_ok_recorded)
  from s show "wp (ack env i res st reconciled at) (\<lambda>_. sound) (\<lambda>_. sound) s"
    unfolding ack_def find_batch_def data_def
    by (auto simp: track_simps split: sum.splits option.splits intro!: wp_current_sound rc)
qed

lemma commitCheckpoint_sound: "keeps_sound (commitCheckpoint env point st whole)"
proof (rule keeps_soundI)
  fix s
  assume s: "sound s"
  have pub: "wp (publish env (s_head u) (\<lambda>r. r\<lparr>c_checkpoint := n, c_phase := q, c_generation := g, c_store := Some b\<rparr>) cp None)
      (\<lambda>_. sound) (\<lambda>_. sound) u"
    if "sound u" "quiet t u" "control t = Some c" "c_checkpoint c \<le> n" "n \<le> c_next c" for t u c n q g b cp
    by (rule wp_publish_sound[OF that(1)]) (use that sound_batches[OF that(1)] in \<open>auto simp: row_ok_def quiet_def\<close>)
  from s show "wp (commitCheckpoint env point st whole) (\<lambda>_. sound) (\<lambda>_. sound) s"
    unfolding commitCheckpoint_def Let_def track_simps
    by (auto split: sum.splits intro!: wp_current_sound wp_quiet[OF finalPoint_quiet] mirror_guards pub)
qed

lemma resolve_staged_sound: "keeps_sound (resolve_staged env st at b)"
  unfolding resolve_staged_def
  by (rule keeps_soundI) (auto simp: wp_simps split: sum.splits option.splits intro!: wp_keeps[OF ack_sound])

lemma record_finish_sound: "keeps_sound (record_finish env res st at)"
  unfolding record_finish_def
  by (rule keeps_soundI) (auto simp: track_simps sound_batches split: sum.splits intro!: sound_intros)

lemma accept_finish_sound: "keeps_sound (accept_finish env st at)"
proof (rule keeps_soundI)
  fix s
  assume s: "sound s"
  have loop: "wp (forE pending (resolve_staged env st at)) (\<lambda>_. sound) (\<lambda>_. sound) s" for pending
    using s resolve_staged_sound by (intro wp_for) (auto simp: keeps_sound_def)
  show "wp (accept_finish env st at) (\<lambda>_. sound) (\<lambda>_. sound) s"
    unfolding accept_finish_def wp_bind[of "getE _"] wp_get wp_then[of "forE _ _"]
    by (rule wp_conseq[OF loop])
      (auto simp: track_simps sound_batches intro!: sound_intros mirror_guards sound_local applyReplacement_ok,
        auto simp: sound_def)
qed

lemma finish_sound: "keeps_sound (finish env res st reconciled)"
  unfolding finish_def
  by (rule keeps_soundI)
    (auto simp: track_simps split: sum.splits intro!: wp_current_sound wp_keeps[OF record_finish_sound] wp_keeps[OF accept_finish_sound])

lemma sound_index: "sound s \<Longrightarrow> index_ok (s_local s)"
  by (simp add: sound_def)

lemma snapshot_start_sound: "keeps_sound (snapshot_start env ms ago native)"
  unfolding snapshot_start_def Let_def
  by (rule keeps_soundI) (auto simp: track_simps sound_batches split: sum.splits intro!: sound_intros sound_pending)

lemma snapshot_append_sound: "keeps_sound (snapshot_append env rows n)"
proof (rule keeps_soundI)
  fix s
  assume s: "sound s"
  have ap: "wp (modifyR (\<lambda>s. bindR (append_rows projected (s_local s)) (\<lambda>li. Inr (s\<lparr>s_local := li\<rparr>)))) Q (\<lambda>_. sound) t"
    if "sound t" "\<And>u. sound u \<Longrightarrow> Q () u" for projected Q t
    using that append_rows_ok[OF sound_index[OF that(1)], of projected] by (auto simp: wp_modifyR bindR_def sound_local split: sum.splits)
  from s show "wp (snapshot_append env rows n) (\<lambda>_. sound) (\<lambda>_. sound) s"
    unfolding snapshot_append_def append_page_def Let_def
    by (auto simp: wp_bind wp_then wp_result wp_ensure wp_get wp_modify wp_throw wp_option wp_if split: sum.splits option.splits
        intro!: wp_current_sound ap sound_pending)
qed

lemma put_pages_quiet: "frames quiet (put_pages env f pages)"
  unfolding put_pages_def by (intro quiet.frame_rules put_json_quiet)

lemma snapshot_seal_sound: "keeps_sound (snapshot_seal env counts)"
  unfolding snapshot_seal_def Let_def
  by (rule keeps_soundI)
    (auto simp: track_simps sound_batches split: sum.splits option.splits intro!: sound_intros sound_pending wp_quiet[OF put_pages_quiet])

lemma observers_sound:
  "keeps_sound journal_state" "keeps_sound recoveryStatus" "keeps_sound (recoveryPage i n)" "keeps_sound (recoveryBatch env i)"
  "keeps_sound (finalPoint env k)" "keeps_sound (getE f)" "keeps_sound (snapshot_page kind i n)" "keeps_sound snapshot_status"
proof -
  show "keeps_sound journal_state" "keeps_sound recoveryStatus"
    by (rule keeps_soundI, auto simp: journal_state_def recoveryStatus_def track_simps split: sum.splits option.splits
        intro!: sound_intros)+
  show "keeps_sound (recoveryPage i n)" "keeps_sound (getE f)" "keeps_sound snapshot_status" "keeps_sound (recoveryBatch env i)"
    by (rule keeps_soundI, auto simp: recoveryPage_def snapshot_status_def recoveryBatch_def wp_simps split: sum.splits intro!: read_intros)+
  show "keeps_sound (finalPoint env k)" by (rule keeps_soundI) (auto intro!: wp_quiet[OF finalPoint_quiet])
  show "keeps_sound (snapshot_page kind i n)"
    by (rule keeps_soundI) (auto simp: snapshot_page_def assertRemovalsAllowed_def wp_simps split: sum.splits)
qed

subsection \<open>The journal interface\<close>

lemma sound_snd: "keeps_sound m \<Longrightarrow> sound s \<Longrightarrow> sound (snd (m s))"
  by (simp add: keeps_sound_def wp_always)

lemmas operations_sound = init_sound prepare_sound markUnknown_sound acknowledgeAbort_sound prepareFinish_sound ack_sound
  commitCheckpoint_sound finish_sound snapshot_start_sound snapshot_append_sound snapshot_seal_sound observers_sound

interpretation sound_facade: delivery_journal "delivery_facade env" "\<lambda>_. sound" for env
  by unfold_locales (simp_all add: delivery_facade_def acknowledge_def acknowledgeFinish_def sound_snd operations_sound)

interpretation sound_core: core_journal "core_facade env ago" "\<lambda>_. sound" for env ago
proof -
  have facade: "delivery_journal (core_facade env ago) (\<lambda>_. sound)"
    by unfold_locales
      (simp_all add: core_facade_def journal_ops.defs delivery_facade_def acknowledge_def acknowledgeFinish_def sound_snd operations_sound)
  show "core_journal (core_facade env ago) (\<lambda>_. sound)"
    by (intro core_journal.intro facade core_journal_axioms.intro)
      (simp_all add: core_facade_def journal_ops.defs acknowledgeRecovered_def acknowledgeRecoveredFinish_def sound_snd operations_sound)
qed

end
