(* ===== verification/Availability.thy ===== *)
theory Availability
  imports Invariant
begin

text \<open>
  What returns: in a world that serves requests (no fault, no cancellation), storing an artifact
  and publishing a head return, and so does the preparation of a batch that passes its checks. A session that is
  marked broken refuses every operation.
\<close>

definition serving :: "session \<Rightarrow> bool" where
  "serving s \<longleftrightarrow> \<not> s_broken s \<and> \<not> w_aborted (s_world s) \<and> w_faults (s_world s) = [] \<and> bk_faults (w_bucket (s_world s)) = []"

subsection \<open>Artifacts\<close>

definition object_of :: "journal_env \<Rightarrow> run_scope \<Rightarrow> json \<Rightarrow> string \<times> string" where
  "object_of env sc v = (let raw = json_text (versioned v) in
     (cf_prefix (e_store env) @ artifact_key (e_sha env) sc (e_sha env raw), e_gzip env raw))"

definition ref_for :: "journal_env \<Rightarrow> run_scope \<Rightarrow> json \<Rightarrow> artifact_ref" where
  "ref_for env sc v = (let raw = json_text (versioned v) in
     \<lparr>ar_key = artifact_key (e_sha env) sc (e_sha env raw), ar_sha256 = e_sha env raw, ar_bytes = byteLength raw,
      ar_compressedBytes = length (e_gzip env raw)\<rparr>)"

text \<open>The value fits the limits, and its key is free or already holds it.\<close>

definition storable :: "journal_env \<Rightarrow> run_scope \<Rightarrow> json \<Rightarrow> bool" where
  "storable env sc v \<longleftrightarrow> lossless v \<and> byteLength (json_text (versioned v)) \<le> 16000000
     \<and> length (e_gzip env (json_text (versioned v))) \<le> 16000000"

definition key_free :: "journal_env \<Rightarrow> run_scope \<Rightarrow> json \<Rightarrow> bucket \<Rightarrow> bool" where
  "key_free env sc v b \<longleftrightarrow> (case map_of (bk_objects b) (fst (object_of env sc v)) of None \<Rightarrow> True | Some d \<Rightarrow> d = snd (object_of env sc v))"

definition stored_in :: "journal_env \<Rightarrow> run_scope \<Rightarrow> json \<Rightarrow> bucket \<Rightarrow> bucket" where
  "stored_in env sc v b = (if map_of (bk_objects b) (fst (object_of env sc v)) = None
     then b\<lparr>bk_objects := object_of env sc v # bk_objects b\<rparr> else b)"

definition with_stored :: "journal_env \<Rightarrow> json \<Rightarrow> session \<Rightarrow> session" where
  "with_stored env v s = s\<lparr>s_world := (s_world s)\<lparr>w_bucket := stored_in env (s_scope s) v (w_bucket (s_world s))\<rparr>\<rparr>"

lemma cloud_put_returns:
  assumes "bk_faults b = []" and "case map_of (bk_objects b) (cf_prefix c @ key) of None \<Rightarrow> True | Some d \<Rightarrow> d = bytes"
  shows "cloud_put c False key bytes b =
     (Inr (), if map_of (bk_objects b) (cf_prefix c @ key) = None then b\<lparr>bk_objects := (cf_prefix c @ key, bytes) # bk_objects b\<rparr> else b)"
  using assms
  by (auto simp: cloud_put_def gcs_put_def s3_put_def gcs_get_def s3_get_def next_fault_def collect_one split: cloud.splits option.splits)

lemma put_json_returns:
  assumes "serving s" and "storable env (s_scope s) v" and "key_free env (s_scope s) v (w_bucket (s_world s))"
  shows "put_json env v s = (Inr (ref_for env (s_scope s) v), with_stored env v s)"
proof -
  let ?raw = "json_text (versioned v)"
  have raw: "canonicalJson (versioned v) = Inr ?raw"
    using assms(2) by (simp add: storable_def canonicalJson_eq versioned_def)
  have "upload env (artifact_key (e_sha env) (s_scope s) (e_sha env ?raw)) (e_gzip env ?raw) (s_world s)
      = (Inr (), (s_world s)\<lparr>w_bucket := stored_in env (s_scope s) v (w_bucket (s_world s))\<rparr>)"
    using assms(1,3) cloud_put_returns[where c = "e_store env" and b = "w_bucket (s_world s)" and bytes = "e_gzip env ?raw"]
    by (auto simp: upload_def serving_def key_free_def stored_in_def object_of_def Let_def split: option.splits)
  then show ?thesis
    using assms(1,2) raw
    by (simp add: put_json_def put_artifact_def liftW_def bindE_def thenE_def catchE_def throwIfAborted_def serving_def storable_def
        with_stored_def ref_for_def Let_def)
qed

lemma with_stored_fields [simp]:
  "s_scope (with_stored env v s) = s_scope s" "s_head (with_stored env v s) = s_head s" "s_local (with_stored env v s) = s_local s"
  "s_headBytes (with_stored env v s) = s_headBytes s" "control (with_stored env v s) = control s"
  "coherent (with_stored env v s) = coherent s" "serving (with_stored env v s) = serving s"
  by (simp_all add: with_stored_def control_def coherent_def serving_def stored_in_def cached_def)

subsection \<open>Publishing\<close>

definition publishable :: "journal_env \<Rightarrow> artifact_head \<Rightarrow> session \<Rightarrow> bool" where
  "publishable env h s \<longleftrightarrow> serving s \<and> storable env (s_scope s) (json_of_head h)
     \<and> key_free env (s_scope s) (json_of_head h) (w_bucket (s_world s))
     \<and> byteLength (json_text (json_of_ref (ref_for env (s_scope s) (json_of_head h)))) \<le> 65536
     \<and> (case s_headBytes s of None \<Rightarrow> True | Some b \<Rightarrow> (case decodeJson b of Inr _ \<Rightarrow> True | Inl _ \<Rightarrow> False))"

lemma head_bytes_returns:
  assumes "publishable env h s"
  shows "\<exists>hb s1. head_bytes_for env h s = (Inr hb, s1) \<and> (s1 = s \<or> s1 = with_stored env (json_of_head h) s)"
proof -
  let ?ref = "ref_for env (s_scope s) (json_of_head h)"
  have "put_json env (json_of_head h) s = (Inr ?ref, with_stored env (json_of_head h) s)"
    using assms by (simp add: publishable_def put_json_returns)
  moreover have "encodeJson (json_of_ref ?ref) 65536 = Inr (envelope_text (json_text (json_of_ref ?ref)))"
    using assms by (simp add: publishable_def encodeJson_Inr json_of_ref_def)
  ultimately show ?thesis
    using assms by (auto simp: head_bytes_for_def bindE_def publishable_def split: option.splits sum.splits)
qed

lemma publish_work_returns:
  assumes "control_of sc (tx_db t) = Some old" and "c_head old = ob" and "ex = None \<or> ex = Some (c_phase old)" and "keeps_key changes"
  shows "\<exists>t'. publish_work sha sc ob hb changes None ex t = (Inr (), t')"
proof -
  have "control_key ((changes old)\<lparr>c_head := Some hb\<rparr>) = scope_key sc"
    using assms(1,4) control_of_key by (simp add: keeps_key_def control_key_def)
  then show ?thesis
    using assms by (auto simp: publish_work_def lock_control_def invalidate_def selectControl_def control_of_def remember_def bindE_def
        thenE_def ensure_run Let_def split: option.splits)
qed

lemma publish_returns:
  assumes "publishable env h s" and "control s = Some old" and "c_head old = s_headBytes s" and "ex = None \<or> ex = Some (c_phase old)"
    and "keeps_key changes"
  shows "\<exists>s'. publish env h changes None ex s = (Inr (), s')"
proof -
  obtain hb s1 where hb: "head_bytes_for env h s = (Inr hb, s1)" "s1 = s \<or> s1 = with_stored env (json_of_head h) s"
    using head_bytes_returns[OF assms(1)] by blast
  then have s1: "serving s1" "control s1 = Some old" "s_scope s1 = s_scope s" "s_headBytes s1 = s_headBytes s"
    using assms(1,2) by (auto simp: publishable_def)
  let ?work = "publish_work (e_sha env) (s_scope s) (s_headBytes s) hb changes None ex"
  let ?t = "\<lparr>tx_db = w_db (s_world s1), tx_pending = cached (s_scope s) (s_world s1)\<rparr>"
  have "control_of (s_scope s) (tx_db ?t) = Some old" using s1 by (simp add: control_def)
  then obtain t where "?work ?t = (Inr (), t)"
    using publish_work_returns[OF _ assms(3-5), of "s_scope s" ?t] by blast
  then have "\<exists>w. cache_transaction (s_scope s) ?work (s_world s1) = (Inr (), w)"
    using s1(1) by (simp add: cache_transaction_def db_transaction_def take_fault_def serving_def)
  then show ?thesis
    using hb(1) s1 assms(1)
    by (auto simp: publish_def bindE_def thenE_def catchE_def liftW_def throwIfAborted_def publishable_def serving_def)
qed

subsection \<open>Reading the control row\<close>

lemma current_returns:
  assumes "serving s" and "coherent s" and "control s = Some c"
  shows "\<exists>s'. current s = (Inr c, s') \<and> observed s s' \<and> serving s'"
proof -
  have key: "c_run c = sc_logicalRunId (s_scope s)"
    using assms(3) control_of_key by (fastforce simp: control_def control_key_def scope_key_def)
  obtain r s' where run: "current s = (r, s')" by fastforce
  have "r = Inr c \<and> serving s'"
    using run assms key
    by (auto simp: current_def bindE_def thenE_def liftW_def observe_def db_transaction_def take_fault_def selectControl_def serving_def
        coherent_def control_def control_of_def set_cache_def split: option.splits if_splits)
  moreover have "observed s s'" using run wp_current[of s "\<lambda>_. observed s" "\<lambda>_. observed s"] by (auto simp: wp_def split: sum.splits)
  ultimately show ?thesis using run by simp
qed

subsection \<open>Rules for operations that return\<close>

lemma wp_current_live:
  assumes "serving s" and "coherent s" and "control s = Some c"
    and "\<And>t. observed s t \<Longrightarrow> serving t \<Longrightarrow> Q c t"
  shows "wp current Q E s"
  using current_returns[OF assms(1-3)] assms(4) by (auto simp: wp_def)

lemma wp_publish_live:
  assumes "publishable env h s" and "control s = Some old" and "c_head old = s_headBytes s" and "ex = None \<or> ex = Some (c_phase old)"
    and "keeps_key changes" and "\<And>s'. s_local s' = s_local s \<Longrightarrow> Q () s'"
  shows "wp (publish env h changes None ex) Q E s"
  using publish_returns[OF assms(1-5)] publish_control[OF _ assms(5)] assms(6) by (fastforce simp: wp_def)

lemma wp_put_json_live:
  assumes "serving s" and "storable env (s_scope s) v" and "key_free env (s_scope s) v (w_bucket (s_world s))"
    and "Q (ref_for env (s_scope s) v) (with_stored env v s)"
  shows "wp (put_json env v) Q E s"
  using put_json_returns[OF assms(1-3)] assms(4) by (simp add: wp_def)

subsection \<open>Delivery goes on\<close>

text \<open>What the batch adds to the head, and the session after the projection and the batch are stored.\<close>

definition batch_stored :: "journal_env \<Rightarrow> prepared_batch \<Rightarrow> effect list list \<Rightarrow> session \<Rightarrow> session" where
  "batch_stored env p projected s =
     with_stored env (json_of_stored_batch \<lparr>sb_batch = p, sb_effects = Some (ref_for env (s_scope s) (json_of_projection projected))\<rparr>)
       (with_stored env (json_of_projection projected) s)"

definition batch_head_for :: "journal_env \<Rightarrow> run_scope \<Rightarrow> prepared_batch \<Rightarrow> effect list list \<Rightarrow> int \<Rightarrow> batch_head" where
  "batch_head_for env sc p projected sq =
     (let r = ref_for env sc (json_of_projection projected) in
      prepared_head p projected sq (Some r) (ref_for env sc (json_of_stored_batch \<lparr>sb_batch = p, sb_effects = Some r\<rparr>)))"

definition batch_storable :: "journal_env \<Rightarrow> prepared_batch \<Rightarrow> effect list list \<Rightarrow> int \<Rightarrow> session \<Rightarrow> bool" where
  "batch_storable env p projected sq s \<longleftrightarrow>
     (let v = json_of_projection projected; d = json_of_stored_batch \<lparr>sb_batch = p, sb_effects = Some (ref_for env (s_scope s) v)\<rparr> in
      storable env (s_scope s) v \<and> key_free env (s_scope s) v (w_bucket (s_world s))
      \<and> storable env (s_scope s) d \<and> key_free env (s_scope s) d (w_bucket (s_world (with_stored env v s)))
      \<and> publishable env ((s_head s)\<lparr>h_batches := h_batches (s_head s) @ [batch_head_for env (s_scope s) p projected sq]\<rparr>)
          (batch_stored env p projected s))"

lemma observed_stored:
  assumes "observed s t" and "serving t" and "batch_storable env p projected sq s"
  shows "batch_storable env p projected sq t"
  using assms by (auto simp: batch_storable_def observed_def Let_def batch_stored_def with_stored_def publishable_def serving_def)

lemma write_batch_live:
  assumes "serving s" and "batch_storable env p projected sq s" and "sc_mode (s_scope s) = ModeUpsert"
    and "control s = Some c" and "c_head c = s_headBytes s" and "encodeJson st 65536 = Inr bytes"
    and "index_batch (batch_head_for env (s_scope s) p projected sq) \<lparr>bd_batch = p, bd_effects = projected\<rparr> None (s_local s) = Inr li"
  shows "wp (write_batch env p projected sq st) (\<lambda>_ _. True) (\<lambda>_ _. False) s"
proof -
  let ?v = "json_of_projection projected" and ?r = "ref_for env (s_scope s) (json_of_projection projected)"
  let ?d = "json_of_stored_batch \<lparr>sb_batch = p, sb_effects = Some ?r\<rparr>"
  let ?bh = "batch_head_for env (s_scope s) p projected sq" and ?s2 = "batch_stored env p projected s"
  have put: "storable env (s_scope s) ?v" "key_free env (s_scope s) ?v (w_bucket (s_world s))"
    "storable env (s_scope s) ?d" "key_free env (s_scope s) ?d (w_bucket (s_world (with_stored env ?v s)))"
    and pub: "publishable env ((s_head s)\<lparr>h_batches := h_batches (s_head s) @ [?bh]\<rparr>) ?s2"
    using assms(2) by (auto simp: batch_storable_def Let_def)
  have index: "wp (index ?bh \<lparr>bd_batch = p, bd_effects = projected\<rparr> None) (\<lambda>_ _. True) (\<lambda>_ _. False) t" if "s_local t = s_local s" for t
    using that assms(7) by (simp add: index_def wp_modifyR)
  have s2: "?s2 = with_stored env ?d (with_stored env ?v s)" by (simp add: batch_stored_def)
  have "wp (publish env ((s_head s)\<lparr>h_batches := h_batches (s_head s) @ [?bh]\<rparr>) (\<lambda>r. r\<lparr>c_next := sq, c_store := Some bytes\<rparr>) None None)
      (\<lambda>_. wp (index ?bh \<lparr>bd_batch = p, bd_effects = projected\<rparr> None) (\<lambda>_ _. True) (\<lambda>_ _. False)) (\<lambda>_ _. False) ?s2"
    by (rule wp_publish_live[OF pub]) (use assms(4,5) s2 in \<open>auto intro: index\<close>)
  then show ?thesis
    using assms(1,3,6) put s2
    by (auto simp: write_batch_def store_batch_def encode_store_def wp_simps batch_head_for_def Let_def intro!: wp_put_json_live)
qed

lemma prepare_returns:
  assumes "serving s" and "coherent s" and "control s = Some c" and "c_head c = s_headBytes s" and "c_phase c = PRunning"
    and "sc_mode (s_scope s) = ModeUpsert" and "copy_batch b = Inr p" and "copy store = Inr st" and "encodeJson st 65536 = Inr bytes"
    and "check_prepare env (s_scope s) (s_head s) (s_local s) c ind p = Inr (projected, sq)"
    and "batch_storable env p projected sq s"
    and "index_batch (batch_head_for env (s_scope s) p projected sq) \<lparr>bd_batch = p, bd_effects = projected\<rparr> None (s_local s) = Inr li"
  shows "\<exists>s'. prepare env b store ind s = (Inr (), s')"
proof -
  have body: "wp (write_batch env p projected sq st) (\<lambda>_ _. True) (\<lambda>_ _. False) t" if "observed s t" "serving t" for t
    using that(1) assms
    by (intro write_batch_live[where c = c and bytes = bytes and li = li] that(2) observed_stored[OF that assms(11)])
      (auto simp: observed_def control_def)
  have "wp (prepare env b store ind) (\<lambda>_ _. True) (\<lambda>_ _. False) s"
    unfolding prepare_def copyE_def wp_bind wp_result assms(7,8) sum.case
    by (rule wp_current_live[OF assms(1-3)]) (use assms(5,10) body in \<open>auto simp: wp_simps observed_def\<close>)
  then show ?thesis by (auto simp: wp_def split: prod.splits sum.splits)
qed

subsection \<open>A broken session\<close>

text \<open>The operation throws and leaves the session as it is.\<close>

definition refuses :: "(session, 'a) oper \<Rightarrow> session \<Rightarrow> bool" where
  "refuses m s \<longleftrightarrow> (case m s of (Inl _, t) \<Rightarrow> t = s | (Inr _, _) \<Rightarrow> False)"

lemma refuses_wp: "refuses m s = wp m (\<lambda>_ _. False) (\<lambda>_ t. t = s) s"
  by (simp add: refuses_def wp_def split: prod.splits sum.splits)

lemma wp_broken:
  "s_broken s \<Longrightarrow> wp current Q E s = E (PersistenceError ''Artifact session requires reopening after a failed commit'') s"
  "s_broken s \<Longrightarrow> wp (publish env h ch cp ex) Q' E s = E (PersistenceError ''Artifact session requires reopening after a failed commit'') s"
  by (simp_all add: wp_def broken_current broken_publish)

lemma broken_refuses:
  assumes "s_broken s"
  shows "refuses (prepareInit env store) s" "refuses (acknowledgeInit env store) s" "refuses (prepare env b store ind) s"
    "refuses (ack env bid res store reconciled at) s" "refuses (markUnknown env bid) s" "refuses (sealExtraction env n store) s"
    "refuses (prepareFinish env n store) s" "refuses (finish env fin store reconciled) s" "refuses (prepareAbort env) s"
    "refuses (acknowledgeAbort env) s" "refuses (commitCheckpoint env point store whole) s" "refuses (publish env h changes cp ex) s"
  using assms
  by (auto simp: refuses_wp prepareInit_def acknowledgeInit_def prepare_def ack_def markUnknown_def sealExtraction_def prepareFinish_def
      finish_def prepareAbort_def acknowledgeAbort_def commitCheckpoint_def track_simps wp_broken find_batch_def split: sum.splits option.splits)

end
