(* ===== verification/Mirror.thy ===== *)
theory Mirror
  imports Runner
begin

text \<open>
  The full-snapshot lifecycle of \<open>mirror.ts\<close>: extraction into a sealed snapshot, delivery of the
  difference (or of every member, for a native replacement), and the resumption of a sealed snapshot.
  The two page loops run on fuel; the result \<open>None\<close> says that the fuel did not suffice.
\<close>

subsection \<open>Effect envelopes\<close>

definition identity_of_json :: "json \<Rightarrow> identity" where
  "identity_of_json v = \<lparr>id_identity = member v ''identity'', id_upsert = member v ''upsert'', id_remove = member v ''remove''\<rparr>"

text \<open>\<open>{ ...value, identityHash, payloadHash }\<close>.\<close>

fun with_hashes :: "json \<Rightarrow> string \<Rightarrow> string \<Rightarrow> json" where
  "with_hashes (JObj kvs) ih ph = JObj (AList.update ''payloadHash'' (JStr ph) (AList.update ''identityHash'' (JStr ih) kvs))"
| "with_hashes v ih ph = v"

definition projectedEnvelope :: "(string \<Rightarrow> string) \<Rightarrow> json \<Rightarrow> effect result" where
  "projectedEnvelope sha row =
     bindR (effects sha False [identity_of_json row]) (\<lambda>es. let e = hd es in
     bindR (canonicalJson (with_hashes row (ef_identityHash e) (ef_payloadHash e))) (\<lambda>projected.
     bindR (canonicalJson row) (\<lambda>value.
     bindR (ensureR (projected = value) ''Invalid persisted mirror effect'') (\<lambda>_. Inr e))))"

definition mirror_projection :: "(string \<Rightarrow> string) \<Rightarrow> action \<Rightarrow> json \<Rightarrow> identity list result" where
  "mirror_projection sha act row = bindR (projectedEnvelope sha row) (\<lambda>e. Inr [identity.truncate e])"

definition openMirrorPersistence :: "journal_env \<Rightarrow> run_scope \<Rightarrow> (world, session) oper" where
  "openMirrorPersistence env sc =
     thenE (ensure (sc_mode sc = ModeMirror \<and> sc_extraction sc = ExtractFull) ''Snapshot mirror requires full extraction'')
     (openPersistence (env\<lparr>e_projection := mirror_projection (e_sha env)\<rparr>) sc)"

definition mirrorDeliveryBatch :: "(string \<Rightarrow> string) \<Rightarrow> prepared_batch \<Rightarrow> write_batch result" where
  "mirrorDeliveryBatch sha b =
     bindR (mapR (\<lambda>r. bindR (projectedEnvelope sha (rec_row r)) (\<lambda>e.
        Inr (r\<lparr>rec_row := (if pb_action b = Upsert then id_upsert e else id_remove e)\<rparr>))) (pb_records b)) (\<lambda>rs.
     Inr \<lparr>wb_id = pb_id b, wb_records = rs\<rparr>)"

subsection \<open>Options\<close>

datatype target_baseline = NewEmpty | TrackedBaseline | ReplaceBaseline

record mirror_options =
  mo_mirrorSession :: bool
  mo_stream :: stream_metadata
  mo_scope :: run_scope
  mo_asynchronous :: bool
  mo_baseline :: target_baseline
  mo_options :: json
  mo_maxBatchBytes :: int
  mo_limits :: limits
  mo_refreshAfterMs :: "int option"
  mo_rowType :: "json \<Rightarrow> json option"
  mo_project :: "json \<Rightarrow> identity list result"
  mo_mapping :: "(string \<times> string) list"
  mo_sourcePageSize :: "int option"

definition replacement :: "mirror_options \<Rightarrow> bool" where
  "replacement opts \<longleftrightarrow> cap_mirror (st_caps (mo_stream opts)) = NativeReplace"

definition mirror_batch_size :: "mirror_options \<Rightarrow> int" where
  "mirror_batch_size opts = min (st_batchSize (mo_stream opts)) (int (batchRecords (mo_limits opts)))"

definition page_size :: "mirror_options \<Rightarrow> int" where
  "page_size opts = (case mo_sourcePageSize opts of None \<Rightarrow> min 1000 (int (batchRecords (mo_limits opts))) | Some n \<Rightarrow> n)"

definition check_setup :: "mirror_options \<Rightarrow> bool option \<Rightarrow> unit result" where
  "check_setup opts strategy =
     (let caps = st_caps (mo_stream opts) in
      bindR (ensureR (mo_mirrorSession opts) ''Use mirror-bound persistence for snapshot delivery'') (\<lambda>_.
      bindR (ensureR (sc_mode (mo_scope opts) = ModeMirror \<and> sc_extraction (mo_scope opts) = ExtractFull)
         ''Snapshot mirror requires full extraction'') (\<lambda>_.
      bindR (ensureR (if replacement opts then mo_baseline opts = ReplaceBaseline else mo_baseline opts \<noteq> ReplaceBaseline)
         ''Verified target baseline is required'') (\<lambda>_.
      bindR (ensureR (case strategy of None \<Rightarrow> True | Some native \<Rightarrow> native = replacement opts) ''Snapshot strategy changed'') (\<lambda>_.
      bindR (validateStream (mo_stream opts)) (\<lambda>_.
      bindR (ensureR (cap_mirror caps \<noteq> MirrorNone \<and> supportsUpsert caps \<and> supportsExplicitRemove caps
            \<and> st_removeRowType (mo_stream opts) \<noteq> None) ''Snapshot diff requires per-batch acceptance and explicit removal'') (\<lambda>_.
      bindR (ensureR (st_options (mo_stream opts) (mo_options opts) \<noteq> None) ''Invalid mirror options'') (\<lambda>_.
      ensureR (safe_integer (mo_maxBatchBytes opts) \<and> mo_maxBatchBytes opts > 0
         \<and> mo_maxBatchBytes opts \<le> int (batchBytes (mo_limits opts))) ''Invalid mirror batch byte limit''))))))))"

definition setup_mirror :: "'j core_ops \<Rightarrow> mirror_options \<Rightarrow> (('j, 'p, 'z) attempt_scheme, unit) oper" where
  "setup_mirror K opts =
     bindE (journal_read (k_strategy K)) (\<lambda>strategy.
     thenE (resultE (check_setup opts strategy))
     (bindE (journal_read (k_state K)) (\<lambda>state.
      bindE (resultE (createBufferedSyncStore (fst state) 65536)) (\<lambda>store.
      modifyE (\<lambda>s. s\<lparr>r_store := store\<rparr>)))))"

definition same_payload :: "row_type \<Rightarrow> json \<Rightarrow> unit result" where
  "same_payload rt v = (case rt_parse rt v of
      None \<Rightarrow> Inl (PersistenceError ''Invalid projected mirror payload'')
    | Some parsed \<Rightarrow> bindR (canonicalJson parsed) (\<lambda>a. bindR (canonicalJson v) (\<lambda>b.
        ensureR (a = b) ''Invalid projected mirror payload'')))"

definition validatePayloads :: "mirror_options \<Rightarrow> effect \<Rightarrow> unit result" where
  "validatePayloads opts e =
     bindR (same_payload (st_rowType (mo_stream opts)) (id_upsert e)) (\<lambda>_.
     same_payload (the (st_removeRowType (mo_stream opts))) (id_remove e))"

definition validateWriter :: "writer_methods \<Rightarrow> ('s, unit) oper" where
  "validateWriter m = ensure (wm_remove m) ''Incomplete snapshot mirror writer''"

definition hasPending :: "batch_result \<Rightarrow> bool \<Rightarrow> bool result" where
  "hasPending res asynchronous =
     bindR (ensureR (\<not> list_ex is_rejected (br_outcomes res)) ''Destination rejected a row; mirror stopped'') (\<lambda>_.
     let pending = list_ex is_staged (br_outcomes res) in
     bindR (ensureR (\<not> pending \<or> asynchronous) ''Staged mirror batches require reconciliation before planning'') (\<lambda>_.
     bindR (ensureR (\<not> pending \<or> (br_jobs res \<noteq> None \<and> br_jobs res \<noteq> Some [])) ''Asynchronous batches require recoverable remote job IDs'') (\<lambda>_.
     Inr pending)))"

subsection \<open>Errors\<close>

datatype mirror_stage = Initialization | Extraction | Validation | Snapshot | Delivering

fun stage_name :: "mirror_stage \<Rightarrow> string" where
  "stage_name Initialization = ''initialization''"
| "stage_name Extraction = ''extraction''"
| "stage_name Validation = ''validation''"
| "stage_name Snapshot = ''snapshot''"
| "stage_name Delivering = ''delivery''"

fun mirrorFailureHints :: "mirror_stage \<Rightarrow> string" where
  "mirrorFailureHints Initialization =
     ''Check destination authorization. If the problem persists, contact support or your Jitsu administrator.''"
| "mirrorFailureHints Extraction =
     ''Check warehouse connectivity and query timeouts, primary keys and temporary disk capacity (ClickHouse limit: 512 MiB per query). No audience changes were submitted.''"
| "mirrorFailureHints Validation =
     ''Check identifier mappings, consent and primary keys. No audience changes were submitted.''"
| "mirrorFailureHints Snapshot =
     ''Check object storage connectivity and permissions, duplicate keys, conflicting identities and temporary disk capacity. No audience changes were submitted.''"
| "mirrorFailureHints Delivering =
     ''Check destination authorization. Some changes may have been submitted; contact support or your Jitsu administrator before retrying, and do not reset sync state.''"

definition mirror_run_error :: "mirror_stage \<Rightarrow> nat \<Rightarrow> nat \<Rightarrow> exn \<Rightarrow> exn" where
  "mirror_run_error stage readRows savedRows e = MirrorRunError (''Snapshot mirror stopped during '' @ stage_name stage
     @ '' (read '' @ nat_text readRows @ '' rows, saved '' @ nat_text savedRows @ ''). ''
     @ (case reverseEtlFailure e of Some (_, m) \<Rightarrow> m | None \<Rightarrow> mirrorFailureHints stage))"

definition safeError :: "exn option \<Rightarrow> exn" where
  "safeError e = PersistenceError (case Option.bind e reverseEtlFailure of Some (reason, _) \<Rightarrow> reason
     | None \<Rightarrow> ''Snapshot mirror stopped; inspect durable recovery state before retrying'')"

subsection \<open>State of a mirror run\<close>

text \<open>The variables of \<open>runSnapshotMirror\<close> and those of \<open>deliver\<close>; \<open>uncertain\<close> is \<open>r_unacknowledged\<close>.\<close>

record ('j, 'p) mirror_state = "('j, 'p) attempt" +
  mr_stage :: mirror_stage
  mr_readRows :: nat
  mr_savedRows :: nat
  mr_projectedMembers :: nat
  mr_excludedRows :: nat
  mr_page :: "(string \<times> identity list) list"
  mr_pageBytes :: nat
  mr_pageSequence :: int
  mr_sequence :: int
  mr_after :: string
  mr_pending :: bool
  mr_records :: "batch_record list"

definition mirror_start :: "'j \<Rightarrow> 'p \<Rightarrow> bool list \<Rightarrow> ('j, 'p) mirror_state" where
  "mirror_start j p signal = \<lparr>r_journal = j, r_provider = p, r_store = \<lparr>ss_state = [], ss_maxBytes = 65536\<rparr>, r_signal = signal,
     r_aborted = False, r_writer = None, r_unacknowledged = False, r_trace = [],
     mr_stage = Initialization, mr_readRows = 0, mr_savedRows = 0, mr_projectedMembers = 0, mr_excludedRows = 0, mr_page = [],
     mr_pageBytes = 2, mr_pageSequence = 0, mr_sequence = 0, mr_after = [], mr_pending = False, mr_records = []\<rparr>"

definition set_stage :: "mirror_stage \<Rightarrow> (('j, 'p) mirror_state, unit) oper" where
  "set_stage st = modifyE (\<lambda>s. s\<lparr>mr_stage := st\<rparr>)"

text \<open>The callback \<open>onSnapshotProgress\<close> belongs to the caller: it acts on the caller's state.\<close>

datatype snapshot_progress =
    Staging nat
  | SnapshotSealed nat nat nat int

definition report_call :: "(snapshot_progress \<Rightarrow> ('p, unit) oper) \<Rightarrow> snapshot_progress \<Rightarrow> (('j, 'p) mirror_state, unit) oper" where
  "report_call report pr s = (case report pr (r_provider s) of (r, p) \<Rightarrow> (r, s\<lparr>r_provider := p\<rparr>))"

subsection \<open>Extraction\<close>

definition flush_page :: "'j core_ops \<Rightarrow> (snapshot_progress \<Rightarrow> ('p, unit) oper) \<Rightarrow> (('j, 'p) mirror_state, unit) oper" where
  "flush_page K report = bindE (getE mr_page) (\<lambda>page. whenE (page \<noteq> [])
     (thenE (set_stage Snapshot)
     (thenE observe_signal
     (bindE (getE (\<lambda>s. mr_pageSequence s + 1)) (\<lambda>n.
      thenE (modifyE (\<lambda>s. s\<lparr>mr_pageSequence := n\<rparr>))
      (thenE (journal_read (k_append K page n))
      (thenE (modifyE (\<lambda>s. s\<lparr>mr_savedRows := mr_savedRows s + length page, mr_page := [], mr_pageBytes := 2\<rparr>))
      (bindE (getE mr_savedRows) (\<lambda>saved. report_call report (Staging saved))))))))))"

definition mirror_row :: "(string \<Rightarrow> string) \<Rightarrow> mirror_options \<Rightarrow> source_record \<Rightarrow> (string \<times> effect list) result" where
  "mirror_row sha opts r =
     bindR (ensureR (hex64 (sr_key r)) ''Invalid mirror source key'') (\<lambda>_.
     let mapped = JObj (map (\<lambda>(field, column). (field, case map_of (sr_row r) column of None \<Rightarrow> JLossy | Some v \<Rightarrow> v)) (mo_mapping opts)) in
     bindR (case mo_rowType opts mapped of None \<Rightarrow> Inl (PersistenceError ''Source row failed mirror validation'')
        | Some parsed \<Rightarrow> mo_project opts parsed) (\<lambda>ids.
     bindR (effects sha True ids) (\<lambda>projected.
     bindR (mapR (validatePayloads opts) projected) (\<lambda>_.
     Inr (sr_key r, projected)))))"

definition snapshot_row_json :: "string \<times> effect list \<Rightarrow> json" where
  "snapshot_row_json r = JObj [(''key'', JStr (fst r)), (''identities'', JArr (map (\<lambda>e. json_of_identity (identity.truncate e)) (snd r)))]"

definition page_full :: "mirror_options \<Rightarrow> nat \<Rightarrow> ('j, 'p) mirror_state \<Rightarrow> bool" where
  "page_full opts bytes s \<longleftrightarrow> mr_page s \<noteq> [] \<and> (int (length (mr_page s)) = page_size opts
     \<or> mr_pageBytes s + bytes + 1 > batchBytes (mo_limits opts))"

definition push_row :: "string \<times> effect list \<Rightarrow> nat \<Rightarrow> ('j, 'p) mirror_state \<Rightarrow> ('j, 'p) mirror_state" where
  "push_row row bytes s = s\<lparr>mr_pageBytes := mr_pageBytes s + bytes + (if mr_page s = [] then 0 else 1),
     mr_page := mr_page s @ [(fst row, map (\<lambda>e. canon_identity (identity.truncate e)) (snd row))]\<rparr>"

definition take_row ::
    "(string \<Rightarrow> string) \<Rightarrow> 'j core_ops \<Rightarrow> mirror_options \<Rightarrow> (snapshot_progress \<Rightarrow> ('p, unit) oper) \<Rightarrow> source_record
     \<Rightarrow> (('j, 'p) mirror_state, unit) oper" where
  "take_row sha K opts report r =
     thenE (set_stage Validation)
     (thenE (modifyE (\<lambda>s. s\<lparr>mr_readRows := mr_readRows s + 1\<rparr>))
     (thenE observe_signal
     (bindE (resultE (mirror_row sha opts r)) (\<lambda>row.
      thenE (modifyE (\<lambda>s. s\<lparr>mr_projectedMembers := mr_projectedMembers s + length (snd row),
         mr_excludedRows := mr_excludedRows s + (if snd row = [] then 1 else 0)\<rparr>))
      (bindE (resultE (canonicalJson (snapshot_row_json row))) (\<lambda>serialized.
       let bytes = byteLength serialized in
       thenE (ensure (bytes + 2 \<le> batchBytes (mo_limits opts)) ''Snapshot source row exceeds byte budget'')
       (bindE (getE (page_full opts bytes)) (\<lambda>full.
        thenE (whenE full (flush_page K report))
        (thenE (modifyE (push_row row bytes))
        (set_stage Extraction))))))))))"

definition start_mirror_writer :: "'j core_ops \<Rightarrow> ('j, 'p) provider \<Rightarrow> mirror_options \<Rightarrow> (('j, 'p) mirror_state, unit) oper" where
  "start_mirror_writer K P opts =
     thenE observe_signal
     (thenE (journal_call (Journaled ''assertReady'') (j_assertReady K))
     (thenE (journal_read (k_start K (mo_refreshAfterMs opts) (replacement opts)))
     (bindE snapshot_store (\<lambda>st.
      thenE (journal_call (Journaled ''prepareInit'') (j_prepareInit K st))
      (thenE observe_signal
      (thenE (set_unacknowledged True)
      (bindE (provider_call (Called ''createWriter'') (p_createWriter P)) (\<lambda>m.
       thenE (set_writer m)
       (thenE (validateWriter m)
       (thenE (journal_read (k_recoveryStatus K))
       (thenE observe_signal
       (thenE (provider_call (Called ''init'') (p_init P))
       (bindE snapshot_store (\<lambda>st'.
        thenE (journal_call (Journaled ''acknowledgeInit'') (j_acknowledgeInit K st'))
        (set_unacknowledged False)))))))))))))))"

definition extract_source ::
    "(string \<Rightarrow> string) \<Rightarrow> 'j core_ops \<Rightarrow> mirror_options \<Rightarrow> (snapshot_progress \<Rightarrow> ('p, unit) oper)
     \<Rightarrow> source_record list \<times> unit result \<Rightarrow> (('j, 'p) mirror_state, unit) oper" where
  "extract_source sha K opts report src =
     thenE observe_signal
     (thenE (set_stage Extraction)
     (thenE (forE (fst src) (take_row sha K opts report))
     (thenE (resultE (snd src))
     (thenE (flush_page K report)
     (thenE (set_stage Snapshot)
     (thenE observe_signal
     (bindE (getE (\<lambda>s. (mr_projectedMembers s, mr_excludedRows s, mr_savedRows s))) (\<lambda>(projected, excluded, saved).
      bindE (journal_call (Journaled ''seal'') (k_seal K (Some (int projected, int excluded)))) (\<lambda>unique.
      thenE (report_call report (SnapshotSealed saved projected unique (int projected - int unique)))
      (set_stage Delivering))))))))))"

subsection \<open>Delivery\<close>

definition mirror_prepared :: "(string \<Rightarrow> string) \<Rightarrow> mirror_options \<Rightarrow> action \<Rightarrow> batch_record list \<Rightarrow> prepared_batch" where
  "mirror_prepared sha opts act rs = \<lparr>pb_id = batch_id sha (sc_logicalRunId (mo_scope opts)) act rs, pb_action = act,
     pb_records = rs, pb_payloadHash = payload_hash sha rs, pb_cursor = None\<rparr>"

text \<open>A resumed delivery has no cleanup that could look at the flag.\<close>

definition uncertain :: "bool \<Rightarrow> bool \<Rightarrow> (('j, 'p, 'z) attempt_scheme, unit) oper" where
  "uncertain recovered b = (if recovered then returnE () else set_unacknowledged b)"

definition send_batch ::
    "(string \<Rightarrow> string) \<Rightarrow> 'j core_ops \<Rightarrow> ('j, 'p) provider \<Rightarrow> prepared_batch \<Rightarrow> (('j, 'p) mirror_state, batch_result) oper" where
  "send_batch sha K P b = catchE
     (bindE (resultE (mirrorDeliveryBatch sha b)) (\<lambda>wire.
      bindE (provider_call (CalledBatch b) (if pb_action b = Upsert then p_upsert P wire else p_remove P wire)) (\<lambda>raw.
      resultE (validateBatchResult b raw))))
     (\<lambda>_. thenE (journal_call (Journaled ''markUnknown'') (j_markUnknown K (pb_id b))) (throwE (safeError None)))"

definition flush_records ::
    "(string \<Rightarrow> string) \<Rightarrow> 'j core_ops \<Rightarrow> ('j, 'p) provider \<Rightarrow> mirror_options \<Rightarrow> bool \<Rightarrow> action \<Rightarrow> (('j, 'p) mirror_state, unit) oper" where
  "flush_records sha K P opts recovered act = bindE (getE mr_records) (\<lambda>rs. whenE (rs \<noteq> [])
     (let b = mirror_prepared sha opts act rs in
      thenE observe_signal
      (bindE snapshot_store (\<lambda>st.
       thenE (journal_call (JournaledBatch b) (j_prepare K b st False))
       (thenE (uncertain recovered True)
       (thenE observe_signal
       (bindE (send_batch sha K P b) (\<lambda>res.
        bindE snapshot_store (\<lambda>st'.
        thenE (journal_call (Acknowledged (pb_id b))
          (if recovered then k_acknowledgeRecovered K (pb_id b) res st' else j_acknowledge K (pb_id b) res st'))
        (bindE (getE mr_pending) (\<lambda>pending.
         thenE (uncertain recovered (mo_asynchronous opts \<and> (pending \<or> list_ex is_staged (br_outcomes res))))
         (bindE (resultE (hasPending res (mo_asynchronous opts))) (\<lambda>p.
          modifyE (\<lambda>s. s\<lparr>mr_pending := (p \<or> pending), mr_records := []\<rparr>))))))))))))))"

definition effect_record :: "(string \<Rightarrow> string) \<Rightarrow> mirror_options \<Rightarrow> action \<Rightarrow> effect \<Rightarrow> int \<Rightarrow> batch_record result" where
  "effect_record sha opts act e n =
     bindR (validatePayloads opts e) (\<lambda>_.
     bindR (copy (json_of_effect e)) (\<lambda>row.
     Inr \<lparr>rec_key = ef_identityHash e, rec_seq = n, rec_row = row,
       rec_op = operation_id sha (mo_scope opts) act (ef_identityHash e) row\<rparr>))"

definition oversized :: "(string \<Rightarrow> string) \<Rightarrow> mirror_options \<Rightarrow> action \<Rightarrow> batch_record list \<Rightarrow> bool" where
  "oversized sha opts act rs \<longleftrightarrow>
     int (byteLength (json_text (json_of_batch (mirror_prepared sha opts act rs)))) > mo_maxBatchBytes opts"

text \<open>The record is pushed first; it is taken back for the flush when the batch has become too large.\<close>

definition add_effect ::
    "(string \<Rightarrow> string) \<Rightarrow> 'j core_ops \<Rightarrow> ('j, 'p) provider \<Rightarrow> mirror_options \<Rightarrow> bool \<Rightarrow> action \<Rightarrow> effect
     \<Rightarrow> (('j, 'p) mirror_state, unit) oper" where
  "add_effect sha K P opts recovered act e =
     bindE (readE (\<lambda>s. effect_record sha opts act e (mr_sequence s + 1))) (\<lambda>r.
     bindE (getE (\<lambda>s. oversized sha opts act (mr_records s @ [r]))) (\<lambda>over.
     thenE (whenE over (flush_records sha K P opts recovered act))
     (thenE (modifyE (\<lambda>s. s\<lparr>mr_records := mr_records s @ [r]\<rparr>))
     (bindE (getE (\<lambda>s. oversized sha opts act (mr_records s))) (\<lambda>over'.
      thenE (ensure (\<not> over \<or> \<not> over') ''Mirror operation exceeds batch byte limit'')
      (modifyE (\<lambda>s. s\<lparr>mr_sequence := mr_sequence s + 1, mr_after := ef_identityHash e\<rparr>)))))))"

fun kind_action :: "page_kind \<Rightarrow> action" where
  "kind_action Additions = Upsert"
| "kind_action Removals = Remove"

definition deliver_page ::
    "(string \<Rightarrow> string) \<Rightarrow> 'j core_ops \<Rightarrow> ('j, 'p) provider \<Rightarrow> mirror_options \<Rightarrow> bool \<Rightarrow> page_kind \<Rightarrow> (('j, 'p) mirror_state, bool) oper" where
  "deliver_page sha K P opts recovered kind =
     thenE observe_signal
     (bindE (getE mr_after) (\<lambda>after.
      bindE (journal_read (k_page K kind after (min (mirror_batch_size opts) 1000))) (\<lambda>page.
      if page = [] then returnE False
      else
        thenE (modifyE (\<lambda>s. s\<lparr>mr_records := []\<rparr>))
        (thenE (forE page (add_effect sha K P opts recovered (kind_action kind)))
        (thenE (flush_records sha K P opts recovered (kind_action kind))
        (returnE True))))))"

definition finish_mirror ::
    "'j core_ops \<Rightarrow> ('j, 'p) provider \<Rightarrow> bool \<Rightarrow> (('j, 'p) mirror_state, (delivery \<times> int) option) oper" where
  "finish_mirror K P recovered =
     thenE observe_signal
     (bindE (getE mr_sequence) (\<lambda>n. bindE snapshot_store (\<lambda>st.
      thenE (journal_call (Journaled ''prepareFinish'') (j_prepareFinish K n st))
      (thenE (uncertain recovered True)
      (thenE observe_signal
      (bindE (provider_call (Called ''finish'') (p_finish P)) (\<lambda>raw.
       bindE (resultE (validateFinishResult raw)) (\<lambda>res.
       bindE snapshot_store (\<lambda>st'.
       thenE (journal_call (Journaled ''acknowledgeFinish'')
         (if recovered then k_acknowledgeRecoveredFinish K res st' else j_acknowledgeFinish K res st'))
       (thenE (whenE (fr_delivery res = DeliveryAccepted) (bindE snapshot_store (\<lambda>st''.
          journal_call (Journaled ''commitCheckpoint'') (j_commitCheckpoint K \<lparr>rp_seq = n, rp_cursor = None\<rparr> st'' True))))
       (returnE (Some (fr_delivery res, n)))))))))))))"

fun deliver_kinds ::
    "nat \<Rightarrow> (string \<Rightarrow> string) \<Rightarrow> 'j core_ops \<Rightarrow> ('j, 'p) provider \<Rightarrow> mirror_options \<Rightarrow> bool \<Rightarrow> bool \<Rightarrow> page_kind list
     \<Rightarrow> (('j, 'p) mirror_state, (delivery \<times> int) option) oper" where
  "deliver_kinds fuel sha K P opts recovered pendingAdditions [] = finish_mirror K P recovered"
| "deliver_kinds fuel sha K P opts recovered pendingAdditions (kind # kinds) =
     thenE (modifyE (\<lambda>s. s\<lparr>mr_after := [], mr_pending := (kind = Additions \<and> pendingAdditions)\<rparr>))
     (bindE (loopE fuel (deliver_page sha K P opts recovered kind)) (\<lambda>ended.
      if \<not> ended then returnE None
      else
        thenE observe_signal
        (bindE (getE (\<lambda>s. (mr_pending s, mr_sequence s))) (\<lambda>(pending, n).
         if pending then returnE (Some (DeliveryPending, n))
         else deliver_kinds fuel sha K P opts recovered pendingAdditions kinds))))"

definition deliver_mirror ::
    "nat \<Rightarrow> (string \<Rightarrow> string) \<Rightarrow> 'j core_ops \<Rightarrow> ('j, 'p) provider \<Rightarrow> mirror_options \<Rightarrow> bool \<Rightarrow> bool
     \<Rightarrow> (('j, 'p) mirror_state, (delivery \<times> int) option) oper" where
  "deliver_mirror fuel sha K P opts recovered pendingAdditions =
     bindE (journal_read (k_recoveryStatus K)) (\<lambda>status.
     thenE (modifyE (\<lambda>s. s\<lparr>mr_sequence := rs_nextSequence status\<rparr>))
     (deliver_kinds fuel sha K P opts recovered pendingAdditions
       (if replacement opts then [Additions] else [Additions, Removals])))"

subsection \<open>A new run\<close>

definition mirror_cleanup :: "'j core_ops \<Rightarrow> ('j, 'p) provider \<Rightarrow> (('j, 'p) mirror_state, unit) oper" where
  "mirror_cleanup K P = bindE (getE (\<lambda>s. r_writer s \<noteq> None \<and> \<not> r_unacknowledged s)) (\<lambda>safe. whenE safe
     (catchE
       (thenE (journal_call (Journaled ''prepareAbort'') (j_prepareAbort K))
       (bindE signal_aborted (\<lambda>a.
        thenE (provider_call (Called ''abort'') (p_abort P a))
        (journal_call (Journaled ''acknowledgeAbort'') (j_acknowledgeAbort K)))))
       (\<lambda>_. returnE ())))"

definition check_extraction :: "mirror_options \<Rightarrow> unit result" where
  "check_extraction opts =
     bindR (ensureR (safe_integer (page_size opts) \<and> page_size opts > 0 \<and> page_size opts \<le> int (batchRecords (mo_limits opts)))
        ''Invalid snapshot source page size'') (\<lambda>_.
     ensureR (mo_mapping opts \<noteq> [] \<and> list_all (\<lambda>(_, c). c \<noteq> []) (mo_mapping opts)) ''Invalid mirror mapping'')"

definition mirror_body ::
    "nat \<Rightarrow> (string \<Rightarrow> string) \<Rightarrow> 'j core_ops \<Rightarrow> ('j, 'p) provider \<Rightarrow> mirror_options \<Rightarrow> (snapshot_progress \<Rightarrow> ('p, unit) oper)
     \<Rightarrow> source_record list \<times> unit result \<Rightarrow> (('j, 'p) mirror_state, (delivery \<times> int) option) oper" where
  "mirror_body fuel sha K P opts report src =
     catchE
       (thenE (start_mirror_writer K P opts)
       (thenE (extract_source sha K opts report src)
       (deliver_mirror fuel sha K P opts False False)))
       (\<lambda>e. thenE (mirror_cleanup K P)
          (bindE (getE (\<lambda>s. mirror_run_error (mr_stage s) (mr_readRows s) (mr_savedRows s) e)) throwE))"

definition runSnapshotMirror ::
    "nat \<Rightarrow> (string \<Rightarrow> string) \<Rightarrow> 'j core_ops \<Rightarrow> ('j, 'p) provider \<Rightarrow> mirror_options \<Rightarrow> (snapshot_progress \<Rightarrow> ('p, unit) oper)
     \<Rightarrow> source_record list \<times> unit result \<Rightarrow> (('j, 'p) mirror_state, (delivery \<times> int) option) oper" where
  "runSnapshotMirror fuel sha K P opts report src =
     thenE (setup_mirror K opts)
     (thenE (resultE (check_extraction opts))
     (mirror_body fuel sha K P opts report src))"

end
