(* ===== verification/Recovery.thy ===== *)
theory Recovery
  imports Mirror
begin

text \<open>
  The recovery of a run after a crash: \<open>resumeSnapshotMirror\<close> of \<open>mirror.ts\<close> for a sealed snapshot and
  \<open>recoverRun\<close> of \<open>recovery.ts\<close> for everything else. Both read only durable state, ask the callbacks of
  the adapter for what the provider did, and never open the source. Both walk the batches of the journal
  in pages; the walk runs on fuel, and \<open>None\<close> says that the fuel did not suffice.
\<close>

subsection \<open>Resuming a sealed mirror\<close>

definition accepted_finish :: finish_result where
  "accepted_finish = \<lparr>fr_delivery = DeliveryAccepted, fr_jobs = None, fr_checkpoint = None\<rparr>"

definition required_hook :: "'h option \<Rightarrow> string \<Rightarrow> ('h \<Rightarrow> ('s, 'a) oper) \<Rightarrow> ('s, 'a) oper" where
  "required_hook h msg f = (case h of None \<Rightarrow> throwE (PersistenceError msg) | Some x \<Rightarrow> f x)"

text \<open>One batch: everything that is not accepted is reconciled with the provider.\<close>

definition resume_batch ::
    "(string \<Rightarrow> string) \<Rightarrow> 'j core_ops \<Rightarrow> ('j, 'p) recovery_hooks \<Rightarrow> mirror_options \<Rightarrow> string \<Rightarrow> (('j, 'p) mirror_state, unit) oper" where
  "resume_batch sha K H opts bid =
     thenE observe_signal
     (bindE (journal_read (k_recoveryBatch K bid)) (\<lambda>saved.
      thenE (ensure (\<not> list_ex (\<lambda>op. ro_status op = OpRejected) (rb_operations saved)) ''Rejected rows prohibit mirror continuation'')
      (thenE (whenE (list_ex (\<lambda>op. ro_status op \<noteq> OpAccepted) (rb_operations saved))
        (required_hook (rh_reconcileBatch H) ''Uncertain batch requires provider reconciliation'' (\<lambda>f.
         bindE (resultE (mirrorDeliveryBatch sha (rb_batch saved))) (\<lambda>wire.
         bindE (provider_call (Called ''reconcileBatch'') (f wire (pb_action (rb_batch saved)) (rb_result saved))) (\<lambda>raw.
         bindE (resultE (validateBatchResult (rb_batch saved) raw)) (\<lambda>res.
         bindE snapshot_store (\<lambda>st.
         thenE (journal_call (Acknowledged bid) (k_acknowledgeRecovered K bid res st))
         (bindE (resultE (hasPending res (mo_asynchronous opts))) (\<lambda>p.
          modifyE (\<lambda>s. s\<lparr>mr_pending := (p \<or> mr_pending s)\<rparr>))))))))))
      (modifyE (\<lambda>s. s\<lparr>mr_after := bid\<rparr>)))))"

definition resume_page ::
    "(string \<Rightarrow> string) \<Rightarrow> 'j core_ops \<Rightarrow> ('j, 'p) recovery_hooks \<Rightarrow> mirror_options \<Rightarrow> (('j, 'p) mirror_state, bool) oper" where
  "resume_page sha K H opts =
     bindE (getE mr_after) (\<lambda>after.
     bindE (journal_read (k_recoveryPage K after 100)) (\<lambda>page.
     if page = [] then returnE False
     else thenE (forE page (\<lambda>entry. resume_batch sha K H opts (fst entry))) (returnE True)))"

definition finish_phase :: "phase \<Rightarrow> bool" where
  "finish_phase p \<longleftrightarrow> p \<in> {PFinishPrepared, PFinishPending, PFinishResolving, PFinishAccepted}"

definition resume_finish ::
    "'j core_ops \<Rightarrow> ('j, 'p) recovery_hooks \<Rightarrow> recovery_status \<Rightarrow> (('j, 'p) mirror_state, (delivery \<times> int) option) oper" where
  "resume_finish K H status =
     (let p = rs_phase status; n = rs_nextSequence status;
          commit = (thenE (whenE (p \<noteq> PComplete) (bindE snapshot_store (\<lambda>st.
              journal_call (Journaled ''commitCheckpoint'') (j_commitCheckpoint K \<lparr>rp_seq = n, rp_cursor = None\<rparr> st True))))
            (returnE (Some (DeliveryAccepted, n)))) in
      if p = PFinishPrepared \<or> p = PFinishPending then
        required_hook (rh_reconcileFinish H) ''Finalization requires provider reconciliation'' (\<lambda>f.
        bindE (provider_call (Called ''reconcileFinish'') (f (rs_finish status))) (\<lambda>raw.
        bindE (resultE (validateFinishResult raw)) (\<lambda>res.
        bindE snapshot_store (\<lambda>st.
        thenE (journal_call (Journaled ''acknowledgeFinish'') (k_acknowledgeRecoveredFinish K res st))
        (if fr_delivery res = DeliveryPending then returnE (Some (DeliveryPending, n)) else commit)))))
      else if p = PFinishResolving then
        bindE snapshot_store (\<lambda>st.
        thenE (journal_call (Journaled ''acknowledgeFinish'') (k_acknowledgeRecoveredFinish K accepted_finish st)) commit)
      else commit)"

definition resume_delivery ::
    "nat \<Rightarrow> (string \<Rightarrow> string) \<Rightarrow> 'j core_ops \<Rightarrow> ('j, 'p) provider \<Rightarrow> ('j, 'p) recovery_hooks \<Rightarrow> mirror_options \<Rightarrow> recovery_status
     \<Rightarrow> (('j, 'p) mirror_state, (delivery \<times> int) option) oper" where
  "resume_delivery fuel sha K P H opts status =
     thenE (modifyE (\<lambda>s. s\<lparr>mr_after := [], mr_pending := False\<rparr>))
     (bindE (loopE fuel (resume_page sha K H opts)) (\<lambda>ended.
      if \<not> ended then returnE None
      else
        thenE observe_signal
        (bindE (getE mr_pending) (\<lambda>pending.
         bindE (if pending then bindE (journal_read (k_page K Additions [] 1)) (\<lambda>page. returnE (page = [])) else returnE False) (\<lambda>wait.
         if wait then returnE (Some (DeliveryPending, rs_nextSequence status))
         else
           thenE (journal_read (k_recoveryStatus K))
           (bindE (provider_call (Called ''attachWriter'') (rh_attachWriter H)) (\<lambda>m.
            thenE (set_writer m)
            (thenE (validateWriter m)
            (deliver_mirror fuel sha K P opts True pending)))))))))"

definition resumeSnapshotMirror ::
    "nat \<Rightarrow> (string \<Rightarrow> string) \<Rightarrow> 'j core_ops \<Rightarrow> ('j, 'p) provider \<Rightarrow> ('j, 'p) recovery_hooks \<Rightarrow> mirror_options \<Rightarrow> bool
     \<Rightarrow> (('j, 'p) mirror_state, (delivery \<times> int) option) oper" where
  "resumeSnapshotMirror fuel sha K P H opts recovery =
     thenE (setup_mirror K opts)
     (catchE
       (thenE observe_signal
       (thenE (ensure recovery ''Mirror resume requires a recovery session'')
       (bindE (journal_read (k_recoveryStatus K)) (\<lambda>status.
        bindE (journal_read (k_status K)) (\<lambda>sn.
        thenE (ensure (case sn of None \<Rightarrow> False | Some (sealed, _) \<Rightarrow> sealed)
          ''Incomplete source requires reconciled abort and a new full run'')
        (if finish_phase (rs_phase status) \<or> rs_phase status = PComplete then resume_finish K H status
         else
           thenE (ensure (rs_phase status = PRunning) ''Recover provider initialization before mirror delivery'')
           (resume_delivery fuel sha K P H opts status)))))))
       (\<lambda>e. throwE (safeError (Some e))))"

subsection \<open>Recovering any run\<close>

datatype recovery_result = Restart | RecoveredPending | RecoveredAccepted

record ('j, 'p) recovery_state = "('j, 'p) attempt" +
  rv_after :: string
  rv_pending :: bool
  rv_rejected :: bool

definition recovery_start :: "'j \<Rightarrow> 'p \<Rightarrow> sync_store \<Rightarrow> bool list \<Rightarrow> ('j, 'p) recovery_state" where
  "recovery_start j p store signal = \<lparr>r_journal = j, r_provider = p, r_store = store, r_signal = signal, r_aborted = False,
     r_writer = None, r_unacknowledged = False, r_trace = [], rv_after = [], rv_pending = False, rv_rejected = False\<rparr>"

definition unsettled :: "op_status \<Rightarrow> bool" where
  "unsettled st \<longleftrightarrow> st = OpPrepared \<or> st = OpUnknown \<or> st = OpStaged"

definition hook :: "('h \<Rightarrow> 'x option) \<Rightarrow> 'h option \<Rightarrow> 'x option" where
  "hook f hooks = Option.bind hooks f"

definition wire_batch :: "(string \<Rightarrow> string) \<Rightarrow> run_scope \<Rightarrow> prepared_batch \<Rightarrow> write_batch result" where
  "wire_batch sha sc b = (if sc_mode sc = ModeMirror then mirrorDeliveryBatch sha b else Inr (write_batch_of b))"

definition recover_batch ::
    "(string \<Rightarrow> string) \<Rightarrow> 'j core_ops \<Rightarrow> ('j, 'p) recovery_hooks option \<Rightarrow> run_scope \<Rightarrow> string \<Rightarrow> (('j, 'p) recovery_state, unit) oper" where
  "recover_batch sha K hooks sc bid =
     thenE observe_signal
     (bindE (journal_read (k_recoveryBatch K bid)) (\<lambda>saved.
      thenE (modifyE (\<lambda>s. s\<lparr>rv_rejected := (rv_rejected s \<or> list_ex (\<lambda>op. ro_status op = OpRejected) (rb_operations saved))\<rparr>))
      (thenE (whenE (list_ex (\<lambda>op. unsettled (ro_status op)) (rb_operations saved))
        (required_hook (hook rh_reconcileBatch hooks) ''Batch requires provider reconciliation'' (\<lambda>f.
         bindE (resultE (wire_batch sha sc (rb_batch saved))) (\<lambda>wire.
         bindE (provider_call (Called ''reconcileBatch'') (f wire (pb_action (rb_batch saved)) (rb_result saved))) (\<lambda>raw.
         bindE (resultE (validateBatchResult (rb_batch saved) raw)) (\<lambda>res.
         bindE snapshot_store (\<lambda>st.
         thenE (journal_call (Acknowledged bid) (k_acknowledgeRecovered K bid res st))
         (thenE (modifyE (\<lambda>s. s\<lparr>rv_pending := (rv_pending s \<or> list_ex is_staged (br_outcomes res))\<rparr>))
         (ensure (\<not> list_ex is_rejected (br_outcomes res)) ''Destination rejected a row'')))))))))
      (modifyE (\<lambda>s. s\<lparr>rv_after := bid\<rparr>)))))"

definition recover_page ::
    "(string \<Rightarrow> string) \<Rightarrow> 'j core_ops \<Rightarrow> ('j, 'p) recovery_hooks option \<Rightarrow> run_scope \<Rightarrow> (('j, 'p) recovery_state, bool) oper" where
  "recover_page sha K hooks sc =
     bindE (getE rv_after) (\<lambda>after.
     bindE (journal_read (k_recoveryPage K after 100)) (\<lambda>page.
     if page = [] then returnE False
     else thenE (forE page (\<lambda>entry. recover_batch sha K hooks sc (fst entry))) (returnE True)))"

definition commit_recovered :: "'j core_ops \<Rightarrow> int \<Rightarrow> (('j, 'p) recovery_state, recovery_result option) oper" where
  "commit_recovered K n =
     bindE (journal_read (k_finalPoint K n)) (\<lambda>point. bindE snapshot_store (\<lambda>st.
     thenE (journal_call (Journaled ''commitCheckpoint'') (j_commitCheckpoint K point st True))
     (returnE (Some RecoveredAccepted))))"

definition recover_finish ::
    "'j core_ops \<Rightarrow> ('j, 'p) recovery_hooks option \<Rightarrow> recovery_status \<Rightarrow> (('j, 'p) recovery_state, recovery_result option) oper" where
  "recover_finish K hooks status =
     (if rs_phase status = PFinishPrepared \<or> rs_phase status = PFinishPending then
        required_hook (hook rh_reconcileFinish hooks) ''Finalization requires provider reconciliation'' (\<lambda>f.
        bindE (provider_call (Called ''reconcileFinish'') (f (rs_finish status))) (\<lambda>raw.
        bindE (resultE (validateFinishResult raw)) (\<lambda>res.
        bindE snapshot_store (\<lambda>st.
        thenE (journal_call (Journaled ''acknowledgeFinish'') (k_acknowledgeRecoveredFinish K res st))
        (if fr_delivery res = DeliveryPending then returnE (Some RecoveredPending)
         else commit_recovered K (rs_nextSequence status))))))
      else
        thenE (whenE (rs_phase status = PFinishResolving) (bindE snapshot_store (\<lambda>st.
          journal_call (Journaled ''acknowledgeFinish'') (k_acknowledgeRecoveredFinish K accepted_finish st))))
        (commit_recovered K (rs_nextSequence status)))"

text \<open>Every batch of a completed extraction is settled and none is rejected: the writer is attached for its finish.\<close>

definition finish_recovered ::
    "'j core_ops \<Rightarrow> ('j, 'p) provider \<Rightarrow> ('j, 'p) recovery_hooks option \<Rightarrow> recovery_status
     \<Rightarrow> (('j, 'p) recovery_state, recovery_result option) oper" where
  "finish_recovered K P hooks status =
     required_hook hooks ''Finalization requires provider attachment'' (\<lambda>H.
     thenE observe_signal
     (bindE (provider_call (Called ''attachWriter'') (rh_attachWriter H)) (\<lambda>m.
      thenE (set_writer m)
      (bindE snapshot_store (\<lambda>st.
       thenE (journal_call (Journaled ''prepareFinish'') (j_prepareFinish K (rs_nextSequence status) st))
       (thenE observe_signal
       (bindE (provider_call (Called ''finish'') (p_finish P)) (\<lambda>raw.
        bindE (resultE (validateFinishResult raw)) (\<lambda>res.
        bindE snapshot_store (\<lambda>st'.
        thenE (journal_call (Journaled ''acknowledgeFinish'') (k_acknowledgeRecoveredFinish K res st'))
        (if fr_delivery res = DeliveryPending then returnE (Some RecoveredPending)
         else commit_recovered K (rs_nextSequence status))))))))))))"

definition recover_cleanup ::
    "'j core_ops \<Rightarrow> ('j, 'p) recovery_hooks option \<Rightarrow> (('j, 'p) recovery_state, recovery_result option) oper" where
  "recover_cleanup K hooks =
     required_hook (hook rh_reconcileAbort hooks) ''Cleanup requires provider reconciliation'' (\<lambda>f.
     thenE observe_signal
     (thenE (journal_read (k_recoveryStatus K))
     (thenE (provider_call (Called ''reconcileAbort'') f)
     (thenE (journal_call (Journaled ''acknowledgeAbort'') (j_acknowledgeAbort K))
     (returnE (Some Restart))))))"

definition recover_batches ::
    "nat \<Rightarrow> (string \<Rightarrow> string) \<Rightarrow> 'j core_ops \<Rightarrow> ('j, 'p) provider \<Rightarrow> ('j, 'p) recovery_hooks option \<Rightarrow> run_scope \<Rightarrow> bool
     \<Rightarrow> recovery_status \<Rightarrow> (('j, 'p) recovery_state, recovery_result option) oper" where
  "recover_batches fuel sha K P hooks sc independent status =
     bindE (loopE fuel (recover_page sha K hooks sc)) (\<lambda>ended.
     if \<not> ended then returnE None
     else bindE (getE (\<lambda>s. (rv_pending s, rv_rejected s))) (\<lambda>(pending, rejected).
       if pending \<and> (independent \<or> rs_phase status = PBatchesPending) then returnE (Some RecoveredPending)
       else if rs_phase status = PBatchesPending \<and> \<not> rejected then finish_recovered K P hooks status
       else required_hook (hook rh_reconcileAbort hooks) ''Incomplete extraction requires verified cleanup'' (\<lambda>_.
         thenE (journal_call (Journaled ''prepareAbort'') (j_prepareAbort K)) (recover_cleanup K hooks))))"

definition recoverRun ::
    "nat \<Rightarrow> (string \<Rightarrow> string) \<Rightarrow> 'j core_ops \<Rightarrow> ('j, 'p) provider \<Rightarrow> ('j, 'p) recovery_hooks option \<Rightarrow> run_scope \<Rightarrow> bool
     \<Rightarrow> (('j, 'p) recovery_state, recovery_result option) oper" where
  "recoverRun fuel sha K P hooks sc independent =
     bindE (journal_read (k_recoveryStatus K)) (\<lambda>status.
     if rs_phase status = PInitPrepared then
       required_hook (hook rh_reconcileInit hooks) ''Initialization requires provider reconciliation'' (\<lambda>f.
       bindE (provider_call (Called ''reconcileInit'') f) (\<lambda>resolution.
       bindE snapshot_store (\<lambda>st.
       thenE (journal_call (Journaled ''resetInit'') (k_resetInit K resolution st))
       (returnE (Some Restart)))))
     else if finish_phase (rs_phase status) then recover_finish K hooks status
     else
       thenE (ensure (rs_phase status = PRunning \<or> rs_phase status = PBatchesPending \<or> rs_phase status = PAbortPrepared)
         ''Unsupported recovery phase'')
       (if rs_phase status = PAbortPrepared then recover_cleanup K hooks
        else recover_batches fuel sha K P hooks sc independent status))"

end
