(* ===== verification/MirrorFacts.thy ===== *)
theory MirrorFacts
  imports Mirror RunnerFacts
begin

text \<open>
  What \<open>runSnapshotMirror\<close> promises about the calls that cross its two interfaces: nothing is sent before the
  snapshot is sealed, every batch is journaled directly before it is sent, no addition follows a
  removal, and cleanup only starts where no call is left unacknowledged.
\<close>

subsection \<open>The protocol of a mirror run\<close>

datatype delivery_stage =
    MIdle | MReady | MInitPrepared | MCreated | MInitCalled | MExtracting | MDelivering action
  | MPrepared prepared_batch | MSent prepared_batch | MUncertain
  | MFinishPrepared | MFinishCalled | MFinishAcknowledged | MCommitted | MAbortPrepared | MAbortCalled | MAbortDone

fun mirror_journaled :: "delivery_stage \<Rightarrow> string \<Rightarrow> delivery_stage option" where
  "mirror_journaled MIdle op = (if op = ''assertReady'' then Some MReady else None)"
| "mirror_journaled MReady op = (if op = ''prepareInit'' then Some MInitPrepared else None)"
| "mirror_journaled MInitCalled op = (if op = ''acknowledgeInit'' then Some MExtracting else None)"
| "mirror_journaled MExtracting op = (if op = ''seal'' then Some (MDelivering Upsert)
     else if op = ''prepareAbort'' then Some MAbortPrepared else None)"
| "mirror_journaled (MDelivering a) op = (if op = ''prepareFinish'' then Some MFinishPrepared
     else if op = ''prepareAbort'' then Some MAbortPrepared else None)"
| "mirror_journaled (MPrepared b) op = (if op = ''markUnknown'' then Some MUncertain else None)"
| "mirror_journaled (MSent b) op = (if op = ''markUnknown'' then Some MUncertain else None)"
| "mirror_journaled MFinishCalled op = (if op = ''acknowledgeFinish'' then Some MFinishAcknowledged else None)"
| "mirror_journaled MFinishAcknowledged op = (if op = ''commitCheckpoint'' then Some MCommitted else None)"
| "mirror_journaled MAbortCalled op = (if op = ''acknowledgeAbort'' then Some MAbortDone else None)"
| "mirror_journaled _ op = None"

fun mirror_called :: "delivery_stage \<Rightarrow> string \<Rightarrow> delivery_stage option" where
  "mirror_called MInitPrepared op = (if op = ''createWriter'' then Some MCreated else None)"
| "mirror_called MCreated op = (if op = ''init'' then Some MInitCalled else None)"
| "mirror_called MFinishPrepared op = (if op = ''finish'' then Some MFinishCalled else None)"
| "mirror_called MAbortPrepared op = (if op = ''abort'' then Some MAbortCalled else None)"
| "mirror_called _ op = None"

text \<open>Removals may follow additions, not the other way round.\<close>

fun may_follow :: "action \<Rightarrow> action \<Rightarrow> bool" where
  "may_follow Upsert act = True"
| "may_follow Remove act = (act = Remove)"

fun mirror_next :: "delivery_stage \<Rightarrow> event \<Rightarrow> delivery_stage option" where
  "mirror_next st (Journaled op) = mirror_journaled st op"
| "mirror_next st (Called op) = mirror_called st op"
| "mirror_next (MDelivering a) (JournaledBatch b) = (if may_follow a (pb_action b) then Some (MPrepared b) else None)"
| "mirror_next (MPrepared b) (CalledBatch b') = (if b' = b then Some (MSent b) else None)"
| "mirror_next (MSent b) (Acknowledged i) = (if i = pb_id b then Some (MDelivering (pb_action b)) else None)"
| "mirror_next _ _ = None"

fun mirror_follow :: "delivery_stage \<Rightarrow> event list \<Rightarrow> delivery_stage option" where
  "mirror_follow st [] = Some st"
| "mirror_follow st (ev # evs) = Option.bind (mirror_next st ev) (\<lambda>st'. mirror_follow st' evs)"

lemma mirror_follow_append:
  "mirror_follow st (evs @ evs') = Option.bind (mirror_follow st evs) (\<lambda>st'. mirror_follow st' evs')"
  by (induction evs arbitrary: st) (auto split: option.splits bind_splits)

subsection \<open>What the protocol implies\<close>

fun sent_batches :: "event list \<Rightarrow> prepared_batch list" where
  "sent_batches [] = []"
| "sent_batches (CalledBatch b # evs) = b # sent_batches evs"
| "sent_batches (_ # evs) = sent_batches evs"

text \<open>Nothing but removals after the first removal.\<close>

definition removals_last :: "prepared_batch list \<Rightarrow> bool" where
  "removals_last bs \<longleftrightarrow> sorted_wrt (\<lambda>b b'. may_follow (pb_action b) (pb_action b')) bs"

fun sealed_before :: "event list \<Rightarrow> bool" where
  "sealed_before [] = True"
| "sealed_before (ev # evs) = (ev = Journaled ''seal'' \<or> (case ev of CalledBatch b \<Rightarrow> False | _ \<Rightarrow> sealed_before evs))"

lemma may_follow_trans: "may_follow a b \<Longrightarrow> may_follow b c \<Longrightarrow> may_follow a c"
  by (cases a; cases b) auto

lemma may_follow_refl [simp]: "may_follow a a"
  by (cases a) auto

definition delivery_over :: "delivery_stage \<Rightarrow> bool" where
  "delivery_over st \<longleftrightarrow> st \<in> {MUncertain, MFinishPrepared, MFinishCalled, MFinishAcknowledged, MCommitted, MAbortPrepared, MAbortCalled, MAbortDone}"

lemma over_sends_nothing: "mirror_follow st evs = Some st' \<Longrightarrow> delivery_over st \<Longrightarrow> sent_batches evs = []"
proof (induction evs arbitrary: st)
  case (Cons ev evs)
  from Cons.prems show ?case
    by (cases ev) (auto simp: delivery_over_def split: bind_splits if_splits dest: Cons.IH)
qed simp

fun stage_action :: "delivery_stage \<Rightarrow> action option" where
  "stage_action (MDelivering a) = Some a"
| "stage_action (MPrepared b) = Some (pb_action b)"
| "stage_action (MSent b) = Some (pb_action b)"
| "stage_action _ = None"

lemma delivering_sends_in_order:
  "mirror_follow st evs = Some st' \<Longrightarrow> stage_action st = Some a \<Longrightarrow>
     list_all (\<lambda>b. may_follow a (pb_action b)) (sent_batches evs) \<and> removals_last (sent_batches evs)"
proof (induction evs arbitrary: st a)
  case (Cons ev evs)
  then obtain st1 where st1: "mirror_next st ev = Some st1" "mirror_follow st1 evs = Some st'" by (auto split: bind_splits)
  have cont: "list_all (\<lambda>b. may_follow a (pb_action b)) (sent_batches evs) \<and> removals_last (sent_batches evs)"
    if "stage_action st1 = Some a'" "may_follow a a'" for a'
    using Cons.IH[OF st1(2) that(1)] may_follow_trans[OF that(2)] by (auto simp: list_all_iff)
  have fin: "sent_batches evs = []" if "delivery_over st1"
    using over_sends_nothing[OF st1(2) that] .
  show ?case
    using Cons.prems(2) st1(1) cont fin Cons.IH[OF st1(2)]
    by (cases st; cases ev)
      (auto simp: delivery_over_def removals_last_def list_all_iff split: if_splits)
qed (simp add: removals_last_def)

definition before_seal :: "delivery_stage \<Rightarrow> bool" where
  "before_seal st \<longleftrightarrow> st \<in> {MIdle, MReady, MInitPrepared, MCreated, MInitCalled, MExtracting}"

lemma sealed_if_nothing_sent: "sent_batches evs = [] \<Longrightarrow> sealed_before evs"
  by (induction evs rule: sent_batches.induct) auto

lemma mirror_follow_order:
  "mirror_follow st evs = Some st' \<Longrightarrow> before_seal st \<Longrightarrow> sealed_before evs \<and> removals_last (sent_batches evs)"
proof (induction evs arbitrary: st)
  case (Cons ev evs)
  then obtain st1 where st1: "mirror_next st ev = Some st1" "mirror_follow st1 evs = Some st'" by (auto split: bind_splits)
  have fin: "sent_batches evs = []" if "delivery_over st1"
    using over_sends_nothing[OF st1(2) that] .
  show ?case
    using Cons.prems(2) st1(1) Cons.IH[OF st1(2)] fin sealed_if_nothing_sent[of evs] delivering_sends_in_order[OF st1(2)]
    by (cases st; cases ev) (auto simp: before_seal_def delivery_over_def removals_last_def split: if_splits)
qed (simp add: removals_last_def)

lemma mirror_next_sent: "mirror_next st (CalledBatch b) = Some st' \<Longrightarrow> st = MPrepared b"
  by (cases st) (auto split: if_splits)

lemma mirror_next_prepared: "mirror_next st ev = Some (MPrepared b) \<Longrightarrow> ev = JournaledBatch b"
  by (cases "(st, ev)" rule: mirror_next.cases)
    (auto split: if_splits elim!: mirror_journaled.elims mirror_called.elims)

lemma mirror_calls_prepared:
  "mirror_follow st evs = Some st' \<Longrightarrow> (\<And>b. st = MPrepared b \<Longrightarrow> prev = Some (JournaledBatch b)) \<Longrightarrow> calls_prepared prev evs"
proof (induction evs arbitrary: st prev)
  case (Cons ev evs)
  then obtain st1 where st1: "mirror_next st ev = Some st1" "mirror_follow st1 evs = Some st'" by (auto split: bind_splits)
  have "calls_prepared (Some ev) evs"
    by (rule Cons.IH[OF st1(2)]) (use mirror_next_prepared st1(1) in simp)
  moreover have "prev = Some (JournaledBatch b)" if "ev = CalledBatch b" for b
    using Cons.prems(2)[OF mirror_next_sent] st1(1) that by simp
  ultimately show ?case by (auto split: event.splits)
qed simp

subsection \<open>Runs follow the protocol\<close>

definition at_stage :: "delivery_stage \<Rightarrow> ('j, 'p) mirror_state \<Rightarrow> bool" where
  "at_stage st s \<longleftrightarrow> mirror_follow MIdle (r_trace s) = Some st"

definition mirror_abortable :: "delivery_stage \<Rightarrow> bool" where
  "mirror_abortable st \<longleftrightarrow> st = MExtracting \<or> (\<exists>a. st = MDelivering a)"

definition mirror_safe :: "('j, 'p) mirror_state \<Rightarrow> bool" where
  "mirror_safe s \<longleftrightarrow> (\<exists>st. at_stage st s \<and> (r_writer s \<noteq> None \<and> \<not> r_unacknowledged s \<longrightarrow> mirror_abortable st))"

definition delivering :: "action \<Rightarrow> ('j, 'p) mirror_state \<Rightarrow> bool" where
  "delivering act s \<longleftrightarrow> (\<exists>a. at_stage (MDelivering a) s \<and> may_follow a act)"

lemma trace_keeps_mirror [simp]:
  "mr_stage (trace ev s) = mr_stage s" "mr_records (trace ev s) = mr_records s" "mr_pending (trace ev s) = mr_pending s"
  by (simp_all add: trace_def)

lemma wp_mirror_fields [wp_simps]:
  "wp (set_stage st) Q E = (\<lambda>s. Q () (s\<lparr>mr_stage := st\<rparr>))"
  by (simp add: set_stage_def wp_modify)

lemma wp_report_call:
  "(\<And>a p. Q a (s\<lparr>r_provider := p\<rparr>)) \<Longrightarrow> (\<And>e p. E e (s\<lparr>r_provider := p\<rparr>)) \<Longrightarrow> wp (report_call report pr) Q E s"
  by (auto simp: wp_def report_call_def split: prod.splits sum.splits)

lemmas mirror_calls = run_calls wp_report_call
lemmas mirror_stage_simps = mirror_follow_append at_stage_def mirror_safe_def mirror_abortable_def delivering_def uncertain_def validateWriter_def

lemma start_mirror_stage:
  "at_stage MIdle s \<Longrightarrow> r_writer s = None \<Longrightarrow> wp (start_mirror_writer K P opts) (\<lambda>_ s'. at_stage MExtracting s') (\<lambda>_. mirror_safe) s"
  unfolding start_mirror_writer_def
  by (auto simp: wp_simps mirror_stage_simps split: sum.splits intro!: mirror_calls)

lemma flush_page_stage:
  "at_stage MExtracting s \<Longrightarrow> wp (flush_page K report) (\<lambda>_. at_stage MExtracting) (\<lambda>_. mirror_safe) s"
  unfolding flush_page_def by (auto simp: wp_simps mirror_stage_simps intro!: mirror_calls)

lemma extracting_safe: "at_stage MExtracting s \<Longrightarrow> mirror_safe s"
  by (auto simp: mirror_stage_simps)

lemma delivering_safe: "delivering act s \<Longrightarrow> mirror_safe s"
  by (auto simp: mirror_stage_simps)

lemma at_stage_fields [simp]:
  "at_stage st (s\<lparr>mr_stage := x\<rparr>) = at_stage st s" "at_stage st (s\<lparr>r_signal := sig, r_aborted := a\<rparr>) = at_stage st s"
  "at_stage st (s\<lparr>mr_readRows := n\<rparr>) = at_stage st s" "at_stage st (push_row row bytes s) = at_stage st s"
  "at_stage st (s\<lparr>mr_projectedMembers := m\<rparr>) = at_stage st s" "at_stage st (s\<lparr>mr_excludedRows := k\<rparr>) = at_stage st s"
  "at_stage st (s\<lparr>r_signal := sig\<rparr>) = at_stage st s" "at_stage st (s\<lparr>r_aborted := a\<rparr>) = at_stage st s"
  by (simp_all add: at_stage_def push_row_def)

lemma take_row_stage:
  "at_stage MExtracting s \<Longrightarrow> wp (take_row sha K opts report r) (\<lambda>_. at_stage MExtracting) (\<lambda>_. mirror_safe) s"
  unfolding take_row_def Let_def
  by (auto simp: wp_simps extracting_safe split: sum.splits intro!: wp_observe_signal flush_page_stage[THEN wp_conseq])

lemma extract_stage:
  "at_stage MExtracting s \<Longrightarrow> wp (extract_source sha K opts report src) (\<lambda>_. delivering Upsert) (\<lambda>_. mirror_safe) s"
  unfolding extract_source_def
  by (auto simp: wp_simps extracting_safe split: sum.splits
      intro!: wp_observe_signal wp_for[where I = "at_stage MExtracting", THEN wp_conseq] take_row_stage flush_page_stage[THEN wp_conseq]
        mirror_calls)
    (auto simp: mirror_stage_simps)

lemma send_batch_stage:
  "at_stage (MPrepared b) s \<Longrightarrow> r_unacknowledged s \<Longrightarrow>
   wp (send_batch sha K P b) (\<lambda>_ s'. at_stage (MSent b) s' \<and> r_unacknowledged s') (\<lambda>_. mirror_safe) s"
  unfolding send_batch_def by (auto simp: wp_simps mirror_stage_simps split: sum.splits intro!: mirror_calls)

lemma mirror_prepared_action [simp]: "pb_action (mirror_prepared sha opts act rs) = act"
  by (simp add: mirror_prepared_def)

lemma flush_records_stage:
  "delivering act s \<Longrightarrow> wp (flush_records sha K P opts False act) (\<lambda>_. delivering act) (\<lambda>_. mirror_safe) s"
  unfolding flush_records_def Let_def
  by (auto simp: wp_simps mirror_stage_simps split: sum.splits intro!: mirror_calls send_batch_stage[THEN wp_conseq])

lemma delivering_fields [simp]:
  "delivering act (s\<lparr>mr_records := rs\<rparr>) = delivering act s" "delivering act (s\<lparr>mr_sequence := n, mr_after := af\<rparr>) = delivering act s"
  "delivering act (s\<lparr>mr_after := af, mr_pending := p\<rparr>) = delivering act s" "delivering act (s\<lparr>mr_sequence := n\<rparr>) = delivering act s"
  "delivering act (s\<lparr>r_signal := sig, r_aborted := a\<rparr>) = delivering act s" "delivering act (s\<lparr>r_journal := j\<rparr>) = delivering act s"
  by (simp_all add: delivering_def at_stage_def)

lemma add_effect_stage:
  "delivering act s \<Longrightarrow> wp (add_effect sha K P opts False act e) (\<lambda>_. delivering act) (\<lambda>_. mirror_safe) s"
  unfolding add_effect_def
  by (auto simp: wp_simps wp_readE delivering_safe split: sum.splits intro!: flush_records_stage[THEN wp_conseq])

lemma deliver_page_stage:
  "delivering (kind_action kind) s \<Longrightarrow>
   wp (deliver_page sha K P opts False kind) (\<lambda>_. delivering (kind_action kind)) (\<lambda>_. mirror_safe) s"
  unfolding deliver_page_def
  by (auto simp: wp_simps delivering_safe
      intro!: wp_observe_signal wp_journal_read wp_for[where I = "delivering (kind_action kind)", THEN wp_conseq] add_effect_stage
        flush_records_stage[THEN wp_conseq])

lemma finish_mirror_stage:
  "delivering act s \<Longrightarrow> wp (finish_mirror K P False) (\<lambda>_. mirror_safe) (\<lambda>_. mirror_safe) s"
  unfolding finish_mirror_def
  by (auto simp: wp_simps mirror_stage_simps split: sum.splits intro!: mirror_calls)

lemma delivering_remove: "delivering act s \<Longrightarrow> delivering Remove s"
  unfolding delivering_def by (metis action.exhaust may_follow.simps)

lemma deliver_kind_stage:
  assumes "delivering (kind_action kind) s"
    and "\<And>t. delivering (kind_action kind) t \<Longrightarrow> wp (deliver_kinds fuel sha K P opts False pend kinds) (\<lambda>_. mirror_safe) (\<lambda>_. mirror_safe) t"
  shows "wp (deliver_kinds fuel sha K P opts False pend (kind # kinds)) (\<lambda>_. mirror_safe) (\<lambda>_. mirror_safe) s"
  using assms(1)
  by (auto simp: wp_simps delivering_safe split: prod.splits
      intro!: wp_loop[where I = "delivering (kind_action kind)", THEN wp_conseq] deliver_page_stage wp_observe_signal assms(2))

lemma deliver_mirror_stage:
  assumes "delivering Upsert s"
  shows "wp (deliver_mirror fuel sha K P opts False pend) (\<lambda>_. mirror_safe) (\<lambda>_. mirror_safe) s"
proof -
  have fin: "wp (deliver_kinds fuel sha K P opts False pend []) (\<lambda>_. mirror_safe) (\<lambda>_. mirror_safe) t" if "delivering act t" for act t
    using finish_mirror_stage[OF that] by simp
  have removals: "wp (deliver_kinds fuel sha K P opts False pend [Removals]) (\<lambda>_. mirror_safe) (\<lambda>_. mirror_safe) t"
    if "delivering Upsert t" for t
    by (rule deliver_kind_stage) (use that in \<open>auto simp only: kind_action.simps intro: delivering_remove fin\<close>)
  have "wp (deliver_kinds fuel sha K P opts False pend (if replacement opts then [Additions] else [Additions, Removals]))
      (\<lambda>_. mirror_safe) (\<lambda>_. mirror_safe) t" if "delivering Upsert t" for t
    using that by (cases "replacement opts") (simp_all only: if_True if_False, auto intro!: deliver_kind_stage fin removals
        simp del: deliver_kinds.simps)
  then show ?thesis
    unfolding deliver_mirror_def using assms by (auto simp: wp_bind wp_then wp_modify delivering_safe intro!: wp_journal_read)
qed

definition mirror_followed :: "('j, 'p) mirror_state \<Rightarrow> bool" where
  "mirror_followed s \<longleftrightarrow> (\<exists>st. at_stage st s)"

lemma mirror_safe_followed: "mirror_safe s \<Longrightarrow> mirror_followed s"
  by (auto simp: mirror_safe_def mirror_followed_def)

lemma mirror_cleanup_stage: "mirror_safe s \<Longrightarrow> wp (mirror_cleanup K P) (\<lambda>_. mirror_followed) (\<lambda>_. mirror_followed) s"
  unfolding mirror_cleanup_def
  by (auto simp: wp_simps mirror_stage_simps mirror_followed_def intro!: mirror_calls)

lemma mirror_body_stage:
  "at_stage MIdle s \<Longrightarrow> r_writer s = None \<Longrightarrow>
   wp (mirror_body fuel sha K P opts report src) (\<lambda>_. mirror_followed) (\<lambda>_. mirror_followed) s"
  unfolding mirror_body_def
  by (auto simp: wp_simps mirror_safe_followed intro!: start_mirror_stage[THEN wp_conseq] extract_stage[THEN wp_conseq]
      deliver_mirror_stage[THEN wp_conseq] mirror_cleanup_stage[THEN wp_conseq])

lemma mirror_trace:
  "\<exists>st. mirror_follow MIdle (r_trace (snd (runSnapshotMirror fuel sha K P opts report src (mirror_start j p signal)))) = Some st"
proof -
  have "wp (runSnapshotMirror fuel sha K P opts report src) (\<lambda>_. mirror_followed) (\<lambda>_. mirror_followed) (mirror_start j p signal)"
    unfolding runSnapshotMirror_def setup_mirror_def
    by (auto simp: wp_simps mirror_start_def mirror_followed_def at_stage_def split: sum.splits
        intro!: wp_journal_read mirror_body_stage)
  then show ?thesis by (simp add: wp_always mirror_followed_def at_stage_def)
qed

end
