(* ===== verification/MirrorJournal.thy ===== *)
theory MirrorJournal
  imports Recovery RunJournal MirrorFacts Invariant
begin

text \<open>
  The snapshot mirror, its resumption and the recovery of a run as clients of the journal interface:
  whatever relation the journal, the provider and the recovery hooks keep, all three keep. On the fenced
  journal this gives that they only move the durable phase along the phase machine, and that
  they keep the invariant of the session.
\<close>

definition optional_hooks_keep :: "('j \<Rightarrow> 'j \<Rightarrow> bool) \<Rightarrow> ('j, 'p) recovery_hooks option \<Rightarrow> bool" where
  "optional_hooks_keep K hooks \<longleftrightarrow> (case hooks of None \<Rightarrow> True | Some H \<Rightarrow> hooks_keep K H)"

context core_journal
begin

lemma kept_snd: "frames kept m \<Longrightarrow> K j0 (r_journal s) \<Longrightarrow> K j0 (r_journal (snd (m s)))"
  by (simp add: frames_def kept_def)

lemma report_kept: "frames kept (report_call report pr)"
  by (rule framesI) (auto simp: kept_def report_call_def split: prod.splits)

lemma push_row_journal [simp]: "r_journal (push_row row bytes s) = r_journal s"
  by (simp add: push_row_def)

lemma mirror_fields_kept: "frames kept (set_stage st)" "frames kept (uncertain b c)" "frames kept (validateWriter m)"
  unfolding set_stage_def uncertain_def validateWriter_def by (intro kept_rules; simp)+

lemma hook_kept: "(\<And>f. h = Some f \<Longrightarrow> frames kept (g f)) \<Longrightarrow> frames kept (required_hook h msg g)"
  by (cases h) (auto simp: required_hook_def intro: kept_rules)

lemmas mirror_rules = kept_rules core_keeps report_kept mirror_fields_kept hook_kept

lemma flush_page_kept: "frames kept (flush_page J report)"
  unfolding flush_page_def by (intro mirror_rules; simp)

lemma take_row_kept: "frames kept (take_row sha J opts report r)"
  unfolding take_row_def Let_def by (intro mirror_rules flush_page_kept; simp)

lemma extract_kept: "frames kept (extract_source sha J opts report src)"
  unfolding extract_source_def by (intro mirror_rules take_row_kept flush_page_kept)

lemma start_mirror_kept: "provider_keeps K P \<Longrightarrow> frames kept (start_mirror_writer J P opts)"
  unfolding start_mirror_writer_def provider_keeps_def by (intro mirror_rules; simp)

lemma flush_records_kept: "provider_keeps K P \<Longrightarrow> frames kept (flush_records sha J P opts recovered act)"
  unfolding flush_records_def send_batch_def Let_def provider_keeps_def by (intro mirror_rules) (auto intro: mirror_rules)

lemma deliver_page_kept: "provider_keeps K P \<Longrightarrow> frames kept (deliver_page sha J P opts recovered kind)"
  unfolding deliver_page_def add_effect_def by (intro mirror_rules flush_records_kept; simp)

lemma finish_mirror_kept: "provider_keeps K P \<Longrightarrow> frames kept (finish_mirror J P recovered)"
  unfolding finish_mirror_def provider_keeps_def by (intro mirror_rules) (auto intro: mirror_rules)

lemma deliver_kinds_kept: "provider_keeps K P \<Longrightarrow> frames kept (deliver_kinds fuel sha J P opts recovered pend kinds)"
  by (induction kinds) (auto simp: finish_mirror_kept intro!: mirror_rules deliver_page_kept)

lemma deliver_mirror_kept: "provider_keeps K P \<Longrightarrow> frames kept (deliver_mirror fuel sha J P opts recovered pend)"
  unfolding deliver_mirror_def by (intro mirror_rules deliver_kinds_kept; simp)

lemma setup_mirror_kept: "frames kept (setup_mirror J opts)"
  unfolding setup_mirror_def by (intro mirror_rules; simp)

lemma mirror_kept: "provider_keeps K P \<Longrightarrow> frames kept (runSnapshotMirror fuel sha J P opts report src)"
  unfolding runSnapshotMirror_def mirror_body_def mirror_cleanup_def
  by (intro mirror_rules setup_mirror_kept start_mirror_kept extract_kept deliver_mirror_kept) (auto simp: provider_keeps_def)

lemma resume_batch_kept: "hooks_keep K H \<Longrightarrow> frames kept (resume_batch sha J H opts bid)"
  unfolding resume_batch_def hooks_keep_def by (intro mirror_rules; simp)

lemma resume_finish_kept: "hooks_keep K H \<Longrightarrow> frames kept (resume_finish J H status)"
  unfolding resume_finish_def hooks_keep_def Let_def by (intro mirror_rules; simp)

lemma resume_kept:
  "provider_keeps K P \<Longrightarrow> hooks_keep K H \<Longrightarrow> frames kept (resumeSnapshotMirror fuel sha J P H opts recovery)"
  unfolding resumeSnapshotMirror_def resume_delivery_def resume_page_def
  by (intro mirror_rules setup_mirror_kept resume_finish_kept resume_batch_kept deliver_mirror_kept) (auto simp: hooks_keep_def)

lemma hook_Some: "hook f hooks = Some x \<Longrightarrow> \<exists>H. hooks = Some H \<and> f H = Some x"
  by (cases hooks) (auto simp: hook_def)

lemma recover_batch_kept: "optional_hooks_keep K hooks \<Longrightarrow> frames kept (recover_batch sha J hooks sc bid)"
  unfolding recover_batch_def optional_hooks_keep_def hooks_keep_def
  by (intro mirror_rules) (auto dest: hook_Some split: option.splits)

lemma recover_end_kept:
  "optional_hooks_keep K hooks \<Longrightarrow> frames kept (recover_finish J hooks status)"
  "optional_hooks_keep K hooks \<Longrightarrow> frames kept (recover_cleanup J hooks)"
  "optional_hooks_keep K hooks \<Longrightarrow> provider_keeps K P \<Longrightarrow> frames kept (finish_recovered J P hooks status)"
  unfolding recover_finish_def recover_cleanup_def finish_recovered_def commit_recovered_def optional_hooks_keep_def
    hooks_keep_def provider_keeps_def
  by (intro mirror_rules; auto dest: hook_Some split: option.splits)+

lemma recover_kept:
  "provider_keeps K P \<Longrightarrow> optional_hooks_keep K hooks \<Longrightarrow> frames kept (recoverRun fuel sha J P hooks sc independent)"
  unfolding recoverRun_def recover_batches_def recover_page_def
  by (intro mirror_rules recover_batch_kept recover_end_kept)
    (auto simp: optional_hooks_keep_def hooks_keep_def dest: hook_Some split: option.splits)

end

subsection \<open>On the fenced journal\<close>

text \<open>The durable phase only moves along the phase machine.\<close>

lemma mirror_on_track:
  assumes "provider_keeps reach.on_track P" and "coherent (r_journal s)" and "control (r_journal s) \<noteq> None"
  shows "reach.on_track (r_journal s) (r_journal (snd (runSnapshotMirror fuel sha (core_facade env ago) P opts report src s)))"
  by (rule core.kept_snd[OF core.mirror_kept[OF assms(1)] reach.on_track_refl[OF assms(2,3)]])

lemma resume_on_track:
  assumes "provider_keeps reach.on_track P" and "hooks_keep reach.on_track H" and "coherent (r_journal s)" and "control (r_journal s) \<noteq> None"
  shows "reach.on_track (r_journal s) (r_journal (snd (resumeSnapshotMirror fuel sha (core_facade env ago) P H opts recovery s)))"
  by (rule core.kept_snd[OF core.resume_kept[OF assms(1,2)] reach.on_track_refl[OF assms(3,4)]])

lemma recover_on_track:
  assumes "provider_keeps reach.on_track P" and "optional_hooks_keep reach.on_track hooks" and "coherent (r_journal s)"
    and "control (r_journal s) \<noteq> None"
  shows "reach.on_track (r_journal s) (r_journal (snd (recoverRun fuel sha (core_facade env ago) P hooks sc independent s)))"
  by (rule core.kept_snd[OF core.recover_kept[OF assms(1,2)] reach.on_track_refl[OF assms(3,4)]])

text \<open>The invariant of the session is kept.\<close>

lemma run_keeps_sound:
  assumes "provider_keeps (\<lambda>_. sound) P" and "sound (r_journal s)"
  shows "sound (r_journal (snd (runReverseEtl sha (delivery_facade env) P opts src s)))"
  using sound_facade.run_kept[OF assms(1)] assms(2) by (simp add: frames_def sound_facade.kept_def)

lemma mirror_keeps_sound:
  assumes "provider_keeps (\<lambda>_. sound) P" and "sound (r_journal s)"
  shows "sound (r_journal (snd (runSnapshotMirror fuel sha (core_facade env ago) P opts report src s)))"
  by (rule sound_core.kept_snd[OF sound_core.mirror_kept[OF assms(1)] assms(2)])

lemma resume_keeps_sound:
  assumes "provider_keeps (\<lambda>_. sound) P" and "hooks_keep (\<lambda>_. sound) H" and "sound (r_journal s)"
  shows "sound (r_journal (snd (resumeSnapshotMirror fuel sha (core_facade env ago) P H opts recovery s)))"
  by (rule sound_core.kept_snd[OF sound_core.resume_kept[OF assms(1,2)] assms(3)])

lemma recover_keeps_sound:
  assumes "provider_keeps (\<lambda>_. sound) P" and "optional_hooks_keep (\<lambda>_. sound) hooks" and "sound (r_journal s)"
  shows "sound (r_journal (snd (recoverRun fuel sha (core_facade env ago) P hooks sc independent s)))"
  by (rule sound_core.kept_snd[OF sound_core.recover_kept[OF assms(1,2)] assms(3)])

end
