(* ===== verification/Evaluation.thy ===== *)
theory Evaluation
  imports Availability MirrorJournal "HOL-Library.Code_Target_Numeral"
begin

text \<open>
  Code equations that let \<open>code_simp\<close> run the model on concrete inputs: tests on the bits of a
  character, and the operations unfolded only once their state is given.
\<close>

definition escape_special :: "char \<Rightarrow> string" where
  "escape_special = escape_char"

lemma escape_special_code [code]:
  "escape_special c =
     (let n = (of_char c :: nat) in
      if n = 34 then [CHR 0x5C, CHR 0x22]
      else if n = 92 then [CHR 0x5C, CHR 0x5C]
      else if n = 8 then [CHR 0x5C, CHR ''b'']
      else if n = 12 then [CHR 0x5C, CHR ''f'']
      else if n = 10 then [CHR 0x5C, CHR ''n'']
      else if n = 13 then [CHR 0x5C, CHR ''r'']
      else if n = 9 then [CHR 0x5C, CHR ''t'']
      else if n < 32 then [CHR 0x5C, CHR ''u'', CHR ''0'', CHR ''0'', hex_digit (n div 16), hex_digit (n mod 16)]
      else [c])"
  by (simp add: escape_special_def escape_char_def)

lemma escape_char_code [code]:
  "escape_char (Char b0 b1 b2 b3 b4 b5 b6 b7) =
     (if b7 \<or> b6 \<and> (b5 \<or> b0 \<or> b1) \<or> b5 \<and> (b4 \<or> b3 \<or> b2 \<or> b0) then [Char b0 b1 b2 b3 b4 b5 b6 b7]
      else escape_special (Char b0 b1 b2 b3 b4 b5 b6 b7))"
  by (cases b0; cases b1; cases b2; cases b3; cases b4; cases b5; cases b6; cases b7)
    (simp_all add: escape_special_def escape_char_def Let_def)

lemma char_bytes_code [code]: "char_bytes (Char b0 b1 b2 b3 b4 b5 b6 b7) = (if b7 then 2 else 1)"
  by (cases b0; cases b1; cases b2; cases b3; cases b4; cases b5; cases b6; cases b7) (simp_all add: char_bytes_def)

lemma hex_char_code [code]:
  "hex_char (Char b0 b1 b2 b3 b4 b5 b6 b7) \<longleftrightarrow>
     \<not> b7 \<and> (if b6 then b5 \<and> \<not> b4 \<and> \<not> b3 \<and> (b0 \<or> b1 \<or> b2) \<and> \<not> (b0 \<and> b1 \<and> b2) else b5 \<and> b4 \<and> (\<not> b3 \<or> \<not> b1 \<and> \<not> b2))"
  by (cases b0; cases b1; cases b2; cases b3; cases b4; cases b5; cases b6; cases b7) (simp_all add: hex_char_def Let_def)

lemmas operations_applied [code] =
  Artifacts.throwIfAborted_def [THEN fun_cong]
  Artifacts.put_artifact_def [THEN fun_cong]
  RunState.invalidate_def [THEN fun_cong]
  RunState.lock_control_def [THEN fun_cong]
  RunState.remember_def [THEN fun_cong]
  RunState.claim_target_def [THEN fun_cong]
  RunState.admission_base_def [THEN fun_cong]
  RunState.write_admitted_def [THEN fun_cong]
  RunState.admit_def [THEN fun_cong]
  RunState.openRun_def [THEN fun_cong]
  Journal.current_def [THEN fun_cong]
  Journal.put_json_def [THEN fun_cong]
  Journal.get_json_def [THEN fun_cong]
  Journal.save_checkpoint_def [THEN fun_cong]
  Journal.publish_work_def [THEN fun_cong]
  Journal.head_bytes_for_def [THEN fun_cong]
  Journal.publish_def [THEN fun_cong]
  Journal.find_batch_def [THEN fun_cong]
  Journal.data_def [THEN fun_cong]
  Journal.index_def [THEN fun_cong]
  Journal.restore_def [THEN fun_cong]
  Journal.put_pages_def [THEN fun_cong]
  Journal.next_generation_def [THEN fun_cong]
  Journal.open_session_def [THEN fun_cong]
  Journal.openPersistence_def [THEN fun_cong]
  Delivery.assertRemovalsAllowed_def [THEN fun_cong]
  Delivery.assertReplacementReady_def [THEN fun_cong]
  Delivery.assertPromotable_def [THEN fun_cong]
  Delivery.snapshot_start_def [THEN fun_cong]
  Delivery.append_page_def [THEN fun_cong]
  Delivery.snapshot_status_def [THEN fun_cong]
  Delivery.snapshot_append_def [THEN fun_cong]
  Delivery.snapshot_seal_def [THEN fun_cong]
  Delivery.snapshot_page_def [THEN fun_cong]
  Delivery.journal_state_def [THEN fun_cong]
  Delivery.saved_def [THEN fun_cong]
  Delivery.assertReady_def [THEN fun_cong]
  Delivery.encode_store_def [THEN fun_cong]
  Delivery.copyE_def [THEN fun_cong]
  Delivery.prepareInit_def [THEN fun_cong]
  Delivery.acknowledgeInit_def [THEN fun_cong]
  Delivery.resetInitAfterReconciliation_def [THEN fun_cong]
  Delivery.saveProviderState_def [THEN fun_cong]
  Delivery.store_batch_def [THEN fun_cong]
  Delivery.write_batch_def [THEN fun_cong]
  Delivery.prepare_def [THEN fun_cong]
  Lifecycle.loadBatch_def [THEN fun_cong]
  Lifecycle.recoveryStatus_def [THEN fun_cong]
  Lifecycle.recoveryPage_def [THEN fun_cong]
  Lifecycle.recoveryBatch_def [THEN fun_cong]
  Lifecycle.markUnknown_def [THEN fun_cong]
  Lifecycle.write_receipt_def [THEN fun_cong]
  Lifecycle.ack_def [THEN fun_cong]
  Lifecycle.acknowledge_def [THEN fun_cong]
  Lifecycle.acknowledgeRecovered_def [THEN fun_cong]
  Lifecycle.prepareAbort_def [THEN fun_cong]
  Lifecycle.acknowledgeAbort_def [THEN fun_cong]
  Lifecycle.prepareFinish_def [THEN fun_cong]
  Lifecycle.sealExtraction_def [THEN fun_cong]
  Lifecycle.resolve_staged_def [THEN fun_cong]
  Lifecycle.record_finish_def [THEN fun_cong]
  Lifecycle.accept_finish_def [THEN fun_cong]
  Lifecycle.finish_def [THEN fun_cong]
  Lifecycle.acknowledgeFinish_def [THEN fun_cong]
  Lifecycle.acknowledgeRecoveredFinish_def [THEN fun_cong]
  Lifecycle.finalPoint_def [THEN fun_cong]
  Lifecycle.detach_def [THEN fun_cong]
  Lifecycle.commitCheckpoint_def [THEN fun_cong]

lemmas combinators_applied [code] = thenE_def [THEN fun_cong] whenE_def [THEN fun_cong]

end
