(* ===== verification/Admission.thy ===== *)
theory Admission
  imports JournalFacts
begin

text \<open>
  What the admission of a run guarantees about the shared tables: one active run per sync, run orders
  that never repeat, and one owner for an audience a mirror manages. The invariant is kept by the
  admission of every run and by every publish that does not revive an ended run.
\<close>

subsection \<open>The invariant of the tables\<close>

definition same_sync :: "control_row \<Rightarrow> control_row \<Rightarrow> bool" where
  "same_sync c c' \<longleftrightarrow> c_workspace c = c_workspace c' \<and> c_sync c = c_sync c'"

definition active :: "control_row \<Rightarrow> bool" where
  "active c \<longleftrightarrow> \<not> c_detached c \<and> \<not> ended (c_phase c)"

definition rows_ok :: "control_row list \<Rightarrow> bool" where
  "rows_ok cs \<longleftrightarrow> distinct (map control_key cs)
     \<and> (\<forall>c \<in> set cs. \<forall>c' \<in> set cs. c_sync c = c_sync c' \<longrightarrow> c_workspace c = c_workspace c')
     \<and> (\<forall>c \<in> set cs. \<forall>c' \<in> set cs. same_sync c c' \<and> active c \<and> active c' \<longrightarrow> c = c')
     \<and> (\<forall>c \<in> set cs. \<forall>c' \<in> set cs. same_sync c c' \<and> c_order c = c_order c' \<longrightarrow> c = c')"

definition owned_ok :: "(string \<times> (string \<times> string)) list \<Rightarrow> control_row \<Rightarrow> bool" where
  "owned_ok owners c \<longleftrightarrow> ended (c_phase c)
     \<or> (case map_of owners (c_targetHash c) of None \<Rightarrow> True | Some ow \<Rightarrow> ow = (c_workspace c, c_sync c))"

definition owners_ok :: "database \<Rightarrow> bool" where
  "owners_ok d \<longleftrightarrow> distinct (map fst (db_owners d)) \<and> distinct (map snd (db_owners d))
     \<and> (\<forall>c \<in> set (db_controls d). owned_ok (db_owners d) c)"

definition db_ok :: "database \<Rightarrow> bool" where
  "db_ok d \<longleftrightarrow> rows_ok (db_controls d) \<and> owners_ok d"

subsection \<open>Rewriting a row\<close>

text \<open>What a rewritten row may not change.\<close>

definition row_step :: "control_row \<Rightarrow> control_row \<Rightarrow> bool" where
  "row_step old row \<longleftrightarrow> control_key row = control_key old \<and> c_targetHash row = c_targetHash old \<and> c_order row = c_order old
     \<and> (c_detached old \<longrightarrow> c_detached row) \<and> (ended (c_phase old) \<longrightarrow> ended (c_phase row))"

lemma row_step_same_sync: "row_step old row \<Longrightarrow> c_workspace row = c_workspace old \<and> c_sync row = c_sync old"
  by (simp add: row_step_def control_key_def)

definition rewrite :: "control_row \<Rightarrow> control_row \<Rightarrow> control_row" where
  "rewrite row c = (if control_key c = control_key row then row else c)"

lemma update_control_rewrite: "update_control row d = d\<lparr>db_controls := map (rewrite row) (db_controls d)\<rparr>"
  by (simp add: update_control_def rewrite_def[abs_def])

lemma rewrite_step:
  assumes "distinct (map control_key cs)" and "old \<in> set cs" and "row_step old row" and "c \<in> set cs"
  shows "row_step c (rewrite row c) \<and> (rewrite row c = c \<or> c = old)"
proof (cases "control_key c = control_key row")
  case True
  with assms have "c = old" by (auto simp: row_step_def dest: map_of_eq_Some_iff distinct_map[THEN iffD1] inj_onD)
  with assms(3) True show ?thesis by (simp add: rewrite_def)
next
  case False
  then show ?thesis by (simp add: rewrite_def row_step_def)
qed

lemma row_step_facts:
  "row_step c r \<Longrightarrow> row_step c' r' \<Longrightarrow> same_sync r r' = same_sync c c' \<and> (active r \<longrightarrow> active c) \<and> c_order r = c_order c"
  by (auto simp: row_step_def same_sync_def active_def control_key_def)

lemma rows_ok_rewrite:
  assumes ok: "rows_ok cs" and old: "old \<in> set cs" and step: "row_step old row"
  shows "rows_ok (map (rewrite row) cs)"
proof -
  have d: "distinct (map control_key cs)" using ok by (simp add: rows_ok_def)
  note rs = rewrite_step[OF d old step]
  have keys: "map control_key (map (rewrite row) cs) = map control_key cs"
    using rs by (auto simp: row_step_def)
  have "c_workspace (rewrite row c) = c_workspace (rewrite row c')"
    if "c \<in> set cs" "c' \<in> set cs" "c_sync (rewrite row c) = c_sync (rewrite row c')" for c c'
    using that ok row_step_same_sync rs unfolding rows_ok_def by metis
  moreover have "rewrite row c = rewrite row c'"
    if "c \<in> set cs" "c' \<in> set cs" "same_sync (rewrite row c) (rewrite row c')"
      "active (rewrite row c) \<and> active (rewrite row c') \<or> c_order (rewrite row c) = c_order (rewrite row c')" for c c'
  proof -
    have "row_step c (rewrite row c)" "row_step c' (rewrite row c')" using rs that(1,2) by blast+
    then have "same_sync c c'" "active c \<and> active c' \<or> c_order c = c_order c'"
      using that(3,4) row_step_facts by metis+
    then have "c = c'" using ok that(1,2) unfolding rows_ok_def by blast
    then show ?thesis by simp
  qed
  ultimately show ?thesis
    unfolding rows_ok_def keys set_map ball_simps using d by blast
qed

lemma db_ok_update:
  assumes ok: "db_ok d" and old: "old \<in> set (db_controls d)" and step: "row_step old row"
  shows "db_ok (update_control row d)"
proof -
  have d: "distinct (map control_key (db_controls d))" using ok by (simp add: db_ok_def rows_ok_def)
  have "owned_ok (db_owners d) (rewrite row c)" if "c \<in> set (db_controls d)" for c
  proof -
    have "row_step c (rewrite row c)" using rewrite_step[OF d old step that] by blast
    moreover have "owned_ok (db_owners d) c" using ok that by (simp add: db_ok_def owners_ok_def)
    ultimately show ?thesis by (auto simp: owned_ok_def row_step_def control_key_def split: option.splits)
  qed
  with ok rows_ok_rewrite[OF _ old step] show ?thesis
    by (auto simp: db_ok_def owners_ok_def update_control_rewrite)
qed

subsection \<open>Admitting a run\<close>

lemma latest_row_max: "latest_row cs = Some p \<Longrightarrow> p \<in> set cs \<and> (\<forall>c \<in> set cs. c_order c \<le> c_order p)"
proof (induction cs arbitrary: p)
  case (Cons a cs)
  show ?case
  proof (cases "latest_row cs")
    case None
    then have "cs = []" by (cases cs) (auto split: option.splits if_splits)
    with Cons.prems show ?thesis by simp
  next
    case (Some q)
    with Cons.IH[OF Some] Cons.prems show ?thesis by (force split: if_splits)
  qed
qed simp

lemma latest_row_None: "latest_row cs = None \<longleftrightarrow> cs = []"
  by (cases cs) (auto split: option.splits)

lemma check_bound_Inr: "check_bound sha sc c = Inr u \<longleftrightarrow> c_head c \<noteq> None \<and> bound_to sha sc c"
  by (simp add: check_bound_def ensureR_def)

lemma check_admission_Inr:
  "check_admission sha sc d = Inr u \<Longrightarrow>
   (\<forall>c \<in> set (db_controls d). c_sync c = sc_syncId sc \<longrightarrow> c_workspace c = sc_workspaceId sc)
   \<and> (known_run sc d \<or> (\<forall>c \<in> set (sync_rows sc d). \<not> active c))"
  by (auto simp: check_admission_def run_simps list_ex_iff active_def split: if_splits)

lemma check_control_Inr:
  "check_control sha sc same c = Inr u \<Longrightarrow> c_targetHash c = target_hash sha sc \<and> (same \<longrightarrow> \<not> ended (c_phase c))"
  by (auto simp: check_control_def run_simps check_bound_Inr bound_to_def split: if_splits)

lemma selectControl_Inr: "selectControl sc t = (Inr c, t') \<longleftrightarrow> control_of sc (tx_db t) = Some c \<and> t' = t"
  by (auto simp: selectControl_def control_of_def split: option.splits)

lemma admission_base_Inr: "admission_base sha sc same c t = (Inr bs, t') \<Longrightarrow> t' = t"
  by (auto simp: admission_base_def bindE_Inr split: if_splits)

text \<open>What a successful admission has checked, and what it has written.\<close>

lemma admit_Inr:
  assumes "admit sha sc ih t = (Inr recovered, t')"
  shows "\<exists>control t2 base store. check_admission sha sc (tx_db t) = Inr ()
    \<and> control_of sc (insert_run sha sc ih (tx_db t)) = Some control
    \<and> check_control sha sc (known_run sc (tx_db t)) control = Inr ()
    \<and> claim_target sha sc \<lparr>tx_db = insert_run sha sc ih (tx_db t), tx_pending = None\<rparr> = (Inr (), t2)
    \<and> tx_db t' = update_control (admitted_row sc (known_run sc (tx_db t)) base store control) (tx_db t2)
    \<and> tx_pending t' = Some (admitted_row sc (known_run sc (tx_db t)) base store control)
    \<and> recovered = (known_run sc (tx_db t) \<and> c_phase control \<noteq> PNew)"
proof -
  have tx: "t\<lparr>tx_pending := None, tx_db := d\<rparr> = \<lparr>tx_db = d, tx_pending = None\<rparr>" for d
    by (cases t) simp
  from assms show ?thesis
    unfolding admit_def Let_def
    by (auto simp: run_simps invalidate_def selectControl_Inr write_admitted_def remember_def tx dest!: admission_base_Inr) blast+
qed

subsection \<open>Claims\<close>

text \<open>A claim only appends the claimed target, and only for a sync that has none.\<close>

lemma claim_target_Inr:
  assumes "claim_target sha sc t = (Inr u, t')" and "distinct (map fst (db_owners (tx_db t)))" and "distinct (map snd (db_owners (tx_db t)))"
  shows "db_controls (tx_db t') = db_controls (tx_db t)"
    and "distinct (map fst (db_owners (tx_db t')))" "distinct (map snd (db_owners (tx_db t')))"
    and "h \<noteq> target_hash sha sc \<Longrightarrow> map_of (db_owners (tx_db t')) h = map_of (db_owners (tx_db t)) h"
    and "sc_mode sc \<noteq> ModeMirror \<Longrightarrow> map_of (db_owners (tx_db t')) (target_hash sha sc) = None"
    and "sc_mode sc = ModeMirror \<Longrightarrow> map_of (db_owners (tx_db t')) (target_hash sha sc) = Some (sc_workspaceId sc, sc_syncId sc)
      \<and> (\<forall>c \<in> set (db_controls (tx_db t)). c_targetHash c = target_hash sha sc \<and> \<not> ended (c_phase c) \<longrightarrow>
          c_workspace c = sc_workspaceId sc \<and> c_sync c = sc_syncId sc)"
proof -
  show "db_controls (tx_db t') = db_controls (tx_db t)"
    and "h \<noteq> target_hash sha sc \<Longrightarrow> map_of (db_owners (tx_db t')) h = map_of (db_owners (tx_db t)) h"
    and "sc_mode sc \<noteq> ModeMirror \<Longrightarrow> map_of (db_owners (tx_db t')) (target_hash sha sc) = None"
    and "sc_mode sc = ModeMirror \<Longrightarrow> map_of (db_owners (tx_db t')) (target_hash sha sc) = Some (sc_workspaceId sc, sc_syncId sc)
      \<and> (\<forall>c \<in> set (db_controls (tx_db t)). c_targetHash c = target_hash sha sc \<and> \<not> ended (c_phase c) \<longrightarrow>
          c_workspace c = sc_workspaceId sc \<and> c_sync c = sc_syncId sc)"
    using assms(1) by (auto simp: claim_target_def Let_def run_simps list_ex_iff map_add_def split: if_splits option.splits)
  show "distinct (map fst (db_owners (tx_db t')))" "distinct (map snd (db_owners (tx_db t')))"
    using assms by (auto simp: claim_target_def Let_def run_simps list_ex_iff map_of_eq_None_iff split: if_splits)
qed

subsection \<open>Admission keeps the invariant\<close>

lemma new_row_fields:
  "c_workspace (new_control_row sha sc p ih) = sc_workspaceId sc" "c_sync (new_control_row sha sc p ih) = sc_syncId sc"
  "control_key (new_control_row sha sc p ih) = scope_key sc"
  "c_order (new_control_row sha sc p ih) = (case p of None \<Rightarrow> 0 | Some c \<Rightarrow> c_order c + 1)"
  by (simp_all add: new_control_row_def control_key_def scope_key_def split: option.splits)

lemma insert_run_rows:
  assumes ok: "rows_ok (db_controls d)" and ch: "check_admission sha sc d = Inr u"
  shows "rows_ok (db_controls (insert_run sha sc ih d))"
proof (cases "known_run sc d")
  case False
  let ?n = "new_control_row sha sc (latest_row (sync_rows sc d)) ih"
  note f = new_row_fields[of sha sc "latest_row (sync_rows sc d)" ih]
  have sync: "c \<in> set (sync_rows sc d)" if "c \<in> set (db_controls d)" "same_sync c ?n \<or> same_sync ?n c" for c
    using that f by (auto simp: sync_rows_def same_sync_def)
  have inactive: "\<not> active c" if "c \<in> set (sync_rows sc d)" for c
    using check_admission_Inr[OF ch] False that by blast
  have order: "c_order c < c_order ?n" if "c \<in> set (sync_rows sc d)" for c
    using that latest_row_max[of "sync_rows sc d"] latest_row_None[of "sync_rows sc d"] by (auto simp: f split: option.splits)
  have key: "scope_key sc \<notin> control_key ` set (db_controls d)"
    using False by (auto simp: known_run_def list_ex_iff)
  have ws: "c_workspace c = c_workspace ?n" if "c \<in> set (db_controls d)" "c_sync c = c_sync ?n" for c
    using check_admission_Inr[OF ch] that f by auto
  have old: "distinct (map control_key (db_controls d))"
    "\<And>c c'. c \<in> set (db_controls d) \<Longrightarrow> c' \<in> set (db_controls d) \<Longrightarrow> c_sync c = c_sync c' \<Longrightarrow> c_workspace c = c_workspace c'"
    "\<And>c c'. c \<in> set (db_controls d) \<Longrightarrow> c' \<in> set (db_controls d) \<Longrightarrow> same_sync c c' \<Longrightarrow> active c \<and> active c' \<or> c_order c = c_order c' \<Longrightarrow> c = c'"
    using ok unfolding rows_ok_def by blast+
  have new: "c = ?n" if "c \<in> set (db_controls d)" "same_sync c ?n \<or> same_sync ?n c" "active c \<and> active ?n \<or> c_order c = c_order ?n" for c
    using inactive[OF sync[OF that(1,2)]] order[OF sync[OF that(1,2)]] that(3) by auto
  show ?thesis
    using False key old(1) unfolding rows_ok_def insert_run_def
    apply (simp add: f(3))
    apply (intro conjI ballI impI)
    using ws old new by metis+
qed (use ok in \<open>simp add: insert_run_def\<close>)

lemma admitted_row_step: "(same \<Longrightarrow> \<not> ended (c_phase c)) \<Longrightarrow> (\<not> same \<Longrightarrow> c_phase c = PNew) \<Longrightarrow> row_step c (admitted_row sc same base store c)"
  by (auto simp: row_step_def admitted_row_def control_key_def ended_def Let_def)

lemma find_snoc: "find P xs = None \<Longrightarrow> find P (xs @ [x]) = (if P x then Some x else None)"
  by (induction xs) (auto split: if_splits)

lemma inserted_phase:
  assumes "control_of sc (insert_run sha sc ih d) = Some control" and "\<not> known_run sc d"
  shows "c_phase control = PNew \<and> \<not> c_detached control"
proof -
  have "find (\<lambda>c. control_key c = scope_key sc) (db_controls d) = None"
    using assms(2) by (auto simp: known_run_def list_ex_iff find_None_iff)
  then have "find (\<lambda>c. control_key c = scope_key sc) (db_controls d @ [n]) = (if control_key n = scope_key sc then Some n else None)" for n
    by (simp add: find_snoc)
  then show ?thesis using assms by (auto simp: control_of_def insert_run_def new_control_row_def split: if_splits)
qed

lemma claimed_owners:
  assumes "owners_ok d" and "claim_target sha sc \<lparr>tx_db = insert_run sha sc ih d, tx_pending = None\<rparr> = (Inr u, t2)"
  shows "owners_ok (tx_db t2)"
proof -
  let ?h = "target_hash sha sc" and ?d1 = "insert_run sha sc ih d"
  have same: "db_owners ?d1 = db_owners d" by (simp add: insert_run_def)
  have new: "c \<in> set (db_controls d) \<or> c_targetHash c = ?h" if "c \<in> set (db_controls ?d1)" for c
    using that by (auto simp: insert_run_def new_control_row_def split: if_splits)
  have d: "distinct (map fst (db_owners d))" "distinct (map snd (db_owners d))"
    using assms(1) by (simp_all add: owners_ok_def)
  note cl = claim_target_Inr[OF assms(2), simplified, unfolded same, OF d]
  have "owned_ok (db_owners (tx_db t2)) c" if c: "c \<in> set (db_controls ?d1)" for c
  proof (cases "c_targetHash c = ?h")
    case True
    with cl(5,6) c show ?thesis by (cases "sc_mode sc = ModeMirror") (auto simp: owned_ok_def)
  next
    case False
    with new[OF c] assms(1) cl(4)[OF False] show ?thesis by (auto simp: owned_ok_def owners_ok_def)
  qed
  with cl show ?thesis by (simp add: owners_ok_def)
qed

theorem admit_db_ok:
  assumes ok: "db_ok (tx_db t)" and run: "admit sha sc ih t = (Inr recovered, t')"
  shows "db_ok (tx_db t')"
proof -
  let ?d1 = "insert_run sha sc ih (tx_db t)" and ?same = "known_run sc (tx_db t)"
  from admit_Inr[OF run] obtain control t2 base store where
    ch: "check_admission sha sc (tx_db t) = Inr ()" and cs: "control_of sc ?d1 = Some control"
    and cc: "check_control sha sc ?same control = Inr ()"
    and cl: "claim_target sha sc \<lparr>tx_db = ?d1, tx_pending = None\<rparr> = (Inr (), t2)"
    and t': "tx_db t' = update_control (admitted_row sc ?same base store control) (tx_db t2)" by blast
  have controls: "db_controls (tx_db t2) = db_controls ?d1"
    using cl by (auto simp: claim_target_def Let_def run_simps split: if_splits)
  have "db_ok (tx_db t2)"
    using ok insert_run_rows[OF _ ch] claimed_owners[OF _ cl] by (simp add: db_ok_def controls)
  moreover have "control \<in> set (db_controls (tx_db t2))"
    using cs controls unfolding control_of_def by (metis find_Some_iff_first)
  moreover have "row_step control (admitted_row sc ?same base store control)"
    using check_control_Inr[OF cc] inserted_phase[OF cs] by (intro admitted_row_step) auto
  ultimately show ?thesis unfolding t' by (rule db_ok_update)
qed

text \<open>The tables stay well formed whatever becomes of the transaction.\<close>

lemma openRun_db_ok:
  assumes "db_ok (w_db w)" and "openRun sha sc ih w = (r, w')"
  shows "db_ok (w_db w')"
proof -
  have "db_ok (w_db w')" if "cache_transaction sc (admit sha sc ih) w = (r, w')"
  proof (cases r)
    case (Inl e)
    with that cache_transaction_Inl[of sc "admit sha sc ih" w e w'] admit_db_ok[of "\<lparr>tx_db = w_db w, tx_pending = cached sc w\<rparr>"] assms(1)
    show ?thesis by fastforce
  next
    case (Inr a)
    with that cache_transaction_Inr[of sc "admit sha sc ih" w a w'] admit_db_ok[of "\<lparr>tx_db = w_db w, tx_pending = cached sc w\<rparr>"] assms(1)
    show ?thesis by fastforce
  qed
  then show ?thesis
    using assms by (auto simp: openRun_def thenE_def bindE_def ensure_def split: if_splits)
qed

text \<open>A run that is not recovered starts at one sequence number, and the cache holds its row.\<close>

lemma openRun_Inr:
  assumes "openRun sha sc ih w = (Inr recovered, w')"
  shows "\<exists>c. control_of sc (w_db w') = Some c \<and> cached sc w' = Some c \<and> \<not> ended (c_phase c) \<and> bound_to sha sc c
     \<and> (\<not> recovered \<longrightarrow> c_phase c = PNew \<and> c_next c = c_base c \<and> c_checkpoint c = c_base c)"
proof -
  let ?t = "\<lparr>tx_db = w_db w, tx_pending = cached sc w\<rparr>" and ?same = "known_run sc (w_db w)"
  from assms have "cache_transaction sc (admit sha sc ih) w = (Inr recovered, w')"
    by (auto simp: openRun_def run_simps)
  from cache_transaction_Inr[OF this] obtain t' where run: "admit sha sc ih ?t = (Inr recovered, t')"
    and w': "w_db w' = tx_db t'" "cached sc w' = tx_pending t'" by blast
  from admit_Inr[OF run] obtain control t2 base store where
    cs: "control_of sc (insert_run sha sc ih (w_db w)) = Some control" and cc: "check_control sha sc ?same control = Inr ()"
    and cl: "claim_target sha sc \<lparr>tx_db = insert_run sha sc ih (w_db w), tx_pending = None\<rparr> = (Inr (), t2)"
    and t': "tx_db t' = update_control (admitted_row sc ?same base store control) (tx_db t2)"
      "tx_pending t' = Some (admitted_row sc ?same base store control)" "recovered = (?same \<and> c_phase control \<noteq> PNew)"
    by auto
  have "db_controls (tx_db t2) = db_controls (insert_run sha sc ih (w_db w))"
    using cl by (auto simp: claim_target_def Let_def run_simps split: if_splits)
  then have "control_of sc (tx_db t2) = Some control" using cs by (simp add: control_of_def)
  moreover have "control_key (admitted_row sc ?same base store control) = scope_key sc"
    using control_of_key[OF cs] by (simp add: admitted_row_def control_key_def Let_def)
  ultimately have "control_of sc (tx_db t') = Some (admitted_row sc ?same base store control)"
    unfolding t' by (simp add: control_of_update)
  moreover have "bound_to sha sc control" using cc by (auto simp: check_control_def run_simps check_bound_Inr)
  ultimately show ?thesis
    using check_control_Inr[OF cc] inserted_phase[OF cs]
    by (auto simp: w' t' admitted_row_def bound_to_def Let_def ended_def)
qed

subsection \<open>Publishing keeps the invariant\<close>

lemma db_ok_controls: "db_controls d = db_controls d' \<Longrightarrow> db_owners d = db_owners d' \<Longrightarrow> db_ok d = db_ok d'"
  by (simp add: db_ok_def owners_ok_def)

lemma publish_db_ok:
  assumes ok: "db_ok (w_db (s_world s))" and key: "keeps_key changes"
    and step: "\<And>old. control_of (s_scope s) (w_db (s_world s)) = Some old \<Longrightarrow> ex = None \<or> ex = Some (c_phase old) \<Longrightarrow> row_step old (changes old)"
    and run: "publish env h changes cp ex s = (Inr u, s')"
  shows "db_ok (w_db (s_world s'))"
proof -
  from publish_Inr[OF run key] obtain old hb where p: "published s h changes ex old hb s'" by blast
  then have old: "control_of (s_scope s) (w_db (s_world s)) = Some old" and ex: "ex = None \<or> ex = Some (c_phase old)"
    by (simp_all add: published_def)
  have "row_step old ((changes old)\<lparr>c_head := Some hb\<rparr>)"
    using step[OF old ex] by (simp add: row_step_def control_key_def)
  then have "db_ok (update_control ((changes old)\<lparr>c_head := Some hb\<rparr>) (w_db (s_world s)))"
    using old unfolding control_of_def by (intro db_ok_update[OF ok]) (auto dest: find_Some_iff_first)
  with p show ?thesis
    by (subst db_ok_controls[of _ "update_control ((changes old)\<lparr>c_head := Some hb\<rparr>) (w_db (s_world s))"])
      (auto simp: published_def update_control_def)
qed

end
