(* ===== verification/Reopen.thy ===== *)
theory Reopen
  imports DeliveryFacts
begin

text \<open>
  Crash and reopen: the manifest a publish committed is the one the next session reads, as long as the
  digest does not collide on it. The artifacts of a manifest are immutable and survive later uploads.
\<close>

subsection \<open>Manifests are well-formed JSON\<close>

lemma wf_json_ref: "wf_json (json_of_ref r)"
  by (simp add: json_of_ref_def number_text_int)

lemma wf_json_batch_head: "wf_json (json_of_batch_head b)"
  by (cases "b_receipt b"; cases "b_submittedRecords b")
    (simp_all add: json_of_batch_head_def optional_member_def number_text_int wf_json_ref)

lemma wf_json_summary: "wf_json (json_of_summary s)"
  by (cases "su_projectedMembers s"; cases "su_excludedRows s")
    (simp_all add: json_of_summary_def Let_def optional_member_def number_text_int)

lemma wf_json_snapshot: "wf_json (json_of_snapshot s)"
  by (cases "sn_replacementStatus s"; cases "sn_refreshBefore s"; cases "sn_summary s")
    (auto simp: json_of_snapshot_def optional_member_def number_text_int wf_json_ref wf_json_summary list_all_iff)

lemma wf_json_head: "wf_json (json_of_head h)"
  by (cases "h_snapshot h")
    (auto simp: json_of_head_def optional_member_def number_text_int wf_json_ref wf_json_snapshot wf_json_batch_head list_all_iff)

subsection \<open>What the durable row points to\<close>

definition read_head :: "journal_env \<Rightarrow> run_scope \<Rightarrow> string \<Rightarrow> world \<Rightarrow> json result" where
  "read_head env sc hb w = bindR (decodeJson hb) (\<lambda>v. get_artifact env sc (ref_of_json v) w)"

definition head_stored :: "journal_env \<Rightarrow> session \<Rightarrow> bool" where
  "head_stored env s = (case s_headBytes s of None \<Rightarrow> True
     | Some hb \<Rightarrow> read_head env (s_scope s) hb (s_world s) = Inr (canon (json_of_head (s_head s))))"

definition head_readable :: "journal_env \<Rightarrow> session \<Rightarrow> bool" where
  "head_readable env s \<longleftrightarrow> (\<forall>hb. s_headBytes s = Some hb \<longrightarrow> (\<exists>h. read_head env (s_scope s) hb (s_world s) = Inr h))"

lemma head_stored_readable: "head_stored env s \<Longrightarrow> head_readable env s"
  by (auto simp: head_stored_def head_readable_def)

text \<open>The digest does not collide on a text.\<close>

definition collision_free :: "journal_env \<Rightarrow> string \<Rightarrow> bool" where
  "collision_free env text \<longleftrightarrow> (\<forall>t. e_sha env t = e_sha env text \<longrightarrow> t = text)"

lemma read_artifact_raw:
  "read_artifact env ref w = Inr v \<Longrightarrow> \<exists>raw kvs. e_sha env raw = ar_sha256 ref \<and> json_parse raw = Some (JObj kvs) \<and> map_of kvs ''value'' = Some v"
proof -
  let ?rest = "\<lambda>raw. bindR (ensureR (byteLength raw = ar_bytes ref \<and> e_sha env raw = ar_sha256 ref) ''Artifact checksum mismatch'') (\<lambda>_.
       case json_parse raw of
         Some (JObj kvs) \<Rightarrow>
           if map_of kvs ''version'' = Some (JInt 1) \<and> map_of kvs ''value'' \<noteq> None
           then Inr (the (map_of kvs ''value'')) else Inl (PersistenceError ''Invalid artifact envelope'')
       | _ \<Rightarrow> Inl (PlainError ''JSON.parse''))"
  assume "read_artifact env ref w = Inr v"
  then obtain c where c: "(case e_gunzip env c (ar_bytes ref) of None \<Rightarrow> Inl (PlainError ''gunzip'') | Some raw \<Rightarrow> ?rest raw) = Inr v"
    by (auto simp: read_artifact_def bindR_Inr)
  then obtain raw where "?rest raw = Inr v" by (cases "e_gunzip env c (ar_bytes ref)") auto
  then have sha: "e_sha env raw = ar_sha256 ref"
    and p: "(case json_parse raw of Some (JObj kvs) \<Rightarrow>
           if map_of kvs ''version'' = Some (JInt 1) \<and> map_of kvs ''value'' \<noteq> None
           then Inr (the (map_of kvs ''value'')) else Inl (PersistenceError ''Invalid artifact envelope'')
       | _ \<Rightarrow> Inl (PlainError ''JSON.parse'')) = Inr v"
    unfolding bindR_Inr ensureR_Inr by blast+
  from p obtain kvs where kvs: "json_parse raw = Some (JObj kvs)" by (auto split: option.splits json.splits)
  with p sha show ?thesis by (auto split: if_splits)
qed

text \<open>An artifact that is read under the digest of a text has that text.\<close>

lemma get_artifact_text:
  assumes "get_artifact env sc ref w = Inr v" and "ar_sha256 ref = e_sha env (json_text (versioned u))"
    and "collision_free env (json_text (versioned u))" and "wf_json u"
  shows "v = canon u"
proof -
  from assms(1) have "read_artifact env ref w = Inr v" by (simp add: get_artifact_Inr)
  then obtain raw kvs where "e_sha env raw = ar_sha256 ref" "json_parse raw = Some (JObj kvs)" "map_of kvs ''value'' = Some v"
    using read_artifact_raw by blast
  with assms(2,3) json_parse_versioned[OF assms(4)] show ?thesis by (auto simp: collision_free_def)
qed

lemma head_bytes_read:
  assumes run: "head_bytes_for env h s = (Inr hb, s1)" and ok: "gzip_ok env" "sha_ok env"
    and st: "head_readable env s" and cf: "collision_free env (json_text (versioned (json_of_head h)))"
  shows "read_head env (s_scope s) hb (s_world s1) = Inr (canon (json_of_head h))"
proof -
  have put: "read_head env (s_scope s) hb (s_world s1) = Inr (canon (json_of_head h))"
    if p: "put_json env (json_of_head h) s = (Inr ref, s1)" and e: "encodeJson (json_of_ref ref) 65536 = Inr hb" for ref
  proof -
    from p have "put_artifact env (s_scope s) (json_of_head h) (s_world s) = (Inr ref, s_world s1)"
      by (auto simp: put_json_def run_simps liftW_Inr)
    from put_get_artifact[OF ok wf_json_head this] encode_decode[OF wf_json_ref e]
    show ?thesis by (simp add: read_head_def)
  qed
  show ?thesis
  proof (cases "s_headBytes s")
    case None
    with run put show ?thesis by (auto simp: head_bytes_for_def run_simps)
  next
    case (Some b)
    with st obtain h' where "read_head env (s_scope s) b (s_world s) = Inr h'" by (auto simp: head_readable_def)
    then obtain v g where v: "decodeJson b = Inr v" "get_artifact env (s_scope s) (ref_of_json v) (s_world s) = Inr g"
      by (auto simp: read_head_def run_simps)
    show ?thesis
    proof (cases "ar_sha256 (ref_of_json v) = text_hash (e_sha env) (versioned (json_of_head h))")
      case True
      with run Some v have "hb = b" "s1 = s" by (auto simp: head_bytes_for_def run_simps)
      moreover have "g = canon (json_of_head h)"
        using get_artifact_text[OF v(2)] True cf wf_json_head by (simp add: text_hash_def)
      ultimately show ?thesis using v by (simp add: read_head_def)
    next
      case False
      with run Some v put show ?thesis by (auto simp: head_bytes_for_def run_simps)
    qed
  qed
qed

text \<open>After a publish the durable row points to the new manifest, in this session and for whoever opens the run next.\<close>

lemma publish_stores_head:
  assumes run: "publish env h changes cp ex s = (Inr u, s')" and key: "keeps_key changes"
    and ok: "gzip_ok env" "sha_ok env" and st: "head_readable env s" and cf: "collision_free env (json_text (versioned (json_of_head h)))"
  shows "\<exists>c hb. control s' = Some c \<and> c_head c = Some hb \<and> read_head env (s_scope s') hb (s_world s') = Inr (canon (json_of_head h)) \<and> head_stored env s'"
proof -
  from run obtain hb s1 w where hb: "head_bytes_for env h s = (Inr hb, s1)"
    and tx: "cache_transaction (s_scope s1) (publish_work (e_sha env) (s_scope s1) (s_headBytes s1) hb changes cp ex) (s_world s1) = (Inr (), w)"
    and s': "s' = s1\<lparr>s_world := w, s_head := h, s_headBytes := Some hb\<rparr>"
    by (auto simp: publish_def run_simps throwIfAborted_def liftW_Inr split: if_splits)
  have sc: "s_scope s1 = s_scope s" using only_writes_fields[OF framesD[OF head_bytes_writes hb]] by simp
  from cache_transaction_Inr[OF tx] have same: "get_artifact env sc ref w = get_artifact env sc ref (s_world s1)" for sc ref
    by (auto simp: get_artifact_def read_artifact_def)
  have rd: "read_head env (s_scope s') hb (s_world s') = Inr (canon (json_of_head h))"
    using head_bytes_read[OF hb ok st cf] by (simp add: read_head_def s' same sc)
  from publish_control[OF run key] obtain c where "control s' = Some c" "c_head c = s_headBytes s'" by auto
  moreover have "s_headBytes s' = Some hb" "s_head s' = h" by (simp_all add: s')
  ultimately show ?thesis using rd by (simp add: head_stored_def)
qed

text \<open>Another process, with nothing cached, opens the run on exactly that manifest.\<close>

definition other_process :: "world \<Rightarrow> world" where
  "other_process w = w\<lparr>w_cache := [], w_faults := []\<rparr>"

definition opened_on :: "run_scope \<Rightarrow> bool \<Rightarrow> artifact_head \<Rightarrow> string \<Rightarrow> world \<Rightarrow> session" where
  "opened_on sc recovery h hb w = \<lparr>s_scope = sc, s_recovered = recovery, s_local = create_index, s_head = h,
     s_headBytes = Some hb, s_broken = False, s_pending = None, s_world = w\<rparr>"

lemma head_manifest_stored: "head_manifest_ok (canon (json_of_head h))"
  by (cases "h_snapshot h") (simp_all add: head_manifest_ok_def json_of_head_def member_canon optional_member_def)

lemma reopen_on_head:
  assumes c: "control_of sc (w_db w) = Some c" "c_head c = Some hb" and rd: "read_head env sc hb w = Inr (canon (json_of_head h))"
  shows "\<exists>w1. w_db w1 = w_db w \<and> open_journal env sc recovery (other_process w) =
     (case open_session env (opened_on sc recovery h hb w1) of (Inl e, s) \<Rightarrow> (Inl e, s_world s) | (Inr _, s) \<Rightarrow> (Inr s, s_world s))"
proof -
  let ?w1 = "set_cache sc (Some c) (other_process w)"
  have ob: "observe sc (other_process w) = (Inr c, ?w1)"
    using c(1) by (simp add: observe_def cached_def other_process_def db_transaction_def take_fault_def selectControl_def control_of_def Let_def)
  have g: "get_artifact env sc ref ?w1 = get_artifact env sc ref w" for ref
    by (simp add: get_artifact_def read_artifact_def other_process_def set_cache_def)
  have "bindR (decodeJson hb) (\<lambda>v. get_artifact env sc (ref_of_json v) ?w1) = Inr (canon (json_of_head h))"
    using rd by (simp add: read_head_def g)
  with ob c(2) have "open_journal env sc recovery (other_process w) =
     (case open_session env (opened_on sc recovery h hb ?w1) of (Inl e, s) \<Rightarrow> (Inl e, s_world s) | (Inr _, s) \<Rightarrow> (Inr s, s_world s))"
    by (simp add: open_journal_def head_manifest_stored opened_on_def)
  then show ?thesis by (intro exI[of _ ?w1]) (simp add: other_process_def)
qed

lemma publish_reopens:
  assumes "publish env h changes cp ex s = (Inr u, s')" and "keeps_key changes" and "gzip_ok env" and "sha_ok env"
    and "head_readable env s" and "collision_free env (json_text (versioned (json_of_head h)))"
  shows "\<exists>hb w1. w_db w1 = w_db (s_world s') \<and> open_journal env (s_scope s') recovery (other_process (s_world s')) =
     (case open_session env (opened_on (s_scope s') recovery h hb w1) of (Inl e, t) \<Rightarrow> (Inl e, s_world t) | (Inr _, t) \<Rightarrow> (Inr t, s_world t))"
proof -
  from publish_stores_head[OF assms] obtain c hb where c: "control s' = Some c" "c_head c = Some hb"
     "read_head env (s_scope s') hb (s_world s') = Inr (canon (json_of_head h))" by blast
  from reopen_on_head[OF c(1)[unfolded control_def] c(2,3), of recovery] show ?thesis by blast
qed

end
