(* ===== verification/Checkpoints.thy ===== *)
theory Checkpoints
  imports DeliveryFacts
begin

text \<open>
  The saved state of a sync across its runs: a checkpoint carries the order of its run, an older run
  never rolls back the state or the resume point of a newer one, and what is saved is what the next run
  reads. At the end, what an operation without an expected phase does on a stale row.
\<close>

subsection \<open>The saved state reads back\<close>

lemma point_round_trip [simp]: "point_of_json (canon (json_of_point p)) = p"
  by (cases "rp_cursor p") (simp_all add: json_of_point_def point_of_json_def member_canon optional_member_def)

lemma saved_round_trip: "saved_of_json (canon (json_of_saved s)) = s\<lparr>sv_store := canon (sv_store s)\<rparr>"
  by (cases "sv_generation s") (simp_all add: json_of_saved_def saved_of_json_def member_canon optional_member_def)

lemma wf_json_saved: "wf_json (sv_store s) \<Longrightarrow> wf_json (json_of_saved s)"
  by (cases "sv_generation s"; cases "rp_cursor (sv_point s)")
    (simp_all add: json_of_saved_def json_of_point_def json_of_cursor_def json_of_strings_def optional_member_def number_text_int list_all_iff)

subsection \<open>Older runs never win\<close>

definition state_order :: "json option \<Rightarrow> int" where
  "state_order e = (case e of None \<Rightarrow> -1 | Some v \<Rightarrow> coalesce (order_member v ''runOrder'') 0)"

definition saved_value :: "run_scope \<Rightarrow> control_row \<Rightarrow> json option \<Rightarrow> saved_state option \<Rightarrow> saved_state \<Rightarrow> saved_state" where
  "saved_value sc old envelope previous cp = (case previous of None \<Rightarrow> cp | Some p \<Rightarrow> (if replaces_state old envelope then cp else p))
     \<lparr>sv_point := (if replaces_point sc old envelope cp then sv_point cp
        else case previous of None \<Rightarrow> sv_point cp | Some p \<Rightarrow> sv_point p)\<rparr>"

lemma saved_envelope_Inr:
  assumes "saved_envelope sha sc old envelope previous cp = Inr e"
  shows "order_member e ''runOrder'' = Some (if replaces_state old envelope then c_order old else state_order envelope)"
    and "order_member e ''checkpointRunOrder'' = Some (if replaces_point sc old envelope cp then c_order old else checkpoint_order envelope)"
    and "wf_json (sv_store (saved_value sc old envelope previous cp)) \<Longrightarrow> readSavedState sha e sc
       = Inr ((saved_value sc old envelope previous cp)\<lparr>sv_store := canon (sv_store (saved_value sc old envelope previous cp))\<rparr>)"
proof -
  from assms obtain enc where enc: "encodeJson (json_of_saved (saved_value sc old envelope previous cp)) (192 * 1024) = Inr enc"
    and e: "e = JObj [(''version'', JInt 2), (''workspaceId'', JStr (sc_workspaceId sc)), (''revision'', JStr (sc_configRevision sc)),
        (''targetHash'', JStr (target_hash sha sc)),
        (''runOrder'', JStr (int_text (if replaces_state old envelope then c_order old
           else case envelope of None \<Rightarrow> 0 | Some e \<Rightarrow> coalesce (order_member e ''runOrder'') 0))),
        (''checkpointRunOrder'', JStr (int_text (if replaces_point sc old envelope cp then c_order old else checkpoint_order envelope))),
        (''value'', JStr enc)]"
    by (auto simp: saved_envelope_def saved_value_def Let_def run_simps)
  have "replaces_state old None" by (simp add: replaces_state_def)
  then show "order_member e ''runOrder'' = Some (if replaces_state old envelope then c_order old else state_order envelope)"
    by (cases envelope) (simp_all add: e order_member_def text_value_int_text state_order_def)
  show "order_member e ''checkpointRunOrder'' = Some (if replaces_point sc old envelope cp then c_order old else checkpoint_order envelope)"
    by (simp add: e order_member_def text_value_int_text)
  assume "wf_json (sv_store (saved_value sc old envelope previous cp))"
  from encode_decode[OF wf_json_saved[OF this] enc]
  show "readSavedState sha e sc = Inr ((saved_value sc old envelope previous cp)\<lparr>sv_store := canon (sv_store (saved_value sc old envelope previous cp))\<rparr>)"
    by (simp add: e readSavedState_def saved_round_trip)
qed

lemma save_checkpoint_Inr:
  assumes "save_checkpoint sha sc old cp t = (Inr u, t')"
  shows "\<exists>previous e. (case select_state sc (tx_db t) of None \<Rightarrow> previous = None
        | Some v \<Rightarrow> \<exists>p. readSavedState sha v sc = Inr p \<and> previous = Some p)
     \<and> saved_envelope sha sc old (select_state sc (tx_db t)) previous cp = Inr e \<and> select_state sc (tx_db t') = Some e"
proof -
  let ?env = "select_state sc (tx_db t)"
  from assms obtain previous e where p: "case ?env of None \<Rightarrow> previous = None | Some v \<Rightarrow> \<exists>p. readSavedState sha v sc = Inr p \<and> previous = Some p"
    and e: "saved_envelope sha sc old ?env previous cp = Inr e"
    and t': "t' = (let d = tx_db t in if (case ?env of None \<Rightarrow> True
           | Some p \<Rightarrow> coalesce (order_member p ''runOrder'') 0 \<le> coalesce (order_member e ''runOrder'') 0)
       then t\<lparr>tx_db := d\<lparr>db_states := AList.update (sc_syncId sc, stateStream) e (db_states d)\<rparr>\<rparr> else t)"
    by (cases ?env) (auto simp: save_checkpoint_def run_simps split: if_splits)
  have "coalesce (order_member v ''runOrder'') 0 \<le> coalesce (order_member e ''runOrder'') 0" if "?env = Some v" for v
    using saved_envelope_Inr(1)[OF e] that by (auto simp: coalesce_def replaces_state_def state_order_def)
  then have "select_state sc (tx_db t') = Some e"
    by (cases ?env) (simp_all add: t' Let_def select_state_def)
  with p e show ?thesis by blast
qed

text \<open>The order of the saved state and the order of its resume point only grow.\<close>

lemma save_checkpoint_monotone:
  assumes "save_checkpoint sha sc old cp t = (Inr u, t')"
  shows "state_order (select_state sc (tx_db t)) \<le> state_order (select_state sc (tx_db t'))
     \<or> select_state sc (tx_db t) = None"
    and "checkpoint_order (select_state sc (tx_db t)) \<le> checkpoint_order (select_state sc (tx_db t'))"
  using save_checkpoint_Inr[OF assms] saved_envelope_Inr(1,2)
  by (auto simp: state_order_def checkpoint_order_def coalesce_def replaces_state_def replaces_point_def split: option.splits if_splits)

text \<open>A run that is older than the run of the saved resume point leaves the point as it is.\<close>

lemma save_checkpoint_fenced:
  assumes "save_checkpoint sha sc old cp t = (Inr u, t')" and "select_state sc (tx_db t) = Some v" and "readSavedState sha v sc = Inr p"
    and "c_order old < checkpoint_order (Some v)" and "wf_json (sv_store cp)" and "wf_json (sv_store p)"
  shows "\<exists>e q. select_state sc (tx_db t') = Some e \<and> readSavedState sha e sc = Inr q \<and> sv_point q = sv_point p"
proof -
  from save_checkpoint_Inr[OF assms(1)] assms(2,3) obtain e where
    e: "saved_envelope sha sc old (Some v) (Some p) cp = Inr e" "select_state sc (tx_db t') = Some e" by auto
  have "\<not> replaces_point sc old (Some v) cp" using assms(4) by (simp add: replaces_point_def)
  with saved_envelope_Inr(3)[OF e(1)] e(2) assms(5,6) show ?thesis by (auto simp: saved_value_def)
qed

subsection \<open>Transitions without an expected phase\<close>

text \<open>
  The first publish of \<open>finish\<close> compares the head but not the phase: whatever the durable phase is, it
  becomes a finish phase. A session whose cached row is stale can therefore reopen an ended run.
\<close>

lemma record_finish_overwrites:
  assumes "record_finish env res st at s = (Inr u, s')"
  shows "\<exists>old new. control s = Some old \<and> control s' = Some new \<and> c_head old = s_headBytes s
     \<and> c_phase new = (if fr_delivery res = DeliveryPending then PFinishPending else PFinishResolving)"
proof -
  from assms obtain fb b h where "publish env h (\<lambda>r. r\<lparr>c_phase := (if fr_delivery res = DeliveryPending then PFinishPending else PFinishResolving),
              c_finishResult := Some fb, c_store := Some b\<rparr>) None None s = (Inr u, s')"
    by (auto simp: record_finish_def run_simps encode_store_def split del: if_split)
  from publish_control[OF this] show ?thesis by auto
qed

end
