(* ===== verification/Schedule.thy ===== *)
theory Schedule
  imports RunState
begin

text \<open>
  When a run whose delivery is still pending is looked at again: \<open>recovery-schedule.ts\<close>, and the
  target state of a provider, \<open>target-state.ts\<close>. Times are milliseconds since the epoch, which
  \<open>toISOString\<close> and \<open>Date.parse\<close> convert without loss.
\<close>

subsection \<open>Recovery schedule\<close>

record recovery_schedule =
  sch_runId :: string
  sch_revision :: string
  sch_attempt :: int
  sch_deadline :: int
  sch_nextCheckAt :: int

definition minute :: int where
  "minute = 60000"

text \<open>\<open>Math.min(60, 30 * 1.3 ** attempt) * 60_000\<close>, truncated to milliseconds.\<close>

definition check_delay :: "nat \<Rightarrow> int" where
  "check_delay attempt = (if attempt \<le> 2 then (30 * 13 ^ attempt * minute) div 10 ^ attempt else 60 * minute)"

definition maxAttempt :: int where
  "maxAttempt = 2147483647"

definition nextRecoveryCheck :: "string \<Rightarrow> string \<Rightarrow> recovery_schedule option \<Rightarrow> int \<Rightarrow> recovery_schedule option" where
  "nextRecoveryCheck runId revision previous now =
     (let deadline = (case previous of Some p \<Rightarrow> sch_deadline p | None \<Rightarrow> now + 24 * 60 * minute) in
      if now \<ge> deadline \<or> (case previous of Some p \<Rightarrow> sch_attempt p \<ge> maxAttempt | None \<Rightarrow> False) then None
      else (let attempt = (case previous of Some p \<Rightarrow> sch_attempt p + 1 | None \<Rightarrow> 0) in
        Some \<lparr>sch_runId = runId, sch_revision = revision, sch_attempt = attempt, sch_deadline = deadline,
              sch_nextCheckAt = min (now + check_delay (nat attempt)) deadline\<rparr>))"

definition schedule_ok :: "recovery_schedule \<Rightarrow> bool" where
  "schedule_ok s \<longleftrightarrow> sch_runId s \<noteq> [] \<and> sch_revision s \<noteq> [] \<and> 0 \<le> sch_attempt s \<and> sch_attempt s \<le> maxAttempt"

lemma check_delay_bounds: "30 * minute \<le> check_delay n \<and> check_delay n \<le> 60 * minute"
proof (cases "n \<le> 2")
  case True
  then have "n = 0 \<or> n = 1 \<or> n = 2" by auto
  then show ?thesis by (auto simp: check_delay_def minute_def)
qed (simp add: check_delay_def minute_def)

text \<open>The delay is the exact value of the formula: from the third attempt on it is capped.\<close>

lemma check_delay_formula: "check_delay n = min (60 * minute) ((30 * 13 ^ n * minute) div 10 ^ n)"
proof (cases "n \<le> 2")
  case True
  then have "n = 0 \<or> n = 1 \<or> n = 2" by auto
  then show ?thesis by (auto simp: check_delay_def minute_def)
next
  case False
  then obtain m where n: "n = m + 3" by (metis add.commute le_add_diff_inverse not_less_eq_eq numeral_2_eq_2 numeral_3_eq_3)
  have "60 * minute * 10 ^ n \<le> 30 * 13 ^ n * minute"
  proof -
    have "(2::int) * 10 ^ 3 \<le> 13 ^ 3" by simp
    moreover have "(10::int) ^ m \<le> 13 ^ m" by (intro power_mono) auto
    ultimately have "(2 * 10 ^ 3) * 10 ^ m \<le> (13 ^ 3 :: int) * 13 ^ m" by (intro mult_mono) auto
    then show ?thesis by (simp add: n power_add minute_def)
  qed
  from zdiv_mono1[OF this, of "10 ^ n"] have "60 * minute \<le> (30 * 13 ^ n * minute) div 10 ^ n" by simp
  with False show ?thesis by (simp add: check_delay_def)
qed

lemma nextRecoveryCheck_Some:
  assumes "nextRecoveryCheck r v (Some s) t = Some s'"
  shows "t < sch_deadline s" "sch_deadline s' = sch_deadline s" "sch_attempt s' = sch_attempt s + 1"
    "sch_nextCheckAt s' = sch_deadline s \<or> t + 30 * minute \<le> sch_nextCheckAt s' \<and> sch_nextCheckAt s' \<le> t + 60 * minute"
    "sch_nextCheckAt s' \<le> sch_deadline s"
  using assms check_delay_bounds[of "nat (sch_attempt s + 1)"]
  by (auto simp: nextRecoveryCheck_def Let_def split: if_splits)

text \<open>
  A run of checks: each one happens no earlier than the schedule before it allows; a check that gets
  no new schedule is the last one.
\<close>

fun checks :: "string \<Rightarrow> string \<Rightarrow> recovery_schedule \<Rightarrow> int list \<Rightarrow> bool" where
  "checks r v s [] = True"
| "checks r v s (t # ts) = (sch_nextCheckAt s \<le> t \<and>
     (case nextRecoveryCheck r v (Some s) t of None \<Rightarrow> ts = [] | Some s' \<Rightarrow> checks r v s' ts))"

lemma checks_bounded:
  "checks r v s ts \<Longrightarrow> 2 \<le> length ts \<Longrightarrow> 30 * minute * (int (length ts) - 2) < sch_deadline s - sch_nextCheckAt s"
proof (induction r v s ts rule: checks.induct)
  case (2 r v s t ts)
  from "2.prems" obtain s' where s': "nextRecoveryCheck r v (Some s) t = Some s'" and rest: "checks r v s' ts"
    by (auto split: option.splits)
  note n = nextRecoveryCheck_Some[OF s']
  have t: "sch_nextCheckAt s \<le> t" using "2.prems" by simp
  show ?case
  proof (cases "2 \<le> length ts")
    case True
    from "2.IH"[OF s' rest True] n t show ?thesis by (auto simp: minute_def)
  next
    case False
    with "2.prems" n(1) t show ?thesis by (cases ts) (auto simp: minute_def)
  qed
qed simp

lemma schedule_ends:
  assumes "nextRecoveryCheck r v None t0 = Some s" and "checks r v s ts"
  shows "length ts \<le> 48"
proof (rule ccontr)
  assume "\<not> length ts \<le> 48"
  moreover have "sch_deadline s - sch_nextCheckAt s \<le> 1410 * minute"
    using assms(1) check_delay_bounds[of 0] by (auto simp: nextRecoveryCheck_def Let_def minute_def split: if_splits)
  ultimately show False using checks_bounded[OF assms(2)] by (simp add: minute_def)
qed

subsection \<open>Target state\<close>

text \<open>
  The provider's own row of the saved states. \<open>jsonb\<close> equality does not depend on the order of
  keys.
\<close>

definition target_read :: "string \<Rightarrow> string \<Rightarrow> (tx, json option) oper" where
  "target_read syncId stream = getE (\<lambda>t. map_of (db_states (tx_db t)) (syncId, stream))"

definition target_create :: "string \<Rightarrow> string \<Rightarrow> string \<Rightarrow> json \<Rightarrow> (tx, unit) oper" where
  "target_create workspaceId syncId stream value =
     bindE (getE tx_db) (\<lambda>d.
     thenE (ensure (\<not> list_ex (\<lambda>c. c_workspace c = workspaceId \<and> c_sync c = syncId) (db_controls d))
        ''Managed audience state is missing; preserve delivery state and reconcile'')
     (modifyE (\<lambda>t. if map_of (db_states d) (syncId, stream) \<noteq> None then t
        else t\<lparr>tx_db := d\<lparr>db_states := AList.update (syncId, stream) value (db_states d)\<rparr>\<rparr>)))"

definition target_compareAndSet :: "string \<Rightarrow> string \<Rightarrow> json \<Rightarrow> json \<Rightarrow> (tx, bool) oper" where
  "target_compareAndSet syncId stream expected value =
     bindE (getE tx_db) (\<lambda>d. case map_of (db_states d) (syncId, stream) of
        None \<Rightarrow> returnE False
      | Some st \<Rightarrow> if canon st = canon expected
          then thenE (modifyE (\<lambda>t. t\<lparr>tx_db := d\<lparr>db_states := AList.update (syncId, stream) value (db_states d)\<rparr>\<rparr>)) (returnE True)
          else returnE False)"

text \<open>Of two writers that expect the same state at most one succeeds, when they write something else.\<close>

lemma compareAndSet_once:
  assumes "target_compareAndSet y m e v1 t = (Inr True, t1)" and "canon v1 \<noteq> canon e"
  shows "target_compareAndSet y m e v2 t1 = (Inr False, t1)"
  using assms by (auto simp: target_compareAndSet_def bindE_def thenE_def split: option.splits if_splits)

lemma target_create_keeps:
  "target_create w y m v t = (Inr (), t') \<Longrightarrow> map_of (db_states (tx_db t)) (y, m) = Some st \<Longrightarrow>
     map_of (db_states (tx_db t')) (y, m) = Some st"
  by (auto simp: target_create_def run_simps)

end
