(* ===== verification/Lease.thy ===== *)
theory Lease
  imports Prelude
begin

text \<open>
  Worker ownership: the Kubernetes lease of \<open>lease.ts\<close>. The API server is a parameter: a call takes
  a request in a server state and answers with a status and an object. What the lease relies on is
  the documented behaviour of the API, stated as \<open>lease_api\<close> below: objects are created once,
  replaced only with the current resource version, and deleted only under their preconditions.
  Times are milliseconds.
\<close>

subsection \<open>The lease object and the API\<close>

record lease =
  l_holder :: string
  l_duration :: int
  l_renewTime :: int
  l_version :: nat
  l_uid :: nat

datatype lease_request =
    GetLease
  | PostLease lease
  | PutLease lease
  | DeleteLease nat nat

record lease_response =
  lr_status :: nat
  lr_body :: lease

type_synonym 's lease_call = "lease_request \<Rightarrow> ('s, lease_response) oper"

definition reverseResourceName :: "(string \<Rightarrow> string) \<Rightarrow> string \<Rightarrow> string" where
  "reverseResourceName sha syncId = ''reverse-'' @ take 32 (sha syncId)"

definition active :: "int \<Rightarrow> lease \<Rightarrow> bool" where
  "active now l \<longleftrightarrow> l_renewTime l + l_duration l * 1000 > now"

subsection \<open>The client\<close>

record 's lease_client =
  kl_held :: bool
  kl_api :: 's

definition api :: "('s, 'a) oper \<Rightarrow> ('s lease_client, 'a) oper" where
  "api m c = (case m (kl_api c) of (r, s) \<Rightarrow> (r, c\<lparr>kl_api := s\<rparr>))"

definition lease_for :: "string \<Rightarrow> int \<Rightarrow> nat \<Rightarrow> lease" where
  "lease_for holder now version =
     \<lparr>l_holder = holder, l_duration = 60, l_renewTime = now, l_version = version, l_uid = 0\<rparr>"

text \<open>The second half of \<open>acquire\<close>, after the read.\<close>

definition acquire_write :: "'s lease_call \<Rightarrow> string \<Rightarrow> lease_response \<Rightarrow> int \<Rightarrow> ('s lease_client, unit) oper" where
  "acquire_write call holder cur now =
     thenE (ensure (lr_status cur = 404 \<or> lr_status cur = 200) ''Kubernetes lease read failed'')
     (thenE (ensure (lr_status cur = 404 \<or> \<not> active now (lr_body cur)) ''Reverse sync already running'')
     (bindE (api (call (if lr_status cur = 404 then PostLease (lease_for holder now 0)
                        else PutLease (lease_for holder now (l_version (lr_body cur)))))) (\<lambda>saved.
      thenE (ensure (lr_status saved = 200 \<or> lr_status saved = 201) ''Kubernetes lease acquisition failed'')
      (modifyE (\<lambda>c. c\<lparr>kl_held := True\<rparr>)))))"

definition acquire :: "'s lease_call \<Rightarrow> string \<Rightarrow> int \<Rightarrow> ('s lease_client, unit) oper" where
  "acquire call holder now = bindE (api (call GetLease)) (\<lambda>cur. acquire_write call holder cur now)"

definition renew :: "'s lease_call \<Rightarrow> string \<Rightarrow> int \<Rightarrow> ('s lease_client, unit) oper" where
  "renew call holder now =
     bindE (api (call GetLease)) (\<lambda>cur. bindE (getE kl_held) (\<lambda>held.
     thenE (ensure (held \<and> lr_status cur = 200 \<and> l_holder (lr_body cur) = holder \<and> active now (lr_body cur))
        ''Kubernetes ownership lost'')
     (bindE (api (call (PutLease ((lr_body cur)\<lparr>l_renewTime := now\<rparr>)))) (\<lambda>saved.
      ensure (lr_status saved = 200) ''Kubernetes lease renewal failed''))))"

definition release :: "'s lease_call \<Rightarrow> string \<Rightarrow> ('s lease_client, unit) oper" where
  "release call holder =
     bindE (getE kl_held) (\<lambda>held. whenE held
     (bindE (api (call GetLease)) (\<lambda>cur.
      thenE (whenE (lr_status cur = 200 \<and> l_holder (lr_body cur) = holder)
         (bindE (api (call (DeleteLease (l_uid (lr_body cur)) (l_version (lr_body cur))))) (\<lambda>_. returnE ())))
      (modifyE (\<lambda>c. c\<lparr>kl_held := False\<rparr>)))))"

subsection \<open>What the client relies on\<close>

text \<open>
  \<open>view\<close> reads the stored lease. A request that is answered with an error, or not answered, may have
  been applied; one that is refused was not.
\<close>

definition same_spec :: "lease \<Rightarrow> lease \<Rightarrow> bool" where
  "same_spec a b \<longleftrightarrow> l_holder a = l_holder b \<and> l_duration a = l_duration b \<and> l_renewTime a = l_renewTime b"

definition get_law :: "'s lease_call \<Rightarrow> ('s \<Rightarrow> lease option) \<Rightarrow> bool" where
  "get_law call view \<longleftrightarrow> (\<forall>s r s'. call GetLease s = (r, s') \<longrightarrow> view s' = view s
     \<and> (\<forall>a. r = Inr a \<longrightarrow> (lr_status a = 200 \<longrightarrow> view s = Some (lr_body a)) \<and> (lr_status a = 404 \<longrightarrow> view s = None)))"

definition post_law :: "'s lease_call \<Rightarrow> ('s \<Rightarrow> lease option) \<Rightarrow> bool" where
  "post_law call view \<longleftrightarrow> (\<forall>l s r s'. call (PostLease l) s = (r, s') \<longrightarrow>
     (view s' = view s \<or> view s = None \<and> (\<exists>l'. view s' = Some l' \<and> same_spec l' l))
     \<and> (\<forall>a. r = Inr a \<longrightarrow> (lr_status a = 200 \<or> lr_status a = 201) \<longrightarrow>
           view s = None \<and> (\<exists>l'. view s' = Some l' \<and> same_spec l' l)))"

definition put_law :: "'s lease_call \<Rightarrow> ('s \<Rightarrow> lease option) \<Rightarrow> bool" where
  "put_law call view \<longleftrightarrow> (\<forall>l s r s'. call (PutLease l) s = (r, s') \<longrightarrow>
     (view s' = view s \<or> (\<exists>old l'. view s = Some old \<and> l_version old = l_version l \<and> view s' = Some l' \<and> same_spec l' l
        \<and> l_version l' > l_version old))
     \<and> (\<forall>a. r = Inr a \<longrightarrow> (lr_status a = 200 \<or> lr_status a = 201) \<longrightarrow>
           (\<exists>old l'. view s = Some old \<and> l_version old = l_version l \<and> view s' = Some l' \<and> same_spec l' l
              \<and> l_version l' > l_version old)))"

definition delete_law :: "'s lease_call \<Rightarrow> ('s \<Rightarrow> lease option) \<Rightarrow> bool" where
  "delete_law call view \<longleftrightarrow> (\<forall>uid v s r s'. call (DeleteLease uid v) s = (r, s') \<longrightarrow>
     (view s' = view s \<or> (\<exists>old. view s = Some old \<and> l_uid old = uid \<and> l_version old = v \<and> view s' = None)))"

definition lease_api :: "'s lease_call \<Rightarrow> ('s \<Rightarrow> lease option) \<Rightarrow> bool" where
  "lease_api call view \<longleftrightarrow> get_law call view \<and> post_law call view \<and> put_law call view \<and> delete_law call view"

subsection \<open>Exclusion\<close>

lemma api_run: "api m c = (r, c') \<longleftrightarrow> (\<exists>s. m (kl_api c) = (r, s) \<and> c' = c\<lparr>kl_api := s\<rparr>)"
  by (auto simp: api_def split: prod.splits)

text \<open>Acquiring needs that nobody's lease is active, and leaves the caller's own lease behind.\<close>

lemma acquire_write_Inr:
  assumes api: "lease_api call view" and run: "acquire_write call holder cur now c = (Inr (), c')"
    and cur: "lr_status cur = 200 \<Longrightarrow> view (kl_api c) = Some (lr_body cur) \<or> l_version (lr_body cur) < l_version (the (view (kl_api c)))"
  shows "(case view (kl_api c) of None \<Rightarrow> True | Some l \<Rightarrow> \<not> active now l)
     \<and> (\<exists>l. view (kl_api c') = Some l \<and> same_spec l (lease_for holder now 0)) \<and> kl_held c'"
proof -
  from run obtain s a where st: "lr_status cur = 404 \<or> lr_status cur = 200"
    and na: "lr_status cur = 404 \<or> \<not> active now (lr_body cur)"
    and call: "call (if lr_status cur = 404 then PostLease (lease_for holder now 0)
       else PutLease (lease_for holder now (l_version (lr_body cur)))) (kl_api c) = (Inr a, s)"
    and ok: "lr_status a = 200 \<or> lr_status a = 201" and c': "c' = c\<lparr>kl_api := s, kl_held := True\<rparr>"
    by (auto simp: acquire_write_def run_simps api_run)
  show ?thesis
  proof (cases "lr_status cur = 404")
    case True
    with call ok api have "view (kl_api c) = None \<and> (\<exists>l. view s = Some l \<and> same_spec l (lease_for holder now 0))"
      by (auto simp: lease_api_def post_law_def)
    with c' show ?thesis by simp
  next
    case False
    with call ok api obtain old l where old: "view (kl_api c) = Some old" "l_version old = l_version (lr_body cur)"
      and l: "view s = Some l" "same_spec l (lease_for holder now (l_version (lr_body cur)))"
      unfolding lease_api_def put_law_def by (fastforce simp: lease_for_def)
    from cur old False st have "old = lr_body cur" by auto
    with old l na False c' show ?thesis by (auto simp: same_spec_def lease_for_def)
  qed
qed

lemma acquire_Inr:
  assumes api: "lease_api call view" and run: "acquire call holder now c = (Inr (), c')"
  shows "(case view (kl_api c) of None \<Rightarrow> True | Some l \<Rightarrow> \<not> active now l)
     \<and> (\<exists>l. view (kl_api c') = Some l \<and> same_spec l (lease_for holder now 0)) \<and> kl_held c'"
proof -
  from run obtain cur s where g: "call GetLease (kl_api c) = (Inr cur, s)"
    and w: "acquire_write call holder cur now (c\<lparr>kl_api := s\<rparr>) = (Inr (), c')"
    by (auto simp: acquire_def run_simps api_run)
  from api g have v: "view s = view (kl_api c)" "lr_status cur = 200 \<Longrightarrow> view (kl_api c) = Some (lr_body cur)"
    by (auto simp: lease_api_def get_law_def)
  from acquire_write_Inr[OF api w] v show ?thesis by auto
qed

text \<open>While the lease of one worker is active, no other acquires it.\<close>

lemma acquire_excluded:
  assumes "lease_api call view" and "view (kl_api c) = Some l" and "active now l"
  shows "\<exists>e c'. acquire call holder now c = (Inl e, c')"
proof -
  obtain r c' where run: "acquire call holder now c = (r, c')" by fastforce
  with assms acquire_Inr[OF assms(1)] show ?thesis by (cases r) fastforce+
qed

text \<open>
  Two workers that both read the same expired lease: once one of them has written, the write of the
  other is refused.
\<close>

lemma acquire_race:
  assumes api: "lease_api call view" and st: "lr_status cur = 200" and same: "view (kl_api c) = Some (lr_body cur)"
    and first: "acquire_write call holder1 cur now1 c = (Inr (), c1)" and other: "kl_api c2 = kl_api c1"
  shows "\<exists>e c3. acquire_write call holder2 cur now2 c2 = (Inl e, c3)"
proof -
  from first st obtain a s where put: "call (PutLease (lease_for holder1 now1 (l_version (lr_body cur)))) (kl_api c) = (Inr a, s)"
    and ok: "lr_status a = 200 \<or> lr_status a = 201" and c1: "kl_api c1 = s"
    by (auto simp: acquire_write_def run_simps api_run)
  from api put ok same obtain l where l: "view s = Some l" "l_version (lr_body cur) < l_version l"
    unfolding lease_api_def put_law_def by (fastforce simp: lease_for_def)
  have "False" if run: "acquire_write call holder2 cur now2 c2 = (Inr (), c3)" for c3
  proof -
    from run st obtain b s' where "call (PutLease (lease_for holder2 now2 (l_version (lr_body cur)))) (kl_api c2) = (Inr b, s')"
      and "lr_status b = 200 \<or> lr_status b = 201"
      by (auto simp: acquire_write_def run_simps api_run)
    with api obtain old where "view (kl_api c2) = Some old" "l_version old = l_version (lr_body cur)"
      unfolding lease_api_def put_law_def by (fastforce simp: lease_for_def)
    with l other c1 show False by simp
  qed
  then show ?thesis by (metis old.unit.exhaust prod.exhaust sum.exhaust)
qed

text \<open>A renewal succeeds only on the caller's own, unexpired lease.\<close>

lemma renew_Inr:
  assumes api: "lease_api call view" and run: "renew call holder now c = (Inr (), c')"
  shows "kl_held c \<and> (\<exists>l l'. view (kl_api c) = Some l \<and> l_holder l = holder \<and> active now l
     \<and> view (kl_api c') = Some l' \<and> l_holder l' = holder \<and> l_renewTime l' = now \<and> l_duration l' = l_duration l)"
proof -
  from run obtain cur s a s' where g: "call GetLease (kl_api c) = (Inr cur, s)" and held: "kl_held c" "lr_status cur = 200"
      "l_holder (lr_body cur) = holder" "active now (lr_body cur)"
    and put: "call (PutLease ((lr_body cur)\<lparr>l_renewTime := now\<rparr>)) s = (Inr a, s')" and ok: "lr_status a = 200"
    and c': "c' = c\<lparr>kl_api := s'\<rparr>"
    by (auto simp: renew_def run_simps api_run)
  from api g held have v: "view s = view (kl_api c)" "view (kl_api c) = Some (lr_body cur)"
    by (auto simp: lease_api_def get_law_def)
  from api put ok obtain l' where "view s' = Some l'" "same_spec l' ((lr_body cur)\<lparr>l_renewTime := now\<rparr>)"
    unfolding lease_api_def put_law_def by fastforce
  with v held c' show ?thesis by (auto simp: same_spec_def)
qed

text \<open>Releasing never removes the lease of another holder.\<close>

lemma release_keeps_others:
  assumes api: "lease_api call view" and run: "release call holder c = (r, c')"
    and l: "view (kl_api c) = Some l" "l_holder l \<noteq> holder"
  shows "view (kl_api c') = Some l"
proof (cases "kl_held c")
  case True
  obtain g s where g: "call GetLease (kl_api c) = (g, s)" by fastforce
  then have v: "view s = Some l" and b: "\<And>a. g = Inr a \<Longrightarrow> lr_status a = 200 \<Longrightarrow> lr_body a = l"
    using api l unfolding lease_api_def get_law_def by (metis option.inject)+
  from run True g l(2) b have "kl_api c' = s"
    by (cases g) (auto simp: release_def bindE_def thenE_def whenE_def api_def split: if_splits)
  with v show ?thesis by simp
next
  case False
  with run l show ?thesis by (simp add: release_def bindE_def whenE_def)
qed

subsection \<open>A server that obeys the laws\<close>

definition answer :: "nat \<Rightarrow> lease option \<Rightarrow> lease_response" where
  "answer n l = \<lparr>lr_status = n, lr_body = (case l of None \<Rightarrow> lease_for [] 0 0 | Some x \<Rightarrow> x)\<rparr>"

fun etcd_call :: "lease_request \<Rightarrow> (lease option, lease_response) oper" where
  "etcd_call GetLease s = (Inr (answer (if s = None then 404 else 200) s), s)"
| "etcd_call (PostLease l) s = (if s = None then (Inr (answer 201 (Some l)), Some (l\<lparr>l_version := 1, l_uid := 1\<rparr>))
     else (Inr (answer 409 None), s))"
| "etcd_call (PutLease l) s = (case s of None \<Rightarrow> (Inr (answer 404 None), s)
     | Some old \<Rightarrow> if l_version old = l_version l
         then (Inr (answer 200 (Some l)), Some (l\<lparr>l_version := Suc (l_version old), l_uid := l_uid old\<rparr>))
         else (Inr (answer 409 None), s))"
| "etcd_call (DeleteLease uid v) s = (case s of None \<Rightarrow> (Inr (answer 404 None), s)
     | Some old \<Rightarrow> if l_uid old = uid \<and> l_version old = v then (Inr (answer 200 (Some old)), None) else (Inr (answer 409 None), s))"

lemma etcd_obeys: "lease_api etcd_call id"
  by (auto simp: lease_api_def get_law_def post_law_def put_law_def delete_law_def answer_def same_spec_def
      split: option.splits if_splits)

end
