(* ===== verification/Progress.thy ===== *)
theory Progress
  imports Delivery
begin

text \<open>
  What a run reports of its delivery: the aggregate counts and the progress messages of
  \<open>progress.ts\<close>, with the counts of \<open>reverse-etl-stats.ts\<close>. Nothing here decides about delivery.
  Writing a message or the statistics may fail; the outcome of each write is taken from a list.
\<close>

subsection \<open>Statistics\<close>

datatype report_status = RsPrepared | RsUnconfirmed | RsPending | RsAccepted | RsRejected | RsPartial | RsCancelled

record batch_counts =
  bc_total :: nat
  bc_prepared :: nat
  bc_unconfirmed :: nat
  bc_pending :: nat
  bc_accepted :: nat
  bc_rejected :: nat
  bc_partial :: nat
  bc_cancelled :: nat

record record_counts =
  rc_total :: int
  rc_prepared :: int
  rc_unconfirmed :: int
  rc_pending :: int
  rc_accepted :: int
  rc_rejected :: int
  rc_cancelled :: int

datatype replacement_report = NotStarted | Replacement replacement_status

record delivery_stats =
  ds_runId :: string
  ds_upsert :: batch_counts
  ds_remove :: batch_counts
  ds_accepted :: nat
  ds_pending :: nat
  ds_rejected :: nat
  ds_upsertRecords :: record_counts
  ds_removeRecords :: record_counts
  ds_replacement :: "replacement_report option"

definition empty_counts :: batch_counts where
  "empty_counts = \<lparr>bc_total = 0, bc_prepared = 0, bc_unconfirmed = 0, bc_pending = 0, bc_accepted = 0, bc_rejected = 0,
     bc_partial = 0, bc_cancelled = 0\<rparr>"

definition empty_records :: record_counts where
  "empty_records = \<lparr>rc_total = 0, rc_prepared = 0, rc_unconfirmed = 0, rc_pending = 0, rc_accepted = 0, rc_rejected = 0,
     rc_cancelled = 0\<rparr>"

definition batch_report :: "batch_head \<Rightarrow> report_status" where
  "batch_report b =
     (if b_status b = BPrepared then RsPrepared
      else if b_status b = BUnknown then RsUnconfirmed
      else if b_status b = BCancelled then RsCancelled
      else if b_staged b > 0 then RsPending
      else if int (b_accepted b) = batch_size b then RsAccepted
      else if int (b_rejected b) = batch_size b then RsRejected
      else RsPartial)"

definition count_batch :: "report_status \<Rightarrow> batch_counts \<Rightarrow> batch_counts" where
  "count_batch r c = (let c' = c\<lparr>bc_total := bc_total c + 1\<rparr> in
     case r of
       RsPrepared \<Rightarrow> c'\<lparr>bc_prepared := bc_prepared c + 1\<rparr>
     | RsUnconfirmed \<Rightarrow> c'\<lparr>bc_unconfirmed := bc_unconfirmed c + 1\<rparr>
     | RsPending \<Rightarrow> c'\<lparr>bc_pending := bc_pending c + 1\<rparr>
     | RsAccepted \<Rightarrow> c'\<lparr>bc_accepted := bc_accepted c + 1\<rparr>
     | RsRejected \<Rightarrow> c'\<lparr>bc_rejected := bc_rejected c + 1\<rparr>
     | RsPartial \<Rightarrow> c'\<lparr>bc_partial := bc_partial c + 1\<rparr>
     | RsCancelled \<Rightarrow> c'\<lparr>bc_cancelled := bc_cancelled c + 1\<rparr>)"

definition count_records :: "batch_head \<Rightarrow> record_counts \<Rightarrow> record_counts" where
  "count_records b c =
     (let sz = batch_size b; remaining = sz - int (b_accepted b) - int (b_rejected b);
          c' = c\<lparr>rc_total := rc_total c + sz, rc_accepted := rc_accepted c + int (b_accepted b),
                 rc_rejected := rc_rejected c + int (b_rejected b)\<rparr> in
      case b_status b of
        BPrepared \<Rightarrow> c'\<lparr>rc_prepared := rc_prepared c + remaining\<rparr>
      | BUnknown \<Rightarrow> c'\<lparr>rc_unconfirmed := rc_unconfirmed c + remaining\<rparr>
      | BCancelled \<Rightarrow> c'\<lparr>rc_cancelled := rc_cancelled c + remaining\<rparr>
      | BAcknowledged \<Rightarrow> c'\<lparr>rc_pending := rc_pending c + int (b_staged b)\<rparr>)"

definition add_batch :: "batch_head \<Rightarrow> delivery_stats \<Rightarrow> delivery_stats" where
  "add_batch b d =
     (let d' = d\<lparr>ds_accepted := ds_accepted d + b_accepted b, ds_pending := ds_pending d + b_staged b,
                 ds_rejected := ds_rejected d + b_rejected b\<rparr> in
      case b_action b of
        Upsert \<Rightarrow> d'\<lparr>ds_upsert := count_batch (batch_report b) (ds_upsert d), ds_upsertRecords := count_records b (ds_upsertRecords d)\<rparr>
      | Remove \<Rightarrow> d'\<lparr>ds_remove := count_batch (batch_report b) (ds_remove d), ds_removeRecords := count_records b (ds_removeRecords d)\<rparr>)"

text \<open>The timestamp of the observation is left out: every use in the source removes it first.\<close>

definition batchStatistics :: "artifact_head \<Rightarrow> delivery_stats" where
  "batchStatistics h = fold add_batch (h_batches h)
     \<lparr>ds_runId = h_runId h, ds_upsert = empty_counts, ds_remove = empty_counts, ds_accepted = 0, ds_pending = 0, ds_rejected = 0,
      ds_upsertRecords = empty_records, ds_removeRecords = empty_records,
      ds_replacement = (case h_snapshot h of None \<Rightarrow> None
        | Some sn \<Rightarrow> if sn_native sn then Some (case sn_replacementStatus sn of None \<Rightarrow> NotStarted | Some r \<Rightarrow> Replacement r) else None)\<rparr>"

record delivery_totals =
  dt_batches :: nat
  dt_submittedBatches :: nat
  dt_records :: int
  dt_submitted :: nat
  dt_accepted :: nat
  dt_pending :: nat
  dt_rejected :: nat
  dt_unconfirmed :: int
  dt_cancelled :: int

definition submitted_of :: "batch_head \<Rightarrow> nat" where
  "submitted_of b = (case b_submittedRecords b of None \<Rightarrow> b_accepted b + b_staged b | Some n \<Rightarrow> n)"

definition add_totals :: "batch_head \<Rightarrow> delivery_totals \<Rightarrow> delivery_totals" where
  "add_totals b t = \<lparr>dt_batches = dt_batches t + 1,
     dt_submittedBatches = dt_submittedBatches t + (if submitted_of b > 0 then 1 else 0),
     dt_records = dt_records t + batch_size b, dt_submitted = dt_submitted t + submitted_of b,
     dt_accepted = dt_accepted t + b_accepted b, dt_pending = dt_pending t + b_staged b, dt_rejected = dt_rejected t + b_rejected b,
     dt_unconfirmed = dt_unconfirmed t + (if unresolved b then batch_size b else 0),
     dt_cancelled = dt_cancelled t + (if b_status b = BCancelled then batch_size b - int (b_accepted b) - int (b_rejected b) else 0)\<rparr>"

definition deliveryTotals :: "artifact_head \<Rightarrow> action \<Rightarrow> delivery_totals" where
  "deliveryTotals h act = fold add_totals (filter (\<lambda>b. b_action b = act) (h_batches h))
     \<lparr>dt_batches = 0, dt_submittedBatches = 0, dt_records = 0, dt_submitted = 0, dt_accepted = 0, dt_pending = 0, dt_rejected = 0,
      dt_unconfirmed = 0, dt_cancelled = 0\<rparr>"

subsection \<open>Conservation\<close>

definition counts_sum :: "batch_counts \<Rightarrow> nat" where
  "counts_sum c = bc_prepared c + bc_unconfirmed c + bc_pending c + bc_accepted c + bc_rejected c + bc_partial c + bc_cancelled c"

definition records_sum :: "record_counts \<Rightarrow> int" where
  "records_sum c = rc_prepared c + rc_unconfirmed c + rc_pending c + rc_accepted c + rc_rejected c + rc_cancelled c"

text \<open>The counts of an acknowledged batch cover it.\<close>

definition counts_ok :: "batch_head \<Rightarrow> bool" where
  "counts_ok b \<longleftrightarrow> b_status b = BAcknowledged \<longrightarrow> int (b_accepted b + b_staged b + b_rejected b) = batch_size b"

lemma count_batch_sum: "bc_total c = counts_sum c \<Longrightarrow> bc_total (count_batch r c) = counts_sum (count_batch r c)"
  by (cases r) (simp_all add: count_batch_def counts_sum_def)

lemma count_batch_total: "bc_total (count_batch r c) = bc_total c + 1"
  by (cases r) (simp_all add: count_batch_def)

lemma count_records_sum: "counts_ok b \<Longrightarrow> rc_total c = records_sum c \<Longrightarrow> rc_total (count_records b c) = records_sum (count_records b c)"
  by (cases "b_status b") (auto simp: count_records_def records_sum_def counts_ok_def Let_def)

definition stats_balanced :: "delivery_stats \<Rightarrow> bool" where
  "stats_balanced d \<longleftrightarrow> bc_total (ds_upsert d) = counts_sum (ds_upsert d) \<and> bc_total (ds_remove d) = counts_sum (ds_remove d)
     \<and> rc_total (ds_upsertRecords d) = records_sum (ds_upsertRecords d)
     \<and> rc_total (ds_removeRecords d) = records_sum (ds_removeRecords d)"

lemma add_batch_balanced: "counts_ok b \<Longrightarrow> stats_balanced d \<Longrightarrow> stats_balanced (add_batch b d)"
  by (cases "b_action b") (simp_all add: stats_balanced_def add_batch_def Let_def count_batch_sum count_records_sum)

lemma fold_add_batch_balanced: "list_all counts_ok bs \<Longrightarrow> stats_balanced d \<Longrightarrow> stats_balanced (fold add_batch bs d)"
  by (induction bs arbitrary: d) (simp_all add: add_batch_balanced)

lemma batchStatistics_balanced: "list_all counts_ok (h_batches h) \<Longrightarrow> stats_balanced (batchStatistics h)"
  unfolding batchStatistics_def
  by (rule fold_add_batch_balanced) (simp_all add: stats_balanced_def empty_counts_def empty_records_def counts_sum_def records_sum_def)

lemma fold_add_batch_totals:
  "bc_total (ds_upsert (fold add_batch bs d)) + bc_total (ds_remove (fold add_batch bs d))
   = bc_total (ds_upsert d) + bc_total (ds_remove d) + length bs"
proof (induction bs arbitrary: d)
  case (Cons b bs)
  then show ?case by (cases "b_action b") (simp_all add: add_batch_def Let_def count_batch_total)
qed simp

lemma fold_add_totals:
  "dt_records (fold add_totals bs t) = dt_records t + sum_list (map batch_size bs)
   \<and> dt_submitted (fold add_totals bs t) = dt_submitted t + sum_list (map submitted_of bs)
   \<and> dt_batches (fold add_totals bs t) = dt_batches t + length bs"
  by (induction bs arbitrary: t) (simp_all add: add_totals_def)

subsection \<open>Progress of a run\<close>

record seen_batch =
  sn_status :: batch_status
  sn_accepted :: nat
  sn_staged :: nat
  sn_rejected :: nat
  sn_submitted :: nat
  sn_restored :: bool

record run_progress =
  pg_deliveryChanged :: bool
  pg_baseline :: "delivery_stats option"
  pg_lastStats :: "delivery_stats option"
  pg_lastPlan :: string
  pg_summarized :: bool
  pg_lastReplacement :: "replacement_status option"
  pg_batches :: "(string \<times> seen_batch) list"
  pg_writeStats :: bool
  pg_messages :: "string list"
  pg_statistics :: "delivery_stats list"
  pg_outcomes :: "bool list"

definition new_progress :: "bool \<Rightarrow> bool list \<Rightarrow> run_progress" where
  "new_progress ws outcomes = \<lparr>pg_deliveryChanged = False, pg_baseline = None, pg_lastStats = None, pg_lastPlan = [],
     pg_summarized = False, pg_lastReplacement = None, pg_batches = [], pg_writeStats = ws, pg_messages = [], pg_statistics = [],
     pg_outcomes = outcomes\<rparr>"

definition next_outcome :: "run_progress \<Rightarrow> bool \<times> run_progress" where
  "next_outcome p = (case pg_outcomes p of [] \<Rightarrow> (True, p) | b # bs \<Rightarrow> (b, p\<lparr>pg_outcomes := bs\<rparr>))"

text \<open>A failed write is reported on the error stream only.\<close>

definition log_message :: "string \<Rightarrow> run_progress \<Rightarrow> bool \<times> run_progress" where
  "log_message m p = (let (ok, p') = next_outcome p in (ok, if ok then p'\<lparr>pg_messages := pg_messages p' @ [m]\<rparr> else p'))"

definition write_statistics :: "artifact_head \<Rightarrow> run_progress \<Rightarrow> run_progress" where
  "write_statistics h p =
     (if \<not> pg_writeStats p \<or> pg_lastStats p = Some (batchStatistics h) then p
      else let (ok, p') = next_outcome p in
        if ok then p'\<lparr>pg_statistics := pg_statistics p' @ [batchStatistics h], pg_lastStats := Some (batchStatistics h)\<rparr> else p')"

abbreviation num :: "int \<Rightarrow> string" where
  "num n \<equiv> int_text n"

definition projected_text :: "comparison \<Rightarrow> int \<Rightarrow> int option \<Rightarrow> string" where
  "projected_text c m excluded = '', '' @ num m @ '' projected members, '' @ num (m - uniqueMembers c)
     @ '' duplicates collapsed, '' @ num (case excluded of None \<Rightarrow> 0 | Some n \<Rightarrow> n) @ '' source rows excluded by projection''"

definition plan_text :: "snapshot_head \<Rightarrow> string" where
  "plan_text sn = (case sn_summary sn of
      None \<Rightarrow> ''Original mirror comparison counts are unavailable for this older run; saved delivery totals remain available.''
    | Some su \<Rightarrow> (let c = su_comparison su in
        if sn_native sn then
          ''Full audience replacement: '' @ num (int (sn_keys sn)) @ '' source rows, '' @ num (uniqueMembers c) @ '' unique members''
          @ (case su_projectedMembers su of None \<Rightarrow> [] | Some m \<Rightarrow> projected_text c m (su_excludedRows su))
          @ ''. All '' @ num (uniqueMembers c)
          @ '' members will be uploaded, including unchanged members. Older audience membership is cleaned up only after every upload is accepted.''
        else
          ''Mirror comparison (entire logical run): '' @ num (baselineMembers c) @ '' previously acknowledged members; ''
          @ num (newMembers c) @ '' new, '' @ num (changedMembers c) @ '' changed, '' @ num (refreshMembers c)
          @ '' unchanged due for expiry refresh, '' @ num (unchangedMembers c) @ '' unchanged skipped, '' @ num (cmp_removals c)
          @ '' to remove. Snapshot: '' @ num (int (sn_keys sn)) @ '' source rows, '' @ num (uniqueMembers c) @ '' unique members''
          @ (case su_projectedMembers su of None \<Rightarrow> ''; original duplicate count unavailable''
             | Some m \<Rightarrow> projected_text c m (su_excludedRows su))
          @ ''.''))"

fun replacement_text :: "replacement_status \<Rightarrow> string" where
  "replacement_text RPrepared = ''Submitting full-audience cleanup; all snapshot uploads are accepted.''"
| "replacement_text RPending = ''Google is processing full-audience cleanup; the next status check will poll the saved request.''"
| "replacement_text RAccepted = ''Full-audience cleanup accepted. Google does not report the number of members removed.''"

definition current_batch :: "bool \<Rightarrow> seen_batch option \<Rightarrow> batch_head \<Rightarrow> seen_batch" where
  "current_batch restored previous b = \<lparr>sn_status = b_status b, sn_accepted = b_accepted b, sn_staged = b_staged b,
     sn_rejected = b_rejected b, sn_submitted = submitted_of b,
     sn_restored = (restored \<or> (case previous of None \<Rightarrow> False | Some x \<Rightarrow> sn_restored x))\<rparr>"

fun action_label :: "action \<Rightarrow> string" where
  "action_label Upsert = ''additions/upserts''"
| "action_label Remove = ''removals''"

definition newly_submitted :: "seen_batch option \<Rightarrow> seen_batch \<Rightarrow> int" where
  "newly_submitted previous cur = int (sn_submitted cur) - (case previous of None \<Rightarrow> 0 | Some x \<Rightarrow> int (sn_submitted x))"

definition batch_message :: "seen_batch option \<Rightarrow> seen_batch \<Rightarrow> batch_head \<Rightarrow> string" where
  "batch_message previous cur b = (let records = num (batch_size b); act = action_label (b_action b) in
     case b_status b of
       BPrepared \<Rightarrow> ''Preparing '' @ records @ '' '' @ act @ ''.''
     | BUnknown \<Rightarrow> ''Confirmation missing for '' @ records @ '' '' @ act @ ''; check destination status before retrying.''
     | BCancelled \<Rightarrow> ''Cancelled '' @ num (batch_size b - int (b_accepted b) - int (b_rejected b)) @ '' '' @ act @ ''; ''
         @ num (int (b_accepted b)) @ '' previously accepted, '' @ num (int (b_rejected b)) @ '' rejected in this batch.''
     | BAcknowledged \<Rightarrow>
         (if newly_submitted previous cur > 0 \<and> \<not> sn_restored cur
          then ''Submitted '' @ num (newly_submitted previous cur) @ '' '' @ act @ ''; ''
          else ''Status updated for '' @ records @ '' '' @ act @ '': '')
         @ num (int (b_accepted b)) @ '' accepted, '' @ num (int (b_staged b)) @ '' pending processing, ''
         @ num (int (b_rejected b)) @ '' rejected in this batch.'')"

definition observe_batch :: "bool \<Rightarrow> batch_head \<Rightarrow> run_progress \<Rightarrow> run_progress" where
  "observe_batch restored b p =
     (let previous = map_of (pg_batches p) (b_id b); cur = current_batch restored previous b in
      if restored then p\<lparr>pg_batches := AList.update (b_id b) cur (pg_batches p)\<rparr>
      else if previous = Some cur then p
      else let (ok, p') = log_message (batch_message previous cur b) p in
        if ok then p'\<lparr>pg_batches := AList.update (b_id b) cur (pg_batches p')\<rparr> else p')"

definition observe_plan :: "artifact_head \<Rightarrow> run_progress \<Rightarrow> run_progress" where
  "observe_plan h p = (case h_snapshot h of
      None \<Rightarrow> p
    | Some sn \<Rightarrow> if sn_sealed sn \<and> plan_text sn \<noteq> pg_lastPlan p
        then let (ok, p') = log_message (plan_text sn) p in if ok then p'\<lparr>pg_lastPlan := plan_text sn\<rparr> else p'
        else p)"

definition observe_replacement :: "bool \<Rightarrow> artifact_head \<Rightarrow> run_progress \<Rightarrow> run_progress" where
  "observe_replacement restored h p =
     (let rs = (case h_snapshot h of None \<Rightarrow> None | Some sn \<Rightarrow> sn_replacementStatus sn) in
      if restored then p\<lparr>pg_lastReplacement := rs\<rparr>
      else case rs of
          None \<Rightarrow> p
        | Some r \<Rightarrow> if rs \<noteq> pg_lastReplacement p
            then let (ok, p') = log_message (replacement_text r) p in if ok then p'\<lparr>pg_lastReplacement := rs\<rparr> else p'
            else p)"

definition observe_head :: "artifact_head \<Rightarrow> bool \<Rightarrow> run_progress \<Rightarrow> run_progress" where
  "observe_head h restored p =
     (let fingerprint = batchStatistics h;
          p1 = p\<lparr>pg_deliveryChanged := (pg_deliveryChanged p \<or> (\<not> restored \<and> pg_baseline p \<noteq> None \<and> pg_baseline p \<noteq> Some fingerprint)),
                 pg_baseline := Some fingerprint\<rparr>;
          p2 = write_statistics h p1; p3 = observe_plan h p2; p4 = observe_replacement restored h p3 in
      fold (observe_batch restored) (h_batches h) p4)"

definition totals_text :: "delivery_totals \<Rightarrow> string" where
  "totals_text t = num (int (dt_submitted t)) @ '' confirmed submitted in '' @ num (int (dt_submittedBatches t)) @ '' batches; ''
     @ num (int (dt_accepted t)) @ '' accepted, '' @ num (int (dt_pending t)) @ '' pending processing, ''
     @ num (int (dt_rejected t)) @ '' rejected, '' @ num (dt_unconfirmed t) @ '' prepared/unconfirmed, ''
     @ num (dt_cancelled t) @ '' cancelled''"

definition replacement_summary :: "replacement_status option \<Rightarrow> string" where
  "replacement_summary st = '' Full-audience cleanup: ''
     @ (case st of None \<Rightarrow> ''not started'' | Some RPrepared \<Rightarrow> ''prepared/unconfirmed'' | Some RPending \<Rightarrow> ''pending'' | Some RAccepted \<Rightarrow> ''accepted'')
     @ ''; removed-member count is not provided by Google.''
     @ (if st = Some RPrepared then '' Cleanup may have reached Google; do not replay without checking its outcome.'' else [])
     @ (if st = None then '' Cleanup waits for every snapshot upload to be accepted.'' else [])"

definition remaining_text :: "bool \<Rightarrow> snapshot_summary \<Rightarrow> delivery_totals \<Rightarrow> delivery_totals \<Rightarrow> string" where
  "remaining_text native su additions removals = (let c = su_comparison su in
     if native then '' Not yet prepared: '' @ num (max 0 (uniqueMembers c - dt_records additions)) @ '' snapshot members.''
     else (let planned = newMembers c + changedMembers c + refreshMembers c;
               ra = max 0 (planned - dt_records additions); rr = max 0 (cmp_removals c - dt_records removals) in
       '' Not yet prepared: '' @ num ra @ '' additions/updates/refreshes, '' @ num rr @ '' removals.''
       @ (if rr \<noteq> 0 \<and> int (dt_accepted additions) < planned then '' Removals are blocked until all additions/updates/refreshes are accepted.'' else [])
       @ (if planned = 0 \<and> cmp_removals c = 0 then '' No audience changes or expiry refreshes needed.'' else [])))"

definition summary_text :: "artifact_head \<Rightarrow> string" where
  "summary_text h =
     (let additions = deliveryTotals h Upsert; removals = deliveryTotals h Remove;
          native = (case h_snapshot h of None \<Rightarrow> False | Some sn \<Rightarrow> sn_native sn) in
      ''Delivery totals (entire logical run, including earlier attempts): ''
      @ (if native then ''full-snapshot uploads'' else ''additions/upserts'') @ '': '' @ totals_text additions @ ''.''
      @ (if native then replacement_summary (case h_snapshot h of None \<Rightarrow> None | Some sn \<Rightarrow> sn_replacementStatus sn)
         else '' Removals: '' @ totals_text removals @ ''.'')
      @ (if dt_unconfirmed additions \<noteq> 0 \<or> dt_unconfirmed removals \<noteq> 0
         then '' Unconfirmed batches may have reached the destination; they are not safe to replay blindly.'' else [])
      @ (if list_ex (\<lambda>b. b_status b = BAcknowledged \<and> b_submittedRecords b = None) (h_batches h)
         then '' Older receipts may not retain the exact submitted count; confirmed submission totals are a lower bound.'' else [])
      @ (case h_snapshot h of None \<Rightarrow> [] | Some sn \<Rightarrow> (case sn_summary sn of None \<Rightarrow> []
           | Some su \<Rightarrow> remaining_text native su additions removals)))"

definition summarize :: "artifact_head \<Rightarrow> run_progress \<Rightarrow> run_progress" where
  "summarize h p = (let p1 = write_statistics h p in
     if pg_summarized p1 then p1
     else let (ok, p2) = log_message (summary_text h) p1 in p2\<lparr>pg_summarized := ok\<rparr>)"

subsection \<open>Restored submissions are not announced again\<close>

definition restored_id :: "run_progress \<Rightarrow> string \<Rightarrow> bool" where
  "restored_id p i = (case map_of (pg_batches p) i of None \<Rightarrow> False | Some x \<Rightarrow> sn_restored x)"

lemma log_message_batches [simp]: "log_message m p = (ok, p') \<Longrightarrow> pg_batches p' = pg_batches p"
  by (auto simp: log_message_def next_outcome_def split: list.splits prod.splits if_splits)

lemma observe_batch_restored: "restored_id p i \<Longrightarrow> restored_id (observe_batch r b p) i"
  by (auto simp: observe_batch_def restored_id_def current_batch_def Let_def split: option.splits prod.splits if_splits)

lemma observe_batch_marks: "restored_id (observe_batch True b p) (b_id b)"
  by (simp add: observe_batch_def restored_id_def current_batch_def Let_def)

lemma fold_observe_restored: "restored_id p i \<Longrightarrow> restored_id (fold (observe_batch r) bs p) i"
  by (induction bs arbitrary: p) (simp_all add: observe_batch_restored)

lemma fold_observe_marks: "i \<in> b_id ` set bs \<Longrightarrow> restored_id (fold (observe_batch True) bs p) i"
proof (induction bs arbitrary: p)
  case (Cons b bs)
  then show ?case by (auto simp: observe_batch_marks intro: fold_observe_restored)
qed simp

lemma write_statistics_batches [simp]: "pg_batches (write_statistics h p) = pg_batches p"
  by (auto simp: write_statistics_def next_outcome_def split: list.splits prod.splits if_splits)

lemma observe_plan_batches [simp]: "pg_batches (observe_plan h p) = pg_batches p"
  by (auto simp: observe_plan_def split: option.splits prod.splits if_splits)

lemma observe_replacement_batches [simp]: "pg_batches (observe_replacement r h p) = pg_batches p"
  by (auto simp: observe_replacement_def Let_def split: option.splits prod.splits if_splits)

lemma observe_head_restored: "restored_id p i \<Longrightarrow> restored_id (observe_head h r p) i"
  unfolding observe_head_def Let_def by (rule fold_observe_restored) (simp add: restored_id_def)

lemma observe_head_marks: "i \<in> b_id ` set (h_batches h) \<Longrightarrow> restored_id (observe_head h True p) i"
  unfolding observe_head_def Let_def by (rule fold_observe_marks)

lemma restored_message:
  "sn_restored cur \<Longrightarrow> take 10 (batch_message previous cur b) \<noteq> ''Submitted ''"
  by (cases "b_status b") (simp_all add: batch_message_def Let_def)

end
