(* ===== verification/Examples.thy ===== *)
theory Examples
  imports Evaluation Admission Reopen Checkpoints Schedule Lease Progress Failure LocalFacts
begin

text \<open>
  Concrete data the witnesses of the properties evaluate on: an environment with a toy digest and a
  toy compression, a scope, a database with one run, sessions on it in a given phase, a batch of one
  record, and a provider that accepts every record. The digest \<open>example_sha\<close> has the shape of a
  SHA-256 digest; the short digest \<open>tiny_sha\<close> keeps the evaluation of whole operations small.
\<close>

lemma returned: "fst p = Inr a \<Longrightarrow> p = (Inr a, snd p)"
  by (metis prod.collapse)

subsection \<open>Environment\<close>

definition example_sha :: "string \<Rightarrow> string" where
  "example_sha t = replicate 64 (digit_char (length t mod 10))"

lemma digit_char_hex: "n < 10 \<Longrightarrow> hex_char (digit_char n)"
proof -
  have "list_all (\<lambda>n. hex_char (digit_char n)) [0..<10]" by code_simp
  then show "n < 10 \<Longrightarrow> ?thesis" by (simp add: list_all_iff)
qed

lemma example_sha_hex: "hex64 (example_sha t)"
  by (simp add: example_sha_def hex64_def digit_char_hex list_all_iff)

definition tiny_sha :: "string \<Rightarrow> string" where
  "tiny_sha t = nat_text (length t)"

definition example_scope :: run_scope where
  "example_scope = \<lparr>sc_workspaceId = ''w'', sc_syncId = ''s'', sc_taskId = ''t'', sc_logicalRunId = ''r'', sc_configRevision = ''1'',
     sc_targetIdentity = ''a'', sc_mode = ModeUpsert, sc_extraction = ExtractFull, sc_insertOnly = False\<rparr>"

definition example_env :: journal_env where
  "example_env = \<lparr>e_sha = example_sha, e_gzip = Cons CHR ''z'', e_gunzip = (\<lambda>t n. Some (tl t)), e_store = \<lparr>cf_cloud = Gcs, cf_prefix = []\<rparr>,
     e_limits = defaultLimits, e_projection = (\<lambda>act row. Inr [\<lparr>id_identity = row, id_upsert = row, id_remove = row\<rparr>])\<rparr>"

lemma example_env_ok: "gzip_ok example_env" "sha_ok example_env"
  by (simp_all add: gzip_ok_def sha_ok_def example_env_def example_sha_hex)

definition tiny_env :: journal_env where
  "tiny_env = example_env\<lparr>e_sha := tiny_sha\<rparr>"

subsection \<open>A database and a session\<close>

definition empty_world :: world where
  "empty_world = \<lparr>w_bucket = \<lparr>bk_objects = [], bk_faults = []\<rparr>, w_aborted = False,
     w_db = \<lparr>db_controls = [], db_states = [], db_owners = []\<rparr>, w_faults = [], w_cache = [],
     w_now = ''2024-01-01T00:00:00.000Z''\<rparr>"

lemma empty_world_ok: "db_ok (w_db empty_world)"
  by (simp add: empty_world_def db_ok_def rows_ok_def owned_ok_def owners_ok_def)

definition example_row :: "phase \<Rightarrow> int \<Rightarrow> control_row" where
  "example_row ph n = \<lparr>c_workspace = ''w'', c_sync = ''s'', c_run = ''r'', c_order = 1, c_detached = False, c_revision = ''1'',
     c_targetHash = ''a'', c_phase = ph, c_mode = ModeUpsert, c_extraction = ExtractFull, c_head = None, c_base = 0, c_next = n,
     c_checkpoint = 0, c_finishSequence = (if ph = PFinishAccepted then Some n else None), c_store = None, c_providerState = None, c_finishResult = None, c_generation = None\<rparr>"

definition example_head :: artifact_head where
  "example_head = \<lparr>h_runId = ''r'', h_baseline = [], h_snapshot = None, h_batches = []\<rparr>"

definition example_session :: "phase \<Rightarrow> int \<Rightarrow> session" where
  "example_session ph n = \<lparr>s_scope = example_scope, s_recovered = False, s_local = create_index, s_head = example_head, s_headBytes = None,
     s_broken = False, s_pending = None,
     s_world = empty_world\<lparr>w_db := \<lparr>db_controls = [example_row ph n], db_states = [], db_owners = []\<rparr>\<rparr>\<rparr>"

lemma example_fields [simp]:
  "s_scope (example_session ph n) = example_scope" "s_head (example_session ph n) = example_head"
  "s_local (example_session ph n) = create_index" "s_headBytes (example_session ph n) = None"
  "c_head (example_row ph n) = None" "c_phase (example_row ph n) = ph" "c_next (example_row ph n) = n" "sc_mode example_scope = ModeUpsert"
  by (simp_all add: example_session_def example_row_def example_scope_def)

lemma example_control: "control (example_session ph n) = Some (example_row ph n)"
  by (simp add: control_def control_of_def example_session_def example_row_def control_key_def scope_key_def example_scope_def)

lemma example_coherent: "coherent (example_session ph n)"
  by (simp add: coherent_def example_session_def cached_def empty_world_def)

lemma example_serving: "serving (example_session ph n)"
  by (simp add: serving_def example_session_def empty_world_def)

lemma example_sound: "0 \<le> n \<Longrightarrow> sound (example_session ph n)"
  by (simp add: sound_def example_coherent example_control row_ok_def example_row_def)
    (simp add: example_session_def example_head_def)

subsection \<open>A batch\<close>

definition example_key :: string where
  "example_key = replicate 64 CHR ''a''"

definition example_batch :: prepared_batch where
  "example_batch = \<lparr>pb_id = ''21'', pb_action = Upsert,
     pb_records = [\<lparr>rec_key = example_key, rec_seq = 1, rec_row = JObj [], rec_op = ''97''\<rparr>], pb_payloadHash = ''4'', pb_cursor = None\<rparr>"

definition example_effects :: "effect list list" where
  "example_effects = [[\<lparr>id_identity = JObj [], id_upsert = JObj [], id_remove = JObj [], ef_identityHash = ''2'', ef_payloadHash = ''2''\<rparr>]]"

lemma example_batch_checked:
  "check_prepare tiny_env example_scope example_head create_index (example_row PRunning 0) False example_batch = Inr (example_effects, 1)"
  by code_simp

lemma example_batch_storable: "batch_storable tiny_env example_batch example_effects 1 (example_session PRunning 0)"
  by code_simp

lemma example_batch_indexed:
  "case index_batch (batch_head_for tiny_env example_scope example_batch example_effects 1)
     \<lparr>bd_batch = example_batch, bd_effects = example_effects\<rparr> None create_index of Inr _ \<Rightarrow> True | Inl _ \<Rightarrow> False"
  by code_simp

lemma example_copies: "copy_batch example_batch = Inr example_batch" "copy (JObj []) = Inr (JObj [])"
  "encodeJson (JObj []) 65536 = Inr ''{\"version\":1,\"value\":{}}''"
  by code_simp+

lemma example_prepare: "\<exists>s'. prepare tiny_env example_batch (JObj []) False (example_session PRunning 0) = (Inr (), s')"
proof -
  obtain li where "index_batch (batch_head_for tiny_env example_scope example_batch example_effects 1)
     \<lparr>bd_batch = example_batch, bd_effects = example_effects\<rparr> None create_index = Inr li"
    using example_batch_indexed by (auto split: sum.splits)
  then show ?thesis
    by (intro prepare_returns[OF example_serving example_coherent example_control _ _ _ example_copies _ example_batch_storable])
      (simp_all add: example_batch_checked)
qed

subsection \<open>A provider\<close>

text \<open>It never touches the journal and answers every call.\<close>

definition example_answer :: json where
  "example_answer = JObj [(''delivery'', JStr ''accepted'')]"

definition example_provider :: "('j, unit) provider" where
  "example_provider = \<lparr>p_createWriter = returnE \<lparr>wm_remove = True, wm_reconcile = True\<rparr>, p_init = returnE (),
     p_upsert = (\<lambda>b. returnE example_answer), p_remove = (\<lambda>b. returnE example_answer), p_finish = returnE example_answer,
     p_abort = (\<lambda>c. returnE ())\<rparr>"

definition example_hooks :: "('j, unit) recovery_hooks" where
  "example_hooks = \<lparr>rh_attachWriter = returnE \<lparr>wm_remove = True, wm_reconcile = True\<rparr>,
     rh_reconcileBatch = Some (\<lambda>b act res. returnE example_answer), rh_reconcileFinish = Some (\<lambda>r. returnE example_answer),
     rh_reconcileInit = Some (returnE ''absent''), rh_reconcileAbort = Some (returnE ())\<rparr>"

lemma example_provider_keeps: "provider_keeps K example_provider" "hooks_keep K example_hooks"
  "optional_hooks_keep K (Some example_hooks)"
  by (simp_all add: provider_keeps_def hooks_keep_def optional_hooks_keep_def external_keeps_def example_provider_def example_hooks_def)

definition example_attempt :: "phase \<Rightarrow> (session, unit) recovery_state" where
  "example_attempt ph = recovery_start (example_session ph 0) () \<lparr>ss_state = [], ss_maxBytes = 65536\<rparr> []"

lemma example_attempt_journal [simp]: "r_journal (example_attempt ph) = example_session ph 0"
  by (simp add: example_attempt_def recovery_start_def)

subsection \<open>Options and a source\<close>

definition example_stream :: stream_metadata where
  "example_stream = \<lparr>st_name = ''people'', st_rowType = \<lparr>rt_parse = Some, rt_shape = None\<rparr>,
     st_removeRowType = Some \<lparr>rt_parse = Some, rt_shape = None\<rparr>, st_options = Some, st_batchSize = 100, st_asynchronous = False,
     st_caps = \<lparr>supportsUpsert = True, supportsExplicitRemove = True, cap_mirror = SnapshotDiff, cap_replay = IdempotencyKey\<rparr>\<rparr>"

definition example_options :: run_options where
  "example_options = \<lparr>ro_stream = example_stream, ro_scope = example_scope, ro_fullRefresh = True, ro_options = JObj [],
     ro_mapping = [(''id'', ''id'')], ro_sourceKeyField = ''id'', ro_checkpointEvery = 1000, ro_maxBatchBytes = 1000000\<rparr>"

definition example_mirror_options :: mirror_options where
  "example_mirror_options = \<lparr>mo_mirrorSession = True, mo_stream = example_stream,
     mo_scope = example_scope\<lparr>sc_mode := ModeMirror\<rparr>, mo_asynchronous = False, mo_baseline = TrackedBaseline, mo_options = JObj [],
     mo_maxBatchBytes = 1000000, mo_limits = defaultLimits, mo_refreshAfterMs = None, mo_rowType = Some,
     mo_project = (\<lambda>row. Inr [\<lparr>id_identity = row, id_upsert = row, id_remove = row\<rparr>]), mo_mapping = [(''id'', ''id'')],
     mo_sourcePageSize = None\<rparr>"

definition example_source :: "source_record list \<times> unit result" where
  "example_source = ([\<lparr>sr_key = example_key, sr_row = [(''id'', JInt 1)], sr_deleted = False, sr_checkpoint = None\<rparr>], Inr ())"

definition example_store :: sync_store where
  "example_store = \<lparr>ss_state = [], ss_maxBytes = 65536\<rparr>"

definition example_mirror_state :: "phase \<Rightarrow> (session, unit) mirror_state" where
  "example_mirror_state ph = mirror_start (example_session ph 0) () []"

definition example_run_state :: "phase \<Rightarrow> (session, unit) run_state" where
  "example_run_state ph = initial_state (example_session ph 0) () example_store []"

lemma example_journals [simp]:
  "r_journal (example_mirror_state ph) = example_session ph 0" "r_journal (example_run_state ph) = example_session ph 0"
  by (simp_all add: example_mirror_state_def mirror_start_def example_run_state_def initial_state_def)

subsection \<open>A mirror session\<close>

definition example_sealed :: snapshot_head where
  "example_sealed = \<lparr>sn_native = False, sn_replacementStatus = None, sn_sealed = True, sn_parts = [], sn_keys = 0, sn_entries = 0,
     sn_bytes = 0, sn_page = 0, sn_pageHash = [], sn_refreshBefore = None, sn_summary = None\<rparr>"

definition example_member :: "string \<times> member_row" where
  "example_member = (''2'', \<lparr>m_payload = Some ''2'', m_value = Some (hd (hd example_effects)), m_at = [], m_seq = 0, m_uncertain = False\<rparr>)"

definition example_mirror_session :: "phase \<Rightarrow> (string \<times> member_row) list \<Rightarrow> session" where
  "example_mirror_session ph ms = (example_session ph 0)\<lparr>s_scope := example_scope\<lparr>sc_mode := ModeMirror\<rparr>,
     s_head := example_head\<lparr>h_snapshot := Some example_sealed\<rparr>, s_local := create_index\<lparr>li_members := ms\<rparr>\<rparr>"

lemma example_mirror_fields [simp]:
  "s_local (example_mirror_session ph ms) = create_index\<lparr>li_members := ms\<rparr>"
  "s_head (example_mirror_session ph ms) = example_head\<lparr>h_snapshot := Some example_sealed\<rparr>"
  "control (example_mirror_session ph ms) = Some (example_row ph 0)" "coherent (example_mirror_session ph ms) = coherent (example_session ph 0)"
  by (simp_all add: example_mirror_session_def control_def control_of_def coherent_def example_session_def cached_def scope_key_def
      example_scope_def example_row_def control_key_def)

lemma example_mirror_sound: "sound (example_mirror_session ph [])"
  by (simp add: sound_def example_coherent row_ok_def example_row_def example_head_def)
    (simp add: index_ok_def create_index_def)

subsection \<open>A lost acknowledgement\<close>

text \<open>The transaction commits, but its reply is lost.\<close>

definition example_unlucky :: "phase \<Rightarrow> session" where
  "example_unlucky ph = (example_session ph 0)\<lparr>s_world := (s_world (example_session ph 0))\<lparr>w_faults := [Some TxLostAck]\<rparr>\<rparr>"

subsection \<open>A digest without a collision on one text\<close>

definition example_text :: string where
  "example_text = json_text (versioned (json_of_head example_head))"

definition marked_sha :: "string \<Rightarrow> string" where
  "marked_sha t = replicate 64 (if t = example_text then CHR ''f'' else CHR ''0'')"

definition marked_env :: journal_env where
  "marked_env = example_env\<lparr>e_sha := marked_sha\<rparr>"

lemma marked_env_ok: "gzip_ok marked_env" "sha_ok marked_env" "collision_free marked_env example_text"
proof -
  have hex: "hex_char CHR ''f''" "hex_char CHR ''0''" by code_simp+
  show "gzip_ok marked_env" using example_env_ok(1) by (simp add: gzip_ok_def marked_env_def)
  show "sha_ok marked_env" using hex by (simp add: sha_ok_def marked_env_def marked_sha_def hex64_def list_all_iff)
  show "collision_free marked_env example_text" by (simp add: collision_free_def marked_env_def marked_sha_def)
qed

lemma marked_publishable: "publishable marked_env example_head (example_session PNew 0)"
  by code_simp

subsection \<open>Saved state of a newer run\<close>

definition example_envelope :: json where
  "example_envelope = JObj [(''version'', JInt 2), (''workspaceId'', JStr ''w''), (''revision'', JStr ''1''), (''targetHash'', JStr ''3''),
     (''runOrder'', JStr ''5''), (''checkpointRunOrder'', JStr ''5''),
     (''value'', JStr ''{\"version\":1,\"value\":{\"point\":{\"sourceSequence\":7},\"store\":{}}}'')]"

definition example_tx :: tx where
  "example_tx = \<lparr>tx_db = \<lparr>db_controls = [], db_states = [((''s'', stateStream), example_envelope)], db_owners = []\<rparr>, tx_pending = None\<rparr>"

definition example_saved :: saved_state where
  "example_saved = \<lparr>sv_point = \<lparr>rp_seq = 3, rp_cursor = None\<rparr>, sv_store = JObj [], sv_generation = None\<rparr>"

subsection \<open>A stale cache\<close>

text \<open>This process still has the row of a prepared finish; another one has completed the run on the same head.\<close>

definition example_stale :: session where
  "example_stale = (let w = s_world (example_session PComplete 0) in
     (example_session PComplete 0)\<lparr>s_world := w\<lparr>w_cache := [(scope_key example_scope, (example_row PFinishPrepared 0)\<lparr>c_finishSequence := Some 0\<rparr>)]\<rparr>\<rparr>)"

subsection \<open>A lease and a schedule\<close>

definition example_lease :: lease where
  "example_lease = (lease_for ''old'' 0 1)\<lparr>l_uid := 1\<rparr>"

lemma example_first_check: "case nextRecoveryCheck ''r'' ''v'' None 0 of None \<Rightarrow> False | Some s \<Rightarrow> sch_nextCheckAt s \<le> 3600000"
  by code_simp

end
