(* ===== verification/Completion.thy ===== *)
theory Completion
  imports MirrorJournal
begin

text \<open>
  What it means that an attempt reports an accepted delivery: the journal was committed. The commit
  law of the journal is the interface; every client that may report acceptance, the upsert run, the
  snapshot mirror, its resumption and the recovery of a run, is shown to report it only behind a
  commit that returned. On the fenced journal the run is then durably complete.
\<close>

locale completing_journal = core_journal J K for J :: "'j core_ops" and K :: "'j \<Rightarrow> 'j \<Rightarrow> bool" +
  fixes completed :: "'j \<Rightarrow> bool"
  assumes commit_completes: "j_commitCheckpoint J point st True j = (Inr u, j') \<Longrightarrow> completed j'"
    and status_completed: "K j0 j \<Longrightarrow> k_recoveryStatus J j = (Inr r, j') \<Longrightarrow> rs_phase r = PComplete \<Longrightarrow> completed j'"
    and snapshot_status_completed: "completed j \<Longrightarrow> completed (snd (k_status J j))"
begin

text \<open>A computation settles when every accepted result it returns has a completed journal behind it.\<close>

definition settles :: "('a \<Rightarrow> bool) \<Rightarrow> (('j, 'p, 'z) attempt_scheme, 'a) oper \<Rightarrow> bool" where
  "settles acc m \<longleftrightarrow> (\<forall>s r s'. m s = (Inr r, s') \<longrightarrow> acc r \<longrightarrow> completed (r_journal s'))"

lemma settlesD: "settles acc m \<Longrightarrow> m s = (Inr r, s') \<Longrightarrow> acc r \<Longrightarrow> completed (r_journal s')"
  by (simp add: settles_def)

lemma settles_bind: "(\<And>a. settles acc (f a)) \<Longrightarrow> settles acc (bindE m f)"
  by (fastforce simp: settles_def run_simps)

lemma settles_then: "settles acc n \<Longrightarrow> settles acc (thenE m n)"
  by (fastforce simp: settles_def run_simps)

lemma settles_catch: "settles acc m \<Longrightarrow> (\<And>e. settles acc (h e)) \<Longrightarrow> settles acc (catchE m h)"
  by (fastforce simp: settles_def catchE_def split: prod.splits sum.splits)

lemma settles_throw: "settles acc (throwE e)"
  by (simp add: settles_def run_simps)

lemma settles_return: "\<not> acc a \<Longrightarrow> settles acc (returnE a)"
  by (simp add: settles_def run_simps)

lemma settles_if: "(b \<Longrightarrow> settles acc m) \<Longrightarrow> (\<not> b \<Longrightarrow> settles acc n) \<Longrightarrow> settles acc (if b then m else n)"
  by simp

lemma settles_pair: "(\<And>a b. settles acc (f a b)) \<Longrightarrow> settles acc (case p of (a, b) \<Rightarrow> f a b)"
  by (cases p) simp

lemma settles_hook: "(\<And>f. settles acc (g f)) \<Longrightarrow> settles acc (required_hook h msg g)"
  by (cases h) (auto simp: required_hook_def settles_def run_simps)

lemma settles_commit:
  "settles acc (thenE (journal_call ev (j_commitCheckpoint J point st True)) (returnE a))"
  by (auto simp: settles_def run_simps journal_call_def trace_def split: prod.splits sum.splits dest: commit_completes)

lemma settles_commit_when:
  assumes "acc a \<Longrightarrow> b"
  shows "settles acc (thenE (whenE b (bindE snapshot_store (\<lambda>st. journal_call ev (j_commitCheckpoint J point st True)))) (returnE a))"
  using assms
  by (auto simp: settles_def run_simps snapshot_store_def journal_call_def trace_def split: prod.splits sum.splits if_splits dest: commit_completes)

lemmas settle_rules = settles_commit settles_throw settles_then settles_bind settles_if settles_pair settles_hook

subsection \<open>The upsert run\<close>

abbreviation accepted_run :: "delivery \<times> int \<Rightarrow> bool" where
  "accepted_run r \<equiv> fst r = DeliveryAccepted"

lemma end_run_settles: "settles accepted_run (end_run J P opts)"
  unfolding end_run_def
  by (intro settle_rules settles_return) simp_all

lemma run_settles: "settles accepted_run (runReverseEtl sha J P opts src)"
  unfolding runReverseEtl_def run_body_def rethrow_redacted_def
  by (intro settles_then settles_bind settles_catch settles_if settles_throw end_run_settles)

subsection \<open>The snapshot mirror\<close>

abbreviation accepted_mirror :: "(delivery \<times> int) option \<Rightarrow> bool" where
  "accepted_mirror r \<equiv> (case r of None \<Rightarrow> False | Some d \<Rightarrow> fst d = DeliveryAccepted)"

lemma finish_mirror_settles: "settles accepted_mirror (finish_mirror J P recovered)"
  unfolding finish_mirror_def
  by (intro settles_commit_when settles_then settles_bind) simp

lemma deliver_kinds_settles: "settles accepted_mirror (deliver_kinds fuel sha J P opts recovered pend kinds)"
proof (induction kinds)
  case (Cons kind kinds)
  then show ?case by (auto intro!: settle_rules settles_return)
qed (simp add: finish_mirror_settles)

lemma deliver_mirror_settles: "settles accepted_mirror (deliver_mirror fuel sha J P opts recovered pend)"
  unfolding deliver_mirror_def by (intro settle_rules deliver_kinds_settles)

lemma mirror_settles: "settles accepted_mirror (runSnapshotMirror fuel sha J P opts report src)"
  unfolding runSnapshotMirror_def mirror_body_def
  by (intro settles_then settles_bind settles_catch settles_throw deliver_mirror_settles)

subsection \<open>Recovery\<close>

abbreviation accepted_recovery :: "recovery_result option \<Rightarrow> bool" where
  "accepted_recovery r \<equiv> r = Some RecoveredAccepted"

lemma commit_recovered_settles: "settles accepted_recovery (commit_recovered J n)"
  unfolding commit_recovered_def by (intro settle_rules)

lemma recovery_settles: "settles accepted_recovery (recoverRun fuel sha J P hooks sc independent)"
  unfolding recoverRun_def recover_finish_def recover_batches_def finish_recovered_def recover_cleanup_def
  by (intro settles_throw settles_if settles_pair settles_hook commit_recovered_settles settles_return settles_then settles_bind) simp_all

subsection \<open>The resumed mirror\<close>

lemma resume_finish_settles: "rs_phase status \<noteq> PComplete \<Longrightarrow> settles accepted_mirror (resume_finish J H status)"
  unfolding resume_finish_def Let_def
  by (intro settles_if settles_hook settles_commit_when settles_return settles_then settles_bind) auto

lemma resume_delivery_settles: "settles accepted_mirror (resume_delivery fuel sha J P H opts status)"
  unfolding resume_delivery_def
  by (auto intro!: settles_if settles_then settles_bind settles_return deliver_mirror_settles)

lemma resume_settles:
  assumes "K j0 (r_journal s)" and "resumeSnapshotMirror fuel sha J P H opts recovery s = (Inr r, s')" and "accepted_mirror r"
  shows "completed (r_journal s')"
proof -
  from assms(2) obtain s1 s2 status s3 sn s4 where begun: "setup_mirror J opts s = (Inr (), s1)"
    and sig: "observe_signal s1 = (Inr (), s2)"
    and status: "journal_read (k_recoveryStatus J) s2 = (Inr status, s3)" and sn: "journal_read (k_status J) s3 = (Inr sn, s4)"
    and rest: "(if finish_phase (rs_phase status) \<or> rs_phase status = PComplete then resume_finish J H status
       else thenE (ensure (rs_phase status = PRunning) ''Recover provider initialization before mirror delivery'')
         (resume_delivery fuel sha J P H opts status)) s4 = (Inr r, s')"
    unfolding resumeSnapshotMirror_def by (auto simp: run_simps simp del: if_split split del: if_split)
  have "K j0 (r_journal s1)" using kept_snd[OF setup_mirror_kept[of opts] assms(1)] begun by simp
  then have k2: "K j0 (r_journal s2)" using kept_snd[OF kept_signal(2)] sig by fastforce
  show ?thesis
  proof (cases "rs_phase status = PComplete")
    case True
    from status have "k_recoveryStatus J (r_journal s2) = (Inr status, r_journal s3)"
      by (auto simp: journal_read_def split: prod.splits)
    from status_completed[OF k2 this True] have "completed (r_journal s3)" .
    then have "completed (r_journal s4)" using snapshot_status_completed sn
      by (auto simp: journal_read_def split: prod.splits) (metis snd_conv)
    with rest True show ?thesis by (auto simp: resume_finish_def Let_def run_simps finish_phase_def)
  next
    case False
    then have "settles accepted_mirror (if finish_phase (rs_phase status) \<or> rs_phase status = PComplete then resume_finish J H status
       else thenE (ensure (rs_phase status = PRunning) ''Recover provider initialization before mirror delivery'')
         (resume_delivery fuel sha J P H opts status))"
      by (auto intro!: settles_then resume_finish_settles resume_delivery_settles)
    from settlesD[OF this rest assms(3)] show ?thesis .
  qed
qed

end

subsection \<open>The fenced journal\<close>

definition run_complete :: "session \<Rightarrow> bool" where
  "run_complete s \<longleftrightarrow> (\<exists>c. control s = Some c \<and> c_phase c = PComplete)"

lemma publish_complete:
  assumes "publish env h (\<lambda>r. r\<lparr>c_checkpoint := n, c_phase := PComplete, c_generation := g, c_store := b\<rparr>) cp None s = (Inr u, s')"
  shows "run_complete s'"
proof -
  have "keeps_key (\<lambda>r. r\<lparr>c_checkpoint := n, c_phase := PComplete, c_generation := g, c_store := b\<rparr>)"
    by (simp add: keeps_key_def control_key_def)
  from publish_control[OF assms this] show ?thesis by (auto simp: run_complete_def)
qed

lemma commit_run_complete: "commitCheckpoint env point store True s = (Inr u, s') \<Longrightarrow> run_complete s'"
  unfolding commitCheckpoint_def copyE_def encode_store_def Let_def
  by (auto simp: run_simps simp del: whenE_Inr elim!: publish_complete)

lemma recoveryStatus_complete:
  assumes "coherent s" and "recoveryStatus s = (Inr r, s')" and "rs_phase r = PComplete"
  shows "run_complete s'"
proof -
  from assms(2,3) obtain c where "current s = (Inr c, s')" "c_phase c = PComplete"
    by (auto simp: recoveryStatus_def run_simps split: option.splits)
  then show ?thesis using current_Inr[of s c s'] assms(1) by (auto simp: run_complete_def observed_control)
qed

interpretation complete: completing_journal "core_facade env ago" reach.on_track run_complete for env ago
  by (intro completing_journal.intro core.core_journal_axioms completing_journal_axioms.intro)
    (auto simp: core_facade_def delivery_facade_def journal_ops.defs snapshot_status_def reach.on_track_def
      intro: commit_run_complete recoveryStatus_complete)

end
