(* ===== verification/Watch.thy ===== *)
theory Watch
  imports Completion Progress
begin

text \<open>
  The journal under observation: \<open>execute.ts\<close> sets \<open>onPublish\<close> so that the progress of the run observes
  every head the session publishes. An operation is followed by an observation when it moved the
  head; observing never fails. The operations of the session, wrapped in this way, satisfy every journal interface
  the bare ones satisfy, and the flag \<open>deliveryChanged\<close> is exact: unless it is set, the statistics of the
  head are those of the head the run was opened on.
\<close>

record watched =
  wt_session :: session
  wt_progress :: run_progress

definition watch :: "(session, 'a) oper \<Rightarrow> (watched, 'a) oper" where
  "watch m w = (case m (wt_session w) of (r, s) \<Rightarrow>
     (r, \<lparr>wt_session = s, wt_progress = (if s_head s = s_head (wt_session w) then wt_progress w
        else observe_head (s_head s) False (wt_progress w))\<rparr>))"

definition watch_journal :: "(session, 'z) journal_ops_scheme \<Rightarrow> watched journal_ops" where
  "watch_journal J = \<lparr>j_assertReady = watch (j_assertReady J), j_prepareInit = (\<lambda>st. watch (j_prepareInit J st)),
     j_acknowledgeInit = (\<lambda>st. watch (j_acknowledgeInit J st)), j_prepareAbort = watch (j_prepareAbort J),
     j_acknowledgeAbort = watch (j_acknowledgeAbort J), j_prepare = (\<lambda>b st ind. watch (j_prepare J b st ind)),
     j_acknowledge = (\<lambda>i res st. watch (j_acknowledge J i res st)), j_markUnknown = (\<lambda>i. watch (j_markUnknown J i)),
     j_saveProviderState = (\<lambda>st. watch (j_saveProviderState J st)), j_sealExtraction = (\<lambda>n st. watch (j_sealExtraction J n st)),
     j_prepareFinish = (\<lambda>n st. watch (j_prepareFinish J n st)),
     j_acknowledgeFinish = (\<lambda>fin st. watch (j_acknowledgeFinish J fin st)),
     j_commitCheckpoint = (\<lambda>p st whole. watch (j_commitCheckpoint J p st whole))\<rparr>"

definition watch_core :: "session core_ops \<Rightarrow> watched core_ops" where
  "watch_core J = journal_ops.extend (watch_journal J) \<lparr>k_state = watch (k_state J), k_recoveryStatus = watch (k_recoveryStatus J),
     k_recoveryPage = (\<lambda>i n. watch (k_recoveryPage J i n)), k_recoveryBatch = (\<lambda>i. watch (k_recoveryBatch J i)),
     k_resetInit = (\<lambda>i st. watch (k_resetInit J i st)), k_acknowledgeRecovered = (\<lambda>i res st. watch (k_acknowledgeRecovered J i res st)),
     k_acknowledgeRecoveredFinish = (\<lambda>fin st. watch (k_acknowledgeRecoveredFinish J fin st)),
     k_finalPoint = (\<lambda>n. watch (k_finalPoint J n)), k_strategy = watch (k_strategy J),
     k_start = (\<lambda>ms native. watch (k_start J ms native)), k_append = (\<lambda>rows n. watch (k_append J rows n)),
     k_seal = (\<lambda>counts. watch (k_seal J counts)), k_page = (\<lambda>kind i n. watch (k_page J kind i n)), k_status = watch (k_status J)\<rparr>"

lemma watch_session: "wt_session (snd (watch m w)) = snd (m (wt_session w))"
  by (simp add: watch_def split: prod.splits)

lemma watch_Inr: "watch m w = (Inr a, w') \<Longrightarrow> m (wt_session w) = (Inr a, wt_session w')"
  by (auto simp: watch_def split: prod.splits)

lemmas watch_defs = watch_core_def watch_journal_def journal_ops.defs

text \<open>A relation on sessions, read on observed sessions.\<close>

definition on_session :: "(session \<Rightarrow> session \<Rightarrow> bool) \<Rightarrow> watched \<Rightarrow> watched \<Rightarrow> bool" where
  "on_session K w0 w \<longleftrightarrow> K (wt_session w0) (wt_session w)"

text \<open>Observing a session changes nothing the session promises.\<close>

locale session_journal = completing_journal J K completed
  for J :: "session core_ops" and K :: "session \<Rightarrow> session \<Rightarrow> bool" and completed :: "session \<Rightarrow> bool"

sublocale session_journal \<subseteq> watching: completing_journal "watch_core J" "on_session K" "\<lambda>w. completed (wt_session w)"
  by unfold_locales
    (simp_all add: watch_defs on_session_def watch_session operation_keeps core_keeps,
     auto dest!: watch_Inr intro: commit_completes status_completed snapshot_status_completed)

interpretation phases: session_journal "core_facade env ago" reach.on_track run_complete for env ago
  ..

lemma sound_completing: "completing_journal (core_facade env ago) (\<lambda>_. sound) run_complete"
  by (intro completing_journal.intro sound_core.core_journal_axioms completing_journal_axioms.intro)
    (auto simp: core_facade_def delivery_facade_def journal_ops.defs snapshot_status_def sound_def
      intro: commit_run_complete recoveryStatus_complete)

interpretation soundness: session_journal "core_facade env ago" "\<lambda>_. sound" run_complete for env ago
  by (rule session_journal.intro[OF sound_completing])

subsection \<open>The flag of a changed delivery\<close>

text \<open>The baseline is the head as it was last observed; an unset flag means that no publish changed the statistics.\<close>

definition unchanged_since :: "watched \<Rightarrow> watched \<Rightarrow> bool" where
  "unchanged_since w0 w \<longleftrightarrow> pg_baseline (wt_progress w) = Some (batchStatistics (s_head (wt_session w)))
     \<and> (\<not> pg_deliveryChanged (wt_progress w) \<longrightarrow> batchStatistics (s_head (wt_session w)) = batchStatistics (s_head (wt_session w0)))"

lemma log_message_flags:
  "pg_deliveryChanged (snd (log_message m p)) = pg_deliveryChanged p" "pg_baseline (snd (log_message m p)) = pg_baseline p"
  by (auto simp: log_message_def next_outcome_def Let_def split: list.splits prod.splits)

lemma write_statistics_flags [simp]:
  "pg_deliveryChanged (write_statistics h p) = pg_deliveryChanged p" "pg_baseline (write_statistics h p) = pg_baseline p"
  by (auto simp: write_statistics_def next_outcome_def Let_def split: list.splits prod.splits)

lemma observe_batch_flags [simp]:
  "pg_deliveryChanged (observe_batch r b p) = pg_deliveryChanged p" "pg_baseline (observe_batch r b p) = pg_baseline p"
  using log_message_flags by (auto simp: observe_batch_def Let_def split: prod.splits) (metis snd_conv)+

lemma fold_observe_flags [simp]:
  "pg_deliveryChanged (fold (observe_batch r) bs p) = pg_deliveryChanged p" "pg_baseline (fold (observe_batch r) bs p) = pg_baseline p"
  by (induction bs arbitrary: p) simp_all

lemma observe_plan_flags [simp]:
  "pg_deliveryChanged (observe_plan h p) = pg_deliveryChanged p" "pg_baseline (observe_plan h p) = pg_baseline p"
  using log_message_flags by (auto simp: observe_plan_def Let_def split: option.splits prod.splits) (metis snd_conv)+

lemma observe_replacement_flags [simp]:
  "pg_deliveryChanged (observe_replacement r h p) = pg_deliveryChanged p" "pg_baseline (observe_replacement r h p) = pg_baseline p"
  using log_message_flags by (auto simp: observe_replacement_def Let_def split: option.splits prod.splits) (metis snd_conv)+

lemma observe_head_flags:
  "pg_baseline (observe_head h restored p) = Some (batchStatistics h)"
  "pg_deliveryChanged (observe_head h restored p) \<longleftrightarrow> pg_deliveryChanged p
     \<or> (\<not> restored \<and> pg_baseline p \<noteq> None \<and> pg_baseline p \<noteq> Some (batchStatistics h))"
  by (simp_all add: observe_head_def Let_def)

lemma watch_unchanged: "unchanged_since w0 w \<Longrightarrow> unchanged_since w0 (snd (watch m w))"
  by (auto simp: unchanged_since_def watch_def observe_head_flags split: prod.splits)

interpretation delivery_flag: core_journal "watch_core J" unchanged_since for J
  by unfold_locales (simp_all add: watch_defs watch_unchanged)

end
