(* ===== verification/Tasks.thy ===== *)
theory Tasks
  imports Schedule
begin

text \<open>
  The task rows of the runner, \<open>tasks.ts\<close>: what a worker pod may do to the row of its task. Rows are
  shared with the scheduler and the console, which cancel tasks and queue recoveries; every statement
  names the rows it may change by status and by the worker that holds the task. JSON columns are
  records of the members the statements read and write.
\<close>

subsection \<open>Rows\<close>

text \<open>\<open>metrics.reverseRecovery\<close>: the schedule, and what the scheduler and a failed refresh add to it.\<close>

record task_recovery = recovery_schedule +
  tr_suspended :: bool
  tr_previousStatus :: "string option"

record task_worker =
  wk_id :: string
  wk_active :: bool
  wk_previousStatus :: "string option"

record task_metrics =
  tm_recovery :: "task_recovery option"
  tm_worker :: "task_worker option"
  tm_delivery :: "json option"

record task_row =
  t_sync :: string
  t_task :: string
  t_package :: string
  t_status :: string
  t_workspace :: "string option"
  t_trigger :: string
  t_recoveryOf :: "string option"
  t_description :: "string option"
  t_error :: "string option"
  t_metrics :: task_metrics
  t_startedAt :: int
  t_updatedAt :: int

record log_row =
  lg_level :: string
  lg_message :: string
  lg_sync :: string
  lg_task :: string

record task_tables = database +
  td_tasks :: "task_row list"
  td_log :: "log_row list"

text \<open>The tables, the faults of the transactions to come, and the clocks of the database and of the process.\<close>

record task_world =
  tw_db :: task_tables
  tw_faults :: "tx_fault option list"
  tw_clock :: int
  tw_now :: int

subsection \<open>Transactions\<close>

definition task_fault :: "task_world \<Rightarrow> tx_fault option \<times> task_world" where
  "task_fault w = (case tw_faults w of [] \<Rightarrow> (None, w) | f # fs \<Rightarrow> (f, w\<lparr>tw_faults := fs\<rparr>))"

definition task_transaction :: "(task_tables, 'a) oper \<Rightarrow> (task_world, 'a) oper" where
  "task_transaction work w =
     (let (f, w1) = task_fault w in
      if f = Some TxNoConnection then (Inl (PersistenceError ''Reverse ETL database connection failed''), w1)
      else case work (tw_db w1) of
          (Inl e, _) \<Rightarrow> (Inl (persistence_error e), w1)
        | (Inr a, d) \<Rightarrow> (case f of
              None \<Rightarrow> (Inr a, w1\<lparr>tw_db := d\<rparr>)
            | Some TxLostAck \<Rightarrow> (Inl (PersistenceError ''Reverse ETL persistence transaction failed''), w1\<lparr>tw_db := d\<rparr>)
            | Some _ \<Rightarrow> (Inl (PersistenceError ''Reverse ETL persistence transaction failed''), w1)))"

text \<open>\<open>UPDATE\<close>: the number of rows that matched.\<close>

definition update_tasks :: "(task_row \<Rightarrow> bool) \<Rightarrow> (task_row \<Rightarrow> task_row) \<Rightarrow> (task_tables, nat) oper" where
  "update_tasks P f d = (Inr (length (filter P (td_tasks d))), d\<lparr>td_tasks := map (\<lambda>t. if P t then f t else t) (td_tasks d)\<rparr>)"

definition insert_log :: "log_row \<Rightarrow> (task_tables, unit) oper" where
  "insert_log l = modifyE (\<lambda>d. d\<lparr>td_log := td_log d @ [l]\<rparr>)"

subsection \<open>The task of a worker\<close>

record task_handle =
  tk_sync :: string
  tk_task :: string
  tk_workspace :: "string option"
  tk_worker :: string

definition runner_package :: string where
  "runner_package = ''jitsu/retl-runner''"

definition own_row :: "task_handle \<Rightarrow> task_row \<Rightarrow> bool" where
  "own_row h t \<longleftrightarrow> t_sync t = tk_sync h \<and> t_task t = tk_task h"

definition worker_is :: "string \<Rightarrow> bool \<Rightarrow> task_row \<Rightarrow> bool" where
  "worker_is i act t = (case tm_worker (t_metrics t) of None \<Rightarrow> False | Some k \<Rightarrow> wk_id k = i \<and> (act \<longrightarrow> wk_active k))"

definition worker_active :: "task_row \<Rightarrow> bool" where
  "worker_active t = (case tm_worker (t_metrics t) of None \<Rightarrow> False | Some k \<Rightarrow> wk_active k)"

text \<open>The row a worker holds: \<open>status IN (..)\<close> and the active worker is this one.\<close>

definition held_row :: "task_handle \<Rightarrow> string set \<Rightarrow> task_row \<Rightarrow> bool" where
  "held_row h statuses t \<longleftrightarrow> own_row h t \<and> t_status t \<in> statuses \<and> worker_is (tk_worker h) True t"

definition running_row :: "task_handle \<Rightarrow> task_row \<Rightarrow> bool" where
  "running_row h = held_row h {''RUNNING'', ''PENDING''}"

subsection \<open>Starting\<close>

datatype trigger = Manual | Scheduled | RecoveryTrigger

fun trigger_text :: "trigger \<Rightarrow> string" where
  "trigger_text Manual = ''manual''"
| "trigger_text Scheduled = ''scheduled''"
| "trigger_text RecoveryTrigger = ''recovery''"

text \<open>The control row of the run a recovery is scheduled for, and the conditions of its continuation.\<close>

definition recovery_due :: "task_handle \<Rightarrow> string \<Rightarrow> int option \<Rightarrow> int \<Rightarrow> task_row \<Rightarrow> control_row \<Rightarrow> bool" where
  "recovery_due h revision attempt clock t c \<longleftrightarrow> own_row h t \<and> t_status t \<in> {''PENDING'', ''WAITING''} \<and> \<not> worker_active t
     \<and> t_workspace t = tk_workspace h \<and> tk_workspace h = Some (c_workspace c) \<and> c_sync c = t_sync t
     \<and> c_revision c = revision \<and> \<not> ended (c_phase c)
     \<and> (case tm_recovery (t_metrics t) of None \<Rightarrow> False
        | Some r \<Rightarrow> \<not> tr_suspended r \<and> c_run c = sch_runId r \<and> sch_revision r = revision
            \<and> (attempt = None \<or> attempt = Some (sch_attempt r)) \<and> sch_nextCheckAt r \<le> clock)"

definition take_over :: "task_handle \<Rightarrow> int \<Rightarrow> task_row \<Rightarrow> task_row" where
  "take_over h clock t = t\<lparr>t_status := ''PENDING'', t_updatedAt := clock, t_metrics := (t_metrics t)\<lparr>tm_worker :=
     Some \<lparr>wk_id = tk_worker h, wk_active = True,
       wk_previousStatus = Some (case Option.bind (tm_recovery (t_metrics t)) tr_previousStatus of None \<Rightarrow> t_status t | Some s \<Rightarrow> s)\<rparr>\<rparr>\<rparr>"

definition start_recovery :: "task_handle \<Rightarrow> string \<Rightarrow> int option \<Rightarrow> int \<Rightarrow> (task_tables, string option) oper" where
  "start_recovery h revision attempt clock =
     bindE (getE id) (\<lambda>d.
     let due = (\<lambda>t. list_ex (recovery_due h revision attempt clock t) (db_controls d));
         found = concat (map (\<lambda>t. filter (recovery_due h revision attempt clock t) (db_controls d)) (td_tasks d)) in
     thenE (update_tasks due (take_over h clock))
     (thenE (ensure (found \<noteq> []) ''Recovery no longer scheduled'')
     (returnE (Some (c_run (hd found))))))"

definition awaiting_refresh :: "task_handle \<Rightarrow> task_row \<Rightarrow> control_row \<Rightarrow> bool" where
  "awaiting_refresh h t c \<longleftrightarrow> t_sync t = tk_sync h \<and> t_package t = runner_package \<and> t_status t \<in> {''WAITING'', ''PENDING''}
     \<and> c_sync c = t_sync t \<and> tk_workspace h = Some (c_workspace c) \<and> \<not> c_detached c \<and> \<not> ended (c_phase c)
     \<and> (case tm_recovery (t_metrics t) of None \<Rightarrow> False | Some r \<Rightarrow> c_run c = sch_runId r)"

definition new_task :: "task_handle \<Rightarrow> trigger \<Rightarrow> string option \<Rightarrow> int \<Rightarrow> task_row" where
  "new_task h trg recoveryOf clock = \<lparr>t_sync = tk_sync h, t_task = tk_task h, t_package = runner_package, t_status = ''RUNNING'',
     t_workspace = tk_workspace h, t_trigger = trigger_text trg, t_recoveryOf = (if recoveryOf = Some [] then None else recoveryOf), t_description = None, t_error = None,
     t_metrics = \<lparr>tm_recovery = None, tm_worker = Some \<lparr>wk_id = tk_worker h, wk_active = True, wk_previousStatus = None\<rparr>, tm_delivery = None\<rparr>,
     t_startedAt = clock, t_updatedAt = clock\<rparr>"

definition start_new :: "task_handle \<Rightarrow> trigger \<Rightarrow> string option \<Rightarrow> int \<Rightarrow> (task_tables, string option) oper" where
  "start_new h trg recoveryOf clock =
     bindE (getE (\<lambda>d. list_ex (\<lambda>t. list_ex (awaiting_refresh h t) (db_controls d)) (td_tasks d))) (\<lambda>pending.
     thenE (ensure (\<not> pending) ''An incomplete run is awaiting its status refresh'')
     (bindE (getE (\<lambda>d. list_ex (\<lambda>t. t_task t = tk_task h) (td_tasks d))) (\<lambda>exists.
      thenE (ensure (\<not> exists) ''Task already exists'')
      (thenE (modifyE (\<lambda>d. d\<lparr>td_tasks := td_tasks d @ [new_task h trg recoveryOf clock]\<rparr>))
      (returnE None)))))"

definition start :: "task_handle \<Rightarrow> trigger \<Rightarrow> string option \<Rightarrow> string option \<Rightarrow> int option \<Rightarrow> (task_world, string option) oper" where
  "start h trg recoveryOf revision attempt = bindE (getE tw_clock) (\<lambda>clock. task_transaction
     (if trg = RecoveryTrigger then
        thenE (ensure (recoveryOf = Some (tk_task h) \<and> revision \<noteq> None \<and> revision \<noteq> Some []) ''Recovery task binding required'')
        (start_recovery h (the revision) attempt clock)
      else start_new h trg recoveryOf clock))"

subsection \<open>While running\<close>

definition heartbeat :: "task_handle \<Rightarrow> (task_world, unit) oper" where
  "heartbeat h = bindE (getE tw_clock) (\<lambda>clock. task_transaction
     (bindE (update_tasks (running_row h) (\<lambda>t. t\<lparr>t_updatedAt := clock\<rparr>)) (\<lambda>n. ensure (n > 0) ''Task cancelled or ended'')))"

definition statistics :: "task_handle \<Rightarrow> json \<Rightarrow> (task_world, unit) oper" where
  "statistics h stats = task_transaction
     (bindE (update_tasks (running_row h) (\<lambda>t. t\<lparr>t_metrics := (t_metrics t)\<lparr>tm_delivery := Some stats\<rparr>\<rparr>)) (\<lambda>_. returnE ()))"

definition progress :: "task_handle \<Rightarrow> string \<Rightarrow> (task_world, unit) oper" where
  "progress h message = task_transaction
     (bindE (update_tasks (running_row h) (\<lambda>t. t\<lparr>t_description := Some message\<rparr>)) (\<lambda>n.
      thenE (ensure (n > 0) ''Task cancelled or ended'')
      (insert_log \<lparr>lg_level = ''INFO'', lg_message = message, lg_sync = tk_sync h, lg_task = tk_task h\<rparr>)))"

definition logError :: "task_handle \<Rightarrow> string \<Rightarrow> (task_world, unit) oper" where
  "logError h message = task_transaction (modifyE (\<lambda>d. d\<lparr>td_log := td_log d @
     map (\<lambda>t. \<lparr>lg_level = ''ERROR'', lg_message = message, lg_sync = t_sync t, lg_task = t_task t\<rparr>)
       (filter (\<lambda>t. own_row h t \<and> worker_is (tk_worker h) False t) (td_tasks d))\<rparr>))"

subsection \<open>Ending\<close>

definition released :: "task_handle \<Rightarrow> task_worker" where
  "released h = \<lparr>wk_id = tk_worker h, wk_active = False, wk_previousStatus = None\<rparr>"

definition plain_recovery :: "recovery_schedule \<Rightarrow> bool \<Rightarrow> task_recovery" where
  "plain_recovery s suspended = recovery_schedule.extend s \<lparr>tr_suspended = suspended, tr_previousStatus = None\<rparr>"

text \<open>The schedule of a failed task stays; any other status drops it unless a new one is given.\<close>

definition ended_row :: "task_handle \<Rightarrow> string \<Rightarrow> string \<Rightarrow> recovery_schedule option \<Rightarrow> int \<Rightarrow> task_row \<Rightarrow> task_row" where
  "ended_row h status message schedule clock t = t\<lparr>t_status := status, t_description := Some message,
     t_error := (if status = ''FAILED'' then Some message else None), t_updatedAt := clock,
     t_metrics := (t_metrics t)\<lparr>tm_worker := Some (released h),
       tm_recovery := (case schedule of Some s \<Rightarrow> Some (plain_recovery s False)
         | None \<Rightarrow> if status = ''FAILED'' then tm_recovery (t_metrics t) else None)\<rparr>\<rparr>"

definition finish_task :: "task_handle \<Rightarrow> string \<Rightarrow> string \<Rightarrow> recovery_schedule option \<Rightarrow> (task_world, bool) oper" where
  "finish_task h status message schedule = bindE (getE tw_clock) (\<lambda>clock. task_transaction
     (bindE (update_tasks (running_row h) (ended_row h status message schedule clock)) (\<lambda>n.
      thenE (whenE (n > 0) (insert_log \<lparr>lg_level = (if status = ''FAILED'' then ''ERROR'' else ''INFO''), lg_message = message,
          lg_sync = tk_sync h, lg_task = tk_task h\<rparr>))
      (returnE (n > 0)))))"

text \<open>\<open>RecoverySchedule.parse\<close>: unknown members are dropped.\<close>

definition parse_schedule :: "task_recovery option \<Rightarrow> recovery_schedule result" where
  "parse_schedule r = (case r of None \<Rightarrow> Inl (PlainError ''ZodError'')
     | Some x \<Rightarrow> if schedule_ok (recovery_schedule.truncate x) then Inr (recovery_schedule.truncate x) else Inl (PlainError ''ZodError''))"

text \<open>\<open>ORDER BY started_at DESC, task_id DESC LIMIT 1\<close>.\<close>

fun latest_task :: "task_row list \<Rightarrow> task_row option" where
  "latest_task [] = None"
| "latest_task (t # ts) = (case latest_task ts of None \<Rightarrow> Some t
     | Some u \<Rightarrow> if t_startedAt u < t_startedAt t \<or> t_startedAt u = t_startedAt t \<and> t_task u \<le> t_task t then Some t else Some u)"

definition previous_schedule :: "task_handle \<Rightarrow> string \<Rightarrow> (task_tables, recovery_schedule option) oper" where
  "previous_schedule h runId =
     bindE (getE (\<lambda>d. latest_task (filter (\<lambda>t. t_sync t = tk_sync h \<and> t_package t = runner_package
        \<and> (case tm_recovery (t_metrics t) of None \<Rightarrow> False | Some r \<Rightarrow> sch_runId r = runId)) (td_tasks d)))) (\<lambda>row.
     case row of None \<Rightarrow> returnE None
     | Some t \<Rightarrow> bindE (resultE (parse_schedule (tm_recovery (t_metrics t)))) (\<lambda>s. returnE (Some s)))"

definition check_time :: "(int \<Rightarrow> string) \<Rightarrow> recovery_schedule \<Rightarrow> string" where
  "check_time stamp s = stamp (sch_nextCheckAt s)"

definition wait :: "(int \<Rightarrow> string) \<Rightarrow> task_handle \<Rightarrow> string \<Rightarrow> string \<Rightarrow> (task_world, string) oper" where
  "wait stamp h runId revision =
     bindE (task_transaction (previous_schedule h runId)) (\<lambda>previous.
     bindE (getE tw_now) (\<lambda>now.
     let schedule = nextRecoveryCheck runId revision previous now;
         status = (if schedule \<noteq> None then ''PENDING'' else ''FAILED'') in
     bindE (finish_task h status
         (case schedule of Some s \<Rightarrow> ''Provider processing pending; next check at '' @ check_time stamp s
          | None \<Rightarrow> ''Provider processing still pending after 24 hours; automatic checks stopped, delivery state retained'')
         (case schedule of Some s \<Rightarrow> Some s | None \<Rightarrow> previous)) (\<lambda>changed.
     returnE (if changed then status else ''FAILED''))))"

definition refresh_row :: "task_handle \<Rightarrow> task_row \<Rightarrow> bool" where
  "refresh_row h = held_row h {''PENDING'', ''WAITING''}"

definition previous_status :: "task_row \<Rightarrow> string" where
  "previous_status t = (case Option.bind (tm_worker (t_metrics t)) wk_previousStatus of None \<Rightarrow> t_status t | Some s \<Rightarrow> s)"

definition restored_row :: "task_handle \<Rightarrow> string \<Rightarrow> recovery_schedule \<Rightarrow> bool \<Rightarrow> int \<Rightarrow> task_row \<Rightarrow> task_row" where
  "restored_row h status schedule suspended clock t = t\<lparr>t_status := status, t_updatedAt := clock,
     t_metrics := (t_metrics t)\<lparr>tm_recovery := Some (plain_recovery schedule suspended), tm_worker := Some (released h)\<rparr>\<rparr>"

definition refresh_detail :: "(int \<Rightarrow> string) \<Rightarrow> string \<Rightarrow> bool \<Rightarrow> string \<Rightarrow> recovery_schedule \<Rightarrow> string" where
  "refresh_detail stamp message suspended status schedule = message @ '' '' @
     (if suspended \<or> status = ''FAILED'' \<or> status = ''CANCELLED'' then ''Automatic status checks stopped; saved delivery retained.''
      else ''Saved delivery retained; next status check at '' @ check_time stamp schedule @ ''.'')"

definition refresh_work ::
    "(int \<Rightarrow> string) \<Rightarrow> task_handle \<Rightarrow> string \<Rightarrow> bool \<Rightarrow> int \<Rightarrow> int \<Rightarrow> (task_tables, string) oper" where
  "refresh_work stamp h message stopAutomaticChecks clock now =
     bindE (getE (\<lambda>d. find (refresh_row h) (td_tasks d))) (\<lambda>row. case row of
        None \<Rightarrow> returnE ''FAILED''
      | Some t \<Rightarrow>
        bindE (resultE (parse_schedule (tm_recovery (t_metrics t)))) (\<lambda>previous.
        let following = nextRecoveryCheck (sch_runId previous) (sch_revision previous) (Some previous) now;
            suspended = (stopAutomaticChecks \<or> following = None);
            schedule = (case following of Some s \<Rightarrow> s | None \<Rightarrow> previous);
            status = previous_status t in
        thenE (ensure (status \<in> {''WAITING'', ''PENDING'', ''FAILED'', ''CANCELLED''}) ''Invalid previous refresh status'')
        (thenE (update_tasks (own_row h) (restored_row h status schedule suspended clock))
        (thenE (insert_log \<lparr>lg_level = ''ERROR'', lg_message = refresh_detail stamp message suspended status schedule,
           lg_sync = tk_sync h, lg_task = tk_task h\<rparr>)
        (returnE (if status = ''FAILED'' \<or> status = ''CANCELLED'' then status else ''PENDING''))))))"

definition refreshFailed :: "(int \<Rightarrow> string) \<Rightarrow> task_handle \<Rightarrow> string \<Rightarrow> bool \<Rightarrow> (task_world, string) oper" where
  "refreshFailed stamp h message stopAutomaticChecks =
     bindE (getE (\<lambda>w. (tw_clock w, tw_now w))) (\<lambda>(clock, now).
     task_transaction (refresh_work stamp h message stopAutomaticChecks clock now))"

subsection \<open>Fencing\<close>

text \<open>Only rows that satisfy \<open>P\<close> change, and rows keep their identity.\<close>

definition changes_only :: "(task_row \<Rightarrow> bool) \<Rightarrow> task_tables \<Rightarrow> task_tables \<Rightarrow> bool" where
  "changes_only P d d' \<longleftrightarrow> length (td_tasks d') = length (td_tasks d) \<and> db_controls d' = db_controls d
     \<and> (\<forall>i < length (td_tasks d). td_tasks d' ! i = td_tasks d ! i
         \<or> P (td_tasks d ! i) \<and> t_sync (td_tasks d' ! i) = t_sync (td_tasks d ! i) \<and> t_task (td_tasks d' ! i) = t_task (td_tasks d ! i))"

definition keeps_identity :: "(task_row \<Rightarrow> task_row) \<Rightarrow> bool" where
  "keeps_identity f \<longleftrightarrow> (\<forall>t. t_sync (f t) = t_sync t \<and> t_task (f t) = t_task t)"

lemma keeps_identity_updates [simp]:
  "keeps_identity (\<lambda>t. t\<lparr>t_updatedAt := c\<rparr>)" "keeps_identity (\<lambda>t. t\<lparr>t_description := n\<rparr>)" "keeps_identity (\<lambda>t. t\<lparr>t_metrics := g t\<rparr>)"
  "keeps_identity (take_over h c)" "keeps_identity (ended_row h st m s c)" "keeps_identity (restored_row h st sch sus c)"
  by (simp_all add: keeps_identity_def take_over_def ended_row_def restored_row_def)

lemma changes_refl [simp]: "changes_only P d d"
  by (simp add: changes_only_def)

lemma changes_log [simp]: "changes_only P d (d'\<lparr>td_log := l\<rparr>) = changes_only P d d'"
  by (simp add: changes_only_def)

lemma changes_update:
  "keeps_identity f \<Longrightarrow> (\<And>t. Q t \<Longrightarrow> P t) \<Longrightarrow> changes_only P d (d\<lparr>td_tasks := map (\<lambda>t. if Q t then f t else t) (td_tasks d)\<rparr>)"
  by (simp add: changes_only_def keeps_identity_def)

lemma wp_update_tasks [wp_simps]:
  "wp (update_tasks P f) Q E = (\<lambda>d. Q (length (filter P (td_tasks d))) (d\<lparr>td_tasks := map (\<lambda>t. if P t then f t else t) (td_tasks d)\<rparr>))"
  by (simp add: fun_eq_iff wp_def update_tasks_def)

lemma wp_insert_log [wp_simps]: "wp (insert_log l) Q E = (\<lambda>d. Q () (d\<lparr>td_log := td_log d @ [l]\<rparr>))"
  by (simp add: insert_log_def wp_modify)

text \<open>A transaction leaves the tables alone, or leaves what its work made of them, even when its reply is lost.\<close>

lemma wp_task_transaction:
  assumes "\<And>w1. tw_db w1 = tw_db w \<Longrightarrow> tw_clock w1 = tw_clock w \<Longrightarrow> tw_now w1 = tw_now w \<Longrightarrow>
      wp work (\<lambda>a d. Q a (w1\<lparr>tw_db := d\<rparr>) \<and> (\<forall>e. E e (w1\<lparr>tw_db := d\<rparr>))) (\<lambda>e d. True) (tw_db w)"
    and "\<And>e w1. tw_db w1 = tw_db w \<Longrightarrow> E e w1"
  shows "wp (task_transaction work) Q E w"
proof -
  obtain f w1 where f: "task_fault w = (f, w1)" by fastforce
  then have w1: "tw_db w1 = tw_db w" "tw_clock w1 = tw_clock w" "tw_now w1 = tw_now w"
    by (auto simp: task_fault_def split: list.splits)
  from assms(1)[OF w1] show ?thesis
    using assms(2)[OF w1(1)] w1 f
    by (cases "work (tw_db w)") (auto simp: wp_def task_transaction_def split: sum.splits option.splits tx_fault.splits)
qed

definition fenced :: "(task_row \<Rightarrow> bool) \<Rightarrow> (task_world, 'a) oper \<Rightarrow> bool" where
  "fenced P m \<longleftrightarrow> (\<forall>w. changes_only P (tw_db w) (tw_db (snd (m w))))"

lemma fencedI:
  "(\<And>w. wp m (\<lambda>_ w'. changes_only P (tw_db w) (tw_db w')) (\<lambda>_ w'. changes_only P (tw_db w) (tw_db w')) w) \<Longrightarrow> fenced P m"
  by (simp add: fenced_def wp_always)

lemma heartbeat_fenced: "fenced (running_row h) (heartbeat h)"
  unfolding heartbeat_def
  by (rule fencedI) (auto simp: wp_simps intro!: wp_task_transaction changes_update)

lemma statistics_fenced: "fenced (running_row h) (statistics h stats)"
  unfolding statistics_def
  by (rule fencedI) (auto simp: wp_simps intro!: wp_task_transaction changes_update)

lemma progress_fenced: "fenced (running_row h) (progress h m)"
  unfolding progress_def
  by (rule fencedI) (auto simp: wp_simps intro!: wp_task_transaction changes_update)

lemma logError_fenced: "fenced (\<lambda>_. False) (logError h m)"
  unfolding logError_def
  by (rule fencedI) (auto simp: wp_simps intro!: wp_task_transaction)

lemma finish_task_fenced: "fenced (running_row h) (finish_task h st m s)"
  unfolding finish_task_def
  by (rule fencedI) (auto simp: wp_simps intro!: wp_task_transaction changes_update)

lemma fenced_after_read:
  assumes "\<And>w. tw_db (snd (m w)) = tw_db w" and "\<And>a. fenced P (f a)"
  shows "fenced P (bindE m f)"
proof -
  have "changes_only P (tw_db w) (tw_db (snd (bindE m f w)))" for w
  proof (cases "m w")
    case (Pair r w1)
    then have "tw_db w1 = tw_db w" using assms(1)[of w] by simp
    with Pair assms(2) show ?thesis by (cases r) (auto simp: bindE_def fenced_def, metis)
  qed
  then show ?thesis by (simp add: fenced_def)
qed

lemma fenced_then_return: "fenced P m \<Longrightarrow> fenced P (bindE m (\<lambda>a. returnE (g a)))"
  by (auto simp: fenced_def bindE_def split: prod.splits sum.splits) (metis snd_conv)+

lemma previous_schedule_reads: "tw_db (snd (task_transaction (previous_schedule h runId) w)) = tw_db w"
proof -
  have "snd (previous_schedule h runId d) = d" for d
    by (auto simp: previous_schedule_def bindE_def split: option.splits sum.splits)
  then show ?thesis
    by (auto simp: task_transaction_def task_fault_def split: prod.splits sum.splits option.splits list.splits tx_fault.splits)
      (metis snd_conv)+
qed

lemma wait_fenced: "fenced (running_row h) (wait stamp h runId revision)"
  unfolding wait_def Let_def
  by (rule fenced_after_read[OF previous_schedule_reads], rule fenced_after_read, simp)
    (rule fenced_then_return[OF finish_task_fenced])

lemma own_row_unique: "distinct (map t_task ts) \<Longrightarrow> t \<in> set ts \<Longrightarrow> u \<in> set ts \<Longrightarrow> own_row h t \<Longrightarrow> own_row h u \<Longrightarrow> t = u"
  by (metis distinct_map inj_onD own_row_def)

lemma refreshFailed_fenced:
  assumes "distinct (map t_task (td_tasks (tw_db w)))"
  shows "changes_only (refresh_row h) (tw_db w) (tw_db (snd (refreshFailed stamp h m stop w)))"
proof -
  have upd: "changes_only (refresh_row h) (tw_db w)
      ((tw_db w)\<lparr>td_tasks := map (\<lambda>t. if own_row h t then restored_row h st sch sus c t else t) (td_tasks (tw_db w))\<rparr>)"
    if "find (refresh_row h) (td_tasks (tw_db w)) = Some t" for t st sch sus c
  proof -
    from that have t: "t \<in> set (td_tasks (tw_db w))" "refresh_row h t" by (auto dest: find_Some_iff_first)
    then have "own_row h t" by (simp add: refresh_row_def held_row_def)
    with t own_row_unique[OF assms t(1)] have "refresh_row h u" if "u \<in> set (td_tasks (tw_db w))" "own_row h u" for u
      using that by metis
    then show ?thesis
      by (auto simp: changes_only_def restored_row_def)
  qed
  have "wp (refreshFailed stamp h m stop) (\<lambda>_ w'. changes_only (refresh_row h) (tw_db w) (tw_db w'))
      (\<lambda>_ w'. changes_only (refresh_row h) (tw_db w) (tw_db w')) w"
    unfolding refreshFailed_def refresh_work_def Let_def
    by (auto simp: wp_simps split: option.splits sum.splits intro!: wp_task_transaction upd)
  then show ?thesis by (simp add: wp_always)
qed

text \<open>A start takes over only rows without an active worker whose check is due, or adds a row.\<close>

lemma start_recovery_fenced:
  "fenced (\<lambda>t. \<not> worker_active t \<and> own_row h t \<and> t_status t \<in> {''PENDING'', ''WAITING''}) (start h RecoveryTrigger recoveryOf revision attempt)"
  unfolding start_def start_recovery_def
  by (rule fencedI) (auto simp: wp_simps Let_def list_ex_iff recovery_due_def intro!: wp_task_transaction changes_update)

subsection \<open>Cancellation\<close>

text \<open>Once the row is no longer this worker's to run, nothing the worker does changes a row.\<close>

lemma update_none: "\<not> list_ex P (td_tasks d) \<Longrightarrow> update_tasks P f d = (Inr 0, d)"
proof -
  assume none: "\<not> list_ex P (td_tasks d)"
  then have "map (\<lambda>t. if P t then f t else t) (td_tasks d) = td_tasks d" by (auto simp: list_ex_iff intro!: map_idI)
  then show ?thesis using none by (simp add: update_tasks_def filter_empty_conv list_ex_iff)
qed

lemma cancelled_stops:
  assumes "\<not> list_ex (running_row h) (td_tasks (tw_db w))" and "tw_faults w = []"
  shows "heartbeat h w = (Inl (PersistenceError ''Task cancelled or ended''), w)"
    and "progress h m w = (Inl (PersistenceError ''Task cancelled or ended''), w)"
    and "finish_task h st m sch w = (Inr False, w)"
  using assms
  by (simp_all add: heartbeat_def progress_def finish_task_def bindE_def thenE_def whenE_def task_transaction_def task_fault_def update_none
      ensure_run)

lemma changes_none:
  assumes "changes_only P d d'" and "\<not> list_ex P (td_tasks d)"
  shows "td_tasks d' = td_tasks d"
proof (rule nth_equalityI)
  show "length (td_tasks d') = length (td_tasks d)" using assms(1) by (simp add: changes_only_def)
next
  fix i
  assume "i < length (td_tasks d')"
  then have i: "i < length (td_tasks d)" using assms(1) by (simp add: changes_only_def)
  then have "\<not> P (td_tasks d ! i)" using assms(2) nth_mem by (auto simp: list_ex_iff)
  with assms(1) i show "td_tasks d' ! i = td_tasks d ! i" by (auto simp: changes_only_def)
qed

subsection \<open>One worker per task\<close>

lemma taken_over_active: "worker_active (take_over h c t)"
  by (simp add: worker_active_def take_over_def)

lemma task_transaction_Inr:
  assumes "task_transaction work w = (Inr a, w')"
  shows "work (tw_db w) = (Inr a, tw_db w')"
proof -
  obtain f w1 where f: "task_fault w = (f, w1)" by fastforce
  then have "tw_db w1 = tw_db w" by (auto simp: task_fault_def split: list.splits)
  with assms f show ?thesis
    by (cases "work (tw_db w)") (auto simp: task_transaction_def split: if_splits sum.splits option.splits tx_fault.splits)
qed

lemma task_transaction_Inl:
  assumes "work (tw_db w) = (Inl e, d)"
  shows "\<exists>e' w'. task_transaction work w = (Inl e', w') \<and> tw_db w' = tw_db w"
  using assms by (auto simp: task_transaction_def task_fault_def split: list.splits)

definition due_runs :: "task_handle \<Rightarrow> string \<Rightarrow> int option \<Rightarrow> int \<Rightarrow> task_tables \<Rightarrow> control_row list" where
  "due_runs h revision attempt clock d =
     concat (map (\<lambda>t. filter (recovery_due h revision attempt clock t) (db_controls d)) (td_tasks d))"

lemma start_recovery_run:
  "start_recovery h revision attempt clock d =
     (let runs = due_runs h revision attempt clock d in
      (if runs = [] then Inl (PersistenceError ''Recovery no longer scheduled'') else Inr (Some (c_run (hd runs))),
       d\<lparr>td_tasks := map (\<lambda>t. if list_ex (recovery_due h revision attempt clock t) (db_controls d) then take_over h clock t else t) (td_tasks d)\<rparr>))"
  by (simp add: start_recovery_def due_runs_def Let_def bindE_def thenE_def ensure_run update_tasks_def)

lemma start_recovery_Inr:
  assumes "start h RecoveryTrigger recoveryOf revision attempt w = (Inr r, w')"
  shows "\<exists>t c. t \<in> set (td_tasks (tw_db w)) \<and> c \<in> set (db_controls (tw_db w))
      \<and> recovery_due h (the revision) attempt (tw_clock w) t c \<and> r = Some (c_run c) \<and> \<not> ended (c_phase c)
      \<and> take_over h (tw_clock w) t \<in> set (td_tasks (tw_db w')) \<and> db_controls (tw_db w') = db_controls (tw_db w)"
proof -
  let ?runs = "due_runs h (the revision) attempt (tw_clock w) (tw_db w)"
  have "start_recovery h (the revision) attempt (tw_clock w) (tw_db w) = (Inr r, tw_db w')"
    using assms unfolding start_def by (auto simp: bindE_def thenE_def ensure_run split: if_splits dest!: task_transaction_Inr)
  then have runs: "?runs \<noteq> []" "r = Some (c_run (hd ?runs))" and w': "tw_db w' = (tw_db w)\<lparr>td_tasks :=
      map (\<lambda>t. if list_ex (recovery_due h (the revision) attempt (tw_clock w) t) (db_controls (tw_db w)) then take_over h (tw_clock w) t else t)
        (td_tasks (tw_db w))\<rparr>"
    by (simp_all add: start_recovery_run Let_def split: if_splits)
  from hd_in_set[OF runs(1)] obtain t where t: "t \<in> set (td_tasks (tw_db w))" "hd ?runs \<in> set (db_controls (tw_db w))"
      "recovery_due h (the revision) attempt (tw_clock w) t (hd ?runs)"
    by (auto simp: due_runs_def)
  then have "list_ex (recovery_due h (the revision) attempt (tw_clock w) t) (db_controls (tw_db w))" by (auto simp: list_ex_iff)
  with t(1) have "take_over h (tw_clock w) t \<in> set (td_tasks (tw_db w'))" by (auto simp: w')
  moreover have "\<not> ended (c_phase (hd ?runs))" using t(3) by (simp add: recovery_due_def)
  moreover have "db_controls (tw_db w') = db_controls (tw_db w)" by (simp add: w')
  ultimately show ?thesis using t runs(2) by blast
qed

lemma second_start_refused:
  assumes "distinct (map t_task (td_tasks (tw_db w)))" and "start h RecoveryTrigger recoveryOf revision attempt w = (Inr r, w')"
    and "tk_sync h' = tk_sync h" and "tk_task h' = tk_task h" and "tw_db v = tw_db w'"
  shows "\<exists>e v'. start h' RecoveryTrigger recoveryOf' revision' attempt' v = (Inl e, v')"
proof -
  from start_recovery_Inr[OF assms(2)] obtain t c where t: "t \<in> set (td_tasks (tw_db w))"
    "recovery_due h (the revision) attempt (tw_clock w) t c" "take_over h (tw_clock w) t \<in> set (td_tasks (tw_db w'))" by blast
  have "map t_task (td_tasks (tw_db w')) = map t_task (td_tasks (tw_db w))"
    using start_recovery_fenced[of h recoveryOf revision attempt] assms(2)
    by (intro nth_equalityI) (auto simp: fenced_def changes_only_def dest!: spec[of _ w])
  with assms(1,5) have dist: "distinct (map t_task (td_tasks (tw_db v)))" by simp
  have "own_row h' (take_over h (tw_clock w) t)"
    using t(2) assms(3,4) by (simp add: recovery_due_def own_row_def take_over_def)
  with own_row_unique[OF dist] t(3) assms(5) have only: "u = take_over h (tw_clock w) t" if "u \<in> set (td_tasks (tw_db v))" "own_row h' u" for u
    using that by metis
  have "False" if run: "start h' RecoveryTrigger recoveryOf' revision' attempt' v = (Inr x, v')" for x v'
  proof -
    from start_recovery_Inr[OF run] obtain u c' where u: "u \<in> set (td_tasks (tw_db v))"
      "recovery_due h' (the revision') attempt' (tw_clock v) u c'" by blast
    then have "own_row h' u" "\<not> worker_active u" by (simp_all add: recovery_due_def)
    with only[OF u(1)] show False by (simp add: taken_over_active)
  qed
  then show ?thesis by (metis prod.exhaust sum.exhaust)
qed

text \<open>A new task starts only when no run of the sync waits for its refresh, under an id of its own.\<close>

lemma start_new_Inr:
  assumes "start h trg recoveryOf revision attempt w = (Inr r, w')" and "trg \<noteq> RecoveryTrigger"
  shows "r = None \<and> \<not> list_ex (\<lambda>t. list_ex (awaiting_refresh h t) (db_controls (tw_db w))) (td_tasks (tw_db w))
     \<and> tk_task h \<notin> t_task ` set (td_tasks (tw_db w))
     \<and> td_tasks (tw_db w') = td_tasks (tw_db w) @ [new_task h trg recoveryOf (tw_clock w)]"
proof -
  obtain d' where "start_new h trg recoveryOf (tw_clock w) (tw_db w) = (Inr r, d')" and d': "tw_db w' = d'"
    using assms unfolding start_def by (auto simp: bindE_def dest!: task_transaction_Inr)
  then show ?thesis
    unfolding d' by (auto simp: start_new_def bindE_def thenE_def ensure_run list_ex_iff split: if_splits)
qed

subsection \<open>Task ids\<close>

definition task_ids_ok :: "task_tables \<Rightarrow> bool" where
  "task_ids_ok d \<longleftrightarrow> distinct (map t_task (td_tasks d))"

lemma changes_keep_ids: "changes_only P d d' \<Longrightarrow> map t_task (td_tasks d') = map t_task (td_tasks d)"
  by (intro nth_equalityI) (auto simp: changes_only_def)

lemma fenced_ids: "fenced P m \<Longrightarrow> task_ids_ok (tw_db w) \<Longrightarrow> task_ids_ok (tw_db (snd (m w)))"
  unfolding fenced_def task_ids_ok_def using changes_keep_ids by metis

lemma start_new_ids:
  assumes "task_ids_ok (tw_db w)"
  shows "wp (task_transaction (start_new h trg recoveryOf (tw_clock w))) (\<lambda>_ w'. task_ids_ok (tw_db w')) (\<lambda>_ w'. task_ids_ok (tw_db w')) w"
  using assms unfolding start_new_def
  by (intro wp_task_transaction) (auto simp: wp_simps task_ids_ok_def list_ex_iff new_task_def)

lemma task_ids_kept:
  assumes "task_ids_ok (tw_db w)"
  shows "task_ids_ok (tw_db (snd (start h trg recoveryOf revision attempt w)))"
    and "task_ids_ok (tw_db (snd (heartbeat h w)))" and "task_ids_ok (tw_db (snd (progress h m w)))"
    and "task_ids_ok (tw_db (snd (statistics h stats w)))" and "task_ids_ok (tw_db (snd (finish_task h st m sch w)))"
    and "task_ids_ok (tw_db (snd (wait stamp h runId rv w)))" and "task_ids_ok (tw_db (snd (refreshFailed stamp h m stop w)))"
    and "task_ids_ok (tw_db (snd (logError h m w)))"
proof -
  show "task_ids_ok (tw_db (snd (start h trg recoveryOf revision attempt w)))"
  proof (cases "trg = RecoveryTrigger")
    case True
    then show ?thesis using fenced_ids[OF start_recovery_fenced assms] by simp
  next
    case False
    then show ?thesis using start_new_ids[OF assms] by (simp add: start_def bindE_def wp_always)
  qed
  show "task_ids_ok (tw_db (snd (refreshFailed stamp h m stop w)))"
    using changes_keep_ids[OF refreshFailed_fenced] assms by (simp add: task_ids_ok_def)
qed (rule fenced_ids[OF _ assms], (rule heartbeat_fenced progress_fenced statistics_fenced finish_task_fenced wait_fenced logError_fenced))+

subsection \<open>A failed refresh keeps the delivery\<close>

lemma nextRecoveryCheck_binding: "nextRecoveryCheck r v p now = Some s \<Longrightarrow> sch_runId s = r \<and> sch_revision s = v"
  by (auto simp: nextRecoveryCheck_def Let_def split: if_splits)

lemma parse_schedule_Inr: "parse_schedule r = Inr s \<longleftrightarrow> (\<exists>x. r = Some x \<and> s = recovery_schedule.truncate x \<and> schedule_ok s)"
  by (auto simp: parse_schedule_def split: option.splits)

definition kept_delivery :: "task_handle \<Rightarrow> task_row \<Rightarrow> task_row \<Rightarrow> bool" where
  "kept_delivery h t u \<longleftrightarrow> t_status u = previous_status t \<and> \<not> worker_active u \<and> tm_delivery (t_metrics u) = tm_delivery (t_metrics t)
     \<and> (\<exists>r r'. tm_recovery (t_metrics t) = Some r \<and> tm_recovery (t_metrics u) = Some r'
          \<and> sch_runId r' = sch_runId r \<and> sch_revision r' = sch_revision r \<and> sch_deadline r' = sch_deadline r)"

lemma refresh_work_Inr:
  assumes "refresh_work stamp h m stop clock now d = (Inr st, d')" and "find (refresh_row h) (td_tasks d) = Some t"
  shows "\<exists>p sus. parse_schedule (tm_recovery (t_metrics t)) = Inr p
     \<and> td_tasks d' = map (\<lambda>u. if own_row h u then restored_row h (previous_status t)
         (case nextRecoveryCheck (sch_runId p) (sch_revision p) (Some p) now of Some s \<Rightarrow> s | None \<Rightarrow> p) sus clock u else u) (td_tasks d)"
proof -
  from assms obtain p where p: "parse_schedule (tm_recovery (t_metrics t)) = Inr p"
    by (cases "parse_schedule (tm_recovery (t_metrics t))") (auto simp: refresh_work_def bindE_def)
  with assms show ?thesis
    by (auto simp: refresh_work_def bindE_def thenE_def ensure_run insert_log_def update_tasks_def Let_def split: if_splits)
qed

lemma refreshFailed_Inr:
  assumes "refreshFailed stamp h m stop w = (Inr st, w')" and "find (refresh_row h) (td_tasks (tw_db w)) = Some t"
  shows "\<exists>u \<in> set (td_tasks (tw_db w')). own_row h u \<and> kept_delivery h t u"
proof -
  have t: "t \<in> set (td_tasks (tw_db w))" "own_row h t" using assms(2) by (auto dest!: find_Some_iff_first simp: refresh_row_def held_row_def)
  have "refresh_work stamp h m stop (tw_clock w) (tw_now w) (tw_db w) = (Inr st, tw_db w')"
    using assms(1) by (simp add: refreshFailed_def bindE_def task_transaction_Inr)
  from refresh_work_Inr[OF this assms(2)] obtain p sus where p: "parse_schedule (tm_recovery (t_metrics t)) = Inr p"
    and tasks: "td_tasks (tw_db w') = map (\<lambda>u. if own_row h u then restored_row h (previous_status t)
         (case nextRecoveryCheck (sch_runId p) (sch_revision p) (Some p) (tw_now w) of Some s \<Rightarrow> s | None \<Rightarrow> p) sus (tw_clock w) u else u)
         (td_tasks (tw_db w))" by blast
  define sch where "sch = (case nextRecoveryCheck (sch_runId p) (sch_revision p) (Some p) (tw_now w) of Some s \<Rightarrow> s | None \<Rightarrow> p)"
  note w' = tasks[folded sch_def]
  have "sch_runId sch = sch_runId p \<and> sch_revision sch = sch_revision p \<and> sch_deadline sch = sch_deadline p"
  proof (cases "nextRecoveryCheck (sch_runId p) (sch_revision p) (Some p) (tw_now w)")
    case (Some s)
    from nextRecoveryCheck_binding[OF Some] nextRecoveryCheck_Some(2)[OF Some] Some show ?thesis by (simp add: sch_def)
  qed (simp add: sch_def)
  moreover obtain r where "tm_recovery (t_metrics t) = Some r" "p = recovery_schedule.truncate r"
    using p by (auto simp: parse_schedule_Inr)
  ultimately have "kept_delivery h t (restored_row h (previous_status t) sch sus (tw_clock w) t)"
    by (simp add: kept_delivery_def restored_row_def worker_active_def released_def plain_recovery_def recovery_schedule.defs)
  moreover have "own_row h (restored_row h (previous_status t) sch sus (tw_clock w) t)" using t(2) by (simp add: own_row_def restored_row_def)
  moreover have "restored_row h (previous_status t) sch sus (tw_clock w) t \<in> set (td_tasks (tw_db w'))"
    using t by (auto simp: w')
  ultimately show ?thesis by blast
qed

end
