(* ===== verification/Execute.thy ===== *)
theory Execute
  imports Watch Tasks Lease Failure
begin

text \<open>
  The execution of a task, \<open>execute.ts\<close>: a worker pod takes the lease of its sync, starts or takes over
  the task row, is admitted, binds the adapter, opens the run and hands it to the runner that its mode
  and its state ask for; then it settles the task, and on an error decides what the failure means for
  the delivery. The state is the pod: its lease, the tables, the session, the progress and the flags of the function.

  The heartbeat timer is modelled by the points where the function awaits it: before the adapter is bound,
  before the run and when the timer is stopped, any number of ticks may fire; \<open>x_timer\<close> lists, per point, the time
  that passes before each tick. The signal is the list of its observations, as in the runners. Diagnostics on
  the error stream, the reader's resources and the log lines about the rows of an extraction are left out.
\<close>

subsection \<open>Configuration and adapters\<close>

record run_config =
  cf_id :: string
  cf_workspaceId :: string
  cf_revision :: string
  cf_disabled :: bool
  cf_destinationType :: string
  cf_stream :: string
  cf_mode :: run_mode
  cf_cursor :: bool
  cf_primaryKey :: "string list"
  cf_mapping :: "(string \<times> string) list"
  cf_checkpointEvery :: int
  cf_streamOptions :: json

record mirror_adapter =
  ma_sameStream :: bool
  ma_stream :: stream_metadata
  ma_asynchronous :: bool
  ma_refreshAfterMs :: "int option"
  ma_rowType :: "json \<Rightarrow> json option"
  ma_project :: "json \<Rightarrow> identity list result"

text \<open>\<open>ReverseRuntimeAdapter\<close>: what a destination binds for a configuration. Adapters are parameters.\<close>

record 'p adapter =
  ad_stream :: stream_metadata
  ad_targetIdentity :: string
  ad_insertOnly :: bool
  ad_project :: "action \<Rightarrow> json \<Rightarrow> identity list result"
  ad_options :: "json option"
  ad_provider :: "(watched, 'p) provider"
  ad_mirror :: "mirror_adapter option"
  ad_verifyMirrorBaseline :: "('p, target_baseline) oper option"
  ad_recovery :: "(json \<Rightarrow> (watched, 'p) recovery_hooks) option"

record warehouse_row =
  wr_row :: "(string \<times> json) list"
  wr_deleted :: bool
  wr_checkpoint :: "source_cursor option"

text \<open>
  \<open>ExecuteOptions\<close>. \<open>ei_submitted i k\<close> is what the index answers for the key \<open>k\<close> of the \<open>i\<close>-th row when it is read;
  \<open>ei_freshRun\<close> is the id a new run gets.
\<close>

record ('l, 'p) execute_options =
  ei_config :: run_config
  ei_taskId :: string
  ei_trigger :: trigger
  ei_recoveryOf :: "string option"
  ei_workerId :: "string option"
  ei_refreshAttempt :: "int option"
  ei_env :: journal_env
  ei_lease :: "'l lease_call"
  ei_holder :: string
  ei_adapters :: "string \<Rightarrow> (run_config \<Rightarrow> ('p, 'p adapter) oper) option"
  ei_admit :: "run_config result"
  ei_rows :: "source_cursor option \<Rightarrow> warehouse_row list \<times> unit result"
  ei_submitted :: "nat \<Rightarrow> string \<Rightarrow> bool"
  ei_freshRun :: string
  ei_ago :: "int \<Rightarrow> string"
  ei_stamp :: "int \<Rightarrow> string"
  ei_fuel :: nat

definition task_of :: "('l, 'p) execute_options \<Rightarrow> task_handle" where
  "task_of opts = \<lparr>tk_sync = cf_id (ei_config opts),
     tk_task = (case ei_recoveryOf opts of None \<Rightarrow> ei_taskId opts | Some t \<Rightarrow> t),
     tk_workspace = Some (cf_workspaceId (ei_config opts)),
     tk_worker = (case ei_workerId opts of None \<Rightarrow> ei_taskId opts | Some w \<Rightarrow> w)\<rparr>"

subsection \<open>The state of a pod\<close>

record ('l, 'p) execution =
  x_lease :: "'l lease_client"
  x_tasks :: task_world
  x_world :: world
  x_session :: "session option"
  x_progress :: run_progress
  x_provider :: 'p
  x_signal :: "bool list"
  x_aborted :: bool
  x_timer :: "int list list"
  x_timing :: bool
  x_ownershipLost :: bool
  x_stage :: failure_stage
  x_held :: bool
  x_started :: bool
  x_refreshRunId :: "string option"
  x_deliveryFinished :: bool

text \<open>The tables of the tasks and of the runs are one database: each side sees what the other wrote.\<close>

definition set_database :: "database \<Rightarrow> task_tables \<Rightarrow> task_tables" where
  "set_database b d = d\<lparr>db_controls := db_controls b, db_states := db_states b, db_owners := db_owners b\<rparr>"

definition world_in :: "('l, 'p) execution \<Rightarrow> world" where
  "world_in x = (x_world x)\<lparr>w_db := database.truncate (tw_db (x_tasks x)), w_aborted := (w_aborted (x_world x) \<or> x_aborted x)\<rparr>"

definition put_world :: "world \<Rightarrow> ('l, 'p) execution \<Rightarrow> ('l, 'p) execution" where
  "put_world w x = x\<lparr>x_world := w, x_tasks := (x_tasks x)\<lparr>tw_db := set_database (w_db w) (tw_db (x_tasks x))\<rparr>\<rparr>"

definition session_in :: "session \<Rightarrow> ('l, 'p) execution \<Rightarrow> session" where
  "session_in s x = s\<lparr>s_world := world_in x\<rparr>"

definition put_session :: "session \<Rightarrow> ('l, 'p) execution \<Rightarrow> ('l, 'p) execution" where
  "put_session s x = (put_world (s_world s) x)\<lparr>x_session := Some s\<rparr>"

definition on_lease :: "(int \<Rightarrow> ('l lease_client, 'a) oper) \<Rightarrow> (('l, 'p) execution, 'a) oper" where
  "on_lease m x = (case m (tw_now (x_tasks x)) (x_lease x) of (r, c) \<Rightarrow> (r, x\<lparr>x_lease := c\<rparr>))"

definition on_tasks :: "(task_world, 'a) oper \<Rightarrow> (('l, 'p) execution, 'a) oper" where
  "on_tasks m x = (case m (x_tasks x) of (r, t) \<Rightarrow> (r, x\<lparr>x_tasks := t\<rparr>))"

definition on_provider :: "('p, 'a) oper \<Rightarrow> (('l, 'p) execution, 'a) oper" where
  "on_provider m x = (case m (x_provider x) of (r, p) \<Rightarrow> (r, x\<lparr>x_provider := p\<rparr>))"

definition on_world :: "(world, 'a) oper \<Rightarrow> (('l, 'p) execution, 'a) oper" where
  "on_world m x = (case m (world_in x) of (r, w) \<Rightarrow> (r, put_world w x))"

definition no_session :: exn where
  "no_session = PlainError ''No session is open''"

definition on_run :: "(session, 'a) oper \<Rightarrow> (('l, 'p) execution, 'a) oper" where
  "on_run m x = (case x_session x of None \<Rightarrow> (Inl no_session, x)
     | Some s \<Rightarrow> (case watch m \<lparr>wt_session = session_in s x, wt_progress = x_progress x\<rparr> of
         (r, w) \<Rightarrow> (r, put_session (wt_session w) (x\<lparr>x_progress := wt_progress w\<rparr>))))"

definition quietly :: "('s, 'a) oper \<Rightarrow> ('s, unit) oper" where
  "quietly m = catchE (thenE m (returnE ())) (\<lambda>_. returnE ())"

definition finallyE :: "('s, 'a) oper \<Rightarrow> ('s, unit) oper \<Rightarrow> ('s, 'a) oper" where
  "finallyE m f s = (case m s of (r, t) \<Rightarrow> (r, snd (f t)))"

subsection \<open>The signal and the heartbeat\<close>

definition read_signal :: "(('l, 'p) execution, bool) oper" where
  "read_signal x = (let a = (x_aborted x \<or> (case x_signal x of [] \<Rightarrow> False | b # _ \<Rightarrow> b)) in
     (Inr a, x\<lparr>x_signal := tl (x_signal x), x_aborted := a\<rparr>))"

definition throw_if_aborted :: "(('l, 'p) execution, unit) oper" where
  "throw_if_aborted = bindE read_signal (\<lambda>a. if a then throwE AbortError else returnE ())"

definition renewLease :: "('l, 'p) execute_options \<Rightarrow> (('l, 'p) execution, unit) oper" where
  "renewLease opts = on_lease (renew (ei_lease opts) (ei_holder opts))"

definition tick :: "('l, 'p) execute_options \<Rightarrow> (('l, 'p) execution, unit) oper" where
  "tick opts =
     thenE (catchE (thenE (renewLease opts) (on_tasks (heartbeat (task_of opts))))
       (\<lambda>_. modifyE (\<lambda>x. x\<lparr>x_ownershipLost := True, x_aborted := True\<rparr>)))
     (bindE read_signal (\<lambda>a. modifyE (\<lambda>x. x\<lparr>x_timing := \<not> a\<rparr>)))"

definition pass_time :: "int \<Rightarrow> ('l, 'p) execution \<Rightarrow> ('l, 'p) execution" where
  "pass_time d x = x\<lparr>x_tasks := (x_tasks x)\<lparr>tw_clock := tw_clock (x_tasks x) + d, tw_now := tw_now (x_tasks x) + d\<rparr>\<rparr>"

definition await_timer :: "('l, 'p) execute_options \<Rightarrow> (('l, 'p) execution, unit) oper" where
  "await_timer opts =
     bindE (getE (\<lambda>x. case x_timer x of [] \<Rightarrow> [] | ds # _ \<Rightarrow> ds)) (\<lambda>ds.
     thenE (modifyE (\<lambda>x. x\<lparr>x_timer := tl (x_timer x)\<rparr>))
     (forE ds (\<lambda>d. thenE (modifyE (pass_time d)) (bindE (getE x_timing) (\<lambda>t. whenE t (tick opts))))))"

text \<open>\<open>stopped = true; clearTimeout(timer); await renewing\<close>.\<close>

definition stop_timer :: "('l, 'p) execute_options \<Rightarrow> (('l, 'p) execution, unit) oper" where
  "stop_timer opts = thenE (await_timer opts) (modifyE (\<lambda>x. x\<lparr>x_timing := False\<rparr>))"

subsection \<open>Starting\<close>

definition begin_task :: "('l, 'p) execute_options \<Rightarrow> (('l, 'p) execution, unit) oper" where
  "begin_task opts =
     thenE throw_if_aborted
     (thenE (on_lease (acquire (ei_lease opts) (ei_holder opts)))
     (thenE (modifyE (\<lambda>x. x\<lparr>x_held := True, x_stage := TaskStart\<rparr>))
     (bindE (on_tasks (start (task_of opts) (ei_trigger opts) (ei_recoveryOf opts) (Some (cf_revision (ei_config opts))) (ei_refreshAttempt opts))) (\<lambda>run.
      modifyE (\<lambda>x. x\<lparr>x_refreshRunId := run, x_started := True, x_stage := Admission\<rparr>)))))"

definition given :: "string option \<Rightarrow> bool" where
  "given s \<longleftrightarrow> s \<noteq> None \<and> s \<noteq> Some []"

definition admit_config :: "('l, 'p) execute_options \<Rightarrow> (('l, 'p) execution, run_config) oper" where
  "admit_config opts =
     bindE (resultE (ei_admit opts)) (\<lambda>cfg. bindE (getE x_refreshRunId) (\<lambda>run.
     thenE (ensure (\<not> cf_disabled cfg \<or> (cf_disabled (ei_config opts) \<and> ei_trigger opts = RecoveryTrigger \<and> given run))
        ''Paused sync only permits saved delivery status refresh'')
     (thenE (modifyE (\<lambda>x. x\<lparr>x_stage := Execution\<rparr>))
     (thenE (ensure (cf_id cfg = cf_id (ei_config opts) \<and> cf_workspaceId cfg = cf_workspaceId (ei_config opts)
          \<and> cf_revision cfg = cf_revision (ei_config opts)) ''Reverse configuration changed before admission'')
     (returnE cfg)))))"

definition mirror_verified :: "'p adapter \<Rightarrow> bool" where
  "mirror_verified ad \<longleftrightarrow> (case ad_mirror ad of None \<Rightarrow> False | Some m \<Rightarrow> ma_sameStream m) \<and> ad_verifyMirrorBaseline ad \<noteq> None"

definition bind_adapter :: "('l, 'p) execute_options \<Rightarrow> run_config \<Rightarrow> (('l, 'p) execution, 'p adapter) oper" where
  "bind_adapter opts cfg =
     thenE throw_if_aborted
     (case ei_adapters opts (cf_destinationType cfg) of
        None \<Rightarrow> throwE (PersistenceError ''Reverse destination is not enabled in this runner'')
      | Some bind \<Rightarrow>
          thenE (modifyE (\<lambda>x. x\<lparr>x_timing := True\<rparr>))
          (thenE (await_timer opts)
          (bindE (on_provider (bind cfg)) (\<lambda>ad.
           thenE (ensure (st_name (ad_stream ad) = cf_stream cfg) ''Reverse stream does not match adapter'')
           (thenE (ensure (cf_mode cfg = ModeMirror \<longrightarrow> mirror_verified ad) ''Mirror adapter not verified'')
           (returnE ad))))))"

text \<open>The run of the sync that is still open, or a new one.\<close>

definition open_run_id :: "run_config \<Rightarrow> string \<Rightarrow> task_tables \<Rightarrow> string" where
  "open_run_id cfg fresh d =
     (case latest_row (filter (\<lambda>c. c_workspace c = cf_workspaceId cfg \<and> c_sync c = cf_id cfg \<and> \<not> c_detached c \<and> \<not> ended (c_phase c))
        (db_controls d)) of
        None \<Rightarrow> fresh
      | Some c \<Rightarrow> if \<not> ended (c_phase c) then c_run c else fresh)"

definition logical_run :: "('l, 'p) execute_options \<Rightarrow> run_config \<Rightarrow> (('l, 'p) execution, string) oper" where
  "logical_run opts cfg = bindE (getE x_refreshRunId) (\<lambda>run. case run of
      Some r \<Rightarrow> returnE r
    | None \<Rightarrow> on_tasks (task_transaction (getE (open_run_id cfg (ei_freshRun opts)))))"

definition run_input :: "('l, 'p) execute_options \<Rightarrow> run_config \<Rightarrow> 'p adapter \<Rightarrow> string \<Rightarrow> run_scope" where
  "run_input opts cfg ad runId = \<lparr>sc_workspaceId = cf_workspaceId cfg, sc_syncId = cf_id cfg, sc_taskId = tk_task (task_of opts),
     sc_logicalRunId = runId, sc_configRevision = cf_revision cfg, sc_targetIdentity = ad_targetIdentity ad, sc_mode = cf_mode cfg,
     sc_extraction = (if cf_cursor cfg then ExtractCursor else ExtractFull), sc_insertOnly = ad_insertOnly ad\<rparr>"

definition session_env :: "('l, 'p) execute_options \<Rightarrow> run_config \<Rightarrow> 'p adapter \<Rightarrow> journal_env" where
  "session_env opts cfg ad = (ei_env opts)\<lparr>e_projection :=
     (if cf_mode cfg = ModeMirror then mirror_projection (e_sha (ei_env opts)) else ad_project ad)\<rparr>"

definition open_run :: "('l, 'p) execute_options \<Rightarrow> run_config \<Rightarrow> 'p adapter \<Rightarrow> run_scope \<Rightarrow> (('l, 'p) execution, unit) oper" where
  "open_run opts cfg ad sc =
     thenE (renewLease opts)
     (thenE throw_if_aborted
     (bindE (on_world (if cf_mode cfg = ModeMirror then openMirrorPersistence (ei_env opts) sc
         else openPersistence ((ei_env opts)\<lparr>e_projection := ad_project ad\<rparr>) sc)) (\<lambda>s.
      modifyE (\<lambda>x. x\<lparr>x_session := Some s\<rparr>))))"

text \<open>What the task reports before the delivery goes on or starts.\<close>

definition start_message :: "bool \<Rightarrow> run_mode \<Rightarrow> string" where
  "start_message recovery mode = (if recovery then ''Refreshing submitted Reverse ETL delivery status''
     else if mode = ModeMirror then ''Extracting warehouse snapshot; no audience changes submitted yet''
     else ''Starting Reverse ETL extraction and delivery'')"

definition log_text :: "string \<Rightarrow> (('l, 'p) execution, unit) oper" where
  "log_text m = modifyE (\<lambda>x. x\<lparr>x_progress := snd (log_message m (x_progress x))\<rparr>)"

definition observe_restored :: "(('l, 'p) execution, unit) oper" where
  "observe_restored = modifyE (\<lambda>x. case x_session x of None \<Rightarrow> x
     | Some s \<Rightarrow> x\<lparr>x_progress := observe_head (s_head s) True (x_progress x)\<rparr>)"

definition introduce_run :: "('l, 'p) execute_options \<Rightarrow> run_config \<Rightarrow> (('l, 'p) execution, json \<times> json) oper" where
  "introduce_run opts cfg =
     bindE (on_run (getE s_recovered)) (\<lambda>recovery.
     thenE (ensure (ei_trigger opts \<noteq> RecoveryTrigger \<or> recovery) ''Recovery must not start a fresh extraction'')
     (thenE (on_tasks (heartbeat (task_of opts)))
     (bindE (on_run journal_state) (\<lambda>saved.
      thenE (on_tasks (Tasks.progress (task_of opts) (start_message recovery (cf_mode cfg))))
      (thenE (log_text ((if recovery then ''Continuing saved delivery; warehouse SQL is not re-read. '' else [])
         @ ''Delivery counts describe API records, not matched people or targetable audience size. Submission is not acceptance; Google audience sizes may update separately.''))
      (thenE observe_restored
      (returnE saved)))))))"

subsection \<open>The source\<close>

definition row_value :: "warehouse_row \<Rightarrow> string \<Rightarrow> json" where
  "row_value row column = (case map_of (wr_row row) column of None \<Rightarrow> JLossy | Some v \<Rightarrow> v)"

text \<open>Rows with their keys; events the destination already has are left out.\<close>

fun source_rows ::
    "(string \<Rightarrow> string) \<Rightarrow> string list \<Rightarrow> bool \<Rightarrow> (nat \<Rightarrow> string \<Rightarrow> bool) \<Rightarrow> nat \<Rightarrow> warehouse_row list
     \<Rightarrow> source_record list \<times> exn option" where
  "source_rows sha pk insertOnly submitted i [] = ([], None)"
| "source_rows sha pk insertOnly submitted i (row # rows) =
     (case recordKey sha (map (row_value row) pk) of
        Inl e \<Rightarrow> ([], Some e)
      | Inr key \<Rightarrow> (case source_rows sha pk insertOnly submitted (i + 1) rows of (rs, e) \<Rightarrow>
          (if insertOnly \<and> submitted i key then rs
           else \<lparr>sr_key = key, sr_row = wr_row row, sr_deleted = wr_deleted row, sr_checkpoint = wr_checkpoint row\<rparr> # rs, e)))"

definition run_source :: "('l, 'p) execute_options \<Rightarrow> run_config \<Rightarrow> 'p adapter \<Rightarrow> source" where
  "run_source opts cfg ad after = (case ei_rows opts after of (rows, ending) \<Rightarrow>
     (case source_rows (e_sha (ei_env opts)) (cf_primaryKey cfg) (ad_insertOnly ad) (ei_submitted opts) 0 rows of
        (rs, Some e) \<Rightarrow> (rs, Inl e)
      | (rs, None) \<Rightarrow> (rs, ending)))"

subsection \<open>Delivery\<close>

text \<open>
  An attempt runs on the observed session; beside the state of its provider it carries the task,
  to which a mirror reports the progress of its snapshot.
\<close>

definition lift_external :: "('j, 'p, 'a) external \<Rightarrow> ('j, 'p \<times> 't, 'a) external" where
  "lift_external m = (\<lambda>(j, (p, t), st). case m (j, p, st) of (r, j', p', st') \<Rightarrow> (r, j', (p', t), st'))"

definition lift_provider :: "('j, 'p) provider \<Rightarrow> ('j, 'p \<times> 't) provider" where
  "lift_provider P = \<lparr>p_createWriter = lift_external (p_createWriter P), p_init = lift_external (p_init P),
     p_upsert = (\<lambda>b. lift_external (p_upsert P b)), p_remove = (\<lambda>b. lift_external (p_remove P b)),
     p_finish = lift_external (p_finish P), p_abort = (\<lambda>c. lift_external (p_abort P c))\<rparr>"

definition lift_hooks :: "('j, 'p) recovery_hooks \<Rightarrow> ('j, 'p \<times> 't) recovery_hooks" where
  "lift_hooks H = \<lparr>rh_attachWriter = lift_external (rh_attachWriter H),
     rh_reconcileBatch = map_option (\<lambda>f b a r. lift_external (f b a r)) (rh_reconcileBatch H),
     rh_reconcileFinish = map_option (\<lambda>f r. lift_external (f r)) (rh_reconcileFinish H),
     rh_reconcileInit = map_option lift_external (rh_reconcileInit H),
     rh_reconcileAbort = map_option lift_external (rh_reconcileAbort H)\<rparr>"

definition signal_in :: "('l, 'p) execution \<Rightarrow> bool list" where
  "signal_in x = (if x_aborted x then [True] else x_signal x)"

definition leave_attempt :: "(watched, 'p \<times> task_world, 'z) attempt_scheme \<Rightarrow> ('l, 'p) execution \<Rightarrow> ('l, 'p) execution" where
  "leave_attempt a x = put_session (wt_session (r_journal a)) (x\<lparr>x_progress := wt_progress (r_journal a),
     x_provider := fst (r_provider a), x_tasks := snd (r_provider a), x_signal := r_signal a, x_aborted := (x_aborted x \<or> r_aborted a)\<rparr>)"

definition run_attempt ::
    "(watched \<Rightarrow> 'p \<times> task_world \<Rightarrow> bool list \<Rightarrow> (watched, 'p \<times> task_world, 'z) attempt_scheme)
     \<Rightarrow> ((watched, 'p \<times> task_world, 'z) attempt_scheme, 'a) oper \<Rightarrow> (('l, 'p) execution, 'a) oper" where
  "run_attempt begin m x = (case x_session x of None \<Rightarrow> (Inl no_session, x)
     | Some s \<Rightarrow> (case m (begin \<lparr>wt_session = session_in s x, wt_progress = x_progress x\<rparr> (x_provider x, x_tasks x) (signal_in x)) of
         (r, a) \<Rightarrow> (r, leave_attempt a x)))"

datatype run_result = OutPending | OutAccepted | OutRestart

fun delivery_outcome :: "delivery \<Rightarrow> run_result" where
  "delivery_outcome DeliveryPending = OutPending"
| "delivery_outcome DeliveryAccepted = OutAccepted"

fun recovery_outcome :: "recovery_result \<Rightarrow> run_result" where
  "recovery_outcome Restart = OutRestart"
| "recovery_outcome RecoveredPending = OutPending"
| "recovery_outcome RecoveredAccepted = OutAccepted"

definition run_opts :: "('l, 'p) execute_options \<Rightarrow> run_config \<Rightarrow> 'p adapter \<Rightarrow> run_scope \<Rightarrow> run_options" where
  "run_opts opts cfg ad sc = \<lparr>ro_stream = (ad_stream ad)\<lparr>st_batchSize := min (st_batchSize (ad_stream ad)) (int (batchRecords (e_limits (ei_env opts))))\<rparr>,
     ro_scope = sc, ro_fullRefresh = (\<not> cf_cursor cfg),
     ro_options = (case ad_options ad of None \<Rightarrow> cf_streamOptions cfg | Some j \<Rightarrow> j), ro_mapping = cf_mapping cfg,
     ro_sourceKeyField = (if ad_insertOnly ad then ''__sourceKey'' else []), ro_checkpointEvery = cf_checkpointEvery cfg,
     ro_maxBatchBytes = 1000000\<rparr>"

definition mirror_opts :: "('l, 'p) execute_options \<Rightarrow> run_config \<Rightarrow> 'p adapter \<Rightarrow> mirror_adapter \<Rightarrow> run_scope \<Rightarrow> target_baseline \<Rightarrow> mirror_options" where
  "mirror_opts opts cfg ad m sc baseline = \<lparr>mo_mirrorSession = True, mo_stream = ma_stream m, mo_scope = sc,
     mo_asynchronous = ma_asynchronous m, mo_baseline = baseline,
     mo_options = (case ad_options ad of None \<Rightarrow> cf_streamOptions cfg | Some j \<Rightarrow> j), mo_maxBatchBytes = 1000000,
     mo_limits = e_limits (ei_env opts), mo_refreshAfterMs = ma_refreshAfterMs m, mo_rowType = ma_rowType m,
     mo_project = ma_project m, mo_mapping = cf_mapping cfg, mo_sourcePageSize = None\<rparr>"

definition core_of :: "('l, 'p) execute_options \<Rightarrow> run_config \<Rightarrow> 'p adapter \<Rightarrow> watched core_ops" where
  "core_of opts cfg ad = watch_core (core_facade (session_env opts cfg ad) (ei_ago opts))"

definition deliver_recovery ::
    "('l, 'p) execute_options \<Rightarrow> run_config \<Rightarrow> 'p adapter \<Rightarrow> run_scope \<Rightarrow> sync_store \<Rightarrow> (watched, 'p) recovery_hooks option \<Rightarrow> bool
     \<Rightarrow> (('l, 'p) execution, run_result option) oper" where
  "deliver_recovery opts cfg ad sc store hooks independent =
     bindE (run_attempt (\<lambda>w p sig. recovery_start w p store sig)
       (recoverRun (ei_fuel opts) (e_sha (ei_env opts)) (core_of opts cfg ad) (lift_provider (ad_provider ad))
          (map_option lift_hooks hooks) sc independent)) (\<lambda>r.
     returnE (map_option recovery_outcome r))"

definition deliver_upsert ::
    "('l, 'p) execute_options \<Rightarrow> run_config \<Rightarrow> 'p adapter \<Rightarrow> run_scope \<Rightarrow> sync_store \<Rightarrow> (('l, 'p) execution, run_result option) oper" where
  "deliver_upsert opts cfg ad sc store =
     bindE (run_attempt (\<lambda>w p sig. initial_state w p store sig)
       (runReverseEtl (e_sha (ei_env opts)) (core_of opts cfg ad) (lift_provider (ad_provider ad))
          (run_opts opts cfg ad sc) (run_source opts cfg ad))) (\<lambda>r.
     returnE (Some (delivery_outcome (fst r))))"

fun snapshot_text :: "snapshot_progress \<Rightarrow> string" where
  "snapshot_text (SnapshotSealed rows projected unique collapsed) = ''Snapshot complete: '' @ num (int rows) @ '' source rows, ''
     @ num (int projected) @ '' projected audience members, '' @ num (int unique) @ '' unique audience members, '' @ num collapsed
     @ '' duplicates collapsed. Comparing audience membership and submitting changes.''"
| "snapshot_text (Staging rows) = ''Extracted '' @ num (int rows) @ '' source rows into snapshot; no audience changes submitted yet''"

definition report_snapshot :: "task_handle \<Rightarrow> snapshot_progress \<Rightarrow> ('p \<times> task_world, unit) oper" where
  "report_snapshot h pr = (\<lambda>(p, t). case Tasks.progress h (snapshot_text pr) t of (r, t') \<Rightarrow> (r, (p, t')))"

text \<open>Without hooks the attachment fails closed.\<close>

definition closed_hooks :: "('j, 'p) recovery_hooks" where
  "closed_hooks = \<lparr>rh_attachWriter = throwE (PlainError ''Provider reconciliation required''), rh_reconcileBatch = None,
     rh_reconcileFinish = None, rh_reconcileInit = None, rh_reconcileAbort = None\<rparr>"

definition resumable :: "bool \<Rightarrow> phase \<Rightarrow> bool \<Rightarrow> (bool \<times> int \<times> nat) option \<Rightarrow> bool" where
  "resumable recovery ph rejected sn \<longleftrightarrow> recovery \<and> ph \<noteq> PAbortPrepared \<and> \<not> rejected \<and> (case sn of None \<Rightarrow> False | Some (sealed, _) \<Rightarrow> sealed)"

definition deliver_snapshot ::
    "('l, 'p) execute_options \<Rightarrow> run_config \<Rightarrow> 'p adapter \<Rightarrow> mirror_adapter \<Rightarrow> run_scope \<Rightarrow> sync_store
     \<Rightarrow> (watched, 'p) recovery_hooks option \<Rightarrow> (('l, 'p) execution, run_result option) oper" where
  "deliver_snapshot opts cfg ad m sc store hooks =
     bindE (case ad_verifyMirrorBaseline ad of None \<Rightarrow> throwE NonError | Some verify \<Rightarrow> on_provider verify) (\<lambda>baseline.
     bindE (on_run recoveryStatus) (\<lambda>status.
     bindE (on_run (getE (\<lambda>s. (s_recovered s, hasRejected s)))) (\<lambda>(recovery, rejected).
     bindE (on_run snapshot_status) (\<lambda>sn.
     if resumable recovery (rs_phase status) (recovery \<and> rejected) sn then
       bindE (run_attempt mirror_start
         (resumeSnapshotMirror (ei_fuel opts) (e_sha (ei_env opts)) (core_of opts cfg ad) (lift_provider (ad_provider ad))
            (lift_hooks (case hooks of None \<Rightarrow> closed_hooks | Some H \<Rightarrow> H)) (mirror_opts opts cfg ad m sc baseline) recovery)) (\<lambda>r.
       returnE (map_option (\<lambda>d. delivery_outcome (fst d)) r))
     else if recovery then deliver_recovery opts cfg ad sc store hooks (ma_asynchronous m)
     else
       bindE (run_attempt mirror_start
         (runSnapshotMirror (ei_fuel opts) (e_sha (ei_env opts)) (core_of opts cfg ad) (lift_provider (ad_provider ad))
            (mirror_opts opts cfg ad m sc baseline) (report_snapshot (task_of opts)) (run_source opts cfg ad None))) (\<lambda>r.
       returnE (map_option (\<lambda>d. delivery_outcome (fst d)) r))))))"

definition deliver_run ::
    "('l, 'p) execute_options \<Rightarrow> run_config \<Rightarrow> 'p adapter \<Rightarrow> run_scope \<Rightarrow> json \<times> json \<Rightarrow> (('l, 'p) execution, run_result option) oper" where
  "deliver_run opts cfg ad sc kept_state =
     bindE (resultE (createBufferedSyncStore (fst kept_state) 65536)) (\<lambda>store.
     bindE (on_run (getE s_recovered)) (\<lambda>recovery.
     let hooks = map_option (\<lambda>f. f (snd kept_state)) (ad_recovery ad) in
     case (cf_mode cfg, ad_mirror ad) of
       (ModeMirror, Some m) \<Rightarrow> deliver_snapshot opts cfg ad m sc store hooks
     | (ModeMirror, None) \<Rightarrow> throwE NonError
     | (ModeUpsert, _) \<Rightarrow> if recovery then deliver_recovery opts cfg ad sc store hooks (st_asynchronous (ad_stream ad))
         else deliver_upsert opts cfg ad sc store))"

subsection \<open>Settling the task\<close>

definition reportProgress :: "(('l, 'p) execution, unit) oper" where
  "reportProgress = modifyE (\<lambda>x. case x_session x of None \<Rightarrow> x
     | Some s \<Rightarrow> x\<lparr>x_progress := summarize (s_head s) (x_progress x)\<rparr>)"

definition settle ::
    "('l, 'p) execute_options \<Rightarrow> run_config \<Rightarrow> 'p adapter \<Rightarrow> string \<Rightarrow> run_result \<Rightarrow> (('l, 'p) execution, string) oper" where
  "settle opts cfg ad runId result =
     thenE (modifyE (\<lambda>x. x\<lparr>x_deliveryFinished := (result \<noteq> OutPending)\<rparr>))
     (thenE (stop_timer opts)
     (thenE throw_if_aborted
     (thenE reportProgress
     (if result = OutPending then
        thenE (on_run (detach (session_env opts cfg ad)))
        (on_tasks (wait (ei_stamp opts) (task_of opts) runId (cf_revision cfg)))
      else
        bindE (on_tasks (finish_task (task_of opts) (if result = OutAccepted then ''COMPLETE'' else ''FAILED'')
          (if result = OutAccepted then ''Reverse ETL delivery committed''
           else ''Recovery completed cleanup; next run will restart extraction'') None)) (\<lambda>changed.
        returnE (if changed \<and> result = OutAccepted then ''COMPLETE'' else ''FAILED''))))))"

definition run_task :: "('l, 'p) execute_options \<Rightarrow> (('l, 'p) execution, string option) oper" where
  "run_task opts =
     thenE (begin_task opts)
     (bindE (admit_config opts) (\<lambda>cfg.
      bindE (bind_adapter opts cfg) (\<lambda>ad.
      bindE (logical_run opts cfg) (\<lambda>runId.
      let sc = run_input opts cfg ad runId in
      thenE (open_run opts cfg ad sc)
      (bindE (introduce_run opts cfg) (\<lambda>state.
       thenE (await_timer opts)
       (bindE (deliver_run opts cfg ad sc state) (\<lambda>result.
        case result of None \<Rightarrow> returnE None
        | Some res \<Rightarrow> bindE (settle opts cfg ad runId res) (\<lambda>status. returnE (Some status))))))))))"

subsection \<open>A failed execution\<close>

definition failure_text :: "exn \<Rightarrow> string \<Rightarrow> bool \<Rightarrow> bool \<Rightarrow> string" where
  "failure_text e taskId lost aborted =
     (if lost then ''The worker lost ownership or could not report progress. Contact support or your Jitsu administrator; do not reset sync state.''
      else if aborted then ''Reverse ETL cancelled; unresolved delivery retained''
      else case e of MirrorRunError m \<Rightarrow> m
        | PersistenceResetRequiredError \<Rightarrow> (case error_message e of None \<Rightarrow> [] | Some m \<Rightarrow> m)
        | _ \<Rightarrow> failureMessage e taskId)"

definition refreshing :: "('l, 'p) execution \<Rightarrow> bool" where
  "refreshing x \<longleftrightarrow> x_started x \<and> given (x_refreshRunId x) \<and> \<not> x_deliveryFinished x"

definition rejected_rows :: "('l, 'p) execution \<Rightarrow> bool" where
  "rejected_rows x = (case x_session x of None \<Rightarrow> False | Some s \<Rightarrow> hasRejected s)"

definition end_failed :: "('l, 'p) execute_options \<Rightarrow> string \<Rightarrow> exn \<Rightarrow> (('l, 'p) execution, string) oper" where
  "end_failed opts status e =
     bindE (getE (\<lambda>x. (x_started x, x_ownershipLost x))) (\<lambda>(started, lost).
     bindE read_signal (\<lambda>aborted.
     thenE (whenE started (quietly (on_tasks (finish_task (task_of opts) status (failure_text e (ei_taskId opts) lost aborted) None))))
     (returnE status)))"

definition on_failure :: "('l, 'p) execute_options \<Rightarrow> exn \<Rightarrow> (('l, 'p) execution, string option) oper" where
  "on_failure opts e =
     thenE (stop_timer opts)
     (bindE read_signal (\<lambda>aborted. bindE (getE x_ownershipLost) (\<lambda>lost.
      let h = task_of opts; status = (if aborted \<and> \<not> lost then ''CANCELLED'' else ''FAILED'') in
      thenE reportProgress
      (bindE (getE id) (\<lambda>x.
       if x_started x \<and> requiresManualReconciliation e then
         thenE (quietly (on_tasks (finish_task h status (failureMessage e (tk_task h)) None))) (returnE (Some status))
       else if refreshing x \<and> \<not> pg_deliveryChanged (x_progress x) then
         bindE (on_tasks (refreshFailed (ei_stamp opts) h
             (''Status refresh failed without updating delivery outcomes. '' @ failureMessage e (tk_task h))
             (e = PersistenceResetRequiredError))) (\<lambda>st. returnE (Some st))
       else
         bindE read_signal (\<lambda>aborted'.
         if refreshing x \<and> \<not> aborted' \<and> \<not> lost \<and> e \<noteq> PersistenceResetRequiredError \<and> \<not> rejected_rows x then
           bindE (on_tasks (wait (ei_stamp opts) h (the (x_refreshRunId x)) (cf_revision (ei_config opts)))) (\<lambda>result.
           thenE (on_tasks (logError h (''Status refresh could not complete. '' @ failureMessage e (tk_task h))))
           (returnE (Some result)))
         else bindE (end_failed opts status e) (\<lambda>st. returnE (Some st))))))))"

definition release_lease :: "('l, 'p) execute_options \<Rightarrow> (('l, 'p) execution, unit) oper" where
  "release_lease opts =
     thenE (stop_timer opts)
     (bindE (getE x_held) (\<lambda>held. whenE held (quietly (on_lease (\<lambda>_. release (ei_lease opts) (ei_holder opts))))))"

definition execute :: "('l, 'p) execute_options \<Rightarrow> (('l, 'p) execution, string option) oper" where
  "execute opts = finallyE (catchE (run_task opts) (on_failure opts)) (release_lease opts)"

end
