(* ===== verification/Beside.thy ===== *)
theory Beside
  imports Execute
begin

text \<open>
  What an attempt does to the task it carries beside the state of its provider: the provider and the
  recovery hooks cannot reach it, so it changes only where a mirror reports the progress of its snapshot.
\<close>

definition beside :: "('t \<Rightarrow> 't \<Rightarrow> bool) \<Rightarrow> ('j, 'p \<times> 't, 'z) attempt_scheme \<Rightarrow> ('j, 'p \<times> 't, 'z) attempt_scheme \<Rightarrow> bool" where
  "beside T s t \<longleftrightarrow> T (snd (r_provider s)) (snd (r_provider t))"

locale side = frame T for T :: "'t \<Rightarrow> 't \<Rightarrow> bool"
begin

lemma beside_refl: "beside T s s"
  by (simp add: beside_def frame_refl)

lemma beside_trans: "beside T s t \<Longrightarrow> beside T t u \<Longrightarrow> beside T s u"
  unfolding beside_def by (rule frame_trans)

lemma beside_calls: "frames (beside T) (journal_call ev m)" "frames (beside T) (journal_read m)"
  "frames (beside T) (provider_call ev (lift_external q))"
  by (rule framesI; auto simp: journal_call_def journal_read_def provider_call_def lift_external_def beside_def trace_def frame_refl
      split: prod.splits sum.splits)+

lemma beside_signal: "frames (beside T) signal_aborted" "frames (beside T) observe_signal"
  by (auto simp: frames_def beside_def signal_aborted_def observe_signal_def bindE_def Let_def frame_refl)

lemma beside_modify: "(\<And>s. r_provider (f s) = r_provider s) \<Longrightarrow> frames (beside T) (modifyE f)"
  by (rule framesI) (auto simp: beside_def frame_refl)

lemma beside_reads: "frames (beside T) (readE f)" "frames (beside T) snapshot_store" "frames (beside T) (ensureP b msg)"
  "frames (beside T) (set_writer w)" "frames (beside T) (set_unacknowledged b)" "frames (beside T) (set_stage st)"
  "frames (beside T) (uncertain b c)" "frames (beside T) (validateWriter m)"
  by (auto simp: frames_def beside_def readE_def snapshot_store_def ensureP_def set_writer_def set_unacknowledged_def set_stage_def
      uncertain_def validateWriter_def whenE_def ensure_run frame_refl)

lemma beside_pair: "(\<And>a b. frames (beside T) (f a b)) \<Longrightarrow> frames (beside T) (case p of (a, b) \<Rightarrow> f a b)"
  by (cases p) simp

lemma beside_loop: "frames (beside T) body \<Longrightarrow> frames (beside T) (loopE n body)"
  by (induction n) (auto intro!: frame.frame_rules[OF frame.intro, of "beside T", OF beside_refl beside_trans])

lemma beside_report:
  assumes "\<And>pr p t. T t (snd (snd (report pr (p, t))))"
  shows "frames (beside T) (report_call report pr)"
proof (rule framesI)
  fix s r t
  assume "report_call report pr s = (r, t)"
  then have "t = s\<lparr>r_provider := snd (report pr (r_provider s))\<rparr>" by (auto simp: report_call_def split: prod.splits)
  then show "beside T s t" using assms[of "snd (r_provider s)" pr "fst (r_provider s)"] by (simp add: beside_def)
qed

lemma beside_hook: "(\<And>f. h = Some f \<Longrightarrow> frames (beside T) (g f)) \<Longrightarrow> frames (beside T) (required_hook h msg g)"
  by (cases h) (auto simp: required_hook_def frames_def beside_def frame_refl)

lemmas beside_rules = frame.frame_rules [OF frame.intro, of "beside T", OF beside_refl beside_trans]
  beside_calls beside_signal beside_modify beside_reads beside_pair beside_loop beside_hook

lemma lifted_provider [simp]:
  "p_createWriter (lift_provider P) = lift_external (p_createWriter P)" "p_init (lift_provider P) = lift_external (p_init P)"
  "p_upsert (lift_provider P) b = lift_external (p_upsert P b)" "p_remove (lift_provider P) b = lift_external (p_remove P b)"
  "p_finish (lift_provider P) = lift_external (p_finish P)" "p_abort (lift_provider P) c = lift_external (p_abort P c)"
  by (simp_all add: lift_provider_def)

lemma lifted_send:
  "(if b then p_upsert (lift_provider P) w else p_remove (lift_provider P) w) = lift_external (if b then p_upsert P w else p_remove P w)"
  by simp

lemma push_provider [simp]: "r_provider (push_state act entry cur s) = r_provider s" "r_provider (push_row row bytes m) = r_provider m"
  by (simp_all add: push_state_def push_row_def)

lemma flush_beside: "frames (beside T) (flush sha J (lift_provider P) opts)"
  unfolding flush_def deliver_def Let_def lifted_send by (intro beside_rules) simp_all

lemma take_record_beside: "frames (beside T) (take_record sha J (lift_provider P) opts r)"
  unfolding take_record_def add_entry_def flush_when_def checkpoint_when_due_def Let_def
  by (intro beside_rules flush_beside) simp_all

lemma run_beside: "frames (beside T) (runReverseEtl sha J (lift_provider P) opts src)"
  unfolding runReverseEtl_def run_body_def start_writer_def read_source_def end_run_def cleanup_def rethrow_redacted_def lifted_provider
  by (intro beside_rules take_record_beside flush_beside) simp_all

lemma flush_records_beside: "frames (beside T) (flush_records sha J (lift_provider P) opts recovered act)"
  unfolding flush_records_def send_batch_def Let_def lifted_send by (intro beside_rules) simp_all

lemma deliver_page_beside: "frames (beside T) (deliver_page sha J (lift_provider P) opts recovered kind)"
  unfolding deliver_page_def add_effect_def by (intro beside_rules flush_records_beside) simp_all

lemma deliver_kinds_beside: "frames (beside T) (deliver_kinds fuel sha J (lift_provider P) opts recovered pend kinds)"
proof (induction kinds)
  case Nil
  show ?case unfolding deliver_kinds.simps finish_mirror_def lifted_provider by (intro beside_rules)
next
  case (Cons kind kinds)
  show ?case unfolding deliver_kinds.simps by (intro beside_rules deliver_page_beside Cons.IH) simp_all
qed

lemma deliver_mirror_beside: "frames (beside T) (deliver_mirror fuel sha J (lift_provider P) opts recovered pend)"
  unfolding deliver_mirror_def by (intro beside_rules deliver_kinds_beside) simp_all

lemma setup_beside: "frames (beside T) (setup_mirror J opts)"
  unfolding setup_mirror_def by (intro beside_rules) simp_all

lemma extract_beside:
  assumes "\<And>pr p t. T t (snd (snd (report pr (p, t))))"
  shows "frames (beside T) (extract_source sha J opts report src)"
  unfolding extract_source_def take_row_def flush_page_def Let_def
  by (intro beside_rules beside_report assms) simp_all

lemma mirror_beside:
  assumes "\<And>pr p t. T t (snd (snd (report pr (p, t))))"
  shows "frames (beside T) (runSnapshotMirror fuel sha J (lift_provider P) opts report src)"
  unfolding runSnapshotMirror_def mirror_body_def mirror_cleanup_def start_mirror_writer_def lifted_provider
  by (intro beside_rules setup_beside extract_beside deliver_mirror_beside assms) simp_all

lemma lifted_hooks [simp]:
  "rh_attachWriter (lift_hooks H) = lift_external (rh_attachWriter H)"
  "rh_reconcileBatch (lift_hooks H) = map_option (\<lambda>f b a r. lift_external (f b a r)) (rh_reconcileBatch H)"
  "rh_reconcileFinish (lift_hooks H) = map_option (\<lambda>f r. lift_external (f r)) (rh_reconcileFinish H)"
  "rh_reconcileInit (lift_hooks H) = map_option lift_external (rh_reconcileInit H)"
  "rh_reconcileAbort (lift_hooks H) = map_option lift_external (rh_reconcileAbort H)"
  by (simp_all add: lift_hooks_def)

lemma resume_beside: "frames (beside T) (resumeSnapshotMirror fuel sha J (lift_provider P) (lift_hooks H) opts recovery)"
  unfolding resumeSnapshotMirror_def resume_delivery_def resume_page_def resume_batch_def resume_finish_def Let_def
  by (intro beside_rules setup_beside deliver_mirror_beside) (auto intro: beside_rules)

lemma hook_lifted: "hook f (map_option lift_hooks hooks) = Option.bind hooks (\<lambda>H. f (lift_hooks H))"
  by (cases hooks) (simp_all add: hook_def)

lemma recover_beside: "frames (beside T) (recoverRun fuel sha J (lift_provider P) (map_option lift_hooks hooks) sc independent)"
  unfolding recoverRun_def recover_batches_def recover_page_def recover_batch_def recover_finish_def recover_cleanup_def
    finish_recovered_def commit_recovered_def lifted_provider hook_lifted
  by (intro beside_rules) (auto intro: beside_rules simp: bind_eq_Some_conv)

end

end
