(* ===== verification/Pod.thy ===== *)
theory Pod
  imports Beside
begin

text \<open>
  Executions as clients of the task operations: a relation between task tables that every operation of
  \<open>tasks.ts\<close> keeps is kept by the whole execution of a task, whatever fails. Two instances are given: an
  execution touches only its own task, and only while no other worker holds it; and it keeps the table of tasks well formed.
\<close>

text \<open>\<open>TaskResult\<close>, and the statuses a task of the runner can have.\<close>

definition task_results :: "string set" where
  "task_results = {''COMPLETE'', ''FAILED'', ''CANCELLED'', ''PENDING''}"

definition task_statuses :: "string set" where
  "task_statuses = task_results \<union> {''RUNNING'', ''WAITING''}"

lemma frames_finally: "frame R \<Longrightarrow> frames R m \<Longrightarrow> frames R f \<Longrightarrow> frames R (finallyE m f)"
  by (rule framesI, auto simp: finallyE_def split: prod.splits)
    (metis frame.frame_trans framesD prod.collapse)

locale task_steps = side T for T :: "task_world \<Rightarrow> task_world \<Rightarrow> bool" +
  fixes h :: task_handle and stamp :: "int \<Rightarrow> string"
  assumes same_rows: "td_tasks (tw_db w') = td_tasks (tw_db w) \<Longrightarrow> T w w'"
    and start_step: "T w (snd (start h trg recoveryOf revision att w))"
    and heartbeat_step: "T w (snd (heartbeat h w))"
    and progress_step: "T w (snd (Tasks.progress h m w))"
    and wait_step: "T w (snd (wait stamp h runId rv w))"
    and finish_step: "st \<in> task_results \<Longrightarrow> T w (snd (finish_task h st m sch w))"
    and refresh_step: "T w (snd (refreshFailed stamp h m stop w))"
    and log_step: "T w (snd (logError h m w))"
begin

lemmas task_rules = start_step heartbeat_step progress_step wait_step finish_step refresh_step log_step

definition pod :: "('l, 'p) execution \<Rightarrow> ('l, 'p) execution \<Rightarrow> bool" where
  "pod x y \<longleftrightarrow> T (x_tasks x) (x_tasks y) \<and> (x_held x \<longrightarrow> x_held y) \<and> (x_started x \<longrightarrow> x_started y)"

lemma pod_frame: "frame pod"
proof
  show "pod x x" for x :: "('l, 'p) execution" by (simp add: pod_def frame_refl)
  show "pod x z" if "pod x y" "pod y z" for x y z :: "('l, 'p) execution"
    using that frame_trans[of "x_tasks x" "x_tasks y" "x_tasks z"] by (auto simp: pod_def)
qed

lemma pod_modify:
  "(\<And>x. td_tasks (tw_db (x_tasks (f x))) = td_tasks (tw_db (x_tasks x)) \<and> (x_held x \<longrightarrow> x_held (f x)) \<and> (x_started x \<longrightarrow> x_started (f x)))
   \<Longrightarrow> frames pod (modifyE f)"
  by (rule framesI) (auto simp: pod_def intro: same_rows)

lemma put_world_rows [simp]: "td_tasks (tw_db (x_tasks (put_world w x))) = td_tasks (tw_db (x_tasks x))"
  "x_held (put_world w x) = x_held x" "x_started (put_world w x) = x_started x"
  by (simp_all add: put_world_def set_database_def)

lemma put_session_rows [simp]: "td_tasks (tw_db (x_tasks (put_session s x))) = td_tasks (tw_db (x_tasks x))"
  "x_held (put_session s x) = x_held x" "x_started (put_session s x) = x_started x"
  by (simp_all add: put_session_def)

lemma pod_lifts: "frames pod (on_lease k)" "frames pod (on_provider q)" "frames pod (on_world n)" "frames pod (on_run u)"
  by (rule framesI; auto simp: pod_def on_lease_def on_provider_def on_world_def on_run_def intro!: same_rows split: prod.splits option.splits)+

lemma pod_tasks: "(\<And>w. T w (snd (m w))) \<Longrightarrow> frames pod (on_tasks m)"
  by (rule framesI, clarsimp simp: pod_def on_tasks_def split: prod.splits) (metis snd_conv)

lemma pod_read: "frames pod (on_tasks (task_transaction (getE f)))"
  by (rule pod_tasks, rule same_rows)
    (auto simp: task_transaction_def task_fault_def split: list.splits option.splits tx_fault.splits)

lemma pod_signal: "frames pod read_signal"
  by (rule framesI) (auto simp: read_signal_def Let_def pod_def intro: same_rows)

lemma pod_attempt:
  assumes "frames (beside T) m" and "\<And>w p sig. r_provider (begin w p sig) = p"
  shows "frames pod (run_attempt begin m)"
proof (rule framesI)
  fix x r y
  assume run: "run_attempt begin m x = (r, y)"
  show "pod x y"
  proof (cases "x_session x")
    case None
    with run show ?thesis by (simp add: run_attempt_def frame.frame_refl[OF pod_frame])
  next
    case (Some s)
    then obtain a where a: "m (begin \<lparr>wt_session = session_in s x, wt_progress = x_progress x\<rparr> (x_provider x, x_tasks x) (signal_in x)) = (r, a)"
      and y: "y = leave_attempt a x"
      using run by (auto simp: run_attempt_def split: prod.splits)
    have "T (x_tasks x) (snd (r_provider a))" using framesD[OF assms(1) a] by (simp add: beside_def assms(2))
    moreover have "T (snd (r_provider a)) (x_tasks y)" by (rule same_rows) (simp add: y leave_attempt_def)
    ultimately have "T (x_tasks x) (x_tasks y)" by (rule frame_trans)
    then show ?thesis by (simp add: y pod_def leave_attempt_def)
  qed
qed

lemma pod_pair: "(\<And>a b. frames pod (f a b)) \<Longrightarrow> frames pod (case p of (a, b) \<Rightarrow> f a b)"
  by (cases p) simp

lemmas pod_rules = frame.frame_rules [OF pod_frame] pod_modify pod_lifts pod_read pod_signal pod_pair

lemma quietly_pod: "frames pod m \<Longrightarrow> frames pod (quietly m)"
  unfolding quietly_def by (intro pod_rules)

end

locale pod_steps = task_steps T "task_of opts" "ei_stamp opts" for T :: "task_world \<Rightarrow> task_world \<Rightarrow> bool" and opts :: "('l, 'p) execute_options"
begin

lemma throw_pod: "frames pod (throw_if_aborted :: (('l, 'p) execution, unit) oper)"
  unfolding throw_if_aborted_def by (intro pod_rules)

lemma tick_pod: "frames pod (tick opts)"
  unfolding tick_def renewLease_def by (intro pod_rules pod_tasks task_rules) simp_all

lemma timer_pod: "frames pod (await_timer opts)" "frames pod (stop_timer opts)"
  unfolding stop_timer_def await_timer_def by (intro pod_rules tick_pod; simp add: pass_time_def)+

lemma begin_pod: "frames pod (begin_task opts)"
  unfolding begin_task_def by (intro pod_rules throw_pod pod_tasks task_rules) simp_all

lemma admit_pod: "frames pod (admit_config opts)"
  unfolding admit_config_def by (intro pod_rules) simp_all

lemma bind_pod: "frames pod (bind_adapter opts cfg)"
  unfolding bind_adapter_def by (intro pod_rules throw_pod timer_pod) simp_all

lemma logical_pod: "frames pod (logical_run opts cfg)"
  unfolding logical_run_def by (intro pod_rules)

lemma open_pod: "frames pod (open_run opts cfg ad sc)"
  unfolding open_run_def renewLease_def by (intro pod_rules throw_pod) simp_all

lemma introduce_pod: "frames pod (introduce_run opts cfg)"
  unfolding introduce_run_def log_text_def observe_restored_def
  by (intro pod_rules pod_tasks task_rules) (auto split: option.splits)

lemma recovery_pod: "frames pod (deliver_recovery opts cfg ad sc store hooks independent)"
  unfolding deliver_recovery_def by (intro pod_rules pod_attempt recover_beside) (simp add: recovery_start_def)

lemma upsert_pod: "frames pod (deliver_upsert opts cfg ad sc store)"
  unfolding deliver_upsert_def by (intro pod_rules pod_attempt run_beside) (simp add: initial_state_def)

lemma report_pod: "T t (snd (snd (report_snapshot (task_of opts) pr (p, t))))"
  using progress_step[of t "snapshot_text pr"]
  by (cases "Tasks.progress (task_of opts) (snapshot_text pr) t") (simp add: report_snapshot_def)

lemma snapshot_pod: "frames pod (deliver_snapshot opts cfg ad m sc store hooks)"
  unfolding deliver_snapshot_def
  by (intro pod_rules pod_attempt resume_beside mirror_beside recovery_pod report_pod) (simp_all add: mirror_start_def)

lemma deliver_pod: "frames pod (deliver_run opts cfg ad sc kept_state)"
  unfolding deliver_run_def Let_def
  by (intro pod_rules) (auto intro: pod_rules snapshot_pod recovery_pod upsert_pod split: run_mode.splits option.splits)

lemma settle_pod: "frames pod (settle opts cfg ad runId res)"
  unfolding settle_def reportProgress_def
  by (intro pod_rules timer_pod throw_pod pod_tasks task_rules) (auto simp: task_results_def split: option.splits)

lemma run_task_pod: "frames pod (run_task opts)"
  unfolding run_task_def Let_def
  by (intro pod_rules begin_pod admit_pod bind_pod logical_pod open_pod introduce_pod timer_pod deliver_pod settle_pod)

lemma on_failure_pod: "frames pod (on_failure opts e)"
  unfolding on_failure_def Let_def end_failed_def reportProgress_def
  by (intro pod_rules timer_pod quietly_pod pod_tasks task_rules) (auto simp: task_results_def split: option.splits)

lemma execute_pod: "frames pod (execute opts)"
  unfolding execute_def release_lease_def
  by (intro frames_finally[OF pod_frame] pod_rules run_task_pod on_failure_pod timer_pod quietly_pod)

end

subsection \<open>Only its own task\<close>

text \<open>A row a worker may change: its own task, while no other worker is active on it.\<close>

definition mine :: "task_handle \<Rightarrow> task_row \<Rightarrow> bool" where
  "mine h t \<longleftrightarrow> own_row h t \<and> (\<not> worker_active t \<or> worker_is (tk_worker h) True t)"

definition touched :: "task_handle \<Rightarrow> task_tables \<Rightarrow> task_tables \<Rightarrow> bool" where
  "touched h d d' \<longleftrightarrow> length (td_tasks d) \<le> length (td_tasks d')
     \<and> (\<forall>i < length (td_tasks d). td_tasks d' ! i = td_tasks d ! i \<or> mine h (td_tasks d ! i) \<and> own_row h (td_tasks d' ! i))
     \<and> (\<forall>i < length (td_tasks d'). length (td_tasks d) \<le> i \<longrightarrow> own_row h (td_tasks d' ! i))"

lemma touched_refl: "td_tasks d' = td_tasks d \<Longrightarrow> touched h d d'"
  by (simp add: touched_def)

lemma touched_trans:
  assumes "touched h d1 d2" and "touched h d2 d3"
  shows "touched h d1 d3"
proof -
  have "td_tasks d3 ! i = td_tasks d1 ! i \<or> mine h (td_tasks d1 ! i) \<and> own_row h (td_tasks d3 ! i)" if "i < length (td_tasks d1)" for i
  proof -
    have "i < length (td_tasks d2)" using assms(1) that by (simp add: touched_def)
    then have "td_tasks d3 ! i = td_tasks d2 ! i \<or> mine h (td_tasks d2 ! i) \<and> own_row h (td_tasks d3 ! i)"
      using assms(2) by (simp add: touched_def)
    moreover have "td_tasks d2 ! i = td_tasks d1 ! i \<or> mine h (td_tasks d1 ! i) \<and> own_row h (td_tasks d2 ! i)"
      using assms(1) that by (simp add: touched_def)
    ultimately show ?thesis by auto
  qed
  moreover have "own_row h (td_tasks d3 ! i)" if "i < length (td_tasks d3)" "length (td_tasks d1) \<le> i" for i
  proof (cases "i < length (td_tasks d2)")
    case True
    then show ?thesis using assms that unfolding touched_def by metis
  next
    case False
    then show ?thesis using assms(2) that by (simp add: touched_def)
  qed
  ultimately show ?thesis using assms by (simp add: touched_def)
qed

lemma changes_touched: "changes_only P d d' \<Longrightarrow> (\<And>t. P t \<Longrightarrow> mine h t) \<Longrightarrow> touched h d d'"
  unfolding changes_only_def touched_def mine_def own_row_def by (metis leD order_refl)

lemma held_mine: "held_row h st t \<Longrightarrow> mine h t"
  by (simp add: held_row_def mine_def)

lemma start_new_touched:
  assumes "start h trg recoveryOf revision att w = (r, w')" and "trg \<noteq> RecoveryTrigger"
  shows "touched h (tw_db w) (tw_db w')"
proof -
  have "wp (task_transaction (start_new h trg recoveryOf (tw_clock w)))
      (\<lambda>_ w'. touched h (tw_db w) (tw_db w')) (\<lambda>_ w'. touched h (tw_db w) (tw_db w')) w"
    unfolding start_new_def
    by (rule wp_task_transaction)
      (auto simp: wp_simps touched_def nth_append new_task_def own_row_def)
  then show ?thesis using assms by (simp add: start_def bindE_def wp_always)
qed

definition touching :: "task_handle \<Rightarrow> task_world \<Rightarrow> task_world \<Rightarrow> bool" where
  "touching h w w' \<longleftrightarrow> (task_ids_ok (tw_db w) \<longrightarrow> task_ids_ok (tw_db w') \<and> touched h (tw_db w) (tw_db w'))"

lemma fenced_touching: "fenced P m \<Longrightarrow> (\<And>t. P t \<Longrightarrow> mine h t) \<Longrightarrow> touching h w (snd (m w))"
  unfolding touching_def using fenced_ids[of P m w] by (auto simp: fenced_def intro: changes_touched)

interpretation own_task: pod_steps "touching (task_of opts)" opts for opts
proof
  fix w w' w'' :: task_world and trg recoveryOf revision att m runId rv st sch stop
  let ?h = "task_of opts"
  note held = held_mine[of ?h "{''RUNNING'', ''PENDING''}", folded running_row_def]
  show "touching ?h w w" by (simp add: touching_def touched_refl)
  show "touching ?h w w' \<Longrightarrow> touching ?h w' w'' \<Longrightarrow> touching ?h w w''"
    unfolding touching_def by (blast intro: touched_trans)
  show "touching ?h w w'" if "td_tasks (tw_db w') = td_tasks (tw_db w)"
    using that by (simp add: touching_def touched_refl task_ids_ok_def)
  show "touching ?h w (snd (start ?h trg recoveryOf revision att w))"
  proof (cases "trg = RecoveryTrigger")
    case True
    then show ?thesis using fenced_touching[OF start_recovery_fenced, of ?h] by (simp add: mine_def)
  next
    case False
    then show ?thesis using task_ids_kept(1) start_new_touched prod.collapse by (metis touching_def)
  qed
  show "touching ?h w (snd (heartbeat ?h w))" by (rule fenced_touching[OF heartbeat_fenced held])
  show "touching ?h w (snd (Tasks.progress ?h m w))" by (rule fenced_touching[OF progress_fenced held])
  show "touching ?h w (snd (wait (ei_stamp opts) ?h runId rv w))" by (rule fenced_touching[OF wait_fenced held])
  show "touching ?h w (snd (finish_task ?h st m sch w))" by (rule fenced_touching[OF finish_task_fenced held])
  show "touching ?h w (snd (logError ?h m w))" by (rule fenced_touching[OF logError_fenced]) simp
  show "touching ?h w (snd (refreshFailed (ei_stamp opts) ?h m stop w))"
    unfolding touching_def
    using task_ids_kept(7) changes_touched[OF refreshFailed_fenced held_mine[of ?h, folded refresh_row_def]]
    by (simp add: task_ids_ok_def refresh_row_def)
qed

subsection \<open>Well-formed rows\<close>

text \<open>A task of the runner has one of its statuses, and a worker is active only on a task that runs.\<close>

definition task_row_ok :: "task_row \<Rightarrow> bool" where
  "task_row_ok t \<longleftrightarrow> (t_package t = runner_package \<longrightarrow>
     t_status t \<in> task_statuses \<and> (worker_active t \<longrightarrow> t_status t \<in> {''RUNNING'', ''PENDING''}))"

definition task_rows_ok :: "task_tables \<Rightarrow> bool" where
  "task_rows_ok d \<longleftrightarrow> list_all task_row_ok (td_tasks d)"

lemma rows_ok_log [simp]: "task_rows_ok (d\<lparr>td_log := l\<rparr>) = task_rows_ok d"
  by (simp add: task_rows_ok_def)

lemma rows_ok_update:
  "task_rows_ok d \<Longrightarrow> (\<And>t. Q t \<Longrightarrow> task_row_ok t \<Longrightarrow> task_row_ok (f t)) \<Longrightarrow>
   task_rows_ok (d\<lparr>td_tasks := map (\<lambda>t. if Q t then f t else t) (td_tasks d)\<rparr>)"
  by (auto simp: task_rows_ok_def list_all_iff)

lemma row_ok_changes:
  "task_row_ok t \<Longrightarrow> task_row_ok (t\<lparr>t_updatedAt := c\<rparr>)" "task_row_ok t \<Longrightarrow> task_row_ok (t\<lparr>t_description := m\<rparr>)"
  "task_row_ok (take_over h c t)"
  "st \<in> task_results \<Longrightarrow> task_row_ok (ended_row h st msg sch c t)"
  "st \<in> task_statuses \<Longrightarrow> task_row_ok (restored_row h st rsch sus c t)"
  "task_row_ok (new_task h trg recoveryOf c)"
  by (simp_all add: task_row_ok_def take_over_def ended_row_def restored_row_def new_task_def worker_active_def released_def
      task_statuses_def task_results_def)

definition rows_kept :: "task_world \<Rightarrow> task_world \<Rightarrow> bool" where
  "rows_kept w w' \<longleftrightarrow> (task_rows_ok (tw_db w) \<longrightarrow> task_rows_ok (tw_db w'))"

lemma rows_keptI:
  "(task_rows_ok (tw_db w) \<Longrightarrow> wp m (\<lambda>_ w'. task_rows_ok (tw_db w')) (\<lambda>_ w'. task_rows_ok (tw_db w')) w) \<Longrightarrow> rows_kept w (snd (m w))"
  by (simp add: rows_kept_def wp_always)

lemma wp_rows_transaction:
  assumes "task_rows_ok (tw_db w)" and "wp work (\<lambda>_. task_rows_ok) (\<lambda>_ _. True) (tw_db w)"
  shows "wp (task_transaction work) (\<lambda>_ w'. task_rows_ok (tw_db w')) (\<lambda>_ w'. task_rows_ok (tw_db w')) w"
  using assms by (intro wp_task_transaction) (auto elim!: wp_conseq)

lemma rows_ok_append: "task_rows_ok d \<Longrightarrow> task_row_ok t \<Longrightarrow> task_rows_ok (d\<lparr>td_tasks := td_tasks d @ [t]\<rparr>)"
  by (simp add: task_rows_ok_def)

lemma start_rows: "rows_kept w (snd (start h trg recoveryOf revision att w))"
  by (rule rows_keptI, unfold start_def start_recovery_def start_new_def,
      auto simp: wp_simps Let_def row_ok_changes intro!: wp_rows_transaction rows_ok_update rows_ok_append)

lemma finish_rows: "st \<in> task_results \<Longrightarrow> rows_kept w (snd (finish_task h st m sch w))"
  by (rule rows_keptI, unfold finish_task_def, auto simp: wp_simps row_ok_changes intro!: wp_rows_transaction rows_ok_update)

lemma heartbeat_rows: "rows_kept w (snd (heartbeat h w))"
  by (rule rows_keptI, unfold heartbeat_def, auto simp: wp_simps row_ok_changes intro!: wp_rows_transaction rows_ok_update)

lemma progress_rows: "rows_kept w (snd (Tasks.progress h m w))"
  by (rule rows_keptI, unfold progress_def, auto simp: wp_simps row_ok_changes intro!: wp_rows_transaction rows_ok_update)

lemma logError_rows: "rows_kept w (snd (logError h m w))"
  by (rule rows_keptI, unfold logError_def, auto simp: wp_simps intro!: wp_rows_transaction)

lemma refresh_rows: "rows_kept w (snd (refreshFailed stamp h m stop w))"
  by (rule rows_keptI, unfold refreshFailed_def refresh_work_def Let_def, auto simp: wp_simps task_statuses_def task_results_def split: option.splits sum.splits
      intro!: wp_rows_transaction rows_ok_update row_ok_changes(5))

lemma rows_after_read:
  assumes "tw_db (snd (m w)) = tw_db w" and "\<And>a w. rows_kept w (snd (f a w))"
  shows "rows_kept w (snd (bindE m f w))"
proof (cases "m w")
  case (Pair r w1)
  with assms(1) have "rows_kept w w1" by (simp add: rows_kept_def)
  with Pair assms(2) show ?thesis by (cases r) (auto simp: bindE_def rows_kept_def)
qed

lemma rows_then_return: "rows_kept w (snd (m w)) \<Longrightarrow> rows_kept w (snd (bindE m (\<lambda>a. returnE (g a)) w))"
  by (auto simp: bindE_def split: prod.splits sum.splits)

lemma wait_rows: "rows_kept w (snd (wait stamp h runId rv w))"
  unfolding wait_def Let_def
  by (intro rows_after_read rows_then_return finish_rows) (simp_all add: previous_schedule_reads task_results_def)

interpretation task_table: pod_steps rows_kept opts for opts
proof
  fix w w' w'' :: task_world
  show "rows_kept w w" by (simp add: rows_kept_def)
  show "rows_kept w w' \<Longrightarrow> rows_kept w' w'' \<Longrightarrow> rows_kept w w''" by (simp add: rows_kept_def)
  show "td_tasks (tw_db w') = td_tasks (tw_db w) \<Longrightarrow> rows_kept w w'" by (simp add: rows_kept_def task_rows_ok_def)
qed (rule start_rows heartbeat_rows progress_rows logError_rows wait_rows refresh_rows finish_rows, assumption?)+

end
