(* ===== verification/ExecuteFacts.thy ===== *)
theory ExecuteFacts
  imports Pod Admission
begin

text \<open>
  What the execution of a task guarantees: nothing happens without the lease, the session an execution
  opens only moves along the phase machine, and a task that is reported complete has a committed run.
\<close>

subsection \<open>Nothing without the lease\<close>

text \<open>A pod that has not started its task and runs no timer leaves the tables alone.\<close>

lemma timer_idle:
  fixes x :: "('l, 'p) execution" and opts :: "('l, 'p) execute_options"
  assumes "\<not> x_timing x"
  shows "\<exists>y. await_timer opts x = (Inr (), y) \<and> \<not> x_timing y \<and> x_started y = x_started x \<and> tw_db (x_tasks y) = tw_db (x_tasks x)
     \<and> x_session y = x_session x \<and> x_held y = x_held x"
proof -
  have "\<exists>y. forE ds (\<lambda>d. thenE (modifyE (pass_time d)) (bindE (getE x_timing) (\<lambda>t. whenE t (tick opts)))) x = (Inr (), y)
     \<and> \<not> x_timing y \<and> x_started y = x_started x \<and> tw_db (x_tasks y) = tw_db (x_tasks x) \<and> x_session y = x_session x \<and> x_held y = x_held x"
    if "\<not> x_timing x" for ds and x :: "('l, 'p) execution"
    using that
  proof (induction ds arbitrary: x)
    case (Cons d ds)
    from Cons.IH[of "pass_time d x"] Cons.prems show ?case
      by (auto simp: thenE_def bindE_def whenE_def pass_time_def)
  qed simp
  from this[of "x\<lparr>x_timer := tl (x_timer x)\<rparr>" "case x_timer x of [] \<Rightarrow> [] | ds # _ \<Rightarrow> ds"] assms show ?thesis
    by (simp add: await_timer_def thenE_def bindE_def)
qed

lemma stop_idle:
  assumes "\<not> x_timing x"
  shows "\<exists>y. stop_timer opts x = (Inr (), y) \<and> \<not> x_timing y \<and> x_started y = x_started x \<and> tw_db (x_tasks y) = tw_db (x_tasks x)
     \<and> x_session y = x_session x \<and> x_held y = x_held x"
  using timer_idle[OF assms, of opts] by (auto simp: stop_timer_def thenE_def bindE_def)

lemma release_idle:
  assumes "\<not> x_timing x"
  shows "tw_db (x_tasks (snd (release_lease opts x))) = tw_db (x_tasks x) \<and> x_session (snd (release_lease opts x)) = x_session x
     \<and> x_held (snd (release_lease opts x)) = x_held x"
proof -
  from stop_idle[OF assms, of opts] obtain y where y: "stop_timer opts x = (Inr (), y)" "tw_db (x_tasks y) = tw_db (x_tasks x)"
    "x_session y = x_session x" "x_held y = x_held x" by blast
  then show ?thesis
    by (simp add: release_lease_def thenE_def bindE_def whenE_def quietly_def catchE_def on_lease_def split: prod.splits sum.splits)
qed

lemma failure_idle:
  assumes "\<not> x_timing x" and "\<not> x_started x"
  shows "tw_db (x_tasks (snd (on_failure opts e x))) = tw_db (x_tasks x) \<and> \<not> x_timing (snd (on_failure opts e x))"
proof -
  from stop_idle[OF assms(1), of opts] obtain y where y: "stop_timer opts x = (Inr (), y)" "\<not> x_timing y" "\<not> x_started y"
    "tw_db (x_tasks y) = tw_db (x_tasks x)" using assms(2) by auto
  then show ?thesis
    by (simp add: on_failure_def end_failed_def thenE_def bindE_def whenE_def read_signal_def reportProgress_def refreshing_def Let_def
        split: option.splits)
qed

text \<open>The steps up to the lease, and the rest of the execution.\<close>

definition take_lease :: "('l, 'p) execute_options \<Rightarrow> (('l, 'p) execution, unit) oper" where
  "take_lease opts = thenE throw_if_aborted (on_lease (acquire (ei_lease opts) (ei_holder opts)))"

definition hold_lease :: "('l, 'p) execution \<Rightarrow> ('l, 'p) execution" where
  "hold_lease x = x\<lparr>x_held := True, x_stage := TaskStart\<rparr>"

definition leased_task :: "('l, 'p) execute_options \<Rightarrow> (('l, 'p) execution, string option) oper" where
  "leased_task opts =
     thenE (bindE (on_tasks (start (task_of opts) (ei_trigger opts) (ei_recoveryOf opts) (Some (cf_revision (ei_config opts))) (ei_refreshAttempt opts))) (\<lambda>run.
        modifyE (\<lambda>x. x\<lparr>x_refreshRunId := run, x_started := True, x_stage := Admission\<rparr>)))
     (bindE (admit_config opts) (\<lambda>cfg.
      bindE (bind_adapter opts cfg) (\<lambda>ad.
      bindE (logical_run opts cfg) (\<lambda>runId.
      let sc = run_input opts cfg ad runId in
      thenE (open_run opts cfg ad sc)
      (bindE (introduce_run opts cfg) (\<lambda>state.
       thenE (await_timer opts)
       (bindE (deliver_run opts cfg ad sc state) (\<lambda>result.
        case result of None \<Rightarrow> returnE None
        | Some res \<Rightarrow> bindE (settle opts cfg ad runId res) (\<lambda>status. returnE (Some status))))))))))"

lemma then_assoc: "thenE (thenE m n) k = thenE m (thenE n k)"
  by (simp add: fun_eq_iff thenE_def bindE_def split: prod.splits sum.splits)

lemma run_task_lease: "run_task opts = thenE (take_lease opts) (thenE (modifyE hold_lease) (leased_task opts))"
  unfolding run_task_def begin_task_def take_lease_def leased_task_def hold_lease_def
  by (simp only: then_assoc)

context pod_steps
begin

lemma leased_pod: "frames pod (leased_task opts)"
  unfolding leased_task_def Let_def
  by (intro pod_rules pod_tasks task_rules admit_pod bind_pod logical_pod open_pod introduce_pod timer_pod deliver_pod settle_pod) simp_all

lemma leased_held:
  assumes "x_held x" and "catchE (leased_task opts) (on_failure opts) x = (r, y)"
  shows "x_held y"
  using framesD[OF frame.frame_catch[OF pod_frame leased_pod on_failure_pod] assms(2)] assms(1) by (simp add: pod_def)

lemma release_held: "x_held x \<Longrightarrow> x_held (snd (release_lease opts x))"
proof -
  have "frames pod (release_lease opts)"
    unfolding release_lease_def by (intro pod_rules timer_pod quietly_pod)
  then show "x_held x \<Longrightarrow> x_held (snd (release_lease opts x))" by (auto simp: frames_def pod_def)
qed

end

lemma take_lease_idle:
  assumes "take_lease opts x = (r, y)"
  shows "x_timing y = x_timing x \<and> x_started y = x_started x \<and> tw_db (x_tasks y) = tw_db (x_tasks x)"
  using assms
  by (auto simp: take_lease_def throw_if_aborted_def thenE_def bindE_def read_signal_def on_lease_def Let_def split: prod.splits sum.splits if_splits)

lemma execute_without_lease:
  assumes "\<not> x_timing x" and "\<not> x_started x" and "execute opts x = (r, y)" and "\<not> x_held y"
  shows "tw_db (x_tasks y) = tw_db (x_tasks x)"
proof -
  obtain r1 x1 where x1: "take_lease opts x = (r1, x1)" by fastforce
  note i1 = take_lease_idle[OF x1]
  show ?thesis
  proof (cases r1)
    case (Inl e)
    then have "catchE (run_task opts) (on_failure opts) x = on_failure opts e x1"
      by (simp add: run_task_lease catchE_def thenE_def bindE_def x1)
    then have "y = snd (release_lease opts (snd (on_failure opts e x1)))"
      using assms(3) by (auto simp: execute_def finallyE_def split: prod.splits)
    then show ?thesis using failure_idle[of x1 opts e] release_idle[of "snd (on_failure opts e x1)" opts] i1 assms(1,2) by simp
  next
    case (Inr u)
    obtain r2 x2 where x2: "catchE (leased_task opts) (on_failure opts) (hold_lease x1) = (r2, x2)" by fastforce
    have "catchE (run_task opts) (on_failure opts) x = (r2, x2)"
      using x2 by (simp add: run_task_lease catchE_def thenE_def bindE_def x1 Inr split: prod.splits)
    then have y: "y = snd (release_lease opts x2)" using assms(3) by (simp add: execute_def finallyE_def)
    have "x_held x2" by (rule own_task.leased_held[OF _ x2]) (simp add: hold_lease_def)
    then have "x_held y" unfolding y by (rule own_task.release_held)
    with assms(4) show ?thesis by simp
  qed
qed

end
