(* ===== verification/Committed.thy ===== *)
theory Committed
  imports ExecuteFacts
begin

text \<open>
  The session of an execution: from the opened run on it only moves along the phase machine, and a task
  that is reported complete has a durably completed run behind it.
\<close>

lemma on_world_run [run_simps]: "on_world m x = (r, y) \<longleftrightarrow> (\<exists>w. m (world_in x) = (r, w) \<and> y = put_world w x)"
  by (auto simp: on_world_def split: prod.splits)

lemma on_tasks_run [run_simps]: "on_tasks m x = (r, y) \<longleftrightarrow> (\<exists>w. m (x_tasks x) = (r, w) \<and> y = x\<lparr>x_tasks := w\<rparr>)"
  by (auto simp: on_tasks_def split: prod.splits)

lemma on_provider_run [run_simps]: "on_provider m x = (r, y) \<longleftrightarrow> (\<exists>p. m (x_provider x) = (r, p) \<and> y = x\<lparr>x_provider := p\<rparr>)"
  by (auto simp: on_provider_def split: prod.splits)

subsection \<open>The session of a pod\<close>

lemma truncate_set_database [simp]: "database.truncate (set_database b d) = b"
  by (cases b) (simp add: set_database_def database.defs)

definition session_of :: "('l, 'p) execution \<Rightarrow> session option" where
  "session_of x = map_option (\<lambda>s. session_in s x) (x_session x)"

text \<open>What the phase machine and the completion of a run read of a session.\<close>

definition same_view :: "session \<Rightarrow> session \<Rightarrow> bool" where
  "same_view s t \<longleftrightarrow> s_scope t = s_scope s \<and> w_cache (s_world t) = w_cache (s_world s)
     \<and> db_controls (w_db (s_world t)) = db_controls (w_db (s_world s))"

lemma view_control: "same_view s t \<Longrightarrow> control t = control s"
  by (simp add: same_view_def control_def control_of_def)

lemma view_coherent: "same_view s t \<Longrightarrow> coherent t = coherent s"
  by (simp add: same_view_def coherent_def cached_def control_of_def)

lemma view_on_track: "same_view s t \<Longrightarrow> reach.on_track s0 s \<Longrightarrow> reach.on_track s0 t"
  using view_control[of s t] view_coherent[of s t] by (simp add: reach.on_track_def same_view_def)

lemma put_session_view: "\<exists>t. session_of (put_session s x) = Some t \<and> same_view s t"
  by (simp add: session_of_def put_session_def put_world_def session_in_def world_in_def same_view_def)

lemma put_session_of: "session_of (put_session s x) = Some (session_in s (put_world (s_world s) x))"
  by (simp add: session_of_def put_session_def session_in_def world_in_def)

subsection \<open>Along the phase machine\<close>

definition follows :: "('l, 'p) execution \<Rightarrow> ('l, 'p) execution \<Rightarrow> bool" where
  "follows x y \<longleftrightarrow> (\<forall>s. session_of x = Some s \<longrightarrow> coherent s \<longrightarrow> control s \<noteq> None \<longrightarrow> (\<exists>t. session_of y = Some t \<and> reach.on_track s t))"

lemma follows_frame: "frame follows"
proof
  show "follows x x" for x :: "('l, 'p) execution" by (auto simp: follows_def intro: reach.on_track_refl)
  show "follows x z" if "follows x y" "follows y z" for x y z :: "('l, 'p) execution"
    unfolding follows_def
  proof (intro allI impI)
    fix s
    assume s: "session_of x = Some s" "coherent s" "control s \<noteq> None"
    with that(1) obtain t where t: "session_of y = Some t" "reach.on_track s t" by (auto simp: follows_def)
    then have "coherent t" "control t \<noteq> None" by (auto simp: reach.on_track_def)
    with that(2) t(1) obtain u where "session_of z = Some u" "reach.on_track t u" by (auto simp: follows_def)
    with reach.on_track_trans[OF t(2)] show "\<exists>t. session_of z = Some t \<and> reach.on_track s t" by blast
  qed
qed

lemma follows_same:
  assumes "x_session y = x_session x" and "w_cache (x_world y) = w_cache (x_world x)"
    and "db_controls (tw_db (x_tasks y)) = db_controls (tw_db (x_tasks x))"
  shows "follows x y"
  unfolding follows_def
proof (intro allI impI)
  fix s
  assume s: "session_of x = Some s" "coherent s" "control s \<noteq> None"
  then obtain s0 where s0: "x_session x = Some s0" "s = session_in s0 x" by (auto simp: session_of_def)
  then have "same_view s (session_in s0 y)" using assms(2,3) by (simp add: same_view_def session_in_def world_in_def database.defs)
  moreover have "session_of y = Some (session_in s0 y)" using assms(1) s0 by (simp add: session_of_def)
  ultimately show "\<exists>t. session_of y = Some t \<and> reach.on_track s t"
    using view_on_track reach.on_track_refl[OF s(2,3)] by blast
qed

lemma follows_modify:
  "(\<And>x. x_session (f x) = x_session x \<and> w_cache (x_world (f x)) = w_cache (x_world x)
     \<and> db_controls (tw_db (x_tasks (f x))) = db_controls (tw_db (x_tasks x))) \<Longrightarrow> frames follows (modifyE f)"
  by (rule framesI) (auto intro: follows_same)

lemma follows_lifts: "frames follows (on_lease k)" "frames follows (on_provider q)" "frames follows read_signal"
  by (rule framesI; auto simp: on_lease_def on_provider_def read_signal_def Let_def intro!: follows_same split: prod.splits)+

definition keeps_controls :: "(task_world, 'a) oper \<Rightarrow> bool" where
  "keeps_controls m \<longleftrightarrow> (\<forall>w. db_controls (tw_db (snd (m w))) = db_controls (tw_db w))"

lemma fenced_controls: "fenced P m \<Longrightarrow> keeps_controls m"
  by (simp add: fenced_def keeps_controls_def changes_only_def)

lemma refresh_controls: "keeps_controls (refreshFailed stamp h m stop)"
proof -
  have "wp (refreshFailed stamp h m stop) (\<lambda>_ w'. db_controls (tw_db w') = db_controls (tw_db w))
      (\<lambda>_ w'. db_controls (tw_db w') = db_controls (tw_db w)) w" for w
    unfolding refreshFailed_def refresh_work_def Let_def
    by (auto simp: wp_simps split: option.splits sum.splits intro!: wp_task_transaction)
  then show ?thesis by (simp add: keeps_controls_def wp_always)
qed

lemmas task_controls = fenced_controls[OF heartbeat_fenced] fenced_controls[OF progress_fenced] fenced_controls[OF wait_fenced]
  fenced_controls[OF finish_task_fenced] fenced_controls[OF logError_fenced] refresh_controls

lemma follows_tasks: "keeps_controls m \<Longrightarrow> frames follows (on_tasks m)"
  by (rule framesI) (auto simp: on_tasks_def keeps_controls_def split: prod.splits intro!: follows_same, metis snd_conv)

lemma follows_run:
  assumes "reach.tracked m"
  shows "frames follows (on_run m)"
proof (rule framesI)
  fix x r y
  assume run: "on_run m x = (r, y)"
  show "follows x y"
  proof (cases "x_session x")
    case None
    with run show ?thesis by (simp add: on_run_def frame.frame_refl[OF follows_frame])
  next
    case (Some s0)
    then have y: "\<exists>z. y = put_session (snd (m (session_in s0 x))) z"
      using run by (auto simp: on_run_def watch_def split: prod.splits)
    show ?thesis
      unfolding follows_def
    proof (intro allI impI)
      fix s
      assume s: "session_of x = Some s" "coherent s" "control s \<noteq> None"
      then have "s = session_in s0 x" using Some by (simp add: session_of_def)
      with tracked_snd[OF assms reach.on_track_refl[OF s(2,3)]] y
      show "\<exists>t. session_of y = Some t \<and> reach.on_track s t" using put_session_view view_on_track by blast
    qed
  qed
qed

lemma attempt_session:
  assumes "run_attempt begin m x = (r, y)" and "x_session x = Some s0"
  shows "\<exists>a w. w = \<lparr>wt_session = session_in s0 x, wt_progress = x_progress x\<rparr>
     \<and> m (begin w (x_provider x, x_tasks x) (signal_in x)) = (r, a)
     \<and> (\<exists>t. session_of y = Some t \<and> same_view (wt_session (r_journal a)) t)"
  using assms put_session_view by (fastforce simp: run_attempt_def leave_attempt_def split: prod.splits)

lemma follows_attempt:
  assumes "\<And>w a. on_session reach.on_track w (r_journal a) \<Longrightarrow> on_session reach.on_track w (r_journal (snd (m a)))"
    and "\<And>w p sig. r_journal (begin w p sig) = w"
  shows "frames follows (run_attempt begin m)"
proof (rule framesI)
  fix x r y
  assume run: "run_attempt begin m x = (r, y)"
  show "follows x y"
    unfolding follows_def
  proof (intro allI impI)
    fix s
    assume s: "session_of x = Some s" "coherent s" "control s \<noteq> None"
    then obtain s0 where s0: "x_session x = Some s0" "s = session_in s0 x" by (auto simp: session_of_def)
    from attempt_session[OF run s0(1)] obtain a w t where w: "w = \<lparr>wt_session = session_in s0 x, wt_progress = x_progress x\<rparr>"
      and a: "m (begin w (x_provider x, x_tasks x) (signal_in x)) = (r, a)"
      and t: "session_of y = Some t" "same_view (wt_session (r_journal a)) t" by blast
    have "on_session reach.on_track w w" using reach.on_track_refl[OF s(2,3)] by (simp add: on_session_def w s0(2))
    with assms(1)[of w "begin w (x_provider x, x_tasks x) (signal_in x)"] a have "on_session reach.on_track w (r_journal a)"
      by (simp add: assms(2))
    then have "reach.on_track s (wt_session (r_journal a))" by (simp add: on_session_def w s0(2))
    from view_on_track[OF t(2) this] t(1) show "\<exists>t. session_of y = Some t \<and> reach.on_track s t" by blast
  qed
qed

lemma follows_pair: "(\<And>a b. frames follows (f a b)) \<Longrightarrow> frames follows (case p of (a, b) \<Rightarrow> f a b)"
  by (cases p) simp

lemmas follow_rules = frame.frame_rules [OF follows_frame] follows_modify follows_lifts follows_tasks follows_run follows_pair task_controls

subsection \<open>Adapters that respect the journal\<close>

definition adapter_keeps :: "(watched \<Rightarrow> watched \<Rightarrow> bool) \<Rightarrow> 'p adapter \<Rightarrow> bool" where
  "adapter_keeps K ad \<longleftrightarrow> provider_keeps K (ad_provider ad) \<and> (\<forall>f st. ad_recovery ad = Some f \<longrightarrow> hooks_keep K (f st))"

definition adapters_keep :: "(watched \<Rightarrow> watched \<Rightarrow> bool) \<Rightarrow> ('l, 'p) execute_options \<Rightarrow> bool" where
  "adapters_keep K opts \<longleftrightarrow> (\<forall>d bind cfg p ad p'. ei_adapters opts d = Some bind \<longrightarrow> bind cfg p = (Inr ad, p') \<longrightarrow> adapter_keeps K ad)"

lemma lift_external_keeps: "external_keeps K m \<Longrightarrow> external_keeps K (lift_external m)"
  unfolding external_keeps_def lift_external_def by (auto split: prod.splits) (metis fst_conv snd_conv)

lemma lift_provider_keeps: "provider_keeps K P \<Longrightarrow> provider_keeps K (lift_provider P)"
  by (simp add: provider_keeps_def lift_provider_def lift_external_keeps)

lemma lift_hooks_keep: "hooks_keep K H \<Longrightarrow> hooks_keep K (lift_hooks H)"
  by (auto simp: hooks_keep_def lift_hooks_def lift_external_keeps)

lemma closed_hooks_keep: "hooks_keep K closed_hooks"
  by (simp add: hooks_keep_def closed_hooks_def external_keeps_def)

lemma optional_lift_keep: "(\<And>H. hooks = Some H \<Longrightarrow> hooks_keep K H) \<Longrightarrow> optional_hooks_keep K (map_option lift_hooks hooks)"
  by (cases hooks) (simp_all add: optional_hooks_keep_def lift_hooks_keep)

text \<open>
  A delivery as a client of its attempts: a relation between pods that every attempt keeps whose journal
  keeps \<open>K\<close>, and that the reads of the session and the verification of the baseline keep, is kept by the delivery.
\<close>

locale delivery_steps = frame R + core_journal "core_of opts cfg ad" K
  for R :: "('l, 'p) execution \<Rightarrow> ('l, 'p) execution \<Rightarrow> bool" and opts :: "('l, 'p) execute_options" and cfg and ad :: "'p adapter"
    and K :: "watched \<Rightarrow> watched \<Rightarrow> bool" +
  assumes verify_step: "frames R (on_provider (verify :: ('p, target_baseline) oper))"
    and read_steps: "frames R (on_run recoveryStatus)" "frames R (on_run snapshot_status)" "frames R (on_run (getE s_recovered))"
      "frames R (on_run (getE (\<lambda>s. (s_recovered s, hasRejected s))))"
    and upsert_step: "(\<And>w a. K w (r_journal a) \<Longrightarrow> K w (r_journal (snd (u a)))) \<Longrightarrow>
      frames R (run_attempt (\<lambda>w p sig. initial_state w p store sig) (u :: ((watched, 'p \<times> task_world) run_state, delivery \<times> int) oper))"
    and mirror_step: "(\<And>w a. K w (r_journal a) \<Longrightarrow> K w (r_journal (snd (m a)))) \<Longrightarrow>
      frames R (run_attempt mirror_start (m :: ((watched, 'p \<times> task_world) mirror_state, (delivery \<times> int) option) oper))"
    and recovery_step: "(\<And>w a. K w (r_journal a) \<Longrightarrow> K w (r_journal (snd (v a)))) \<Longrightarrow>
      frames R (run_attempt (\<lambda>w p sig. recovery_start w p store sig) (v :: ((watched, 'p \<times> task_world) recovery_state, recovery_result option) oper))"
begin

lemma pair_step: "(\<And>a b. frames R (f a b)) \<Longrightarrow> frames R (case p of (a, b) \<Rightarrow> f a b)"
  by (cases p) simp

lemma deliver_kept:
  assumes "adapter_keeps K ad"
  shows "frames R (deliver_run opts cfg ad sc st)"
proof -
  let ?hooks = "map_option (\<lambda>f. f (snd st)) (ad_recovery ad)"
  have P: "provider_keeps K (lift_provider (ad_provider ad))" and hooks: "\<And>H. ?hooks = Some H \<Longrightarrow> hooks_keep K H"
    using assms by (auto simp: adapter_keeps_def lift_provider_keeps)
  have closed: "hooks_keep K (lift_hooks (case ?hooks of None \<Rightarrow> closed_hooks | Some H \<Rightarrow> H))"
    using hooks by (auto intro!: lift_hooks_keep closed_hooks_keep split: option.splits)
  note attempts = upsert_step[OF kept_snd[OF run_kept[OF P]]] mirror_step[OF kept_snd[OF mirror_kept[OF P]]]
    mirror_step[OF kept_snd[OF resume_kept[OF P closed]]] recovery_step[OF kept_snd[OF recover_kept[OF P optional_lift_keep[OF hooks]]]]
  have recovery: "frames R (deliver_recovery opts cfg ad sc store ?hooks independent)" for store independent
    unfolding deliver_recovery_def by (intro frame_rules attempts)
  have snapshot: "frames R (deliver_snapshot opts cfg ad m sc store ?hooks)" for m store
    unfolding deliver_snapshot_def by (intro frame_rules pair_step verify_step read_steps attempts recovery)
  have upsert: "frames R (deliver_upsert opts cfg ad sc store)" for store
    unfolding deliver_upsert_def by (intro frame_rules attempts)
  show ?thesis
    unfolding deliver_run_def Let_def
    by (intro frame_rules read_steps) (auto intro: frame_rules snapshot recovery upsert split: run_mode.splits option.splits)
qed

end

lemma start_journals [simp]: "r_journal (initial_state w p store sig) = w" "r_journal (mirror_start w p sig) = w"
  "r_journal (recovery_start w p store sig) = w"
  by (simp_all add: initial_state_def mirror_start_def recovery_start_def)

subsection \<open>Delivery\<close>

definition session_ready :: "('l, 'p) execution \<Rightarrow> bool" where
  "session_ready x \<longleftrightarrow> (\<exists>s. session_of x = Some s \<and> coherent s \<and> control s \<noteq> None)"

definition session_complete :: "('l, 'p) execution \<Rightarrow> bool" where
  "session_complete x \<longleftrightarrow> (\<exists>s. session_of x = Some s \<and> run_complete s)"

lemma attempt_completes:
  assumes "run_attempt begin m x = (Inr r, y)" and "session_ready x" and "\<And>w p sig. r_journal (begin w p sig) = w"
    and "\<And>s a. on_session reach.on_track (r_journal s) (r_journal s) \<Longrightarrow> m s = (Inr r, a) \<Longrightarrow> run_complete (wt_session (r_journal a))"
  shows "session_complete y"
proof -
  from assms(2) obtain s where s: "session_of x = Some s" "coherent s" "control s \<noteq> None" by (auto simp: session_ready_def)
  then obtain s0 where s0: "x_session x = Some s0" "s = session_in s0 x" by (auto simp: session_of_def)
  from attempt_session[OF assms(1) s0(1)] obtain a w t where w: "w = \<lparr>wt_session = session_in s0 x, wt_progress = x_progress x\<rparr>"
    and a: "m (begin w (x_provider x, x_tasks x) (signal_in x)) = (Inr r, a)"
    and t: "session_of y = Some t" "same_view (wt_session (r_journal a)) t" by blast
  have "on_session reach.on_track w w" using reach.on_track_refl[OF s(2,3)] by (simp add: on_session_def w s0(2))
  with assms(4)[OF _ a] have "run_complete (wt_session (r_journal a))" by (simp add: assms(3))
  then have "run_complete t" using view_control[OF t(2)] by (simp add: run_complete_def)
  then show ?thesis using t(1) by (auto simp: session_complete_def)
qed

lemma upsert_completes:
  assumes "deliver_upsert opts cfg ad sc store x = (Inr (Some OutAccepted), y)" and "session_ready x"
  shows "session_complete y"
proof -
  from assms(1) obtain r where r: "run_attempt (\<lambda>w p sig. initial_state w p store sig)
      (runReverseEtl (e_sha (ei_env opts)) (core_of opts cfg ad) (lift_provider (ad_provider ad)) (run_opts opts cfg ad sc) (run_source opts cfg ad)) x = (Inr r, y)"
    and acc: "delivery_outcome (fst r) = OutAccepted"
    by (auto simp: deliver_upsert_def run_simps)
  show ?thesis
  proof (rule attempt_completes[OF r assms(2)])
    show "run_complete (wt_session (r_journal a))"
      if "runReverseEtl (e_sha (ei_env opts)) (core_of opts cfg ad) (lift_provider (ad_provider ad)) (run_opts opts cfg ad sc) (run_source opts cfg ad) s = (Inr r, a)"
      for s a
      using phases.watching.settlesD[OF phases.watching.run_settles that[unfolded core_of_def]] acc by (cases "fst r") auto
  qed (simp add: initial_state_def)
qed

lemma recovery_completes:
  assumes "deliver_recovery opts cfg ad sc store hooks independent x = (Inr (Some OutAccepted), y)" and "session_ready x"
  shows "session_complete y"
proof -
  let ?m = "recoverRun (ei_fuel opts) (e_sha (ei_env opts)) (core_of opts cfg ad) (lift_provider (ad_provider ad)) (map_option lift_hooks hooks) sc independent"
  from assms(1) obtain r where r: "run_attempt (\<lambda>w p sig. recovery_start w p store sig) ?m x = (Inr r, y)"
    and acc: "map_option recovery_outcome r = Some OutAccepted"
    by (auto simp: deliver_recovery_def run_simps)
  then have acc': "r = Some RecoveredAccepted" by (cases r) (auto elim!: recovery_outcome.elims)
  show ?thesis
  proof (rule attempt_completes[OF r assms(2)])
    show "run_complete (wt_session (r_journal a))" if "?m s = (Inr r, a)" for s a
      using phases.watching.settlesD[OF phases.watching.recovery_settles that[unfolded core_of_def]] acc' by simp
  qed (simp add: recovery_start_def)
qed

lemma delivery_accepted: "map_option (\<lambda>d. delivery_outcome (fst d)) r = Some OutAccepted \<Longrightarrow> \<exists>n. r = Some (DeliveryAccepted, n)"
  by (cases r) (auto elim!: delivery_outcome.elims)

lemma follows_ready: "follows x y \<Longrightarrow> session_ready x \<Longrightarrow> session_ready y"
  unfolding follows_def session_ready_def reach.on_track_def by fastforce

lemma snapshot_reads:
  "reach.tracked (getE f)" "reach.tracked recoveryStatus" "reach.tracked snapshot_status" "reach.tracked journal_state" "reach.tracked (detach env)"
  by (rule observers_tracked reach.detach_tracked)+

text \<open>A mirror attempt, whichever of the two it is.\<close>

lemma mirror_attempt_completes:
  assumes "bindE (run_attempt mirror_start m) (\<lambda>r. returnE (map_option (\<lambda>d. delivery_outcome (fst d)) r)) x = (Inr (Some OutAccepted), y)"
    and "session_ready x"
    and "\<And>s r a. on_session reach.on_track (r_journal s) (r_journal s) \<Longrightarrow> m s = (Inr r, a) \<Longrightarrow>
      (case r of None \<Rightarrow> False | Some d \<Rightarrow> fst d = DeliveryAccepted) \<Longrightarrow> run_complete (wt_session (r_journal a))"
  shows "session_complete y"
proof -
  from assms(1) obtain r where r: "run_attempt mirror_start m x = (Inr r, y)"
    and acc: "map_option (\<lambda>d. delivery_outcome (fst d)) r = Some OutAccepted" by (auto simp: run_simps)
  from delivery_accepted[OF acc] obtain n where n: "r = Some (DeliveryAccepted, n)" by blast
  show ?thesis
    by (rule attempt_completes[OF r assms(2)]) (simp_all add: mirror_start_def assms(3) n)
qed

lemma snapshot_completes:
  assumes "deliver_snapshot opts cfg ad m sc store hooks x = (Inr (Some OutAccepted), y)" and "session_ready x"
  shows "session_complete y"
proof -
  from assms(1) obtain b x1 status x2 rec rej x3 sn x4 where
    x1: "(case ad_verifyMirrorBaseline ad of None \<Rightarrow> throwE NonError | Some verify \<Rightarrow> on_provider verify) x = (Inr b, x1)"
    and x2: "on_run recoveryStatus x1 = (Inr status, x2)" and x3: "on_run (getE (\<lambda>s. (s_recovered s, hasRejected s))) x2 = (Inr (rec, rej), x3)"
    and x4: "on_run snapshot_status x3 = (Inr sn, x4)"
    and rest: "(if resumable rec (rs_phase status) (rec \<and> rej) sn then
        bindE (run_attempt mirror_start (resumeSnapshotMirror (ei_fuel opts) (e_sha (ei_env opts)) (core_of opts cfg ad) (lift_provider (ad_provider ad))
          (lift_hooks (case hooks of None \<Rightarrow> closed_hooks | Some H \<Rightarrow> H)) (mirror_opts opts cfg ad m sc b) rec))
          (\<lambda>r. returnE (map_option (\<lambda>d. delivery_outcome (fst d)) r))
      else if rec then deliver_recovery opts cfg ad sc store hooks (ma_asynchronous m)
      else bindE (run_attempt mirror_start (runSnapshotMirror (ei_fuel opts) (e_sha (ei_env opts)) (core_of opts cfg ad) (lift_provider (ad_provider ad))
          (mirror_opts opts cfg ad m sc b) (report_snapshot (task_of opts)) (run_source opts cfg ad None)))
          (\<lambda>r. returnE (map_option (\<lambda>d. delivery_outcome (fst d)) r))) x4 = (Inr (Some OutAccepted), y)"
    by (auto simp: deliver_snapshot_def run_simps simp del: if_split split del: if_split split: prod.splits)
  have "follows x x1" using x1 framesD[OF follows_lifts(2)] by (auto split: option.splits)
  then have ready: "session_ready x4"
    using assms(2) framesD[OF follows_run[OF snapshot_reads(2)] x2] framesD[OF follows_run[OF snapshot_reads(1)] x3]
      framesD[OF follows_run[OF snapshot_reads(3)] x4] follows_ready by blast
  from rest show ?thesis
    unfolding core_of_def
    by (auto split: if_splits intro: recovery_completes[unfolded core_of_def, OF _ ready] mirror_attempt_completes[OF _ ready]
        phases.watching.settlesD[OF phases.watching.mirror_settles] phases.watching.resume_settles)
qed

lemma deliver_completes:
  assumes "deliver_run opts cfg ad sc st x = (Inr (Some OutAccepted), y)" and "session_ready x"
  shows "session_complete y"
proof -
  from assms(1) obtain store rec x1 where x1: "on_run (getE s_recovered) x = (Inr rec, x1)"
    and rest: "(case (cf_mode cfg, ad_mirror ad) of
       (ModeMirror, Some m) \<Rightarrow> deliver_snapshot opts cfg ad m sc store (map_option (\<lambda>f. f (snd st)) (ad_recovery ad))
     | (ModeMirror, None) \<Rightarrow> throwE NonError
     | (ModeUpsert, _) \<Rightarrow> if rec then deliver_recovery opts cfg ad sc store (map_option (\<lambda>f. f (snd st)) (ad_recovery ad)) (st_asynchronous (ad_stream ad))
         else deliver_upsert opts cfg ad sc store) x1 = (Inr (Some OutAccepted), y)"
    by (auto simp: deliver_run_def run_simps Let_def)
  have ready: "session_ready x1" using assms(2) framesD[OF follows_run[OF snapshot_reads(1)] x1] follows_ready by blast
  from rest show ?thesis
    by (auto split: run_mode.splits option.splits if_splits intro: snapshot_completes[OF _ ready] recovery_completes[OF _ ready] upsert_completes[OF _ ready])
qed

subsection \<open>Opening\<close>

lemma put_pages_track:
  assumes "reach.on_track s0 s" and "\<And>r s'. reach.on_track s0 s' \<Longrightarrow> Q r s'" and "\<And>e s'. reach.on_track s0 s' \<Longrightarrow> E e s'"
  shows "wp (put_pages env f pages) Q E s"
proof -
  have "wp (mapE (\<lambda>p. put_json env (f p)) (fst pages)) (\<lambda>_. reach.on_track s0) (\<lambda>_. reach.on_track s0) s"
    by (rule wp_map[where I = "reach.on_track s0"]) (auto intro!: reach.wp_put_json_track assms(1))
  then show ?thesis unfolding put_pages_def wp_simps
    by (rule wp_conseq) (auto simp: assms(2,3) split: sum.splits)
qed

lemma open_session_track: "reach.tracked (open_session env)"
proof (rule reach.trackedI)
  fix s0 s
  assume "reach.on_track s0 s"
  then show "wp (open_session env) (\<lambda>_. reach.on_track s0) (\<lambda>_. reach.on_track s0) s"
    unfolding open_session_def restore_def next_generation_def Let_def
    by (auto simp: wp_simps wp_modifyR bindR_def reach.on_track_fields keeps_key_def split: sum.splits
        intro!: put_pages_track reach.wp_publish_track)
qed

lemma openPersistence_ready:
  assumes "openPersistence env sc w = (Inr s, w')"
  shows "s_scope s = sc \<and> coherent s \<and> control s \<noteq> None \<and> s_world s = w'"
proof -
  from assms obtain ih recovery w2 where run: "openRun (e_sha env) sc ih (snd (put_artifact env sc (json_of_head
        \<lparr>h_runId = sc_logicalRunId sc, h_baseline = [], h_snapshot = None, h_batches = []\<rparr>) w)) = (Inr recovery, w2)"
    and op: "open_journal env sc recovery w2 = (Inr s, w')"
    by (auto simp: openPersistence_def run_simps)
  from openRun_Inr[OF run] obtain c where c: "control_of sc (w_db w2) = Some c" "cached sc w2 = Some c" by blast
  then have "observe sc w2 = (Inr c, w2)" using control_of_key[OF c(1)] by (simp add: observe_def control_key_def scope_key_def)
  with op obtain s0 u where s0: "open_session env s0 = (Inr u, s)" "s_scope s0 = sc" "s_world s0 = w2" and w': "w' = s_world s"
    by (auto simp: open_journal_def split: option.splits sum.splits if_splits prod.splits)
  have "reach.on_track s0 s0" using c s0(2,3) by (intro reach.on_track_refl) (simp_all add: coherent_def control_def)
  from tracked_snd[OF open_session_track this, of env] s0(1) have "reach.on_track s0 s" by simp
  then show ?thesis using w' s0(2) by (auto simp: reach.on_track_def)
qed

lemma open_run_ready:
  assumes "open_run opts cfg ad sc x = (Inr (), y)"
  shows "session_ready y \<and> (\<exists>s. session_of y = Some s \<and> s_scope s = sc)"
proof -
  from assms obtain s x1 w where w: "(if cf_mode cfg = ModeMirror then openMirrorPersistence (ei_env opts) sc
         else openPersistence ((ei_env opts)\<lparr>e_projection := ad_project ad\<rparr>) sc) (world_in x1) = (Inr s, w)"
    and y: "y = (put_world w x1)\<lparr>x_session := Some s\<rparr>"
    by (auto simp: open_run_def run_simps simp del: if_split split del: if_split)
  have s: "s_scope s = sc" "coherent s" "control s \<noteq> None" "s_world s = w"
    using w by (auto simp: openMirrorPersistence_def run_simps split: if_splits dest: openPersistence_ready)
  have v: "same_view s (session_in s y)"
    using s(4) by (simp add: same_view_def session_in_def world_in_def y put_world_def)
  have "session_of y = Some (session_in s y)" by (simp add: session_of_def y)
  then show ?thesis using s v view_coherent[OF v] view_control[OF v] by (simp add: session_ready_def same_view_def)
qed

subsection \<open>Settling\<close>

text \<open>Steps that leave the session and the control rows alone.\<close>

definition unmoved :: "('l, 'p) execution \<Rightarrow> ('l, 'p) execution \<Rightarrow> bool" where
  "unmoved x y \<longleftrightarrow> x_session y = x_session x \<and> db_controls (tw_db (x_tasks y)) = db_controls (tw_db (x_tasks x))"

lemma unmoved_frame: "frame unmoved"
  by unfold_locales (simp_all add: unmoved_def)

lemma unmoved_lifts: "frames unmoved (on_lease k)" "frames unmoved read_signal"
  by (rule framesI; auto simp: unmoved_def on_lease_def read_signal_def Let_def split: prod.splits)+

lemma unmoved_tasks: "keeps_controls m \<Longrightarrow> frames unmoved (on_tasks m)"
  by (rule framesI) (auto simp: unmoved_def run_simps keeps_controls_def, metis snd_conv)

lemma unmoved_modify:
  "(\<And>x. x_session (f x) = x_session x \<and> db_controls (tw_db (x_tasks (f x))) = db_controls (tw_db (x_tasks x))) \<Longrightarrow> frames unmoved (modifyE f)"
  by (rule framesI) (auto simp: unmoved_def)

lemmas unmoved_rules = frame.frame_rules [OF unmoved_frame] unmoved_lifts unmoved_tasks unmoved_modify task_controls

lemma stop_unmoved: "frames unmoved (stop_timer opts)"
  unfolding stop_timer_def await_timer_def tick_def renewLease_def by (intro unmoved_rules) (simp_all add: pass_time_def)

lemma unmoved_complete: "unmoved x y \<Longrightarrow> session_complete x \<Longrightarrow> session_complete y"
  by (auto simp: unmoved_def session_complete_def session_of_def run_complete_def session_in_def world_in_def control_def control_of_def database.defs)

lemma wait_result: "wait stamp h runId rv w = (Inr st, w') \<Longrightarrow> st = ''PENDING'' \<or> st = ''FAILED''"
  by (auto simp: wait_def run_simps Let_def split: if_splits)

lemma refresh_result: "refreshFailed stamp h m stop w = (Inr st, w') \<Longrightarrow> st \<in> {''FAILED'', ''CANCELLED'', ''PENDING''}"
  by (auto simp: refreshFailed_def refresh_work_def run_simps Let_def split: option.splits if_splits dest!: task_transaction_Inr)

lemma finish_task_True:
  assumes "finish_task h st m sch w = (Inr True, w')"
  shows "\<exists>t \<in> set (td_tasks (tw_db w')). own_row h t \<and> t_status t = st \<and> \<not> worker_active t"
proof -
  have "(bindE (update_tasks (running_row h) (ended_row h st m sch (tw_clock w))) (\<lambda>n.
      thenE (whenE (n > 0) (insert_log \<lparr>lg_level = (if st = ''FAILED'' then ''ERROR'' else ''INFO''), lg_message = m,
          lg_sync = tk_sync h, lg_task = tk_task h\<rparr>))
      (returnE (n > 0)))) (tw_db w) = (Inr True, tw_db w')"
    using assms unfolding finish_task_def by (simp add: bindE_def[of "getE tw_clock"] task_transaction_Inr)
  then have "filter (running_row h) (td_tasks (tw_db w)) \<noteq> []"
    and rows: "td_tasks (tw_db w') = map (\<lambda>t. if running_row h t then ended_row h st m sch (tw_clock w) t else t) (td_tasks (tw_db w))"
    by (auto simp: run_simps update_tasks_def insert_log_def dest!: arg_cong[of _ "tw_db w'" td_tasks])
  then obtain t where t: "t \<in> set (td_tasks (tw_db w))" "running_row h t" by (auto simp: filter_empty_conv)
  let ?u = "ended_row h st m sch (tw_clock w) t"
  have "?u \<in> set (td_tasks (tw_db w'))" using t by (auto simp: rows)
  moreover have "own_row h ?u \<and> t_status ?u = st \<and> \<not> worker_active ?u"
    using t(2) by (simp add: running_row_def held_row_def own_row_def ended_row_def worker_active_def released_def)
  ultimately show ?thesis by blast
qed

lemma settle_accepted: "settle opts cfg ad runId res x = (Inr ''COMPLETE'', y) \<Longrightarrow> res = OutAccepted"
  by (auto simp: settle_def run_simps split: if_splits dest!: wait_result)

lemma settle_unmoved: "res = OutAccepted \<Longrightarrow> frames unmoved (settle opts cfg ad runId res)"
  unfolding settle_def throw_if_aborted_def reportProgress_def
  by (simp, intro unmoved_rules stop_unmoved) (auto split: option.splits)

lemma settle_complete:
  assumes "settle opts cfg ad runId res x = (Inr ''COMPLETE'', y)" and "res = OutAccepted \<Longrightarrow> session_complete x"
  shows "session_complete y \<and> \<not> x_timing y \<and> (\<exists>t \<in> set (td_tasks (tw_db (x_tasks y))). own_row (task_of opts) t \<and> t_status t = ''COMPLETE'' \<and> \<not> worker_active t)"
proof -
  note acc = settle_accepted[OF assms(1)]
  with assms(1) obtain x1 x2 x3 x4 w where x1: "stop_timer opts x1 = (Inr (), x2)" "throw_if_aborted x2 = (Inr (), x3)" "reportProgress x3 = (Inr (), x4)"
    and fin: "finish_task (task_of opts) ''COMPLETE'' ''Reverse ETL delivery committed'' None (x_tasks x4) = (Inr True, w)"
    and y: "y = x4\<lparr>x_tasks := w\<rparr>"
    by (auto simp: settle_def run_simps split: if_splits)
  have "session_complete y"
    using framesD[OF settle_unmoved[OF acc] assms(1)] assms(2)[OF acc] unmoved_complete by blast
  moreover have "\<not> x_timing y" using x1
    by (auto simp: y run_simps stop_timer_def throw_if_aborted_def reportProgress_def read_signal_def Let_def split: if_splits option.splits)
  ultimately show ?thesis using finish_task_True[OF fin] by (simp add: y)
qed

subsection \<open>The whole execution\<close>

lemma timer_follows: "frames follows (await_timer opts)"
  unfolding await_timer_def tick_def renewLease_def by (intro follow_rules) (simp_all add: pass_time_def)

lemma introduce_follows: "frames follows (introduce_run opts cfg)"
  unfolding introduce_run_def log_text_def observe_restored_def
  by (intro follow_rules snapshot_reads) (auto split: option.splits)

interpretation along: delivery_steps follows opts cfg ad "on_session reach.on_track" for opts cfg ad
proof -
  have "core_journal (core_of opts cfg ad) (on_session reach.on_track)" unfolding core_of_def ..
  then show "delivery_steps follows opts cfg ad (on_session reach.on_track)"
    by (intro delivery_steps.intro delivery_steps_axioms.intro follows_frame follows_lifts follows_run snapshot_reads follows_attempt) simp_all
qed

lemma leased_complete:
  assumes "leased_task opts x = (Inr (Some ''COMPLETE''), y)" and "adapters_keep (on_session reach.on_track) opts"
  shows "\<not> x_timing y \<and> (\<exists>s. session_of y = Some s \<and> run_complete s \<and> sc_workspaceId (s_scope s) = cf_workspaceId (ei_config opts)
        \<and> sc_syncId (s_scope s) = cf_id (ei_config opts))
     \<and> (\<exists>t \<in> set (td_tasks (tw_db (x_tasks y))). own_row (task_of opts) t \<and> t_status t = ''COMPLETE'' \<and> \<not> worker_active t)"
proof -
  from assms(1) obtain cfg ad runId x1 x2 x3 x4 x5 x6 x7 x8 st res where
    cfg: "admit_config opts x1 = (Inr cfg, x2)" and ad: "bind_adapter opts cfg x2 = (Inr ad, x3)"
    and op: "open_run opts cfg ad (run_input opts cfg ad runId) x4 = (Inr (), x5)"
    and i: "introduce_run opts cfg x5 = (Inr st, x6)" and t: "await_timer opts x6 = (Inr (), x7)"
    and d: "deliver_run opts cfg ad (run_input opts cfg ad runId) st x7 = (Inr (Some res), x8)"
    and se: "settle opts cfg ad runId res x8 = (Inr ''COMPLETE'', y)"
    by (auto simp: leased_task_def run_simps Let_def split: option.splits)
  have same: "cf_workspaceId cfg = cf_workspaceId (ei_config opts)" "cf_id cfg = cf_id (ei_config opts)"
    using cfg by (auto simp: admit_config_def run_simps)
  obtain bind p p' where "ei_adapters opts (cf_destinationType cfg) = Some bind" "bind cfg p = (Inr ad, p')"
    using ad by (auto simp: bind_adapter_def run_simps split: option.splits)
  then have keeps: "adapter_keeps (on_session reach.on_track) ad" using assms(2) unfolding adapters_keep_def by blast
  have follow: "follows x5 x7" using framesD[OF introduce_follows i] framesD[OF timer_follows t] frame.frame_trans[OF follows_frame] by blast
  note ready = open_run_ready[OF op]
  have "res = OutAccepted \<Longrightarrow> session_complete x8" using deliver_completes d follows_ready[OF follow] ready by blast
  note fin = settle_complete[OF se this]
  have "follows x5 x8" using follow framesD[OF along.deliver_kept[OF keeps] d] frame.frame_trans[OF follows_frame] by blast
  with ready obtain s8 where "session_of x8 = Some s8" "s_scope s8 = run_input opts cfg ad runId"
    by (auto simp: follows_def session_ready_def reach.on_track_def)
  moreover have "unmoved x8 y" if "res = OutAccepted" using framesD[OF settle_unmoved[OF that] se] .
  ultimately show ?thesis using fin same settle_accepted[OF se]
    by (auto simp: session_complete_def session_of_def unmoved_def session_in_def run_input_def)
qed

lemma failure_status:
  assumes "on_failure opts e x = (Inr (Some st), y)"
  shows "st \<noteq> ''COMPLETE''"
  using assms
  by (auto simp: on_failure_def end_failed_def quietly_def Let_def run_simps split: if_splits prod.splits dest!: wait_result refresh_result)

lemma execute_complete:
  assumes "execute opts x = (Inr (Some ''COMPLETE''), y)" and "adapters_keep (on_session reach.on_track) opts"
  shows "(\<exists>c \<in> set (db_controls (tw_db (x_tasks y))). c_workspace c = cf_workspaceId (ei_config opts) \<and> c_sync c = cf_id (ei_config opts)
        \<and> c_phase c = PComplete)
     \<and> (\<exists>t \<in> set (td_tasks (tw_db (x_tasks y))). own_row (task_of opts) t \<and> t_status t = ''COMPLETE'' \<and> \<not> worker_active t)"
proof -
  from assms(1) obtain z where z: "catchE (run_task opts) (on_failure opts) x = (Inr (Some ''COMPLETE''), z)"
    and y: "y = snd (release_lease opts z)"
    by (auto simp: execute_def finallyE_def split: prod.splits)
  then have "run_task opts x = (Inr (Some ''COMPLETE''), z)" by (auto simp: run_simps dest: failure_status)
  then obtain x1 where "leased_task opts x1 = (Inr (Some ''COMPLETE''), z)" by (auto simp: run_task_lease run_simps)
  note z' = leased_complete[OF this assms(2)]
  then obtain s where s: "session_of z = Some s" "run_complete s" "sc_workspaceId (s_scope s) = cf_workspaceId (ei_config opts)"
    "sc_syncId (s_scope s) = cf_id (ei_config opts)" by blast
  then obtain c where c: "control s = Some c" "c_phase c = PComplete" by (auto simp: run_complete_def)
  have "db_controls (w_db (s_world s)) = db_controls (tw_db (x_tasks z))"
    using s(1) by (auto simp: session_of_def session_in_def world_in_def database.defs)
  then have "c \<in> set (db_controls (tw_db (x_tasks z)))" using c(1) by (auto simp: control_def control_of_def dest!: find_Some_iff_first)
  moreover have "c_workspace c = sc_workspaceId (s_scope s) \<and> c_sync c = sc_syncId (s_scope s)"
    using control_of_key[of "s_scope s" _ c] c(1) by (simp add: control_def control_key_def scope_key_def)
  ultimately show ?thesis using z' c(2) s(3,4) release_idle[of z opts] by (auto simp: y)
qed

end
