(* ===== verification/Refresh.thy ===== *)
theory Refresh
  imports Committed
begin

text \<open>
  The refresh of a delivery that waits for its provider: a check that fails without having changed the
  delivery gives the task back as it was, bound to the same run and deadline; and the flag that tells
  whether the delivery changed is exact.
\<close>

subsection \<open>The flag\<close>

definition flag_kept :: "('l, 'p) execution \<Rightarrow> ('l, 'p) execution \<Rightarrow> bool" where
  "flag_kept x y \<longleftrightarrow> (\<forall>w0 s. x_session x = Some s \<longrightarrow> unchanged_since w0 \<lparr>wt_session = s, wt_progress = x_progress x\<rparr> \<longrightarrow>
     (\<exists>t. x_session y = Some t \<and> unchanged_since w0 \<lparr>wt_session = t, wt_progress = x_progress y\<rparr>))"

lemma flag_frame: "frame flag_kept"
  by unfold_locales (auto simp: flag_kept_def, metis)

lemma flag_same: "x_session y = x_session x \<Longrightarrow> x_progress y = x_progress x \<Longrightarrow> flag_kept x y"
  by (simp add: flag_kept_def)

lemma flag_provider: "frames flag_kept (on_provider m)"
  by (rule framesI) (auto simp: run_simps intro: flag_same)

lemma unchanged_world: "unchanged_since w0 \<lparr>wt_session = session_in s x, wt_progress = p\<rparr> = unchanged_since w0 \<lparr>wt_session = s, wt_progress = p\<rparr>"
  by (simp add: unchanged_since_def session_in_def)

lemma flag_put [simp]: "x_session (put_session s x) = Some s" "x_progress (put_session s x) = x_progress x"
  by (simp_all add: put_session_def put_world_def)

lemma flag_run: "frames flag_kept (on_run m)"
proof (rule framesI)
  fix x r y
  assume run: "on_run m x = (r, y)"
  show "flag_kept x y"
    unfolding flag_kept_def
  proof (intro allI impI)
    fix w0 s
    assume s: "x_session x = Some s" "unchanged_since w0 \<lparr>wt_session = s, wt_progress = x_progress x\<rparr>"
    let ?w = "snd (watch m \<lparr>wt_session = session_in s x, wt_progress = x_progress x\<rparr>)"
    have "unchanged_since w0 ?w" by (rule watch_unchanged) (simp add: unchanged_world s(2))
    moreover have "x_session y = Some (wt_session ?w)" "x_progress y = wt_progress ?w"
      using run s(1) by (auto simp: on_run_def split: prod.splits)
    ultimately show "\<exists>t. x_session y = Some t \<and> unchanged_since w0 \<lparr>wt_session = t, wt_progress = x_progress y\<rparr>"
      by (cases ?w) simp
  qed
qed

lemma flag_attempt:
  assumes "\<And>w a. unchanged_since w (r_journal a) \<Longrightarrow> unchanged_since w (r_journal (snd (m a)))"
    and "\<And>w p sig. r_journal (begin w p sig) = w"
  shows "frames flag_kept (run_attempt begin m)"
proof (rule framesI)
  fix x r y
  assume run: "run_attempt begin m x = (r, y)"
  show "flag_kept x y"
    unfolding flag_kept_def
  proof (intro allI impI)
    fix w0 s
    assume s: "x_session x = Some s" "unchanged_since w0 \<lparr>wt_session = s, wt_progress = x_progress x\<rparr>"
    let ?a = "snd (m (begin \<lparr>wt_session = session_in s x, wt_progress = x_progress x\<rparr> (x_provider x, x_tasks x) (signal_in x)))"
    have "unchanged_since w0 (r_journal ?a)" by (rule assms(1)) (simp add: assms(2) unchanged_world s(2))
    moreover have "x_session y = Some (wt_session (r_journal ?a))" "x_progress y = wt_progress (r_journal ?a)"
      using run s(1) by (auto simp: run_attempt_def leave_attempt_def split: prod.splits)
    ultimately show "\<exists>t. x_session y = Some t \<and> unchanged_since w0 \<lparr>wt_session = t, wt_progress = x_progress y\<rparr>"
      by (cases "r_journal ?a") simp
  qed
qed

interpretation flag: delivery_steps flag_kept opts cfg ad unchanged_since for opts cfg ad
proof -
  have "core_journal (core_of opts cfg ad) unchanged_since" unfolding core_of_def ..
  then show "delivery_steps flag_kept opts cfg ad unchanged_since"
    by (intro delivery_steps.intro delivery_steps_axioms.intro flag_frame flag_provider flag_run flag_attempt) simp_all
qed

lemma unset_flag_unchanged:
  assumes "deliver_run opts cfg ad sc st x = (r, y)" and "adapter_keeps unchanged_since ad"
    and "x_session x = Some s" and "pg_baseline (x_progress x) = Some (batchStatistics (s_head s))"
    and "\<not> pg_deliveryChanged (x_progress y)"
  shows "\<exists>t. x_session y = Some t \<and> batchStatistics (s_head t) = batchStatistics (s_head s)"
proof -
  let ?w = "\<lparr>wt_session = s, wt_progress = x_progress x\<rparr>"
  have "unchanged_since ?w ?w" using assms(4) by (simp add: unchanged_since_def)
  with framesD[OF flag.deliver_kept[OF assms(2)] assms(1)] assms(3) obtain t where
    "x_session y = Some t" "unchanged_since ?w \<lparr>wt_session = t, wt_progress = x_progress y\<rparr>" unfolding flag_kept_def by blast
  with assms(5) show ?thesis by (simp add: unchanged_since_def)
qed

subsection \<open>A failed check\<close>

text \<open>Heartbeats change nothing of a row but its time.\<close>

definition undated :: "task_row \<Rightarrow> task_row" where
  "undated t = t\<lparr>t_updatedAt := 0\<rparr>"

definition beats :: "('l, 'p) execution \<Rightarrow> ('l, 'p) execution \<Rightarrow> bool" where
  "beats x y \<longleftrightarrow> map undated (td_tasks (tw_db (x_tasks y))) = map undated (td_tasks (tw_db (x_tasks x))) \<and> x_progress y = x_progress x
     \<and> x_started y = x_started x \<and> x_refreshRunId y = x_refreshRunId x \<and> x_deliveryFinished y = x_deliveryFinished x"

lemma beats_frame: "frame beats"
  by unfold_locales (simp_all add: beats_def)

lemma heartbeat_undated: "map undated (td_tasks (tw_db (snd (heartbeat h w)))) = map undated (td_tasks (tw_db w))"
proof -
  have "wp (heartbeat h) (\<lambda>_ w'. map undated (td_tasks (tw_db w')) = map undated (td_tasks (tw_db w)))
      (\<lambda>_ w'. map undated (td_tasks (tw_db w')) = map undated (td_tasks (tw_db w))) w"
    unfolding heartbeat_def by (auto simp: wp_simps undated_def intro!: wp_task_transaction)
  then show ?thesis by (simp add: wp_always)
qed

lemma beats_steps: "frames beats (on_lease k)" "frames beats read_signal" "frames beats (on_tasks (heartbeat h))"
  by (rule framesI; auto simp: beats_def on_lease_def read_signal_def Let_def run_simps split: prod.splits)+
    (metis heartbeat_undated snd_conv)

lemma beats_modify:
  "(\<And>x. td_tasks (tw_db (x_tasks (f x))) = td_tasks (tw_db (x_tasks x)) \<and> x_progress (f x) = x_progress x \<and> x_started (f x) = x_started x
     \<and> x_refreshRunId (f x) = x_refreshRunId x \<and> x_deliveryFinished (f x) = x_deliveryFinished x) \<Longrightarrow> frames beats (modifyE f)"
  by (rule framesI) (auto simp: beats_def)

lemma stop_beats: "frames beats (stop_timer opts)"
  unfolding stop_timer_def await_timer_def tick_def renewLease_def
  by (intro frame.frame_rules [OF beats_frame] beats_steps beats_modify) (simp_all add: pass_time_def)

lemma find_undated:
  assumes "map undated us = map undated ts" and "find P ts = Some t" and "\<And>u. P (undated u) = P u"
  shows "\<exists>u. find P us = Some u \<and> undated u = undated t"
  using assms(1,2)
proof (induction ts arbitrary: us)
  case (Cons a ts)
  then obtain b us' where us: "us = b # us'" "undated b = undated a" "map undated us' = map undated ts" by (cases us) auto
  then have "P b = P a" using assms(3) by metis
  with Cons us show ?case by (auto split: if_splits)
qed simp

lemma summarize_flags [simp]: "pg_deliveryChanged (summarize h p) = pg_deliveryChanged p"
  using log_message_flags(1)[of "summary_text h" "write_statistics h p"] by (auto simp: summarize_def Let_def split: prod.splits)

lemma failed_check_keeps_task:
  assumes "on_failure opts e x = (Inr (Some st), y)" and "refreshing x" and "\<not> pg_deliveryChanged (x_progress x)"
    and "\<not> requiresManualReconciliation e" and "find (refresh_row (task_of opts)) (td_tasks (tw_db (x_tasks x))) = Some t"
  shows "\<exists>u \<in> set (td_tasks (tw_db (x_tasks y))). own_row (task_of opts) u \<and> kept_delivery (task_of opts) t u"
proof -
  from assms(1) obtain x1 where x1: "stop_timer opts x = (Inr (), x1)" by (auto simp: on_failure_def run_simps)
  note b = framesD[OF stop_beats x1]
  from find_undated[OF _ assms(5), of "td_tasks (tw_db (x_tasks x1))"] b obtain t1 where
    t1: "find (refresh_row (task_of opts)) (td_tasks (tw_db (x_tasks x1))) = Some t1" "undated t1 = undated t"
    by (auto simp: beats_def undated_def refresh_row_def held_row_def own_row_def worker_is_def)
  have "refreshing x1 \<and> \<not> pg_deliveryChanged (x_progress x1)" using b assms(2,3) by (simp add: beats_def refreshing_def)
  with assms(1,4) x1 obtain m stop w where ref: "refreshFailed (ei_stamp opts) (task_of opts) m stop (x_tasks x1) = (Inr st, w)" and y: "x_tasks y = w"
    by (auto simp: on_failure_def run_simps Let_def read_signal_def reportProgress_def refreshing_def split: option.splits if_splits)
  from refreshFailed_Inr[OF ref t1(1)] obtain u where u: "u \<in> set (td_tasks (tw_db w))" "own_row (task_of opts) u" "kept_delivery (task_of opts) t1 u"
    by blast
  have "t_status t1 = t_status t" "t_metrics t1 = t_metrics t"
    using arg_cong[OF t1(2), of t_status] arg_cong[OF t1(2), of t_metrics] by (simp_all add: undated_def)
  then have "kept_delivery (task_of opts) t u" using u(3) by (simp add: kept_delivery_def previous_status_def split: option.splits)
  with u y show ?thesis by blast
qed

end
