(* ===== verification/ExecuteExamples.thy ===== *)
theory ExecuteExamples
  imports Examples Refresh
begin

text \<open>
  A worker pod that refreshes a delivery: the run of its task was accepted by the provider, its commit is
  still missing, and the check is due. The execution is followed step by step, with the stored manifest and its
  digest left as they are, up to the commit and the end of the task.
\<close>

subsection \<open>Configuration\<close>

definition sample_config :: run_config where
  "sample_config = \<lparr>cf_id = ''s'', cf_workspaceId = ''w'', cf_revision = ''1'', cf_disabled = False, cf_destinationType = ''d'',
     cf_stream = ''people'', cf_mode = ModeUpsert, cf_cursor = False, cf_primaryKey = [''id''], cf_mapping = [(''id'', ''id'')],
     cf_checkpointEvery = 1000, cf_streamOptions = JObj []\<rparr>"

definition sample_adapter :: "unit adapter" where
  "sample_adapter = \<lparr>ad_stream = example_stream, ad_targetIdentity = ''a'', ad_insertOnly = False,
     ad_project = (\<lambda>act row. Inr [\<lparr>id_identity = row, id_upsert = row, id_remove = row\<rparr>]), ad_options = None, ad_provider
     = example_provider,
     ad_mirror = None, ad_verifyMirrorBaseline = None, ad_recovery = Some (\<lambda>_. example_hooks)\<rparr>"

definition sample_options :: "trigger \<Rightarrow> (lease option, unit) execute_options" where
  "sample_options trg = \<lparr>ei_config = sample_config, ei_taskId = ''t'', ei_trigger = trg,
     ei_recoveryOf = (if trg = RecoveryTrigger then Some ''t'' else None), ei_workerId = Some ''p'', ei_refreshAttempt = None,
     ei_env = example_env, ei_lease = etcd_call, ei_holder = ''me'', ei_adapters = (\<lambda>_. Some (\<lambda>_. returnE sample_adapter)),
     ei_admit = Inr sample_config, ei_rows = (\<lambda>_. ([], Inr ())), ei_submitted = (\<lambda>_ _. False), ei_freshRun = ''r'',
     ei_ago = (\<lambda>_. []), ei_stamp = (\<lambda>_. []), ei_fuel = 10\<rparr>"

abbreviation sample_refresh :: "(lease option, unit) execute_options" where
  "sample_refresh \<equiv> sample_options RecoveryTrigger"

subsection \<open>The stored run\<close>

definition sample_ref :: artifact_ref where
  "sample_ref = ref_for example_env example_scope (json_of_head example_head)"

definition sample_bucket :: bucket where
  "sample_bucket = \<lparr>bk_objects = [object_of example_env example_scope (json_of_head example_head)], bk_faults = []\<rparr>"

definition sample_head :: string where
  "sample_head = envelope_text (json_text (json_of_ref sample_ref))"

definition sample_control :: control_row where
  "sample_control = (example_row PFinishAccepted 0)\<lparr>c_targetHash := target_hash example_sha example_scope, c_head := Some sample_head\<rparr>"

definition sample_database :: "control_row \<Rightarrow> ((string \<times> string) \<times> json) list \<Rightarrow> database" where
  "sample_database row st = \<lparr>db_controls = [row], db_states = st, db_owners = []\<rparr>"

definition sample_world :: "database \<Rightarrow> ((string \<times> string \<times> string) \<times> control_row) list \<Rightarrow> world" where
  "sample_world d cache = empty_world\<lparr>w_bucket := sample_bucket, w_cache := cache, w_db := d\<rparr>"

abbreviation sample_before :: database where
  "sample_before \<equiv> sample_database sample_control []"

lemma database_fields:
  "db_controls (sample_database row st) = [row]" "db_states (sample_database row st) = st" "db_owners (sample_database row st) = []"
  "(sample_database row st)\<lparr>db_states := st'\<rparr> = sample_database row st'" "(sample_database row st)\<lparr>db_controls :=
     [row']\<rparr> = sample_database row' st"
  by (simp_all add: sample_database_def)

lemma world_fields:
  "\<not> w_aborted (sample_world d cache)" "w_db (sample_world d cache) = d" "cached sc (sample_world d cache) = map_of cache (scope_key sc)"
  "(sample_world d cache)\<lparr>w_db := d'\<rparr> = sample_world d' cache"
  "set_cache sc p (sample_world d cache) = sample_world d (case p of None \<Rightarrow> AList.delete (scope_key sc) cache | Some c \<Rightarrow>
     AList.update (scope_key sc) c cache)"
  "take_fault (sample_world d cache) = (None, sample_world d cache)"
  by (simp_all add: sample_world_def empty_world_def cached_def set_cache_def take_fault_def split: option.splits)

definition sample_session :: session where
  "sample_session = opened_on example_scope True example_head sample_head (sample_world sample_before [(scope_key example_scope, sample_control)])"

lemma sample_storable: "storable example_env example_scope (json_of_head example_head)"
  by code_simp

lemma sample_head_encoded: "encodeJson (json_of_ref sample_ref) 65536 = Inr sample_head"
proof -
  have "byteLength (json_text (json_of_ref sample_ref)) \<le> 65536" by code_simp
  then show ?thesis by (simp add: encodeJson_Inr sample_head_def json_of_ref_def)
qed

lemma sample_put: "put_artifact example_env example_scope (json_of_head example_head) (sample_world d cache)
    = (Inr sample_ref, sample_world d cache)"
  using sample_storable
  by (auto simp: put_artifact_Inr Let_def storable_def upload_def sample_world_def empty_world_def sample_bucket_def object_of_def sample_ref_def
     ref_for_def cloud_put_returns)

lemmas sample_get = put_get_artifact[OF example_env_ok wf_json_head sample_put]

lemmas sample_decode = encode_decode[OF wf_json_ref sample_head_encoded]

lemma sample_hash: "text_hash (e_sha example_env) (versioned (json_of_head example_head)) = ar_sha256 sample_ref"
  by (simp add: text_hash_def sample_ref_def ref_for_def Let_def)

subsection \<open>Opening and committing the run\<close>

lemma scope_fields:
  "sc_workspaceId example_scope = ''w''" "sc_syncId example_scope = ''s''" "sc_taskId example_scope = ''t''" "sc_logicalRunId example_scope = ''r''"
  "sc_configRevision example_scope = ''1''" "sc_targetIdentity example_scope = ''a''" "sc_mode example_scope = ModeUpsert"
  "sc_extraction example_scope = ExtractFull" "\<not> sc_insertOnly example_scope"
  by (simp_all add: example_scope_def)

lemma control_fields:
  "c_workspace sample_control = ''w''" "c_sync sample_control = ''s''" "c_run sample_control = ''r''" "c_order sample_control = 1" "\<not>
     c_detached sample_control"
  "c_revision sample_control = ''1''" "c_targetHash sample_control = target_hash example_sha example_scope" "c_phase sample_control = PFinishAccepted"
  "c_mode sample_control = ModeUpsert" "c_extraction sample_control = ExtractFull" "c_head sample_control = Some sample_head" "c_base
     sample_control = 0"
  "c_next sample_control = 0" "c_checkpoint sample_control = 0" "c_finishSequence sample_control = Some 0" "c_store sample_control = None"
  "c_providerState sample_control = None" "c_finishResult sample_control = None" "c_generation sample_control = None"
  "control_key sample_control = scope_key example_scope"
  by (simp_all add: sample_control_def example_row_def control_key_def scope_key_def example_scope_def)

lemmas step_defs = bindE_def thenE_def modifyE_def getE_def returnE_def ensure_def throwE_def resultE_def bindR_def ensureR_def whenE_def Let_def
  catchE_def readE_def liftW_def modifyR_def

lemma sample_admitted: "admitted_row example_scope True base store sample_control = sample_control"
  by (simp add: admitted_row_def control_fields scope_fields Let_def)

lemma sample_openRun: "openRun example_sha example_scope sample_head (sample_world sample_before [])
    = (Inr True, sample_world sample_before [(scope_key example_scope, sample_control)])"
  by (simp add: openRun_def cache_transaction_def db_transaction_def world_fields admit_def
    step_defs invalidate_def check_admission_def known_run_def sample_admitted database_fields
    selectControl_def check_control_def claim_target_def admission_base_def write_admitted_def remember_def update_control_def
    insert_run_def check_bound_def bound_to_def sync_rows_def scope_values_def
    control_fields scope_fields ended_def)

lemma head_fields: "h_runId example_head = ''r''" "h_baseline example_head = []" "h_snapshot example_head = None" "h_batches example_head = []"
  "\<lparr>h_runId = ''r'', h_baseline = [], h_snapshot = None, h_batches = []\<rparr> = example_head"
  by (simp_all add: example_head_def)

lemma env_fields: "e_sha example_env = example_sha" "e_limits example_env = defaultLimits"
  by (simp_all add: example_env_def)

lemma sample_observed: "observe example_scope (sample_world d [(scope_key example_scope, sample_control)])
    = (Inr sample_control, sample_world d [(scope_key example_scope, sample_control)])"
  by (simp add: observe_def world_fields control_fields scope_fields)

lemma sample_open: "openPersistence example_env example_scope (sample_world sample_before []) = (Inr sample_session, s_world sample_session)"
  by (simp add: openPersistence_def step_defs scope_fields sample_put head_fields sample_head_encoded sample_openRun open_journal_def env_fields
    sample_observed control_fields sample_decode sample_get head_manifest_stored open_session_def restore_def restore_index_def
    sample_session_def opened_on_def accepted_replacement_def)

definition sample_completed :: control_row where
  "sample_completed = sample_control\<lparr>c_phase := PComplete, c_store := Some ''{\"version\":1,\"value\":{}}''\<rparr>"

abbreviation sample_point :: saved_state where
  "sample_point \<equiv> \<lparr>sv_point = \<lparr>rp_seq = 0, rp_cursor = None\<rparr>, sv_store = JObj [], sv_generation = None\<rparr>"

definition sample_saved :: json where
  "sample_saved = (case saved_envelope example_sha example_scope sample_control None None sample_point of Inr v \<Rightarrow> v | Inl _
     \<Rightarrow> JNull)"

lemma sample_envelope: "saved_envelope example_sha example_scope sample_control None None sample_point = Inr sample_saved"
proof -
  have "case saved_envelope example_sha example_scope sample_control None None sample_point of Inl _ \<Rightarrow> False | Inr _ \<Rightarrow>
     True" by code_simp
  then show ?thesis by (simp add: sample_saved_def split: sum.splits)
qed

abbreviation sample_after :: database where
  "sample_after \<equiv> sample_database sample_completed [((''s'', stateStream), sample_saved)]"

lemma sample_rewritten: "sample_control\<lparr>c_checkpoint := 0, c_phase := PComplete, c_generation := None, c_store := Some
     ''{\"version\":1,\"value\":{}}'',
   c_head := Some sample_head\<rparr> = sample_completed"
  by (simp add: sample_completed_def sample_control_def example_row_def)

lemma completed_fields: "c_phase sample_completed = PComplete" "control_key sample_completed = scope_key example_scope"
  by (simp_all add: sample_completed_def control_fields) (simp add: control_key_def control_fields scope_key_def scope_fields)

lemma sample_commit: "commitCheckpoint example_env \<lparr>rp_seq = 0, rp_cursor = None\<rparr> (JObj []) True sample_session
   = (Inr (), sample_session\<lparr>s_world := sample_world sample_after [(scope_key example_scope, sample_completed)]\<rparr>)"
  by (simp add: commitCheckpoint_def copyE_def example_copies step_defs current_def sample_session_def opened_on_def sample_observed
     control_fields scope_fields
     finalPoint_def head_fields accepted_between_def create_index_def saved_def encode_store_def publish_def head_bytes_for_def
    sample_decode db_transaction_def world_fields database_fields select_state_def safe_integer_def env_fields sample_hash[simplified env_fields]
    cache_transaction_def throwIfAborted_def
    publish_work_def lock_control_def invalidate_def selectControl_def save_checkpoint_def sample_envelope update_control_def remember_def
    sample_rewritten completed_fields)

subsection \<open>The task\<close>

definition sample_handle :: task_handle where
  "sample_handle = \<lparr>tk_sync = ''s'', tk_task = ''t'', tk_workspace = Some ''w'', tk_worker = ''p''\<rparr>"

definition sample_task :: task_row where
  "sample_task = \<lparr>t_sync = ''s'', t_task = ''t'', t_package = runner_package, t_status = ''PENDING'', t_workspace = Some ''w'',
     t_trigger = ''manual'', t_recoveryOf = None, t_description = None, t_error = None,
     t_metrics = \<lparr>tm_recovery = Some \<lparr>sch_runId = ''r'', sch_revision = ''1'', sch_attempt = 0, sch_deadline = 86400000,
     sch_nextCheckAt = 0,
         tr_suspended = False, tr_previousStatus = None\<rparr>,
       tm_worker = Some \<lparr>wk_id = ''o'', wk_active = False, wk_previousStatus = None\<rparr>, tm_delivery = None\<rparr>,
     t_startedAt = 0, t_updatedAt = 0\<rparr>"

definition sample_tables :: "database \<Rightarrow> task_row list \<Rightarrow> log_row list \<Rightarrow> task_tables" where
  "sample_tables d ts lg = database.extend d \<lparr>td_tasks = ts, td_log = lg\<rparr>"

definition sample_tasks :: "task_tables \<Rightarrow> task_world" where
  "sample_tasks d = \<lparr>tw_db = d, tw_faults = [], tw_clock = 1, tw_now = 1\<rparr>"

definition sample_state :: "lease option \<Rightarrow> (lease option, unit) execution" where
  "sample_state l = \<lparr>x_lease = \<lparr>kl_held = False, kl_api = l\<rparr>,
     x_tasks = sample_tasks (sample_tables sample_before [sample_task] []),
     x_world = sample_world sample_before [], x_session = None, x_progress = new_progress False [], x_provider = (), x_signal = [],
     x_aborted = False, x_timer = [], x_timing = False, x_ownershipLost = False, x_stage = LeaseAcquire, x_held = False, x_started = False,
     x_refreshRunId = None, x_deliveryFinished = False\<rparr>"

lemma tables_fields:
  "db_controls (sample_tables d ts lg) = db_controls d" "td_tasks (sample_tables d ts lg) = ts" "td_log (sample_tables d ts lg) = lg"
  "(sample_tables d ts lg)\<lparr>td_tasks := ts'\<rparr> = sample_tables d ts' lg" "(sample_tables d ts lg)\<lparr>td_log := lg'\<rparr> =
     sample_tables d ts lg'"
  "database.truncate (sample_tables d ts lg) = d" "set_database d' (sample_tables d ts lg) = sample_tables d' ts lg"
  by (cases d; cases d'; simp add: sample_tables_def database.defs set_database_def)+

lemma tasks_fields: "tw_db (sample_tasks d) = d" "tw_clock (sample_tasks d) = 1" "tw_now (sample_tasks d) = 1" "(sample_tasks d)\<lparr>tw_db :=
     d'\<rparr> = sample_tasks d'"
  "task_fault (sample_tasks d) = (None, sample_tasks d)"
  by (simp_all add: sample_tasks_def task_fault_def)

lemma options_fields:
  "ei_config (sample_options trg) = sample_config" "ei_taskId (sample_options trg) = ''t''" "ei_trigger (sample_options trg) = trg"
  "ei_recoveryOf (sample_options trg) = (if trg = RecoveryTrigger then Some ''t'' else None)" "ei_workerId (sample_options trg) = Some ''p''"
  "ei_refreshAttempt (sample_options trg) = None" "ei_env (sample_options trg) = example_env" "ei_lease (sample_options trg) = etcd_call"
  "ei_holder (sample_options trg) = ''me''" "ei_adapters (sample_options trg) = (\<lambda>_. Some (\<lambda>_. returnE sample_adapter))"
  "ei_admit (sample_options trg) = Inr sample_config" "ei_fuel (sample_options trg) = 10" "task_of (sample_options trg) = sample_handle"
  by (simp_all add: sample_options_def task_of_def sample_handle_def sample_config_def)

lemma config_fields:
  "cf_id sample_config = ''s''" "cf_workspaceId sample_config = ''w''" "cf_revision sample_config = ''1''" "\<not> cf_disabled sample_config"
  "cf_destinationType sample_config = ''d''" "cf_stream sample_config = ''people''" "cf_mode sample_config = ModeUpsert" "\<not> cf_cursor
     sample_config"
  by (simp_all add: sample_config_def)

subsection \<open>The steps of the execution\<close>

definition sample_taken :: task_row where
  "sample_taken = take_over sample_handle 1 sample_task"

definition sample_lease :: lease where
  "sample_lease = \<lparr>l_holder = ''me'', l_duration = 60, l_renewTime = 1, l_version = 1, l_uid = 1\<rparr>"

definition sample_begun :: "(lease option, unit) execution" where
  "sample_begun = (sample_state (Some sample_lease))\<lparr>x_lease := \<lparr>kl_held = True, kl_api = Some sample_lease\<rparr>,
     x_tasks := sample_tasks (sample_tables sample_before [sample_taken] []), x_held := True, x_started := True,
     x_refreshRunId := Some ''r'', x_stage := Admission\<rparr>"

lemma sample_due: "recovery_due sample_handle ''1'' None 1 sample_task sample_control"
  by (simp add: recovery_due_def own_row_def sample_handle_def sample_task_def worker_active_def control_fields ended_def)

lemma sample_begin: "begin_task sample_refresh (sample_state None) = (Inr (), sample_begun)"
  by (simp add: begin_task_def step_defs throw_if_aborted_def read_signal_def sample_state_def on_lease_def acquire_def acquire_write_def api_def
     options_fields config_fields answer_def lease_for_def tasks_fields on_tasks_def start_def task_transaction_def start_recovery_def
     tables_fields database_fields
     update_tasks_def sample_due control_fields sample_begun_def sample_taken_def sample_lease_def)
   (simp add: sample_handle_def)

lemma sample_admit: "admit_config sample_refresh sample_begun = (Inr sample_config, sample_begun\<lparr>x_stage := Execution\<rparr>)"
  by (simp add: admit_config_def step_defs options_fields config_fields sample_begun_def)

definition sample_bound :: "(lease option, unit) execution" where
  "sample_bound = sample_begun\<lparr>x_stage := Execution, x_timing := True\<rparr>"

lemma sample_bind: "bind_adapter sample_refresh sample_config (sample_begun\<lparr>x_stage := Execution\<rparr>) = (Inr sample_adapter, sample_bound)"
  by (simp add: bind_adapter_def step_defs options_fields config_fields throw_if_aborted_def read_signal_def await_timer_def on_provider_def
     sample_begun_def sample_state_def sample_adapter_def example_stream_def sample_bound_def)

lemma sample_logical: "logical_run sample_refresh sample_config sample_bound = (Inr ''r'', sample_bound)"
  by (simp add: logical_run_def step_defs sample_bound_def sample_begun_def)

lemma sample_input: "run_input sample_refresh sample_config sample_adapter ''r'' = example_scope"
  by (simp add: run_input_def options_fields config_fields sample_adapter_def sample_handle_def example_scope_def)

lemma sample_env: "example_env\<lparr>e_projection := ad_project sample_adapter\<rparr> = example_env"
  by (simp add: example_env_def sample_adapter_def)

lemma sample_sees: "(sample_world d cache)\<lparr>w_aborted := False\<rparr> = sample_world d cache"
  by (simp add: sample_world_def empty_world_def)

lemmas sees = world_in_def sample_sees world_fields tasks_fields tables_fields

definition sample_opened :: "(lease option, unit) execution" where
  "sample_opened = sample_bound\<lparr>x_lease := \<lparr>kl_held = True, kl_api = Some (sample_lease\<lparr>l_version := 2\<rparr>)\<rparr>,
     x_session := Some sample_session,
     x_world := s_world sample_session\<rparr>"

lemmas sample_states = sample_opened_def sample_bound_def sample_begun_def sample_state_def

lemma put_world_at: "x_tasks x = sample_tasks (sample_tables d ts lg) \<Longrightarrow> put_world (sample_world d' cache) x =
    x\<lparr>x_world := sample_world d' cache, x_tasks := sample_tasks (sample_tables d' ts lg)\<rparr>"
  by (simp add: put_world_def world_fields tables_fields tasks_fields)

lemma session_world: "s_world sample_session = sample_world sample_before [(scope_key example_scope, sample_control)]"
  by (simp add: sample_session_def opened_on_def)

lemma sample_open_run: "open_run sample_refresh sample_config sample_adapter example_scope sample_bound = (Inr (), sample_opened)"
  by (simp add: open_run_def step_defs renewLease_def on_lease_def renew_def api_def options_fields config_fields throw_if_aborted_def
    read_signal_def on_world_def sample_env sample_states sample_lease_def answer_def Lease.active_def sees sample_open put_world_at
     session_world numeral_2_eq_2)

definition sample_at :: "session \<Rightarrow> database \<Rightarrow> task_row \<Rightarrow> log_row list \<Rightarrow> run_progress
     \<Rightarrow> (lease option, unit) execution" where
  "sample_at s d row lg pg = sample_opened\<lparr>x_session := Some s, x_world := s_world s, x_progress := pg, x_tasks := sample_tasks
     (sample_tables d [row] lg)\<rparr>"

lemma sample_opened_at: "sample_opened = sample_at sample_session sample_before sample_taken [] (new_progress False [])"
  by (simp add: sample_at_def sample_states)

lemma at_fields:
  "x_session (sample_at s d row lg pg) = Some s" "x_world (sample_at s d row lg pg) = s_world s" "x_progress (sample_at s d row lg pg) = pg"
  "x_tasks (sample_at s d row lg pg) = sample_tasks (sample_tables d [row] lg)" "x_timer (sample_at s d row lg pg) = []"
  "\<not> x_aborted (sample_at s d row lg pg)" "x_signal (sample_at s d row lg pg) = []" "x_provider (sample_at s d row lg pg) = ()"
  "(sample_at s d row lg pg)\<lparr>x_progress := pg'\<rparr> = sample_at s d row lg pg'"
  "(sample_at s d row lg pg)\<lparr>x_tasks := sample_tasks (sample_tables d' [row'] lg')\<rparr> = sample_at s d' row' lg' pg"
  "(sample_at s d row lg pg)\<lparr>x_timer := []\<rparr> = sample_at s d row lg pg"
  by (simp_all add: sample_at_def sample_states)

lemma at_left: "(sample_at s d row lg pg)\<lparr>x_provider := (), x_tasks := sample_tasks (sample_tables d [row] lg), x_signal := [], x_aborted
     := False\<rparr> = sample_at s d row lg pg"
  by (simp add: sample_at_def sample_states)

lemma session_in_at: "session_in sample_session (sample_at sample_session sample_before row lg pg) = sample_session"
  by (simp add: session_in_def session_world at_fields sees sample_session_def opened_on_def)

lemma put_session_at:
  assumes "s_world s' = sample_world d' cache"
  shows "put_session s' (sample_at s d row lg pg) = sample_at s' d' row lg pg"
  using assms by (simp add: put_session_def put_world_at[OF at_fields(4)]) (simp add: sample_at_def)

lemma sample_held: "t_status row = ''PENDING'' \<Longrightarrow> t_sync row = ''s'' \<Longrightarrow> t_task row = ''t'' \<Longrightarrow>
     t_metrics row = t_metrics sample_taken \<Longrightarrow> running_row sample_handle row"
  by (simp add: running_row_def held_row_def own_row_def sample_handle_def sample_taken_def take_over_def sample_task_def worker_is_def)

lemma taken_fields: "t_status sample_taken = ''PENDING''" "t_sync sample_taken = ''s''" "t_task sample_taken = ''t''"
     "sample_taken\<lparr>t_updatedAt := 1\<rparr> = sample_taken"
  by (simp_all add: sample_taken_def take_over_def sample_task_def)

lemma on_run_at:
  assumes "m sample_session = (r, s')" and "s_world s' = sample_world d cache" and "s_head s' = example_head"
  shows "on_run m (sample_at sample_session sample_before row lg pg) = (r, sample_at s' d row lg pg)"
  using assms
  by (simp add: on_run_def at_fields session_in_at watch_def put_session_at)
   (simp add: sample_session_def opened_on_def)

lemma session_fields: "s_world sample_session = sample_world sample_before [(scope_key example_scope, sample_control)]"
  "s_head sample_session = example_head" "s_recovered sample_session" "s_scope sample_session = example_scope" "\<not> s_broken sample_session"
  "sample_session\<lparr>s_world := sample_world sample_before [(scope_key example_scope, sample_control)]\<rparr> = sample_session"
  by (simp_all add: sample_session_def opened_on_def)

lemma sample_status: "recoveryStatus sample_session = (Inr \<lparr>rs_phase = PFinishAccepted, rs_nextSequence = 0, rs_finishSequence = Some 0,
     rs_finish = None, rs_providerState = JObj []\<rparr>, sample_session)"
  by (simp add: recoveryStatus_def step_defs current_def session_fields sample_observed control_fields state_json_def)

lemma sample_saved_state: "journal_state sample_session = (Inr (JObj [], JObj []), sample_session)"
  by (simp add: journal_state_def state_json_def saved_def step_defs current_def session_fields sample_observed control_fields
     db_transaction_def world_fields database_fields
     select_state_def scope_fields)

lemma state_at: "on_run journal_state (sample_at sample_session sample_before row lg pg)
    = (Inr (JObj [], JObj []), sample_at sample_session sample_before row lg pg)"
  by (rule on_run_at) (simp_all add: sample_saved_state session_fields)

lemma read_at: "on_run (\<lambda>s. (Inr (f s), s)) (sample_at sample_session sample_before row lg pg)
    = (Inr (f sample_session), sample_at sample_session sample_before row lg pg)"
  by (rule on_run_at) (simp_all add: sample_session_def opened_on_def)

lemma sample_store: "createBufferedSyncStore (JObj []) 65536 = Inr example_store"
  by code_simp

lemma heartbeat_at: "on_tasks (heartbeat sample_handle) (sample_at s d sample_taken lg pg) = (Inr (), sample_at s d sample_taken lg pg)"
  by (simp add: on_tasks_def heartbeat_def task_transaction_def step_defs at_fields tasks_fields update_tasks_def tables_fields sample_held
     taken_fields)

lemma progress_at: "on_tasks (Tasks.progress sample_handle m) (sample_at s d sample_taken lg pg)
   = (Inr (), sample_at s d (sample_taken\<lparr>t_description := Some m\<rparr>) (lg @ [\<lparr>lg_level = ''INFO'', lg_message = m, lg_sync =
     ''s'', lg_task = ''t''\<rparr>]) pg)"
  by (simp add: on_tasks_def Tasks.progress_def task_transaction_def step_defs at_fields tasks_fields update_tasks_def tables_fields sample_held
     taken_fields
     insert_log_def sample_handle_def[symmetric])
   (simp add: sample_handle_def)

lemma sample_introduce: "\<exists>row lg pg. introduce_run sample_refresh sample_config sample_opened
   = (Inr (JObj [], JObj []), sample_at sample_session sample_before row lg pg) \<and> running_row sample_handle row"
  by (simp add: introduce_run_def bindE_def thenE_def ensure_def returnE_def options_fields sample_opened_at
    state_at read_at sample_store getE_def session_fields heartbeat_at progress_at
    log_text_def modifyE_def observe_restored_def at_fields)
    (intro exI conjI, rule refl, simp add: sample_held taken_fields)

lemma sample_final: "finalPoint example_env 0 sample_session = (Inr \<lparr>rp_seq = 0, rp_cursor = None\<rparr>, sample_session)"
  by (simp add: finalPoint_def saved_def step_defs session_fields head_fields db_transaction_def world_fields database_fields select_state_def
     scope_fields
    env_fields)

definition sample_done :: session where
  "sample_done = sample_session\<lparr>s_world := sample_world sample_after [(scope_key example_scope, sample_completed)]\<rparr>"

lemma sample_session_env: "session_env sample_refresh sample_config sample_adapter = example_env"
  by (simp add: session_env_def options_fields config_fields sample_env)

lemma sample_empty: "store_snapshot example_store = JObj []"
  by code_simp

lemma sample_deliver: "deliver_run sample_refresh sample_config sample_adapter example_scope (JObj [], JObj [])
    (sample_at sample_session sample_before row lg pg) =
    (Inr (Some OutAccepted), sample_at sample_done sample_after row lg pg)"
  by (simp add: deliver_run_def config_fields read_at sample_store step_defs session_fields deliver_recovery_def run_attempt_def
     at_fields session_in_at signal_in_def recovery_start_def recoverRun_def journal_read_def core_of_def sample_session_env watch_defs
     core_facade_def
     watch_def delivery_facade_def sample_empty sample_status recover_finish_def commit_recovered_def sample_final snapshot_store_def
     journal_call_def sample_commit finish_phase_def
     sample_done_def[symmetric] trace_def leave_attempt_def at_fields at_left)
    (simp add: put_session_at sample_done_def session_fields)

lemma sample_settle:
  assumes "running_row sample_handle row"
  shows "fst (settle sample_refresh sample_config sample_adapter ''r'' OutAccepted (sample_at s d row lg pg)) = Inr ''COMPLETE''"
  using assms
  by (simp add: settle_def step_defs stop_timer_def await_timer_def sample_at_def sample_states throw_if_aborted_def read_signal_def
     reportProgress_def on_tasks_def finish_task_def
    tasks_fields tables_fields update_tasks_def task_transaction_def insert_log_def options_fields)

lemma sample_run: "fst (run_task sample_refresh (sample_state None)) = Inr (Some ''COMPLETE'')"
proof -
  obtain row lg pg where i: "introduce_run sample_refresh sample_config sample_opened
   = (Inr (JObj [], JObj []), sample_at sample_session sample_before row lg pg)" and h: "running_row sample_handle row"
    using sample_introduce by blast
  have a: "await_timer sample_refresh (sample_at s d row lg pg) = (Inr (), sample_at s d row lg pg)" for s d
    by (simp add: await_timer_def step_defs at_fields)
  obtain y where y: "settle sample_refresh sample_config sample_adapter ''r'' OutAccepted
      (sample_at sample_done sample_after row lg pg) = (Inr ''COMPLETE'', y)"
    using returned[OF sample_settle[OF h]] by blast
  show ?thesis
    by (simp add: run_task_def bindE_def thenE_def sample_begin sample_admit sample_bind sample_logical Let_def sample_input sample_open_run i a
        sample_deliver returnE_def y)
qed

lemma sample_execute: "\<exists>y. execute sample_refresh (sample_state None) = (Inr (Some ''COMPLETE''), y)"
proof -
  obtain y where "run_task sample_refresh (sample_state None) = (Inr (Some ''COMPLETE''), y)"
    using returned[OF sample_run] by blast
  then show ?thesis by (simp add: execute_def finallyE_def catchE_def)
qed

lemma sample_start: "\<exists>w'. start sample_handle RecoveryTrigger (Some ''t'') (Some ''1'') None (x_tasks (sample_state None)) = (Inr (Some ''r''), w')"
  by (simp add: sample_state_def start_def task_transaction_def start_recovery_def step_defs tasks_fields tables_fields database_fields
      update_tasks_def sample_due control_fields)
    (simp add: sample_handle_def)

subsection \<open>A lease of another worker\<close>

definition sample_foreign :: lease where
  "sample_foreign = \<lparr>l_holder = ''you'', l_duration = 60, l_renewTime = 1, l_version = 1, l_uid = 1\<rparr>"

lemma sample_excluded: "\<not> x_held (snd (execute sample_refresh (sample_state (Some sample_foreign))))"
  by (simp add: execute_def finallyE_def run_task_def begin_task_def step_defs throw_if_aborted_def read_signal_def sample_state_def
      sample_foreign_def on_lease_def acquire_def acquire_write_def api_def options_fields answer_def Lease.active_def tasks_fields)
    (simp add: on_failure_def step_defs stop_timer_def await_timer_def read_signal_def reportProgress_def refreshing_def end_failed_def release_lease_def)

lemma sample_adapters_keep: "adapters_keep K sample_refresh"
  by (auto simp: adapters_keep_def options_fields returnE_def adapter_keeps_def sample_adapter_def example_provider_keeps)

subsection \<open>A check that fails\<close>

lemma sample_refreshing: "refreshing sample_begun" "\<not> pg_deliveryChanged (x_progress sample_begun)"
  "find (refresh_row (task_of sample_refresh)) (td_tasks (tw_db (x_tasks sample_begun))) = Some sample_taken"
  by (simp_all add: refreshing_def given_def sample_states new_progress_def options_fields tasks_fields tables_fields refresh_row_def held_row_def
      own_row_def sample_handle_def sample_taken_def take_over_def sample_task_def worker_is_def)

lemma sample_schedule: "parse_schedule (tm_recovery (t_metrics sample_taken)) = Inr \<lparr>sch_runId = ''r'', sch_revision = ''1'', sch_attempt = 0,
    sch_deadline = 86400000, sch_nextCheckAt = 0\<rparr>"
  by (simp add: parse_schedule_def sample_taken_def take_over_def sample_task_def recovery_schedule.defs schedule_ok_def maxAttempt_def)

lemma sample_failure: "\<exists>y. on_failure sample_refresh (PlainError ''provider'') sample_begun = (Inr (Some ''PENDING''), y)"
proof -
  have "previous_status sample_taken = ''PENDING''"
    by (simp add: previous_status_def sample_taken_def take_over_def sample_task_def)
  moreover have "\<not> requiresManualReconciliation (PlainError ''provider'')" by code_simp
  ultimately show ?thesis
    using sample_refreshing sample_schedule
    apply (simp add: on_failure_def step_defs stop_timer_def await_timer_def read_signal_def reportProgress_def sample_states refreshing_def options_fields
      on_tasks_def refreshFailed_def refresh_work_def task_transaction_def tasks_fields tables_fields update_tasks_def insert_log_def)
    done
qed

end
