(* ===== verification/Patterns.thy ===== *)
theory Patterns
  imports Prelude
begin

text \<open>
  The regular expressions of the warehouse code, anchored at both ends: expressions over classes of characters, matched by
  derivatives, and the characters a match is made of.
\<close>

subsection \<open>Matching\<close>

datatype pattern =
    Never
  | Nothing
  | Class "char \<Rightarrow> bool"
  | Either pattern pattern
  | Then pattern pattern
  | Many pattern

fun matches_empty :: "pattern \<Rightarrow> bool" where
  "matches_empty Never = False"
| "matches_empty Nothing = True"
| "matches_empty (Class f) = False"
| "matches_empty (Either p q) = (matches_empty p \<or> matches_empty q)"
| "matches_empty (Then p q) = (matches_empty p \<and> matches_empty q)"
| "matches_empty (Many p) = True"

fun after_char :: "char \<Rightarrow> pattern \<Rightarrow> pattern" where
  "after_char c Never = Never"
| "after_char c Nothing = Never"
| "after_char c (Class f) = (if f c then Nothing else Never)"
| "after_char c (Either p q) = Either (after_char c p) (after_char c q)"
| "after_char c (Then p q) = (if matches_empty p then Either (Then (after_char c p) q) (after_char c q) else Then (after_char c p) q)"
| "after_char c (Many p) = Then (after_char c p) (Many p)"

fun matches :: "pattern \<Rightarrow> string \<Rightarrow> bool" where
  "matches p [] = matches_empty p"
| "matches p (c # s) = matches (after_char c p) s"

subsection \<open>Notions of the source\<close>

definition char_code :: "char \<Rightarrow> nat" where
  "char_code c = of_char c"

definition digit :: "char \<Rightarrow> bool" where
  "digit c \<longleftrightarrow> 48 \<le> char_code c \<and> char_code c \<le> 57"

definition letter :: "char \<Rightarrow> bool" where
  "letter c \<longleftrightarrow> 65 \<le> char_code c \<and> char_code c \<le> 90 \<or> 97 \<le> char_code c \<and> char_code c \<le> 122"

text \<open>\<open>\w\<close>, \<open>\s\<close> and \<open>.\<close>.\<close>

definition word_char :: "char \<Rightarrow> bool" where
  "word_char c \<longleftrightarrow> letter c \<or> digit c \<or> c = CHR ''_''"

definition space_char :: "char \<Rightarrow> bool" where
  "space_char c \<longleftrightarrow> 9 \<le> char_code c \<and> char_code c \<le> 13 \<or> char_code c = 32 \<or> char_code c = 160"

definition newline :: "char \<Rightarrow> bool" where
  "newline c \<longleftrightarrow> char_code c = 10 \<or> char_code c = 13"

definition trim :: "string \<Rightarrow> string" where
  "trim s = rev (dropWhile space_char (rev (dropWhile space_char s)))"

abbreviation any_char :: pattern where
  "any_char \<equiv> Class (\<lambda>c. \<not> newline c)"

fun exactly :: "string \<Rightarrow> pattern" where
  "exactly [] = Nothing"
| "exactly (c # s) = Then (Class (\<lambda>x. x = c)) (exactly s)"

fun one_of :: "pattern list \<Rightarrow> pattern" where
  "one_of [] = Never"
| "one_of (p # ps) = Either p (one_of ps)"

fun in_order :: "pattern list \<Rightarrow> pattern" where
  "in_order [] = Nothing"
| "in_order (p # ps) = Then p (in_order ps)"

definition maybe :: "pattern \<Rightarrow> pattern" where
  "maybe p = Either p Nothing"

definition repeated :: "pattern \<Rightarrow> pattern" where
  "repeated p = Then p (Many p)"

subsection \<open>The characters of a match\<close>

fun made_of :: "(char \<Rightarrow> bool) \<Rightarrow> pattern \<Rightarrow> bool" where
  "made_of P Never = True"
| "made_of P Nothing = True"
| "made_of P (Class f) = (\<forall>c. f c \<longrightarrow> P c)"
| "made_of P (Either p q) = (made_of P p \<and> made_of P q)"
| "made_of P (Then p q) = (made_of P p \<and> made_of P q)"
| "made_of P (Many p) = made_of P p"

lemma made_of_after: "made_of P p \<Longrightarrow> made_of P (after_char c p)"
  by (induction p) auto

text \<open>Without a match of the first character there is none of the whole.\<close>

fun dead :: "pattern \<Rightarrow> bool" where
  "dead Never = True"
| "dead Nothing = False"
| "dead (Class f) = False"
| "dead (Either p q) = (dead p \<and> dead q)"
| "dead (Then p q) = (dead p \<or> dead q)"
| "dead (Many p) = False"

lemma dead_after: "dead p \<Longrightarrow> \<not> matches_empty p \<and> dead (after_char c p)"
  by (induction p) auto

lemma dead_never: "dead p \<Longrightarrow> \<not> matches p s"
  by (induction s arbitrary: p) (auto dest: dead_after)

lemma foreign_char_dead: "made_of P p \<Longrightarrow> \<not> P c \<Longrightarrow> dead (after_char c p)"
  by (induction p) auto

lemma matches_made_of: "matches p s \<Longrightarrow> made_of P p \<Longrightarrow> list_all P s"
proof (induction s arbitrary: p)
  case (Cons c s)
  then have "P c" using foreign_char_dead dead_never by fastforce
  with Cons made_of_after show ?case by fastforce
qed simp

lemma made_of_word [simp]: "made_of P (exactly s) = list_all P s"
  by (induction s) auto

lemma made_of_one_of [simp]: "made_of P (one_of ps) = list_all (made_of P) ps"
  by (induction ps) auto

lemma made_of_in_order [simp]: "made_of P (in_order ps) = list_all (made_of P) ps"
  by (induction ps) auto

lemma made_of_maybe [simp]: "made_of P (maybe p) = made_of P p"
  by (simp add: maybe_def)

lemma made_of_repeated [simp]: "made_of P (repeated p) = made_of P p"
  by (simp add: repeated_def)

lemma matches_never [simp]: "\<not> matches Never s"
  by (rule dead_never) simp

lemma matches_nothing [simp]: "matches Nothing s \<longleftrightarrow> s = []"
  by (cases s) simp_all

lemma matches_either [simp]: "matches (Either p q) s \<longleftrightarrow> matches p s \<or> matches q s"
  by (induction s arbitrary: p q) auto

lemma matches_one_of: "matches (one_of ps) s \<longleftrightarrow> list_ex (\<lambda>p. matches p s) ps"
  by (induction ps) auto

lemma matches_dead_then [simp]: "\<not> matches (Then Never q) s"
  by (rule dead_never) simp

lemma matches_nothing_then [simp]: "matches (Then Nothing q) s = matches q s"
  by (cases s) simp_all


lemma matches_word [simp]: "matches (exactly w) s \<longleftrightarrow> s = w"
proof (induction w arbitrary: s)
  case (Cons c w)
  then show ?case by (cases s) auto
qed simp

end
