(* ===== verification/WarehouseSql.thy ===== *)
theory WarehouseSql
  imports Patterns LocalIndex
begin

text \<open>
  The queries of a warehouse model, \<open>libs/warehouse-query/src/sql.ts\<close>: the policy for the query of a model, the removal of its
  delimiter, the checks of its columns and the query that is sent. What differs between the warehouses is the record \<open>sql_rules\<close>. The
  SQL parser is a library: it is a member of the rules, and its syntax trees are JSON values.
\<close>

subsection \<open>Models\<close>

datatype cursor_type = TimestampCursor | NumberCursor | StringCursor

record model_cursor =
  mc_column :: string
  mc_type :: cursor_type
  mc_lookbackSeconds :: "int option"

record model_definition =
  md_warehouseId :: string
  md_query :: string
  md_primaryKey :: "string list"
  md_cursor :: "model_cursor option"
  md_deleteColumn :: "string option"
  md_pageSize :: int

record warehouse_column =
  wc_name :: string
  wc_type :: string

subsection \<open>The rules of a dialect\<close>

text \<open>What the parser throws: the position and the message, when it has them.\<close>

record sql_error =
  se_location :: "(string \<times> string) option"
  se_message :: "string option"

record sql_parameters =
  sp_values :: "string list"
  sp_queryParams :: "(string \<times> string) list"

text \<open>A place in a query is the reversed text before it and the text from it on.\<close>

record sql_rules =
  dl_parse :: "string \<Rightarrow> sql_error + json"
  dl_lineCommentPrefixes :: "string list"
  dl_backslashEscapes :: "string \<Rightarrow> string \<Rightarrow> bool"
  dl_dollarQuote :: "string \<Rightarrow> string \<Rightarrow> string option"
  dl_quoteColumn :: "string \<Rightarrow> string"
  dl_supportsPrimaryKeyType :: "string \<Rightarrow> bool"
  dl_supportsDeleteType :: "string \<Rightarrow> bool"
  dl_supportsCursorType :: "cursor_type \<Rightarrow> string \<Rightarrow> bool"
  dl_validateCheckpointType :: "string \<Rightarrow> string result"
  dl_bind :: "string \<Rightarrow> string \<Rightarrow> nat \<Rightarrow> sql_parameters \<Rightarrow> (string \<times> sql_parameters) result"
  dl_lookbackPredicate :: "string \<Rightarrow> string \<Rightarrow> int \<Rightarrow> string"

definition rejectR :: "bool \<Rightarrow> string \<Rightarrow> unit result" where
  "rejectR b msg = (if b then Inl (PlainError msg) else Inr ())"

subsection \<open>The read-only policy\<close>

definition writing_types :: "string list" where
  "writing_types = [''insert'', ''update'', ''delete'', ''replace'', ''create'', ''drop'', ''alter'', ''call'', ''set'', ''execute'', ''into'']"

definition writes :: "json \<Rightarrow> bool" where
  "writes v \<longleftrightarrow> (\<exists>t \<in> set writing_types. member v ''type'' = JStr t) \<or> truthy (member (member v ''into'') ''position'')
     \<or> truthy (member v ''locking_read'') \<or> truthy (member v ''for_update'')"

fun read_only :: "json \<Rightarrow> bool" where
  "read_only (JObj kvs) = (\<not> writes (JObj kvs) \<and> list_all (\<lambda>kv. read_only (snd kv)) kvs)"
| "read_only (JArr vs) = list_all read_only vs"
| "read_only _ = True"

fun statements :: "json \<Rightarrow> json list" where
  "statements (JArr vs) = vs"
| "statements v = [v]"

definition parse_message :: "sql_error \<Rightarrow> string" where
  "parse_message e = ''Query must be a single supported read-only SELECT (including SELECT CTEs). ''
     @ (case se_location e of None \<Rightarrow> [] | Some (line, column) \<Rightarrow> ''At line '' @ line @ '', column '' @ column @ '': '')
     @ (case se_message e of None \<Rightarrow> ''SQL could not be parsed'' | Some m \<Rightarrow> take 2000 m)"

definition validateSelect :: "string \<Rightarrow> (string \<Rightarrow> sql_error + json) \<Rightarrow> unit result" where
  "validateSelect query parse =
     bindR (rejectR (list_all space_char query \<or> length query > 100000 \<or> CHR 0x00 \<in> set query) ''Invalid model query'') (\<lambda>_.
     case parse query of
       Inl e \<Rightarrow> Inl (PlainError (parse_message e))
     | Inr ast \<Rightarrow>
         bindR (rejectR (length (statements ast) \<noteq> 1 \<or> member (hd (statements ast)) ''type'' \<noteq> JStr ''select'') ''Only one SELECT is allowed'') (\<lambda>_.
         rejectR (\<not> read_only (hd (statements ast))) ''Query must be read-only''))"

subsection \<open>Removing the delimiter\<close>

definition starts :: "string \<Rightarrow> string \<Rightarrow> bool" where
  "starts p s \<longleftrightarrow> take (length p) s = p"

text \<open>The rest of a block comment, which may be nested.\<close>

fun block_length :: "nat \<Rightarrow> string \<Rightarrow> nat" where
  "block_length 0 s = 0"
| "block_length (Suc d) [] = 0"
| "block_length (Suc d) [c] = 1"
| "block_length (Suc d) (a # b # s) =
     (if a = CHR ''/'' \<and> b = CHR ''*'' then 2 + block_length (Suc (Suc d)) s
      else if a = CHR ''*'' \<and> b = CHR ''/'' then 2 + block_length d s
      else 1 + block_length (Suc d) (b # s))"

text \<open>The rest of a literal or a quoted name, with its closing quote.\<close>

fun quoted_length :: "bool \<Rightarrow> char \<Rightarrow> string \<Rightarrow> nat" where
  "quoted_length escapes c [] = 0"
| "quoted_length escapes c [x] = 1"
| "quoted_length escapes c (x # y # s) =
     (if escapes \<and> x = CHR 0x5C then 2 + quoted_length escapes c s
      else if x = c then (if y = c then 2 + quoted_length escapes c s else 1)
      else 1 + quoted_length escapes c (y # s))"

text \<open>\<open>indexOf\<close>.\<close>

fun index_of :: "string \<Rightarrow> string \<Rightarrow> nat option" where
  "index_of d [] = (if d = [] then Some 0 else None)"
| "index_of d (c # s) = (if starts d (c # s) then Some 0 else map_option Suc (index_of d s))"

definition is_quote :: "char \<Rightarrow> bool" where
  "is_quote c \<longleftrightarrow> c = CHR 0x27 \<or> c = CHR 0x22 \<or> c = CHR 0x60"

text \<open>The length of the comment or literal that starts at a place; \<open>None\<close> where none starts.\<close>

definition opaque_length :: "sql_rules \<Rightarrow> string \<Rightarrow> string \<Rightarrow> nat option result" where
  "opaque_length R before rest =
     (if list_ex (\<lambda>p. starts p rest) (dl_lineCommentPrefixes R) then Inr (Some (Suc (length (takeWhile (\<lambda>c. \<not> newline c) rest))))
      else if starts [CHR ''/'', CHR ''*''] rest then Inr (Some (2 + block_length 1 (drop 2 rest)))
      else if is_quote (hd rest) then Inr (Some (Suc (quoted_length (dl_backslashEscapes R before rest) (hd rest) (tl rest))))
      else case dl_dollarQuote R before rest of
          Some d \<Rightarrow> if d = [] then Inr None else (case index_of d (drop (length d) rest) of
              None \<Rightarrow> Inl (PlainError ''Unterminated SQL literal'') | Some n \<Rightarrow> Inr (Some (length d + n + length d)))
        | None \<Rightarrow> Inr None)"

text \<open>The tokens of a query: whether each is a delimiter, and its text.\<close>

function sql_tokens :: "sql_rules \<Rightarrow> string \<Rightarrow> string \<Rightarrow> (bool \<times> string) list result" where
  "sql_tokens R before [] = Inr []"
| "sql_tokens R before (c # s) =
     bindR (opaque_length R before (c # s)) (\<lambda>n.
     let k = (case n of None \<Rightarrow> 1 | Some m \<Rightarrow> max 1 m); t = take k (c # s) in
     bindR (sql_tokens R (rev t @ before) (drop k (c # s))) (\<lambda>ts. Inr ((n = None \<and> c = CHR '';'', t) # ts)))"
  by pat_completeness auto

termination
  by (relation "measure (\<lambda>(R, before, s). length s)") (auto split: option.splits)

definition withoutDelimiter :: "string \<Rightarrow> sql_rules \<Rightarrow> string result" where
  "withoutDelimiter query R =
     bindR (sql_tokens R [] query) (\<lambda>ts. Inr (concat (map snd (filter (\<lambda>t. \<not> fst t) ts))))"

subsection \<open>The dialect\<close>

definition keyCountColumn :: string where
  "keyCountColumn = ''__jitsu_retl_key_count''"

definition validateQuery :: "sql_rules \<Rightarrow> string \<Rightarrow> string result" where
  "validateQuery R query = bindR (validateSelect query (dl_parse R)) (\<lambda>_. withoutDelimiter query R)"

definition column_type :: "warehouse_column list \<Rightarrow> string \<Rightarrow> string" where
  "column_type columns name = (case find (\<lambda>c. wc_name c = name) columns of None \<Rightarrow> [] | Some c \<Rightarrow> wc_type c)"

fun present_names :: "string option \<Rightarrow> string list" where
  "present_names None = []"
| "present_names (Some n) = (if n = [] then [] else [n])"

definition used_names :: "model_definition \<Rightarrow> string list" where
  "used_names m = filter (\<lambda>n. n \<noteq> []) (md_primaryKey m) @ present_names (map_option mc_column (md_cursor m)) @ present_names (md_deleteColumn m)"

definition ordering :: "model_definition \<Rightarrow> string list" where
  "ordering m = (case md_cursor m of None \<Rightarrow> md_primaryKey m | Some c \<Rightarrow> mc_column c # md_primaryKey m)"

fun each :: "('a \<Rightarrow> unit result) \<Rightarrow> 'a list \<Rightarrow> unit result" where
  "each f [] = Inr ()"
| "each f (x # xs) = bindR (f x) (\<lambda>_. each f xs)"

definition bound_names :: "model_definition \<Rightarrow> string list" where
  "bound_names m = (case md_cursor m of None \<Rightarrow> []
     | Some c \<Rightarrow> if mc_lookbackSeconds c \<noteq> None then [mc_column c] else mc_column c # md_primaryKey m)"

definition quoted :: "string \<Rightarrow> string" where
  "quoted s = CHR 0x27 # s @ [CHR 0x27]"

fun cursor_text :: "cursor_type \<Rightarrow> string" where
  "cursor_text TimestampCursor = ''timestamp''"
| "cursor_text NumberCursor = ''number''"
| "cursor_text StringCursor = ''string''"

definition validateColumns :: "sql_rules \<Rightarrow> model_definition \<Rightarrow> warehouse_column list \<Rightarrow> unit result" where
  "validateColumns R m columns = (let names = map wc_name columns in
     bindR (rejectR (\<not> distinct names) ''Query returns duplicate column names; use unique aliases'') (\<lambda>_.
     bindR (rejectR (keyCountColumn \<in> set names) (keyCountColumn @ '' is reserved'')) (\<lambda>_.
     bindR (each (\<lambda>n. rejectR (n \<notin> set names) (''Query must project column '' @ quoted n)) (used_names m)) (\<lambda>_.
     bindR (each (\<lambda>n. rejectR (\<not> dl_supportsPrimaryKeyType R (column_type columns n)) (''Primary-key column '' @ quoted n
        @ '' has unsupported warehouse type '' @ quoted (column_type columns n) @ ''; cast it to a supported scalar type'')) (md_primaryKey m)) (\<lambda>_.
     bindR (each (\<lambda>n. rejectR (\<not> dl_supportsDeleteType R (column_type columns n)) (''Delete column '' @ quoted n
        @ '' has unsupported warehouse type '' @ quoted (column_type columns n)
        @ ''; use a boolean expression or a supported 0/1 column'')) (present_names (md_deleteColumn m))) (\<lambda>_.
     case md_cursor m of None \<Rightarrow> Inr ()
     | Some c \<Rightarrow>
         bindR (rejectR (\<not> dl_supportsCursorType R (mc_type c) (column_type columns (mc_column c))) (''Cursor type ''
            @ quoted (cursor_text (mc_type c)) @ '' does not match warehouse type '' @ quoted (column_type columns (mc_column c)))) (\<lambda>_.
         each (\<lambda>n. bindR (dl_validateCheckpointType R (column_type columns n)) (\<lambda>_. Inr ())) (bound_names m))))))))"

subsection \<open>The query that is sent\<close>

record compiled_query =
  cq_query :: string
  cq_values :: "string list"
  cq_queryParams :: "(string \<times> string) list"

text \<open>Binding the values of a checkpoint, from the index \<open>i\<close> on.\<close>

fun bind_all :: "sql_rules \<Rightarrow> warehouse_column list \<Rightarrow> nat \<Rightarrow> (string \<times> string) list \<Rightarrow> sql_parameters \<Rightarrow> (string list \<times> sql_parameters) result" where
  "bind_all R columns i [] ps = Inr ([], ps)"
| "bind_all R columns i ((name, value) # nvs) ps =
     bindR (dl_bind R value (column_type columns name) i ps) (\<lambda>(t, ps').
     bindR (bind_all R columns (Suc i) nvs ps') (\<lambda>(ts, ps''). Inr (t # ts, ps'')))"

text \<open>The comparisons of the predicate: the columns before the \<open>i\<close>-th are equal and the \<open>i\<close>-th is greater, for some \<open>i\<close>.\<close>

datatype key_test = Same nat | Beyond nat

definition keyset :: "nat \<Rightarrow> key_test list list" where
  "keyset n = map (\<lambda>i. map Same [0..<i] @ [Beyond i]) [0..<n]"

fun test_text :: "(string \<Rightarrow> string) \<Rightarrow> string list \<Rightarrow> string list \<Rightarrow> key_test \<Rightarrow> string" where
  "test_text q order params (Same j) = q (order ! j) @ '' = '' @ params ! j"
| "test_text q order params (Beyond i) = q (order ! i) @ '' > '' @ params ! i"

definition keyset_text :: "(string \<Rightarrow> string) \<Rightarrow> string list \<Rightarrow> string list \<Rightarrow> string" where
  "keyset_text q order params = join '' OR '' (map (\<lambda>cs. ''('' @ join '' AND '' (map (test_text q order params) cs) @ '')'') (keyset (length order)))"

definition where_text :: "sql_rules \<Rightarrow> model_definition \<Rightarrow> model_cursor \<Rightarrow> string list \<Rightarrow> string" where
  "where_text R m c params = (case mc_lookbackSeconds c of
      Some seconds \<Rightarrow> dl_lookbackPredicate R (dl_quoteColumn R (mc_column c)) (hd params) seconds
    | None \<Rightarrow> keyset_text (dl_quoteColumn R) (ordering m) params)"

definition compile_where ::
    "sql_rules \<Rightarrow> model_definition \<Rightarrow> warehouse_column list \<Rightarrow> source_cursor option \<Rightarrow> (string \<times> sql_parameters) result" where
  "compile_where R m columns after = (let empty = \<lparr>sp_values = [], sp_queryParams = []\<rparr> in
     case after of None \<Rightarrow> Inr ([], empty)
     | Some a \<Rightarrow> (case md_cursor m of
          None \<Rightarrow> Inl (PlainError ''Checkpoint does not match model'')
        | Some c \<Rightarrow>
            bindR (rejectR (length (cur_keys a) \<noteq> length (md_primaryKey m)) ''Checkpoint does not match model'') (\<lambda>_.
            bindR (bind_all R columns 0 (zip (bound_names m) (cur_value a # cur_keys a)) empty) (\<lambda>(params, ps).
            Inr (where_text R m c params, ps)))))"

definition model_query :: "sql_rules \<Rightarrow> model_definition \<Rightarrow> string \<Rightarrow> string \<Rightarrow> string" where
  "model_query R m sql cond = (let q = dl_quoteColumn R in
     ''SELECT * FROM (SELECT *, count(*) OVER (PARTITION BY '' @ join '', '' (map q (md_primaryKey m)) @ '') AS '' @ q keyCountColumn
     @ '' FROM ('' @ sql @ CHR 0x0A # '') AS model) AS checked_model'' @ (if cond = [] then [] else '' WHERE '' @ cond)
     @ '' ORDER BY '' @ join '', '' (map (\<lambda>n. q n @ '' ASC'') (ordering m)))"

definition compileModel ::
    "sql_rules \<Rightarrow> model_definition \<Rightarrow> warehouse_column list \<Rightarrow> source_cursor option \<Rightarrow> compiled_query result" where
  "compileModel R m columns after =
     bindR (validateQuery R (md_query m)) (\<lambda>sql.
     bindR (validateColumns R m columns) (\<lambda>_.
     bindR (compile_where R m columns after) (\<lambda>(cond, ps).
     Inr \<lparr>cq_query = model_query R m sql cond, cq_values = sp_values ps, cq_queryParams = sp_queryParams ps\<rparr>)))"

end
