(* ===== verification/WarehouseDialects.thy ===== *)
theory WarehouseDialects
  imports WarehouseSql
begin

text \<open>
  The SQL rules of the three warehouses: \<open>postgres.ts\<close>, \<open>clickhouse.ts\<close> and \<open>bigquery.ts\<close> of \<open>libs/warehouse-query/src\<close>. The
  argument \<open>astify\<close> is the parser of the library, which is given the name of its grammar.
\<close>

subsection \<open>Shared text\<close>

text \<open>\<open>replaceAll\<close> of one character.\<close>

definition replace_char :: "char \<Rightarrow> string \<Rightarrow> string \<Rightarrow> string" where
  "replace_char x r s = concat (map (\<lambda>c. if c = x then r else [c]) s)"

definition words :: "string list \<Rightarrow> pattern" where
  "words ws = one_of (map exactly ws)"

definition no_parameters :: sql_parameters where
  "no_parameters = \<lparr>sp_values = [], sp_queryParams = []\<rparr>"

definition set_param :: "nat \<Rightarrow> string \<Rightarrow> sql_parameters \<Rightarrow> sql_parameters" where
  "set_param i value ps = ps\<lparr>sp_queryParams := AList.update (CHR ''p'' # nat_text i) value (sp_queryParams ps)\<rparr>"

subsection \<open>PostgreSQL\<close>

text \<open>The characters of a name: \<open>[\w$\u0080-\uFFFF]\<close>, and those of the tag of a dollar quote.\<close>

definition tag_char :: "char \<Rightarrow> bool" where
  "tag_char c \<longleftrightarrow> word_char c \<or> 128 \<le> char_code c"

definition name_char :: "char \<Rightarrow> bool" where
  "name_char c \<longleftrightarrow> tag_char c \<or> c = CHR ''$''"

fun postgres_escapes :: "string \<Rightarrow> string \<Rightarrow> bool" where
  "postgres_escapes (e # before) (c # rest) \<longleftrightarrow> c = CHR 0x27 \<and> (e = CHR ''e'' \<or> e = CHR ''E'')
     \<and> (case before of [] \<Rightarrow> True | b # _ \<Rightarrow> \<not> name_char b)"
| "postgres_escapes _ _ \<longleftrightarrow> False"

definition dollar_quote :: "string \<Rightarrow> string \<Rightarrow> string option" where
  "dollar_quote before rest =
     (if rest = [] \<or> hd rest \<noteq> CHR ''$'' \<or> (before \<noteq> [] \<and> name_char (hd before)) then None
      else let tag = takeWhile tag_char (tl rest) in
        if starts ''$'' (drop (length tag) (tl rest)) \<and> (tag = [] \<or> \<not> digit (hd tag)) then Some (''$'' @ tag @ ''$'') else None)"

definition postgres_column :: "string \<Rightarrow> string" where
  "postgres_column name = CHR 0x22 # replace_char (CHR 0x22) [CHR 0x22, CHR 0x22] name @ [CHR 0x22]"

definition postgres_key_types :: "string list" where
  "postgres_key_types = [''16'', ''18'', ''19'', ''20'', ''21'', ''23'', ''25'', ''26'', ''700'', ''701'', ''1042'', ''1043'', ''1082'', ''1083'',
     ''1114'', ''1184'', ''1266'', ''1700'', ''2950'']"

definition postgres_delete_types :: "string list" where
  "postgres_delete_types =
     [''16'', ''18'', ''19'', ''20'', ''21'', ''23'', ''25'', ''26'', ''700'', ''701'', ''1042'', ''1043'', ''1700'']"

fun postgres_cursor_types :: "cursor_type \<Rightarrow> string list" where
  "postgres_cursor_types TimestampCursor = [''1082'', ''1114'', ''1184'']"
| "postgres_cursor_types NumberCursor = [''20'', ''21'', ''23'', ''700'', ''701'', ''1700'']"
| "postgres_cursor_types StringCursor = [''25'', ''1042'', ''1043'', ''2950'']"

definition postgres_bind :: "string \<Rightarrow> string \<Rightarrow> nat \<Rightarrow> sql_parameters \<Rightarrow> (string \<times> sql_parameters) result" where
  "postgres_bind value type i ps = (let ps' = ps\<lparr>sp_values := sp_values ps @ [value]\<rparr> in
     Inr (CHR ''$'' # nat_text (length (sp_values ps')), ps'))"

definition postgres_lookback :: "string \<Rightarrow> string \<Rightarrow> int \<Rightarrow> string" where
  "postgres_lookback column parameter seconds = column @ '' >= ('' @ parameter @ ''::timestamp with time zone - INTERVAL ''
     @ [CHR 0x27] @ int_text seconds @ '' seconds'' @ [CHR 0x27] @ '')''"

definition postgresSql :: "(string \<Rightarrow> string \<Rightarrow> sql_error + json) \<Rightarrow> sql_rules" where
  "postgresSql astify = \<lparr>
     dl_parse = astify ''Postgresql'',
     dl_lineCommentPrefixes = [''--''],
     dl_backslashEscapes = postgres_escapes,
     dl_dollarQuote = dollar_quote,
     dl_quoteColumn = postgres_column,
     dl_supportsPrimaryKeyType = matches (words postgres_key_types),
     dl_supportsDeleteType = matches (words postgres_delete_types),
     dl_supportsCursorType = (\<lambda>cursor. matches (words (postgres_cursor_types cursor))),
     dl_validateCheckpointType = Inr,
     dl_bind = postgres_bind,
     dl_lookbackPredicate = postgres_lookback\<rparr>"

subsection \<open>ClickHouse\<close>

text \<open>\<open>type.replace(/^Wrapper\((.*)\)$/, "$1")\<close>.\<close>

definition unwrap :: "string \<Rightarrow> string \<Rightarrow> string" where
  "unwrap wrapper type = (let inner = butlast (drop (Suc (length wrapper)) type) in
     if starts (wrapper @ ''('') type \<and> length type > Suc (length wrapper) \<and> last type = CHR '')'' \<and> list_all (\<lambda>c. \<not> newline c) inner
     then inner else type)"

definition unwrapLowCardinality :: "string \<Rightarrow> string" where
  "unwrapLowCardinality type = unwrap ''LowCardinality'' type"

abbreviation digits :: pattern where
  "digits \<equiv> repeated (Class digit)"

definition natural :: pattern where
  "natural = Then (Class (\<lambda>c. digit c \<and> c \<noteq> CHR ''0'')) (Many (Class digit))"

definition zone_char :: "char \<Rightarrow> bool" where
  "zone_char c \<longleftrightarrow> letter c \<or> digit c \<or> c \<in> set ''_/+-''"

definition single_quoted :: "pattern \<Rightarrow> pattern" where
  "single_quoted p = in_order [exactly [CHR 0x27], p, exactly [CHR 0x27]]"

definition zone :: pattern where
  "zone = single_quoted (repeated (Class zone_char))"

definition comma :: pattern where
  "comma = Then (exactly '','') (Many (Class space_char))"

definition integer_type :: pattern where
  "integer_type = in_order [maybe (exactly ''U''), exactly ''Int'', words [''8'', ''16'', ''32'', ''64'', ''128'', ''256'']]"

definition float_type :: pattern where
  "float_type = Then (exactly ''Float'') (words [''32'', ''64''])"

definition fixed_type :: pattern where
  "fixed_type = in_order [exactly ''FixedString('', natural, exactly '')'']"

definition datetime_type :: pattern where
  "datetime_type = Then (exactly ''DateTime'') (maybe (in_order [exactly ''('', zone, exactly '')'']))"

definition datetime64_type :: pattern where
  "datetime64_type = in_order [exactly ''DateTime64('', digits, maybe (Then comma zone), exactly '')'']"

definition decimal_type :: pattern where
  "decimal_type = in_order [exactly ''Decimal'', maybe (words [''32'', ''64'', ''128'', ''256'']), exactly ''('', digits, maybe (Then comma digits),
     exactly '')'']"

definition checkpointScalarType :: pattern where
  "checkpointScalarType = one_of [integer_type, float_type, exactly ''String'', fixed_type, exactly ''UUID'', exactly ''Date'', exactly ''Date32'',
     datetime_type, datetime64_type, decimal_type]"

definition scalar_of :: "string \<Rightarrow> string" where
  "scalar_of type = unwrap ''Nullable'' (unwrapLowCardinality type)"

definition checkpointType :: "string \<Rightarrow> string result" where
  "checkpointType type = (if \<not> matches checkpointScalarType (scalar_of type) then Inl (PlainError (''Unsupported checkpoint type: '' @ type))
     else Inr (unwrapLowCardinality type))"

definition clickhouse_column :: "string \<Rightarrow> string" where
  "clickhouse_column name = CHR 0x60 # replace_char (CHR 0x60) [CHR 0x60, CHR 0x60] (replace_char (CHR 0x5C) [CHR 0x5C, CHR 0x5C] name) @ [CHR 0x60]"

definition enum_type :: pattern where
  "enum_type = in_order [exactly ''Enum'', words [''8'', ''16''], exactly ''('', Many (Class (\<lambda>c. True)), exactly '')'']"

definition any_zone :: pattern where
  "any_zone = single_quoted (repeated (Class (\<lambda>c. c \<noteq> CHR 0x27)))"

definition clickhouse_key :: "string \<Rightarrow> bool" where
  "clickhouse_key type \<longleftrightarrow> matches checkpointScalarType (scalar_of type) \<or>
     matches (one_of [exactly ''Bool'', exactly ''IPv4'', exactly ''IPv6'', enum_type, in_order [exactly ''DateTime('', any_zone, exactly '')''],
       in_order [exactly ''DateTime64('', digits, comma, any_zone, exactly '')'']]) (scalar_of type)"

fun clickhouse_cursor_type :: "cursor_type \<Rightarrow> pattern" where
  "clickhouse_cursor_type TimestampCursor = one_of [exactly ''Date'', exactly ''Date32'',
     Then (exactly ''DateTime'') (maybe (in_order [exactly ''('', Many any_char, exactly '')''])),
     in_order [exactly ''DateTime64('', Many any_char, exactly '')'']]"
| "clickhouse_cursor_type NumberCursor = one_of [in_order [maybe (exactly ''U''), exactly ''Int'', digits], Then (exactly ''Float'') digits,
     in_order [exactly ''Decimal'', Many (Class word_char), exactly ''('', Many any_char, exactly '')'']]"
| "clickhouse_cursor_type StringCursor = one_of [exactly ''String'', fixed_type, exactly ''UUID'']"

definition clickhouse_cursor :: "cursor_type \<Rightarrow> string \<Rightarrow> bool" where
  "clickhouse_cursor cursor type = matches (clickhouse_cursor_type cursor) (scalar_of type)"

definition clickhouse_delete :: "string \<Rightarrow> bool" where
  "clickhouse_delete type \<longleftrightarrow>
     matches (one_of [exactly ''Bool'', integer_type, float_type, decimal_type, exactly ''String'', exactly ''FixedString(1)'', enum_type]) (scalar_of type)
     \<or> type = ''Nullable(Nothing)''"

definition clickhouse_bind :: "string \<Rightarrow> string \<Rightarrow> nat \<Rightarrow> sql_parameters \<Rightarrow> (string \<times> sql_parameters) result" where
  "clickhouse_bind value type i ps = bindR (checkpointType type) (\<lambda>parameterType.
     Inr (''{p'' @ nat_text i @ '': '' @ parameterType @ ''}'', set_param i value ps))"

definition clickhouse_lookback :: "string \<Rightarrow> string \<Rightarrow> int \<Rightarrow> string" where
  "clickhouse_lookback column parameter seconds = column @ '' >= subtractSeconds('' @ parameter @ '', '' @ int_text seconds @ '')''"

definition clickhouseSql :: "(string \<Rightarrow> string \<Rightarrow> sql_error + json) \<Rightarrow> sql_rules" where
  "clickhouseSql astify = \<lparr>
     dl_parse = astify ''MySQL'',
     dl_lineCommentPrefixes = [''--'', ''#''],
     dl_backslashEscapes = (\<lambda>_ _. True),
     dl_dollarQuote = (\<lambda>_ _. None),
     dl_quoteColumn = clickhouse_column,
     dl_supportsPrimaryKeyType = clickhouse_key,
     dl_supportsDeleteType = clickhouse_delete,
     dl_supportsCursorType = clickhouse_cursor,
     dl_validateCheckpointType = checkpointType,
     dl_bind = clickhouse_bind,
     dl_lookbackPredicate = clickhouse_lookback\<rparr>"

subsection \<open>BigQuery\<close>

definition scalarType :: pattern where
  "scalarType = words [''STRING'', ''INTEGER'', ''INT64'', ''FLOAT'', ''FLOAT64'', ''NUMERIC'', ''BIGNUMERIC'', ''BOOLEAN'', ''BOOL'', ''DATE'', ''TIME'',
     ''DATETIME'', ''TIMESTAMP'']"

definition parameterType :: "string \<Rightarrow> string result" where
  "parameterType type = (if \<not> matches scalarType type then Inl (PlainError (''Unsupported BigQuery checkpoint type: '' @ type))
     else Inr (if type = ''INTEGER'' then ''INT64'' else if type = ''FLOAT'' then ''FLOAT64'' else if type = ''BOOLEAN'' then ''BOOL'' else type))"

definition bigquery_column :: "string \<Rightarrow> string" where
  "bigquery_column name = CHR 0x60 # replace_char (CHR 0x60) [CHR 0x5C, CHR 0x60] (replace_char (CHR 0x5C) [CHR 0x5C, CHR 0x5C] name) @ [CHR 0x60]"

fun bigquery_cursor_types :: "cursor_type \<Rightarrow> string list" where
  "bigquery_cursor_types TimestampCursor = [''DATE'', ''DATETIME'', ''TIMESTAMP'']"
| "bigquery_cursor_types NumberCursor = [''INTEGER'', ''INT64'', ''FLOAT'', ''FLOAT64'', ''NUMERIC'', ''BIGNUMERIC'']"
| "bigquery_cursor_types StringCursor = [''STRING'']"

definition bigquery_bind :: "string \<Rightarrow> string \<Rightarrow> nat \<Rightarrow> sql_parameters \<Rightarrow> (string \<times> sql_parameters) result" where
  "bigquery_bind value type i ps = bindR (parameterType type) (\<lambda>t.
     Inr (''CAST(@p'' @ nat_text i @ '' AS '' @ t @ '')'', set_param i value ps))"

definition bigquery_lookback :: "string \<Rightarrow> string \<Rightarrow> int \<Rightarrow> string" where
  "bigquery_lookback column parameter seconds =
     ''TIMESTAMP('' @ column @ '') >= TIMESTAMP_SUB(TIMESTAMP('' @ parameter @ ''), INTERVAL '' @ int_text seconds @ '' SECOND)''"

definition bigquerySql :: "(string \<Rightarrow> string \<Rightarrow> sql_error + json) \<Rightarrow> sql_rules" where
  "bigquerySql astify = \<lparr>
     dl_parse = astify ''BigQuery'',
     dl_lineCommentPrefixes = [''--'', ''#''],
     dl_backslashEscapes = (\<lambda>_ _. True),
     dl_dollarQuote = (\<lambda>_ _. None),
     dl_quoteColumn = bigquery_column,
     dl_supportsPrimaryKeyType = (\<lambda>type. matches scalarType type \<and> \<not> matches (words [''FLOAT'', ''FLOAT64'']) type),
     dl_supportsDeleteType = matches (words [''STRING'', ''INTEGER'', ''INT64'', ''FLOAT'', ''FLOAT64'', ''NUMERIC'', ''BIGNUMERIC'', ''BOOLEAN'', ''BOOL'']),
     dl_supportsCursorType = (\<lambda>cursor. matches (words (bigquery_cursor_types cursor))),
     dl_validateCheckpointType = parameterType,
     dl_bind = bigquery_bind,
     dl_lookbackPredicate = bigquery_lookback\<rparr>"

subsection \<open>The choice of the warehouse\<close>

definition unsupported_warehouse :: exn where
  "unsupported_warehouse = PlainError ''This warehouse connection is not supported for models yet''"

definition getWarehouseSqlDialect :: "(string \<Rightarrow> string \<Rightarrow> sql_error + json) \<Rightarrow> string \<Rightarrow> sql_rules result" where
  "getWarehouseSqlDialect astify destinationType =
     (if destinationType = ''postgres'' then Inr (postgresSql astify)
      else if destinationType = ''clickhouse'' then Inr (clickhouseSql astify)
      else if destinationType = ''bigquery'' then Inr (bigquerySql astify)
      else Inl unsupported_warehouse)"

definition supportsWarehouseReader :: "json \<Rightarrow> bool" where
  "supportsWarehouseReader config = (let type = member config ''destinationType'' in
     if truthy (member config ''provisioned'') then member config ''provisioned'' = JBool True \<and> type = JStr ''clickhouse''
     else type = JStr ''bigquery''
       \<or> (type = JStr ''postgres'' \<and> (\<not> truthy (member config ''authenticationMethod'') \<or> member config ''authenticationMethod'' = JStr ''password''))
       \<or> (type = JStr ''clickhouse'' \<and> member config ''protocol'' \<in> {JStr ''http'', JStr ''https''}))"

end
