(* ===== verification/WarehouseFacts.thy ===== *)
theory WarehouseFacts
  imports WarehouseDialects
begin

text \<open>
  What the queries of a model guarantee: the tokens of a query, names of columns as single tokens, the types a checkpoint is bound
  with, the read-only policy and the predicate of a checkpoint.
\<close>

subsection \<open>Tokens\<close>

lemma sql_tokens_concat: "sql_tokens R before s = Inr ts \<Longrightarrow> concat (map snd ts) = s"
  by (induction R before s arbitrary: ts rule: sql_tokens.induct) (auto simp: bindR_def Let_def split: sum.splits)

lemma sql_tokens_delimiter: "sql_tokens R before s = Inr ts \<Longrightarrow> t \<in> set ts \<Longrightarrow> fst t \<Longrightarrow> snd t = '';''"
proof (induction R before s arbitrary: ts rule: sql_tokens.induct)
  case (2 R before c s)
  obtain n ts' where n: "opaque_length R before (c # s) = Inr n"
    and rest: "sql_tokens R (rev (take (case n of None \<Rightarrow> 1 | Some m \<Rightarrow> max 1 m) (c # s)) @ before)
       (drop (case n of None \<Rightarrow> 1 | Some m \<Rightarrow> max 1 m) (c # s)) = Inr ts'"
    and ts: "ts = (n = None \<and> c = CHR '';'', take (case n of None \<Rightarrow> 1 | Some m \<Rightarrow> max 1 m) (c # s)) # ts'"
    using 2(2) by (auto simp: bindR_def Let_def split: sum.splits)
  show ?case
  proof (cases "t \<in> set ts'")
    case True
    with 2(1) [OF refl refl rest] 2(4) show ?thesis by simp
  next
    case False
    with ts 2(3,4) show ?thesis by auto
  qed
qed simp

lemma quoted_length_doubled:
  assumes "rest = [] \<or> hd rest \<noteq> q"
  shows "quoted_length False q (replace_char q [q, q] n @ q # rest) = Suc (length (replace_char q [q, q] n))"
proof (induction n)
  case Nil
  with assms show ?case by (cases rest) (simp_all add: replace_char_def)
next
  case (Cons c n)
  obtain x xs where "replace_char q [q, q] n @ q # rest = x # xs" by (cases "replace_char q [q, q] n @ q # rest") auto
  with Cons show ?case by (simp add: replace_char_def)
qed

definition escaped_by :: "string \<Rightarrow> string \<Rightarrow> string" where
  "escaped_by e n = replace_char (CHR 0x60) e (replace_char (CHR 0x5C) [CHR 0x5C, CHR 0x5C] n)"

lemma escaped_by_simps [simp]:
  "escaped_by e [] = []"
  "escaped_by e (c # n) = (if c = CHR 0x5C then [CHR 0x5C, CHR 0x5C] else if c = CHR 0x60 then e else [c]) @ escaped_by e n"
  by (simp_all add: escaped_by_def replace_char_def)

lemma quoted_length_escaped:
  assumes "rest = [] \<or> hd rest \<noteq> CHR 0x60" and e: "e = [CHR 0x60, CHR 0x60] \<or> e = [CHR 0x5C, CHR 0x60]"
  shows "quoted_length True (CHR 0x60) (escaped_by e n @ CHR 0x60 # rest) = Suc (length (escaped_by e n))"
proof (induction n)
  case Nil
  with assms show ?case by (cases rest) simp_all
next
  case (Cons c n)
  obtain x xs where "escaped_by e n @ CHR 0x60 # rest = x # xs" by (cases "escaped_by e n @ CHR 0x60 # rest") auto
  with Cons e show ?case by auto
qed

lemma column_forms:
  "postgres_column n = CHR 0x22 # replace_char (CHR 0x22) [CHR 0x22, CHR 0x22] n @ [CHR 0x22]"
  "clickhouse_column n = CHR 0x60 # escaped_by [CHR 0x60, CHR 0x60] n @ [CHR 0x60]"
  "bigquery_column n = CHR 0x60 # escaped_by [CHR 0x5C, CHR 0x60] n @ [CHR 0x60]"
  by (simp_all add: postgres_column_def clickhouse_column_def bigquery_column_def escaped_by_def)

lemma doubled_inj: "replace_char q [q, q] n = replace_char q [q, q] n' \<Longrightarrow> n = n'"
proof (induction n arbitrary: n')
  case Nil
  then show ?case by (cases n') (auto simp: replace_char_def split: if_splits)
next
  case (Cons c n)
  then show ?case by (cases n') (auto simp: replace_char_def split: if_splits)
qed

lemma escaped_inj:
  assumes e: "e = [CHR 0x60, CHR 0x60] \<or> e = [CHR 0x5C, CHR 0x60]"
  shows "escaped_by e n = escaped_by e n' \<Longrightarrow> n = n'"
proof (induction n arbitrary: n')
  case Nil
  with e show ?case by (cases n') (auto split: if_splits)
next
  case (Cons c n)
  with e show ?case by (cases n') (auto split: if_splits)
qed

text \<open>The dialects of the three warehouses.\<close>

definition dialects :: "(string \<Rightarrow> string \<Rightarrow> sql_error + json) \<Rightarrow> sql_rules list" where
  "dialects astify = [postgresSql astify, clickhouseSql astify, bigquerySql astify]"

text \<open>The text behind a name does not start with its quote.\<close>

definition ends_name :: "string \<Rightarrow> string \<Rightarrow> bool" where
  "ends_name name rest \<longleftrightarrow> rest = [] \<or> hd rest \<noteq> last name"

lemma double_quote_plain [simp]: "\<not> postgres_escapes before (CHR 0x22 # rest)"
  by (cases before) simp_all

lemma postgres_token:
  "rest = [] \<or> hd rest \<noteq> CHR 0x22 \<Longrightarrow>
   opaque_length (postgresSql astify) before (postgres_column n @ rest) = Inr (Some (length (postgres_column n)))"
  by (simp add: postgresSql_def opaque_length_def column_forms starts_def is_quote_def quoted_length_doubled)

lemma clickhouse_token:
  "rest = [] \<or> hd rest \<noteq> CHR 0x60 \<Longrightarrow>
   opaque_length (clickhouseSql astify) before (clickhouse_column n @ rest) = Inr (Some (length (clickhouse_column n)))"
  by (simp add: clickhouseSql_def opaque_length_def column_forms starts_def is_quote_def quoted_length_escaped)

lemma bigquery_token:
  "rest = [] \<or> hd rest \<noteq> CHR 0x60 \<Longrightarrow>
   opaque_length (bigquerySql astify) before (bigquery_column n @ rest) = Inr (Some (length (bigquery_column n)))"
  by (simp add: bigquerySql_def opaque_length_def column_forms starts_def is_quote_def quoted_length_escaped)

lemma column_of_dialect [simp]:
  "dl_quoteColumn (postgresSql astify) = postgres_column" "dl_quoteColumn (clickhouseSql astify) = clickhouse_column"
  "dl_quoteColumn (bigquerySql astify) = bigquery_column"
  by (simp_all add: postgresSql_def clickhouseSql_def bigquerySql_def)

lemma last_of_column [simp]:
  "last (postgres_column n) = CHR 0x22" "last (clickhouse_column n) = CHR 0x60" "last (bigquery_column n) = CHR 0x60"
  by (simp_all add: column_forms)

lemma column_token:
  assumes "R \<in> set (dialects astify)" and "ends_name (dl_quoteColumn R n) rest"
  shows "opaque_length R before (dl_quoteColumn R n @ rest) = Inr (Some (length (dl_quoteColumn R n)))"
proof -
  consider "R = postgresSql astify" | "R = clickhouseSql astify" | "R = bigquerySql astify" using assms by (auto simp: dialects_def)
  then show ?thesis using assms(2) by cases (simp_all add: ends_name_def postgres_token clickhouse_token bigquery_token)
qed

lemma column_injective:
  assumes "R \<in> set (dialects astify)"
  shows "dl_quoteColumn R n = dl_quoteColumn R n' \<longleftrightarrow> n = n'"
proof -
  consider "R = postgresSql astify" | "R = clickhouseSql astify" | "R = bigquerySql astify" using assms by (auto simp: dialects_def)
  then show ?thesis by cases (auto simp: column_forms dest: doubled_inj escaped_inj [rotated])
qed

lemma token_step:
  assumes "opaque_length R before (t @ rest) = Inr (Some (length t))" and "t \<noteq> []"
  shows "sql_tokens R before (t @ rest) = bindR (sql_tokens R (rev t @ before) rest) (\<lambda>ts. Inr ((False, t) # ts))"
proof -
  obtain c s where "t = c # s" using assms(2) by (cases t) auto
  with assms(1) show ?thesis by (simp add: bindR_def split: sum.split)
qed

subsection \<open>The types of bound values\<close>

definition plain_char :: "char \<Rightarrow> bool" where
  "plain_char c \<longleftrightarrow> word_char c \<or> space_char c \<or> c \<in> set ''(),/+-'' \<or> c = CHR 0x27"

lemma plain_classes [simp]:
  "digit c \<Longrightarrow> plain_char c" "zone_char c \<Longrightarrow> plain_char c" "space_char c \<Longrightarrow> plain_char c" "letter c \<Longrightarrow> plain_char c"
  by (auto simp: plain_char_def zone_char_def word_char_def)

lemma plain_literals [simp]:
  "plain_char (CHR 0x27)" "plain_char (CHR ''('')" "plain_char (CHR '')'')" "plain_char (CHR '','')"
  by (simp_all add: plain_char_def)

lemmas type_patterns = integer_type_def float_type_def fixed_type_def datetime_type_def datetime64_type_def decimal_type_def natural_def zone_def
  single_quoted_def comma_def words_def

lemma scalar_types_plain: "made_of plain_char checkpointScalarType"
  by (simp add: checkpointScalarType_def type_patterns) (simp add: plain_char_def word_char_def letter_def digit_def char_code_def)

lemma starts_append: "starts p s \<Longrightarrow> s = p @ drop (length p) s"
  by (metis append_take_drop_id starts_def)

lemma unwrap_cases: "unwrap w t = t \<or> t = w @ ''('' @ unwrap w t @ '')''"
proof (cases "unwrap w t = t")
  case False
  define inner where "inner = drop (Suc (length w)) t"
  have *: "starts (w @ ''('') t" "Suc (length w) < length t" "last t = CHR '')''" "unwrap w t = butlast inner"
    using False by (auto simp: unwrap_def Let_def inner_def split: if_splits)
  then have "inner \<noteq> []" "last inner = CHR '')''" by (auto simp: inner_def last_drop)
  then have "inner = unwrap w t @ '')''" using * by (metis append_butlast_last_id)
  with starts_append [OF *(1)] show ?thesis by (simp add: inner_def)
qed simp

lemma checkpointType_plain: "checkpointType type = Inr t \<Longrightarrow> list_all plain_char t"
proof -
  assume ok: "checkpointType type = Inr t"
  then have t: "t = unwrapLowCardinality type" and "matches checkpointScalarType (scalar_of type)"
    by (auto simp: checkpointType_def split: if_splits)
  then have plain: "list_all plain_char (unwrap ''Nullable'' t)" using matches_made_of scalar_types_plain by (fastforce simp: scalar_of_def)
  have *: "list_all plain_char ''Nullable''" by (simp add: plain_char_def word_char_def letter_def char_code_def)
  show ?thesis
  proof (cases "unwrap ''Nullable'' t = t")
    case True
    with plain show ?thesis by simp
  next
    case False
    then have "t = ''Nullable'' @ ''('' @ unwrap ''Nullable'' t @ '')''" using unwrap_cases by blast
    moreover have "list_all plain_char (''Nullable'' @ ''('' @ unwrap ''Nullable'' t @ '')'')"
      using * plain unfolding list_all_append by simp
    ultimately show ?thesis by metis
  qed
qed

subsection \<open>The read-only policy\<close>

text \<open>The values inside a syntax tree, the tree itself included.\<close>

inductive inside :: "json \<Rightarrow> json \<Rightarrow> bool" where
  itself: "inside v v"
| member_of_object: "(k, v) \<in> set kvs \<Longrightarrow> inside w v \<Longrightarrow> inside w (JObj kvs)"
| member_of_array: "v \<in> set vs \<Longrightarrow> inside w v \<Longrightarrow> inside w (JArr vs)"

lemma writes_object: "writes v \<Longrightarrow> \<exists>kvs. v = JObj kvs"
  by (cases v) (auto simp: writes_def)

lemma read_only_inside: "inside w v \<Longrightarrow> read_only v \<Longrightarrow> \<not> writes w"
proof (induction rule: inside.induct)
  case (itself v)
  then show ?case using writes_object by (cases v) auto
qed (auto simp: list_all_iff)

lemma nothing_written: "(\<forall>w. inside w v \<longrightarrow> \<not> writes w) \<Longrightarrow> read_only v"
proof (induction v rule: read_only.induct)
  case (1 kvs)
  then show ?case by (fastforce simp: list_all_iff intro: inside.intros)
next
  case (2 vs)
  then show ?case by (fastforce simp: list_all_iff intro: inside.intros)
qed simp_all

lemma read_only_iff: "read_only v \<longleftrightarrow> (\<forall>w. inside w v \<longrightarrow> \<not> writes w)"
  using read_only_inside nothing_written by blast

lemma rejectR_ok [simp]: "rejectR b msg = Inr u \<longleftrightarrow> \<not> b"
  by (simp add: rejectR_def)

lemma validateSelect_ok:
  "validateSelect q parse = Inr u \<longleftrightarrow> \<not> list_all space_char q \<and> length q \<le> 100000 \<and> CHR 0x00 \<notin> set q
     \<and> (\<exists>ast v. parse q = Inr ast \<and> statements ast = [v] \<and> member v ''type'' = JStr ''select'' \<and> read_only v)"
  by (auto simp: validateSelect_def bindR_Inr not_less length_Suc_conv split: sum.split)

subsection \<open>The predicate of a checkpoint\<close>

text \<open>
  What the comparisons say of the values of a row in the order of the columns, and the order of rows they stand for. The order of
  the \<open>i\<close>-th column is \<open>below i\<close>: how the warehouse compares two values that it writes as these texts.
\<close>

fun test_holds :: "(nat \<Rightarrow> string \<Rightarrow> string \<Rightarrow> bool) \<Rightarrow> string list \<Rightarrow> string list \<Rightarrow> key_test \<Rightarrow> bool" where
  "test_holds below params xs (Same j) \<longleftrightarrow> xs ! j = params ! j"
| "test_holds below params xs (Beyond i) \<longleftrightarrow> below i (params ! i) (xs ! i)"

definition selected :: "(nat \<Rightarrow> string \<Rightarrow> string \<Rightarrow> bool) \<Rightarrow> string list \<Rightarrow> string list \<Rightarrow> bool" where
  "selected below params xs = list_ex (list_all (test_holds below params xs)) (keyset (length xs))"

fun behind :: "(nat \<Rightarrow> string \<Rightarrow> string \<Rightarrow> bool) \<Rightarrow> string list \<Rightarrow> string list \<Rightarrow> bool" where
  "behind below (p # ps) (v # vs) \<longleftrightarrow> below 0 p v \<or> (p = v \<and> behind (\<lambda>i. below (Suc i)) ps vs)"
| "behind below _ _ \<longleftrightarrow> False"

lemma selected_iff:
  "selected below params xs \<longleftrightarrow> (\<exists>i < length xs. (\<forall>j < i. xs ! j = params ! j) \<and> below i (params ! i) (xs ! i))"
  by (auto simp: selected_def keyset_def list_ex_iff list_all_iff)

lemma ex_less_Suc_shift: "(\<exists>i < Suc n. P i) \<longleftrightarrow> P 0 \<or> (\<exists>i < n. P (Suc i))"
  using All_less_Suc2 [of n "\<lambda>i. \<not> P i"] by blast

lemma behind_iff:
  "length params = length xs \<Longrightarrow>
   behind below params xs \<longleftrightarrow> (\<exists>i < length xs. (\<forall>j < i. xs ! j = params ! j) \<and> below i (params ! i) (xs ! i))"
proof (induction below params xs rule: behind.induct)
  case (1 below p ps v vs)
  then have "behind below (p # ps) (v # vs) \<longleftrightarrow> below 0 p v \<or> (p = v \<and> (\<exists>i < length vs. (\<forall>j < i. vs ! j = ps ! j) \<and> below (Suc i) (ps ! i) (vs ! i)))"
    by simp
  also have "\<dots> \<longleftrightarrow> (\<exists>i < Suc (length vs). (\<forall>j < i. (v # vs) ! j = (p # ps) ! j) \<and> below i ((p # ps) ! i) ((v # vs) ! i))"
    by (auto simp: All_less_Suc2 ex_less_Suc_shift)
  finally show ?case by simp
qed simp_all

lemma selected_behind: "length params = length xs \<Longrightarrow> selected below params xs = behind below params xs"
  by (simp add: selected_iff behind_iff)

text \<open>The orders of the columns are strict and total.\<close>

definition column_orders :: "(nat \<Rightarrow> string \<Rightarrow> string \<Rightarrow> bool) \<Rightarrow> bool" where
  "column_orders below \<longleftrightarrow> (\<forall>i a. \<not> below i a a) \<and> (\<forall>i a b c. below i a b \<longrightarrow> below i b c \<longrightarrow> below i a c) \<and> (\<forall>i a b. below i a b \<or> a = b \<or> below i b a)"

lemma column_orders_tail: "column_orders below \<Longrightarrow> column_orders (\<lambda>i. below (Suc i))"
  by (simp add: column_orders_def)

lemma behind_irrefl: "column_orders below \<Longrightarrow> \<not> behind below a a"
  by (induction a arbitrary: below) (auto simp: column_orders_tail, simp add: column_orders_def)

lemma behind_total: "column_orders below \<Longrightarrow> length a = length b \<Longrightarrow> behind below a b \<or> a = b \<or> behind below b a"
proof (induction below a b rule: behind.induct)
  case (1 below p ps v vs)
  then have "behind (\<lambda>i. below (Suc i)) ps vs \<or> ps = vs \<or> behind (\<lambda>i. below (Suc i)) vs ps" by (simp add: column_orders_tail)
  moreover have "below 0 p v \<or> p = v \<or> below 0 v p" using 1 by (simp add: column_orders_def)
  ultimately show ?case by auto
qed auto

lemma behind_trans: "column_orders below \<Longrightarrow> behind below a b \<Longrightarrow> behind below b c \<Longrightarrow> behind below a c"
proof (induction below a b arbitrary: c rule: behind.induct)
  case (1 below p ps v vs)
  then obtain w ws where c: "c = w # ws" by (cases c) auto
  have "below 0 p v \<Longrightarrow> below 0 v w \<Longrightarrow> below 0 p w" using 1(2) unfolding column_orders_def by blast
  with 1 c column_orders_tail show ?case by auto
qed auto

end
