(* ===== verification/WarehouseReader.thy ===== *)
theory WarehouseReader
  imports WarehouseFacts Execute
begin

text \<open>
  Reading a warehouse: the schema of a model (\<open>schema.ts\<close>), the records of a query and the preview (\<open>reader.ts\<close>), the temporary file
  of a ClickHouse extraction (\<open>stream-spool.ts\<close>) and the streams of \<open>postgres.ts\<close> and \<open>clickhouse.ts\<close>. The database clients are
  arguments: what they answer to the text of a query.

  A value of a record is a JSON value, or a number that is not finite, by its text; every other value (\<open>undefined\<close>, a date, a buffer)
  is \<open>Plain JLossy\<close>. What the abort signal says when it is looked at for the \<open>i\<close>-th time is \<open>sig i\<close>.
\<close>

subsection \<open>The schema of a model\<close>

definition column_ok :: "string \<Rightarrow> bool" where
  "column_ok s \<longleftrightarrow> 1 \<le> length s \<and> length s \<le> 256 \<and> CHR 0x00 \<notin> set s"

definition model_cursor_ok :: "model_cursor \<Rightarrow> bool" where
  "model_cursor_ok c \<longleftrightarrow> column_ok (mc_column c) \<and> (case mc_lookbackSeconds c of None \<Rightarrow> True
     | Some n \<Rightarrow> 0 \<le> n \<and> n \<le> 604800 \<and> mc_type c = TimestampCursor)"

definition model_ok :: "model_definition \<Rightarrow> bool" where
  "model_ok m \<longleftrightarrow> md_warehouseId m \<noteq> [] \<and> trim (md_query m) = md_query m \<and> 1 \<le> length (md_query m) \<and> length (md_query m) \<le> 100000
     \<and> list_all column_ok (md_primaryKey m) \<and> 1 \<le> length (md_primaryKey m) \<and> length (md_primaryKey m) \<le> 8 \<and> distinct (md_primaryKey m)
     \<and> pred_option model_cursor_ok (md_cursor m) \<and> pred_option column_ok (md_deleteColumn m) \<and> 1 \<le> md_pageSize m \<and> md_pageSize m \<le> 10000"

definition validateReverseSyncModel :: "model_definition \<Rightarrow> run_mode \<Rightarrow> unit result" where
  "validateReverseSyncModel m mode = rejectR (mode = ModeMirror \<and> md_cursor m \<noteq> None) ''Mirror requires a model without an incremental cursor''"

subsection \<open>Records\<close>

datatype cell = Plain json | NonFinite string

type_synonym raw_row = "(string \<times> cell) list"

definition cell_of :: "raw_row \<Rightarrow> string \<Rightarrow> cell" where
  "cell_of row name = (case map_of row name of None \<Rightarrow> Plain JLossy | Some c \<Rightarrow> c)"

text \<open>\<open>String(value)\<close>.\<close>

fun js_text :: "json \<Rightarrow> string" where
  "js_text JNull = ''null''"
| "js_text (JBool b) = (if b then ''true'' else ''false'')"
| "js_text (JNum t) = t"
| "js_text (JStr s) = s"
| "js_text (JArr vs) = join '','' (map (\<lambda>v. if v = JNull \<or> v = JLossy then [] else js_text v) vs)"
| "js_text (JObj kvs) = ''[object Object]''"
| "js_text JLossy = ''undefined''"

fun cell_text :: "cell \<Rightarrow> string" where
  "cell_text (Plain v) = js_text v"
| "cell_text (NonFinite t) = t"

fun cursor_scalar :: "cell \<Rightarrow> bool" where
  "cursor_scalar (Plain (JStr s)) = True"
| "cursor_scalar (Plain (JNum t)) = True"
| "cursor_scalar (NonFinite t) = True"
| "cursor_scalar _ = False"

fun key_scalar :: "cell \<Rightarrow> bool" where
  "key_scalar (Plain (JBool b)) = True"
| "key_scalar c = cursor_scalar c"

definition decodeDelete :: "cell \<Rightarrow> bool result" where
  "decodeDelete c =
     (if c \<in> {Plain (JBool True), Plain (JNum ''1''), Plain (JStr ''1'')} then Inr True
      else if c \<in> {Plain (JBool False), Plain (JNum ''0''), Plain (JStr ''0''), Plain JNull} then Inr False
      else Inl (PlainError ''Delete column must contain booleans or numeric 0/1 values''))"

fun plain_cell :: "cell \<Rightarrow> json" where
  "plain_cell (Plain v) = v"
| "plain_cell (NonFinite t) = JLossy"

definition decode_key :: "model_definition \<Rightarrow> raw_row \<Rightarrow> string list result" where
  "decode_key m row = mapR (\<lambda>name.
     bindR (rejectR (\<not> key_scalar (cell_of row name)) (''Primary-key column '' @ quoted name @ '' must contain non-null scalar values'')) (\<lambda>_.
     Inr (cell_text (cell_of row name)))) (md_primaryKey m)"

definition decode_checkpoint :: "model_definition \<Rightarrow> raw_row \<Rightarrow> string list \<Rightarrow> source_cursor option result" where
  "decode_checkpoint m row key = (case md_cursor m of
      None \<Rightarrow> Inr None
    | Some c \<Rightarrow>
        bindR (rejectR (\<not> cursor_scalar (cell_of row (mc_column c))) ''Cursor column must contain non-null scalar values'') (\<lambda>_.
        Inr (Some \<lparr>cur_value = cell_text (cell_of row (mc_column c)), cur_keys = key\<rparr>)))"

definition decode_deleted :: "model_definition \<Rightarrow> raw_row \<Rightarrow> bool result" where
  "decode_deleted m row = (case present_names (md_deleteColumn m) of [] \<Rightarrow> Inr False | name # _ \<Rightarrow> decodeDelete (cell_of row name))"

definition decodeRecord :: "model_definition \<Rightarrow> raw_row \<Rightarrow> warehouse_row result" where
  "decodeRecord m record =
     bindR (rejectR (cell_text (cell_of record keyCountColumn) \<noteq> ''1'') ''Model query contains duplicate primary keys'') (\<lambda>_.
     let row = filter (\<lambda>kv. fst kv \<noteq> keyCountColumn) record in
     bindR (decode_key m row) (\<lambda>key.
     bindR (decode_checkpoint m row key) (\<lambda>checkpoint.
     bindR (decode_deleted m row) (\<lambda>deleted.
     Inr \<lparr>wr_row = map (\<lambda>kv. (fst kv, plain_cell (snd kv))) row, wr_deleted = deleted, wr_checkpoint = checkpoint\<rparr>))))"

subsection \<open>The preview\<close>

definition previewRowLimit :: nat where
  "previewRowLimit = 100"

definition previewByteLimit :: nat where
  "previewByteLimit = 2000000"

text \<open>What \<open>JSON.stringify\<close> writes: members without a text are left out, elements without one are \<open>null\<close>.\<close>

fun written :: "json \<Rightarrow> json" where
  "written (JArr vs) = JArr (map (\<lambda>v. if v = JLossy then JNull else written v) vs)"
| "written (JObj kvs) = JObj (map (\<lambda>kv. (fst kv, written (snd kv))) (filter (\<lambda>kv. snd kv \<noteq> JLossy) kvs))"
| "written v = v"

fun written_cell :: "cell \<Rightarrow> json" where
  "written_cell (Plain v) = v"
| "written_cell (NonFinite t) = JNull"

definition preview_bytes :: "raw_row list \<Rightarrow> nat" where
  "preview_bytes rows = byteLength (json_text (written (JArr (map (\<lambda>row. JObj (map (\<lambda>kv. (fst kv, written_cell (snd kv))) row)) rows))))"

record preview_result =
  pv_columns :: "warehouse_column list"
  pv_rows :: "raw_row list"
  pv_truncated :: bool

definition boundedPreview :: "warehouse_column list \<Rightarrow> raw_row list \<Rightarrow> preview_result result" where
  "boundedPreview columns rows =
     bindR (rejectR (preview_bytes rows > previewByteLimit) ''Preview exceeds 2 MB; select fewer or smaller columns'') (\<lambda>_.
     Inr \<lparr>pv_columns = columns, pv_rows = take previewRowLimit rows, pv_truncated = (length rows > previewRowLimit)\<rparr>)"

subsection \<open>The stream of PostgreSQL\<close>

type_synonym signal = "nat \<Rightarrow> bool"

text \<open>The records of a page; the second part is the error that ends the stream, or the next look at the signal.\<close>

fun decode_rows :: "signal \<Rightarrow> nat \<Rightarrow> model_definition \<Rightarrow> raw_row list \<Rightarrow> warehouse_row list \<times> nat result" where
  "decode_rows sig i m [] = ([], Inr i)"
| "decode_rows sig i m (r # rs) =
     (if sig i then ([], Inl AbortError)
      else case decodeRecord m r of
          Inl e \<Rightarrow> ([], Inl e)
        | Inr w \<Rightarrow> (case decode_rows sig (Suc i) m rs of (ws, next) \<Rightarrow> (w # ws, next)))"

text \<open>The pages the cursor answers, an empty page or their end being the end of the rows.\<close>

fun read_pages :: "signal \<Rightarrow> nat \<Rightarrow> model_definition \<Rightarrow> raw_row list result list \<Rightarrow> warehouse_row list \<times> unit result" where
  "read_pages sig i m [] = ([], if sig i then Inl AbortError else Inr ())"
| "read_pages sig i m (p # ps) =
     (if sig i then ([], Inl AbortError)
      else case p of
          Inl e \<Rightarrow> ([], Inl e)
        | Inr rows \<Rightarrow>
            if rows = [] then ([], Inr ())
            else case decode_rows sig (Suc i) m rows of
                (ws, Inl e) \<Rightarrow> (ws, Inl e)
              | (ws, Inr j) \<Rightarrow> (case read_pages sig j m ps of (ws', ending) \<Rightarrow> (ws @ ws', ending)))"

definition probe_query :: "string \<Rightarrow> string" where
  "probe_query sql = ''SELECT * FROM ('' @ sql @ CHR 0x0A # '') AS model LIMIT 0''"

definition look :: "signal \<Rightarrow> nat \<Rightarrow> unit result" where
  "look sig i = (if sig i then Inl AbortError else Inr ())"

definition postgres_stream :: "(string \<Rightarrow> string \<Rightarrow> sql_error + json) \<Rightarrow> unit result \<Rightarrow> (string \<Rightarrow> warehouse_column list result)
    \<Rightarrow> (compiled_query \<Rightarrow> raw_row list result list) \<Rightarrow> signal \<Rightarrow> model_definition \<Rightarrow> source_cursor option \<Rightarrow> warehouse_row list \<times> unit result" where
  "postgres_stream astify connection probe cursor sig m after =
     (case bindR (validateQuery (postgresSql astify) (md_query m)) (\<lambda>sql.
        bindR (look sig 0) (\<lambda>_.
        bindR connection (\<lambda>_.
        bindR (look sig 1) (\<lambda>_.
        bindR (probe (probe_query sql)) (\<lambda>columns.
        compileModel (postgresSql astify) m columns after))))) of
        Inl e \<Rightarrow> ([], Inl e)
      | Inr compiled \<Rightarrow> read_pages sig 2 m (cursor compiled))"

subsection \<open>The temporary file\<close>

definition streamSpoolBytes :: nat where
  "streamSpoolBytes = 512 * 1024 * 1024"

definition spool_error :: exn where
  "spool_error = PlainError ''Warehouse extraction exceeds the 512 MiB temporary-file budget; select fewer columns or split the model''"

text \<open>Writing: the text that is still buffered and the text of the file. The result is the file and the next look at the signal.\<close>

fun spool_write :: "signal \<Rightarrow> nat \<Rightarrow> nat \<Rightarrow> nat \<Rightarrow> string \<Rightarrow> string \<Rightarrow> string list \<Rightarrow> unit result \<Rightarrow> (string \<times> nat) result" where
  "spool_write sig maxBytes i bytes buffer out [] ending = bindR ending (\<lambda>_. Inr (out @ buffer, i))"
| "spool_write sig maxBytes i bytes buffer out (row # rows) ending =
     (let line = row @ [CHR 0x0A]; bytes' = bytes + byteLength line; buffer' = buffer @ line in
      if sig i then Inl AbortError
      else if bytes' > maxBytes then Inl spool_error
      else if length buffer' \<ge> 64 * 1024 then spool_write sig maxBytes (Suc i) bytes' [] (out @ buffer') rows ending
      else spool_write sig maxBytes (Suc i) bytes' buffer' out rows ending)"

text \<open>\<open>readline\<close> with \<open>crlfDelay: Infinity\<close>: the lines of a text, a last one without an end included.\<close>

fun read_lines :: "string \<Rightarrow> string \<Rightarrow> string list" where
  "read_lines line [] = (if line = [] then [] else [rev line])"
| "read_lines line (c # s) =
     (if c = CHR 0x0A then rev line # read_lines [] s
      else if c = CHR 0x0D then (case s of
          d # s' \<Rightarrow> if d = CHR 0x0A then rev line # read_lines [] s' else rev line # read_lines [] s
        | [] \<Rightarrow> [rev line])
      else read_lines (c # line) s)"

fun spool_read :: "signal \<Rightarrow> nat \<Rightarrow> (string \<Rightarrow> 'a result) \<Rightarrow> string list \<Rightarrow> 'a list \<times> unit result" where
  "spool_read sig i parse [] = ([], if sig i then Inl AbortError else Inr ())"
| "spool_read sig i parse (line # lines) =
     (if sig i then ([], Inl AbortError)
      else case parse line of
          Inl e \<Rightarrow> ([], Inl e)
        | Inr v \<Rightarrow> (case spool_read sig (Suc i) parse lines of (vs, ending) \<Rightarrow> (v # vs, ending)))"

definition spoolJsonRows :: "signal \<Rightarrow> nat \<Rightarrow> (string \<Rightarrow> 'a result) \<Rightarrow> string list \<times> unit result \<Rightarrow> 'a list \<times> unit result" where
  "spoolJsonRows sig maxBytes parse source =
     (if sig 0 then ([], Inl AbortError)
      else case spool_write sig maxBytes 1 0 [] [] (fst source) (snd source) of
          Inl e \<Rightarrow> ([], Inl e)
        | Inr (out, i) \<Rightarrow> if sig i then ([], Inl AbortError) else spool_read sig (Suc i) parse (read_lines [] out))"

subsection \<open>The stream of ClickHouse\<close>

fun decode_stream :: "model_definition \<Rightarrow> raw_row list \<Rightarrow> unit result \<Rightarrow> warehouse_row list \<times> unit result" where
  "decode_stream m [] ending = ([], ending)"
| "decode_stream m (r # rs) ending = (case decodeRecord m r of
      Inl e \<Rightarrow> ([], Inl e)
    | Inr w \<Rightarrow> (case decode_stream m rs ending of (ws, e) \<Rightarrow> (w # ws, e)))"

definition clickhouse_stream :: "(string \<Rightarrow> string \<Rightarrow> sql_error + json) \<Rightarrow> (string \<Rightarrow> warehouse_column list result)
    \<Rightarrow> (compiled_query \<Rightarrow> string list \<times> unit result) \<Rightarrow> (string \<Rightarrow> raw_row result) \<Rightarrow> signal \<Rightarrow> model_definition \<Rightarrow> source_cursor option
    \<Rightarrow> warehouse_row list \<times> unit result" where
  "clickhouse_stream astify probe query parse sig m after =
     (case bindR (validateQuery (clickhouseSql astify) (md_query m)) (\<lambda>sql.
        bindR (look sig 0) (\<lambda>_.
        bindR (probe (probe_query sql)) (\<lambda>columns.
        bindR (compileModel (clickhouseSql astify) m columns after) (\<lambda>compiled.
        bindR (look sig 1) (\<lambda>_. Inr compiled))))) of
        Inl e \<Rightarrow> ([], Inl e)
      | Inr compiled \<Rightarrow> (case spoolJsonRows (\<lambda>i. sig (2 + i)) streamSpoolBytes parse (query compiled) of (rows, ending) \<Rightarrow> decode_stream m rows ending))"

end
