(* ===== verification/WarehouseResume.thy ===== *)
theory WarehouseResume
  imports WarehouseReader
begin

text \<open>
  Resuming an extraction: the rows of a query with a checkpoint are those behind the row of the checkpoint; and the temporary file of
  an extraction gives back the rows that were written to it.
\<close>

subsection \<open>Records\<close>

definition text_of :: "raw_row \<Rightarrow> string \<Rightarrow> string" where
  "text_of row name = cell_text (cell_of row name)"

definition key_texts :: "model_definition \<Rightarrow> raw_row \<Rightarrow> string list" where
  "key_texts m row = map (text_of row) (md_primaryKey m)"

definition order_texts :: "model_definition \<Rightarrow> raw_row \<Rightarrow> string list" where
  "order_texts m row = map (text_of row) (ordering m)"

lemma cell_of_filter [simp]: "name \<noteq> k \<Longrightarrow> cell_of (filter (\<lambda>kv. fst kv \<noteq> k) row) name = cell_of row name"
  by (induction row) (auto simp: cell_of_def)

lemma mapR_checked:
  "mapR (\<lambda>x. bindR (rejectR (b x) (msg x)) (\<lambda>_. Inr (f x))) xs = Inr ys \<longleftrightarrow> (\<forall>x \<in> set xs. \<not> b x) \<and> ys = map f xs"
  by (induction xs arbitrary: ys) (auto simp: bindR_Inr)

lemma decode_key_ok:
  assumes "keyCountColumn \<notin> set (md_primaryKey m)"
  shows "decode_key m (filter (\<lambda>kv. fst kv \<noteq> keyCountColumn) record) = Inr key \<longleftrightarrow>
    (\<forall>name \<in> set (md_primaryKey m). key_scalar (cell_of record name)) \<and> key = key_texts m record"
proof -
  have "name \<noteq> keyCountColumn" if "name \<in> set (md_primaryKey m)" for name using assms that by auto
  then show ?thesis by (auto simp: decode_key_def mapR_checked key_texts_def text_of_def)
qed

lemma decodeRecord_checkpoint:
  assumes "decodeRecord m record = Inr w" and "md_cursor m = Some c" and "keyCountColumn \<notin> set (ordering m)"
  shows "\<exists>p. wr_checkpoint w = Some p \<and> cur_value p # cur_keys p = order_texts m record"
  using assms by (auto simp: decodeRecord_def bindR_Inr Let_def decode_key_ok decode_checkpoint_def order_texts_def key_texts_def text_of_def ordering_def)

lemma decodeRecord_single: "decodeRecord m record = Inr w \<Longrightarrow> text_of record keyCountColumn = ''1''"
  by (auto simp: decodeRecord_def bindR_Inr text_of_def)

lemma decode_stream_ok: "decode_stream m rs (Inr ()) = (ws, Inr ()) \<longleftrightarrow> list_all2 (\<lambda>r w. decodeRecord m r = Inr w) rs ws"
proof (induction rs arbitrary: ws)
  case (Cons r rs)
  obtain us e where "decode_stream m rs (Inr ()) = (us, e)" by fastforce
  moreover from this Cons have "us = vs \<and> e = Inr () \<longleftrightarrow> list_all2 (\<lambda>r w. decodeRecord m r = Inr w) rs vs" for vs by simp
  ultimately show ?case by (cases ws) (auto split: sum.splits)
qed auto

subsection \<open>Sorted rows\<close>

lemma sorted_wrt_unique:
  "sorted_wrt Q xs \<Longrightarrow> sorted_wrt Q ys \<Longrightarrow> mset xs = mset ys \<Longrightarrow> (\<And>x y. x \<in> set xs \<Longrightarrow> y \<in> set xs \<Longrightarrow> Q x y \<Longrightarrow> Q y x \<Longrightarrow> x = y) \<Longrightarrow> xs = ys"
proof (induction xs arbitrary: ys)
  case (Cons x xs)
  then obtain y ys' where ys: "ys = y # ys'" by (cases ys) auto
  have sets: "set (x # xs) = set ys" using Cons.prems(3) by (metis set_mset_mset)
  have "x = y"
  proof (rule ccontr)
    assume "x \<noteq> y"
    then have "y \<in> set xs" "x \<in> set ys'" using sets ys by auto
    then have "Q x y" "Q y x" using Cons.prems(1,2) ys by auto
    with \<open>x \<noteq> y\<close> \<open>y \<in> set xs\<close> Cons.prems(4) show False by auto
  qed
  with Cons ys show ?case by auto
qed simp

lemma sorted_wrt_later:
  assumes "sorted_wrt P xs" and "k < length xs" and "\<And>x. \<not> P x x" and "\<And>x y. P x y \<Longrightarrow> \<not> P y x"
  shows "filter (P (xs ! k)) xs = drop (Suc k) xs"
proof -
  have xs: "xs = take k xs @ xs ! k # drop (Suc k) xs" using assms(2) by (rule id_take_nth_drop)
  have sorted: "sorted_wrt P (take k xs @ xs ! k # drop (Suc k) xs)" using assms(1) xs by metis
  have "filter (P (xs ! k)) (take k xs) = []" using sorted assms(4) by (auto simp: sorted_wrt_append filter_empty_conv)
  moreover have "filter (P (xs ! k)) (drop (Suc k) xs) = drop (Suc k) xs" using sorted by (simp add: sorted_wrt_append)
  moreover have "filter (P (xs ! k)) xs = filter (P (xs ! k)) (take k xs @ xs ! k # drop (Suc k) xs)" using xs by metis
  ultimately show ?thesis using assms(3) by simp
qed

lemma single_keys: "(\<forall>r \<in> set rows. length (filter (\<lambda>s. f s = f r) rows) = 1) \<Longrightarrow> distinct (map f rows)"
proof (induction rows)
  case (Cons a rows)
  have "filter (\<lambda>s. f s = f a) rows = []" using Cons.prems by simp
  then have new: "f a \<notin> f ` set rows" by (auto simp: filter_empty_conv)
  have "length (filter (\<lambda>s. f s = f r) rows) = 1" if "r \<in> set rows" for r
    using Cons.prems that new by (metis (mono_tags, lifting) filter.simps(2) imageI list.set_intros(2))
  with Cons.IH new show ?case by simp
qed simp

subsection \<open>The answers of a warehouse\<close>

text \<open>
  The column that counts the rows with the key of a row, and the answer to a query: the selected rows in the order of the columns.
\<close>

definition counted :: "model_definition \<Rightarrow> raw_row list \<Rightarrow> bool" where
  "counted m rows \<longleftrightarrow> (\<forall>r \<in> set rows. text_of r keyCountColumn = nat_text (length (filter (\<lambda>s. key_texts m s = key_texts m r) rows)))"

definition answers :: "(nat \<Rightarrow> string \<Rightarrow> string \<Rightarrow> bool) \<Rightarrow> model_definition \<Rightarrow> raw_row list \<Rightarrow> source_cursor option \<Rightarrow> raw_row list \<Rightarrow> bool" where
  "answers below m rows after xs \<longleftrightarrow>
     mset xs = mset (filter (\<lambda>r. case after of None \<Rightarrow> True | Some p \<Rightarrow> selected below (cur_value p # cur_keys p) (order_texts m r)) rows)
     \<and> sorted_wrt (\<lambda>x y. \<not> behind below (order_texts m y) (order_texts m x)) xs"

lemma nat_text_one: "nat_text n = ''1'' \<Longrightarrow> n = 1"
proof -
  assume "nat_text n = ''1''"
  moreover have "nat_text 1 = ''1''" by code_simp
  ultimately show ?thesis by (metis digits_value_nat_text)
qed

lemma decoded_keys_distinct:
  assumes "counted m rows" and "mset xs = mset rows" and "list_all2 (\<lambda>r w. decodeRecord m r = Inr w) xs ws"
  shows "distinct (map (key_texts m) xs)"
proof -
  have "text_of r keyCountColumn = ''1''" if "r \<in> set xs" for r
    using assms(3) that by (auto simp: list_all2_conv_all_nth in_set_conv_nth intro: decodeRecord_single)
  moreover have "set xs = set rows" using assms(2) by (metis set_mset_mset)
  ultimately have "distinct (map (key_texts m) rows)"
    using assms(1) by (intro single_keys) (metis counted_def nat_text_one)
  moreover have "mset (map (key_texts m) xs) = mset (map (key_texts m) rows)" using assms(2) by simp
  ultimately show ?thesis by (metis mset_eq_imp_distinct_iff)
qed

lemma order_texts_distinct:
  assumes "distinct (map (key_texts m) xs)"
  shows "distinct (map (order_texts m) xs)"
proof -
  define n where "n = length (ordering m) - length (md_primaryKey m)"
  have "key_texts m = drop n \<circ> order_texts m"
    by (auto simp: n_def key_texts_def order_texts_def ordering_def split: option.split)
  with assms have "distinct (map (drop n) (map (order_texts m) xs))" by simp
  then show ?thesis by (metis distinct_map)
qed

lemma rows_strictly_sorted:
  assumes "column_orders below" and "distinct (map (order_texts m) xs)"
    and "sorted_wrt (\<lambda>x y. \<not> behind below (order_texts m y) (order_texts m x)) xs"
  shows "sorted_wrt (\<lambda>x y. behind below (order_texts m x) (order_texts m y)) xs"
  unfolding sorted_wrt_iff_nth_less
proof (intro allI impI)
  fix i j assume "i < j" "j < length xs"
  then have "order_texts m (xs ! i) \<noteq> order_texts m (xs ! j)" using assms(2) by (simp add: distinct_conv_nth)
  moreover have "\<not> behind below (order_texts m (xs ! j)) (order_texts m (xs ! i))"
    using assms(3) \<open>i < j\<close> \<open>j < length xs\<close> by (simp add: sorted_wrt_iff_nth_less)
  ultimately show "behind below (order_texts m (xs ! i)) (order_texts m (xs ! j))"
    using behind_total [OF assms(1)] by (metis length_map order_texts_def)
qed

lemma rest_of_answer:
  assumes orders: "column_orders below" and "distinct (map (order_texts m) xs)" and full: "answers below m rows None xs" and k: "k < length xs"
    and rest: "answers below m rows (Some p) ys" and p: "cur_value p # cur_keys p = order_texts m (xs ! k)"
  shows "ys = drop (Suc k) xs"
proof -
  let ?Q = "\<lambda>x y. \<not> behind below (order_texts m y) (order_texts m x)"
  let ?P = "\<lambda>x y. behind below (order_texts m x) (order_texts m y)"
  have sorted: "sorted_wrt ?Q xs" and rows: "mset xs = mset rows" using full by (simp_all add: answers_def)
  have "filter (?P (xs ! k)) xs = drop (Suc k) xs"
    using rows_strictly_sorted [OF orders assms(2) sorted] k behind_irrefl [OF orders] behind_trans [OF orders]
    by (intro sorted_wrt_later) blast+
  moreover have "selected below (order_texts m (xs ! k)) (order_texts m r) = ?P (xs ! k) r" for r
    by (rule selected_behind) (simp add: order_texts_def)
  ultimately have same: "mset ys = mset (drop (Suc k) xs)" using rest p rows by (simp add: answers_def) (metis mset_filter)
  have "sorted_wrt ?Q ys" using rest by (simp add: answers_def)
  moreover have "sorted_wrt ?Q (drop (Suc k) xs)" using sorted by (rule sorted_wrt_drop)
  moreover note same
  moreover have "x = y" if "x \<in> set ys" "y \<in> set ys" "?Q x y" "?Q y x" for x y
  proof -
    have "x \<in> set xs" "y \<in> set xs" using that(1,2) same by (metis in_set_dropD set_mset_mset)+
    moreover have "order_texts m x = order_texts m y" using behind_total [OF orders] that(3,4) by (metis length_map order_texts_def)
    ultimately show ?thesis using assms(2) by (simp add: distinct_map inj_on_def)
  qed
  ultimately show ?thesis by (rule sorted_wrt_unique)
qed

lemma each_ok: "each f xs = Inr () \<longleftrightarrow> (\<forall>x \<in> set xs. f x = Inr ())"
  by (induction xs) (auto simp: bindR_Inr)

lemma validateColumns_ok:
  assumes "validateColumns R m columns = Inr u"
  shows "distinct (map wc_name columns)" and "keyCountColumn \<notin> wc_name ` set columns" and "set (used_names m) \<subseteq> wc_name ` set columns"
  using assms by (auto simp: validateColumns_def Let_def bindR_Inr each_ok subset_iff)

lemma compiled_columns:
  assumes "compileModel R m columns after = Inr q"
  shows "keyCountColumn \<notin> set (ordering m)"
proof
  assume "keyCountColumn \<in> set (ordering m)"
  then have "keyCountColumn \<in> set (used_names m)"
    by (auto simp: ordering_def used_names_def keyCountColumn_def split: option.splits)
  moreover obtain u where "validateColumns R m columns = Inr u" using assms by (auto simp: compileModel_def bindR_Inr)
  ultimately show False using validateColumns_ok(2,3) [of R m columns u] by auto
qed

lemma resumed_rows:
  assumes orders: "column_orders below" and "compileModel R m columns (Some p) = Inr q" and "md_cursor m = Some c"
    and count: "counted m rows" and full: "answers below m rows None xs" and decoded: "decode_stream m xs (Inr ()) = (ws, Inr ())"
    and k: "k < length ws" "wr_checkpoint (ws ! k) = Some p" and rest: "answers below m rows (Some p) ys"
  shows "decode_stream m ys (Inr ()) = (drop (Suc k) ws, Inr ())"
proof -
  have rows: "list_all2 (\<lambda>r w. decodeRecord m r = Inr w) xs ws" using decoded by (simp only: decode_stream_ok)
  have "keyCountColumn \<notin> set (ordering m)" using assms(2) by (rule compiled_columns)
  then have "cur_value p # cur_keys p = order_texts m (xs ! k)"
    using decodeRecord_checkpoint [of m "xs ! k" "ws ! k" c] assms(3) k rows by (auto simp: list_all2_conv_all_nth)
  moreover have "distinct (map (order_texts m) xs)"
    using decoded_keys_distinct [OF count _ rows] order_texts_distinct full by (simp add: answers_def)
  moreover have "k < length xs" using k rows by (simp add: list_all2_lengthD)
  ultimately have "ys = drop (Suc k) xs" using rest_of_answer [OF orders _ full _ rest] by blast
  with rows show ?thesis by (simp add: decode_stream_ok list_all2_dropI)
qed

subsection \<open>The temporary file\<close>

definition line_bytes :: "string list \<Rightarrow> nat" where
  "line_bytes rows = sum_list (map (\<lambda>row. Suc (byteLength row)) rows)"

lemma line_end_bytes [simp]: "char_bytes (CHR 0x0A) = 1"
  by (simp add: char_bytes_def)

lemma spool_write_ok:
  "(\<And>j. \<not> sig j) \<Longrightarrow> bytes + line_bytes rows \<le> maxBytes \<Longrightarrow>
   spool_write sig maxBytes i bytes buffer out rows (Inr ()) = Inr (out @ buffer @ concat (map (\<lambda>row. row @ [CHR 0x0A]) rows), i + length rows)"
  by (induction rows arbitrary: i bytes buffer out) (auto simp: line_bytes_def Let_def bindR_def)

lemma spool_write_full:
  "(\<And>j. \<not> sig j) \<Longrightarrow> bytes \<le> maxBytes \<Longrightarrow> maxBytes < bytes + line_bytes rows \<Longrightarrow>
   spool_write sig maxBytes i bytes buffer out rows ending = Inl spool_error"
  by (induction rows arbitrary: i bytes buffer out) (auto simp: line_bytes_def Let_def)

lemma read_lines_row: "list_all (\<lambda>c. \<not> newline c) row \<Longrightarrow> read_lines acc (row @ CHR 0x0A # s) = (rev acc @ row) # read_lines [] s"
  by (induction row arbitrary: acc) (auto simp: newline_def char_code_def)

lemma read_lines_rows:
  "list_all (list_all (\<lambda>c. \<not> newline c)) rows \<Longrightarrow> read_lines [] (concat (map (\<lambda>row. row @ [CHR 0x0A]) rows)) = rows"
  by (induction rows) (auto simp: read_lines_row)

lemma spool_read_ok: "(\<And>j. \<not> sig j) \<Longrightarrow> mapR parse rows = Inr vs \<Longrightarrow> spool_read sig i parse rows = (vs, Inr ())"
  by (induction rows arbitrary: i vs) (auto simp: bindR_Inr)

lemma spool_returns:
  assumes "\<And>j. \<not> sig j" and "list_all (list_all (\<lambda>c. \<not> newline c)) rows" and "line_bytes rows \<le> maxBytes" and "mapR parse rows = Inr vs"
  shows "spoolJsonRows sig maxBytes parse (rows, Inr ()) = (vs, Inr ())"
  using assms by (simp add: spoolJsonRows_def spool_write_ok read_lines_rows spool_read_ok)

lemma spool_overflows:
  assumes "\<And>j. \<not> sig j" and "maxBytes < line_bytes rows"
  shows "spoolJsonRows sig maxBytes parse (rows, ending) = ([], Inl spool_error)"
  using assms by (simp add: spoolJsonRows_def spool_write_full)

subsection \<open>Bound values\<close>

text \<open>The text that stands for a bound value depends on the type, the index and the number of values bound before.\<close>

definition binds_by_place :: "sql_rules \<Rightarrow> bool" where
  "binds_by_place R \<longleftrightarrow> (\<forall>v v' type i ps ps' t qs. length (sp_values ps) = length (sp_values ps') \<longrightarrow> dl_bind R v type i ps = Inr (t, qs) \<longrightarrow>
     (\<exists>qs'. dl_bind R v' type i ps' = Inr (t, qs') \<and> length (sp_values qs) = length (sp_values qs')))"

lemma set_param_values [simp]: "sp_values (set_param i v ps) = sp_values ps"
  by (simp add: set_param_def)

lemma dialects_bind_by_place: "R \<in> set (dialects astify) \<Longrightarrow> binds_by_place R"
  by (auto simp: dialects_def binds_by_place_def postgresSql_def clickhouseSql_def bigquerySql_def postgres_bind_def clickhouse_bind_def
      bigquery_bind_def bindR_Inr Let_def)

lemma bind_all_by_place:
  assumes R: "binds_by_place R" and "map fst nvs = map fst nvs'" and "length (sp_values ps) = length (sp_values ps')"
    and "bind_all R columns i nvs ps = Inr (ts, qs)"
  shows "\<exists>qs'. bind_all R columns i nvs' ps' = Inr (ts, qs')"
  using assms(2-)
proof (induction nvs arbitrary: nvs' i ps ps' ts qs)
  case (Cons nv nvs)
  then obtain n v v' rest where nv: "nv = (n, v)" "nvs' = (n, v') # rest" "map fst nvs = map fst rest" by (cases nv; cases nvs') auto
  with Cons.prems obtain t ps1 ts' where first: "dl_bind R v (column_type columns n) i ps = Inr (t, ps1)"
    and "bind_all R columns (Suc i) nvs ps1 = Inr (ts', qs)" and ts: "ts = t # ts'"
    by (auto simp: bindR_Inr split: prod.splits)
  moreover obtain ps2 where "dl_bind R v' (column_type columns n) i ps' = Inr (t, ps2)" "length (sp_values ps1) = length (sp_values ps2)"
    using R first Cons.prems(2) unfolding binds_by_place_def by metis
  ultimately show ?case using Cons.IH [of rest ps1 ps2 "Suc i" ts' qs] nv by (auto simp: bindR_def)
qed auto

lemma compile_where_by_place:
  assumes "binds_by_place R" and "length (cur_keys a) = length (cur_keys b)" and "compile_where R m columns (Some a) = Inr (cond, ps)"
  shows "\<exists>ps'. compile_where R m columns (Some b) = Inr (cond, ps')"
proof -
  have names: "map fst (zip (bound_names m) (cur_value a # cur_keys a)) = map fst (zip (bound_names m) (cur_value b # cur_keys b))"
    using assms(2) by (simp add: map_fst_zip_take)
  show ?thesis using assms(3) bind_all_by_place [OF assms(1) names refl] assms(2)
    by (fastforce simp: compile_where_def Let_def bindR_Inr split: option.splits)
qed

lemma compiled_by_place:
  assumes "binds_by_place R" and "length (cur_keys a) = length (cur_keys b)" and "compileModel R m columns (Some a) = Inr q"
  shows "\<exists>q'. compileModel R m columns (Some b) = Inr q' \<and> cq_query q' = cq_query q"
  using assms(3) compile_where_by_place [OF assms(1,2)] by (fastforce simp: compileModel_def bindR_Inr split: prod.splits)

subsection \<open>The stream of PostgreSQL\<close>

abbreviation unaborted :: signal where
  "unaborted \<equiv> \<lambda>_. False"

lemma decode_rows_stream:
  "decode_stream m (rs @ rest) ending = (case decode_rows unaborted i m rs of
     (ws, Inl e) \<Rightarrow> (ws, Inl e) | (ws, Inr j) \<Rightarrow> (case decode_stream m rest ending of (ws', e) \<Rightarrow> (ws @ ws', e)))"
proof (induction rs arbitrary: i)
  case (Cons r rs)
  show ?case
    by (cases "decodeRecord m r"; cases "decode_rows unaborted (Suc i) m rs"; cases "snd (decode_rows unaborted (Suc i) m rs)")
      (auto simp: Cons [of "Suc i"] split: prod.splits)
qed simp

lemma read_pages_stream: "[] \<notin> set pages \<Longrightarrow> read_pages unaborted i m (map Inr pages) = decode_stream m (concat pages) (Inr ())"
proof (induction pages arbitrary: i)
  case (Cons p pages)
  then show ?case
    by (cases "decode_rows unaborted (Suc i) m p"; cases "snd (decode_rows unaborted (Suc i) m p)")
      (auto simp: decode_rows_stream [where i = "Suc i"] split: prod.splits)
qed simp

text \<open>A cursor answers a query of the model with the pages of its answer.\<close>

definition cursor_answers :: "(nat \<Rightarrow> string \<Rightarrow> string \<Rightarrow> bool) \<Rightarrow> sql_rules \<Rightarrow> model_definition \<Rightarrow> warehouse_column list \<Rightarrow> raw_row list
    \<Rightarrow> (compiled_query \<Rightarrow> raw_row list result list) \<Rightarrow> source_cursor option \<Rightarrow> bool" where
  "cursor_answers below R m columns rows cursor after \<longleftrightarrow> (\<forall>q. compileModel R m columns after = Inr q \<longrightarrow>
     (\<exists>pages. cursor q = map Inr pages \<and> [] \<notin> set pages \<and> answers below m rows after (concat pages)))"

lemma postgres_binds: "\<exists>ts qs. bind_all (postgresSql astify) columns i nvs ps = Inr (ts, qs)"
proof (induction nvs arbitrary: i ps)
  case (Cons nv nvs)
  obtain n v where "nv = (n, v)" by (cases nv)
  moreover obtain t qs where "dl_bind (postgresSql astify) v (column_type columns n) i ps = Inr (t, qs)"
    by (simp add: postgresSql_def postgres_bind_def Let_def)
  moreover from Cons obtain ts qs' where "bind_all (postgresSql astify) columns (Suc i) nvs qs = Inr (ts, qs')" by blast
  ultimately show ?case by (simp add: bindR_def)
qed simp

lemma postgres_values: "bind_all (postgresSql astify) columns i nvs ps = Inr (ts, qs) \<Longrightarrow> sp_values qs = sp_values ps @ map snd nvs"
  by (induction nvs arbitrary: i ps ts qs) (auto simp: postgresSql_def postgres_bind_def bindR_Inr Let_def split: prod.splits)

lemma postgres_compiled_values:
  assumes "compileModel (postgresSql astify) m columns (Some p) = Inr q"
  shows "cq_values q = map snd (zip (bound_names m) (cur_value p # cur_keys p))"
  using assms by (auto simp: compileModel_def compile_where_def Let_def bindR_Inr dest!: postgres_values split: option.splits prod.splits)

lemma postgres_compiles:
  assumes "compileModel (postgresSql astify) m columns None = Inr q" and "md_cursor m = Some c" and "length (cur_keys p) = length (md_primaryKey m)"
  shows "\<exists>q'. compileModel (postgresSql astify) m columns (Some p) = Inr q'"
proof -
  obtain ts qs where "bind_all (postgresSql astify) columns 0 (zip (bound_names m) (cur_value p # cur_keys p)) \<lparr>sp_values = [], sp_queryParams = []\<rparr>
      = Inr (ts, qs)" using postgres_binds by blast
  with assms show ?thesis by (auto simp: compileModel_def compile_where_def Let_def bindR_Inr)
qed

lemma postgres_resumes:
  assumes orders: "column_orders below" and cursor: "md_cursor m = Some c" and count: "counted m rows"
    and cols: "\<And>sql. probe (probe_query sql) = Inr columns"
    and full: "cursor_answers below (postgresSql astify) m columns rows query None"
    and rest: "cursor_answers below (postgresSql astify) m columns rows query (Some p)"
    and read: "postgres_stream astify (Inr ()) probe query unaborted m None = (ws, Inr ())"
    and k: "k < length ws" "wr_checkpoint (ws ! k) = Some p"
  shows "postgres_stream astify (Inr ()) probe query unaborted m (Some p) = (drop (Suc k) ws, Inr ())"
proof -
  obtain sql q where sql: "validateQuery (postgresSql astify) (md_query m) = Inr sql"
    and q: "compileModel (postgresSql astify) m columns None = Inr q" and pages: "read_pages unaborted 2 m (query q) = (ws, Inr ())"
    using read by (auto simp: postgres_stream_def look_def bindR_def cols split: sum.splits)
  from full q obtain ps where ps: "query q = map Inr ps" "[] \<notin> set ps" "answers below m rows None (concat ps)" by (auto simp: cursor_answers_def)
  have ws: "decode_stream m (concat ps) (Inr ()) = (ws, Inr ())" using pages ps by (simp add: read_pages_stream)
  then have "list_all2 (\<lambda>r w. decodeRecord m r = Inr w) (concat ps) ws" by (simp only: decode_stream_ok)
  then have "decodeRecord m (concat ps ! k) = Inr (ws ! k)" using k by (simp add: list_all2_conv_all_nth)
  then have "cur_value p # cur_keys p = order_texts m (concat ps ! k)"
    using decodeRecord_checkpoint [OF _ cursor compiled_columns [OF q]] k by fastforce
  then have "length (cur_keys p) = length (md_primaryKey m)" using cursor by (simp add: order_texts_def ordering_def)
  from postgres_compiles [OF q cursor this] obtain q' where q': "compileModel (postgresSql astify) m columns (Some p) = Inr q'" by blast
  with rest obtain ps' where ps': "query q' = map Inr ps'" "[] \<notin> set ps'" "answers below m rows (Some p) (concat ps')"
    by (auto simp: cursor_answers_def)
  have "decode_stream m (concat ps') (Inr ()) = (drop (Suc k) ws, Inr ())"
    by (rule resumed_rows [OF orders q' cursor count ps(3) ws k ps'(3)])
  with sql q' ps' show ?thesis by (simp add: postgres_stream_def look_def bindR_def cols read_pages_stream)
qed

end
