(* ===== verification/WarehouseExamples.thy ===== *)
theory WarehouseExamples
  imports WarehouseResume
begin

text \<open>A concrete model with its warehouse, for the witnesses.\<close>

subsection \<open>A model and its rows\<close>

definition select_parser :: "string \<Rightarrow> string \<Rightarrow> sql_error + json" where
  "select_parser grammar query = Inr (JArr [JObj [(''type'', JStr ''select''), (''columns'', JArr [JObj [(''type'', JStr ''expr'')]])]])"

definition people_model :: model_definition where
  "people_model = \<lparr>md_warehouseId = ''w'', md_query = ''SELECT at, id FROM p;'', md_primaryKey = [''id''],
     md_cursor = Some \<lparr>mc_column = ''at'', mc_type = StringCursor, mc_lookbackSeconds = None\<rparr>, md_deleteColumn = None, md_pageSize = 10\<rparr>"

definition people_columns :: "warehouse_column list" where
  "people_columns = [\<lparr>wc_name = ''at'', wc_type = ''25''\<rparr>, \<lparr>wc_name = ''id'', wc_type = ''20''\<rparr>]"

definition person :: "string \<Rightarrow> string \<Rightarrow> raw_row" where
  "person time key = [(''at'', Plain (JStr time)), (''id'', Plain (JStr key)), (keyCountColumn, Plain (JStr ''1''))]"

definition people :: "raw_row list" where
  "people = [person ''a'' ''1'', person ''a'' ''2'', person ''b'' ''0'']"

text \<open>The warehouse: texts in their usual order; the cursor answers with the selected rows on one page.\<close>

definition text_order :: "nat \<Rightarrow> string \<Rightarrow> string \<Rightarrow> bool" where
  "text_order i a b \<longleftrightarrow> a < b"

definition people_cursor :: "compiled_query \<Rightarrow> raw_row list result list" where
  "people_cursor q = [Inr (if cq_values q = [] then people else drop 1 people)]"

definition first_checkpoint :: source_cursor where
  "first_checkpoint = \<lparr>cur_value = ''a'', cur_keys = [''1'']\<rparr>"

lemma text_order_ok: "column_orders text_order"
  by (auto simp: column_orders_def text_order_def)

lemma people_texts: "order_texts people_model (person t k) = [t, k]" "key_texts people_model (person t k) = [k]"
  by (simp_all add: order_texts_def key_texts_def people_model_def ordering_def text_of_def person_def cell_of_def)

lemma person_count: "text_of (person t k) keyCountColumn = ''1''"
  by (simp add: text_of_def person_def cell_of_def keyCountColumn_def)

lemma people_select: "validateSelect (md_query people_model) (select_parser grammar) = Inr ()"
  by (simp add: validateSelect_def people_model_def select_parser_def rejectR_def bindR_def space_char_def char_code_def writes_def writing_types_def)

lemma people_tokens: "withoutDelimiter (md_query people_model) (postgresSql select_parser) = Inr ''SELECT at, id FROM p''"
  by (simp add: people_model_def withoutDelimiter_def postgresSql_def bindR_def opaque_length_def starts_def is_quote_def dollar_quote_def Let_def)

lemma people_sql: "validateQuery (postgresSql select_parser) (md_query people_model) = Inr ''SELECT at, id FROM p''"
  using people_select people_tokens by (simp add: validateQuery_def postgresSql_def bindR_def)

lemma people_checked: "validateColumns (postgresSql select_parser) people_model people_columns = Inr ()"
  by (simp add: validateColumns_def people_model_def people_columns_def postgresSql_def Let_def rejectR_def bindR_def keyCountColumn_def used_names_def
      column_type_def words_def matches_one_of postgres_key_types_def bound_names_def)

lemma people_query: "\<exists>q. compileModel (postgresSql select_parser) people_model people_columns None = Inr q \<and> cq_values q = []"
  by (simp add: compileModel_def compile_where_def people_sql people_checked bindR_def Let_def)

lemma people_resumed: "compileModel (postgresSql select_parser) people_model people_columns (Some p) = Inr q \<Longrightarrow> cq_values q \<noteq> []"
  by (drule postgres_compiled_values) (simp add: bound_names_def people_model_def)

lemma people_records: "decode_stream people_model people (Inr ()) = (map (\<lambda>(t, k). \<lparr>wr_row = [(''at'', JStr t), (''id'', JStr k)], wr_deleted = False,
        wr_checkpoint = Some \<lparr>cur_value = t, cur_keys = [k]\<rparr>\<rparr>) [(''a'', ''1''), (''a'', ''2''), (''b'', ''0'')], Inr ())"
  by (simp add: people_def person_def people_model_def decodeRecord_def decode_key_def decode_checkpoint_def decode_deleted_def rejectR_def bindR_def
      cell_of_def keyCountColumn_def Let_def)

lemma people_read: "postgres_stream select_parser (Inr ()) (\<lambda>_. Inr people_columns) people_cursor unaborted people_model None
   = decode_stream people_model people (Inr ())"
proof -
  have "people \<noteq> []" by (simp add: people_def)
  then show ?thesis using people_query read_pages_stream [of "[people]" 2 people_model]
    by (auto simp: postgres_stream_def look_def people_sql bindR_def people_cursor_def)
qed

lemma people_counted: "counted people_model people"
proof -
  have "nat_text (Suc 0) = ''1''" by code_simp
  then show ?thesis by (simp add: counted_def people_def people_texts person_count)
qed

lemma people_answers:
  "cursor_answers text_order (postgresSql select_parser) people_model people_columns people people_cursor None"
  "cursor_answers text_order (postgresSql select_parser) people_model people_columns people people_cursor (Some first_checkpoint)"
proof -
  have "answers text_order people_model people None people"
    by (simp add: answers_def people_def people_texts text_order_def)
  then show "cursor_answers text_order (postgresSql select_parser) people_model people_columns people people_cursor None"
    using people_query by (auto simp: cursor_answers_def people_cursor_def people_def intro!: exI [of _ "[people]"])
  have "answers text_order people_model people (Some first_checkpoint) (drop 1 people)"
    by (simp add: answers_def people_def people_texts text_order_def first_checkpoint_def selected_def keyset_def upt_rec)
  then show "cursor_answers text_order (postgresSql select_parser) people_model people_columns people people_cursor (Some first_checkpoint)"
    using people_resumed by (auto simp: cursor_answers_def people_cursor_def people_def intro!: exI [of _ "[drop 1 people]"])
qed

end
