(* ===== verification/GoogleIdentifiers.thy ===== *)
theory GoogleIdentifiers
  imports Patterns Artifacts
begin

text \<open>
  The identifiers of Google Ads, \<open>functions/google-ads/shared/identifiers.ts\<close>: how email addresses, phone numbers and names of a row
  are normalized and hashed. Only hashes, countries and postal codes leave this boundary. The digest is the parameter \<open>sha\<close>; a row is
  a JSON object that passed its schema, so that an optional text is a string, \<open>null\<close> or missing.
\<close>

subsection \<open>Texts\<close>

text \<open>
  \<open>toLowerCase\<close> and \<open>toUpperCase\<close> on the code units of the model. The upper case of two of them is not among them; no use below
  accepts it.
\<close>

definition lower_char :: "char \<Rightarrow> char" where
  "lower_char c = (let n = char_code c in if 65 \<le> n \<and> n \<le> 90 \<or> 192 \<le> n \<and> n \<le> 222 \<and> n \<noteq> 215 then char_of (n + 32) else c)"

definition lower :: "string \<Rightarrow> string" where
  "lower s = map lower_char s"

definition upper_char :: "char \<Rightarrow> string" where
  "upper_char c = (let n = char_code c in if n = 223 then ''SS''
     else if 97 \<le> n \<and> n \<le> 122 \<or> 224 \<le> n \<and> n \<le> 254 \<and> n \<noteq> 247 then [char_of (n - 32)] else [c])"

definition upper :: "string \<Rightarrow> string" where
  "upper s = concat (map upper_char s)"

fun split_at :: "char \<Rightarrow> string \<Rightarrow> string list" where
  "split_at c [] = [[]]"
| "split_at c (x # s) = (if x = c then [] # split_at c s else (case split_at c s of [] \<Rightarrow> [[x]] | p # ps \<Rightarrow> (x # p) # ps))"

definition fail :: "string \<Rightarrow> 'a result" where
  "fail msg = Inl (ReverseEtlProtocolError msg)"

text \<open>The distinct values of a \<open>Map\<close> or a \<open>Set\<close> in the order of their first insertion.\<close>

fun first_seen :: "'a list \<Rightarrow> 'a list" where
  "first_seen [] = []"
| "first_seen (x # xs) = x # filter (\<lambda>y. y \<noteq> x) (first_seen xs)"

subsection \<open>Values of a row\<close>

fun elements :: "json \<Rightarrow> json list" where
  "elements (JArr vs) = vs"
| "elements v = [v]"

fun text_value_of :: "json \<Rightarrow> string result" where
  "text_value_of (JStr s) = Inr s"
| "text_value_of _ = fail ''Google identifiers must be strings or arrays of strings''"

definition identifier_values :: "json \<Rightarrow> string list result" where
  "identifier_values v = mapR text_value_of (filter (\<lambda>x. x \<noteq> JNull \<and> x \<noteq> JLossy \<and> x \<noteq> JStr []) (elements v))"

definition field :: "json \<Rightarrow> string \<Rightarrow> string" where
  "field row k = string_of_json (member row k)"

subsection \<open>Normalization\<close>

definition invalid_email :: "'a result" where
  "invalid_email = fail ''Invalid Google email identifier''"

definition google_mail :: "string list" where
  "google_mail = [''gmail.com'', ''googlemail.com'']"

definition mailbox :: "string \<Rightarrow> string \<Rightarrow> string" where
  "mailbox domain name =
     (if domain \<in> set google_mail then filter (\<lambda>c. c \<noteq> CHR ''.'') (takeWhile (\<lambda>c. c \<noteq> CHR ''+'') name) else name)"

definition normalize_email :: "string \<Rightarrow> string result" where
  "normalize_email value = (case split_at (CHR ''@'') (filter (\<lambda>c. \<not> space_char c) (lower value)) of
      [name, domain] \<Rightarrow>
        if name = [] \<or> CHR ''.'' \<notin> set domain then invalid_email
        else if mailbox domain name = [] then invalid_email else Inr (mailbox domain name @ ''@'' @ domain)
    | _ \<Rightarrow> invalid_email)"

definition email :: "(string \<Rightarrow> string) \<Rightarrow> string \<Rightarrow> string result" where
  "email sha value = bindR (normalize_email value) (\<lambda>v. Inr (sha v))"

text \<open>\<open>/^\+[1-9]\d{7,14}$/\<close>.\<close>

definition e164 :: "string \<Rightarrow> bool" where
  "e164 s \<longleftrightarrow> 9 \<le> length s \<and> length s \<le> 16 \<and> hd s = CHR ''+'' \<and> list_all digit (tl s) \<and> s ! 1 \<noteq> CHR ''0''"

definition normalizePhone :: "string \<Rightarrow> string \<Rightarrow> string result" where
  "normalizePhone value countryCode =
     (let normalized = filter (\<lambda>c. \<not> space_char c \<and> c \<notin> set ''().-'') value;
          full = (if take 1 normalized \<noteq> ''+'' \<and> countryCode \<noteq> []
            then ''+'' @ (if take 1 countryCode = ''+'' then tl countryCode else countryCode) @ normalized else normalized) in
      if e164 full then Inr full else fail ''Google phone requires E.164 or a phone country code'')"

definition nameHash :: "(string \<Rightarrow> string) \<Rightarrow> string \<Rightarrow> string" where
  "nameHash sha value = sha (lower (trim value))"

subsection \<open>Identifiers\<close>

record address =
  ad_givenName :: string
  ad_familyName :: string
  ad_regionCode :: string
  ad_postalCode :: string

datatype user_identifier = EmailAddress string | PhoneNumber string | Address address

definition region_ok :: "string \<Rightarrow> bool" where
  "region_ok s \<longleftrightarrow> length s = 2 \<and> list_all (\<lambda>c. 65 \<le> char_code c \<and> char_code c \<le> 90) s"

definition address_ok :: "address \<Rightarrow> bool" where
  "address_ok a \<longleftrightarrow> hex64 (ad_givenName a) \<and> hex64 (ad_familyName a) \<and> region_ok (ad_regionCode a) \<and> ad_postalCode a \<noteq> []"

fun identifier_ok :: "user_identifier \<Rightarrow> bool" where
  "identifier_ok (EmailAddress h) = hex64 h"
| "identifier_ok (PhoneNumber h) = hex64 h"
| "identifier_ok (Address a) = address_ok a"

definition json_of_address :: "address \<Rightarrow> json" where
  "json_of_address a = JObj [(''givenName'', JStr (ad_givenName a)), (''familyName'', JStr (ad_familyName a)),
     (''regionCode'', JStr (ad_regionCode a)), (''postalCode'', JStr (ad_postalCode a))]"

fun json_of_identifier :: "user_identifier \<Rightarrow> json" where
  "json_of_identifier (EmailAddress h) = JObj [(''emailAddress'', JStr h)]"
| "json_of_identifier (PhoneNumber h) = JObj [(''phoneNumber'', JStr h)]"
| "json_of_identifier (Address a) = JObj [(''address'', json_of_address a)]"

definition hex_parse :: "string \<Rightarrow> string result" where
  "hex_parse s = (if hex64 s then Inr s else Inl parse_failed)"

text \<open>The raw and the hashed values of one kind of identifier.\<close>

definition kind_identifiers :: "json \<Rightarrow> string \<Rightarrow> string \<Rightarrow> (string \<Rightarrow> user_identifier) \<Rightarrow> (string \<Rightarrow> string result) \<Rightarrow> user_identifier list result" where
  "kind_identifiers row raw hashed wire norm =
     bindR (identifier_values (member row raw)) (\<lambda>rs.
     bindR (if rs = [] then Inr () else bindR (identifier_values (member row hashed)) (\<lambda>hs.
        if hs \<noteq> [] then fail ''Choose raw or SHA-256 for each identifier'' else Inr ())) (\<lambda>_.
     bindR (mapR (\<lambda>v. bindR (norm v) (\<lambda>h. Inr (wire h))) rs) (\<lambda>first.
     bindR (identifier_values (member row hashed)) (\<lambda>hs.
     bindR (mapR (\<lambda>v. bindR (hex_parse (lower v)) (\<lambda>h. Inr (wire h))) hs) (\<lambda>second.
     Inr (first @ second))))))"

definition address_of :: "(string \<Rightarrow> string) \<Rightarrow> json \<Rightarrow> address" where
  "address_of sha row = \<lparr>
     ad_givenName = (if field row ''firstName'' \<noteq> [] then nameHash sha (field row ''firstName'') else lower (field row ''hashedFirstName'')),
     ad_familyName = (if field row ''lastName'' \<noteq> [] then nameHash sha (field row ''lastName'') else lower (field row ''hashedLastName'')),
     ad_regionCode = upper (trim (field row ''countryCode'')),
     ad_postalCode = trim (field row ''postalCode'')\<rparr>"

definition address_identifiers :: "(string \<Rightarrow> string) \<Rightarrow> json \<Rightarrow> user_identifier list result" where
  "address_identifiers sha row =
     (let given = field row ''firstName'' \<noteq> [] \<or> field row ''hashedFirstName'' \<noteq> [];
          family = field row ''lastName'' \<noteq> [] \<or> field row ''hashedLastName'' \<noteq> [];
          country = field row ''countryCode'' \<noteq> []; postal = field row ''postalCode'' \<noteq> [] in
      if \<not> (given \<or> family \<or> country \<or> postal) then Inr []
      else if \<not> (given \<and> family \<and> country \<and> postal) then fail ''Address matching requires first name, last name, country code and postal code''
      else if (field row ''firstName'' \<noteq> [] \<and> field row ''hashedFirstName'' \<noteq> []) \<or> (field row ''lastName'' \<noteq> [] \<and> field row ''hashedLastName'' \<noteq> [])
        then fail ''Choose raw or SHA-256 for each name''
      else if address_ok (address_of sha row) then Inr [Address (address_of sha row)] else Inl parse_failed)"

definition contactIdentifiers :: "(string \<Rightarrow> string) \<Rightarrow> json \<Rightarrow> user_identifier list result" where
  "contactIdentifiers sha row =
     bindR (kind_identifiers row ''email'' ''hashedEmail'' EmailAddress (email sha)) (\<lambda>emails.
     bindR (kind_identifiers row ''phone'' ''hashedPhone'' PhoneNumber
       (\<lambda>v. bindR (normalizePhone v (field row ''phoneCountryCode'')) (\<lambda>p. Inr (sha p)))) (\<lambda>phones.
     bindR (address_identifiers sha row) (\<lambda>addresses.
     Inr (first_seen (emails @ phones @ addresses)))))"

subsection \<open>Only hashes leave\<close>

lemma set_first_seen [simp]: "set (first_seen xs) = set xs"
  by (induction xs) auto

lemma distinct_first_seen [simp]: "distinct (first_seen xs)"
  by (induction xs) auto

lemma fail_Inr [simp]: "fail msg = Inr x \<longleftrightarrow> False"
  by (simp add: fail_def)

lemma mapR_all: "mapR f xs = Inr ys \<Longrightarrow> (\<forall>x y. f x = Inr y \<longrightarrow> P y) \<Longrightarrow> list_all P ys"
  by (induction xs arbitrary: ys) (auto simp: bindR_Inr)

lemma hex_parse_ok: "hex_parse s = Inr h \<longleftrightarrow> hex64 s \<and> h = s"
  by (auto simp: hex_parse_def)

text \<open>SHA-256 in hexadecimal has 64 digits.\<close>

definition digest_ok :: "(string \<Rightarrow> string) \<Rightarrow> bool" where
  "digest_ok sha \<longleftrightarrow> (\<forall>t. hex64 (sha t))"

lemma email_hex: "digest_ok sha \<Longrightarrow> email sha v = Inr h \<Longrightarrow> hex64 h"
  by (auto simp: email_def bindR_Inr digest_ok_def)

lemma kind_identifiers_ok:
  assumes "kind_identifiers row raw hashed wire norm = Inr ids"
    and "\<And>h. hex64 h \<Longrightarrow> identifier_ok (wire h)" and "\<And>v h. norm v = Inr h \<Longrightarrow> hex64 h"
  shows "list_all identifier_ok ids"
proof -
  obtain rs hs first second where first: "mapR (\<lambda>v. bindR (norm v) (\<lambda>h. Inr (wire h))) rs = Inr first"
    and second: "mapR (\<lambda>v. bindR (hex_parse (lower v)) (\<lambda>h. Inr (wire h))) hs = Inr second" and ids: "ids = first @ second"
    using assms(1) by (auto simp: kind_identifiers_def bindR_Inr)
  have "list_all identifier_ok first" using assms(2,3) by (intro mapR_all[OF first]) (auto simp: bindR_Inr)
  moreover have "list_all identifier_ok second" using assms(2) by (intro mapR_all[OF second]) (auto simp: bindR_Inr hex_parse_ok)
  ultimately show ?thesis by (simp add: ids)
qed

lemma contactIdentifiers_ok:
  assumes "digest_ok sha" and "contactIdentifiers sha row = Inr ids"
  shows "list_all identifier_ok ids" and "distinct ids"
proof -
  obtain es ps as where es: "kind_identifiers row ''email'' ''hashedEmail'' EmailAddress (email sha) = Inr es"
    and ps: "kind_identifiers row ''phone'' ''hashedPhone'' PhoneNumber
       (\<lambda>v. bindR (normalizePhone v (field row ''phoneCountryCode'')) (\<lambda>p. Inr (sha p))) = Inr ps"
    and as: "address_identifiers sha row = Inr as" and ids: "ids = first_seen (es @ ps @ as)"
    using assms(2) by (auto simp: contactIdentifiers_def bindR_Inr)
  have "list_all identifier_ok es" by (rule kind_identifiers_ok[OF es]) (auto intro: email_hex[OF assms(1)])
  moreover have "list_all identifier_ok ps"
    by (rule kind_identifiers_ok[OF ps]) (use assms(1) in \<open>auto simp: bindR_Inr digest_ok_def\<close>)
  moreover have "list_all identifier_ok as" using as by (auto simp: address_identifiers_def Let_def split: if_splits)
  ultimately show "list_all identifier_ok ids" by (auto simp: ids list_all_iff)
  show "distinct ids" by (simp add: ids)
qed

subsection \<open>Equal people, equal identifiers\<close>

lemma lower_lower_char: "lower_char (lower_char c) = lower_char c"
proof -
  have "lower_char (char_of n) = (if 65 \<le> n \<and> n \<le> 90 \<or> 192 \<le> n \<and> n \<le> 222 \<and> n \<noteq> 215 then char_of (n + 32) else char_of n)"
    if "n < 256" for n :: nat using that by (simp add: lower_char_def Let_def char_code_def)
  moreover have "char_code c < 256" by (simp add: char_code_def)
  ultimately show ?thesis by (auto simp: lower_char_def Let_def)
qed

lemma lower_idem: "lower (lower s) = lower s"
  by (simp add: lower_def lower_lower_char)

text \<open>The parts of a text between its separators.\<close>

lemma split_at_ne: "split_at c s \<noteq> []"
  by (cases s) (auto split: list.splits)

lemma split_at_free: "c \<notin> set s \<Longrightarrow> split_at c s = [s]"
  by (induction s) auto

lemma split_at_append: "c \<notin> set s \<Longrightarrow> split_at c (s @ c # t) = s # split_at c t"
  by (induction s) auto

lemma split_at_parts: "p \<in> set (split_at c s) \<Longrightarrow> c \<notin> set p \<and> set p \<subseteq> set s"
proof (induction s arbitrary: p)
  case (Cons x s)
  show ?case
  proof (cases "x = c")
    case True
    with Cons show ?thesis by auto
  next
    case False
    obtain q qs where "split_at c s = q # qs" using split_at_ne by (cases "split_at c s") auto
    with Cons False show ?thesis by (cases "p = x # q") auto
  qed
qed simp

text \<open>Normalizing twice changes nothing, so an address that is already normalized keeps its hash.\<close>

lemma mailbox_set: "set (mailbox domain name) \<subseteq> set name"
  by (auto simp: mailbox_def dest: set_takeWhileD)

lemma takeWhile_absent: "x \<notin> set ys \<Longrightarrow> takeWhile (\<lambda>c. c \<noteq> x) ys = ys"
  by (induction ys) auto

lemma mailbox_idem: "mailbox domain (mailbox domain name) = mailbox domain name"
proof -
  let ?n = "filter (\<lambda>c. c \<noteq> CHR ''.'') (takeWhile (\<lambda>c. c \<noteq> CHR ''+'') name)"
  have "CHR ''+'' \<notin> set ?n" by (auto dest: set_takeWhileD)
  then have "takeWhile (\<lambda>c. c \<noteq> CHR ''+'') ?n = ?n" by (rule takeWhile_absent)
  then show ?thesis by (simp only: mailbox_def if_True if_False filter_filter simp_thms split: if_split) (simp add: filter_filter)
qed

lemma normalize_email_ok:
  "normalize_email v = Inr w \<longleftrightarrow> (\<exists>name domain. split_at (CHR ''@'') (filter (\<lambda>c. \<not> space_char c) (lower v)) = [name, domain]
     \<and> name \<noteq> [] \<and> CHR ''.'' \<in> set domain \<and> mailbox domain name \<noteq> [] \<and> w = mailbox domain name @ ''@'' @ domain)"
proof (cases "\<exists>name domain. split_at (CHR ''@'') (filter (\<lambda>c. \<not> space_char c) (lower v)) = [name, domain]")
  case True
  then obtain name domain where "split_at (CHR ''@'') (filter (\<lambda>c. \<not> space_char c) (lower v)) = [name, domain]" by blast
  then show ?thesis by (simp add: normalize_email_def invalid_email_def eq_commute[of w])
next
  case False
  then have "normalize_email v = invalid_email" by (simp add: normalize_email_def split: list.split)
  with False show ?thesis by (simp add: invalid_email_def)
qed

lemma normalize_email_idem:
  assumes "normalize_email v = Inr w"
  shows "normalize_email w = Inr w"
proof -
  let ?s = "filter (\<lambda>c. \<not> space_char c) (lower v)"
  obtain name domain where parts: "split_at (CHR ''@'') ?s = [name, domain]" and d: "CHR ''.'' \<in> set domain"
    and n: "mailbox domain name \<noteq> []" and w: "w = mailbox domain name @ ''@'' @ domain"
    using assms by (auto simp: normalize_email_ok)
  have sub: "CHR ''@'' \<notin> set name" "set name \<subseteq> set ?s" "CHR ''@'' \<notin> set domain" "set domain \<subseteq> set ?s"
    using split_at_parts[of name "CHR ''@''" ?s] split_at_parts[of domain "CHR ''@''" ?s] parts by auto
  have plain: "\<not> space_char c \<and> lower_char c = c" if "c \<in> set w" for c
  proof (cases "c = CHR ''@''")
    case True
    then show ?thesis by (simp add: space_char_def lower_char_def char_code_def)
  next
    case False
    with that w mailbox_set[of domain name] sub have "c \<in> set ?s" by auto
    then show ?thesis by (auto simp: lower_def lower_lower_char)
  qed
  have "filter (\<lambda>c. \<not> space_char c) (lower w) = w"
  proof -
    have "lower w = w" unfolding lower_def by (rule map_idI) (simp add: plain)
    then show ?thesis using plain by (simp add: filter_id_conv)
  qed
  moreover have "CHR ''@'' \<notin> set (mailbox domain name)" using mailbox_set sub by blast
  then have "split_at (CHR ''@'') w = [mailbox domain name, domain]" using w sub by (simp add: split_at_append split_at_free)
  ultimately show ?thesis using n d w by (simp add: normalize_email_ok mailbox_idem)
qed

end
