(* ===== verification/GoogleAudience.thy ===== *)
theory GoogleAudience
  imports GoogleIdentifiers "HOL-Library.Monad_Syntax"
begin

text \<open>
  The audiences of Google Ads as data: credentials and options of a stream (\<open>credentials.ts\<close>, \<open>audience/meta.ts\<close>) and the first half of
  \<open>audience/runtime.ts\<close>: the schemas of rows, their normalization to members of an audience, the payload that is persisted and sent,
  and the projection to identities. A schema is a parse function; \<open>None\<close> is a failed parse.
\<close>

subsection \<open>Schemas\<close>

fun text_where :: "(string \<Rightarrow> bool) \<Rightarrow> json \<Rightarrow> string option" where
  "text_where P (JStr s) = (if P s then Some s else None)"
| "text_where P _ = None"

fun int_between :: "int \<Rightarrow> int \<Rightarrow> json \<Rightarrow> int option" where
  "int_between lo hi (JNum t) = (if plain_integer_text t \<and> lo \<le> text_value t \<and> text_value t \<le> hi then Some (text_value t) else None)"
| "int_between lo hi _ = None"

fun members_of :: "json \<Rightarrow> (string \<times> json) list option" where
  "members_of (JObj kvs) = Some kvs"
| "members_of _ = None"

definition strict_members :: "string list \<Rightarrow> json \<Rightarrow> (string \<times> json) list option" where
  "strict_members ks v = (case members_of v of None \<Rightarrow> None | Some kvs \<Rightarrow> if strict_keys ks kvs then Some kvs else None)"

definition literal :: "json \<Rightarrow> json \<Rightarrow> unit option" where
  "literal expected v = (if v = expected then Some () else None)"

definition check :: "bool \<Rightarrow> unit option" where
  "check b = (if b then Some () else None)"

text \<open>\<open>.default(d)\<close>.\<close>

definition defaulted :: "string \<Rightarrow> (json \<Rightarrow> 'a option) \<Rightarrow> 'a \<Rightarrow> (string \<times> json) list \<Rightarrow> 'a option" where
  "defaulted k f d kvs = map_option (case_option d id) (optional k f kvs)"

subsection \<open>Credentials\<close>

text \<open>\<open>/^(?:\d{10}|\d{3}-\d{3}-\d{4})$/\<close>, with the dashes removed.\<close>

definition customer_text :: "string \<Rightarrow> bool" where
  "customer_text s \<longleftrightarrow> (length s = 10 \<and> list_all digit s)
     \<or> (length s = 12 \<and> s ! 3 = CHR ''-'' \<and> s ! 7 = CHR ''-'' \<and> list_all digit (take 3 s) \<and> list_all digit (take 3 (drop 4 s)) \<and> list_all digit (drop 8 s))"

definition googleCustomerId :: "json \<Rightarrow> string option" where
  "googleCustomerId v = map_option (filter (\<lambda>c. c \<noteq> CHR ''-'')) (text_where customer_text v)"

record audience_credentials =
  cr_oauthConnectionId :: string
  cr_customerId :: string
  cr_loginCustomerId :: string

definition googleDataManagerOAuthIntegration :: string where
  "googleDataManagerOAuthIntegration = ''jitsu-cloud-dst-google-ads''"

definition login_customer :: "json \<Rightarrow> string option" where
  "login_customer v = (if v = JStr [] then Some [] else googleCustomerId v)"

definition GoogleAudienceCredentials :: "json \<Rightarrow> audience_credentials option" where
  "GoogleAudienceCredentials v = do {
     kvs \<leftarrow> members_of v;
     required ''authorized'' (literal (JBool True)) kvs;
     defaulted ''oauthIntegrationId'' (literal (JStr googleDataManagerOAuthIntegration)) () kvs;
     connection \<leftarrow> required ''oauthConnectionId'' (string_between 1 512) kvs;
     customer \<leftarrow> required ''customerId'' googleCustomerId kvs;
     login \<leftarrow> defaulted ''loginCustomerId'' login_customer [] kvs;
     Some \<lparr>cr_oauthConnectionId = connection, cr_customerId = customer, cr_loginCustomerId = login\<rparr> }"

subsection \<open>Options\<close>

text \<open>\<open>/^[1-9]\d{0,19}$/\<close> and \<open>/^retl-google-[a-f0-9]{64}$/\<close>.\<close>

definition audience_id :: "string \<Rightarrow> bool" where
  "audience_id s \<longleftrightarrow> s \<noteq> [] \<and> length s \<le> 20 \<and> list_all digit s \<and> hd s \<noteq> CHR ''0''"

definition managed_id :: "string \<Rightarrow> bool" where
  "managed_id s \<longleftrightarrow> take 12 s = ''retl-google-'' \<and> hex64 (drop 12 s)"

datatype audience_type = ContactInfo | MobileAdvertisingId | CrmId

fun GoogleAudienceType :: "json \<Rightarrow> audience_type option" where
  "GoogleAudienceType v = (if v = JStr ''CONTACT_INFO'' then Some ContactInfo else if v = JStr ''MOBILE_ADVERTISING_ID'' then Some MobileAdvertisingId
     else if v = JStr ''CRM_ID'' then Some CrmId else None)"

definition one_text :: "string list \<Rightarrow> json \<Rightarrow> string option" where
  "one_text ss v = text_where (\<lambda>s. s \<in> set ss) v"

record audience_fields =
  af_identifierType :: "audience_type option"
  af_appId :: "string option"
  af_mobilePlatform :: "string option"

definition audience_field_names :: "string list" where
  "audience_field_names = [''identifierType'', ''appId'', ''mobilePlatform'']"

definition audienceFields :: "(string \<times> json) list \<Rightarrow> audience_fields option" where
  "audienceFields kvs = do {
     t \<leftarrow> optional ''identifierType'' GoogleAudienceType kvs;
     app \<leftarrow> optional ''appId'' (string_between 1 255) kvs;
     platform \<leftarrow> optional ''mobilePlatform'' (one_text [''IOS'', ''ANDROID'']) kvs;
     Some \<lparr>af_identifierType = t, af_appId = app, af_mobilePlatform = platform\<rparr> }"

definition type_or_contact :: "audience_fields \<Rightarrow> audience_type" where
  "type_or_contact f = (case af_identifierType f of None \<Rightarrow> ContactInfo | Some t \<Rightarrow> t)"

record audience_options =
  ao_audienceId :: string
  ao_managedAudienceId :: "string option"
  ao_membershipDays :: "int option"
  ao_fullReplace :: bool
  ao_fields :: audience_fields

definition GoogleAudienceOptions :: "json \<Rightarrow> audience_options option" where
  "GoogleAudienceOptions v = do {
     kvs \<leftarrow> strict_members ([''audienceId'', ''managedAudienceId'', ''membershipDays'', ''customerMatchTermsAccepted'', ''mirrorStrategy'',
        ''exclusiveManagementConfirmed''] @ audience_field_names) v;
     aid \<leftarrow> required ''audienceId'' (text_where audience_id) kvs;
     managed \<leftarrow> optional ''managedAudienceId'' (text_where managed_id) kvs;
     days \<leftarrow> optional ''membershipDays'' (int_between 1 540) kvs;
     required ''customerMatchTermsAccepted'' (literal (JBool True)) kvs;
     strategy \<leftarrow> optional ''mirrorStrategy'' (one_text [''snapshot-diff'', ''full-replace'']) kvs;
     exclusive \<leftarrow> optional ''exclusiveManagementConfirmed'' (literal (JBool True)) kvs;
     rest \<leftarrow> audienceFields kvs;
     check (strategy = Some ''full-replace'' \<longrightarrow> exclusive \<noteq> None);
     Some \<lparr>ao_audienceId = aid, ao_managedAudienceId = managed, ao_membershipDays = days, ao_fullReplace = (strategy = Some ''full-replace''),
       ao_fields = rest\<rparr> }"

subsection \<open>Rows\<close>

text \<open>\<open>.nullable().optional()\<close> around a schema; \<open>many\<close> also allows an array of up to ten.\<close>

definition nullish :: "(json \<Rightarrow> bool) \<Rightarrow> json \<Rightarrow> bool" where
  "nullish f v \<longleftrightarrow> v = JNull \<or> v = JLossy \<or> f v"

fun short_text :: "json \<Rightarrow> bool" where
  "short_text (JStr s) = (length s \<le> 1024)"
| "short_text _ = False"

fun hash_text :: "json \<Rightarrow> bool" where
  "hash_text (JStr s) = (length s = 64 \<and> list_all (\<lambda>c. hex_char (lower_char c)) s)"
| "hash_text _ = False"

fun up_to_ten :: "(json \<Rightarrow> bool) \<Rightarrow> json \<Rightarrow> bool" where
  "up_to_ten f (JArr vs) = (length vs \<le> 10 \<and> list_all f vs)"
| "up_to_ten f _ = False"

definition many :: "(json \<Rightarrow> bool) \<Rightarrow> json \<Rightarrow> bool" where
  "many f v \<longleftrightarrow> nullish f v \<or> up_to_ten (nullish f) v"

definition contact_fields :: "(string \<times> (json \<Rightarrow> bool)) list" where
  "contact_fields = [(''email'', many short_text), (''phone'', many short_text), (''hashedEmail'', many hash_text), (''hashedPhone'', many hash_text),
     (''phoneCountryCode'', nullish short_text), (''firstName'', nullish short_text), (''lastName'', nullish short_text),
     (''hashedFirstName'', nullish hash_text), (''hashedLastName'', nullish hash_text), (''countryCode'', nullish short_text),
     (''postalCode'', nullish short_text)]"

definition identifier_fields :: "(string \<times> (json \<Rightarrow> bool)) list" where
  "identifier_fields = contact_fields @ [(''crmId'', nullish short_text), (''mobileAdvertisingId'', many short_text)]"

definition row_fits :: "(string \<times> (json \<Rightarrow> bool)) list \<Rightarrow> json \<Rightarrow> bool" where
  "row_fits schema row = (case row of
      JObj kvs \<Rightarrow> list_all (\<lambda>(k, v). case map_of schema k of None \<Rightarrow> False | Some f \<Rightarrow> f v) kvs
    | _ \<Rightarrow> False)"

text \<open>Consent that is mapped must be granted; a mapped column without a value is not.\<close>

definition GoogleAudienceRow :: "json \<Rightarrow> bool" where
  "GoogleAudienceRow = row_fits (identifier_fields @ [(''adUserData'', \<lambda>v. v = JStr ''GRANTED''), (''adPersonalization'', \<lambda>v. v = JStr ''GRANTED'')])"

definition some_consent :: "json \<Rightarrow> bool" where
  "some_consent v \<longleftrightarrow> v \<in> {JStr ''GRANTED'', JStr ''DENIED'', JNull, JLossy}"

definition GoogleAudienceRemoveRow :: "json \<Rightarrow> bool" where
  "GoogleAudienceRemoveRow = row_fits (identifier_fields @ [(''adUserData'', some_consent), (''adPersonalization'', some_consent)])"

subsection \<open>Members of an audience\<close>

datatype audience_member = UserData "user_identifier list" | MobileData "string list" | UserIdData string

definition consent_json :: json where
  "consent_json = JObj [(''adUserData'', JStr ''CONSENT_GRANTED''), (''adPersonalization'', JStr ''CONSENT_GRANTED'')]"

fun member_body :: "audience_member \<Rightarrow> string \<times> json" where
  "member_body (UserData ids) = (''userData'', JObj [(''userIdentifiers'', JArr (map json_of_identifier ids))])"
| "member_body (MobileData ids) = (''mobileData'', JObj [(''mobileIds'', json_of_strings ids)])"
| "member_body (UserIdData i) = (''userIdData'', JObj [(''userId'', JStr i)])"

definition json_of_audience_member :: "action \<Rightarrow> audience_member \<Rightarrow> json" where
  "json_of_audience_member act m = JObj (member_body m # (if act = Upsert then [(''consent'', consent_json)] else []))"

definition normalize_member :: "(string \<Rightarrow> string) \<Rightarrow> json \<Rightarrow> audience_member result" where
  "normalize_member sha row =
     bindR (contactIdentifiers sha row) (\<lambda>ids.
     bindR (identifier_values (member row ''mobileAdvertisingId'')) (\<lambda>ms.
     let mobile = first_seen (filter (\<lambda>s. s \<noteq> []) (map trim ms)); crm = field row ''crmId'' in
     if length (filter id [ids \<noteq> [], mobile \<noteq> [], crm \<noteq> []]) \<noteq> 1 then fail ''Map one audience identifier type: contact information, mobile IDs or CRM ID''
     else if length ids > 10 then fail ''Google accepts at most 10 identifiers per audience member''
     else Inr (if crm \<noteq> [] then UserIdData crm else if mobile \<noteq> [] then MobileData mobile else UserData ids)))"

definition normalize_row :: "(string \<Rightarrow> string) \<Rightarrow> action \<Rightarrow> json \<Rightarrow> json result" where
  "normalize_row sha act row = bindR (normalize_member sha row) (\<lambda>m. Inr (json_of_audience_member act m))"

text \<open>The row schemas of the stream: the schema of the source row, then the normalization.\<close>

definition audience_row_type :: "(string \<Rightarrow> string) \<Rightarrow> action \<Rightarrow> json \<Rightarrow> json option" where
  "audience_row_type sha act row =
     (if (if act = Upsert then GoogleAudienceRow row else GoogleAudienceRemoveRow row)
      then case normalize_row sha act row of Inl _ \<Rightarrow> None | Inr v \<Rightarrow> Some v else None)"

subsection \<open>Persisted payloads\<close>

definition address_schema :: "json \<Rightarrow> address option" where
  "address_schema v = do {
     kvs \<leftarrow> strict_members [''givenName'', ''familyName'', ''regionCode'', ''postalCode''] v;
     given \<leftarrow> required ''givenName'' (text_where hex64) kvs;
     family \<leftarrow> required ''familyName'' (text_where hex64) kvs;
     region \<leftarrow> required ''regionCode'' (text_where region_ok) kvs;
     postal \<leftarrow> required ''postalCode'' (text_where (\<lambda>s. s \<noteq> [])) kvs;
     Some \<lparr>ad_givenName = given, ad_familyName = family, ad_regionCode = region, ad_postalCode = postal\<rparr> }"

definition userIdentifierSchema :: "json \<Rightarrow> user_identifier option" where
  "userIdentifierSchema v = (case strict_members [''emailAddress''] v \<bind> required ''emailAddress'' (text_where hex64) of
      Some h \<Rightarrow> Some (EmailAddress h)
    | None \<Rightarrow> (case strict_members [''phoneNumber''] v \<bind> required ''phoneNumber'' (text_where hex64) of
        Some h \<Rightarrow> Some (PhoneNumber h)
      | None \<Rightarrow> map_option Address (strict_members [''address''] v \<bind> required ''address'' address_schema)))"

definition one_to_ten :: "(json \<Rightarrow> 'a option) \<Rightarrow> json \<Rightarrow> 'a list option" where
  "one_to_ten f v = (case array_schema f 10 v of None \<Rightarrow> None | Some xs \<Rightarrow> if xs = [] then None else Some xs)"

definition inner_object :: "string \<Rightarrow> (json \<Rightarrow> 'a option) \<Rightarrow> json \<Rightarrow> 'a option" where
  "inner_object k f v = strict_members [k] v \<bind> required k f"

definition consent_schema :: "json \<Rightarrow> unit option" where
  "consent_schema v = do {
     kvs \<leftarrow> strict_members [''adUserData'', ''adPersonalization''] v;
     required ''adUserData'' (literal (JStr ''CONSENT_GRANTED'')) kvs;
     required ''adPersonalization'' (literal (JStr ''CONSENT_GRANTED'')) kvs }"

text \<open>Exactly one of the three kinds is present.\<close>

fun one_kind :: "user_identifier list option \<Rightarrow> string list option \<Rightarrow> string option \<Rightarrow> audience_member option" where
  "one_kind (Some ids) None None = Some (UserData ids)"
| "one_kind None (Some ids) None = Some (MobileData ids)"
| "one_kind None None (Some i) = Some (UserIdData i)"
| "one_kind _ _ _ = None"

definition wire_schema :: "action \<Rightarrow> json \<Rightarrow> audience_member option" where
  "wire_schema act v = do {
     kvs \<leftarrow> strict_members ([''userData'', ''mobileData'', ''userIdData''] @ (if act = Upsert then [''consent''] else [])) v;
     user \<leftarrow> optional ''userData'' (inner_object ''userIdentifiers'' (one_to_ten userIdentifierSchema)) kvs;
     mobile \<leftarrow> optional ''mobileData'' (inner_object ''mobileIds'' (one_to_ten (string_between 1 1024))) kvs;
     crm \<leftarrow> optional ''userIdData'' (inner_object ''userId'' (string_between 1 1024)) kvs;
     (if act = Upsert then required ''consent'' consent_schema kvs else Some ());
     one_kind user mobile crm }"

definition wire :: "action \<Rightarrow> json \<Rightarrow> audience_member result" where
  "wire act row = (case wire_schema act row of None \<Rightarrow> fail ''Invalid persisted Google audience payload'' | Some m \<Rightarrow> Inr m)"

subsection \<open>The projection\<close>

fun single_members :: "audience_member \<Rightarrow> (json \<times> audience_member) list" where
  "single_members (UserData ids) = map (\<lambda>i. (json_of_identifier i, UserData [i])) ids"
| "single_members (MobileData ids) = map (\<lambda>i. (JObj [(''mobileId'', JStr i)], MobileData [i])) ids"
| "single_members (UserIdData i) = [(JObj [(''crmId'', JStr i)], UserIdData i)]"

definition projectGoogleAudience :: "action \<Rightarrow> json \<Rightarrow> identity list result" where
  "projectGoogleAudience act row = bindR (wire act row) (\<lambda>m.
     Inr (map (\<lambda>(i, one). \<lparr>id_identity = i, id_upsert = json_of_audience_member Upsert one, id_remove = json_of_audience_member Remove one\<rparr>)
       (single_members m)))"

subsection \<open>The target\<close>

definition google_account :: "string \<Rightarrow> json" where
  "google_account i = JObj [(''accountType'', JStr ''GOOGLE_ADS''), (''accountId'', JStr i)]"

definition target_json :: "string \<Rightarrow> string \<Rightarrow> string \<Rightarrow> json" where
  "target_json customer login product = JObj ([(''operatingAccount'', google_account customer)]
     @ (if login \<noteq> [] then [(''loginAccount'', google_account login)] else []) @ [(''productDestinationId'', JStr product)])"

definition audience_target :: "json \<Rightarrow> json \<Rightarrow> (audience_credentials \<times> audience_options) result" where
  "audience_target credentials options = (case (GoogleAudienceCredentials credentials, GoogleAudienceOptions options) of
      (Some c, Some o1) \<Rightarrow> Inr (c, o1) | _ \<Rightarrow> fail ''Invalid Google audience configuration'')"

definition target_of :: "json \<Rightarrow> json \<Rightarrow> json result" where
  "target_of credentials options = bindR (audience_target credentials options) (\<lambda>(c, opts).
     Inr (target_json (cr_customerId c) (cr_loginCustomerId c) (ao_audienceId opts)))"

definition googleAudienceTargetIdentity :: "json \<Rightarrow> json \<Rightarrow> string result" where
  "googleAudienceTargetIdentity credentials options = bindR (audience_target credentials options) (\<lambda>(c, opts).
     Inr (''google-data-manager:'' @ cr_customerId c @ '':'' @ ao_audienceId opts))"

subsection \<open>Normalized rows are payloads\<close>

fun audience_member_ok :: "audience_member \<Rightarrow> bool" where
  "audience_member_ok (UserData ids) \<longleftrightarrow> ids \<noteq> [] \<and> length ids \<le> 10 \<and> list_all identifier_ok ids"
| "audience_member_ok (MobileData ids) \<longleftrightarrow> ids \<noteq> [] \<and> length ids \<le> 10 \<and> list_all (\<lambda>i. i \<noteq> [] \<and> length i \<le> 1024) ids"
| "audience_member_ok (UserIdData i) \<longleftrightarrow> i \<noteq> [] \<and> length i \<le> 1024"

lemma identifier_round_trip: "identifier_ok i \<Longrightarrow> userIdentifierSchema (json_of_identifier i) = Some i"
  by (cases i) (auto simp: userIdentifierSchema_def strict_members_def strict_keys_def required_def address_schema_def json_of_address_def address_ok_def)

lemma one_to_ten_round_trip:
  "xs \<noteq> [] \<Longrightarrow> length xs \<le> 10 \<Longrightarrow> list_all (\<lambda>x. f (g x) = Some x) xs \<Longrightarrow> one_to_ten f (JArr (map g xs)) = Some xs"
  by (simp add: one_to_ten_def parse_all_map list_all_iff)

lemma wire_round_trip: "audience_member_ok m \<Longrightarrow> wire_schema act (json_of_audience_member act m) = Some m"
proof (cases m)
  case (UserData ids)
  assume "audience_member_ok m"
  with UserData have "one_to_ten userIdentifierSchema (JArr (map json_of_identifier ids)) = Some ids"
    by (intro one_to_ten_round_trip) (auto simp: list_all_iff identifier_round_trip)
  with UserData show ?thesis
    by (cases act) (simp_all add: wire_schema_def json_of_audience_member_def strict_members_def strict_keys_def optional_def inner_object_def required_def
        consent_json_def consent_schema_def literal_def)
next
  case (MobileData ids)
  assume "audience_member_ok m"
  with MobileData have "one_to_ten (string_between 1 1024) (JArr (map JStr ids)) = Some ids"
    by (intro one_to_ten_round_trip) (auto simp: list_all_iff Suc_le_eq)
  with MobileData show ?thesis
    by (cases act) (simp_all add: wire_schema_def json_of_audience_member_def strict_members_def strict_keys_def optional_def inner_object_def required_def
        consent_json_def consent_schema_def literal_def json_of_strings_def)
next
  case (UserIdData i)
  assume "audience_member_ok m"
  with UserIdData show ?thesis
    by (cases act) (simp_all add: wire_schema_def json_of_audience_member_def strict_members_def strict_keys_def optional_def inner_object_def required_def
        consent_json_def consent_schema_def literal_def Suc_le_eq)
qed

text \<open>What the schema of a row says of its values.\<close>

lemma row_fits_member:
  assumes "row_fits schema row" and "map_of schema k = Some f" and "f JLossy"
  shows "f (member row k)"
proof (cases row)
  case (JObj kvs)
  show ?thesis
  proof (cases "map_of kvs k")
    case (Some v)
    then have "(k, v) \<in> set kvs" by (rule map_of_SomeD)
    with assms JObj Some show ?thesis by (auto simp: row_fits_def list_all_iff)
  qed (use assms JObj in simp)
qed (use assms in \<open>auto simp: row_fits_def\<close>)

lemma many_short_values:
  assumes "many short_text v" and "identifier_values v = Inr vs"
  shows "length vs \<le> 10 \<and> list_all (\<lambda>s. length s \<le> 1024) vs"
proof -
  let ?xs = "filter (\<lambda>x. x \<noteq> JNull \<and> x \<noteq> JLossy \<and> x \<noteq> JStr []) (elements v)"
  have "length (elements v) \<le> 10" using assms(1) by (cases v) (auto simp: many_def nullish_def)
  then have few: "length ?xs \<le> 10" using length_filter_le le_trans by blast
  have short: "list_all (\<lambda>x. \<forall>s. text_value_of x = Inr s \<longrightarrow> length s \<le> 1024) ?xs"
  proof -
    have "length s \<le> 1024" if "x \<in> set (elements v)" "text_value_of x = Inr s" for x s
      using assms(1) that by (cases v; cases x) (auto simp: many_def nullish_def list_all_iff)
    then show ?thesis by (auto simp: list_all_iff)
  qed
  have "length vs = length ?xs" using assms(2) by (auto simp: identifier_values_def dest: mapR_Inr_length)
  moreover have "list_all (\<lambda>s. length s \<le> 1024) vs"
    using mapR_Inr_set[OF assms(2)[unfolded identifier_values_def]] short by (fastforce simp: list_all_iff)
  ultimately show ?thesis using few by simp
qed

lemma trim_length: "length (trim s) \<le> length s"
proof -
  have "length (trim s) \<le> length (dropWhile space_char s)"
    unfolding trim_def by (metis length_dropWhile_le length_rev)
  then show ?thesis using length_dropWhile_le le_trans by blast
qed

lemma length_first_seen: "length (first_seen xs) \<le> length xs"
  by (induction xs) (auto intro: le_trans[OF length_filter_le])

lemma normalize_member_ok:
  assumes "digest_ok sha" and "normalize_member sha row = Inr m"
    and "many short_text (member row ''mobileAdvertisingId'')" and "nullish short_text (member row ''crmId'')"
  shows "audience_member_ok m"
proof -
  obtain ids ms where ids: "contactIdentifiers sha row = Inr ids" and ms: "identifier_values (member row ''mobileAdvertisingId'') = Inr ms"
    and few: "length ids \<le> 10" and m: "m = (if field row ''crmId'' \<noteq> [] then UserIdData (field row ''crmId'')
       else if first_seen (filter (\<lambda>s. s \<noteq> []) (map trim ms)) \<noteq> [] then MobileData (first_seen (filter (\<lambda>s. s \<noteq> []) (map trim ms)))
       else UserData ids)"
    and one: "length (filter id [ids \<noteq> [], first_seen (filter (\<lambda>s. s \<noteq> []) (map trim ms)) \<noteq> [], field row ''crmId'' \<noteq> []]) = 1"
    using assms(2) by (auto simp: normalize_member_def bindR_Inr Let_def split: if_splits)
  let ?mobile = "first_seen (filter (\<lambda>s. s \<noteq> []) (map trim ms))"
  have "length ?mobile \<le> length ms" by (rule le_trans[OF length_first_seen]) (metis length_filter_le length_map)
  moreover have "length (trim s) \<le> 1024" if "s \<in> set ms" for s
    using many_short_values[OF assms(3) ms] that trim_length[of s] by (fastforce simp: list_all_iff)
  ultimately have mobile: "length ?mobile \<le> 10 \<and> list_all (\<lambda>i. i \<noteq> [] \<and> length i \<le> 1024) ?mobile"
    using many_short_values[OF assms(3) ms] by (auto simp: list_all_iff)
  have "length (field row ''crmId'') \<le> 1024" using assms(4) by (cases "member row ''crmId''") (auto simp: nullish_def field_def)
  with mobile one few contactIdentifiers_ok[OF assms(1) ids] show ?thesis by (simp add: m split: if_splits)
qed

lemma row_member_fields:
  assumes "if act = Upsert then GoogleAudienceRow row else GoogleAudienceRemoveRow row"
  shows "many short_text (member row ''mobileAdvertisingId'')" and "nullish short_text (member row ''crmId'')"
  using assms
  by (auto simp: GoogleAudienceRow_def GoogleAudienceRemoveRow_def identifier_fields_def contact_fields_def many_def nullish_def
      dest: row_fits_member[where k = "''mobileAdvertisingId''"] row_fits_member[where k = "''crmId''"] split: if_splits)

lemma audience_row_wire:
  assumes "digest_ok sha" and "audience_row_type sha act row = Some v"
  shows "\<exists>m. audience_member_ok m \<and> v = json_of_audience_member act m \<and> wire act v = Inr m"
proof -
  have schema: "if act = Upsert then GoogleAudienceRow row else GoogleAudienceRemoveRow row"
    using assms(2) unfolding audience_row_type_def by (meson option.distinct(1))
  obtain m where "normalize_member sha row = Inr m" and v: "v = json_of_audience_member act m"
    using assms(2) by (auto simp: audience_row_type_def normalize_row_def bindR_Inr split: if_splits sum.splits)
  then have "audience_member_ok m" using normalize_member_ok[OF assms(1) _ row_member_fields[OF schema]] by blast
  then show ?thesis using v wire_round_trip by (auto simp: wire_def)
qed

lemma single_members_ok: "audience_member_ok m \<Longrightarrow> (i, one) \<in> set (single_members m) \<Longrightarrow> audience_member_ok one"
  by (cases m) (auto simp: list_all_iff)

lemma projected_payloads:
  assumes "audience_member_ok m" and "projectGoogleAudience act (json_of_audience_member act m) = Inr ids" and "i \<in> set ids"
  shows "\<exists>one. wire Upsert (id_upsert i) = Inr one \<and> wire Remove (id_remove i) = Inr one"
proof -
  obtain j one where "(j, one) \<in> set (single_members m)" "id_upsert i = json_of_audience_member Upsert one" "id_remove i = json_of_audience_member Remove one"
    using assms by (auto simp: projectGoogleAudience_def wire_def wire_round_trip bindR_Inr)
  with single_members_ok[OF assms(1)] show ?thesis by (auto simp: wire_def wire_round_trip)
qed

end
