(* ===== verification/GoogleWriter.thy ===== *)
theory GoogleWriter
  imports GoogleAudience Recovery
begin

text \<open>
  The writer of Google audiences, the second half of \<open>audience/runtime.ts\<close>: requests to the Data Manager API, submission of a batch,
  reconciliation of its receipt, the replacement of an audience, and the writer with its recovery callbacks. Access tokens, \<open>fetch\<close>,
  the signal and the reading of an HTTP date are arguments, the services of the host. \<open>gg_log\<close> collects the requests that were made;
  the program does not read it.
\<close>

subsection \<open>Services\<close>

record http_request =
  hq_url :: string
  hq_post :: bool
  hq_headers :: "(string \<times> string) list"
  hq_body :: "json option"

record http_response =
  hs_ok :: bool
  hs_status :: int
  hs_date :: "string option"
  hs_json :: "json result"

record 'g services =
  sv_token :: "('g, string) oper"
  sv_fetch :: "http_request \<Rightarrow> ('g, http_response) oper"
  sv_aborted :: "('g, bool) oper"
  sv_isoTime :: "string \<Rightarrow> string option"

record 'g google =
  gg_log :: "http_request list"
  gg_world :: 'g

definition on_services :: "('g, 'a) oper \<Rightarrow> ('g google, 'a) oper" where
  "on_services m g = (case m (gg_world g) of (r, w) \<Rightarrow> (r, g\<lparr>gg_world := w\<rparr>))"

definition throw_if_signalled :: "'g services \<Rightarrow> ('g google, unit) oper" where
  "throw_if_signalled S = bindE (on_services (sv_aborted S)) (\<lambda>a. if a then throwE AbortError else returnE ())"

definition fetchE :: "'g services \<Rightarrow> http_request \<Rightarrow> ('g google, http_response) oper" where
  "fetchE S q = thenE (modifyE (\<lambda>g. g\<lparr>gg_log := gg_log g @ [q]\<rparr>)) (on_services (sv_fetch S q))"

definition dataManagerBaseUrl :: string where
  "dataManagerBaseUrl = ''https://datamanager.googleapis.com/v1/''"

definition dataManagerHeaders :: "string \<Rightarrow> string \<Rightarrow> (string \<times> string) list" where
  "dataManagerHeaders accessToken login = [(''Authorization'', ''Bearer '' @ accessToken), (''Content-Type'', ''application/json'')]
     @ (if login \<noteq> [] then [(''login-account'', ''accountTypes/GOOGLE_ADS/accounts/'' @ login)] else [])"

definition failE :: "string \<Rightarrow> ('s, 'a) oper" where
  "failE msg = throwE (ReverseEtlProtocolError msg)"

definition parsedE :: "'a option \<Rightarrow> ('s, 'a) oper" where
  "parsedE v = (case v of None \<Rightarrow> throwE parse_failed | Some x \<Rightarrow> returnE x)"

text \<open>\<open>encodeURIComponent\<close>.\<close>

definition upper_hex :: "nat \<Rightarrow> char" where
  "upper_hex n = (if n < 10 then char_of (48 + n) else char_of (55 + n))"

definition percent :: "nat \<Rightarrow> string" where
  "percent n = [CHR ''%'', upper_hex (n div 16), upper_hex (n mod 16)]"

definition encode_char :: "char \<Rightarrow> string" where
  "encode_char c = (let n = char_code c in
     if letter c \<or> digit c \<or> c \<in> set ''-_.!~*()'' \<or> c = CHR 0x27 then [c]
     else if n < 128 then percent n else percent (192 + n div 64) @ percent (128 + n mod 64))"

definition encodeURIComponent :: "string \<Rightarrow> string" where
  "encodeURIComponent s = concat (map encode_char s)"

text \<open>\<open>URLSearchParams\<close>.\<close>

definition form_char :: "char \<Rightarrow> string" where
  "form_char ch = (if ch = CHR '' '' then ''+'' else if letter ch \<or> digit ch \<or> ch \<in> set ''*-._'' then [ch]
     else let n = char_code ch in if n < 128 then percent n else percent (192 + n div 64) @ percent (128 + n mod 64))"

definition form_text :: "string \<Rightarrow> string" where
  "form_text s = concat (map form_char s)"

subsection \<open>The context of a run\<close>

record google_context =
  gc_credentials :: json
  gc_options :: json
  gc_syncId :: string
  gc_logicalRunId :: string
  gc_configRevision :: string
  gc_mirror :: bool
  gc_targetIdentity :: string

record managed_intent =
  mg_id :: string
  mg_syncId :: string
  mg_customerId :: string
  mg_integrationCode :: string
  mg_displayName :: string
  mg_membershipDays :: int
  mg_fields :: audience_fields

record managed_audience = managed_intent +
  mg_audienceId :: string

record google_env =
  ge_sha :: "string \<Rightarrow> string"
  ge_managed :: "managed_audience option"
  ge_replacement :: bool

definition starts_with :: "string \<Rightarrow> string \<Rightarrow> bool" where
  "starts_with p s \<longleftrightarrow> take (length p) s = p"

definition request :: "'g services \<Rightarrow> google_context \<Rightarrow> string \<Rightarrow> json option \<Rightarrow> string option \<Rightarrow> ('g google, json \<times> string option) oper" where
  "request S ctx path body accessToken =
     thenE (throw_if_signalled S)
     (bindE (case accessToken of Some t \<Rightarrow> returnE t | None \<Rightarrow> on_services (sv_token S)) (\<lambda>token.
      bindE (if starts_with ''accountTypes/'' path then parsedE (map_option cr_loginCustomerId (GoogleAudienceCredentials (gc_credentials ctx)))
             else returnE []) (\<lambda>login.
      thenE (throw_if_signalled S)
      (catchE
        (bindE (fetchE S \<lparr>hq_url = dataManagerBaseUrl @ path, hq_post = (body \<noteq> None), hq_headers = dataManagerHeaders token login, hq_body = body\<rparr>) (\<lambda>response.
         thenE (if hs_ok response then returnE ()
                else failE (''Google Data Manager HTTP '' @ int_text (hs_status response) @ ''; reconcile before retrying delivery''))
         (bindE (resultE (hs_json response)) (\<lambda>v. returnE (v, hs_date response)))))
        (\<lambda>_. failE ''Google Data Manager request failed; preserve recovery evidence and do not replay'')))))"

text \<open>What a writer can reach: the services and the store of the sync, not the journal.\<close>

type_synonym ('g, 'a) google_op = "('g google \<times> sync_store, 'a) oper"

definition on_google :: "('g google, 'a) oper \<Rightarrow> ('g, 'a) google_op" where
  "on_google m = (\<lambda>(g, st). case m g of (r, g') \<Rightarrow> (r, g', st))"

definition read_store :: "(sync_store \<Rightarrow> 'a) \<Rightarrow> ('g, 'a) google_op" where
  "read_store f = (\<lambda>(g, st). (Inr (f st), g, st))"

definition write_store :: "(sync_store \<Rightarrow> sync_store result) \<Rightarrow> ('g, unit) google_op" where
  "write_store f = (\<lambda>(g, st). case f st of Inl e \<Rightarrow> (Inl e, g, st) | Inr st' \<Rightarrow> (Inr (), g, st'))"

subsection \<open>Replacement\<close>

record replacement_state =
  rp_cutoff :: string
  rp_binding :: string

text \<open>
  \<open>z.string().datetime()\<close>: a date, a time to the second or finer, and \<open>Z\<close>. The calendar is not checked here.
\<close>

definition utc_datetime :: "string \<Rightarrow> bool" where
  "utc_datetime s \<longleftrightarrow> 20 \<le> length s \<and> list_all (\<lambda>i. digit (s ! i)) [0, 1, 2, 3, 5, 6, 8, 9, 11, 12, 14, 15, 17, 18]
     \<and> s ! 4 = CHR ''-'' \<and> s ! 7 = CHR ''-'' \<and> s ! 10 = CHR ''T'' \<and> s ! 13 = CHR '':'' \<and> s ! 16 = CHR '':'' \<and> last s = CHR ''Z''
     \<and> (length s = 20 \<or> (s ! 19 = CHR ''.'' \<and> 22 \<le> length s \<and> list_all digit (butlast (drop 20 s))))"

definition replacement_members :: "(string \<times> json) list \<Rightarrow> replacement_state option" where
  "replacement_members kvs = do {
     required ''version'' (literal (JInt 1)) kvs;
     cutoff \<leftarrow> required ''cutoff'' (text_where utc_datetime) kvs;
     bound \<leftarrow> required ''binding'' (text_where hex64) kvs;
     Some \<lparr>rp_cutoff = cutoff, rp_binding = bound\<rparr> }"

definition replacementState :: "json \<Rightarrow> replacement_state option" where
  "replacementState v = strict_members [''version'', ''cutoff'', ''binding''] v \<bind> replacement_members"

definition replacementReceipt :: "json \<Rightarrow> (replacement_state \<times> string) option" where
  "replacementReceipt v = do {
     kvs \<leftarrow> strict_members [''version'', ''cutoff'', ''binding'', ''action'', ''requestId''] v;
     st \<leftarrow> replacement_members kvs;
     required ''action'' (literal (JStr ''replace'')) kvs;
     i \<leftarrow> required ''requestId'' (string_between 1 512) kvs;
     Some (st, i) }"

definition json_of_replacement :: "replacement_state \<Rightarrow> (string \<times> json) list" where
  "json_of_replacement st = [(''version'', JInt 1), (''cutoff'', JStr (rp_cutoff st)), (''binding'', JStr (rp_binding st))]"

definition replacementKey :: string where
  "replacementKey = ''googleAudienceReplacement''"

definition replacementBinding :: "google_env \<Rightarrow> google_context \<Rightarrow> string result" where
  "replacementBinding E ctx = bindR (target_of (gc_credentials ctx) (gc_options ctx)) (\<lambda>t.
     contentHash (ge_sha E) (JObj [(''target'', t), (''syncId'', JStr (gc_syncId ctx)), (''run'', JStr (gc_logicalRunId ctx)),
       (''revision'', JStr (gc_configRevision ctx)), (''strategy'', JStr ''native-replace'')]))"

definition replacementFor :: "google_env \<Rightarrow> google_context \<Rightarrow> ('g, replacement_state) google_op" where
  "replacementFor E ctx = bindE (read_store (\<lambda>st. store_get replacementKey st \<bind> replacementState)) (\<lambda>prior.
     case prior of
       None \<Rightarrow> failE ''Google replacement cutoff is missing or bound to another run; do not reset or replay''
     | Some r \<Rightarrow> bindE (resultE (replacementBinding E ctx)) (\<lambda>b.
         if rp_binding r \<noteq> b then failE ''Google replacement cutoff is missing or bound to another run; do not reset or replay'' else returnE r))"

subsection \<open>Submission\<close>

definition json_of_write_batch :: "write_batch \<Rightarrow> json" where
  "json_of_write_batch b = JObj [(''batchId'', JStr (wb_id b)), (''records'', JArr (map json_of_record (wb_records b)))]"

definition binding :: "google_env \<Rightarrow> google_context \<Rightarrow> write_batch \<Rightarrow> action \<Rightarrow> string result" where
  "binding E ctx b act = bindR (target_of (gc_credentials ctx) (gc_options ctx)) (\<lambda>t.
     contentHash (ge_sha E) (JObj [(''target'', t), (''revision'', JStr (gc_configRevision ctx)), (''batch'', json_of_write_batch b),
       (''action'', JStr (action_text act))]))"

record submission =
  sb_requestId :: string
  sb_warnings :: bool

fun any_array :: "json \<Rightarrow> bool option" where
  "any_array (JArr vs) = Some (vs \<noteq> [])"
| "any_array _ = None"

definition submission_schema :: "json \<Rightarrow> submission option" where
  "submission_schema v = do {
     kvs \<leftarrow> members_of v;
     i \<leftarrow> required ''requestId'' (string_between 1 512) kvs;
     warnings \<leftarrow> optional ''fieldWarnings'' any_array kvs;
     Some \<lparr>sb_requestId = i, sb_warnings = (warnings = Some True)\<rparr> }"

definition outcomes_all :: "(string \<Rightarrow> outcome) \<Rightarrow> write_batch \<Rightarrow> outcome list" where
  "outcomes_all f b = map (\<lambda>r. f (rec_op r)) (wb_records b)"

fun of_type :: "audience_type \<Rightarrow> audience_member \<Rightarrow> bool" where
  "of_type ContactInfo (UserData _) = True"
| "of_type MobileAdvertisingId (MobileData _) = True"
| "of_type CrmId (UserIdData _) = True"
| "of_type _ _ = False"

definition batch_members :: "action \<Rightarrow> write_batch \<Rightarrow> audience_member list result" where
  "batch_members act b = mapR (\<lambda>r. wire act (rec_row r)) (wb_records b)"

definition submission_body :: "action \<Rightarrow> json \<Rightarrow> audience_member list \<Rightarrow> json" where
  "submission_body act t ms = JObj ([(''destinations'', JArr [t]), (''audienceMembers'', JArr (map (json_of_audience_member act) ms)),
     (''encoding'', JStr ''HEX'')] @ (if act = Upsert then [(''termsOfService'', JObj [(''customerMatchTermsOfServiceStatus'', JStr ''ACCEPTED'')])] else []))"

definition json_of_google_receipt :: "action \<Rightarrow> string \<Rightarrow> string \<Rightarrow> bool \<Rightarrow> json" where
  "json_of_google_receipt act i bound warnings = JObj [(''version'', JInt 1), (''action'', JStr (action_text act)), (''requestId'', JStr i),
     (''binding'', JStr bound), (''submissionWarnings'', JBool warnings)]"

definition auth_rejected :: "string \<Rightarrow> outcome" where
  "auth_rejected i = Rejected i ''GOOGLE_AUTH_UNAVAILABLE'' ''OAuth unavailable; no Google request was submitted''"

definition check_batch :: "google_context \<Rightarrow> action \<Rightarrow> write_batch \<Rightarrow> audience_member list result" where
  "check_batch ctx act b =
     (if wb_records b = [] \<or> length (wb_records b) > 1000 then fail ''Invalid Google audience batch size''
      else bindR (batch_members act b) (\<lambda>ms. case GoogleAudienceOptions (gc_options ctx) of
          None \<Rightarrow> Inl parse_failed
        | Some opts \<Rightarrow> if list_ex (\<lambda>m. \<not> of_type (type_or_contact (ao_fields opts)) m) ms
            then fail ''Audience mapping does not match the selected identifier type'' else Inr ms))"

definition rejected_result :: "write_batch \<Rightarrow> batch_result" where
  "rejected_result b = \<lparr>br_outcomes = outcomes_all auth_rejected b, br_jobs = None, br_checkpoint = None\<rparr>"

definition staged_result :: "write_batch \<Rightarrow> action \<Rightarrow> string \<Rightarrow> string \<Rightarrow> bool \<Rightarrow> batch_result" where
  "staged_result b act i bound warnings = \<lparr>br_outcomes = outcomes_all Staged b, br_jobs = Some [i],
     br_checkpoint = Some (json_of_google_receipt act i bound warnings)\<rparr>"

definition submit_path :: "action \<Rightarrow> string" where
  "submit_path act = ''audienceMembers:'' @ (if act = Upsert then ''ingest'' else ''remove'')"

definition submit_members :: "google_env \<Rightarrow> 'g services \<Rightarrow> google_context \<Rightarrow> write_batch \<Rightarrow> action \<Rightarrow> audience_member list \<Rightarrow> string \<Rightarrow> ('g, batch_result) google_op" where
  "submit_members E S ctx b act ms t =
     bindE (resultE (target_of (gc_credentials ctx) (gc_options ctx))) (\<lambda>tg.
     bindE (on_google (request S ctx (submit_path act) (Some (submission_body act tg ms)) (Some t))) (\<lambda>answer.
     case submission_schema (fst answer) of
       None \<Rightarrow> failE ''Google submission has no valid request receipt; manual reconciliation required''
     | Some sub \<Rightarrow> bindE (resultE (binding E ctx b act)) (\<lambda>bound.
         returnE (staged_result b act (sb_requestId sub) bound (sb_warnings sub)))))"

definition replacement_guard :: "google_env \<Rightarrow> google_context \<Rightarrow> action \<Rightarrow> ('g, unit) google_op" where
  "replacement_guard E ctx act = whenE (ge_replacement E) (bindE (replacementFor E ctx) (\<lambda>_.
     if act \<noteq> Upsert then failE ''Full replacement does not use individual removals'' else returnE ()))"

definition token_or_none :: "'g services \<Rightarrow> ('g, string option) google_op" where
  "token_or_none S = catchE (bindE (on_google (on_services (sv_token S))) (\<lambda>t. returnE (Some t))) (\<lambda>_. returnE None)"

definition submit :: "google_env \<Rightarrow> 'g services \<Rightarrow> google_context \<Rightarrow> write_batch \<Rightarrow> action \<Rightarrow> ('g, batch_result) google_op" where
  "submit E S ctx b act =
     thenE (replacement_guard E ctx act)
     (bindE (resultE (check_batch ctx act b)) (\<lambda>ms.
      thenE (on_google (throw_if_signalled S))
      (bindE (token_or_none S) (\<lambda>token. case token of
         None \<Rightarrow> returnE (rejected_result b)
       | Some t \<Rightarrow> submit_members E S ctx b act ms t))))"

subsection \<open>The status of a request\<close>

definition digits_text :: "string \<Rightarrow> bool" where
  "digits_text s \<longleftrightarrow> s \<noteq> [] \<and> list_all digit s"

definition account_schema :: "json \<Rightarrow> string option" where
  "account_schema v = do {
     kvs \<leftarrow> members_of v;
     required ''accountType'' (literal (JStr ''GOOGLE_ADS'')) kvs;
     required ''accountId'' (text_where (\<lambda>_. True)) kvs }"

text \<open>The parsed destination, with the members the schema names.\<close>

definition destination_schema :: "json \<Rightarrow> json option" where
  "destination_schema v = do {
     kvs \<leftarrow> members_of v;
     operating \<leftarrow> required ''operatingAccount'' account_schema kvs;
     login \<leftarrow> optional ''loginAccount'' account_schema kvs;
     product \<leftarrow> required ''productDestinationId'' (text_where (\<lambda>_. True)) kvs;
     Some (JObj ([(''operatingAccount'', google_account operating)]
       @ (case login of None \<Rightarrow> [] | Some l \<Rightarrow> [(''loginAccount'', google_account l)]) @ [(''productDestinationId'', JStr product)])) }"

definition record_count :: "json \<Rightarrow> string option" where
  "record_count v = members_of v \<bind> required ''recordCount'' (text_where digits_text)"

definition count_schema :: "json \<Rightarrow> unit option" where
  "count_schema v = do {
     kvs \<leftarrow> members_of v;
     required ''recordCount'' (text_where digits_text) kvs;
     optional ''reason'' (text_where (\<lambda>_. True)) kvs;
     Some () }"

fun counts_schema :: "json \<Rightarrow> unit option" where
  "counts_schema (JArr vs) = (if list_all (\<lambda>v. count_schema v \<noteq> None) vs then Some () else None)"
| "counts_schema _ = None"

definition info_schema :: "string \<Rightarrow> json \<Rightarrow> unit option" where
  "info_schema k v = do { kvs \<leftarrow> members_of v; optional k counts_schema kvs; Some () }"

text \<open>The counts of the members by their kind.\<close>

definition kind_counts :: "string list \<Rightarrow> json \<Rightarrow> (audience_type \<Rightarrow> string option) option" where
  "kind_counts ks v = do {
     kvs \<leftarrow> members_of v;
     user \<leftarrow> optional (ks ! 0) record_count kvs;
     mobile \<leftarrow> optional (ks ! 1) record_count kvs;
     crm \<leftarrow> optional (ks ! 2) record_count kvs;
     Some (\<lambda>t. case t of ContactInfo \<Rightarrow> user | MobileAdvertisingId \<Rightarrow> mobile | CrmId \<Rightarrow> crm) }"

record request_status =
  sx_destination :: json
  sx_requestStatus :: string
  sx_errorInfo :: bool
  sx_warningInfo :: bool
  sx_ingestion :: "(audience_type \<Rightarrow> string option) option"
  sx_removal :: "(audience_type \<Rightarrow> string option) option"
  sx_removeAll :: bool
  sx_events :: bool

definition status_schema :: "json \<Rightarrow> request_status option" where
  "status_schema v = do {
     kvs \<leftarrow> members_of v;
     dest \<leftarrow> required ''destination'' destination_schema kvs;
     status \<leftarrow> required ''requestStatus'' (text_where (\<lambda>_. True)) kvs;
     errors \<leftarrow> optional ''errorInfo'' (info_schema ''errorCounts'') kvs;
     warnings \<leftarrow> optional ''warningInfo'' (info_schema ''warningCounts'') kvs;
     ingestion \<leftarrow> optional ''audienceMembersIngestionStatus''
       (kind_counts [''userDataIngestionStatus'', ''mobileDataIngestionStatus'', ''userIdDataIngestionStatus'']) kvs;
     removal \<leftarrow> optional ''audienceMembersRemovalStatus''
       (kind_counts [''userDataRemovalStatus'', ''mobileDataRemovalStatus'', ''userIdDataRemovalStatus'']) kvs;
     every \<leftarrow> optional ''removeAllAudienceMembersStatus'' (strict_members []) kvs;
     Some \<lparr>sx_destination = dest, sx_requestStatus = status, sx_errorInfo = (errors \<noteq> None), sx_warningInfo = (warnings \<noteq> None),
       sx_ingestion = ingestion, sx_removal = removal, sx_removeAll = (every \<noteq> None), sx_events = (map_of kvs ''eventsIngestionStatus'' \<noteq> None)\<rparr> }"

definition statusResponse :: "json \<Rightarrow> request_status option" where
  "statusResponse v = do {
     kvs \<leftarrow> members_of v;
     all \<leftarrow> required ''requestStatusPerDestination'' (array_schema status_schema 1) kvs;
     (case all of [status] \<Rightarrow> Some status | _ \<Rightarrow> None) }"

definition retrieve_path :: "string \<Rightarrow> string" where
  "retrieve_path i = ''requestStatus:retrieve?requestId='' @ encodeURIComponent i"

definition same_target :: "google_env \<Rightarrow> google_context \<Rightarrow> request_status \<Rightarrow> bool result" where
  "same_target E ctx status = bindR (contentHash (ge_sha E) (sx_destination status)) (\<lambda>h.
     bindR (target_of (gc_credentials ctx) (gc_options ctx)) (\<lambda>t. bindR (contentHash (ge_sha E) t) (\<lambda>h'. Inr (h = h'))))"

definition undecided :: "request_status \<Rightarrow> bool" where
  "undecided status \<longleftrightarrow> sx_requestStatus status \<in> {''PROCESSING'', ''REQUEST_STATUS_UNKNOWN''}"

subsection \<open>Reconciliation of a batch\<close>

record google_receipt =
  gr_action :: action
  gr_requestId :: string
  gr_binding :: string
  gr_warnings :: bool

fun action_schema :: "json \<Rightarrow> action option" where
  "action_schema v = (if v = JStr ''upsert'' then Some Upsert else if v = JStr ''remove'' then Some Remove else None)"

fun bool_schema :: "json \<Rightarrow> bool option" where
  "bool_schema (JBool b) = Some b"
| "bool_schema _ = None"

definition receipt_schema :: "json \<Rightarrow> google_receipt option" where
  "receipt_schema v = do {
     kvs \<leftarrow> strict_members [''version'', ''action'', ''requestId'', ''binding'', ''submissionWarnings''] v;
     required ''version'' (literal (JInt 1)) kvs;
     act \<leftarrow> required ''action'' action_schema kvs;
     i \<leftarrow> required ''requestId'' (string_between 1 512) kvs;
     bound \<leftarrow> required ''binding'' (text_where hex64) kvs;
     warnings \<leftarrow> required ''submissionWarnings'' bool_schema kvs;
     Some \<lparr>gr_action = act, gr_requestId = i, gr_binding = bound, gr_warnings = warnings\<rparr> }"

definition prepared_of :: "write_batch \<Rightarrow> action \<Rightarrow> prepared_batch" where
  "prepared_of b act = \<lparr>pb_id = wb_id b, pb_action = act, pb_records = wb_records b, pb_payloadHash = [], pb_cursor = None\<rparr>"

definition google_request_failed :: "string \<Rightarrow> outcome" where
  "google_request_failed i = Rejected i ''GOOGLE_REQUEST_FAILED'' ''Google rejected all records in this request''"

text \<open>The receipt belongs to this batch and nothing of it is settled.\<close>

definition check_receipt :: "google_env \<Rightarrow> google_context \<Rightarrow> write_batch \<Rightarrow> action \<Rightarrow> batch_result \<Rightarrow> google_receipt \<Rightarrow> unit result" where
  "check_receipt E ctx b act prior r =
     bindR (validateBatchResult (prepared_of b act) (json_of_batch_result prior)) (\<lambda>_.
     if gr_action r \<noteq> act then fail ''Google recovery receipt does not match this batch''
     else bindR (binding E ctx b act) (\<lambda>bound.
     if gr_binding r \<noteq> bound \<or> br_jobs prior \<noteq> Some [gr_requestId r] \<or> list_ex (\<lambda>out. \<not> is_staged out) (br_outcomes prior)
     then fail ''Google recovery receipt does not match this batch'' else Inr ()))"

definition expected_count :: "google_context \<Rightarrow> action \<Rightarrow> request_status \<Rightarrow> string option result" where
  "expected_count ctx act status = (case GoogleAudienceOptions (gc_options ctx) of
      None \<Rightarrow> Inl parse_failed
    | Some opts \<Rightarrow> Inr ((if act = Upsert then sx_ingestion status else sx_removal status) \<bind> (\<lambda>f. f (type_or_contact (ao_fields opts)))))"

definition verified :: "google_receipt \<Rightarrow> action \<Rightarrow> nat \<Rightarrow> string option \<Rightarrow> request_status \<Rightarrow> bool" where
  "verified r act n counted status \<longleftrightarrow> sx_requestStatus status = ''SUCCESS'' \<and> \<not> gr_warnings r \<and> \<not> sx_errorInfo status \<and> \<not> sx_warningInfo status
     \<and> \<not> sx_removeAll status \<and> \<not> sx_events status \<and> counted = Some (nat_text n)
     \<and> (if act = Upsert then sx_removal status = None else sx_ingestion status = None)"

definition settle_status :: "google_env \<Rightarrow> google_context \<Rightarrow> write_batch \<Rightarrow> action \<Rightarrow> batch_result \<Rightarrow> google_receipt \<Rightarrow> json \<Rightarrow> batch_result result" where
  "settle_status E ctx b act prior r answer = (case statusResponse answer of
      None \<Rightarrow> fail ''Malformed Google request status; manual reconciliation required''
    | Some status \<Rightarrow>
        bindR (same_target E ctx status) (\<lambda>same.
        if \<not> same then fail ''Google status target mismatch''
        else if undecided status then Inr prior
        else if sx_requestStatus status = ''FAILED'' then Inr (prior\<lparr>br_outcomes := outcomes_all google_request_failed b\<rparr>)
        else bindR (expected_count ctx act status) (\<lambda>counted.
          if verified r act (length (wb_records b)) counted status then Inr (prior\<lparr>br_outcomes := outcomes_all Accepted b\<rparr>)
          else fail ''Google result is partial, warned or unverified; manual reconciliation required, no automatic replay'')))"

definition reconcileBatch :: "google_env \<Rightarrow> 'g services \<Rightarrow> google_context \<Rightarrow> write_batch \<Rightarrow> action \<Rightarrow> batch_result option \<Rightarrow> ('g, batch_result) google_op" where
  "reconcileBatch E S ctx b act prior = (case prior of
      None \<Rightarrow> failE ''Google request ID unavailable; manual reconciliation required, no automatic replay''
    | Some sv \<Rightarrow> (case br_checkpoint sv \<bind> receipt_schema of
        None \<Rightarrow> failE ''Google request ID unavailable; manual reconciliation required, no automatic replay''
      | Some r \<Rightarrow>
          bindE (resultE (check_receipt E ctx b act sv r)) (\<lambda>_.
          bindE (resultE (batch_members act b)) (\<lambda>_.
          bindE (on_google (request S ctx (retrieve_path (gr_requestId r)) None None)) (\<lambda>answer.
          resultE (settle_status E ctx b act sv r (fst answer)))))))"

subsection \<open>The end of a replacement\<close>

definition finishReplacement :: "google_env \<Rightarrow> 'g services \<Rightarrow> google_context \<Rightarrow> ('g, finish_result) google_op" where
  "finishReplacement E S ctx =
     bindE (replacementFor E ctx) (\<lambda>st.
     bindE (resultE (target_of (gc_credentials ctx) (gc_options ctx))) (\<lambda>t.
     bindE (on_google (request S ctx ''audienceMembers:removeAll''
       (Some (JObj [(''destinations'', JArr [t]), (''removeAsOfTime'', JStr (rp_cutoff st))])) None)) (\<lambda>answer.
     case submission_schema (fst answer) of
       None \<Rightarrow> failE ''Google replacement cleanup receipt unavailable; manual reconciliation required, no automatic replay''
     | Some sub \<Rightarrow>
         if sb_warnings sub then failE ''Google replacement cleanup receipt unavailable; manual reconciliation required, no automatic replay''
         else returnE \<lparr>fr_delivery = DeliveryPending, fr_jobs = Some [sb_requestId sub],
           fr_checkpoint = Some (JObj (json_of_replacement st @ [(''action'', JStr ''replace''), (''requestId'', JStr (sb_requestId sub))]))\<rparr>)))"

definition cleanup_verified :: "request_status \<Rightarrow> bool" where
  "cleanup_verified status \<longleftrightarrow> sx_requestStatus status = ''SUCCESS'' \<and> \<not> sx_errorInfo status \<and> \<not> sx_warningInfo status \<and> sx_removeAll status
     \<and> sx_ingestion status = None \<and> sx_removal status = None \<and> \<not> sx_events status"

definition settle_cleanup :: "google_env \<Rightarrow> google_context \<Rightarrow> finish_result \<Rightarrow> json \<Rightarrow> finish_result result" where
  "settle_cleanup E ctx prior answer = (case statusResponse answer of
      None \<Rightarrow> fail ''Malformed Google replacement status; manual reconciliation required''
    | Some status \<Rightarrow>
        bindR (same_target E ctx status) (\<lambda>same.
        if \<not> same then fail ''Google replacement status target mismatch''
        else if undecided status then Inr prior
        else if cleanup_verified status then Inr (prior\<lparr>fr_delivery := DeliveryAccepted\<rparr>)
        else fail ''Google replacement cleanup failed or is unverified; manual reconciliation required, no automatic replay''))"

definition reconcileFinish :: "google_env \<Rightarrow> 'g services \<Rightarrow> google_context \<Rightarrow> finish_result option \<Rightarrow> ('g, finish_result) google_op" where
  "reconcileFinish E S ctx prior =
     (if \<not> ge_replacement E then returnE \<lparr>fr_delivery = DeliveryAccepted, fr_jobs = None, fr_checkpoint = None\<rparr>
      else bindE (replacementFor E ctx) (\<lambda>st. case prior of
          None \<Rightarrow> failE ''Google replacement cleanup receipt unavailable; manual reconciliation required, no automatic replay''
        | Some sv \<Rightarrow> (case fr_checkpoint sv \<bind> replacementReceipt of
            None \<Rightarrow> failE ''Google replacement cleanup receipt unavailable; manual reconciliation required, no automatic replay''
          | Some (r, i) \<Rightarrow>
              if fr_delivery sv \<noteq> DeliveryPending \<or> rp_binding r \<noteq> rp_binding st \<or> rp_cutoff r \<noteq> rp_cutoff st \<or> fr_jobs sv \<noteq> Some [i]
              then failE ''Google replacement cleanup receipt unavailable; manual reconciliation required, no automatic replay''
              else bindE (on_google (request S ctx (retrieve_path i) None None)) (\<lambda>answer. resultE (settle_cleanup E ctx sv (fst answer))))))"

subsection \<open>The writer\<close>

definition check_writer :: "google_env \<Rightarrow> google_context \<Rightarrow> unit result" where
  "check_writer E ctx = (case GoogleAudienceOptions (gc_options ctx) of
      None \<Rightarrow> Inl parse_failed
    | Some opts \<Rightarrow>
        if ge_replacement E \<noteq> ao_fullReplace opts \<or> (ge_replacement E \<and> \<not> gc_mirror ctx)
        then fail ''Google replacement requires an explicitly configured mirror sync''
        else bindR (googleAudienceTargetIdentity (gc_credentials ctx) (gc_options ctx)) (\<lambda>identity.
          if gc_targetIdentity ctx \<noteq> identity then fail ''Google audience target/mode mismatch''
          else if gc_mirror ctx \<and> \<not> ge_replacement E \<and> (case ge_managed E of None \<Rightarrow> True | Some m \<Rightarrow>
              mg_syncId m \<noteq> gc_syncId ctx \<or> Some (mg_id m) \<noteq> ao_managedAudienceId opts \<or> mg_audienceId m \<noteq> ao_audienceId opts
              \<or> Some (mg_customerId m) \<noteq> map_option cr_customerId (GoogleAudienceCredentials (gc_credentials ctx)))
            then fail ''Google mirror requires a verified Jitsu-managed audience''
          else Inr ()))"

definition list_path :: "string \<Rightarrow> string \<Rightarrow> string" where
  "list_path customer audience = ''accountTypes/GOOGLE_ADS/accounts/'' @ customer @ ''/userLists/'' @ audience"

text \<open>The cutoff of a replacement is a time of Google's clock.\<close>

definition cutoff_of :: "'g services \<Rightarrow> string \<Rightarrow> string \<Rightarrow> json \<times> string option \<Rightarrow> string option" where
  "cutoff_of S customer audience answer = do {
     kvs \<leftarrow> members_of (fst answer);
     name \<leftarrow> required ''name'' (text_where (\<lambda>_. True)) kvs;
     i \<leftarrow> required ''id'' (text_where (\<lambda>_. True)) kvs;
     check (i = audience \<and> name = list_path customer audience);
     date \<leftarrow> snd answer;
     check (date \<noteq> []);
     sv_isoTime S date }"

definition init_writer :: "google_env \<Rightarrow> 'g services \<Rightarrow> google_context \<Rightarrow> ('g, unit) google_op" where
  "init_writer E S ctx = whenE (ge_replacement E)
     (bindE (parsedE (GoogleAudienceCredentials (gc_credentials ctx))) (\<lambda>c.
      bindE (parsedE (GoogleAudienceOptions (gc_options ctx))) (\<lambda>opts.
      bindE (on_google (request S ctx (list_path (cr_customerId c) (ao_audienceId opts)) None None)) (\<lambda>answer.
      case cutoff_of S (cr_customerId c) (ao_audienceId opts) answer of
        None \<Rightarrow> failE ''Google replacement cutoff unavailable; no audience changes submitted''
      | Some cutoff \<Rightarrow> bindE (resultE (replacementBinding E ctx)) (\<lambda>bound.
          write_store (store_set replacementKey (JObj (json_of_replacement \<lparr>rp_cutoff = cutoff, rp_binding = bound\<rparr>))))))))"

definition finish_writer :: "google_env \<Rightarrow> 'g services \<Rightarrow> google_context \<Rightarrow> ('g, finish_result) google_op" where
  "finish_writer E S ctx = (if ge_replacement E then finishReplacement E S ctx
     else returnE \<lparr>fr_delivery = DeliveryAccepted, fr_jobs = None, fr_checkpoint = None\<rparr>)"

text \<open>The operations of a writer do not reach the journal.\<close>

definition outside :: "('g, 'a) google_op \<Rightarrow> ('j, 'g google, 'a) external" where
  "outside m = (\<lambda>(j, g, st). case m (g, st) of (r, g', st') \<Rightarrow> (r, j, g', st'))"

definition create_writer :: "google_env \<Rightarrow> google_context \<Rightarrow> ('g, writer_methods) google_op" where
  "create_writer E ctx = bindE (resultE (check_writer E ctx)) (\<lambda>_. returnE \<lparr>wm_remove = True, wm_reconcile = True\<rparr>)"

definition as_json :: "('a \<Rightarrow> json) \<Rightarrow> ('g, 'a) google_op \<Rightarrow> ('g, json) google_op" where
  "as_json f m = bindE m (\<lambda>x. returnE (f x))"

definition google_provider :: "google_env \<Rightarrow> 'g services \<Rightarrow> google_context \<Rightarrow> ('j, 'g google) provider" where
  "google_provider E S ctx = \<lparr>
     p_createWriter = outside (create_writer E ctx),
     p_init = outside (init_writer E S ctx),
     p_upsert = (\<lambda>b. outside (as_json json_of_batch_result (submit E S ctx b Upsert))),
     p_remove = (\<lambda>b. outside (as_json json_of_batch_result (submit E S ctx b Remove))),
     p_finish = outside (as_json json_of_finish_result (finish_writer E S ctx)),
     p_abort = (\<lambda>_. outside (returnE ()))\<rparr>"

definition saved_finish :: "json option \<Rightarrow> finish_result option" where
  "saved_finish v = v \<bind> finishResult_schema"

definition google_recovery :: "google_env \<Rightarrow> 'g services \<Rightarrow> google_context \<Rightarrow> ('j, 'g google) recovery_hooks" where
  "google_recovery E S ctx = \<lparr>
     rh_attachWriter = outside (create_writer E ctx),
     rh_reconcileBatch = Some (\<lambda>b act prior. outside (as_json json_of_batch_result (reconcileBatch E S ctx b act prior))),
     rh_reconcileFinish = Some (\<lambda>prior. outside (as_json json_of_finish_result (reconcileFinish E S ctx (saved_finish prior)))),
     rh_reconcileInit = Some (outside (returnE ''absent'')),
     rh_reconcileAbort = Some (outside (returnE ()))\<rparr>"

end
