(* ===== verification/GoogleManagement.thy ===== *)
theory GoogleManagement
  imports GoogleWriter
begin

text \<open>
  The management of Google audiences, \<open>audience/management.ts\<close>: the list of users behind an audience is read, created, searched by its
  integration code and compared with what the runner expects of it. The schema of a managed audience is that of \<open>audience/meta.ts\<close>.
\<close>

subsection \<open>Managed audiences\<close>

text \<open>\<open>/^jitsu-retl-[a-f0-9]{64}$/\<close>.\<close>

definition integration_code :: "string \<Rightarrow> bool" where
  "integration_code s \<longleftrightarrow> take 11 s = ''jitsu-retl-'' \<and> hex64 (drop 11 s)"

definition managed_names :: "string list" where
  "managed_names = [''id'', ''syncId'', ''customerId'', ''integrationCode'', ''displayName'', ''membershipDays''] @ audience_field_names"

definition managed_members :: "(string \<times> json) list \<Rightarrow> managed_intent option" where
  "managed_members kvs = do {
     i \<leftarrow> required ''id'' (text_where managed_id) kvs;
     sync \<leftarrow> required ''syncId'' (string_between 1 128) kvs;
     customer \<leftarrow> required ''customerId'' googleCustomerId kvs;
     code \<leftarrow> required ''integrationCode'' (text_where integration_code) kvs;
     name \<leftarrow> required ''displayName'' (string_between 1 255) kvs;
     days \<leftarrow> required ''membershipDays'' (int_between 1 540) kvs;
     rest \<leftarrow> audienceFields kvs;
     Some \<lparr>mg_id = i, mg_syncId = sync, mg_customerId = customer, mg_integrationCode = code, mg_displayName = name, mg_membershipDays = days,
       mg_fields = rest\<rparr> }"

definition with_audience :: "managed_intent \<Rightarrow> string \<Rightarrow> managed_audience" where
  "with_audience m i = managed_intent.extend m \<lparr>mg_audienceId = i\<rparr>"

definition GoogleManagedAudience :: "json \<Rightarrow> managed_audience option" where
  "GoogleManagedAudience v = do {
     kvs \<leftarrow> strict_members (''audienceId'' # managed_names) v;
     m \<leftarrow> managed_members kvs;
     i \<leftarrow> required ''audienceId'' (text_where audience_id) kvs;
     Some (with_audience m i) }"

text \<open>\<open>GoogleManagedAudience.omit({ audienceId: true })\<close>.\<close>

definition managed_without_id :: "json \<Rightarrow> managed_intent option" where
  "managed_without_id v = strict_members managed_names v \<bind> managed_members"

fun type_text :: "audience_type \<Rightarrow> string" where
  "type_text ContactInfo = ''CONTACT_INFO''"
| "type_text MobileAdvertisingId = ''MOBILE_ADVERTISING_ID''"
| "type_text CrmId = ''CRM_ID''"

definition json_of_fields :: "audience_fields \<Rightarrow> (string \<times> json) list" where
  "json_of_fields f = optional_member ''identifierType'' (\<lambda>t. JStr (type_text t)) (af_identifierType f) @ optional_member ''appId'' JStr (af_appId f)
     @ optional_member ''mobilePlatform'' JStr (af_mobilePlatform f)"

definition json_of_managed :: "managed_intent \<Rightarrow> (string \<times> json) list" where
  "json_of_managed m = [(''id'', JStr (mg_id m)), (''syncId'', JStr (mg_syncId m)), (''customerId'', JStr (mg_customerId m)),
     (''integrationCode'', JStr (mg_integrationCode m)), (''displayName'', JStr (mg_displayName m)), (''membershipDays'', JInt (mg_membershipDays m))]
     @ json_of_fields (mg_fields m)"

definition json_of_audience :: "managed_audience \<Rightarrow> json" where
  "json_of_audience m = JObj (json_of_managed (managed_intent.truncate m) @ [(''audienceId'', JStr (mg_audienceId m))])"

subsection \<open>User lists\<close>

record list_info =
  li_uploadKeyTypes :: "string list"
  li_contactSource :: "string option"
  li_mobile :: "(string \<times> string) option"

record user_list =
  ul_name :: string
  ul_id :: string
  ul_displayName :: string
  ul_integrationCode :: "string option"
  ul_membershipDuration :: string
  ul_membershipStatus :: string
  ul_readOnly :: bool
  ul_accessReason :: string
  ul_info :: "list_info option"

abbreviation any_text :: "json \<Rightarrow> string option" where
  "any_text \<equiv> text_where (\<lambda>_. True)"

fun texts_schema :: "json \<Rightarrow> string list option" where
  "texts_schema (JArr vs) = parse_all any_text vs"
| "texts_schema _ = None"

definition mobile_info_schema :: "json \<Rightarrow> (string \<times> string) option" where
  "mobile_info_schema v = do {
     kvs \<leftarrow> members_of v;
     optional ''dataSourceType'' any_text kvs;
     app \<leftarrow> required ''appId'' any_text kvs;
     space \<leftarrow> required ''keySpace'' any_text kvs;
     Some (app, space) }"

definition list_info_schema :: "json \<Rightarrow> list_info option" where
  "list_info_schema v = do {
     kvs \<leftarrow> members_of v;
     ks \<leftarrow> required ''uploadKeyTypes'' texts_schema kvs;
     contact \<leftarrow> optional ''contactIdInfo'' (\<lambda>c. members_of c \<bind> required ''dataSourceType'' any_text) kvs;
     mobile \<leftarrow> optional ''mobileIdInfo'' mobile_info_schema kvs;
     optional ''userIdInfo'' (\<lambda>c. members_of c \<bind> optional ''dataSourceType'' any_text) kvs;
     Some \<lparr>li_uploadKeyTypes = ks, li_contactSource = contact, li_mobile = mobile\<rparr> }"

definition userList :: "json \<Rightarrow> user_list option" where
  "userList v = do {
     kvs \<leftarrow> members_of v;
     name \<leftarrow> required ''name'' any_text kvs;
     i \<leftarrow> required ''id'' (text_where audience_id) kvs;
     display \<leftarrow> required ''displayName'' any_text kvs;
     code \<leftarrow> optional ''integrationCode'' any_text kvs;
     duration \<leftarrow> required ''membershipDuration'' any_text kvs;
     status \<leftarrow> required ''membershipStatus'' any_text kvs;
     locked \<leftarrow> optional ''readOnly'' bool_schema kvs;
     access \<leftarrow> required ''accessReason'' any_text kvs;
     info \<leftarrow> optional ''ingestedUserListInfo'' list_info_schema kvs;
     Some \<lparr>ul_name = name, ul_id = i, ul_displayName = display, ul_integrationCode = code, ul_membershipDuration = duration,
       ul_membershipStatus = status, ul_readOnly = (locked = Some True), ul_accessReason = access, ul_info = info\<rparr> }"

definition firstParty :: string where
  "firstParty = ''DATA_SOURCE_TYPE_FIRST_PARTY''"

definition empty_text :: "string option \<Rightarrow> bool" where
  "empty_text v \<longleftrightarrow> v = None \<or> v = Some []"

fun upload_key :: "audience_type \<Rightarrow> string" where
  "upload_key ContactInfo = ''CONTACT_ID''"
| "upload_key CrmId = ''USER_ID''"
| "upload_key MobileAdvertisingId = ''MOBILE_ID''"

definition listInfo :: "audience_fields \<Rightarrow> json result" where
  "listInfo f = (case af_identifierType f of
      Some MobileAdvertisingId \<Rightarrow>
        if empty_text (af_appId f) \<or> empty_text (af_mobilePlatform f) then fail ''Mobile audiences require an App ID and mobile platform''
        else Inr (JObj [(''uploadKeyTypes'', json_of_strings [''MOBILE_ID'']),
          (''mobileIdInfo'', JObj [(''dataSourceType'', JStr firstParty), (''appId'', JStr (the (af_appId f))), (''keySpace'', JStr (the (af_mobilePlatform f)))])])
    | Some CrmId \<Rightarrow> Inr (JObj [(''uploadKeyTypes'', json_of_strings [''USER_ID'']), (''userIdInfo'', JObj [(''dataSourceType'', JStr firstParty)])])
    | _ \<Rightarrow> Inr (JObj [(''uploadKeyTypes'', json_of_strings [''CONTACT_ID'']), (''contactIdInfo'', JObj [(''dataSourceType'', JStr firstParty)])]))"

definition matchesType :: "user_list \<Rightarrow> audience_fields \<Rightarrow> bool" where
  "matchesType l f \<longleftrightarrow> (case ul_info l of
      None \<Rightarrow> False
    | Some actual \<Rightarrow> upload_key (type_or_contact f) \<in> set (li_uploadKeyTypes actual) \<and> (case type_or_contact f of
          ContactInfo \<Rightarrow> li_contactSource actual = Some firstParty
        | MobileAdvertisingId \<Rightarrow> (empty_text (af_appId f) \<or> map_option fst (li_mobile actual) = af_appId f)
            \<and> (empty_text (af_mobilePlatform f) \<or> map_option snd (li_mobile actual) = af_mobilePlatform f)
        | CrmId \<Rightarrow> True))"

subsection \<open>The operations\<close>

definition management_failed :: exn where
  "management_failed = ReverseEtlProtocolError ''Google audience management unavailable; preserve creation evidence and reconcile''"

definition parent_path :: "audience_credentials \<Rightarrow> string" where
  "parent_path c = ''accountTypes/GOOGLE_ADS/accounts/'' @ cr_customerId c"

definition user_list_path :: "audience_credentials \<Rightarrow> string \<Rightarrow> string" where
  "user_list_path c i = parent_path c @ ''/userLists/'' @ i"

definition management_call :: "('g, string) oper \<Rightarrow> 'g services \<Rightarrow> audience_credentials \<Rightarrow> string \<Rightarrow> json option \<Rightarrow> ('g google, json) oper" where
  "management_call token S c path body =
     thenE (throw_if_signalled S)
     (catchE
       (bindE (on_services token) (\<lambda>t.
        thenE (throw_if_signalled S)
        (bindE (fetchE S \<lparr>hq_url = dataManagerBaseUrl @ path, hq_post = (body \<noteq> None), hq_headers = dataManagerHeaders t (cr_loginCustomerId c), hq_body = body\<rparr>) (\<lambda>response.
         if hs_ok response then resultE (hs_json response) else throwE management_failed))))
       (\<lambda>_. throwE management_failed))"

definition membership_duration :: "int \<Rightarrow> string" where
  "membership_duration days = int_text (days * 86400) @ ''s''"

definition list_matches :: "audience_credentials \<Rightarrow> user_list \<Rightarrow> managed_intent \<Rightarrow> string option \<Rightarrow> bool" where
  "list_matches c l expected wanted \<longleftrightarrow> ul_name l = user_list_path c (ul_id l) \<and> (empty_text wanted \<or> wanted = Some (ul_id l))
     \<and> ul_displayName l = mg_displayName expected \<and> ul_integrationCode l = Some (mg_integrationCode expected) \<and> \<not> ul_readOnly l
     \<and> ul_accessReason l = ''OWNED'' \<and> ul_membershipStatus l = ''OPEN'' \<and> ul_membershipDuration l = membership_duration (mg_membershipDays expected)
     \<and> (case ul_info l of None \<Rightarrow> False | Some info \<Rightarrow> length (li_uploadKeyTypes info) = 1) \<and> matchesType l (mg_fields expected)"

definition verify :: "audience_credentials \<Rightarrow> json \<Rightarrow> managed_intent \<Rightarrow> string option \<Rightarrow> string result" where
  "verify c v expected wanted = bindR (listInfo (mg_fields expected)) (\<lambda>_. case userList v of
      None \<Rightarrow> Inl management_failed
    | Some l \<Rightarrow> if list_matches c l expected wanted then Inr (ul_id l) else Inl management_failed)"

definition existing_matches :: "audience_credentials \<Rightarrow> string \<Rightarrow> audience_fields \<Rightarrow> user_list \<Rightarrow> bool" where
  "existing_matches c audienceId f l \<longleftrightarrow> ul_id l = audienceId \<and> ul_name l = user_list_path c audienceId \<and> \<not> ul_readOnly l
     \<and> ul_accessReason l = ''OWNED'' \<and> ul_membershipStatus l = ''OPEN'' \<and> matchesType l f"

definition verifyExisting :: "'g services \<Rightarrow> audience_credentials \<Rightarrow> string \<Rightarrow> audience_fields \<Rightarrow> ('g google, string \<times> string) oper" where
  "verifyExisting S c audienceId f =
     thenE (if audience_id audienceId then returnE () else throwE parse_failed)
     (bindE (management_call (sv_token S) S c (user_list_path c audienceId) None) (\<lambda>v. case userList v of
        None \<Rightarrow> throwE management_failed
      | Some l \<Rightarrow> if existing_matches c audienceId f l then returnE (ul_id l, ul_displayName l) else throwE management_failed))"

definition creation_body :: "managed_intent \<Rightarrow> json \<Rightarrow> json" where
  "creation_body m info = JObj [(''displayName'', JStr (mg_displayName m)), (''integrationCode'', JStr (mg_integrationCode m)),
     (''description'', JStr ''Managed exclusively by Jitsu Reverse ETL; do not upload members outside Jitsu.''),
     (''membershipDuration'', JStr (membership_duration (mg_membershipDays m))), (''membershipStatus'', JStr ''OPEN''), (''ingestedUserListInfo'', info)]"

definition create_audience :: "('g, string) oper \<Rightarrow> 'g services \<Rightarrow> audience_credentials \<Rightarrow> managed_intent \<Rightarrow> ('g google, string) oper" where
  "create_audience token S c m =
     bindE (resultE (listInfo (mg_fields m))) (\<lambda>info.
     bindE (management_call token S c (parent_path c @ ''/userLists'') (Some (creation_body m info))) (\<lambda>v.
     resultE (verify c v m None)))"

definition search_path :: "audience_credentials \<Rightarrow> managed_intent \<Rightarrow> string" where
  "search_path c m = parent_path c @ ''/userLists?filter='' @ form_text (''integration_code = '' @ json_text (JStr (mg_integrationCode m))) @ ''&pageSize=2''"

fun any_values :: "json \<Rightarrow> json list option" where
  "any_values (JArr vs) = Some vs"
| "any_values _ = None"

definition found_lists :: "json \<Rightarrow> (json list \<times> string option) option" where
  "found_lists v = do {
     kvs \<leftarrow> members_of v;
     ls \<leftarrow> defaulted ''userLists'' any_values [] kvs;
     next_page \<leftarrow> optional ''nextPageToken'' any_text kvs;
     Some (ls, next_page) }"

definition found_audience :: "audience_credentials \<Rightarrow> managed_intent \<Rightarrow> json \<Rightarrow> string option result" where
  "found_audience c m v = (case found_lists v of
      None \<Rightarrow> Inl management_failed
    | Some (ls, page) \<Rightarrow>
        if \<not> empty_text page \<or> length ls > 1 then Inl management_failed
        else if ls \<noteq> [] then bindR (verify c (hd ls) m None) (\<lambda>i. Inr (Some i)) else Inr None)"

definition reconcile_audience :: "'g services \<Rightarrow> audience_credentials \<Rightarrow> managed_intent \<Rightarrow> ('g google, string option) oper" where
  "reconcile_audience S c m = bindE (management_call (sv_token S) S c (search_path c m) None) (\<lambda>v. resultE (found_audience c m v))"

definition verifyManaged :: "'g services \<Rightarrow> audience_credentials \<Rightarrow> managed_audience \<Rightarrow> ('g google, string) oper" where
  "verifyManaged S c m =
     bindE (parsedE (GoogleManagedAudience (json_of_audience m))) (\<lambda>prior.
     if mg_customerId prior \<noteq> cr_customerId c then throwE management_failed
     else bindE (management_call (sv_token S) S c (user_list_path c (mg_audienceId prior)) None) (\<lambda>v.
       resultE (verify c v (managed_intent.truncate prior) (Some (mg_audienceId prior)))))"

end
