(* ===== verification/GoogleProvisioning.thy ===== *)
theory GoogleProvisioning
  imports GoogleManagement Execute Schedule
begin

text \<open>
  The provisioning of Google audiences, \<open>audience/provisioning.ts\<close> and \<open>audience/state.ts\<close>: the settings of a link are resolved to an
  audience. An audience that Jitsu manages is created once: its intent is saved in the target state of the sync before the request, and a
  request that may have been made is only searched for. The target state is \<open>target-state.ts\<close>, each call in a transaction with its faults;
  the random nonce and the log of the task are arguments.
\<close>

subsection \<open>Settings\<close>

datatype audience_choice = ManagedChoice string | ExistingChoice string

record audience_settings =
  as_audience :: audience_choice
  as_exclusive :: bool
  as_strategy :: "string option"
  as_membershipDays :: "int option"
  as_fields :: audience_fields

definition choice_schema :: "json \<Rightarrow> audience_choice option" where
  "choice_schema v = do {
     kvs \<leftarrow> members_of v;
     kind \<leftarrow> required ''kind'' (one_text [''managed'', ''existing'']) kvs;
     (if kind = ''managed''
      then do {
        strict_members [''kind'', ''displayName''] v;
        name \<leftarrow> required ''displayName'' any_text kvs;
        check (1 \<le> length (trim name) \<and> length (trim name) \<le> 120);
        Some (ManagedChoice (trim name)) }
      else do {
        strict_members [''kind'', ''audienceId''] v;
        i \<leftarrow> required ''audienceId'' (text_where audience_id) kvs;
        Some (ExistingChoice i) }) }"

fun is_managed :: "audience_choice \<Rightarrow> bool" where
  "is_managed (ManagedChoice _) = True"
| "is_managed (ExistingChoice _) = False"

definition GoogleAudienceSettings :: "json \<Rightarrow> audience_settings option" where
  "GoogleAudienceSettings v = do {
     kvs \<leftarrow> strict_members ([''audience'', ''customerMatchTermsAccepted'', ''exclusiveManagementConfirmed'', ''mirrorStrategy'', ''membershipDays'']
        @ audience_field_names) v;
     audience \<leftarrow> required ''audience'' choice_schema kvs;
     required ''customerMatchTermsAccepted'' (literal (JBool True)) kvs;
     exclusive \<leftarrow> optional ''exclusiveManagementConfirmed'' (literal (JBool True)) kvs;
     strategy \<leftarrow> optional ''mirrorStrategy'' (one_text [''snapshot-diff'', ''full-replace'']) kvs;
     days \<leftarrow> optional ''membershipDays'' (int_between 1 540) kvs;
     rest \<leftarrow> audienceFields kvs;
     check (is_managed audience \<or> strategy = Some ''full-replace'' \<longrightarrow> exclusive \<noteq> None);
     Some \<lparr>as_audience = audience, as_exclusive = (exclusive \<noteq> None), as_strategy = strategy, as_membershipDays = days, as_fields = rest\<rparr> }"

text \<open>The parsed settings without the audience; the options a stream gets are these and the identity of the audience.\<close>

definition settings_rest :: "audience_settings \<Rightarrow> (string \<times> json) list" where
  "settings_rest s = [(''customerMatchTermsAccepted'', JBool True)] @ (if as_exclusive s then [(''exclusiveManagementConfirmed'', JBool True)] else [])
     @ optional_member ''mirrorStrategy'' JStr (as_strategy s) @ optional_member ''membershipDays'' JInt (as_membershipDays s) @ json_of_fields (as_fields s)"

fun json_of_choice :: "audience_choice \<Rightarrow> json" where
  "json_of_choice (ManagedChoice name) = JObj [(''kind'', JStr ''managed''), (''displayName'', JStr name)]"
| "json_of_choice (ExistingChoice i) = JObj [(''kind'', JStr ''existing''), (''audienceId'', JStr i)]"

definition json_of_settings :: "audience_settings \<Rightarrow> json" where
  "json_of_settings s = JObj ((''audience'', json_of_choice (as_audience s)) # settings_rest s)"

definition json_of_credentials :: "audience_credentials \<Rightarrow> json" where
  "json_of_credentials c = JObj [(''authorized'', JBool True), (''oauthIntegrationId'', JStr googleDataManagerOAuthIntegration),
     (''oauthConnectionId'', JStr (cr_oauthConnectionId c)), (''customerId'', JStr (cr_customerId c)), (''loginCustomerId'', JStr (cr_loginCustomerId c))]"

subsection \<open>The saved state\<close>

definition googleAudienceStateStream :: string where
  "googleAudienceStateStream = ''_REVERSE_ETL_GOOGLE_AUDIENCE_''"

datatype creation_phase = CreationPrepared | CreationSubmitting | CreationReady

fun creation_text :: "creation_phase \<Rightarrow> string" where
  "creation_text CreationPrepared = ''prepared''"
| "creation_text CreationSubmitting = ''submitting''"
| "creation_text CreationReady = ''ready''"

fun creation_schema :: "json \<Rightarrow> creation_phase option" where
  "creation_schema v = (if v = JStr ''prepared'' then Some CreationPrepared else if v = JStr ''submitting'' then Some CreationSubmitting
     else if v = JStr ''ready'' then Some CreationReady else None)"

record audience_state =
  gs_workspaceId :: string
  gs_binding :: string
  gs_phase :: creation_phase
  gs_managed :: managed_intent
  gs_audienceId :: "string option"

definition GoogleAudienceState :: "json \<Rightarrow> audience_state option" where
  "GoogleAudienceState v = do {
     kvs \<leftarrow> strict_members [''version'', ''workspaceId'', ''binding'', ''phase'', ''managed'', ''audienceId''] v;
     required ''version'' (literal (JInt 1)) kvs;
     workspace \<leftarrow> required ''workspaceId'' any_text kvs;
     bound \<leftarrow> required ''binding'' any_text kvs;
     phase \<leftarrow> required ''phase'' creation_schema kvs;
     m \<leftarrow> required ''managed'' managed_without_id kvs;
     i \<leftarrow> optional ''audienceId'' any_text kvs;
     Some \<lparr>gs_workspaceId = workspace, gs_binding = bound, gs_phase = phase, gs_managed = m, gs_audienceId = i\<rparr> }"

definition json_of_audience_state :: "audience_state \<Rightarrow> json" where
  "json_of_audience_state s = JObj ([(''version'', JInt 1), (''workspaceId'', JStr (gs_workspaceId s)), (''binding'', JStr (gs_binding s)),
     (''phase'', JStr (creation_text (gs_phase s))), (''managed'', JObj (json_of_managed (gs_managed s)))]
     @ optional_member ''audienceId'' JStr (gs_audienceId s))"

definition googleAudienceStateBinding :: "(string \<Rightarrow> string) \<Rightarrow> string \<Rightarrow> string \<Rightarrow> string \<Rightarrow> audience_credentials \<Rightarrow> audience_settings \<Rightarrow> string result" where
  "googleAudienceStateBinding sha workspaceId syncId destinationId c s =
     contentHash sha (JObj [(''workspaceId'', JStr workspaceId), (''syncId'', JStr syncId), (''destinationId'', JStr destinationId),
       (''credentials'', json_of_credentials c), (''settings'', json_of_settings s)])"

subsection \<open>Configurations of a destination\<close>

record destination_config = run_config +
  dc_toId :: string
  dc_destination :: json
  dc_deleteColumn :: bool

text \<open>What the provisioning reaches: the requests and the tables.\<close>

record 'g provisioning =
  pv_google :: "'g google"
  pv_world :: world

definition on_requests :: "('g google, 'a) oper \<Rightarrow> ('g provisioning, 'a) oper" where
  "on_requests m s = (case m (pv_google s) of (r, g) \<Rightarrow> (r, s\<lparr>pv_google := g\<rparr>))"

definition on_target :: "(tx, 'a) oper \<Rightarrow> ('g provisioning, 'a) oper" where
  "on_target m s = (case db_transaction None m (pv_world s) of
      (Inl e, w) \<Rightarrow> (Inl e, s\<lparr>pv_world := w\<rparr>)
    | (Inr (a, _), w) \<Rightarrow> (Inr a, s\<lparr>pv_world := w\<rparr>))"

definition ensure_plain :: "bool \<Rightarrow> string \<Rightarrow> ('s, unit) oper" where
  "ensure_plain b msg = (if b then returnE () else throwE (PlainError msg))"

definition ensure_each :: "(bool \<times> string) list \<Rightarrow> ('s, unit) oper" where
  "ensure_each conds = forE conds (\<lambda>(b, msg). ensure_plain b msg)"

definition with_member :: "string \<Rightarrow> json \<Rightarrow> json \<Rightarrow> json" where
  "with_member k v obj = (case obj of JObj kvs \<Rightarrow> JObj (AList.update k v kvs) | _ \<Rightarrow> JObj [(k, v)])"

subsection \<open>Resolution\<close>

definition new_intent :: "(string \<Rightarrow> string) \<Rightarrow> destination_config \<Rightarrow> audience_credentials \<Rightarrow> audience_settings \<Rightarrow> string \<Rightarrow> string \<Rightarrow> string \<Rightarrow> audience_state" where
  "new_intent sha cfg c s name nonce bound = \<lparr>gs_workspaceId = cf_workspaceId cfg, gs_binding = bound, gs_phase = CreationPrepared,
     gs_managed = \<lparr>mg_id = ''retl-google-'' @ sha (cf_workspaceId cfg @ '':'' @ cf_id cfg @ '':'' @ nonce), mg_syncId = cf_id cfg,
       mg_customerId = cr_customerId c, mg_integrationCode = ''jitsu-retl-'' @ nonce, mg_displayName = name @ '' [Jitsu '' @ take 12 nonce @ '']'',
       mg_membershipDays = (case as_membershipDays s of None \<Rightarrow> 540 | Some d \<Rightarrow> d),
       mg_fields = as_fields s\<rparr>,
     gs_audienceId = None\<rparr>"

definition read_target :: "destination_config \<Rightarrow> ('g provisioning, json option) oper" where
  "read_target cfg = on_target (target_read (cf_id cfg) googleAudienceStateStream)"

definition saved_intent :: "(string \<Rightarrow> string) \<Rightarrow> 'g services \<Rightarrow> destination_config \<Rightarrow> audience_credentials \<Rightarrow> audience_settings \<Rightarrow> string \<Rightarrow> string \<Rightarrow> string
    \<Rightarrow> ('g provisioning, audience_state) oper" where
  "saved_intent sha S cfg c s name nonce bound =
     bindE (read_target cfg) (\<lambda>raw.
     bindE (case raw of
        Some v \<Rightarrow> returnE raw
      | None \<Rightarrow>
          thenE (on_requests (throw_if_signalled S))
          (thenE (on_target (target_create (cf_workspaceId cfg) (cf_id cfg) googleAudienceStateStream
             (json_of_audience_state (new_intent sha cfg c s name nonce bound))))
           (read_target cfg))) (\<lambda>raw'.
     bindE (parsedE (raw' \<bind> GoogleAudienceState)) (\<lambda>prior.
     thenE (ensure_plain (gs_workspaceId prior = cf_workspaceId cfg \<and> gs_binding prior = bound \<and> mg_syncId (gs_managed prior) = cf_id cfg
          \<and> mg_customerId (gs_managed prior) = cr_customerId c)
        ''Managed audience configuration changed; preserve provisioning state and reconcile'')
     (returnE prior))))"

text \<open>The one request that creates an audience, or the search for what an earlier one created.\<close>

definition advance_creation :: "'g services \<Rightarrow> (string \<Rightarrow> ('g, unit) oper) \<Rightarrow> destination_config \<Rightarrow> audience_credentials \<Rightarrow> audience_state \<Rightarrow> ('g provisioning, audience_state) oper" where
  "advance_creation S note cfg c prior =
     (if gs_phase prior = CreationReady then returnE prior
      else
        bindE (on_requests (on_services (sv_token S))) (\<lambda>token.
        thenE (on_requests (throw_if_signalled S))
        (let submitting = json_of_audience_state (prior\<lparr>gs_phase := CreationSubmitting\<rparr>) in
         bindE (on_target (target_compareAndSet (cf_id cfg) googleAudienceStateStream
           (json_of_audience_state (prior\<lparr>gs_phase := CreationPrepared\<rparr>)) submitting)) (\<lambda>claimed.
         thenE (on_requests (on_services (note (if claimed then ''Creating Google audience; provisioning intent is saved.''
            else ''Checking the saved Google audience creation request; no duplicate creation will be submitted.''))))
         (bindE (on_requests (if claimed then bindE (create_audience (returnE token) S c (gs_managed prior)) (\<lambda>i. returnE (Some i))
            else reconcile_audience S c (gs_managed prior))) (\<lambda>found.
          thenE (ensure_plain (found \<noteq> None) ''Google audience creation is unconfirmed; retry status discovery without resetting state'')
          (thenE (on_requests (throw_if_signalled S))
          (let ready = prior\<lparr>gs_audienceId := found, gs_phase := CreationReady\<rparr> in
           bindE (on_target (target_compareAndSet (cf_id cfg) googleAudienceStateStream submitting (json_of_audience_state ready))) (\<lambda>done.
           thenE (ensure_plain done ''Google audience provisioning state changed'') (returnE ready))))))))))"

definition managed_of :: "audience_state \<Rightarrow> managed_audience option" where
  "managed_of s = GoogleManagedAudience (JObj (json_of_managed (gs_managed s) @ optional_member ''audienceId'' JStr (gs_audienceId s)))"

definition resolve_managed :: "(string \<Rightarrow> string) \<Rightarrow> 'g services \<Rightarrow> (string \<Rightarrow> ('g, unit) oper) \<Rightarrow> string \<Rightarrow> destination_config \<Rightarrow> audience_credentials
    \<Rightarrow> audience_settings \<Rightarrow> string \<Rightarrow> ('g provisioning, destination_config) oper" where
  "resolve_managed sha S note nonce cfg c s name =
     thenE (ensure_each [(cf_mode cfg = ModeMirror, ''Managed Google audiences require mirror mode''),
       (af_identifierType (as_fields s) \<noteq> Some MobileAdvertisingId \<or> (\<not> empty_text (af_appId (as_fields s)) \<and> \<not> empty_text (af_mobilePlatform (as_fields s))),
        ''Mobile audiences require an App ID and mobile platform'')])
     (bindE (resultE (googleAudienceStateBinding sha (cf_workspaceId cfg) (cf_id cfg) (dc_toId cfg) c s)) (\<lambda>bound.
      bindE (saved_intent sha S cfg c s name nonce bound) (\<lambda>prior.
      bindE (advance_creation S note cfg c prior) (\<lambda>st.
      bindE (parsedE (managed_of st)) (\<lambda>m.
      thenE (on_requests (thenE (verifyManaged S c m) (on_services (note (''Using Google audience '' @ mg_audienceId m @ ''.'')))))
      (returnE (cfg\<lparr>dc_destination := with_member ''reverseManagedAudience'' (json_of_audience m) (dc_destination cfg),
        cf_streamOptions := JObj (settings_rest s @ [(''audienceId'', JStr (mg_audienceId m)), (''managedAudienceId'', JStr (mg_id m))])\<rparr>)))))))"

definition resolve_existing :: "'g services \<Rightarrow> destination_config \<Rightarrow> audience_credentials \<Rightarrow> audience_settings \<Rightarrow> string \<Rightarrow> ('g provisioning, destination_config) oper" where
  "resolve_existing S cfg c s i =
     thenE (ensure_plain (cf_mode cfg \<noteq> ModeMirror \<or> as_strategy s = Some ''full-replace'') ''Existing Google audiences require full replacement for mirror mode'')
     (thenE (on_requests (verifyExisting S c i (as_fields s)))
     (returnE (cfg\<lparr>cf_streamOptions := JObj (settings_rest s @ [(''audienceId'', JStr i)])\<rparr>)))"

definition resolveGoogleAudience :: "(string \<Rightarrow> string) \<Rightarrow> 'g services \<Rightarrow> (string \<Rightarrow> ('g, unit) oper) \<Rightarrow> string \<Rightarrow> destination_config
    \<Rightarrow> ('g provisioning, destination_config) oper" where
  "resolveGoogleAudience sha S note nonce cfg =
     bindE (parsedE (GoogleAudienceSettings (cf_streamOptions cfg))) (\<lambda>s.
     thenE (ensure_each [(cf_stream cfg = ''audience'', ''Unsupported Google destination stream''),
       (cf_mode cfg \<noteq> ModeMirror \<or> (\<not> cf_cursor cfg \<and> \<not> dc_deleteColumn cfg), ''Mirror requires a full-query model without a cursor or delete column'')])
     (bindE (parsedE (GoogleAudienceCredentials (dc_destination cfg))) (\<lambda>c.
      thenE (ensure_plain (cr_oauthConnectionId c = ''destination.'' @ dc_toId cfg) ''Invalid Google audience OAuth binding'')
      (case as_audience s of
         ExistingChoice i \<Rightarrow> resolve_existing S cfg c s i
       | ManagedChoice name \<Rightarrow> resolve_managed sha S note nonce cfg c s name))))"

end
