(* ===== verification/GoogleAdapter.thy ===== *)
theory GoogleAdapter
  imports GoogleProvisioning
begin

text \<open>
  The adapter of Google Ads, \<open>google-ads/runtime.ts\<close>, with the registry of destinations of \<open>reverse-etl/index.ts\<close>: the configuration of a
  sync is checked against its credentials, its options and the audience that was provisioned for it, and the stream, the writer, the
  verification of the baseline and the recovery are bound.
\<close>

subsection \<open>The stream\<close>

definition google_shape :: "(string \<times> bool) list" where
  "google_shape = map (\<lambda>(k, _). (k, True)) identifier_fields @ [(''adUserData'', True), (''adPersonalization'', True)]"

definition wire_shape :: "action \<Rightarrow> (string \<times> bool) list" where
  "wire_shape act = [(''userData'', True), (''mobileData'', True), (''userIdData'', True)] @ (if act = Upsert then [(''consent'', False)] else [])"

definition source_type :: "(string \<Rightarrow> string) \<Rightarrow> action \<Rightarrow> row_type" where
  "source_type sha act = \<lparr>rt_parse = audience_row_type sha act, rt_shape = Some google_shape\<rparr>"

definition accepted_by :: "(json \<Rightarrow> 'a option) \<Rightarrow> json \<Rightarrow> json option" where
  "accepted_by schema v = (if schema v = None then None else Some v)"

definition wire_type :: "action \<Rightarrow> row_type" where
  "wire_type act = \<lparr>rt_parse = accepted_by (wire_schema act), rt_shape = Some (wire_shape act)\<rparr>"

definition google_capabilities :: "google_env \<Rightarrow> capabilities" where
  "google_capabilities E = \<lparr>supportsUpsert = True, supportsExplicitRemove = True,
     cap_mirror = (if ge_replacement E then NativeReplace else if ge_managed E \<noteq> None then SnapshotDiff else MirrorNone), cap_replay = ReconcileRequired\<rparr>"

definition google_stream :: "google_env \<Rightarrow> stream_metadata" where
  "google_stream E = \<lparr>st_name = ''audience'', st_rowType = source_type (ge_sha E) Upsert, st_removeRowType = Some (source_type (ge_sha E) Remove),
     st_options = accepted_by GoogleAudienceOptions, st_batchSize = 1000, st_asynchronous = True, st_caps = google_capabilities E\<rparr>"

text \<open>A mirror delivers payloads that are hashed already.\<close>

definition google_mirror_stream :: "google_env \<Rightarrow> stream_metadata" where
  "google_mirror_stream E = (google_stream E)\<lparr>st_rowType := wire_type Upsert, st_removeRowType := Some (wire_type Remove)\<rparr>"

subsection \<open>The registry\<close>

record reverse_destination =
  rd_streams :: "stream_metadata list"
  rd_defaultStream :: string

definition registry_name :: "string \<Rightarrow> bool" where
  "registry_name s \<longleftrightarrow> take 16 s = ''builtin.reverse.'' \<and> drop 16 s \<noteq> []
     \<and> list_all (\<lambda>c. digit c \<or> (97 \<le> char_code c \<and> char_code c \<le> 122) \<or> c = CHR ''-'') (drop 16 s)"

definition register :: "string \<times> reverse_destination \<Rightarrow> (string \<times> reverse_destination) list \<Rightarrow> (string \<times> reverse_destination) list result" where
  "register entry registered = (case entry of (name, dest) \<Rightarrow>
     if \<not> registry_name name then fail ''Invalid reverse destination name''
     else let names = map st_name (rd_streams dest) in
       if \<not> distinct names \<or> rd_defaultStream dest \<notin> set names then fail ''Destination requires unique streams and a valid default stream''
       else bindR (mapR validateStream (rd_streams dest)) (\<lambda>_. Inr (AList.update name dest registered)))"

definition createReverseEtlRegistry :: "(string \<times> reverse_destination) list \<Rightarrow> (string \<Rightarrow> reverse_destination option) result" where
  "createReverseEtlRegistry destinations = bindR (foldR register destinations []) (\<lambda>registered. Inr (map_of registered))"

definition google_name :: string where
  "google_name = ''builtin.reverse.google-ads''"

definition google_destination :: "google_env \<Rightarrow> reverse_destination" where
  "google_destination E = \<lparr>rd_streams = [google_stream E], rd_defaultStream = ''audience''\<rparr>"

subsection \<open>Binding\<close>

definition day_ms :: int where
  "day_ms = 86400000"

definition googleAudienceRefreshAfterMs :: int where
  "googleAudienceRefreshAfterMs = 30 * day_ms"

definition verify_baseline :: "google_env \<Rightarrow> 'g services \<Rightarrow> audience_credentials \<Rightarrow> audience_options \<Rightarrow> ('g google, target_baseline) oper" where
  "verify_baseline E S c opts =
     thenE (case ge_managed E of
        Some m \<Rightarrow> thenE (verifyManaged S c m) (returnE ())
      | None \<Rightarrow> thenE (verifyExisting S c (ao_audienceId opts) (ao_fields opts)) (returnE ()))
     (returnE (if ge_replacement E then ReplaceBaseline else TrackedBaseline))"

definition google_mirror :: "google_env \<Rightarrow> stream_metadata \<Rightarrow> mirror_adapter" where
  "google_mirror E stream = \<lparr>ma_sameStream = True, ma_stream = stream, ma_asynchronous = True,
     ma_refreshAfterMs = (if ge_replacement E then None
        else Some (min googleAudienceRefreshAfterMs ((case ge_managed E of None \<Rightarrow> 540 | Some m \<Rightarrow> mg_membershipDays m) * day_ms div 2))),
     ma_rowType = audience_row_type (ge_sha E) Upsert, ma_project = projectGoogleAudience Upsert\<rparr>"

definition run_context :: "destination_config \<Rightarrow> string \<Rightarrow> string \<Rightarrow> audience_credentials \<Rightarrow> google_context" where
  "run_context cfg run identity c = \<lparr>gc_credentials = json_of_credentials c, gc_options = cf_streamOptions cfg, gc_syncId = cf_id cfg,
     gc_logicalRunId = run, gc_configRevision = cf_revision cfg, gc_mirror = (cf_mode cfg = ModeMirror), gc_targetIdentity = identity\<rparr>"

definition managed_binding :: "destination_config \<Rightarrow> audience_credentials \<Rightarrow> audience_options \<Rightarrow> managed_audience option result" where
  "managed_binding cfg c opts = (case ao_managedAudienceId opts of
      None \<Rightarrow> Inr None
    | Some i \<Rightarrow> (case GoogleManagedAudience (member (dc_destination cfg) ''reverseManagedAudience'') of
        None \<Rightarrow> Inl parse_failed
      | Some m \<Rightarrow>
          if mg_id m \<noteq> i \<or> mg_syncId m \<noteq> cf_id cfg \<or> mg_audienceId m \<noteq> ao_audienceId opts \<or> mg_customerId m \<noteq> cr_customerId c
          then Inl (PlainError ''Managed Google audience binding mismatch'') else Inr (Some m)))"

definition google_adapter :: "google_env \<Rightarrow> 'g services \<Rightarrow> string \<Rightarrow> destination_config \<Rightarrow> audience_credentials \<Rightarrow> audience_options \<Rightarrow> string \<Rightarrow> stream_metadata
    \<Rightarrow> 'g google adapter" where
  "google_adapter E S run cfg c opts identity stream = \<lparr>ad_stream = stream, ad_targetIdentity = identity, ad_insertOnly = False,
     ad_project = projectGoogleAudience, ad_options = Some (cf_streamOptions cfg), ad_provider = google_provider E S (run_context cfg run identity c),
     ad_mirror = (if ge_managed E \<noteq> None \<or> ge_replacement E then Some (google_mirror E stream) else None),
     ad_verifyMirrorBaseline = (if ge_managed E \<noteq> None \<or> ge_replacement E then Some (verify_baseline E S c opts) else None),
     ad_recovery = Some (\<lambda>_. google_recovery E S (run_context cfg run identity c))\<rparr>"

definition bindGoogle :: "(string \<Rightarrow> string) \<Rightarrow> 'g services \<Rightarrow> string \<Rightarrow> destination_config \<Rightarrow> 'g google adapter result" where
  "bindGoogle sha S run cfg = (case GoogleAudienceCredentials (dc_destination cfg) of
      None \<Rightarrow> Inl (PlainError ''Invalid Google audience OAuth binding'')
    | Some c \<Rightarrow>
        if cr_oauthConnectionId c \<noteq> ''destination.'' @ dc_toId cfg then Inl (PlainError ''Invalid Google audience OAuth binding'')
        else (case GoogleAudienceOptions (cf_streamOptions cfg) of
            None \<Rightarrow> Inl parse_failed
          | Some opts \<Rightarrow>
              let replacing = ao_fullReplace opts in
              if replacing \<and> cf_mode cfg \<noteq> ModeMirror then Inl (PlainError ''Full replacement requires mirror mode'')
              else bindR (managed_binding cfg c opts) (\<lambda>managed.
                if cf_mode cfg = ModeMirror \<and> managed = None \<and> \<not> replacing then Inl (PlainError ''Existing Google audiences cannot be mirrored'')
                else let E = \<lparr>ge_sha = sha, ge_managed = managed, ge_replacement = replacing\<rparr> in
                  bindR (createReverseEtlRegistry [(google_name, google_destination E)]) (\<lambda>registry.
                  let stream = (if cf_mode cfg = ModeMirror then google_mirror_stream E else hd (rd_streams (the (registry google_name)))) in
                  bindR (googleAudienceTargetIdentity (json_of_credentials c) (cf_streamOptions cfg)) (\<lambda>identity.
                  Inr (google_adapter E S run cfg c opts identity stream))))))"

text \<open>The audience stream: provisioned first when its settings name an audience.\<close>

definition createGoogleAudience :: "(string \<Rightarrow> string) \<Rightarrow> 'g services \<Rightarrow> (string \<Rightarrow> ('g, unit) oper) \<Rightarrow> string \<Rightarrow> string \<Rightarrow> destination_config
    \<Rightarrow> ('g provisioning, 'g google adapter) oper" where
  "createGoogleAudience sha S note nonce run cfg =
     (if member (cf_streamOptions cfg) ''audience'' \<noteq> JLossy
      then bindE (resolveGoogleAudience sha S note nonce cfg) (\<lambda>cfg'. resultE (bindGoogle sha S run cfg'))
      else resultE (bindGoogle sha S run cfg))"

end
