(* ===== verification/GoogleFacts.thy ===== *)
theory GoogleFacts
  imports GoogleAdapter Committed
begin

text \<open>
  What holds of the Google adapter: it does not reach the journal, so that it meets the contract of an attempt; a submission makes one
  request and answers every operation; its receipt is the one the reconciliation accepts; and a batch is accepted only on Google's word.
\<close>

subsection \<open>The journal\<close>

lemma outside_keeps: "external_keeps K (outside m)"
  by (auto simp: external_keeps_def outside_def split: prod.splits)

lemma google_provider_keeps: "provider_keeps K (google_provider E S ctx)"
  by (simp add: provider_keeps_def google_provider_def outside_keeps)

lemma google_recovery_keeps: "hooks_keep K (google_recovery E S ctx)"
  by (simp add: hooks_keep_def google_recovery_def outside_keeps)

lemma google_adapter_keeps: "adapter_keeps K (google_adapter E S run cfg c opts identity stream)"
  by (simp add: adapter_keeps_def google_adapter_def google_provider_keeps google_recovery_keeps)

lemma bindGoogle_keeps: "bindGoogle sha S run cfg = Inr ad \<Longrightarrow> adapter_keeps K ad"
  by (auto simp: bindGoogle_def run_simps Let_def google_adapter_keeps split: option.splits if_splits)

subsection \<open>Requests\<close>

definition posts :: "'g google \<Rightarrow> nat" where
  "posts g = length (filter hq_post (gg_log g))"

lemma on_services_posts: "on_services m g = (r, g') \<Longrightarrow> posts g' = posts g"
  by (auto simp: on_services_def posts_def split: prod.splits)

lemma throw_if_signalled_posts: "throw_if_signalled S g = (r, g') \<Longrightarrow> posts g' = posts g"
  by (auto simp: throw_if_signalled_def bindE_def split: prod.splits sum.splits if_splits dest: on_services_posts)

lemma fetchE_posts: "fetchE S q g = (r, g') \<Longrightarrow> posts g' = posts g + (if hq_post q then 1 else 0)"
  by (auto simp: fetchE_def thenE_def bindE_def on_services_def posts_def split: prod.splits)

lemma request_posts: "request S ctx path body token g = (r, g') \<Longrightarrow> posts g' \<le> posts g + (if body = None then 0 else 1)"
  by (cases r) (auto simp: request_def run_simps parsedE_def failE_def split: option.splits if_splits
      dest!: on_services_posts throw_if_signalled_posts fetchE_posts)

subsection \<open>Submission\<close>

definition batch_shape :: "write_batch \<Rightarrow> bool" where
  "batch_shape b \<longleftrightarrow> distinct (map rec_op (wb_records b)) \<and> list_all (\<lambda>r. 1 \<le> length (rec_op r) \<and> length (rec_op r) \<le> 512) (wb_records b)"

lemma outcomes_all_ops: "(\<And>i. outcome_op (f i) = i) \<Longrightarrow> map outcome_op (outcomes_all f b) = map rec_op (wb_records b)"
  by (simp add: outcomes_all_def)

lemma replacementFor_state: "replacementFor E ctx x = (r, x') \<Longrightarrow> x' = x"
  by (cases x; cases r) (auto simp: replacementFor_def run_simps read_store_def failE_def split: option.splits if_splits)

lemma request_returns:
  "request S ctx path body token g = (Inr v, g') \<Longrightarrow> posts g' = posts g + (if body = None then 0 else 1)"
  by (auto simp: request_def run_simps parsedE_def failE_def split: option.splits if_splits
      dest!: on_services_posts throw_if_signalled_posts fetchE_posts)

lemma on_google_run [run_simps]: "on_google m x = (r, x') \<longleftrightarrow> m (fst x) = (r, fst x') \<and> snd x' = snd x"
  by (auto simp: on_google_def split: prod.splits)

lemma failE_run [simp]: "failE msg s = (Inl (ReverseEtlProtocolError msg), s)"
  by (simp add: failE_def)

lemma submission_id: "submission_schema v = Some sub \<Longrightarrow> 1 \<le> length (sb_requestId sub) \<and> length (sb_requestId sub) \<le> 512"
  by (auto simp: submission_schema_def bind_eq_Some_conv required_def elim!: string_between.elims split: if_splits)

lemma replacement_guard_state: "replacement_guard E ctx act x = (Inr u, x') \<Longrightarrow> x' = x"
  by (auto simp: replacement_guard_def run_simps dest: replacementFor_state split: if_splits)

lemma token_or_none_posts: "token_or_none S x = (r, x') \<Longrightarrow> posts (fst x') = posts (fst x) \<and> snd x' = snd x"
  by (cases r) (auto simp: token_or_none_def run_simps dest: on_services_posts)

lemma submit_members_result:
  "submit_members E S ctx b act ms t x = (Inr res, x') \<Longrightarrow> snd x' = snd x \<and> posts (fst x') = posts (fst x) + 1
     \<and> (\<exists>i bound w. res = staged_result b act i bound w \<and> binding E ctx b act = Inr bound \<and> 1 \<le> length i \<and> length i \<le> 512)"
  by (auto simp: submit_members_def run_simps split: option.splits dest!: request_returns) (metis One_nat_def submission_id)

lemma check_batch_Inr:
  "check_batch ctx act b = Inr ms \<Longrightarrow> wb_records b \<noteq> [] \<and> length (wb_records b) \<le> 1000 \<and> batch_members act b = Inr ms"
  by (auto simp: check_batch_def run_simps fail_def split: if_splits option.splits)

lemma submit_cases:
  assumes "submit E S ctx b act x = (Inr res, x')"
  shows "wb_records b \<noteq> [] \<and> length (wb_records b) \<le> 1000 \<and> snd x' = snd x \<and> (\<exists>ms. batch_members act b = Inr ms)
    \<and> (res = rejected_result b \<and> posts (fst x') = posts (fst x)
       \<or> (\<exists>i bound w. res = staged_result b act i bound w \<and> binding E ctx b act = Inr bound \<and> 1 \<le> length i \<and> length i \<le> 512
            \<and> posts (fst x') = posts (fst x) + 1))"
proof -
  have posts3: "posts (fst x3) = posts (fst x) \<and> snd x3 = snd x"
    if "replacement_guard E ctx act x = (Inr u, x1)" "on_google (throw_if_signalled S) x1 = (Inr v, x2)" "token_or_none S x2 = (Inr token, x3)"
    for u x1 v x2 token x3
    using replacement_guard_state[OF that(1)] that(2) token_or_none_posts[OF that(3)] throw_if_signalled_posts[of S "fst x"] by (auto simp: on_google_run)
  show ?thesis
    using assms unfolding submit_def thenE_Inr bindE_Inr resultE_run prod.inject
    apply (elim exE conjE)
    subgoal for u x1 ms x1' v x2 token x3
      using posts3[of u x1 v x2 token x3] check_batch_Inr[of ctx act b ms] by (cases token) (auto dest!: submit_members_result, blast+)
    done
qed

subsection \<open>Results and receipts\<close>

lemma google_outcome_round_trip:
  "1 \<le> length i \<Longrightarrow> length i \<le> 512 \<Longrightarrow> outcome_schema (json_of_outcome (Staged i)) = Some (Staged i)"
  "1 \<le> length i \<Longrightarrow> length i \<le> 512 \<Longrightarrow> outcome_schema (json_of_outcome (Accepted i)) = Some (Accepted i)"
  "1 \<le> length i \<Longrightarrow> length i \<le> 512 \<Longrightarrow> outcome_schema (json_of_outcome (auth_rejected i)) = Some (auth_rejected i)"
  "1 \<le> length i \<Longrightarrow> length i \<le> 512 \<Longrightarrow> outcome_schema (json_of_outcome (google_request_failed i)) = Some (google_request_failed i)"
  by (simp_all add: required_def strict_keys_def auth_rejected_def google_request_failed_def)

lemma outcomes_round_trip:
  assumes "batch_shape b" and "length (wb_records b) \<le> 1000"
    and "\<And>i. 1 \<le> length i \<Longrightarrow> length i \<le> 512 \<Longrightarrow> outcome_schema (json_of_outcome (f i)) = Some (f i)"
  shows "parse_all outcome_schema (map json_of_outcome (outcomes_all f b)) = Some (outcomes_all f b)"
  using assms by (intro parse_all_map) (auto simp: batch_shape_def outcomes_all_def list_all_iff)

lemma escape_length: "length (escape_char c) \<le> 6"
  by (simp add: escape_char_def Let_def)

lemma escaped_length: "length (concat (map escape_char s)) \<le> 6 * length s"
proof (induction s)
  case (Cons c s)
  then show ?case using escape_length[of c] by simp
qed simp

lemma join_length: "length (join [c] xs) \<le> sum_list (map (\<lambda>x. length x + 1) xs)"
  by (induction "[c]" xs rule: join.induct) auto

lemma sum_list_sort: "sum_list (map f (sort_key k xs)) = sum_list (map f xs)" for f :: "'a \<Rightarrow> nat"
  using sum_mset_sum_list[of "map f (sort_key k xs)"] sum_mset_sum_list[of "map f xs"] by simp

lemma object_text_length:
  "length (json_text (JObj kvs)) \<le> 2 + sum_list (map (\<lambda>(k, v). 6 * length k + 4 + length (json_text v)) kvs)"
proof -
  let ?f = "\<lambda>p. length (member_text p) + 1"
  let ?ts = "map (\<lambda>(k, v). (k, json_text v)) kvs"
  have "length (json_text (JObj kvs)) \<le> 2 + sum_list (map (\<lambda>x. length x + 1) (map member_text (sort_key fst ?ts)))"
    using join_length[of "CHR '',''" "map member_text (sort_key fst ?ts)"] by simp
  also have "sum_list (map (\<lambda>x. length x + 1) (map member_text (sort_key fst ?ts))) = sum_list (map ?f (sort_key fst ?ts))"
    by (simp add: comp_def)
  also have "\<dots> = sum_list (map ?f ?ts)" by (rule sum_list_sort)
  also have "\<dots> \<le> sum_list (map (\<lambda>(k, v). 6 * length k + 4 + length (json_text v)) kvs)"
  proof -
    have "?f (k, t) \<le> 6 * length k + 4 + length t" for k t using escaped_length[of k] by (simp add: member_text_def quote_string_def)
    then show ?thesis by (auto simp: comp_def case_prod_beta intro!: sum_list_mono)
  qed
  finally show ?thesis by simp
qed

lemma quote_length: "length (json_text (JStr s)) \<le> 6 * length s + 2"
  using escaped_length[of s] by (simp add: quote_string_def)

lemma byteLength_le: "byteLength s \<le> 2 * length s"
  by (induction s) (simp_all add: byteLength_def char_bytes_def)

lemma receipt_object:
  assumes "length i \<le> 512" and "hex64 bound"
  shows "object_schema (json_of_google_receipt act i bound w) = Some (json_of_google_receipt act i bound w)"
proof -
  have "length (json_text (JStr i)) \<le> 3074" using quote_length[of i] assms(1) by linarith
  moreover have "length (json_text (JStr bound)) \<le> 386" using quote_length[of bound] assms(2) by (simp add: hex64_def)
  moreover have "length (json_text (JStr (action_text act))) \<le> 38" using quote_length[of "action_text act"] by (cases act) simp_all
  moreover have "length (json_text (JBool w)) \<le> 5" by simp
  moreover have "length (json_text (JInt 1)) \<le> 1" by code_simp
  ultimately have "length (json_text (json_of_google_receipt act i bound w)) \<le> 4000"
    unfolding json_of_google_receipt_def by (intro order.trans[OF object_text_length]) simp
  then have "byteLength (json_text (json_of_google_receipt act i bound w)) \<le> 65536"
    using byteLength_le[of "json_text (json_of_google_receipt act i bound w)"] by linarith
  then show ?thesis by (simp add: json_of_google_receipt_def del: json_text.simps)
qed

lemma google_receipt_round_trip:
  "1 \<le> length i \<Longrightarrow> length i \<le> 512 \<Longrightarrow> hex64 bound \<Longrightarrow>
     receipt_schema (json_of_google_receipt act i bound w) = Some \<lparr>gr_action = act, gr_requestId = i, gr_binding = bound, gr_warnings = w\<rparr>"
  by (cases act) (simp_all add: receipt_schema_def json_of_google_receipt_def strict_members_def strict_keys_def required_def literal_def)

lemma binding_hex: "digest_ok (ge_sha E) \<Longrightarrow> binding E ctx b act = Inr bound \<Longrightarrow> hex64 bound"
  by (auto simp: binding_def contentHash_def run_simps digest_ok_def)

lemma batch_ops_prepared: "batch_ops (prepared_of b act) = map rec_op (wb_records b)"
  by (simp add: batch_ops_def prepared_of_def)

text \<open>One outcome for each operation of the batch, with a receipt that is an object.\<close>

lemma result_validates:
  assumes shape: "batch_shape b" and few: "length (wb_records b) \<le> 1000"
    and f: "\<And>i. 1 \<le> length i \<Longrightarrow> length i \<le> 512 \<Longrightarrow> outcome_schema (json_of_outcome (f i)) = Some (f i)" "\<And>i. outcome_op (f i) = i"
    and jobs: "case jobs of None \<Rightarrow> True | Some is \<Rightarrow> length is \<le> 100 \<and> list_all (\<lambda>i. 1 \<le> length i \<and> length i \<le> 512) is"
    and cp: "case cp of None \<Rightarrow> True | Some c \<Rightarrow> object_schema c = Some c"
  shows "validateBatchResult (prepared_of b act) (json_of_batch_result \<lparr>br_outcomes = outcomes_all f b, br_jobs = jobs, br_checkpoint = cp\<rparr>)
    = Inr \<lparr>br_outcomes = outcomes_all f b, br_jobs = jobs, br_checkpoint = cp\<rparr>"
proof (rule validateBatchResult_ok)
  have outs: "array_schema outcome_schema 10000 (JArr (map json_of_outcome (outcomes_all f b))) = Some (outcomes_all f b)"
    using outcomes_round_trip[OF shape few f(1)] few by (simp add: outcomes_all_def)
  have ids: "array_schema id_schema 100 (json_of_strings is) = Some is" if "jobs = Some is" for "is"
    using jobs that by (auto simp: json_of_strings_def list_all_iff intro!: parse_all_map)
  show "batchResult_schema (json_of_batch_result \<lparr>br_outcomes = outcomes_all f b, br_jobs = jobs, br_checkpoint = cp\<rparr>)
      = Some \<lparr>br_outcomes = outcomes_all f b, br_jobs = jobs, br_checkpoint = cp\<rparr>"
    using outs ids cp by (cases jobs; cases cp)
      (simp_all add: json_of_batch_result_def result_members_def optional_member_def required_def optional_def strict_keys_def del: array_schema.simps object_schema.simps)
qed (use shape outcomes_all_ops[of f b] f(2) in \<open>simp_all add: batch_ops_prepared batch_shape_def\<close>)

lemma staged_validates:
  assumes "batch_shape b" and "length (wb_records b) \<le> 1000" and "1 \<le> length i" and "length i \<le> 512" and "hex64 bound"
  shows "validateBatchResult (prepared_of b act) (json_of_batch_result (staged_result b act i bound w)) = Inr (staged_result b act i bound w)"
  unfolding staged_result_def using assms receipt_object[of i bound act w] by (intro result_validates google_outcome_round_trip(1)) simp_all

text \<open>A submission answers every operation of its batch, with one request or with none.\<close>

lemma submit_answers:
  assumes "digest_ok (ge_sha E)" and "batch_shape b" and "submit E S ctx b act x = (Inr res, x')"
  shows "validateBatchResult (prepared_of b act) (json_of_batch_result res) = Inr res
    \<and> (if br_jobs res = None then res = rejected_result b \<and> posts (fst x') = posts (fst x)
       else list_all is_staged (br_outcomes res) \<and> posts (fst x') = posts (fst x) + 1)"
proof -
  have "validateBatchResult (prepared_of b act) (json_of_batch_result (rejected_result b)) = Inr (rejected_result b)" if "length (wb_records b) \<le> 1000"
    unfolding rejected_result_def using assms(2) that by (intro result_validates google_outcome_round_trip(3)) (simp_all add: auth_rejected_def)
  moreover have "list_all is_staged (br_outcomes (staged_result b act i bound w))" for i bound w
    by (simp add: staged_result_def outcomes_all_def list_all_iff)
  ultimately show ?thesis
    using submit_cases[OF assms(3)] staged_validates[OF assms(2)] binding_hex[OF assms(1)] by (auto simp: rejected_result_def staged_result_def)
qed

text \<open>The receipt of a submission is the one that the reconciliation of the batch accepts.\<close>

lemma submit_receipt:
  assumes "digest_ok (ge_sha E)" and "batch_shape b" and "submit E S ctx b act x = (Inr res, x')" and "br_jobs res \<noteq> None"
  shows "\<exists>r. br_checkpoint res \<bind> receipt_schema = Some r \<and> gr_action r = act \<and> br_jobs res = Some [gr_requestId r]
    \<and> check_receipt E ctx b act res r = Inr () \<and> (\<exists>ms. batch_members act b = Inr ms)"
proof -
  from submit_cases[OF assms(3)] assms(4) obtain i bound w where res: "res = staged_result b act i bound w" and bound: "binding E ctx b act = Inr bound"
    and i: "1 \<le> length i" "length i \<le> 512" and few: "length (wb_records b) \<le> 1000" and ms: "\<exists>ms. batch_members act b = Inr ms"
    by (auto simp: rejected_result_def)
  note hex = binding_hex[OF assms(1) bound]
  have "br_checkpoint res \<bind> receipt_schema = Some \<lparr>gr_action = act, gr_requestId = i, gr_binding = bound, gr_warnings = w\<rparr>"
    using google_receipt_round_trip[OF i hex] by (simp add: res staged_result_def)
  moreover have "check_receipt E ctx b act res \<lparr>gr_action = act, gr_requestId = i, gr_binding = bound, gr_warnings = w\<rparr> = Inr ()"
    using staged_validates[OF assms(2) few i hex] bound by (simp add: check_receipt_def res) (simp add: staged_result_def outcomes_all_def list_ex_iff)
  ultimately show ?thesis using ms by (simp add: res staged_result_def)
qed

subsection \<open>Reconciliation\<close>

lemma settle_status_cases:
  assumes "settle_status E ctx b act prior r reply = Inr res"
  shows "\<exists>status. statusResponse reply = Some status \<and> same_target E ctx status = Inr True
    \<and> (undecided status \<and> res = prior
       \<or> \<not> undecided status \<and> sx_requestStatus status = ''FAILED'' \<and> res = prior\<lparr>br_outcomes := outcomes_all google_request_failed b\<rparr>
       \<or> (\<exists>counted. \<not> undecided status \<and> expected_count ctx act status = Inr counted \<and> verified r act (length (wb_records b)) counted status
            \<and> res = prior\<lparr>br_outcomes := outcomes_all Accepted b\<rparr>))"
  using assms by (fastforce simp: settle_status_def run_simps fail_def split: option.splits if_splits)

lemma reconcileBatch_cases:
  assumes "reconcileBatch E S ctx b act prior x = (Inr res, x')"
  shows "\<exists>p r reply date g. prior = Some p \<and> br_checkpoint p \<bind> receipt_schema = Some r \<and> check_receipt E ctx b act p r = Inr ()
    \<and> request S ctx (retrieve_path (gr_requestId r)) None None (fst x) = (Inr (reply, date), g) \<and> settle_status E ctx b act p r reply = Inr res"
  using assms by (auto simp: reconcileBatch_def run_simps split: option.splits)

lemma check_receipt_Inr:
  assumes "check_receipt E ctx b act p r = Inr ()"
  shows "\<exists>q. validateBatchResult (prepared_of b act) (json_of_batch_result p) = Inr q" "gr_action r = act" "binding E ctx b act = Inr (gr_binding r)"
    "br_jobs p = Some [gr_requestId r]" "list_all is_staged (br_outcomes p)"
  using assms by (auto simp: check_receipt_def run_simps fail_def list_ex_iff list_all_iff split: if_splits)

text \<open>An operation is accepted only when Google answered for this target that the whole request succeeded, without warnings, for as many
  members as the batch has; then every operation of the batch is accepted.\<close>

lemma accepted_verified:
  assumes "reconcileBatch E S ctx b act prior x = (Inr res, x')" and "Accepted i \<in> set (br_outcomes res)"
  shows "\<exists>p r reply date g status counted. prior = Some p \<and> br_checkpoint p \<bind> receipt_schema = Some r \<and> gr_action r = act
    \<and> binding E ctx b act = Inr (gr_binding r)
    \<and> request S ctx (retrieve_path (gr_requestId r)) None None (fst x) = (Inr (reply, date), g)
    \<and> statusResponse reply = Some status \<and> same_target E ctx status = Inr True \<and> expected_count ctx act status = Inr counted
    \<and> verified r act (length (wb_records b)) counted status \<and> br_outcomes res = outcomes_all Accepted b"
proof -
  from reconcileBatch_cases[OF assms(1)] obtain p r reply date g where p: "prior = Some p" "br_checkpoint p \<bind> receipt_schema = Some r"
    and receipt: "check_receipt E ctx b act p r = Inr ()"
    and req: "request S ctx (retrieve_path (gr_requestId r)) None None (fst x) = (Inr (reply, date), g)" and settle: "settle_status E ctx b act p r reply = Inr res"
    by blast
  note facts = check_receipt_Inr[OF receipt]
  from settle_status_cases[OF settle] obtain status where status: "statusResponse reply = Some status" "same_target E ctx status = Inr True"
    and cases: "res = p \<or> res = p\<lparr>br_outcomes := outcomes_all google_request_failed b\<rparr>
      \<or> (\<exists>counted. expected_count ctx act status = Inr counted \<and> verified r act (length (wb_records b)) counted status
            \<and> res = p\<lparr>br_outcomes := outcomes_all Accepted b\<rparr>)" by blast
  have "res \<noteq> p" using assms(2) facts(5) by (auto simp: list_all_iff)
  moreover have "res \<noteq> p\<lparr>br_outcomes := outcomes_all google_request_failed b\<rparr>" using assms(2) by (auto simp: outcomes_all_def google_request_failed_def)
  ultimately show ?thesis using cases p facts(2,3) req status by auto
qed

end
