(* ===== verification/GoogleCreation.thy ===== *)
theory GoogleCreation
  imports GoogleFacts
begin

text \<open>
  An audience is created at most once: over any number of resolutions of a configuration, whatever Google, the signal and the database do,
  there is one request that creates an audience at the most. And what the provisioning resolves, the adapter binds.
\<close>

subsection \<open>Equal values of a column\<close>

lemma map_of_insort: "map_of (insort_key fst (k, v) ys) = (map_of ys)(k \<mapsto> v)" for k :: "'k :: linorder"
  by (induction ys) auto

lemma map_of_sorted: "map_of (sort_key fst kvs) = map_of kvs" for kvs :: "('k :: linorder \<times> 'v) list"
  by (induction kvs) (auto simp: map_of_insort)

lemma canon_objects:
  assumes "canon v = canon (JObj kvs)"
  shows "\<exists>kvs'. v = JObj kvs' \<and> map_option canon (map_of kvs' k) = map_option canon (map_of kvs k)"
proof -
  have members: "map_of (sort_key fst (map (\<lambda>(k, v). (k, canon v)) xs)) k = map_option canon (map_of xs k)" for xs
    by (simp only: map_of_sorted) (induction xs, auto)
  from assms obtain kvs' where "v = JObj kvs'" by (cases v) auto
  with assms show ?thesis using members[of kvs] members[of kvs'] by auto
qed

lemma canon_text: "canon v = JStr s \<longleftrightarrow> v = JStr s"
  by (cases v) auto

lemma canon_phase:
  assumes "canon v = canon (json_of_audience_state st)"
  shows "member v ''phase'' = JStr (creation_text (gs_phase st))"
proof -
  from canon_objects[OF assms[unfolded json_of_audience_state_def], of "''phase''"] obtain kvs
    where "v = JObj kvs" "map_option canon (map_of kvs ''phase'') = Some (JStr (creation_text (gs_phase st)))"
    by auto
  then show ?thesis by (auto simp: canon_text)
qed

subsection \<open>The row of the target state\<close>

definition audience_row :: "string \<Rightarrow> database \<Rightarrow> json option" where
  "audience_row y d = map_of (db_states d) (y, googleAudienceStateStream)"

definition creation_claimed :: "string \<Rightarrow> database \<Rightarrow> bool" where
  "creation_claimed y d \<longleftrightarrow> (case audience_row y d of None \<Rightarrow> False | Some v \<Rightarrow> member v ''phase'' \<noteq> JStr ''prepared'')"

definition creations_left :: "string \<Rightarrow> 'g provisioning \<Rightarrow> nat" where
  "creations_left y s = posts (pv_google s) + (if creation_claimed y (w_db (pv_world s)) then 0 else 1)"

definition no_more :: "string \<Rightarrow> 'g provisioning \<Rightarrow> 'g provisioning \<Rightarrow> bool" where
  "no_more y s t \<longleftrightarrow> creations_left y t \<le> creations_left y s"

interpretation spend: frame "no_more y" for y
  by unfold_locales (auto simp: no_more_def)

definition stays_claimed :: "string \<Rightarrow> tx \<Rightarrow> tx \<Rightarrow> bool" where
  "stays_claimed y t t' \<longleftrightarrow> (creation_claimed y (tx_db t) \<longrightarrow> creation_claimed y (tx_db t'))"

lemma target_read_claimed: "frames (stays_claimed (cf_id cfg)) (target_read y m)"
  by (rule framesI) (auto simp: target_read_def stays_claimed_def)

lemma target_create_claimed: "frames (stays_claimed (cf_id cfg)) (target_create w (cf_id cfg) googleAudienceStateStream v)"
  by (rule framesI) (auto simp: target_create_def stays_claimed_def creation_claimed_def audience_row_def bindE_def thenE_def ensure_def
      split: option.splits if_splits)

lemma target_compareAndSet_claimed:
  "member v ''phase'' \<noteq> JStr ''prepared'' \<Longrightarrow> frames (stays_claimed (cf_id cfg)) (target_compareAndSet (cf_id cfg) googleAudienceStateStream e v)"
  by (rule framesI) (auto simp: target_compareAndSet_def stays_claimed_def creation_claimed_def audience_row_def bindE_def thenE_def update_conv'
      split: option.splits if_splits)

lemma on_target_spend:
  assumes "frames (stays_claimed (cf_id cfg)) m"
  shows "frames (no_more (cf_id cfg)) (on_target m)"
proof (rule framesI)
  fix s :: "'g provisioning" and r t assume "on_target m s = (r, t)"
  then show "no_more (cf_id cfg) s t"
    using framesD[OF assms, of "\<lparr>tx_db = w_db (pv_world s), tx_pending = None\<rparr>"]
    by (auto simp: on_target_def db_transaction_def take_fault_def no_more_def creations_left_def stays_claimed_def Let_def
        split: prod.splits sum.splits list.splits option.splits tx_fault.splits if_splits)
qed

lemma on_requests_spend: "(\<And>g r g'. m g = (r, g') \<Longrightarrow> posts g' = posts g) \<Longrightarrow> frames (no_more y) (on_requests m)"
  by (rule framesI) (auto simp: on_requests_def no_more_def creations_left_def split: prod.splits)

subsection \<open>The requests of the management\<close>

lemma management_call_posts:
  "management_call token S c path body g = (r, g') \<Longrightarrow> posts g' \<le> posts g + (if body = None then 0 else 1)"
  "management_call token S c path None g = (r, g') \<Longrightarrow> posts g' = posts g"
  by (cases r; auto simp: management_call_def run_simps split: if_splits
      dest!: on_services_posts throw_if_signalled_posts fetchE_posts)+

lemma verifyExisting_posts: "verifyExisting S c i f g = (r, g') \<Longrightarrow> posts g' = posts g"
  by (cases r) (auto simp: verifyExisting_def run_simps split: option.splits if_splits dest: management_call_posts(2))

lemma verifyManaged_posts: "verifyManaged S c m g = (r, g') \<Longrightarrow> posts g' = posts g"
  by (cases r) (auto simp: verifyManaged_def run_simps parsedE_def split: option.splits if_splits dest: management_call_posts(2))

lemma reconcile_audience_posts: "reconcile_audience S c m g = (r, g') \<Longrightarrow> posts g' = posts g"
  by (cases r) (auto simp: reconcile_audience_def run_simps dest: management_call_posts(2))

lemma create_audience_posts: "create_audience token S c m g = (r, g') \<Longrightarrow> posts g' \<le> posts g + 1"
  by (cases r) (auto simp: create_audience_def run_simps dest!: management_call_posts(1))

subsection \<open>One creation\<close>

lemma compareAndSet_claims:
  assumes "on_target (target_compareAndSet (cf_id cfg) googleAudienceStateStream (json_of_audience_state (st\<lparr>gs_phase := CreationPrepared\<rparr>)) v) s = (Inr True, t)"
    and "member v ''phase'' \<noteq> JStr ''prepared''"
  shows "creations_left (cf_id cfg) t + 1 = creations_left (cf_id cfg) s"
proof -
  have "\<not> creation_claimed (cf_id cfg) (w_db (pv_world s)) \<and> creation_claimed (cf_id cfg) (w_db (pv_world t)) \<and> pv_google t = pv_google s"
    using assms by (auto simp: on_target_def db_transaction_def take_fault_def target_compareAndSet_def bindE_def thenE_def creation_claimed_def audience_row_def
        Let_def update_conv' split: prod.splits sum.splits list.splits option.splits tx_fault.splits if_splits dest!: canon_phase)
  then show ?thesis by (simp add: creations_left_def)
qed

lemma spend_requests:
  "frames (no_more y) (on_requests (on_services m))" "frames (no_more y) (on_requests (throw_if_signalled S))"
  "frames (no_more y) (on_requests (verifyExisting S c i f))" "frames (no_more y) (on_requests (reconcile_audience S c n))"
  by (auto intro!: on_requests_spend dest: on_services_posts throw_if_signalled_posts verifyExisting_posts reconcile_audience_posts)

lemma phase_member: "member (json_of_audience_state st) ''phase'' = JStr (creation_text (gs_phase st))"
  by (simp add: json_of_audience_state_def)

lemma create_spend:
  "on_requests (bindE (create_audience token S c m) (\<lambda>i. returnE (Some i))) s = (r, t) \<Longrightarrow> creations_left y t \<le> creations_left y s + 1"
  by (cases r) (auto simp: on_requests_def run_simps creations_left_def split: prod.splits dest!: create_audience_posts)

lemma create_step_spend:
  assumes phase: "member v ''phase'' \<noteq> JStr ''prepared''" and k: "\<And>found. frames (no_more (cf_id cfg)) (k found)"
  shows "frames (no_more (cf_id cfg)) (bindE (on_target (target_compareAndSet (cf_id cfg) googleAudienceStateStream
       (json_of_audience_state (st\<lparr>gs_phase := CreationPrepared\<rparr>)) v))
     (\<lambda>claimed. thenE (on_requests (on_services (f claimed)))
       (bindE (on_requests (if claimed then bindE (create_audience token S c m) (\<lambda>i. returnE (Some i)) else reconcile_audience S c m)) k)))"
    (is "frames _ (bindE ?cas ?rest)")
proof (rule framesI)
  fix s r t assume run: "bindE ?cas ?rest s = (r, t)"
  obtain q s1 where q: "?cas s = (q, s1)" by fastforce
  have cas: "no_more (cf_id cfg) s s1" by (rule framesD[OF on_target_spend[OF target_compareAndSet_claimed[OF phase]] q])
  show "no_more (cf_id cfg) s t"
  proof (cases q)
    case (Inl e)
    with run q cas show ?thesis by (simp add: bindE_def)
  next
    case (Inr claimed)
    with run q have rest: "?rest claimed s1 = (r, t)" by (simp add: bindE_def)
    show ?thesis
    proof (cases claimed)
      case False
      then have "frames (no_more (cf_id cfg)) (?rest claimed)" by (auto intro!: spend.frame_then spend.frame_bind spend_requests k)
      from framesD[OF this rest] cas show ?thesis by (rule spend.frame_trans[rotated])
    next
      case True
      have left: "creations_left (cf_id cfg) s1 + 1 = creations_left (cf_id cfg) s"
        by (rule compareAndSet_claims[OF _ phase, of cfg st s]) (use q Inr True in simp)
      obtain n s2 where n: "on_requests (on_services (f True)) s1 = (n, s2)" by fastforce
      obtain i s3 where i: "on_requests (bindE (create_audience token S c m) (\<lambda>i. returnE (Some i))) s2 = (i, s3)" by fastforce
      have "creations_left (cf_id cfg) s2 \<le> creations_left (cf_id cfg) s1" using framesD[OF spend_requests(1) n, of "cf_id cfg"] by (simp add: no_more_def)
      moreover have "creations_left (cf_id cfg) s3 \<le> creations_left (cf_id cfg) s2 + 1" by (rule create_spend[OF i])
      moreover have "creations_left (cf_id cfg) t \<le> creations_left (cf_id cfg) s3" if "n = Inr u" "i = Inr found" for u found
        using rest n i that True framesD[OF k] by (auto simp: thenE_def bindE_def no_more_def)
      moreover have "t = s2" if "n = Inl e" for e using rest n that True by (simp add: thenE_def bindE_def)
      moreover have "t = s3" if "n = Inr u" "i = Inl e" for u e using rest n i that True by (simp add: thenE_def bindE_def)
      ultimately show ?thesis using left by (cases n; cases i) (force simp: no_more_def)+
    qed
  qed
qed

lemma advance_creation_spend: "frames (no_more (cf_id cfg)) (advance_creation S note cfg c prior)"
  unfolding advance_creation_def Let_def ensure_plain_def
  by (intro spend.frame_rules spend_requests create_step_spend on_target_spend target_compareAndSet_claimed) (auto simp: phase_member)

lemma saved_intent_spend: "frames (no_more (cf_id cfg)) (saved_intent sha S cfg c s name nonce bound)"
  unfolding saved_intent_def read_target_def parsedE_def ensure_plain_def
  by (intro spend.frame_rules spend_requests on_target_spend target_read_claimed target_create_claimed)

lemma resolve_spend: "frames (no_more (cf_id cfg)) (resolveGoogleAudience sha S note nonce cfg)"
proof -
  have plain: "frames (no_more (cf_id cfg)) (ensure_plain b msg)" "frames (no_more (cf_id cfg)) (ensure_each bs)" "frames (no_more (cf_id cfg)) (parsedE v)" for b msg bs and v :: "'x option"
    by (auto simp: ensure_plain_def ensure_each_def parsedE_def intro!: spend.frame_rules split: option.splits)
  have managed: "frames (no_more (cf_id cfg)) (resolve_managed sha S note nonce cfg c s name)" for c s name
    unfolding resolve_managed_def
    by (intro spend.frame_rules plain saved_intent_spend advance_creation_spend on_requests_spend)
      (auto simp: run_simps thenE_def bindE_def split: prod.splits sum.splits dest!: verifyManaged_posts on_services_posts)
  have existing: "frames (no_more (cf_id cfg)) (resolve_existing S cfg c s i)" for c s i
    unfolding resolve_existing_def by (intro spend.frame_rules plain spend_requests)
  show ?thesis unfolding resolveGoogleAudience_def
    by (intro spend.frame_rules plain) (auto intro!: spend.frame_rules plain managed existing split: audience_choice.splits)
qed

text \<open>Any number of attempts for a sync, with what else happens in between: other rows change, and other requests are made elsewhere.\<close>

inductive provisioned :: "(string \<Rightarrow> string) \<Rightarrow> string \<Rightarrow> 'g provisioning \<Rightarrow> 'g provisioning \<Rightarrow> bool" for sha y s where
  none: "provisioned sha y s s"
| attempt: "provisioned sha y s t \<Longrightarrow> cf_id cfg = y \<Longrightarrow> provisioned sha y s (snd (resolveGoogleAudience sha S note nonce cfg t))"
| elsewhere: "provisioned sha y s t \<Longrightarrow> gg_log (pv_google t') = gg_log (pv_google t) \<Longrightarrow>
    audience_row y (w_db (pv_world t')) = audience_row y (w_db (pv_world t)) \<Longrightarrow> provisioned sha y s t'"

lemma provisioned_spend: "provisioned sha y s t \<Longrightarrow> no_more y s t"
proof (induction rule: provisioned.induct)
  case (attempt t cfg S tell nonce)
  have "no_more y t (snd (resolveGoogleAudience sha S tell nonce cfg t))"
    using resolve_spend[of cfg sha S tell nonce] attempt.hyps(2) by (simp add: frames_def)
  with attempt.IH show ?case by (rule spend.frame_trans)
next
  case (elsewhere t t')
  then show ?case by (simp add: no_more_def creations_left_def posts_def creation_claimed_def)
qed (rule spend.frame_refl)

lemma one_creation: "provisioned sha y s t \<Longrightarrow> posts (pv_google t) \<le> posts (pv_google s) + 1"
  using provisioned_spend[of sha y s t] by (simp add: no_more_def creations_left_def split: if_splits)

end
