(* ===== verification/GoogleBinding.thy ===== *)
theory GoogleBinding
  imports GoogleCreation
begin

text \<open>
  What the provisioning resolves, the adapter binds: the options and the audience it writes into the configuration parse, belong to the sync
  and its account, and pass every check between the provisioning and the first request of the writer.
\<close>

subsection \<open>Members of an object\<close>

lemma lookup_optional: "map_of (optional_member k f v) k' = (if k = k' then map_option f v else None)"
  by (auto simp: optional_member_def split: option.splits)

lemma optional_found:
  assumes "map_of kvs k = map_option f v" and "\<And>a. v = Some a \<Longrightarrow> p (f a) = Some a"
  shows "optional k p kvs = Some v"
  using assms by (cases v) (simp_all add: optional_def)

lemma strict_append: "strict_keys ks (xs @ ys) \<longleftrightarrow> strict_keys ks xs \<and> strict_keys ks ys"
  by (simp add: strict_keys_def)

lemma strict_Cons: "strict_keys ks [] \<longleftrightarrow> True" "strict_keys ks ((k, v) # xs) \<longleftrightarrow> k \<in> set ks \<and> strict_keys ks xs"
  by (simp_all add: strict_keys_def)

lemma strict_optional: "k \<in> set ks \<Longrightarrow> strict_keys ks (optional_member k f v)"
  by (auto simp: strict_keys_def optional_member_def split: option.splits)

lemma case_option_same: "(case v of None \<Rightarrow> None | Some a \<Rightarrow> Some a) = v"
  by (cases v) auto

lemmas lookups = lookup_optional map_add_def case_option_same

lemma optional_Some: "optional k p kvs = Some v \<Longrightarrow> v = Some a \<Longrightarrow> \<exists>x. map_of kvs k = Some x \<and> p x = Some a"
  by (auto simp: optional_def split: option.splits)

subsection \<open>Values\<close>

lemma plain_int_text: "plain_integer_text (int_text n)"
  using nat_text_digits[of "nat n"] nat_text_digits[of "nat (- n)"] by (auto simp: plain_integer_text_def int_text_def)

lemma int_between_int: "lo \<le> n \<Longrightarrow> n \<le> hi \<Longrightarrow> int_between lo hi (JInt n) = Some n"
  by (simp add: plain_int_text)

lemma int_between_Some: "int_between lo hi v = Some n \<Longrightarrow> lo \<le> n \<and> n \<le> hi"
  by (cases v) (auto split: if_splits)

lemma text_where_Some: "text_where P v = Some s \<longleftrightarrow> v = JStr s \<and> P s"
  by (cases v) auto

lemma string_between_Some: "string_between lo hi v = Some s \<longleftrightarrow> v = JStr s \<and> lo \<le> length s \<and> length s \<le> hi"
  by (cases v) auto

definition account_digits :: "string \<Rightarrow> bool" where
  "account_digits s \<longleftrightarrow> length s = 10 \<and> list_all digit s"

lemma dash_no_digit: "\<not> digit (CHR ''-'')"
  by (simp add: digit_def char_code_def)

lemma digits_kept: "list_all digit s \<Longrightarrow> filter (\<lambda>c. c \<noteq> CHR ''-'') s = s"
  using dash_no_digit by (auto simp: list_all_iff filter_id_conv)

lemma customer_text_digits: "customer_text s \<Longrightarrow> account_digits (filter (\<lambda>c. c \<noteq> CHR ''-'') s)"
proof -
  assume s: "customer_text s"
  show ?thesis
  proof (cases "length s = 10 \<and> list_all digit s")
    case True
    then show ?thesis by (simp add: account_digits_def digits_kept)
  next
    case False
    with s have parts: "length s = 12" "s ! 3 = CHR ''-''" "s ! 7 = CHR ''-''" "list_all digit (take 3 s)" "list_all digit (take 3 (drop 4 s))" "list_all digit (drop 8 s)"
      by (auto simp: customer_text_def)
    have "s = take 3 s @ s ! 3 # take 3 (drop 4 s) @ s ! 7 # drop 8 s"
      using parts(1) id_take_nth_drop[of 3 s] id_take_nth_drop[of 3 "drop 4 s"] by simp
    then have "filter (\<lambda>c. c \<noteq> CHR ''-'') s = filter (\<lambda>c. c \<noteq> CHR ''-'') (take 3 s @ s ! 3 # take 3 (drop 4 s) @ s ! 7 # drop 8 s)"
      by (rule arg_cong)
    also have "\<dots> = take 3 s @ take 3 (drop 4 s) @ drop 8 s"
      using digits_kept[OF parts(4)] digits_kept[OF parts(5)] digits_kept[OF parts(6)] by (simp add: parts(2,3))
    finally have "filter (\<lambda>c. c \<noteq> CHR ''-'') s = take 3 s @ take 3 (drop 4 s) @ drop 8 s" .
    with parts show ?thesis by (simp add: account_digits_def)
  qed
qed

lemma googleCustomerId_Some: "googleCustomerId v = Some s \<Longrightarrow> account_digits s"
  by (auto simp: googleCustomerId_def text_where_Some customer_text_digits)

lemma googleCustomerId_again: "account_digits s \<Longrightarrow> googleCustomerId (JStr s) = Some s"
  by (simp add: googleCustomerId_def account_digits_def customer_text_def digits_kept)

subsection \<open>Credentials\<close>

definition credentials_ok :: "audience_credentials \<Rightarrow> bool" where
  "credentials_ok c \<longleftrightarrow> 1 \<le> length (cr_oauthConnectionId c) \<and> length (cr_oauthConnectionId c) \<le> 512 \<and> account_digits (cr_customerId c)
     \<and> (cr_loginCustomerId c = [] \<or> account_digits (cr_loginCustomerId c))"

lemma login_customer_Some: "login_customer v = Some l \<Longrightarrow> l = [] \<or> account_digits l"
  by (auto simp: login_customer_def googleCustomerId_Some split: if_splits)

lemma defaulted_Some: "defaulted k f d kvs = Some x \<Longrightarrow> x = d \<or> (\<exists>v. f v = Some x)"
  by (auto simp: defaulted_def optional_def split: option.splits)

lemma required_Some: "required k f kvs = Some x \<Longrightarrow> \<exists>v. map_of kvs k = Some v \<and> f v = Some x"
  by (auto simp: required_def bind_eq_Some_conv)

lemma credentials_parsed:
  assumes "GoogleAudienceCredentials v = Some c"
  shows "credentials_ok c"
proof -
  from assms obtain kvs where kvs: "required ''oauthConnectionId'' (string_between 1 512) kvs = Some (cr_oauthConnectionId c)"
      "required ''customerId'' googleCustomerId kvs = Some (cr_customerId c)" "defaulted ''loginCustomerId'' login_customer [] kvs = Some (cr_loginCustomerId c)"
    by (auto simp: GoogleAudienceCredentials_def bind_eq_Some_conv)
  from required_Some[OF kvs(1)] required_Some[OF kvs(2)] defaulted_Some[OF kvs(3)] show ?thesis
    by (auto simp: credentials_ok_def string_between_Some dest: googleCustomerId_Some login_customer_Some)
qed

lemma credentials_again: "credentials_ok c \<Longrightarrow> GoogleAudienceCredentials (json_of_credentials c) = Some c"
  by (auto simp: credentials_ok_def GoogleAudienceCredentials_def json_of_credentials_def required_def literal_def defaulted_def optional_def
      login_customer_def googleCustomerId_again)

lemma credentials_with_member:
  "GoogleAudienceCredentials v = Some c \<Longrightarrow> GoogleAudienceCredentials (with_member ''reverseManagedAudience'' m v) = Some c"
proof -
  assume c: "GoogleAudienceCredentials v = Some c"
  then obtain kvs where "v = JObj kvs" by (cases v) (auto simp: GoogleAudienceCredentials_def)
  with c show ?thesis by (simp add: with_member_def GoogleAudienceCredentials_def required_def defaulted_def optional_def update_conv')
qed

subsection \<open>Fields\<close>

definition fields_ok :: "audience_fields \<Rightarrow> bool" where
  "fields_ok f \<longleftrightarrow> (\<forall>a. af_appId f = Some a \<longrightarrow> 1 \<le> length a \<and> length a \<le> 255) \<and> (\<forall>p. af_mobilePlatform f = Some p \<longrightarrow> p = ''IOS'' \<or> p = ''ANDROID'')"

lemma audienceFields_ok: "audienceFields kvs = Some f \<Longrightarrow> fields_ok f"
  by (auto simp: audienceFields_def fields_ok_def bind_eq_Some_conv optional_def one_text_def text_where_Some string_between_Some split: option.splits)

lemma type_again: "GoogleAudienceType (JStr (type_text t)) = Some t"
  by (cases t) simp_all

lemma audienceFields_again:
  assumes "fields_ok f" and "map_of kvs ''identifierType'' = map_option (\<lambda>t. JStr (type_text t)) (af_identifierType f)"
    and "map_of kvs ''appId'' = map_option JStr (af_appId f)" and "map_of kvs ''mobilePlatform'' = map_option JStr (af_mobilePlatform f)"
  shows "audienceFields kvs = Some f"
proof -
  have "optional ''identifierType'' GoogleAudienceType kvs = Some (af_identifierType f)"
    by (rule optional_found[OF assms(2)]) (simp add: type_again del: GoogleAudienceType.simps)
  moreover have "optional ''appId'' (string_between 1 255) kvs = Some (af_appId f)"
    by (rule optional_found[OF assms(3)]) (use assms(1) in \<open>simp add: fields_ok_def\<close>)
  moreover have "optional ''mobilePlatform'' (one_text [''IOS'', ''ANDROID'']) kvs = Some (af_mobilePlatform f)"
    by (rule optional_found[OF assms(4)]) (use assms(1) in \<open>simp add: fields_ok_def one_text_def\<close>)
  ultimately show ?thesis by (simp add: audienceFields_def)
qed

subsection \<open>Options\<close>

definition settings_ok :: "audience_settings \<Rightarrow> bool" where
  "settings_ok s \<longleftrightarrow> fields_ok (as_fields s) \<and> (\<forall>d. as_membershipDays s = Some d \<longrightarrow> 1 \<le> d \<and> d \<le> 540)
     \<and> (\<forall>t. as_strategy s = Some t \<longrightarrow> t = ''snapshot-diff'' \<or> t = ''full-replace'')
     \<and> (is_managed (as_audience s) \<or> as_strategy s = Some ''full-replace'' \<longrightarrow> as_exclusive s)
     \<and> (\<forall>i. as_audience s = ExistingChoice i \<longrightarrow> audience_id i)"

lemma choice_existing: "choice_schema v = Some (ExistingChoice i) \<Longrightarrow> audience_id i"
  by (auto simp: choice_schema_def bind_eq_Some_conv required_def text_where_Some split: if_splits)

lemma settings_parsed:
  assumes "GoogleAudienceSettings v = Some s"
  shows "settings_ok s"
proof -
  from assms obtain kvs where kvs: "required ''audience'' choice_schema kvs = Some (as_audience s)"
      "optional ''mirrorStrategy'' (one_text [''snapshot-diff'', ''full-replace'']) kvs = Some (as_strategy s)"
      "optional ''membershipDays'' (int_between 1 540) kvs = Some (as_membershipDays s)" "audienceFields kvs = Some (as_fields s)"
      "is_managed (as_audience s) \<or> as_strategy s = Some ''full-replace'' \<longrightarrow> as_exclusive s"
    unfolding GoogleAudienceSettings_def by (auto simp: bind_eq_Some_conv check_def split: if_splits)
  have "1 \<le> d \<and> d \<le> 540" if "as_membershipDays s = Some d" for d using optional_Some[OF kvs(3) that] by (auto dest: int_between_Some)
  moreover have "t = ''snapshot-diff'' \<or> t = ''full-replace''" if "as_strategy s = Some t" for t
    using optional_Some[OF kvs(2) that] by (auto simp: one_text_def text_where_Some)
  moreover have "audience_id i" if "as_audience s = ExistingChoice i" for i using required_Some[OF kvs(1)] that by (auto dest: choice_existing)
  ultimately show ?thesis using audienceFields_ok[OF kvs(4)] kvs(5) by (auto simp: settings_ok_def)
qed

lemma strict_fields: "set audience_field_names \<subseteq> set ks \<Longrightarrow> strict_keys ks (json_of_fields f)"
  unfolding json_of_fields_def audience_field_names_def by (simp add: strict_append strict_optional)

text \<open>The options that a resolution writes parse, to what the settings say and the audience that was resolved.\<close>

lemma options_again:
  assumes s: "settings_ok s" and i: "audience_id i" and m: "\<And>j. m = Some j \<Longrightarrow> managed_id j"
  shows "GoogleAudienceOptions (JObj (settings_rest s @ (''audienceId'', JStr i) # optional_member ''managedAudienceId'' JStr m))
    = Some \<lparr>ao_audienceId = i, ao_managedAudienceId = m, ao_membershipDays = as_membershipDays s,
        ao_fullReplace = (as_strategy s = Some ''full-replace''), ao_fields = as_fields s\<rparr>"
proof -
  let ?kvs = "settings_rest s @ (''audienceId'', JStr i) # optional_member ''managedAudienceId'' JStr m"
  note defs = settings_rest_def json_of_fields_def lookups
  have strict: "strict_members ([''audienceId'', ''managedAudienceId'', ''membershipDays'', ''customerMatchTermsAccepted'', ''mirrorStrategy'',
        ''exclusiveManagementConfirmed''] @ audience_field_names) (JObj ?kvs) = Some ?kvs"
    unfolding strict_members_def settings_rest_def by (simp add: strict_append strict_Cons strict_optional strict_fields subset_iff)
  have aid: "required ''audienceId'' (text_where audience_id) ?kvs = Some i" using i by (simp add: required_def defs)
  have managed: "optional ''managedAudienceId'' (text_where managed_id) ?kvs = Some m"
    by (rule optional_found[where f = JStr]) (simp add: defs split: option.split, use m in simp)
  have days: "optional ''membershipDays'' (int_between 1 540) ?kvs = Some (as_membershipDays s)"
    by (rule optional_found[where f = JInt]) (simp add: defs split: option.split, use s in \<open>simp add: settings_ok_def int_between_int del: int_between.simps\<close>)
  have terms: "required ''customerMatchTermsAccepted'' (literal (JBool True)) ?kvs = Some ()" by (simp add: required_def literal_def defs)
  have strategy: "optional ''mirrorStrategy'' (one_text [''snapshot-diff'', ''full-replace'']) ?kvs = Some (as_strategy s)"
    by (rule optional_found[where f = JStr]) (simp add: defs split: option.split, use s in \<open>simp add: settings_ok_def one_text_def\<close>)
  have exclusive: "optional ''exclusiveManagementConfirmed'' (literal (JBool True)) ?kvs = Some (if as_exclusive s then Some () else None)"
    by (rule optional_found[where f = "\<lambda>_. JBool True"]) (simp_all add: defs literal_def)
  have rest: "audienceFields ?kvs = Some (as_fields s)" using s by (intro audienceFields_again) (simp_all add: settings_ok_def defs split: option.split)
  show ?thesis unfolding GoogleAudienceOptions_def using s
    by (simp add: strict aid managed days terms strategy exclusive rest check_def settings_ok_def del: append.simps)
qed

subsection \<open>Managed audiences\<close>

definition intent_ok :: "managed_intent \<Rightarrow> bool" where
  "intent_ok m \<longleftrightarrow> managed_id (mg_id m) \<and> 1 \<le> length (mg_syncId m) \<and> length (mg_syncId m) \<le> 128 \<and> account_digits (mg_customerId m)
     \<and> integration_code (mg_integrationCode m) \<and> 1 \<le> length (mg_displayName m) \<and> length (mg_displayName m) \<le> 255
     \<and> 1 \<le> mg_membershipDays m \<and> mg_membershipDays m \<le> 540 \<and> fields_ok (mg_fields m)"

lemma managed_members_ok: "managed_members kvs = Some m \<Longrightarrow> intent_ok m"
  by (auto simp: managed_members_def intent_ok_def bind_eq_Some_conv dest!: required_Some simp: text_where_Some string_between_Some
      dest: googleCustomerId_Some int_between_Some audienceFields_ok)

lemma managed_members_again:
  assumes "intent_ok m" and "\<And>k. k \<in> set managed_names \<Longrightarrow> map_of kvs k = map_of (json_of_managed m) k"
  shows "managed_members kvs = Some m"
proof -
  note defs = json_of_managed_def json_of_fields_def lookups
  have at: "map_of kvs k = map_of (json_of_managed m) k" if "k \<in> set managed_names" for k using assms(2) that .
  have rest: "audienceFields kvs = Some (mg_fields m)"
    using assms(1) by (intro audienceFields_again) (simp_all add: at managed_names_def audience_field_names_def intent_ok_def defs split: option.split)
  have days: "required ''membershipDays'' (int_between 1 540) kvs = Some (mg_membershipDays m)"
    using assms(1) by (simp add: required_def at managed_names_def defs intent_ok_def plain_int_text split: option.split)
  show ?thesis unfolding managed_members_def using assms(1)
    by (simp add: days rest) (simp add: required_def at managed_names_def defs intent_ok_def googleCustomerId_again Suc_le_eq split: option.split)
qed

lemma with_audience_simps:
  "managed_intent.truncate (with_audience m i) = m" "mg_audienceId (with_audience m i) = i" "mg_id (with_audience m i) = mg_id m"
  "mg_syncId (with_audience m i) = mg_syncId m" "mg_customerId (with_audience m i) = mg_customerId m"
  by (cases m; simp add: with_audience_def managed_intent.defs)+

lemma strict_managed: "set managed_names \<subseteq> set ks \<Longrightarrow> strict_keys ks (json_of_managed m)"
  unfolding json_of_managed_def managed_names_def by (simp add: strict_append strict_Cons strict_fields)

lemma managed_audience_again:
  assumes "intent_ok m" and "audience_id i"
  shows "GoogleManagedAudience (json_of_audience (with_audience m i)) = Some (with_audience m i)"
proof -
  let ?kvs = "json_of_managed m @ [(''audienceId'', JStr i)]"
  have "strict_members (''audienceId'' # managed_names) (JObj ?kvs) = Some ?kvs"
    by (auto simp: strict_members_def strict_append strict_Cons intro!: strict_managed)
  moreover have "managed_members ?kvs = Some m"
    using assms(1) by (rule managed_members_again) (auto simp: managed_names_def audience_field_names_def map_add_def split: option.split)
  moreover have "required ''audienceId'' (text_where audience_id) ?kvs = Some i"
    using assms(2) by (simp add: required_def json_of_managed_def json_of_fields_def lookups)
  ultimately show ?thesis unfolding GoogleManagedAudience_def json_of_audience_def with_audience_simps by simp
qed

lemma managed_of_Some:
  assumes "managed_of st = Some m" and "intent_ok (gs_managed st)"
  shows "\<exists>i. m = with_audience (gs_managed st) i \<and> audience_id i"
proof -
  let ?kvs = "json_of_managed (gs_managed st) @ optional_member ''audienceId'' JStr (gs_audienceId st)"
  have "managed_members ?kvs = Some (gs_managed st)"
    using assms(2) by (rule managed_members_again) (auto simp: managed_names_def audience_field_names_def lookups split: option.split)
  with assms(1) show ?thesis
    unfolding managed_of_def GoogleManagedAudience_def
    by (auto simp: bind_eq_Some_conv strict_members_def text_where_Some split: if_splits dest!: required_Some)
qed

subsection \<open>The result of a resolution\<close>

lemma parsedE_Inr [run_simps]: "parsedE v s = (Inr x, t) \<longleftrightarrow> v = Some x \<and> t = s"
  by (auto simp: parsedE_def split: option.splits)

lemma ensure_plain_Inr [run_simps]: "ensure_plain b msg s = (Inr u, t) \<longleftrightarrow> b \<and> t = s"
  by (auto simp: ensure_plain_def)

lemma saved_intent_result:
  assumes "saved_intent sha S cfg c s name nonce bound x = (Inr prior, t)"
  shows "intent_ok (gs_managed prior) \<and> mg_syncId (gs_managed prior) = cf_id cfg \<and> mg_customerId (gs_managed prior) = cr_customerId c"
proof -
  from assms obtain raw where "raw \<bind> GoogleAudienceState = Some prior"
    and same: "mg_syncId (gs_managed prior) = cf_id cfg" "mg_customerId (gs_managed prior) = cr_customerId c"
    unfolding saved_intent_def by (auto simp: run_simps)
  then have "intent_ok (gs_managed prior)"
    by (auto simp: bind_eq_Some_conv GoogleAudienceState_def managed_without_id_def dest!: required_Some dest: managed_members_ok)
  with same show ?thesis by simp
qed

lemma advance_creation_result: "advance_creation S tell cfg c prior x = (Inr st, t) \<Longrightarrow> gs_managed st = gs_managed prior"
  by (auto simp: advance_creation_def run_simps Let_def split: if_splits)

lemma resolve_managed_result:
  assumes "resolve_managed sha S tell nonce cfg c s name x = (Inr cfg', t)"
  shows "cf_mode cfg = ModeMirror \<and> (\<exists>m i. intent_ok m \<and> audience_id i \<and> mg_syncId m = cf_id cfg \<and> mg_customerId m = cr_customerId c
    \<and> cfg' = cfg\<lparr>dc_destination := with_member ''reverseManagedAudience'' (json_of_audience (with_audience m i)) (dc_destination cfg),
        cf_streamOptions := JObj (settings_rest s @ (''audienceId'', JStr i) # optional_member ''managedAudienceId'' JStr (Some (mg_id m)))\<rparr>)"
proof -
  from assms obtain bound prior x1 x2 st x3 m where mode: "cf_mode cfg = ModeMirror" and prior: "saved_intent sha S cfg c s name nonce bound x1 = (Inr prior, x2)"
    and st: "advance_creation S tell cfg c prior x2 = (Inr st, x3)" and m: "managed_of st = Some m"
    and cfg': "cfg' = cfg\<lparr>dc_destination := with_member ''reverseManagedAudience'' (json_of_audience m) (dc_destination cfg),
        cf_streamOptions := JObj (settings_rest s @ [(''audienceId'', JStr (mg_audienceId m)), (''managedAudienceId'', JStr (mg_id m))])\<rparr>"
    unfolding resolve_managed_def by (auto simp: run_simps ensure_each_def)
  note facts = saved_intent_result[OF prior] advance_creation_result[OF st]
  with managed_of_Some[OF m] obtain i where "m = with_audience (gs_managed st) i" "audience_id i" by auto
  with mode facts cfg' show ?thesis
    by (intro conjI exI[of _ "gs_managed st"] exI[of _ i]) (simp_all add: with_audience_simps optional_member_def)
qed

subsection \<open>Binding\<close>

lemma registry_google: "createReverseEtlRegistry [(google_name, google_destination E)] = Inr [google_name \<mapsto> google_destination E]"
proof -
  have "registry_name google_name" by code_simp
  then show ?thesis
    by (simp add: createReverseEtlRegistry_def register_def google_destination_def google_stream_def validateStream_def safe_integer_def
        google_capabilities_def)
qed

lemma destination_stream: "rd_streams (google_destination E) = [google_stream E]"
  by (simp add: google_destination_def)

definition bound_env :: "(string \<Rightarrow> string) \<Rightarrow> audience_options \<Rightarrow> managed_audience option \<Rightarrow> google_env" where
  "bound_env sha opts managed = \<lparr>ge_sha = sha, ge_managed = managed, ge_replacement = ao_fullReplace opts\<rparr>"

definition bound_stream :: "google_env \<Rightarrow> run_mode \<Rightarrow> stream_metadata" where
  "bound_stream E mode = (if mode = ModeMirror then google_mirror_stream E else google_stream E)"

definition bound_identity :: "audience_credentials \<Rightarrow> audience_options \<Rightarrow> string" where
  "bound_identity c opts = ''google-data-manager:'' @ cr_customerId c @ '':'' @ ao_audienceId opts"

lemma bindGoogle_ok:
  assumes "GoogleAudienceCredentials (dc_destination cfg) = Some c" and "cr_oauthConnectionId c = ''destination.'' @ dc_toId cfg"
    and "GoogleAudienceOptions (cf_streamOptions cfg) = Some opts" and "ao_fullReplace opts \<Longrightarrow> cf_mode cfg = ModeMirror"
    and "managed_binding cfg c opts = Inr managed" and "cf_mode cfg = ModeMirror \<Longrightarrow> managed \<noteq> None \<or> ao_fullReplace opts"
  shows "bindGoogle sha S run cfg = Inr (google_adapter (bound_env sha opts managed) S run cfg c opts (bound_identity c opts)
    (bound_stream (bound_env sha opts managed) (cf_mode cfg)))"
proof -
  have "googleAudienceTargetIdentity (json_of_credentials c) (cf_streamOptions cfg) = Inr (bound_identity c opts)"
    using credentials_again[OF credentials_parsed[OF assms(1)]] assms(3) by (simp add: googleAudienceTargetIdentity_def audience_target_def bound_identity_def)
  with assms show ?thesis
    by (auto simp: bindGoogle_def registry_google bound_env_def bound_stream_def Let_def destination_stream)
qed

lemma writer_accepts:
  assumes "GoogleAudienceCredentials (dc_destination cfg) = Some c"
    and "GoogleAudienceOptions (cf_streamOptions cfg) = Some opts" and "ao_fullReplace opts \<Longrightarrow> cf_mode cfg = ModeMirror"
    and "managed_binding cfg c opts = Inr managed" and "cf_mode cfg = ModeMirror \<Longrightarrow> managed \<noteq> None \<or> ao_fullReplace opts"
  shows "check_writer (bound_env sha opts managed) (run_context cfg run (bound_identity c opts) c) = Inr ()"
proof -
  have again: "GoogleAudienceCredentials (json_of_credentials c) = Some c" by (rule credentials_again[OF credentials_parsed[OF assms(1)]])
  have "googleAudienceTargetIdentity (json_of_credentials c) (cf_streamOptions cfg) = Inr (bound_identity c opts)"
    using again assms(2) by (simp add: googleAudienceTargetIdentity_def audience_target_def bound_identity_def)
  with again assms show ?thesis
    by (auto simp: check_writer_def run_context_def bound_env_def managed_binding_def split: option.splits if_splits)
qed

text \<open>The adapter of a configuration passes the checks of an execution, keeps to the journal's operations and creates its writer.\<close>

definition bound_well :: "(string \<Rightarrow> string) \<Rightarrow> 'g services \<Rightarrow> string \<Rightarrow> destination_config \<Rightarrow> bool" where
  "bound_well sha S run cfg \<longleftrightarrow> (\<exists>ad. bindGoogle sha S run cfg = Inr ad \<and> st_name (ad_stream ad) = cf_stream cfg
     \<and> (cf_mode cfg = ModeMirror \<longrightarrow> mirror_verified ad) \<and> adapter_keeps (on_session reach.on_track) ad
     \<and> (\<forall>z. fst (p_createWriter (ad_provider ad) z) = Inr \<lparr>wm_remove = True, wm_reconcile = True\<rparr>))"

lemma adapter_bound_well:
  assumes "cf_stream cfg = ''audience''" and "GoogleAudienceCredentials (dc_destination cfg) = Some c" and "cr_oauthConnectionId c = ''destination.'' @ dc_toId cfg"
    and "GoogleAudienceOptions (cf_streamOptions cfg) = Some opts" and "ao_fullReplace opts \<Longrightarrow> cf_mode cfg = ModeMirror"
    and "managed_binding cfg c opts = Inr managed" and "cf_mode cfg = ModeMirror \<Longrightarrow> managed \<noteq> None \<or> ao_fullReplace opts"
  shows "bound_well sha S run cfg"
proof -
  let ?E = "bound_env sha opts managed" and ?stream = "bound_stream (bound_env sha opts managed) (cf_mode cfg)"
  let ?ad = "google_adapter ?E S run cfg c opts (bound_identity c opts) ?stream"
  note accepts = writer_accepts[OF assms(2,4-7), of sha run]
  have "bindGoogle sha S run cfg = Inr ?ad" by (rule bindGoogle_ok[OF assms(2-7)])
  moreover have "st_name (ad_stream ?ad) = cf_stream cfg"
    using assms(1) by (simp add: google_adapter_def bound_stream_def google_mirror_stream_def google_stream_def)
  moreover have "mirror_verified ?ad" if "cf_mode cfg = ModeMirror"
    using assms(7)[OF that] by (auto simp: mirror_verified_def google_adapter_def google_mirror_def bound_env_def)
  moreover have "fst (p_createWriter (ad_provider ?ad) z) = Inr \<lparr>wm_remove = True, wm_reconcile = True\<rparr>" for z
    using accepts by (cases z) (simp add: google_adapter_def google_provider_def outside_def create_writer_def bindE_def split: prod.splits)
  ultimately show ?thesis unfolding bound_well_def using google_adapter_keeps by blast
qed

lemma resolved_binds:
  assumes "resolveGoogleAudience sha S tell nonce cfg x = (Inr cfg', t)"
  shows "\<exists>opts. GoogleAudienceOptions (cf_streamOptions cfg') = Some opts
    \<and> (bound_well sha S run cfg' \<longleftrightarrow> (ao_fullReplace opts \<longrightarrow> cf_mode cfg' = ModeMirror))"
proof -
  from assms obtain s c where s: "GoogleAudienceSettings (cf_streamOptions cfg) = Some s" and stream: "cf_stream cfg = ''audience''"
    and c: "GoogleAudienceCredentials (dc_destination cfg) = Some c" and oauth: "cr_oauthConnectionId c = ''destination.'' @ dc_toId cfg"
    and rest: "(case as_audience s of ExistingChoice i \<Rightarrow> resolve_existing S cfg c s i | ManagedChoice name \<Rightarrow> resolve_managed sha S tell nonce cfg c s name) x = (Inr cfg', t)"
    unfolding resolveGoogleAudience_def by (auto simp: run_simps ensure_each_def)
  note ok = settings_parsed[OF s]
  have refused: "\<not> bound_well sha S run cfg'" if "GoogleAudienceOptions (cf_streamOptions cfg') = Some opts" "ao_fullReplace opts" "cf_mode cfg' \<noteq> ModeMirror" for opts
    using that by (auto simp: bound_well_def bindGoogle_def split: option.splits if_splits)
  show ?thesis
  proof (cases "as_audience s")
    case (ExistingChoice i)
    with rest have cfg': "cfg' = cfg\<lparr>cf_streamOptions := JObj (settings_rest s @ (''audienceId'', JStr i) # optional_member ''managedAudienceId'' JStr None)\<rparr>"
      and mode: "cf_mode cfg \<noteq> ModeMirror \<or> as_strategy s = Some ''full-replace''"
      by (auto simp: resolve_existing_def run_simps optional_member_def)
    have "audience_id i" using ok ExistingChoice by (simp add: settings_ok_def)
    from options_again[OF ok this, of None] obtain opts where opts: "GoogleAudienceOptions (cf_streamOptions cfg') = Some opts"
      "ao_managedAudienceId opts = None" "ao_fullReplace opts = (as_strategy s = Some ''full-replace'')" by (auto simp: cfg')
    have "bound_well sha S run cfg'" if "ao_fullReplace opts \<longrightarrow> cf_mode cfg' = ModeMirror"
      by (rule adapter_bound_well[OF _ _ _ opts(1), where managed = None and c = c]) (use that mode stream c oauth opts in \<open>auto simp: cfg' managed_binding_def\<close>)
    with opts(1) refused show ?thesis by blast
  next
    case (ManagedChoice name)
    with rest have run: "resolve_managed sha S tell nonce cfg c s name x = (Inr cfg', t)" by simp
    from resolve_managed_result[OF run] obtain m i where mode: "cf_mode cfg = ModeMirror" and m: "intent_ok m" "audience_id i" "mg_syncId m = cf_id cfg"
        "mg_customerId m = cr_customerId c"
      and cfg': "cfg' = cfg\<lparr>dc_destination := with_member ''reverseManagedAudience'' (json_of_audience (with_audience m i)) (dc_destination cfg),
        cf_streamOptions := JObj (settings_rest s @ (''audienceId'', JStr i) # optional_member ''managedAudienceId'' JStr (Some (mg_id m)))\<rparr>" by blast
    from options_again[OF ok m(2), of "Some (mg_id m)"] m(1) obtain opts where opts: "GoogleAudienceOptions (cf_streamOptions cfg') = Some opts"
      "ao_managedAudienceId opts = Some (mg_id m)" "ao_audienceId opts = i" by (auto simp: cfg' intent_ok_def)
    obtain kvs where kvs: "dc_destination cfg = JObj kvs" using c by (cases "dc_destination cfg") (auto simp: GoogleAudienceCredentials_def)
    have "member (dc_destination cfg') ''reverseManagedAudience'' = json_of_audience (with_audience m i)"
      by (simp add: cfg' kvs with_member_def update_conv')
    then have "managed_binding cfg' c opts = Inr (Some (with_audience m i))"
      using managed_audience_again[OF m(1,2)] m(3,4) opts by (simp add: managed_binding_def with_audience_simps cfg')
    moreover have "GoogleAudienceCredentials (dc_destination cfg') = Some c" by (simp add: cfg' credentials_with_member[OF c])
    ultimately have "bound_well sha S run cfg'"
      by (intro adapter_bound_well[OF _ _ _ opts(1)]) (use mode stream oauth in \<open>auto simp: cfg'\<close>)
    with opts(1) mode show ?thesis by (auto simp: cfg')
  qed
qed

end
