(* ===== verification/GoogleConversionRows.thy ===== *)
theory GoogleConversionRows
  imports GoogleAdapter
begin

text \<open>
  The rows of Google conversions: the schemas of \<open>conversions/meta.ts\<close> and the mapping of a row to the payload of a conversion, \<open>normalize\<close>
  and its helpers in \<open>conversions/runtime.ts\<close>. What the engine of the program decides is the record \<open>js_values\<close>: the reading of a
  date, whose formats are the engine's own, the double of a decimal text, the parser of JSON, and the text of a large number. A row holds JSON
  values, so that a date is a text already.
\<close>

subsection \<open>Configuration\<close>

datatype conversion_stream = ClickConversions | CallConversions | ConversionAdjustments

fun conversion_name :: "conversion_stream \<Rightarrow> string" where
  "conversion_name ClickConversions = ''click-conversions''"
| "conversion_name CallConversions = ''call-conversions''"
| "conversion_name ConversionAdjustments = ''conversion-adjustments''"

definition GoogleConversionStream :: "string \<Rightarrow> conversion_stream option" where
  "GoogleConversionStream s = find (\<lambda>n. conversion_name n = s) [ClickConversions, CallConversions, ConversionAdjustments]"

definition GoogleConversionCredentials :: "json \<Rightarrow> (audience_credentials \<times> string option) option" where
  "GoogleConversionCredentials v = do {
     c \<leftarrow> GoogleAudienceCredentials v;
     kvs \<leftarrow> members_of v;
     developer \<leftarrow> optional ''developerToken'' any_text kvs;
     Some (c, developer) }"

record conversion_options =
  co_conversionActionId :: string
  co_api :: "string option"
  co_adjustmentType :: "string option"
  co_dataSource :: "string option"

definition GoogleConversionOptions :: "json \<Rightarrow> conversion_options option" where
  "GoogleConversionOptions v = do {
     kvs \<leftarrow> strict_members [''conversionActionId'', ''api'', ''adjustmentType'', ''dataSource''] v;
     i \<leftarrow> required ''conversionActionId'' (text_where audience_id) kvs;
     api \<leftarrow> optional ''api'' (one_text [''data-manager'', ''google-ads'']) kvs;
     adjustment \<leftarrow> optional ''adjustmentType'' (one_text [''ENHANCEMENT'', ''RESTATEMENT'', ''RETRACTION'']) kvs;
     source \<leftarrow> optional ''dataSource'' (one_text [''FIRST_PARTY'', ''THIRD_PARTY'']) kvs;
     Some \<lparr>co_conversionActionId = i, co_api = api, co_adjustmentType = adjustment, co_dataSource = source\<rparr> }"

record conversion_env =
  ce_sha :: "string \<Rightarrow> string"
  ce_stream :: conversion_stream
  ce_credentials :: audience_credentials
  ce_options :: conversion_options
  ce_dataManager :: bool
  ce_developerToken :: string

definition first_text :: "string option \<Rightarrow> string option \<Rightarrow> string" where
  "first_text a b = (case a of Some (c # cs) \<Rightarrow> c # cs | _ \<Rightarrow> (case b of None \<Rightarrow> [] | Some t \<Rightarrow> t))"

definition conversion_env_of :: "(string \<Rightarrow> string) \<Rightarrow> conversion_stream \<Rightarrow> json \<Rightarrow> json \<Rightarrow> string option \<Rightarrow> conversion_env result" where
  "conversion_env_of sha name credentials options defaultDeveloperToken = (case GoogleConversionCredentials credentials of
      None \<Rightarrow> Inl parse_failed
    | Some (c, developer) \<Rightarrow> (case GoogleConversionOptions options of
        None \<Rightarrow> Inl parse_failed
      | Some opts \<Rightarrow>
          let dataManager = (name = ClickConversions \<and> co_api opts \<noteq> Some ''google-ads''); developerToken = first_text developer defaultDeveloperToken in
          if name \<noteq> ClickConversions \<and> co_api opts = Some ''data-manager'' then fail ''Calls and adjustments require the Google Ads API''
          else if \<not> dataManager \<and> developerToken = [] then fail ''Google Ads developer token required for this stream; configure it on the destination''
          else Inr \<lparr>ce_sha = sha, ce_stream = name, ce_credentials = c, ce_options = opts, ce_dataManager = dataManager, ce_developerToken = developerToken\<rparr>))"

subsection \<open>Values\<close>

text \<open>\<open>Object.entries\<close> and \<open>String\<close>.\<close>

fun entries :: "json \<Rightarrow> (string \<times> json) list" where
  "entries (JObj kvs) = kvs"
| "entries (JArr vs) = map (\<lambda>(i, v). (nat_text i, v)) (enumerate 0 vs)"
| "entries (JStr s) = map (\<lambda>(i, c). (nat_text i, JStr [c])) (enumerate 0 s)"
| "entries _ = []"

fun value_text :: "json \<Rightarrow> string" where
  "value_text (JStr s) = s"
| "value_text (JNum t) = t"
| "value_text (JBool b) = (if b then ''true'' else ''false'')"
| "value_text JNull = ''null''"
| "value_text (JObj _) = ''[object Object]''"
| "value_text (JArr vs) = join '','' (map (\<lambda>v. case v of JNull \<Rightarrow> [] | JLossy \<Rightarrow> [] | _ \<Rightarrow> value_text v) vs)"
| "value_text JLossy = ''undefined''"

type_synonym conversion_payload = "(string \<times> json) list"

record js_values =
  jv_time :: "string \<Rightarrow> int option"
  jv_number :: "string \<Rightarrow> string option"
  jv_parse :: "string \<Rightarrow> json option"
  jv_string :: "int \<Rightarrow> string"

text \<open>\<open>JSON.parse(JSON.stringify(v))\<close>: members that are undefined are dropped.\<close>

fun json_copy :: "json \<Rightarrow> json" where
  "json_copy (JObj kvs) = JObj (map (\<lambda>(k, v). (k, json_copy v)) (filter (\<lambda>(k, v). v \<noteq> JLossy) kvs))"
| "json_copy (JArr vs) = JArr (map json_copy vs)"
| "json_copy JLossy = JNull"
| "json_copy v = v"

definition absent :: "json \<Rightarrow> bool" where
  "absent v \<longleftrightarrow> v = JNull \<or> v = JLossy"

definition compact :: "(string \<times> json) list \<Rightarrow> (string \<times> json) list" where
  "compact kvs = filter (\<lambda>(k, v). \<not> absent v \<and> v \<noteq> JStr []) kvs"

subsection \<open>Schemas\<close>

definition nullish_schema :: "(json \<Rightarrow> json option) \<Rightarrow> json \<Rightarrow> json option" where
  "nullish_schema f v = (if absent v then Some v else f v)"

definition fits :: "(json \<Rightarrow> bool) \<Rightarrow> json \<Rightarrow> json option" where
  "fits f v = (if f v then Some v else None)"

fun text_upto :: "nat \<Rightarrow> json \<Rightarrow> bool" where
  "text_upto n (JStr s) = (length s \<le> n)"
| "text_upto n _ = False"

definition row_text :: "json \<Rightarrow> json option" where
  "row_text = nullish_schema (fits (text_upto 4096))"

text \<open>\<open>/^-?\d+(?:\.\d+)?$/\<close>.\<close>

definition decimal_text :: "string \<Rightarrow> bool" where
  "decimal_text s = matches (in_order [maybe (exactly ''-''), repeated (Class digit), maybe (in_order [exactly ''.'', repeated (Class digit)])]) s"

fun numeric :: "js_values \<Rightarrow> json \<Rightarrow> json option" where
  "numeric L (JNum t) = Some (JNum t)"
| "numeric L (JStr s) = (if decimal_text s then map_option JNum (jv_number L s) else None)"
| "numeric L _ = None"

definition row_number :: "js_values \<Rightarrow> json \<Rightarrow> json option" where
  "row_number L = nullish_schema (numeric L)"

fun any_string :: "json \<Rightarrow> bool" where
  "any_string (JStr s) = True"
| "any_string _ = False"

definition time_schema :: "json \<Rightarrow> json option" where
  "time_schema = fits any_string"

definition one_literal :: "string list \<Rightarrow> json \<Rightarrow> json option" where
  "one_literal ss = nullish_schema (fits (\<lambda>v. v \<in> set (map JStr ss)))"

definition consent_value :: "json \<Rightarrow> json option" where
  "consent_value = one_literal [''GRANTED'', ''DENIED'', ''UNSPECIFIED'', ''UNKNOWN'']"

fun decoded :: "js_values \<Rightarrow> json \<Rightarrow> json" where
  "decoded L (JStr s) = (case jv_parse L s of None \<Rightarrow> JStr s | Some v \<Rightarrow> v)"
| "decoded L v = v"

definition json_column :: "js_values \<Rightarrow> (json \<Rightarrow> json option) \<Rightarrow> json \<Rightarrow> json option" where
  "json_column L f v = nullish_schema f (decoded L v)"

text \<open>
  A strict object: every member has its schema, a member that is missing is undefined, and the result has the members of the input in the
  order of the schema.
\<close>

type_synonym row_schema = "(string \<times> (json \<Rightarrow> json option)) list"

definition schema_member :: "(string \<times> json) list \<Rightarrow> string \<times> (json \<Rightarrow> json option) \<Rightarrow> (string \<times> json) list option" where
  "schema_member kvs entry = (case entry of (k, f) \<Rightarrow> (case map_of kvs k of
      None \<Rightarrow> if f JLossy = None then None else Some []
    | Some v \<Rightarrow> map_option (\<lambda>w. [(k, w)]) (f v)))"

definition strict_object :: "row_schema \<Rightarrow> json \<Rightarrow> json option" where
  "strict_object schema v = do {
     kvs \<leftarrow> strict_members (map fst schema) v;
     parts \<leftarrow> parse_all (schema_member kvs) schema;
     Some (JObj (concat parts)) }"

fun variable_value :: "json \<Rightarrow> bool" where
  "variable_value (JStr _) = True"
| "variable_value (JNum _) = True"
| "variable_value (JBool _) = True"
| "variable_value _ = False"

fun variable_record :: "json \<Rightarrow> bool" where
  "variable_record (JObj kvs) = list_all (\<lambda>(k, v). variable_value v) kvs"
| "variable_record _ = False"

fun source_key :: "json \<Rightarrow> bool" where
  "source_key JLossy = True"
| "source_key (JStr s) = hex64 s"
| "source_key _ = False"

definition common_fields :: "js_values \<Rightarrow> row_schema" where
  "common_fields L = [(''__sourceKey'', fits source_key), (''conversionTimestamp'', time_schema), (''value'', row_number L), (''currency'', row_text),
     (''adUserData'', consent_value), (''adPersonalization'', consent_value), (''customVariables'', json_column L (fits variable_record))]"

definition contact_schema :: row_schema where
  "contact_schema = map (\<lambda>(k, f). (k, fits f)) contact_fields"

definition texts :: "string list \<Rightarrow> row_schema" where
  "texts ks = map (\<lambda>k. (k, row_text)) ks"

definition session_schema :: row_schema where
  "session_schema = texts [''gadSource'', ''gadCampaignId'', ''landingPageUrl'', ''sessionStartTime'', ''landingPageReferrer'', ''landingPageUserAgent'']"

definition item_schema :: "js_values \<Rightarrow> row_schema" where
  "item_schema L = [(''productId'', fits any_string), (''quantity'', numeric L), (''price'', numeric L)]"

definition items_schema :: "js_values \<Rightarrow> json \<Rightarrow> json option" where
  "items_schema L v = map_option JArr (array_schema (strict_object (item_schema L)) 1000 v)"

definition GoogleClickRow :: "js_values \<Rightarrow> row_schema" where
  "GoogleClickRow L = common_fields L @ contact_schema @ texts [''gclid'', ''gbraid'', ''wbraid'', ''orderId'', ''userIpAddress'', ''userAgent''] @
     [(''conversionEnvironment'', one_literal [''APP'', ''WEB'', ''IN_STORE'', ''PHONE'', ''MESSAGE'', ''OTHER'', ''UNSPECIFIED'']),
      (''sessionAttributesEncoded'', row_text), (''sessionAttributes'', json_column L (strict_object session_schema))] @
     texts [''merchantId'', ''merchantCountryCode'', ''merchantLanguageCode''] @
     [(''transactionDiscount'', row_number L), (''items'', json_column L (items_schema L))]"

definition GoogleCallRow :: "js_values \<Rightarrow> row_schema" where
  "GoogleCallRow L = common_fields L @ [(''callerId'', fits (\<lambda>v. any_string v \<and> v \<noteq> JStr [])), (''callTimestamp'', time_schema)]"

definition GoogleAdjustmentRow :: "js_values \<Rightarrow> row_schema" where
  "GoogleAdjustmentRow L = [(''__sourceKey'', fits source_key)] @ contact_schema @
     [(''adjustmentType'', one_literal [''ENHANCEMENT'', ''RESTATEMENT'', ''RETRACTION'']), (''adjustmentTimestamp'', nullish_schema time_schema),
      (''conversionTimestamp'', nullish_schema time_schema)] @ texts [''orderId'', ''gclid''] @ [(''restatementValue'', row_number L)] @
     texts [''restatementCurrency'', ''streetAddress'', ''hashedStreetAddress'', ''city'', ''state'', ''userAgent'']"

fun googleConversionRows :: "js_values \<Rightarrow> conversion_stream \<Rightarrow> row_schema" where
  "googleConversionRows L ClickConversions = GoogleClickRow L"
| "googleConversionRows L CallConversions = GoogleCallRow L"
| "googleConversionRows L ConversionAdjustments = GoogleAdjustmentRow L"

subsection \<open>Times\<close>

text \<open>
  \<open>toISOString\<close>: the proleptic Gregorian calendar, counted in eras of four hundred years from the first of March; years beyond four digits
  have a sign and six digits.
\<close>

definition padded :: "nat \<Rightarrow> int \<Rightarrow> string" where
  "padded w n = (let t = int_text n in replicate (w - length t) (CHR ''0'') @ t)"

definition civil :: "int \<Rightarrow> int \<times> int \<times> int" where
  "civil days =
     (let z = days + 719468; era = z div 146097; doe = z mod 146097;
          yoe = (doe - doe div 1460 + doe div 36524 - doe div 146096) div 365;
          doy = doe - (365 * yoe + yoe div 4 - yoe div 100); mp = (5 * doy + 2) div 153;
          day = doy - (153 * mp + 2) div 5 + 1; month = (if mp < 10 then mp + 3 else mp - 9) in
      (yoe + era * 400 + (if month \<le> 2 then 1 else 0), month, day))"

definition year_text :: "int \<Rightarrow> string" where
  "year_text y = (if 0 \<le> y \<and> y \<le> 9999 then padded 4 y else (if y < 0 then ''-'' else ''+'') @ padded 6 \<bar>y\<bar>)"

definition isoTime :: "int \<Rightarrow> string" where
  "isoTime ms = (case civil (ms div 86400000) of (y, m, d) \<Rightarrow>
     let rest = ms mod 86400000 in
     year_text y @ ''-'' @ padded 2 m @ ''-'' @ padded 2 d @ ''T'' @ padded 2 (rest div 3600000) @ '':'' @ padded 2 (rest div 60000 mod 60)
       @ '':'' @ padded 2 (rest div 1000 mod 60) @ ''.'' @ padded 3 (rest mod 1000) @ ''Z'')"

text \<open>\<open>/(Z|[+-]\d{2}:\d{2})$/\<close>.\<close>

definition zone_offset :: "string \<Rightarrow> bool" where
  "zone_offset s = matches (in_order [Class (\<lambda>c. c \<in> set ''+-''), Class digit, Class digit, exactly '':'', Class digit, Class digit]) s"

definition has_zone :: "string \<Rightarrow> bool" where
  "has_zone s \<longleftrightarrow> drop (length s - 1) s = ''Z'' \<or> zone_offset (drop (length s - 6) s)"

definition no_timezone :: "'a result" where
  "no_timezone = fail ''Conversion timestamps must include a timezone''"

fun timestamp_of :: "js_values \<Rightarrow> json \<Rightarrow> string result" where
  "timestamp_of L (JStr s) = (if \<not> has_zone s then no_timezone else (case jv_time L s of None \<Rightarrow> no_timezone | Some t \<Rightarrow> Inr (isoTime t)))"
| "timestamp_of L _ = no_timezone"

definition spaced :: "string \<Rightarrow> string" where
  "spaced s = (case dropWhile (\<lambda>c. c \<noteq> CHR ''T'') s of [] \<Rightarrow> s | _ # rest \<Rightarrow> takeWhile (\<lambda>c. c \<noteq> CHR ''T'') s @ '' '' @ rest)"

text \<open>\<open>replace(/\.\d{3}Z$/, "+00:00")\<close>.\<close>

definition millis_zone :: "string \<Rightarrow> bool" where
  "millis_zone s = matches (in_order [exactly ''.'', Class digit, Class digit, Class digit, exactly ''Z'']) s"

definition with_offset :: "string \<Rightarrow> string" where
  "with_offset s = (let n = length s - 5 in if millis_zone (drop n s) then take n s @ ''+00:00'' else s)"

definition adsTime :: "js_values \<Rightarrow> json \<Rightarrow> string result" where
  "adsTime L v = bindR (timestamp_of L v) (\<lambda>t. Inr (with_offset (spaced t)))"

subsection \<open>Session attributes\<close>

definition utf8 :: "char \<Rightarrow> nat list" where
  "utf8 c = (let n = char_code c in if n < 128 then [n] else [192 + n div 64, 128 + n mod 64])"

definition base64_digit :: "nat \<Rightarrow> char" where
  "base64_digit n = ''ABCDEFGHIJKLMNOPQRSTUVWXYZabcdefghijklmnopqrstuvwxyz0123456789-_'' ! n"

fun base64url :: "nat list \<Rightarrow> string" where
  "base64url [] = []"
| "base64url [a] = map base64_digit [a div 4, a mod 4 * 16]"
| "base64url [a, b] = map base64_digit [a div 4, a mod 4 * 16 + b div 16, b mod 16 * 4]"
| "base64url (a # b # c # rest) =
     map base64_digit [a div 4, a mod 4 * 16 + b div 16, b mod 16 * 4 + c div 64, c mod 64] @ base64url rest"

text \<open>\<open>JSON.stringify\<close> of an object of texts, in the order of its members.\<close>

definition object_text :: "(string \<times> json) list \<Rightarrow> string" where
  "object_text kvs = ''{'' @ join '','' (map (\<lambda>(k, v). member_text (k, json_text v)) kvs) @ ''}''"

definition microseconds :: "js_values \<Rightarrow> json \<Rightarrow> json result" where
  "microseconds L v = (if \<not> truthy v then Inr JLossy
     else bindR (timestamp_of L v) (\<lambda>t. Inr (JStr (case jv_time L t of None \<Rightarrow> ''NaN'' | Some ms \<Rightarrow> jv_string L (ms * 1000)))))"

definition session_value :: "js_values \<Rightarrow> json \<Rightarrow> json result" where
  "session_value L row =
     (let s = member row ''sessionAttributes'' in
      if truthy (member row ''sessionAttributesEncoded'') then Inr (member row ''sessionAttributesEncoded'')
      else if \<not> truthy s then Inr JLossy
      else bindR (microseconds L (member s ''sessionStartTime'')) (\<lambda>start.
        Inr (JStr (base64url (concat (map utf8 (object_text (compact
          [(''gad_source'', member s ''gadSource''), (''gad_campaignid'', member s ''gadCampaignId''), (''landing_page_url'', member s ''landingPageUrl''),
           (''session_start_time_usec'', start), (''landing_page_referrer'', member s ''landingPageReferrer''),
           (''landing_page_user_agent'', member s ''landingPageUserAgent'')]))))))))"

subsection \<open>Identifiers\<close>

fun ads_identifier :: "(string \<Rightarrow> string) \<Rightarrow> json \<Rightarrow> user_identifier \<Rightarrow> (string \<times> json) list" where
  "ads_identifier sha row (EmailAddress h) = [(''hashedEmail'', JStr h)]"
| "ads_identifier sha row (PhoneNumber h) = [(''hashedPhoneNumber'', JStr h)]"
| "ads_identifier sha row (Address a) = [(''addressInfo'', JObj (compact
     [(''hashedFirstName'', JStr (ad_givenName a)), (''hashedLastName'', JStr (ad_familyName a)), (''countryCode'', JStr (ad_regionCode a)),
      (''postalCode'', JStr (ad_postalCode a)),
      (''hashedStreetAddress'', if field row ''streetAddress'' \<noteq> [] then JStr (nameHash sha (field row ''streetAddress''))
         else if absent (member row ''hashedStreetAddress'') then JLossy else JStr (lower (field row ''hashedStreetAddress''))),
      (''city'', member row ''city''), (''state'', member row ''state'')]))]"

definition adsIdentifiers :: "(string \<Rightarrow> string) \<Rightarrow> json \<Rightarrow> (string \<times> json) list list result" where
  "adsIdentifiers sha row = bindR (contactIdentifiers sha row) (\<lambda>ids. Inr (map (ads_identifier sha row) ids))"

definition too_many :: "'a list \<Rightarrow> unit result" where
  "too_many ids = (if length ids > 5 then fail ''Google accepts at most five conversion user identifiers'' else Inr ())"

subsection \<open>Payloads\<close>

definition conversionAction :: "conversion_env \<Rightarrow> string" where
  "conversionAction E = ''customers/'' @ cr_customerId (ce_credentials E) @ ''/conversionActions/'' @ co_conversionActionId (ce_options E)"

definition consent_fields :: "string list" where
  "consent_fields = [''adUserData'', ''adPersonalization'']"

definition has_member :: "json \<Rightarrow> string \<Rightarrow> bool" where
  "has_member row k = (case row of JObj kvs \<Rightarrow> map_of kvs k \<noteq> None | _ \<Rightarrow> False)"

text \<open>A column that is mapped and has no value is not a consent.\<close>

definition consent_text :: "json \<Rightarrow> string \<Rightarrow> string" where
  "consent_text row k = (if \<not> has_member row k then ''GRANTED'' else if absent (member row k) then ''UNSPECIFIED'' else field row k)"

definition consent_of :: "(string \<Rightarrow> string) \<Rightarrow> json \<Rightarrow> json" where
  "consent_of f row = JObj (map (\<lambda>k. (k, JStr (f (consent_text row k)))) consent_fields)"

definition event_consent :: "string \<Rightarrow> string" where
  "event_consent s = (if s = ''GRANTED'' \<or> s = ''DENIED'' then ''CONSENT_'' @ s else ''CONSENT_STATUS_UNSPECIFIED'')"

definition adjustment_type :: "conversion_env \<Rightarrow> json \<Rightarrow> string option" where
  "adjustment_type E row = (if absent (member row ''adjustmentType'') then co_adjustmentType (ce_options E) else Some (field row ''adjustmentType''))"

definition check_adjustment :: "string \<Rightarrow> json \<Rightarrow> unit result" where
  "check_adjustment type row =
     (if field row ''orderId'' = [] \<and> (field row ''gclid'' = [] \<or> field row ''conversionTimestamp'' = [])
      then fail ''Adjustment requires order ID or GCLID and original conversion time''
      else if type = ''RESTATEMENT'' \<and> absent (member row ''restatementValue'') then fail ''Restatement requires a value'' else Inr ())"

definition adjustment_identifiers :: "conversion_env \<Rightarrow> string \<Rightarrow> json \<Rightarrow> (string \<times> json) list list result" where
  "adjustment_identifiers E type row =
     bindR (if type = ''ENHANCEMENT'' then adsIdentifiers (ce_sha E) row else Inr []) (\<lambda>ids.
     if type = ''ENHANCEMENT'' \<and> (field row ''orderId'' = [] \<or> ids = []) then fail ''Enhancement requires order ID and user identifiers''
     else bindR (too_many ids) (\<lambda>_. Inr ids))"

definition sourced :: "conversion_env \<Rightarrow> (string \<times> json) list \<Rightarrow> json" where
  "sourced E i = JObj (i @ [(''userIdentifierSource'', JStr (case co_dataSource (ce_options E) of None \<Rightarrow> ''FIRST_PARTY'' | Some d \<Rightarrow> d))])"

definition click_pair :: "js_values \<Rightarrow> json \<Rightarrow> json result" where
  "click_pair L row = (if field row ''orderId'' \<noteq> [] then Inr JLossy
     else bindR (adsTime L (member row ''conversionTimestamp'')) (\<lambda>t.
       Inr (JObj [(''gclid'', member row ''gclid''), (''conversionDateTime'', JStr t)])))"

definition adjustment_payload :: "js_values \<Rightarrow> conversion_env \<Rightarrow> int \<Rightarrow> json \<Rightarrow> conversion_payload result" where
  "adjustment_payload L E now row = (case adjustment_type E row of
      None \<Rightarrow> fail ''Choose an adjustment type or map its column''
    | Some type \<Rightarrow>
        bindR (check_adjustment type row) (\<lambda>_.
        bindR (adjustment_identifiers E type row) (\<lambda>ids.
        bindR (adsTime L (if absent (member row ''adjustmentTimestamp'') then JStr (isoTime now) else member row ''adjustmentTimestamp'')) (\<lambda>at.
        bindR (click_pair L row) (\<lambda>pair.
        Inr (compact [(''conversionAction'', JStr (conversionAction E)), (''adjustmentType'', JStr type), (''adjustmentDateTime'', JStr at),
          (''orderId'', member row ''orderId''), (''gclidDateTimePair'', pair),
          (''restatementValue'', if type = ''RESTATEMENT''
             then JObj (compact [(''adjustedValue'', member row ''restatementValue''), (''currencyCode'', member row ''restatementCurrency'')]) else JLossy),
          (''userIdentifiers'', if ids \<noteq> [] then JArr (map (sourced E) ids) else JLossy),
          (''userAgent'', if type = ''ENHANCEMENT'' then member row ''userAgent'' else JLossy)]))))))"

definition call_payload :: "js_values \<Rightarrow> conversion_env \<Rightarrow> json \<Rightarrow> conversion_payload result" where
  "call_payload L E row =
     bindR (normalizePhone (field row ''callerId'') []) (\<lambda>caller.
     bindR (adsTime L (member row ''callTimestamp'')) (\<lambda>start.
     bindR (adsTime L (member row ''conversionTimestamp'')) (\<lambda>at.
     Inr (compact [(''conversionAction'', JStr (conversionAction E)), (''callerId'', JStr caller), (''callStartDateTime'', JStr start),
       (''conversionDateTime'', JStr at), (''conversionValue'', member row ''value''), (''currencyCode'', member row ''currency''),
       (''consent'', consent_of id row), (''customVariables'', member row ''customVariables'')]))))"

definition check_click :: "conversion_env \<Rightarrow> json \<Rightarrow> unit result" where
  "check_click E row =
     (let env = field row ''conversionEnvironment'' in
      if ce_dataManager E \<and> (field row ''merchantCountryCode'' \<noteq> [] \<or> field row ''merchantLanguageCode'' \<noteq> [])
      then fail ''Merchant feed country/language mappings require Google Ads API delivery''
      else if \<not> ce_dataManager E \<and> field row ''userAgent'' \<noteq> []
      then fail ''Click event user agent requires Data Manager; Google Ads API accepts landing-page user agent via session attributes''
      else if \<not> ce_dataManager E \<and> env \<noteq> [] \<and> env \<notin> set [''APP'', ''WEB'', ''UNSPECIFIED'']
      then fail ''Google Ads API conversion environment supports APP or WEB'' else Inr ())"

definition is_address :: "user_identifier \<Rightarrow> bool" where
  "is_address i = (case i of Address _ \<Rightarrow> True | _ \<Rightarrow> False)"

definition click_identifiers :: "js_values \<Rightarrow> conversion_env \<Rightarrow> json \<Rightarrow> user_identifier list result" where
  "click_identifiers L E row =
     bindR (contactIdentifiers (ce_sha E) row) (\<lambda>ids.
     if \<not> ce_dataManager E \<and> list_ex is_address ids
     then fail ''Google Ads click conversions support email and phone, not address identifiers; use Data Manager for address matching''
     else bindR (too_many ids) (\<lambda>_.
     bindR (if ids = [] \<and> field row ''gclid'' = [] \<and> field row ''gbraid'' = [] \<and> field row ''wbraid'' = []
        then bindR (session_value L row) (\<lambda>v.
          if truthy v then Inr () else fail ''Click conversion requires an identifier or session attributes'')
        else Inr ()) (\<lambda>_. Inr ids)))"

definition item_json :: "conversion_env \<Rightarrow> json \<Rightarrow> json" where
  "item_json E item = JObj [(if ce_dataManager E then ''merchantProductId'' else ''productId'', member item ''productId''),
     (''quantity'', member item ''quantity''), (''unitPrice'', member item ''price'')]"

definition cart_json :: "conversion_env \<Rightarrow> json \<Rightarrow> json" where
  "cart_json E row =
     (let items = member row ''items'' in
      if truthy items \<or> field row ''merchantId'' \<noteq> []
      then JObj (compact ([(''merchantId'', member row ''merchantId''),
          (''items'', case items of JArr vs \<Rightarrow> JArr (map (item_json E) vs) | _ \<Rightarrow> JLossy)]
        @ (if ce_dataManager E then [(''transactionDiscount'', member row ''transactionDiscount'')]
           else [(''localTransactionCost'', member row ''transactionDiscount''), (''feedCountryCode'', member row ''merchantCountryCode''),
             (''feedLanguageCode'', member row ''merchantLanguageCode'')])))
      else JLossy)"

definition transaction_id :: "conversion_env \<Rightarrow> string \<Rightarrow> json \<Rightarrow> string result" where
  "transaction_id E sync row = (if field row ''orderId'' \<noteq> [] then Inr (field row ''orderId'')
     else bindR (contentHash (ce_sha E) (JObj [(''syncId'', JStr sync), (''key'', member row ''__sourceKey'')])) (\<lambda>h. Inr (''jitsu-'' @ h)))"

definition event_source :: "json \<Rightarrow> string" where
  "event_source row = (let env = field row ''conversionEnvironment'' in if env = [] \<or> env = ''UNSPECIFIED'' then ''OTHER'' else env)"

definition event_variables :: "json \<Rightarrow> json" where
  "event_variables v = (if truthy v
     then JArr (map (\<lambda>(k, x). JObj [(''variable'', JStr k), (''value'', JStr (value_text x))]) (entries v)) else JLossy)"

definition event_payload :: "js_values \<Rightarrow> conversion_env \<Rightarrow> string \<Rightarrow> json \<Rightarrow> user_identifier list \<Rightarrow> conversion_payload result" where
  "event_payload L E sync row ids =
     bindR (transaction_id E sync row) (\<lambda>transaction.
     bindR (timestamp_of L (member row ''conversionTimestamp'')) (\<lambda>at.
     bindR (session_value L row) (\<lambda>attributes.
     Inr (compact [(''transactionId'', JStr transaction), (''eventTimestamp'', JStr at), (''eventSource'', JStr (event_source row)),
       (''conversionValue'', member row ''value''), (''currency'', member row ''currency''),
       (''userData'', if ids \<noteq> [] then JObj [(''userIdentifiers'', JArr (map json_of_identifier ids))] else JLossy),
       (''consent'', consent_of event_consent row),
       (''adIdentifiers'', JObj (compact [(''gclid'', member row ''gclid''), (''gbraid'', member row ''gbraid''), (''wbraid'', member row ''wbraid''),
          (''sessionAttributes'', attributes)])),
       (''eventDeviceInfo'', JObj (compact [(''ipAddress'', member row ''userIpAddress''), (''userAgent'', member row ''userAgent'')])),
       (''cartData'', cart_json E row), (''customVariables'', event_variables (member row ''customVariables''))]))))"

definition click_payload :: "js_values \<Rightarrow> conversion_env \<Rightarrow> string \<Rightarrow> json \<Rightarrow> conversion_payload result" where
  "click_payload L E sync row =
     bindR (adsTime L (member row ''conversionTimestamp'')) (\<lambda>at.
     bindR (transaction_id E sync row) (\<lambda>order.
     bindR (adsIdentifiers (ce_sha E) row) (\<lambda>ids.
     bindR (session_value L row) (\<lambda>attributes.
     Inr (compact [(''conversionAction'', JStr (conversionAction E)), (''conversionDateTime'', JStr at), (''orderId'', JStr order),
       (''conversionValue'', member row ''value''), (''currencyCode'', member row ''currency''), (''gclid'', member row ''gclid''),
       (''gbraid'', member row ''gbraid''), (''wbraid'', member row ''wbraid''), (''userIpAddress'', member row ''userIpAddress''),
       (''userIdentifiers'', JArr (map JObj ids)), (''consent'', consent_of id row), (''conversionEnvironment'', member row ''conversionEnvironment''),
       (''sessionAttributesEncoded'', attributes), (''cartData'', cart_json E row), (''customVariables'', member row ''customVariables'')])))))"

definition conversion_payload_of :: "js_values \<Rightarrow> conversion_env \<Rightarrow> string \<Rightarrow> int \<Rightarrow> json \<Rightarrow> conversion_payload result" where
  "conversion_payload_of L E sync now row = (case ce_stream E of
      ConversionAdjustments \<Rightarrow> adjustment_payload L E now row
    | CallConversions \<Rightarrow> call_payload L E row
    | ClickConversions \<Rightarrow>
        bindR (check_click E row) (\<lambda>_.
        bindR (click_identifiers L E row) (\<lambda>ids.
        if ce_dataManager E then event_payload L E sync row ids else click_payload L E sync row)))"

definition normalize_conversion :: "js_values \<Rightarrow> conversion_env \<Rightarrow> string \<Rightarrow> int \<Rightarrow> json \<Rightarrow> json result" where
  "normalize_conversion L E sync now input = (case strict_object (googleConversionRows L (ce_stream E)) input of
      None \<Rightarrow> Inl parse_failed
    | Some row \<Rightarrow>
        if field row ''__sourceKey'' = [] then fail ''Conversion is missing its model primary key''
        else bindR (conversion_payload_of L E sync now row) (\<lambda>p.
          Inr (json_copy (JObj [(''key'', member row ''__sourceKey''), (''payload'', JObj p)]))))"

text \<open>The schema of the stream parses a row and then normalizes it, which parses it again.\<close>

definition conversion_row :: "js_values \<Rightarrow> conversion_env \<Rightarrow> string \<Rightarrow> int \<Rightarrow> json \<Rightarrow> json result" where
  "conversion_row L E sync now v = (case strict_object (googleConversionRows L (ce_stream E)) v of
      None \<Rightarrow> Inl parse_failed
    | Some row \<Rightarrow> normalize_conversion L E sync now row)"

text \<open>The clock is the time at which a row is mapped.\<close>

definition conversion_row_type :: "js_values \<Rightarrow> (json \<Rightarrow> int) \<Rightarrow> conversion_env \<Rightarrow> string \<Rightarrow> row_type" where
  "conversion_row_type L clock E sync = \<lparr>
     rt_parse = (\<lambda>v. case conversion_row L E sync (clock v) v of Inl _ \<Rightarrow> None | Inr w \<Rightarrow> Some w),
     rt_shape = Some (map (\<lambda>(k, f). (k, f JLossy \<noteq> None)) (googleConversionRows L (ce_stream E)))\<rparr>"

end
