(* ===== verification/GoogleConversions.thy ===== *)
theory GoogleConversions
  imports GoogleConversionRows
begin

text \<open>
  Google conversions, \<open>conversions/runtime.ts\<close>: the requests, the names of custom variables, the upload of a batch with its outcomes row by
  row, the reconciliation of a receipt, and the adapter. A batch holds rows that are mapped already.
\<close>

subsection \<open>The target\<close>

definition conversion_target :: "conversion_env \<Rightarrow> json" where
  "conversion_target E = target_json (cr_customerId (ce_credentials E)) (cr_loginCustomerId (ce_credentials E)) (co_conversionActionId (ce_options E))"

definition conversion_identity :: "conversion_env \<Rightarrow> string" where
  "conversion_identity E = ''google-conversion:'' @ cr_customerId (ce_credentials E) @ '':'' @ co_conversionActionId (ce_options E) @ '':''
     @ conversion_name (ce_stream E)"

subsection \<open>Outcomes by position\<close>

record failure_entry =
  fe_codes :: "(string \<times> string) list"
  fe_path :: "(string \<times> int option) list"

text \<open>\<open>z.number().int()\<close>; a number with an exponent is beyond every index.\<close>

fun int_schema :: "json \<Rightarrow> int option" where
  "int_schema (JNum t) = (if plain_integer_text t then Some (text_value t)
     else if num_is_integer t then Some (if take 1 t = ''-'' then - (10 ^ 21) else 10 ^ 21) else None)"
| "int_schema _ = None"

fun number_schema :: "json \<Rightarrow> string option" where
  "number_schema (JNum t) = Some t"
| "number_schema _ = None"

fun list_schema :: "(json \<Rightarrow> 'a option) \<Rightarrow> json \<Rightarrow> 'a list option" where
  "list_schema f (JArr vs) = parse_all f vs"
| "list_schema f _ = None"

definition text_record :: "json \<Rightarrow> (string \<times> string) list option" where
  "text_record v = members_of v \<bind> parse_all (\<lambda>(k, x). map_option (Pair k) (any_text x))"

definition path_element :: "json \<Rightarrow> (string \<times> int option) option" where
  "path_element v = do {
     kvs \<leftarrow> members_of v;
     name \<leftarrow> required ''fieldName'' any_text kvs;
     i \<leftarrow> optional ''index'' int_schema kvs;
     Some (name, i) }"

definition failure_schema :: "json \<Rightarrow> failure_entry option" where
  "failure_schema v = do {
     kvs \<leftarrow> members_of v;
     codes \<leftarrow> required ''errorCode'' text_record kvs;
     path \<leftarrow> required ''location'' (\<lambda>l. members_of l \<bind> required ''fieldPathElements'' (list_schema path_element)) kvs;
     Some \<lparr>fe_codes = codes, fe_path = path\<rparr> }"

definition detail_schema :: "json \<Rightarrow> failure_entry list option" where
  "detail_schema v = do {
     kvs \<leftarrow> members_of v;
     errors \<leftarrow> optional ''errors'' (list_schema failure_schema) kvs;
     Some (case errors of None \<Rightarrow> [] | Some es \<Rightarrow> es) }"

text \<open>The failures, when the response has a code of a partial failure that is not zero.\<close>

definition partial_schema :: "json \<Rightarrow> failure_entry list option option" where
  "partial_schema v = do {
     kvs \<leftarrow> members_of v;
     code \<leftarrow> optional ''code'' number_schema kvs;
     details \<leftarrow> optional ''details'' (list_schema detail_schema) kvs;
     Some (if code = None \<or> code = Some ''0'' then None else Some (case details of None \<Rightarrow> [] | Some ds \<Rightarrow> concat ds)) }"

record upload_response =
  ur_results :: "(string \<times> json) list list option"
  ur_failures :: "failure_entry list option"

definition upload_schema :: "json \<Rightarrow> upload_response option" where
  "upload_schema v = do {
     kvs \<leftarrow> members_of v;
     rs \<leftarrow> optional ''results'' (list_schema members_of) kvs;
     partial \<leftarrow> optional ''partialFailureError'' partial_schema kvs;
     Some \<lparr>ur_results = rs, ur_failures = (case partial of None \<Rightarrow> None | Some p \<Rightarrow> p)\<rparr> }"

text \<open>\<open>/^[A-Z][A-Z0-9_]{0,100}$/\<close>.\<close>

definition upper_letter :: "char \<Rightarrow> bool" where
  "upper_letter c \<longleftrightarrow> 65 \<le> char_code c \<and> char_code c \<le> 90"

fun error_code :: "string \<Rightarrow> bool" where
  "error_code [] = False"
| "error_code (c # cs) = (upper_letter c \<and> length cs \<le> 100 \<and> list_all (\<lambda>d. upper_letter d \<or> digit d \<or> d = CHR ''_'') cs)"

definition conversion_fields :: "string list" where
  "conversion_fields = [''conversions'', ''conversion_adjustments'', ''conversionAdjustments'']"

definition record_failure :: "nat \<Rightarrow> failure_entry \<Rightarrow> (nat \<times> string) list \<Rightarrow> (nat \<times> string) list result" where
  "record_failure n e errors = (case find (\<lambda>(name, _). name \<in> set conversion_fields) (fe_path e) of
      Some (_, Some i) \<Rightarrow>
        if i < 0 \<or> i \<ge> int n then fail ''Google partial failure has no valid row index; no replay''
        else (case fe_codes e of
            (_, code) # _ \<Rightarrow> if error_code code then Inr (AList.update (nat i) code errors) else fail ''Unrecognized Google error code''
          | [] \<Rightarrow> fail ''Unrecognized Google error code'')
    | _ \<Rightarrow> fail ''Google partial failure has no valid row index; no replay'')"

definition row_failures :: "nat \<Rightarrow> upload_response \<Rightarrow> (nat \<times> string) list result" where
  "row_failures n r = (case ur_failures r of
      None \<Rightarrow> Inr []
    | Some es \<Rightarrow> bindR (foldR (record_failure n) es []) (\<lambda>errors.
        if errors = [] then fail ''Google partial failure cannot be assigned to records; no replay'' else Inr errors))"

definition conversion_rejected :: "string \<Rightarrow> string \<Rightarrow> outcome" where
  "conversion_rejected i code = Rejected i code (''Google rejected this conversion ('' @ code @ '')'')"

definition row_outcome :: "upload_response \<Rightarrow> (nat \<times> string) list \<Rightarrow> nat \<times> batch_record \<Rightarrow> outcome result" where
  "row_outcome r errors entry = (case entry of (i, rec) \<Rightarrow> (case map_of errors i of
      Some code \<Rightarrow> Inr (conversion_rejected (rec_op rec) code)
    | None \<Rightarrow> (case ur_results r of
        None \<Rightarrow> Inl (PlainError ''TypeError'')
      | Some rs \<Rightarrow>
          if i \<ge> length rs then Inl (PlainError ''TypeError'')
          else if rs ! i = [] then fail ''Google conversion outcome is missing; no replay'' else Inr (Accepted (rec_op rec)))))"

definition googleAdsOutcomes :: "write_batch \<Rightarrow> json \<Rightarrow> batch_result result" where
  "googleAdsOutcomes b v = (case upload_schema v of
      None \<Rightarrow> Inl parse_failed
    | Some r \<Rightarrow>
        let n = length (wb_records b) in
        bindR (row_failures n r) (\<lambda>errors.
        if length errors \<noteq> n \<and> (case ur_results r of None \<Rightarrow> True | Some rs \<Rightarrow> length rs \<noteq> n)
        then fail ''Google conversion response is incomplete; no replay''
        else bindR (mapR (row_outcome r errors) (enumerate 0 (wb_records b))) (\<lambda>outs.
          Inr \<lparr>br_outcomes = outs, br_jobs = None, br_checkpoint = None\<rparr>)))"

subsection \<open>Requests\<close>

definition googleAdsBaseUrl :: string where
  "googleAdsBaseUrl = ''https://googleads.googleapis.com/v22/''"

definition googleAdsHeaders :: "string \<Rightarrow> string \<Rightarrow> string \<Rightarrow> (string \<times> string) list" where
  "googleAdsHeaders accessToken developerToken login = [(''Authorization'', ''Bearer '' @ accessToken), (''Content-Type'', ''application/json''),
     (''developer-token'', developerToken)] @ (if login \<noteq> [] then [(''login-customer-id'', login)] else [])"

definition conversion_url :: "conversion_env \<Rightarrow> string \<Rightarrow> string" where
  "conversion_url E path = (if ce_dataManager E then dataManagerBaseUrl else googleAdsBaseUrl) @ path"

definition conversion_headers :: "conversion_env \<Rightarrow> string \<Rightarrow> (string \<times> string) list" where
  "conversion_headers E token = (if ce_dataManager E then dataManagerHeaders token []
     else googleAdsHeaders token (ce_developerToken E) (cr_loginCustomerId (ce_credentials E)))"

definition conversion_request :: "conversion_env \<Rightarrow> 'g services \<Rightarrow> string \<Rightarrow> json option \<Rightarrow> ('g google, json) oper" where
  "conversion_request E S path body =
     thenE (throw_if_signalled S)
     (bindE (on_services (sv_token S)) (\<lambda>token.
      catchE
        (bindE (fetchE S \<lparr>hq_url = conversion_url E path, hq_post = (body \<noteq> None), hq_headers = conversion_headers E token, hq_body = body\<rparr>) (\<lambda>response.
         if hs_ok response then resultE (hs_json response)
         else failE (''Google conversion API HTTP '' @ int_text (hs_status response) @ ''; check credentials and saved request status'')))
        (\<lambda>_. failE ''Google conversion request failed; delivery may be uncertain, no automatic replay'')))"

subsection \<open>Custom variables\<close>

definition variables_of :: "conversion_payload \<Rightarrow> json option" where
  "variables_of p = (case map_of p ''customVariables'' of None \<Rightarrow> None | Some v \<Rightarrow> if truthy v then Some v else None)"

definition variable_search_path :: "conversion_env \<Rightarrow> string" where
  "variable_search_path E = ''customers/'' @ cr_customerId (ce_credentials E) @ ''/googleAds:search''"

definition search_body :: "string option \<Rightarrow> json" where
  "search_body page = JObj ([(''query'',
     JStr ''SELECT conversion_custom_variable.name, conversion_custom_variable.resource_name FROM conversion_custom_variable'')]
     @ (if empty_text page then [] else [(''pageToken'', JStr (the page))]))"

definition variable_schema :: "json \<Rightarrow> (string \<times> string) option" where
  "variable_schema v = members_of v \<bind> required ''conversionCustomVariable'' (\<lambda>x. do {
     kvs \<leftarrow> members_of x;
     name \<leftarrow> required ''name'' any_text kvs;
     resource \<leftarrow> required ''resourceName'' any_text kvs;
     Some (name, resource) })"

definition search_schema :: "json \<Rightarrow> ((string \<times> string) list \<times> string option) option" where
  "search_schema v = do {
     kvs \<leftarrow> members_of v;
     found \<leftarrow> defaulted ''results'' (list_schema variable_schema) [] kvs;
     page \<leftarrow> optional ''nextPageToken'' any_text kvs;
     Some (found, page) }"

text \<open>At most a hundred pages.\<close>

fun variable_pages :: "conversion_env \<Rightarrow> 'g services \<Rightarrow> nat \<Rightarrow> string option \<Rightarrow> (string \<times> string) list \<Rightarrow> ('g google, (string \<times> string) list \<times> string option) oper" where
  "variable_pages E S 0 page lookup = returnE (lookup, page)"
| "variable_pages E S (Suc n) page lookup =
     bindE (conversion_request E S (variable_search_path E) (Some (search_body page))) (\<lambda>v.
     bindE (parsedE (search_schema v)) (\<lambda>(found, more).
     let lookup' = fold (\<lambda>(name, resource). AList.update name resource) found lookup in
     if empty_text more then returnE (lookup', more) else variable_pages E S n more lookup'))"

definition resolved_variable :: "(string \<times> string) list \<Rightarrow> string \<times> json \<Rightarrow> json result" where
  "resolved_variable lookup entry = (case entry of (name, v) \<Rightarrow> (case map_of lookup name of
      Some (c # cs) \<Rightarrow> Inr (JObj [(''conversionCustomVariable'', JStr (c # cs)), (''value'', JStr (value_text v))])
    | _ \<Rightarrow> fail ''A mapped Google custom variable does not exist''))"

definition resolved_payload :: "(string \<times> string) list \<Rightarrow> conversion_payload \<Rightarrow> conversion_payload result" where
  "resolved_payload lookup p = (case variables_of p of
      None \<Rightarrow> Inr p
    | Some v \<Rightarrow> bindR (mapR (resolved_variable lookup) (entries v)) (\<lambda>vs. Inr (AList.update ''customVariables'' (JArr vs) p)))"

definition resolveVariables :: "conversion_env \<Rightarrow> 'g services \<Rightarrow> conversion_payload list \<Rightarrow> ('g google, conversion_payload list) oper" where
  "resolveVariables E S ps =
     (if \<not> list_ex (\<lambda>p. case variables_of p of None \<Rightarrow> False | Some v \<Rightarrow> entries v \<noteq> []) ps then returnE ps
      else bindE (variable_pages E S 100 None []) (\<lambda>(lookup, page).
        if \<not> empty_text page then failE ''Custom variable lookup exceeded its pagination limit''
        else resultE (mapR (resolved_payload lookup) ps)))"

subsection \<open>Submission\<close>

definition conversion_wire :: "json \<Rightarrow> (string \<times> conversion_payload) option" where
  "conversion_wire v = do {
     kvs \<leftarrow> strict_members [''key'', ''payload''] v;
     key \<leftarrow> required ''key'' (text_where hex64) kvs;
     payload \<leftarrow> required ''payload'' members_of kvs;
     Some (key, payload) }"

definition wired :: "json \<Rightarrow> conversion_payload result" where
  "wired row = (case conversion_wire row of None \<Rightarrow> Inl parse_failed | Some (_, p) \<Rightarrow> Inr p)"

definition conversion_payloads :: "write_batch \<Rightarrow> conversion_payload list result" where
  "conversion_payloads b = (if wb_records b = [] \<or> length (wb_records b) > 2000 then fail ''Invalid Google conversion batch size''
     else mapR (\<lambda>r. wired (rec_row r)) (wb_records b))"

definition conversion_binding :: "conversion_env \<Rightarrow> google_context \<Rightarrow> write_batch \<Rightarrow> string result" where
  "conversion_binding E ctx b = contentHash (ce_sha E) (JObj [(''targetIdentity'', JStr (conversion_identity E)), (''revision'', JStr (gc_configRevision ctx)),
     (''batch'', json_of_write_batch b)])"

definition setup_failed :: "string \<Rightarrow> outcome" where
  "setup_failed i = Rejected i ''GOOGLE_SETUP_FAILED'' ''Check Google authorization, developer token and custom-variable mappings; no conversions submitted''"

definition setup_result :: "write_batch \<Rightarrow> batch_result" where
  "setup_result b = \<lparr>br_outcomes = outcomes_all setup_failed b, br_jobs = None, br_checkpoint = None\<rparr>"

text \<open>The token and the names of the variables, before anything is sent.\<close>

definition prepare_payloads :: "conversion_env \<Rightarrow> 'g services \<Rightarrow> conversion_payload list \<Rightarrow> ('g google, conversion_payload list option) oper" where
  "prepare_payloads E S ps = catchE
     (bindE (on_services (sv_token S)) (\<lambda>_. bindE (if ce_dataManager E then returnE ps else resolveVariables E S ps) (\<lambda>ps'. returnE (Some ps'))))
     (\<lambda>_. returnE None)"

definition upload_path :: "conversion_env \<Rightarrow> string" where
  "upload_path E = ''customers/'' @ cr_customerId (ce_credentials E) @ '':'' @ (case ce_stream E of
     ConversionAdjustments \<Rightarrow> ''uploadConversionAdjustments'' | CallConversions \<Rightarrow> ''uploadCallConversions'' | ClickConversions \<Rightarrow> ''uploadClickConversions'')"

definition upload_body :: "conversion_env \<Rightarrow> conversion_payload list \<Rightarrow> json" where
  "upload_body E ps = JObj [(if ce_stream E = ConversionAdjustments then ''conversionAdjustments'' else ''conversions'', JArr (map JObj ps)),
     (''partialFailure'', JBool True)]"

definition events_body :: "conversion_env \<Rightarrow> conversion_payload list \<Rightarrow> json" where
  "events_body E ps = JObj [(''destinations'', JArr [conversion_target E]), (''events'', JArr (map JObj ps)), (''encoding'', JStr ''HEX'')]"

definition events_schema :: "json \<Rightarrow> submission option" where
  "events_schema v = do {
     kvs \<leftarrow> members_of v;
     i \<leftarrow> required ''requestId'' (text_where (\<lambda>s. s \<noteq> [])) kvs;
     warnings \<leftarrow> optional ''fieldWarnings'' any_array kvs;
     Some \<lparr>sb_requestId = i, sb_warnings = (warnings = Some True)\<rparr> }"

definition json_of_conversion_receipt :: "string \<Rightarrow> string \<Rightarrow> bool \<Rightarrow> json" where
  "json_of_conversion_receipt i bound warnings = JObj [(''requestId'', JStr i), (''binding'', JStr bound), (''warnings'', JBool warnings)]"

definition upload_conversions :: "conversion_env \<Rightarrow> 'g services \<Rightarrow> write_batch \<Rightarrow> conversion_payload list \<Rightarrow> ('g google, batch_result) oper" where
  "upload_conversions E S b ps = bindE (conversion_request E S (upload_path E) (Some (upload_body E ps))) (\<lambda>v. resultE (googleAdsOutcomes b v))"

definition ingest_conversions :: "conversion_env \<Rightarrow> 'g services \<Rightarrow> google_context \<Rightarrow> write_batch \<Rightarrow> conversion_payload list \<Rightarrow> ('g google, batch_result) oper" where
  "ingest_conversions E S ctx b ps =
     bindE (conversion_request E S ''events:ingest'' (Some (events_body E ps))) (\<lambda>v.
     bindE (parsedE (events_schema v)) (\<lambda>sub.
     bindE (resultE (conversion_binding E ctx b)) (\<lambda>bound.
     returnE \<lparr>br_outcomes = outcomes_all Staged b, br_jobs = Some [sb_requestId sub],
       br_checkpoint = Some (json_of_conversion_receipt (sb_requestId sub) bound (sb_warnings sub))\<rparr>)))"

definition submit_conversions :: "conversion_env \<Rightarrow> 'g services \<Rightarrow> google_context \<Rightarrow> write_batch \<Rightarrow> ('g google, batch_result) oper" where
  "submit_conversions E S ctx b =
     bindE (resultE (conversion_payloads b)) (\<lambda>ps.
     bindE (prepare_payloads E S ps) (\<lambda>prepared. case prepared of
        None \<Rightarrow> returnE (setup_result b)
      | Some ps' \<Rightarrow> if ce_dataManager E then ingest_conversions E S ctx b ps' else upload_conversions E S b ps'))"

subsection \<open>Reconciliation\<close>

record conversion_receipt =
  cv_requestId :: string
  cv_binding :: string
  cv_warnings :: bool

definition conversion_receipt_schema :: "json \<Rightarrow> conversion_receipt option" where
  "conversion_receipt_schema v = do {
     kvs \<leftarrow> strict_members [''requestId'', ''binding'', ''warnings''] v;
     i \<leftarrow> required ''requestId'' any_text kvs;
     bound \<leftarrow> required ''binding'' (text_where hex64) kvs;
     warnings \<leftarrow> required ''warnings'' bool_schema kvs;
     Some \<lparr>cv_requestId = i, cv_binding = bound, cv_warnings = warnings\<rparr> }"

definition any_account :: "json \<Rightarrow> json option" where
  "any_account v = do {
     kvs \<leftarrow> members_of v;
     kind \<leftarrow> required ''accountType'' any_text kvs;
     i \<leftarrow> required ''accountId'' any_text kvs;
     Some (JObj [(''accountType'', JStr kind), (''accountId'', JStr i)]) }"

definition any_destination :: "json \<Rightarrow> json option" where
  "any_destination v = do {
     kvs \<leftarrow> members_of v;
     operating \<leftarrow> required ''operatingAccount'' any_account kvs;
     login \<leftarrow> optional ''loginAccount'' any_account kvs;
     product \<leftarrow> required ''productDestinationId'' any_text kvs;
     Some (JObj ([(''operatingAccount'', operating)] @ optional_member ''loginAccount'' id login @ [(''productDestinationId'', JStr product)])) }"

record conversion_status =
  cs_destination :: json
  cs_requestStatus :: string
  cs_recordCount :: "string option"
  cs_errorInfo :: bool
  cs_warningInfo :: bool

definition conversion_status_schema :: "json \<Rightarrow> conversion_status option" where
  "conversion_status_schema v = do {
     kvs \<leftarrow> members_of v;
     dest \<leftarrow> required ''destination'' any_destination kvs;
     status \<leftarrow> required ''requestStatus'' any_text kvs;
     events \<leftarrow> optional ''eventsIngestionStatus'' (\<lambda>e. members_of e \<bind> required ''recordCount'' any_text) kvs;
     Some \<lparr>cs_destination = dest, cs_requestStatus = status, cs_recordCount = events,
       cs_errorInfo = (map_of kvs ''errorInfo'' \<noteq> None), cs_warningInfo = (map_of kvs ''warningInfo'' \<noteq> None)\<rparr> }"

definition conversion_statuses :: "json \<Rightarrow> conversion_status option" where
  "conversion_statuses v = do {
     kvs \<leftarrow> members_of v;
     all \<leftarrow> required ''requestStatusPerDestination'' (array_schema conversion_status_schema 1) kvs;
     (case all of [status] \<Rightarrow> Some status | _ \<Rightarrow> None) }"

definition request_rejected :: "string \<Rightarrow> outcome" where
  "request_rejected i = Rejected i ''GOOGLE_REQUEST_FAILED'' ''Google rejected this conversion request''"

definition conversions_verified :: "conversion_receipt \<Rightarrow> nat \<Rightarrow> conversion_status \<Rightarrow> bool" where
  "conversions_verified r n status \<longleftrightarrow> cs_requestStatus status = ''SUCCESS'' \<and> \<not> cs_errorInfo status \<and> \<not> cs_warningInfo status \<and> \<not> cv_warnings r
     \<and> cs_recordCount status = Some (nat_text n)"

definition check_conversion_receipt :: "conversion_env \<Rightarrow> google_context \<Rightarrow> write_batch \<Rightarrow> action \<Rightarrow> batch_result \<Rightarrow> conversion_receipt result" where
  "check_conversion_receipt E ctx b act prior =
     bindR (validateBatchResult (prepared_of b act) (json_of_batch_result prior)) (\<lambda>_.
     case br_checkpoint prior \<bind> conversion_receipt_schema of
       None \<Rightarrow> Inl parse_failed
     | Some r \<Rightarrow> bindR (conversion_binding E ctx b) (\<lambda>bound.
         if cv_binding r \<noteq> bound \<or> br_jobs prior \<noteq> Some [cv_requestId r] \<or> list_ex (\<lambda>out. \<not> is_staged out) (br_outcomes prior)
         then fail ''Google conversion receipt does not match this batch'' else Inr r))"

definition settle_conversions :: "conversion_env \<Rightarrow> write_batch \<Rightarrow> batch_result \<Rightarrow> conversion_receipt \<Rightarrow> json \<Rightarrow> batch_result result" where
  "settle_conversions E b prior r v = (case conversion_statuses v of
      None \<Rightarrow> Inl parse_failed
    | Some status \<Rightarrow>
        bindR (contentHash (ce_sha E) (cs_destination status)) (\<lambda>h.
        bindR (contentHash (ce_sha E) (conversion_target E)) (\<lambda>h'.
        if h \<noteq> h' then fail ''Google conversion status target mismatch''
        else if cs_requestStatus status \<in> {''PROCESSING'', ''REQUEST_STATUS_UNKNOWN''} then Inr prior
        else if cs_requestStatus status = ''FAILED'' then Inr (prior\<lparr>br_outcomes := outcomes_all request_rejected b\<rparr>)
        else if conversions_verified r (length (wb_records b)) status then Inr (prior\<lparr>br_outcomes := outcomes_all Accepted b\<rparr>)
        else Inl ReverseEtlManualReconciliationError)))"

definition reconcile_conversions :: "conversion_env \<Rightarrow> 'g services \<Rightarrow> google_context \<Rightarrow> write_batch \<Rightarrow> action \<Rightarrow> batch_result option \<Rightarrow> ('g google, batch_result) oper" where
  "reconcile_conversions E S ctx b act prior = (case prior of
      Some p \<Rightarrow>
        if ce_dataManager E \<and> act = Upsert
        then bindE (resultE (check_conversion_receipt E ctx b act p)) (\<lambda>r.
             bindE (conversion_request E S (retrieve_path (cv_requestId r)) None) (\<lambda>v. resultE (settle_conversions E b p r v)))
        else failE ''Google conversion receipt unavailable; manual reconciliation required, no replay''
    | None \<Rightarrow> failE ''Google conversion receipt unavailable; manual reconciliation required, no replay'')"

subsection \<open>The adapter\<close>

definition check_conversion_writer :: "conversion_env \<Rightarrow> google_context \<Rightarrow> unit result" where
  "check_conversion_writer E ctx = (if gc_mirror ctx \<or> gc_targetIdentity ctx \<noteq> conversion_identity E
     then fail ''Conversion streams require insert mode and the configured target'' else Inr ())"

definition conversion_writer :: "conversion_env \<Rightarrow> google_context \<Rightarrow> ('g, writer_methods) google_op" where
  "conversion_writer E ctx = bindE (resultE (check_conversion_writer E ctx)) (\<lambda>_. returnE \<lparr>wm_remove = False, wm_reconcile = True\<rparr>)"

definition finish_accepted :: finish_result where
  "finish_accepted = \<lparr>fr_delivery = DeliveryAccepted, fr_jobs = None, fr_checkpoint = None\<rparr>"

text \<open>The writer has no \<open>remove\<close>: a call of it is a \<open>TypeError\<close>.\<close>

definition conversion_provider :: "conversion_env \<Rightarrow> 'g services \<Rightarrow> google_context \<Rightarrow> ('j, 'g google) provider" where
  "conversion_provider E S ctx = \<lparr>
     p_createWriter = outside (conversion_writer E ctx),
     p_init = outside (returnE ()),
     p_upsert = (\<lambda>b. outside (as_json json_of_batch_result (on_google (submit_conversions E S ctx b)))),
     p_remove = (\<lambda>b. outside (throwE (PlainError ''TypeError''))),
     p_finish = outside (as_json json_of_finish_result (returnE finish_accepted)),
     p_abort = (\<lambda>_. outside (returnE ()))\<rparr>"

definition conversion_recovery :: "conversion_env \<Rightarrow> 'g services \<Rightarrow> google_context \<Rightarrow> ('j, 'g google) recovery_hooks" where
  "conversion_recovery E S ctx = \<lparr>
     rh_attachWriter = outside (conversion_writer E ctx),
     rh_reconcileBatch = Some (\<lambda>b act prior. outside (as_json json_of_batch_result (on_google (reconcile_conversions E S ctx b act prior)))),
     rh_reconcileFinish = Some (\<lambda>_. outside (as_json json_of_finish_result (returnE finish_accepted))),
     rh_reconcileInit = Some (outside (returnE ''absent'')),
     rh_reconcileAbort = Some (outside (returnE ()))\<rparr>"

definition conversion_stream_of :: "conversion_env \<Rightarrow> row_type \<Rightarrow> stream_metadata" where
  "conversion_stream_of E rows = \<lparr>st_name = conversion_name (ce_stream E), st_rowType = rows, st_removeRowType = None,
     st_options = accepted_by GoogleConversionOptions, st_batchSize = 1000, st_asynchronous = ce_dataManager E,
     st_caps = \<lparr>supportsUpsert = True, supportsExplicitRemove = False, cap_mirror = MirrorNone, cap_replay = ReconcileRequired\<rparr>\<rparr>"

definition project_conversion :: "action \<Rightarrow> json \<Rightarrow> identity list result" where
  "project_conversion act row = (case conversion_wire row of
      None \<Rightarrow> Inl parse_failed
    | Some (key, _) \<Rightarrow> Inr [\<lparr>id_identity = JObj [(''eventKey'', JStr key)], id_upsert = row, id_remove = JObj []\<rparr>])"

definition conversion_context :: "conversion_env \<Rightarrow> destination_config \<Rightarrow> string \<Rightarrow> google_context" where
  "conversion_context E cfg run = \<lparr>gc_credentials = json_of_credentials (ce_credentials E), gc_options = cf_streamOptions cfg, gc_syncId = cf_id cfg,
     gc_logicalRunId = run, gc_configRevision = cf_revision cfg, gc_mirror = (cf_mode cfg = ModeMirror), gc_targetIdentity = conversion_identity E\<rparr>"

definition createGoogleConversions :: "(string \<Rightarrow> string) \<Rightarrow> 'g services \<Rightarrow> js_values \<Rightarrow> (json \<Rightarrow> int) \<Rightarrow> string option \<Rightarrow> string \<Rightarrow> destination_config \<Rightarrow> conversion_stream
    \<Rightarrow> 'g google adapter result" where
  "createGoogleConversions sha S L clock developer run cfg name =
     bindR (conversion_env_of sha name (dc_destination cfg) (cf_streamOptions cfg) developer) (\<lambda>E.
     let ctx = conversion_context E cfg run in
     Inr \<lparr>ad_stream = conversion_stream_of E (conversion_row_type L clock E (cf_id cfg)), ad_targetIdentity = conversion_identity E, ad_insertOnly = True, ad_project = project_conversion,
       ad_options = None, ad_provider = conversion_provider E S ctx, ad_mirror = None, ad_verifyMirrorBaseline = None,
       ad_recovery = Some (\<lambda>_. conversion_recovery E S ctx)\<rparr>)"

subsection \<open>The destination\<close>

definition connection_matches :: "destination_config \<Rightarrow> bool" where
  "connection_matches cfg \<longleftrightarrow> member (dc_destination cfg) ''oauthConnectionId'' = JStr (''destination.'' @ dc_toId cfg)"

definition createGoogleAdsRuntime :: "(string \<Rightarrow> string) \<Rightarrow> 'g services \<Rightarrow> (string \<Rightarrow> ('g, unit) oper) \<Rightarrow> js_values \<Rightarrow> (json \<Rightarrow> int) \<Rightarrow> string option \<Rightarrow> string \<Rightarrow> string
    \<Rightarrow> destination_config \<Rightarrow> ('g provisioning, 'g google adapter) oper" where
  "createGoogleAdsRuntime sha S note L clock developer nonce run cfg =
     (if cf_stream cfg \<noteq> ''audience''
      then resultE
        (if cf_mode cfg \<noteq> ModeUpsert \<or> dc_deleteColumn cfg then Inl (PlainError ''Conversion streams are insert-only and do not support tombstones'')
         else if \<not> connection_matches cfg then Inl (PlainError ''Invalid Google conversion OAuth binding'')
         else (case GoogleConversionStream (cf_stream cfg) of
             None \<Rightarrow> Inl parse_failed
           | Some name \<Rightarrow> createGoogleConversions sha S L clock developer run cfg name))
      else createGoogleAudience sha S note nonce run cfg)"

end
