(* ===== verification/GoogleConversionFacts.thy ===== *)
theory GoogleConversionFacts
  imports GoogleConversions GoogleFacts
begin

text \<open>
  What holds of conversions: the outcome of a row is the one Google reports for its position; a batch is uploaded at most once, and not at all
  when its setup failed; a receipt is accepted only on Google's word; and the adapter does not reach the journal.
\<close>

subsection \<open>The journal\<close>

lemma conversion_adapter_keeps: "createGoogleConversions sha S L clock developer run cfg name = Inr ad \<Longrightarrow> adapter_keeps K ad"
  by (auto simp: createGoogleConversions_def run_simps Let_def adapter_keeps_def provider_keeps_def hooks_keep_def conversion_provider_def
      conversion_recovery_def outside_keeps)

lemma runtime_keeps: "createGoogleAdsRuntime sha S tell L clock developer nonce run cfg x = (Inr ad, x') \<Longrightarrow> adapter_keeps K ad"
  by (auto simp: createGoogleAdsRuntime_def createGoogleAudience_def run_simps split: if_splits option.splits
      dest: bindGoogle_keeps conversion_adapter_keeps)

subsection \<open>Positions\<close>

definition failed_row :: "failure_entry \<Rightarrow> nat" where
  "failed_row e = (case find (\<lambda>(name, _). name \<in> set conversion_fields) (fe_path e) of Some (_, Some i) \<Rightarrow> nat i | _ \<Rightarrow> 0)"

lemma record_failure_Inr:
  assumes "record_failure n e errors = Inr errors'"
  shows "\<exists>code. errors' = AList.update (failed_row e) code errors \<and> failed_row e < n \<and> error_code code"
  using assms by (auto simp: record_failure_def failed_row_def fail_def split: option.splits list.splits if_splits prod.splits)

definition failures_ok :: "nat \<Rightarrow> (nat \<times> string) list \<Rightarrow> bool" where
  "failures_ok n errors \<longleftrightarrow> distinct (map fst errors) \<and> (\<forall>(i, code) \<in> set errors. i < n \<and> error_code code)"

lemma failures_update: "failures_ok n errors \<Longrightarrow> i < n \<Longrightarrow> error_code code \<Longrightarrow> failures_ok n (AList.update i code errors)"
proof -
  assume a: "failures_ok n errors" "i < n" "error_code code"
  have "set (AList.update i code errors) \<subseteq> insert (i, code) (set errors)" by (induction errors) auto
  with a show ?thesis by (auto simp: failures_ok_def distinct_update)
qed

lemma row_failures_step:
  "foldR (record_failure n) es errors = Inr errors' \<Longrightarrow> failures_ok n errors \<Longrightarrow>
     failures_ok n errors' \<and> fst ` set errors' = fst ` set errors \<union> failed_row ` set es"
proof (induction es arbitrary: errors)
  case (Cons e es)
  then obtain errors1 where step: "record_failure n e errors = Inr errors1" and rest: "foldR (record_failure n) es errors1 = Inr errors'"
    by (auto simp: run_simps)
  from record_failure_Inr[OF step] obtain code where e: "errors1 = AList.update (failed_row e) code errors" "failed_row e < n" "error_code code" by blast
  from Cons.IH[OF rest] failures_update[OF Cons.prems(2) e(2,3)] e(1) show ?case by (auto simp: dom_update[unfolded dom_map_of_conv_image_fst])
qed simp

lemma row_failures_Inr:
  assumes "row_failures n r = Inr errors"
  shows "failures_ok n errors \<and> fst ` set errors = (case ur_failures r of None \<Rightarrow> {} | Some es \<Rightarrow> failed_row ` set es)"
proof (cases "ur_failures r")
  case None
  with assms show ?thesis by (simp add: row_failures_def failures_ok_def)
next
  case (Some es)
  with assms have "foldR (record_failure n) es [] = Inr errors" by (auto simp: row_failures_def run_simps fail_def split: if_splits)
  from row_failures_step[OF this] Some show ?thesis by (simp add: failures_ok_def)
qed

lemma all_rows_failed: "failures_ok n errors \<Longrightarrow> length errors = n \<Longrightarrow> i < n \<Longrightarrow> map_of errors i \<noteq> None"
proof -
  assume a: "failures_ok n errors" "length errors = n" "i < n"
  have "fst ` set errors \<subseteq> {..<n}" using a(1) by (auto simp: failures_ok_def)
  moreover have "card (fst ` set errors) = n" using a(1,2) distinct_card[of "map fst errors"] by (simp add: failures_ok_def)
  ultimately have "fst ` set errors = {..<n}" by (intro card_subset_eq) auto
  with a(3) show ?thesis by (simp add: map_of_eq_None_iff)
qed

lemma row_outcome_Inr:
  assumes "row_outcome r errors (i, rec) = Inr out"
  shows "out = (case map_of errors i of Some code \<Rightarrow> conversion_rejected (rec_op rec) code | None \<Rightarrow> Accepted (rec_op rec))
    \<and> (map_of errors i = None \<longrightarrow> (\<exists>rs. ur_results r = Some rs \<and> i < length rs \<and> rs ! i \<noteq> []))"
  using assms by (auto simp: row_outcome_def fail_def split: option.splits if_splits)

lemma googleAdsOutcomes_Inr:
  assumes "googleAdsOutcomes b v = Inr res"
  shows "\<exists>r errors. upload_schema v = Some r \<and> row_failures (length (wb_records b)) r = Inr errors
    \<and> mapR (row_outcome r errors) (enumerate 0 (wb_records b)) = Inr (br_outcomes res) \<and> br_jobs res = None \<and> br_checkpoint res = None"
  using assms by (auto simp: googleAdsOutcomes_def run_simps fail_def Let_def split: option.splits if_splits)

text \<open>The outcome of each row: rejected when a failure names its position, with the code of the failure, and accepted otherwise, when its
  result is not empty.\<close>

lemma outcome_by_position:
  assumes "googleAdsOutcomes b v = Inr res"
  shows "\<exists>r errors. upload_schema v = Some r \<and> row_failures (length (wb_records b)) r = Inr errors \<and> length (br_outcomes res) = length (wb_records b)
    \<and> (\<forall>i < length (wb_records b).
        (case map_of errors i of
           Some code \<Rightarrow> br_outcomes res ! i = conversion_rejected (rec_op (wb_records b ! i)) code \<and> error_code code
         | None \<Rightarrow> br_outcomes res ! i = Accepted (rec_op (wb_records b ! i)) \<and> (\<exists>rs. ur_results r = Some rs \<and> i < length rs \<and> rs ! i \<noteq> []))
        \<and> (map_of errors i \<noteq> None \<longleftrightarrow> (\<exists>es. ur_failures r = Some es \<and> i \<in> failed_row ` set es)))"
proof -
  from googleAdsOutcomes_Inr[OF assms] obtain r errors where r: "upload_schema v = Some r" and errors: "row_failures (length (wb_records b)) r = Inr errors"
    and outs: "mapR (row_outcome r errors) (enumerate 0 (wb_records b)) = Inr (br_outcomes res)" by blast
  note ok = row_failures_Inr[OF errors]
  have "length (br_outcomes res) = length (wb_records b)" using mapR_Inr_length[OF outs] by simp
  moreover have "(case map_of errors i of
           Some code \<Rightarrow> br_outcomes res ! i = conversion_rejected (rec_op (wb_records b ! i)) code \<and> error_code code
         | None \<Rightarrow> br_outcomes res ! i = Accepted (rec_op (wb_records b ! i)) \<and> (\<exists>rs. ur_results r = Some rs \<and> i < length rs \<and> rs ! i \<noteq> []))
        \<and> (map_of errors i \<noteq> None \<longleftrightarrow> (\<exists>es. ur_failures r = Some es \<and> i \<in> failed_row ` set es))" if i: "i < length (wb_records b)" for i
  proof -
    have "row_outcome r errors (i, wb_records b ! i) = Inr (br_outcomes res ! i)"
      using mapR_Inr_nth[OF outs, of i] i by (simp add: nth_enumerate_eq)
    from row_outcome_Inr[OF this] have "case map_of errors i of
           Some code \<Rightarrow> br_outcomes res ! i = conversion_rejected (rec_op (wb_records b ! i)) code \<and> error_code code
         | None \<Rightarrow> br_outcomes res ! i = Accepted (rec_op (wb_records b ! i)) \<and> (\<exists>rs. ur_results r = Some rs \<and> i < length rs \<and> rs ! i \<noteq> [])"
      using ok by (auto simp: failures_ok_def split: option.splits dest!: map_of_SomeD)
    moreover have "map_of errors i \<noteq> None \<longleftrightarrow> i \<in> fst ` set errors" by (simp add: map_of_eq_None_iff)
    ultimately show ?thesis using ok by (auto split: option.splits)
  qed
  ultimately show ?thesis using r errors by blast
qed

lemma rejection_round_trip:
  assumes "error_code code" and "1 \<le> length i" and "length i \<le> 512"
  shows "outcome_schema (json_of_outcome (conversion_rejected i code)) = Some (conversion_rejected i code)"
proof -
  have "1 \<le> length code \<and> length code \<le> 101" using assms(1) by (cases code) auto
  with assms(2,3) show ?thesis by (simp add: conversion_rejected_def required_def strict_keys_def)
qed

lemma few_outcomes: "conversion_payloads b = Inr ps \<Longrightarrow> wb_records b \<noteq> [] \<and> length (wb_records b) \<le> 2000"
  by (auto simp: conversion_payloads_def fail_def split: if_splits)

text \<open>Such a result answers every operation of the batch.\<close>

lemma outcomes_answer:
  assumes "googleAdsOutcomes b v = Inr res" and "batch_shape b" and "length (wb_records b) \<le> 2000"
  shows "validateBatchResult (prepared_of b act) (json_of_batch_result res) = Inr res"
proof (rule validateBatchResult_ok)
  from outcome_by_position[OF assms(1)] obtain errors where len: "length (br_outcomes res) = length (wb_records b)"
    and out: "\<And>i. i < length (wb_records b) \<Longrightarrow> (\<exists>code. br_outcomes res ! i = conversion_rejected (rec_op (wb_records b ! i)) code \<and> error_code code)
      \<or> br_outcomes res ! i = Accepted (rec_op (wb_records b ! i))" by (fastforce split: option.splits)
  have ops: "map outcome_op (br_outcomes res) = map rec_op (wb_records b)"
    using out len by (intro nth_equalityI) (fastforce simp: conversion_rejected_def)+
  have small: "1 \<le> length (rec_op (wb_records b ! i)) \<and> length (rec_op (wb_records b ! i)) \<le> 512" if "i < length (wb_records b)" for i
    using assms(2) that by (auto simp: batch_shape_def list_all_length)
  have "outcome_schema (json_of_outcome out) = Some out" if "out \<in> set (br_outcomes res)" for out
    using that out small len rejection_round_trip google_outcome_round_trip(2) by (metis in_set_conv_nth)
  then have "parse_all outcome_schema (map json_of_outcome (br_outcomes res)) = Some (br_outcomes res)" by (intro parse_all_map)
  then show "batchResult_schema (json_of_batch_result res) = Some res"
    using googleAdsOutcomes_Inr[OF assms(1)] len assms(3)
    by (cases res) (auto simp: json_of_batch_result_def result_members_def optional_member_def required_def optional_def strict_keys_def)
  show "distinct (batch_ops (prepared_of b act))" using assms(2) by (simp add: batch_ops_prepared batch_shape_def)
  show "distinct (map outcome_op (br_outcomes res))" using assms(2) by (simp add: ops batch_shape_def)
  show "set (map outcome_op (br_outcomes res)) = set (batch_ops (prepared_of b act))" by (simp add: ops[folded set_map] batch_ops_prepared flip: ops)
qed

subsection \<open>Uploads\<close>

definition uploads :: "conversion_env \<Rightarrow> 'g google \<Rightarrow> nat" where
  "uploads E g = length (filter (\<lambda>q. hq_post q \<and> hq_url q \<noteq> conversion_url E (variable_search_path E)) (gg_log g))"

lemma on_services_uploads: "on_services m g = (r, g') \<Longrightarrow> uploads E g' = uploads E g"
  by (auto simp: on_services_def uploads_def split: prod.splits)

lemma signal_uploads: "throw_if_signalled S g = (r, g') \<Longrightarrow> uploads E g' = uploads E g"
  by (auto simp: throw_if_signalled_def bindE_def split: prod.splits sum.splits if_splits dest: on_services_uploads)

lemma fetchE_uploads:
  "fetchE S q g = (r, g') \<Longrightarrow> uploads E g' = uploads E g + (if hq_post q \<and> hq_url q \<noteq> conversion_url E (variable_search_path E) then 1 else 0)"
  by (auto simp: fetchE_def thenE_def bindE_def on_services_def uploads_def split: prod.splits)

definition same_uploads :: "conversion_env \<Rightarrow> 'g google \<Rightarrow> 'g google \<Rightarrow> bool" where
  "same_uploads E g g' \<longleftrightarrow> uploads E g' = uploads E g"

interpretation unsent: frame "same_uploads E" for E
  by unfold_locales (simp_all add: same_uploads_def)

lemma unsent_services: "frames (same_uploads E) (on_services m)" "frames (same_uploads E) (throw_if_signalled S)"
  by (auto intro!: framesI simp: same_uploads_def dest: on_services_uploads[where E = E] signal_uploads[where E = E])

lemma unsent_fetch: "\<not> hq_post q \<or> hq_url q = conversion_url E (variable_search_path E) \<Longrightarrow> frames (same_uploads E) (fetchE S q)"
  by (auto intro!: framesI simp: same_uploads_def dest: fetchE_uploads[where E = E])

lemma unsent_request: "body = None \<or> path = variable_search_path E \<Longrightarrow> frames (same_uploads E) (conversion_request E S path body)"
  unfolding conversion_request_def failE_def by (intro unsent.frame_rules unsent_services unsent_fetch) auto

lemma variable_pages_unsent: "frames (same_uploads E) (variable_pages E S n page lookup)"
proof (induction n arbitrary: page lookup)
  case (Suc n)
  show ?case unfolding variable_pages.simps parsedE_def Let_def case_prod_beta
    by (intro unsent.frame_rules unsent_request Suc.IH) simp
qed (simp add: unsent.frame_return)

lemma prepare_unsent: "frames (same_uploads E) (prepare_payloads E S ps)"
  unfolding prepare_payloads_def resolveVariables_def failE_def case_prod_beta
  by (intro unsent.frame_rules unsent_services variable_pages_unsent)

lemma paths_differ: "upload_path E \<noteq> variable_search_path E" "''events:ingest'' \<noteq> variable_search_path E"
  by (simp_all add: upload_path_def variable_search_path_def)

lemma sent_request:
  assumes "conversion_request E S path (Some body) g = (r, g')" and "path \<noteq> variable_search_path E"
  shows "uploads E g' \<le> uploads E g + 1" and "r = Inr v \<Longrightarrow> uploads E g' = uploads E g + 1"
proof -
  obtain a g1 where a: "throw_if_signalled S g = (a, g1)" by fastforce
  obtain t g2 where t: "on_services (sv_token S) g1 = (t, g2)" by fastforce
  have g2: "uploads E g2 = uploads E g" using signal_uploads[OF a, of E] on_services_uploads[OF t, of E] by simp
  show "uploads E g' \<le> uploads E g + 1" and "r = Inr v \<Longrightarrow> uploads E g' = uploads E g + 1"
    using assms a t g2 signal_uploads[OF a, of E]
    by (auto simp: conversion_request_def thenE_def bindE_def catchE_def conversion_url_def split: sum.splits prod.splits if_splits
        dest!: fetchE_uploads[where E = E])
qed

lemma upload_sent:
  assumes "(if ce_dataManager E then ingest_conversions E S ctx b ps else upload_conversions E S b ps) g = (r, g')"
  shows "uploads E g' \<le> uploads E g + 1" and "r = Inr res \<Longrightarrow> uploads E g' = uploads E g + 1"
proof -
  let ?path = "if ce_dataManager E then ''events:ingest'' else upload_path E"
  let ?body = "if ce_dataManager E then events_body E ps else upload_body E ps"
  obtain q g1 where q: "conversion_request E S ?path (Some ?body) g = (q, g1)" by fastforce
  have path: "?path \<noteq> variable_search_path E" using paths_differ by simp
  have "g' = g1" and "r = Inr res \<Longrightarrow> \<exists>v. q = Inr v"
    using assms q by (auto simp: ingest_conversions_def upload_conversions_def bindE_def parsedE_def split: if_splits sum.splits option.splits prod.splits)
  with sent_request[OF q path] show "uploads E g' \<le> uploads E g + 1" and "r = Inr res \<Longrightarrow> uploads E g' = uploads E g + 1" by auto
qed

text \<open>A batch is uploaded once when the submission returns an answer of Google, not at all when its setup failed, and at most once when it throws.\<close>

lemma submit_conversions_uploads:
  assumes "submit_conversions E S ctx b g = (r, g')"
  shows "uploads E g' \<le> uploads E g + 1"
    and "r = Inr res \<Longrightarrow> (res = setup_result b \<and> uploads E g' = uploads E g) \<or> uploads E g' = uploads E g + 1"
proof -
  have "uploads E g' \<le> uploads E g + 1 \<and> (r = Inr res \<longrightarrow> (res = setup_result b \<and> uploads E g' = uploads E g) \<or> uploads E g' = uploads E g + 1)"
  proof (cases "conversion_payloads b")
    case (Inl e)
    with assms show ?thesis by (auto simp: submit_conversions_def bindE_def)
  next
    case (Inr ps)
    obtain p g1 where p: "prepare_payloads E S ps g = (p, g1)" by fastforce
    have g1: "uploads E g1 = uploads E g" using framesD[OF prepare_unsent p] by (simp add: same_uploads_def)
    show ?thesis
    proof (cases p)
      case (Inl e)
      with assms Inr p g1 show ?thesis by (auto simp: submit_conversions_def bindE_def)
    next
      case prepared: (Inr prepared)
      show ?thesis
      proof (cases prepared)
        case None
        with assms Inr p g1 prepared show ?thesis by (auto simp: submit_conversions_def bindE_def)
      next
        case (Some ps')
        with assms Inr p prepared have "(if ce_dataManager E then ingest_conversions E S ctx b ps' else upload_conversions E S b ps') g1 = (r, g')"
          by (simp add: submit_conversions_def bindE_def split: if_splits)
        from upload_sent[OF this] g1 show ?thesis by auto
      qed
    qed
  qed
  then show "uploads E g' \<le> uploads E g + 1" and "r = Inr res \<Longrightarrow> (res = setup_result b \<and> uploads E g' = uploads E g) \<or> uploads E g' = uploads E g + 1"
    by auto
qed

subsection \<open>Reconciliation\<close>

lemma check_conversion_receipt_Inr:
  assumes "check_conversion_receipt E ctx b act p = Inr r"
  shows "br_checkpoint p \<bind> conversion_receipt_schema = Some r" "conversion_binding E ctx b = Inr (cv_binding r)"
    "br_jobs p = Some [cv_requestId r]" "list_all is_staged (br_outcomes p)"
  using assms by (auto simp: check_conversion_receipt_def run_simps fail_def list_ex_iff list_all_iff split: if_splits option.splits)

lemma settle_conversions_cases:
  assumes "settle_conversions E b p r v = Inr res"
  shows "\<exists>status h. conversion_statuses v = Some status \<and> contentHash (ce_sha E) (cs_destination status) = Inr h \<and> contentHash (ce_sha E) (conversion_target E) = Inr h
    \<and> (res = p \<or> res = p\<lparr>br_outcomes := outcomes_all request_rejected b\<rparr>
       \<or> conversions_verified r (length (wb_records b)) status \<and> res = p\<lparr>br_outcomes := outcomes_all Accepted b\<rparr>)"
  using assms by (auto simp: settle_conversions_def run_simps fail_def split: option.splits if_splits)

lemma conversions_accepted_verified:
  assumes "reconcile_conversions E S ctx b act prior g = (Inr res, g')" and "Accepted i \<in> set (br_outcomes res)"
  shows "\<exists>p r v g1 status h. prior = Some p \<and> br_checkpoint p \<bind> conversion_receipt_schema = Some r \<and> conversion_binding E ctx b = Inr (cv_binding r)
    \<and> conversion_request E S (retrieve_path (cv_requestId r)) None g = (Inr v, g1) \<and> conversion_statuses v = Some status
    \<and> contentHash (ce_sha E) (cs_destination status) = Inr h \<and> contentHash (ce_sha E) (conversion_target E) = Inr h
    \<and> conversions_verified r (length (wb_records b)) status \<and> br_outcomes res = outcomes_all Accepted b"
proof -
  from assms(1) obtain p r v g1 where p: "prior = Some p" and r: "check_conversion_receipt E ctx b act p = Inr r"
    and v: "conversion_request E S (retrieve_path (cv_requestId r)) None g = (Inr v, g1)" and settle: "settle_conversions E b p r v = Inr res"
    by (auto simp: reconcile_conversions_def run_simps split: option.splits if_splits)
  note facts = check_conversion_receipt_Inr[OF r]
  have "res \<noteq> p" using assms(2) facts(4) by (auto simp: list_all_iff)
  moreover have "res \<noteq> p\<lparr>br_outcomes := outcomes_all request_rejected b\<rparr>" using assms(2) by (auto simp: outcomes_all_def request_rejected_def)
  ultimately show ?thesis using settle_conversions_cases[OF settle] p facts(1,2) v by fastforce
qed

end
