(* ===== verification/GoogleRowFacts.thy ===== *)
theory GoogleRowFacts
  imports GoogleConversions
begin

text \<open>
  What holds of the rows of conversions: the schemas are settled, so that parsing a row twice is parsing it once; and the payload of a row has
  at most five identifiers, which are hashed, an identifier of the transaction, and a consent only where the row gives it.
\<close>

subsection \<open>Settled schemas\<close>

definition settled :: "('a \<Rightarrow> 'a option) \<Rightarrow> bool" where
  "settled f \<longleftrightarrow> (\<forall>v w. f v = Some w \<longrightarrow> f w = Some w)"

lemma settled_fits [simp]: "settled (fits f)"
  by (simp add: settled_def fits_def)

lemma settled_nullish: "settled f \<Longrightarrow> settled (nullish_schema f)"
  by (simp add: settled_def nullish_schema_def)

lemma settled_numeric [simp]: "settled (numeric L)"
  unfolding settled_def
proof (intro allI impI)
  fix v w show "numeric L v = Some w \<Longrightarrow> numeric L w = Some w" by (cases v) (auto split: if_splits)
qed

lemma settled_json_column:
  assumes "settled f" and "\<And>v w. f v = Some w \<Longrightarrow> \<not> any_string w"
  shows "settled (json_column L f)"
  unfolding settled_def
proof (intro allI impI)
  fix v w assume "json_column L f v = Some w"
  then have "absent w \<or> f w = Some w \<and> \<not> any_string w"
    using assms by (auto simp: json_column_def nullish_schema_def settled_def split: if_splits)
  then show "json_column L f w = Some w" by (cases w) (auto simp: json_column_def nullish_schema_def absent_def)
qed

lemma parse_all_parts: "parse_all f xs = Some ys \<Longrightarrow> list_all2 (\<lambda>x y. f x = Some y) xs ys"
  by (induction xs arbitrary: ys) (auto split: option.splits)

lemma parts_parse_all: "list_all2 (\<lambda>x y. f x = Some y) xs ys \<Longrightarrow> parse_all f xs = Some ys"
  by (induction rule: list_all2_induct) auto

lemma parse_all_origin: "parse_all f xs = Some ys \<Longrightarrow> y \<in> set ys \<Longrightarrow> \<exists>x \<in> set xs. f x = Some y"
  by (induction xs arbitrary: ys) (auto split: option.splits)

text \<open>What the strict parse of a row holds for a member.\<close>

lemma schema_parts_keys:
  assumes "parse_all (schema_member kvs) schema = Some parts"
  shows "set (map fst (concat parts)) \<subseteq> set (map fst schema)"
proof
  fix k assume "k \<in> set (map fst (concat parts))"
  then obtain part v where "part \<in> set parts" and key: "(k, v) \<in> set part" by auto
  with parse_all_origin[OF assms] obtain e where "e \<in> set schema" and "schema_member kvs e = Some part" by blast
  with key show "k \<in> set (map fst schema)" by (force simp: schema_member_def split: prod.splits option.splits if_splits)
qed

lemma schema_parts_of:
  assumes "parse_all (schema_member kvs) schema = Some parts" and "distinct (map fst schema)" and "(k, f) \<in> set schema"
  shows "map_of (concat parts) k = Option.bind (map_of kvs k) f \<and> (map_of kvs k \<noteq> None \<longrightarrow> map_of (concat parts) k \<noteq> None)
    \<and> (map_of kvs k = None \<longrightarrow> f JLossy \<noteq> None)"
  using assms
proof (induction schema arbitrary: parts)
  case (Cons e schema)
  obtain part rest where part: "schema_member kvs e = Some part" and rest: "parse_all (schema_member kvs) schema = Some rest" and parts: "parts = part # rest"
    using Cons.prems(1) by (auto split: option.splits)
  obtain j g where e: "e = (j, g)" by (cases e)
  have keys: "j \<notin> set (map fst (concat rest))" using schema_parts_keys[OF rest] Cons.prems(2) e by auto
  show ?case
  proof (cases "k = j")
    case True
    then have "f = g" using Cons.prems(2,3) e by (force simp: image_iff)
    moreover have "map_of (concat rest) j = None" using keys by (simp add: map_of_eq_None_iff)
    ultimately show ?thesis using part True e parts by (auto simp: schema_member_def map_add_def split: option.splits if_splits)
  next
    case False
    then have "map_of (concat parts) k = map_of (concat rest) k"
      using part e parts by (auto simp: schema_member_def map_add_def split: option.splits if_splits)
    with Cons.IH[OF rest] Cons.prems False e show ?thesis by auto
  qed
qed simp

lemma strict_object_member:
  assumes "strict_object schema v = Some row" and "distinct (map fst schema)" and "(k, f) \<in> set schema"
  shows "if has_member v k then f (member v k) = Some (member row k) \<and> has_member row k else \<not> has_member row k \<and> f JLossy \<noteq> None"
proof -
  obtain kvs parts where v: "v = JObj kvs" and parts: "parse_all (schema_member kvs) schema = Some parts" and row: "row = JObj (concat parts)"
    using assms(1) by (cases v) (auto simp: strict_object_def strict_members_def split: option.splits if_splits bind_splits)
  show ?thesis using schema_parts_of[OF parts assms(2,3)] v row
    by (cases "map_of kvs k"; cases "map_of (concat parts) k") (auto simp: has_member_def)
qed

lemma strict_object_settled:
  assumes "distinct (map fst schema)" and "list_all (\<lambda>(k, f). settled f) schema"
  shows "settled (strict_object schema)"
  unfolding settled_def
proof (intro allI impI)
  fix v row assume run: "strict_object schema v = Some row"
  then obtain kvs parts where v: "v = JObj kvs" and parts: "parse_all (schema_member kvs) schema = Some parts" and row: "row = JObj (concat parts)"
    by (cases v) (auto simp: strict_object_def strict_members_def split: option.splits if_splits bind_splits)
  have "schema_member (concat parts) e = Some part" if "e \<in> set schema" and "schema_member kvs e = Some part" for e part
  proof -
    obtain k f where e: "e = (k, f)" by (cases e)
    have "settled f" using assms(2) that(1) e by (auto simp: list_all_iff)
    with schema_parts_of[OF parts assms(1) that(1)[unfolded e]] that(2) e show ?thesis
      by (cases "map_of kvs k") (auto simp: schema_member_def settled_def split: option.splits if_splits)
  qed
  then have "list_all2 (\<lambda>e part. schema_member (concat parts) e = Some part) schema parts"
    using parse_all_parts[OF parts] by (auto simp: list_all2_conv_all_nth)
  moreover have "strict_keys (map fst schema) (concat parts)" using schema_parts_keys[OF parts] by (force simp: strict_keys_def list_all_iff)
  ultimately show "strict_object schema row = Some row" by (simp add: row strict_object_def strict_members_def parts_parse_all)
qed

lemma missing_member: "\<not> has_member x k \<Longrightarrow> member x k = JLossy"
  by (cases x) (auto simp: has_member_def split: option.splits)

text \<open>A member whose schema changes nothing is the one of the input.\<close>

lemma kept_member:
  assumes "strict_object schema v = Some row" and "distinct (map fst schema)" and "(k, f) \<in> set schema" and "\<And>x y. f x = Some y \<Longrightarrow> y = x"
  shows "has_member row k = has_member v k" and "member row k = member v k"
proof -
  note m = strict_object_member[OF assms(1-3)]
  show "has_member row k = has_member v k" using m by (auto split: if_splits)
  show "member row k = member v k" using m assms(4) missing_member by (metis (full_types))
qed

subsection \<open>Rows of a stream\<close>

lemma session_settled: "settled (strict_object session_schema)"
  by (rule strict_object_settled) (simp_all add: session_schema_def texts_def row_text_def settled_nullish)

lemma items_settled: "settled (items_schema L)"
proof -
  have item: "settled (strict_object (item_schema L))" by (rule strict_object_settled) (simp_all add: item_schema_def)
  have all: "parse_all (strict_object (item_schema L)) ws = Some ws" if "parse_all (strict_object (item_schema L)) vs = Some ws" for vs ws
    using that item by (induction vs arbitrary: ws) (auto simp: settled_def split: option.splits)
  have len: "length ws = length vs" if "parse_all (strict_object (item_schema L)) vs = Some ws" for vs ws
    using that by (induction vs arbitrary: ws) (auto split: option.splits)
  show ?thesis unfolding settled_def
  proof (intro allI impI)
    fix v w assume "items_schema L v = Some w"
    then show "items_schema L w = Some w" by (cases v) (auto simp: items_schema_def all len split: if_splits)
  qed
qed

lemma object_not_string: "strict_object schema v = Some w \<Longrightarrow> \<not> any_string w"
  by (auto simp: strict_object_def split: bind_splits)

lemma columns_settled:
  "settled (json_column L (fits variable_record))" "settled (json_column L (strict_object session_schema))" "settled (json_column L (items_schema L))"
proof -
  have "\<not> any_string w" if "fits variable_record v = Some w" for v w using that by (cases v) (auto simp: fits_def split: if_splits)
  then show "settled (json_column L (fits variable_record))" by (rule settled_json_column[OF settled_fits])
  show "settled (json_column L (strict_object session_schema))" by (rule settled_json_column[OF session_settled object_not_string])
  show "settled (json_column L (items_schema L))" by (rule settled_json_column[OF items_settled]) (auto simp: items_schema_def)
qed

lemma row_schemas_distinct: "distinct (map fst (googleConversionRows L name))"
  by (cases name)
    (simp_all add: GoogleClickRow_def GoogleCallRow_def GoogleAdjustmentRow_def common_fields_def contact_schema_def contact_fields_def texts_def)

lemma row_schemas_settled: "list_all (\<lambda>(k, f). settled f) (googleConversionRows L name)"
  by (cases name)
    (simp_all add: GoogleClickRow_def GoogleCallRow_def GoogleAdjustmentRow_def common_fields_def contact_schema_def contact_fields_def texts_def
      row_text_def row_number_def consent_value_def one_literal_def time_schema_def settled_nullish columns_settled)

text \<open>Parsing a row twice is parsing it once.\<close>

lemma conversion_row_once: "conversion_row L E sync now v = normalize_conversion L E sync now v"
  using strict_object_settled[OF row_schemas_distinct row_schemas_settled, of L "ce_stream E"]
  by (auto simp: conversion_row_def normalize_conversion_def settled_def split: option.splits)

subsection \<open>Payloads\<close>

lemma map_of_compact:
  "distinct (map fst kvs) \<Longrightarrow> map_of (compact kvs) k = (case map_of kvs k of None \<Rightarrow> None | Some v \<Rightarrow> if absent v \<or> v = JStr [] then None else Some v)"
proof (induction kvs)
  case (Cons e kvs)
  obtain j v where e: "e = (j, v)" by (cases e)
  have "map_of (compact kvs) j = None" if "j \<notin> set (map fst kvs)" using that by (force simp: compact_def map_of_eq_None_iff)
  then show ?case using Cons e by (cases "k = j") (auto simp: compact_def)
qed (simp add: compact_def)

definition copied :: "conversion_payload \<Rightarrow> conversion_payload" where
  "copied p = map (\<lambda>(k, v). (k, json_copy v)) (filter (\<lambda>(k, v). v \<noteq> JLossy) p)"

lemma copied_compact: "map_of (copied (compact kvs)) k = map_option json_copy (map_of (compact kvs) k)"
proof -
  have "filter (\<lambda>(k, v). v \<noteq> JLossy) (compact kvs) = compact kvs" unfolding filter_id_conv by (auto simp: compact_def absent_def)
  then show ?thesis unfolding copied_def by (induction "compact kvs") (simp_all add: map_of_map)
qed

text \<open>The identifiers of a payload, of either API.\<close>

definition payload_identifiers :: "conversion_payload \<Rightarrow> json list" where
  "payload_identifiers p = (case member (JObj p) ''userIdentifiers'' of
      JArr ids \<Rightarrow> ids
    | _ \<Rightarrow> (case member (member (JObj p) ''userData'') ''userIdentifiers'' of JArr ids \<Rightarrow> ids | _ \<Rightarrow> []))"

definition hash_members :: "string list" where
  "hash_members = [''emailAddress'', ''hashedEmail'', ''phoneNumber'', ''hashedPhoneNumber'', ''givenName'', ''hashedFirstName'', ''familyName'', ''hashedLastName'']"

definition other_members :: "string list" where
  "other_members = [''address'', ''addressInfo'', ''regionCode'', ''countryCode'', ''postalCode'', ''hashedStreetAddress'', ''city'', ''state'', ''userIdentifierSource'']"

fun identifier_hashed :: "json \<Rightarrow> bool" where
  "identifier_hashed (JObj kvs) = list_all (\<lambda>(k, v). (if k \<in> set hash_members then hex64 (string_of_json v) else k \<in> set other_members) \<and> identifier_hashed v) kvs"
| "identifier_hashed _ = True"

lemma string_json_copy [simp]: "string_of_json (json_copy v) = string_of_json v"
  by (cases v) simp_all

lemma identifier_hashed_copy: "identifier_hashed v \<Longrightarrow> identifier_hashed (json_copy v)"
  by (induction v rule: json_copy.induct) (auto simp: list_all_iff split: if_splits)

lemma json_identifier_hashed: "identifier_ok i \<Longrightarrow> identifier_hashed (json_of_identifier i)"
  by (cases i) (simp_all add: hash_members_def other_members_def json_of_address_def address_ok_def)

lemma identifier_hashed_compact: "identifier_hashed (JObj kvs) \<Longrightarrow> identifier_hashed (JObj (compact kvs))"
  by (auto simp: list_all_iff compact_def)

lemma ads_identifier_hashed:
  assumes "identifier_ok i" and "identifier_hashed (member row ''city'')" and "identifier_hashed (member row ''state'')"
  shows "identifier_hashed (JObj (ads_identifier sha row i))"
proof (cases i)
  case (Address a)
  with assms have "identifier_hashed (JObj (compact
     [(''hashedFirstName'', JStr (ad_givenName a)), (''hashedLastName'', JStr (ad_familyName a)), (''countryCode'', JStr (ad_regionCode a)),
      (''postalCode'', JStr (ad_postalCode a)),
      (''hashedStreetAddress'', if field row ''streetAddress'' \<noteq> [] then JStr (nameHash sha (field row ''streetAddress''))
         else if absent (member row ''hashedStreetAddress'') then JLossy else JStr (lower (field row ''hashedStreetAddress''))),
      (''city'', member row ''city''), (''state'', member row ''state'')]))"
    by (intro identifier_hashed_compact) (simp add: hash_members_def other_members_def address_ok_def)
  with Address show ?thesis by (simp add: hash_members_def other_members_def)
qed (use assms in \<open>simp_all add: hash_members_def other_members_def\<close>)

lemma plain_identifier_hashed: "identifier_ok i \<Longrightarrow> \<not> is_address i \<Longrightarrow> identifier_hashed (JObj (ads_identifier sha row i))"
  by (cases i) (simp_all add: hash_members_def other_members_def is_address_def)

lemma sourced_hashed: "identifier_hashed (JObj i) \<Longrightarrow> identifier_hashed (sourced E i)"
  by (simp add: sourced_def hash_members_def other_members_def)

lemma adsIdentifiers_hashed:
  assumes "digest_ok sha" and "adsIdentifiers sha row = Inr ids" and "identifier_hashed (member row ''city'')" and "identifier_hashed (member row ''state'')"
  shows "list_all (\<lambda>i. identifier_hashed (JObj i)) ids"
  using assms contactIdentifiers_ok(1)[OF assms(1), of row] ads_identifier_hashed[OF _ assms(3,4)]
  by (auto simp: adsIdentifiers_def bindR_Inr list_all_iff simp del: identifier_hashed.simps)

lemma too_many_Inr: "too_many ids = Inr u \<longleftrightarrow> length ids \<le> 5"
  by (simp add: too_many_def)

definition identifiers_ok :: "conversion_payload \<Rightarrow> bool" where
  "identifiers_ok p \<longleftrightarrow> length (payload_identifiers p) \<le> 5 \<and> list_all identifier_hashed (payload_identifiers p)"

lemmas payload_lookup = copied_compact map_of_compact absent_def payload_identifiers_def

lemma identifiers_okI: "payload_identifiers p = map json_copy ids \<Longrightarrow> length ids \<le> 5 \<Longrightarrow> list_all identifier_hashed ids \<Longrightarrow> identifiers_ok p"
  by (auto simp: identifiers_ok_def list_all_iff intro: identifier_hashed_copy)

lemma event_payload_out:
  assumes "event_payload L E sync row ids = Inr p" and "length ids \<le> 5" and "list_all identifier_ok ids"
  shows "identifiers_ok (copied p)" and "map_of (copied p) ''consent'' = Some (consent_of event_consent row)"
    and "\<exists>t. transaction_id E sync row = Inr t \<and> (t \<noteq> [] \<longrightarrow> map_of (copied p) ''transactionId'' = Some (JStr t))"
proof -
  have "payload_identifiers (copied p) = map json_copy (map json_of_identifier ids)"
    using assms(1) by (cases ids) (auto simp: event_payload_def bindR_Inr payload_lookup)
  moreover have "list_all identifier_hashed (map json_of_identifier ids)" using assms(3) json_identifier_hashed by (auto simp: list_all_iff)
  ultimately show "identifiers_ok (copied p)" using assms(2) by (intro identifiers_okI) simp_all
  show "map_of (copied p) ''consent'' = Some (consent_of event_consent row)"
    using assms(1) by (auto simp: event_payload_def bindR_Inr payload_lookup consent_of_def consent_fields_def)
  show "\<exists>t. transaction_id E sync row = Inr t \<and> (t \<noteq> [] \<longrightarrow> map_of (copied p) ''transactionId'' = Some (JStr t))"
    using assms(1) by (auto simp: event_payload_def bindR_Inr payload_lookup)
qed

lemma click_payload_out:
  assumes "digest_ok (ce_sha E)" and "click_payload L E sync row = Inr p" and "contactIdentifiers (ce_sha E) row = Inr ids"
    and "length ids \<le> 5" and "\<not> list_ex is_address ids"
  shows "identifiers_ok (copied p)" and "map_of (copied p) ''consent'' = Some (consent_of id row)"
    and "\<exists>t. transaction_id E sync row = Inr t \<and> (t \<noteq> [] \<longrightarrow> map_of (copied p) ''orderId'' = Some (JStr t))"
proof -
  have "payload_identifiers (copied p) = map json_copy (map JObj (map (ads_identifier (ce_sha E) row) ids))"
    using assms(2,3) by (auto simp: click_payload_def bindR_Inr payload_lookup adsIdentifiers_def)
  moreover have "list_all identifier_hashed (map JObj (map (ads_identifier (ce_sha E) row) ids))"
    using contactIdentifiers_ok(1)[OF assms(1,3)] assms(5) plain_identifier_hashed by (auto simp: list_all_iff list_ex_iff simp del: identifier_hashed.simps)
  ultimately show "identifiers_ok (copied p)" using assms(4) by (intro identifiers_okI) simp_all
  show "map_of (copied p) ''consent'' = Some (consent_of id row)"
    using assms(2) by (auto simp: click_payload_def bindR_Inr payload_lookup consent_of_def consent_fields_def)
  show "\<exists>t. transaction_id E sync row = Inr t \<and> (t \<noteq> [] \<longrightarrow> map_of (copied p) ''orderId'' = Some (JStr t))"
    using assms(2) by (auto simp: click_payload_def bindR_Inr payload_lookup)
qed

lemma call_payload_out:
  assumes "call_payload L E row = Inr p"
  shows "identifiers_ok (copied p)" and "map_of (copied p) ''consent'' = Some (consent_of id row)"
  using assms by (auto simp: call_payload_def bindR_Inr payload_lookup consent_of_def consent_fields_def identifiers_ok_def)

lemma adjustment_payload_out:
  assumes "digest_ok (ce_sha E)" and "adjustment_payload L E now row = Inr p"
    and "identifier_hashed (member row ''city'')" and "identifier_hashed (member row ''state'')"
  shows "identifiers_ok (copied p)"
proof -
  obtain type ids where ids: "adjustment_identifiers E type row = Inr ids"
    and p: "payload_identifiers (copied p) = map json_copy (map (sourced E) ids)"
    using assms(2) by (cases "adjustment_type E row") (auto simp: adjustment_payload_def bindR_Inr payload_lookup)
  have "length ids \<le> 5" using ids by (auto simp: adjustment_identifiers_def bindR_Inr too_many_Inr split: if_splits)
  moreover have "list_all (\<lambda>i. identifier_hashed (JObj i)) ids"
    using ids adsIdentifiers_hashed[OF assms(1) _ assms(3,4), of ids]
    by (auto simp: adjustment_identifiers_def bindR_Inr simp del: identifier_hashed.simps split: if_splits)
  then have "list_all identifier_hashed (map (sourced E) ids)" by (auto simp: list_all_iff intro!: sourced_hashed simp del: identifier_hashed.simps)
  ultimately show ?thesis by (intro identifiers_okI[OF p]) simp_all
qed

subsection \<open>Rows to payloads\<close>

lemma schema_keeps: "fits f x = Some y \<Longrightarrow> y = x" "nullish_schema (fits f) x = Some y \<Longrightarrow> y = x"
  by (auto simp: fits_def nullish_schema_def split: if_splits)

lemma kept_columns:
  assumes "strict_object (googleConversionRows L name) v = Some row"
  shows "member row ''__sourceKey'' = member v ''__sourceKey''"
    and "name = ClickConversions \<Longrightarrow> member row ''orderId'' = member v ''orderId''"
    and "name \<noteq> ConversionAdjustments \<Longrightarrow> k \<in> set consent_fields \<Longrightarrow> has_member row k = has_member v k \<and> member row k = member v k"
    and "name = ConversionAdjustments \<Longrightarrow> identifier_hashed (member row ''city'') \<and> identifier_hashed (member row ''state'')"
proof -
  note same = kept_member[OF assms row_schemas_distinct]
  have "(''__sourceKey'', fits source_key) \<in> set (googleConversionRows L name)"
    by (cases name) (simp_all add: GoogleClickRow_def GoogleCallRow_def GoogleAdjustmentRow_def common_fields_def)
  from same(2)[OF this schema_keeps(1)] show "member row ''__sourceKey'' = member v ''__sourceKey''" by simp
  show "member row ''orderId'' = member v ''orderId''" if "name = ClickConversions"
  proof -
    have "(''orderId'', row_text) \<in> set (googleConversionRows L name)" using that by (simp add: GoogleClickRow_def texts_def)
    from same(2)[OF this] show ?thesis unfolding row_text_def using schema_keeps(2) by blast
  qed
  show "has_member row k = has_member v k \<and> member row k = member v k" if "name \<noteq> ConversionAdjustments" and "k \<in> set consent_fields"
  proof -
    have "(k, consent_value) \<in> set (googleConversionRows L name)"
      using that by (cases name) (auto simp: GoogleClickRow_def GoogleCallRow_def common_fields_def consent_fields_def)
    from same[OF this] show ?thesis unfolding consent_value_def one_literal_def using schema_keeps(2) by blast
  qed
  show "identifier_hashed (member row ''city'') \<and> identifier_hashed (member row ''state'')" if "name = ConversionAdjustments"
  proof -
    have flat: "identifier_hashed (member row k)" if "(k, row_text) \<in> set (googleConversionRows L name)" for k
    proof (cases "has_member row k")
      case True
      then have "row_text (member v k) = Some (member row k)" using strict_object_member[OF assms row_schemas_distinct that] by (auto split: if_splits)
      then show ?thesis by (cases "member row k") (auto simp: row_text_def nullish_schema_def fits_def absent_def split: if_splits)
    next
      case False
      then show ?thesis by (simp add: missing_member)
    qed
    then show ?thesis using that by (simp add: GoogleAdjustmentRow_def texts_def)
  qed
qed

definition copied_consent :: "conversion_env \<Rightarrow> string \<Rightarrow> string" where
  "copied_consent E = (if ce_stream E = ClickConversions \<and> ce_dataManager E then event_consent else id)"

definition transaction_member :: "conversion_env \<Rightarrow> string" where
  "transaction_member E = (if ce_dataManager E then ''transactionId'' else ''orderId'')"

lemma click_identifiers_out:
  "click_identifiers L E row = Inr ids \<Longrightarrow>
     contactIdentifiers (ce_sha E) row = Inr ids \<and> length ids \<le> 5 \<and> (\<not> ce_dataManager E \<longrightarrow> \<not> list_ex is_address ids)"
  by (auto simp: click_identifiers_def bindR_Inr too_many_Inr split: if_splits)

lemma payload_out:
  assumes "digest_ok (ce_sha E)" and "conversion_payload_of L E sync now row = Inr p"
    and "ce_stream E = ConversionAdjustments \<Longrightarrow> identifier_hashed (member row ''city'') \<and> identifier_hashed (member row ''state'')"
  shows "identifiers_ok (copied p)
    \<and> (ce_stream E \<noteq> ConversionAdjustments \<longrightarrow> map_of (copied p) ''consent'' = Some (consent_of (copied_consent E) row))
    \<and> (ce_stream E = ClickConversions \<longrightarrow> (\<exists>t. transaction_id E sync row = Inr t \<and> (t \<noteq> [] \<longrightarrow> map_of (copied p) (transaction_member E) = Some (JStr t))))"
proof (cases "ce_stream E")
  case ClickConversions
  then obtain ids where run: "(if ce_dataManager E then event_payload L E sync row ids else click_payload L E sync row) = Inr p"
    and ids: "contactIdentifiers (ce_sha E) row = Inr ids" "length ids \<le> 5" "\<not> ce_dataManager E \<Longrightarrow> \<not> list_ex is_address ids"
    using assms(2) click_identifiers_out by (auto simp: conversion_payload_of_def bindR_Inr)
  show ?thesis
  proof (cases "ce_dataManager E")
    case True
    from event_payload_out[OF _ ids(2) contactIdentifiers_ok(1)[OF assms(1) ids(1)]] run True ClickConversions show ?thesis
      by (simp add: copied_consent_def transaction_member_def)
  next
    case False
    from click_payload_out[OF assms(1) _ ids(1,2) ids(3)[OF False]] run False ClickConversions show ?thesis
      by (simp add: copied_consent_def transaction_member_def)
  qed
next
  case CallConversions
  with assms(2) call_payload_out[of L E row p] show ?thesis by (simp add: conversion_payload_of_def copied_consent_def)
next
  case ConversionAdjustments
  with assms adjustment_payload_out[OF assms(1), of L now row p] show ?thesis by (simp add: conversion_payload_of_def)
qed

lemma transaction_id_same:
  "member row ''orderId'' = member v ''orderId'' \<Longrightarrow> member row ''__sourceKey'' = member v ''__sourceKey'' \<Longrightarrow> transaction_id E sync row = transaction_id E sync v"
  by (simp add: transaction_id_def field_def)

lemma consent_of_same:
  "(\<And>k. k \<in> set consent_fields \<Longrightarrow> has_member row k = has_member v k \<and> member row k = member v k) \<Longrightarrow> consent_of f row = consent_of f v"
  by (simp add: consent_of_def consent_text_def field_def)

lemma conversion_normalized:
  assumes "digest_ok (ce_sha E)" and "conversion_row L E sync now v = Inr w"
  shows "\<exists>key p. conversion_wire w = Some (key, p) \<and> member v ''__sourceKey'' = JStr key \<and> identifiers_ok p
    \<and> (ce_stream E \<noteq> ConversionAdjustments \<longrightarrow> map_of p ''consent'' = Some (consent_of (copied_consent E) v))
    \<and> (ce_stream E = ClickConversions \<longrightarrow> (\<exists>t. transaction_id E sync v = Inr t \<and> t \<noteq> [] \<and> map_of p (transaction_member E) = Some (JStr t)))"
proof -
  obtain row p where row: "strict_object (googleConversionRows L (ce_stream E)) v = Some row" and key: "field row ''__sourceKey'' \<noteq> []"
    and p: "conversion_payload_of L E sync now row = Inr p" and w: "w = json_copy (JObj [(''key'', member row ''__sourceKey''), (''payload'', JObj p)])"
    using assms(2) by (auto simp: conversion_row_once normalize_conversion_def bindR_Inr split: option.splits if_splits)
  note same = kept_columns[OF row]
  have "(''__sourceKey'', fits source_key) \<in> set (googleConversionRows L (ce_stream E))"
    by (cases "ce_stream E") (simp_all add: GoogleClickRow_def GoogleCallRow_def GoogleAdjustmentRow_def common_fields_def)
  from strict_object_member[OF row row_schemas_distinct this] key obtain k where k: "member row ''__sourceKey'' = JStr k" "hex64 k"
    by (cases "member row ''__sourceKey''") (auto simp: field_def fits_def missing_member split: if_splits)
  have wire: "conversion_wire w = Some (k, copied p)"
    using k by (simp add: w conversion_wire_def strict_members_def strict_keys_def required_def copied_def)
  have "t \<noteq> []" if "transaction_id E sync v = Inr t" for t using that by (auto simp: transaction_id_def bindR_Inr split: if_splits)
  then show ?thesis
    using payload_out[OF assms(1) p same(4)] wire k same(1) transaction_id_same[OF same(2) same(1), of E sync] consent_of_same[of row v, OF same(3)] by auto
qed

text \<open>A consent in a payload is one of the row, or its column is not mapped.\<close>

definition granted :: "conversion_env \<Rightarrow> string" where
  "granted E = (if ce_stream E = ClickConversions \<and> ce_dataManager E then ''CONSENT_GRANTED'' else ''GRANTED'')"

lemma consent_granted:
  assumes "k \<in> set consent_fields"
  shows "field (consent_of (copied_consent E) row) k = granted E \<longleftrightarrow> \<not> has_member row k \<or> member row k = JStr ''GRANTED''"
proof -
  have "field (consent_of (copied_consent E) row) k = copied_consent E (consent_text row k)"
    using assms by (auto simp: consent_of_def consent_fields_def field_def)
  moreover have "copied_consent E t = granted E \<longleftrightarrow> t = ''GRANTED''" for t
    by (simp add: copied_consent_def granted_def event_consent_def)
  moreover have "consent_text row k = ''GRANTED'' \<longleftrightarrow> \<not> has_member row k \<or> member row k = JStr ''GRANTED''"
    by (cases "member row k") (auto simp: consent_text_def absent_def field_def)
  ultimately show ?thesis by simp
qed

end
