(* ===== verification/Console.thy ===== *)
theory Console
  imports GoogleWriter
begin

text \<open>
  The client of the console, \<open>console-client.ts\<close>: admission and access tokens of one sync. A token is cached until thirty seconds before it
  expires, and for four minutes at most. The clock, the console and the reading of a date are arguments; a date that is no time is \<open>None\<close>,
  JavaScript's \<open>NaN\<close>, which no clock reading is before or after.
\<close>

subsection \<open>The client\<close>

record 'c console_services =
  cn_now :: "('c, int) oper"
  cn_aborted :: "('c, bool) oper"
  cn_request :: "string \<Rightarrow> ('c, bool \<times> json result) oper"
  cn_parseTime :: "string \<Rightarrow> int option"

record console_settings =
  cc_baseUrl :: string
  cc_id :: string
  cc_workspaceId :: string
  cc_configRevision :: string
  cc_refreshTaskId :: "string option"

record oauth_token =
  ot_accessToken :: string
  ot_expiresAt :: string

record 'c console =
  cl_cached :: "oauth_token option"
  cl_cacheUntil :: "int option"
  cl_world :: 'c

definition on_console :: "('c, 'a) oper \<Rightarrow> ('c console, 'a) oper" where
  "on_console m x = (case m (cl_world x) of (r, w) \<Rightarrow> (r, x\<lparr>cl_world := w\<rparr>))"

definition query_member :: "string \<times> string \<Rightarrow> string" where
  "query_member kv = form_text (fst kv) @ ''='' @ form_text (snd kv)"

definition console_url :: "console_settings \<Rightarrow> string \<Rightarrow> bool \<Rightarrow> string" where
  "console_url C path revision = cc_baseUrl C @ ''/api/admin/'' @ path @ ''/'' @ encodeURIComponent (cc_id C) @ ''?'' @ join ''&'' (map query_member
     ([(''workspaceId'', cc_workspaceId C)] @ (if revision then [(''configRevision'', cc_configRevision C)] else [])
      @ (case cc_refreshTaskId C of Some (c # cs) \<Rightarrow> [(''refreshTaskId'', c # cs)] | _ \<Rightarrow> [])))"

definition console_aborted :: "'c console_services \<Rightarrow> ('c console, unit) oper" where
  "console_aborted S = bindE (on_console (cn_aborted S)) (\<lambda>a. if a then throwE AbortError else returnE ())"

definition console_get :: "'c console_services \<Rightarrow> console_settings \<Rightarrow> string \<Rightarrow> bool \<Rightarrow> ('c console, json) oper" where
  "console_get S C path revision =
     thenE (console_aborted S)
     (catchE (bindE (on_console (cn_request S (console_url C path revision))) (\<lambda>(ok, body). if ok then resultE body else throwE (PlainError [])))
       (\<lambda>_. throwE (PlainError ''Reverse console admission/OAuth request denied or unavailable'')))"

definition console_admit :: "'c console_services \<Rightarrow> console_settings \<Rightarrow> (json \<Rightarrow> 'a option) \<Rightarrow> ('c console, 'a) oper" where
  "console_admit S C parse = bindE (console_get S C ''reverse-syncs'' False) (\<lambda>v. parsedE (parse v))"

definition token_schema :: "json \<Rightarrow> oauth_token option" where
  "token_schema v = do {
     kvs \<leftarrow> strict_members [''accessToken'', ''expiresAt''] v;
     t \<leftarrow> required ''accessToken'' (string_between 1 16384) kvs;
     e \<leftarrow> required ''expiresAt'' (text_where utc_datetime) kvs;
     Some \<lparr>ot_accessToken = t, ot_expiresAt = e\<rparr> }"

definition still :: "int \<Rightarrow> int option \<Rightarrow> bool" where
  "still n until \<longleftrightarrow> (case until of None \<Rightarrow> False | Some u \<Rightarrow> n < u)"

definition cache_limit :: "int option \<Rightarrow> int \<Rightarrow> int option" where
  "cache_limit expiry now = map_option (\<lambda>e. min (e - 30000) (now + 240000)) expiry"

definition fresh_token :: "'c console_services \<Rightarrow> console_settings \<Rightarrow> ('c console, string) oper" where
  "fresh_token S C =
     thenE (modifyE (\<lambda>x. x\<lparr>cl_cached := None\<rparr>))
     (bindE (console_get S C ''reverse-sync-oauth'' True) (\<lambda>v. case token_schema v of
        None \<Rightarrow> throwE (PlainError ''Invalid reverse OAuth token response'')
      | Some t \<Rightarrow>
          bindE (on_console (cn_now S)) (\<lambda>now.
          let until = cache_limit (cn_parseTime S (ot_expiresAt t)) now in
          thenE (modifyE (\<lambda>x. x\<lparr>cl_cacheUntil := until\<rparr>))
          (bindE (on_console (cn_now S)) (\<lambda>now'.
           if (case until of None \<Rightarrow> False | Some u \<Rightarrow> u \<le> now') then throwE (PlainError ''Reverse OAuth token is expired'')
           else thenE (modifyE (\<lambda>x. x\<lparr>cl_cached := Some t\<rparr>)) (returnE (ot_accessToken t)))))))"

definition accessToken :: "'c console_services \<Rightarrow> console_settings \<Rightarrow> ('c console, string) oper" where
  "accessToken S C =
     thenE (console_aborted S)
     (bindE (getE cl_cached) (\<lambda>cached. case cached of
        None \<Rightarrow> fresh_token S C
      | Some t \<Rightarrow> bindE (on_console (cn_now S)) (\<lambda>now. bindE (getE cl_cacheUntil) (\<lambda>until.
          if still now until then returnE (ot_accessToken t) else fresh_token S C))))"

subsection \<open>The cache\<close>

text \<open>What the cache holds expires at least thirty seconds after the end of the cache.\<close>

definition cache_ok :: "'c console_services \<Rightarrow> 'c console \<Rightarrow> bool" where
  "cache_ok S x \<longleftrightarrow> (case cl_cached x of None \<Rightarrow> True | Some t \<Rightarrow>
     (case cl_cacheUntil x of None \<Rightarrow> True | Some u \<Rightarrow> (\<exists>e. cn_parseTime S (ot_expiresAt t) = Some e \<and> u \<le> e - 30000)))"

text \<open>The clock of the host does not run backwards.\<close>

definition clock_law :: "'c console_services \<Rightarrow> ('c \<Rightarrow> int) \<Rightarrow> bool" where
  "clock_law S clk \<longleftrightarrow> (\<forall>w r w'. cn_now S w = (r, w') \<longrightarrow> clk w \<le> clk w' \<and> (\<forall>n. r = Inr n \<longrightarrow> clk w \<le> n \<and> n \<le> clk w'))
     \<and> (\<forall>w r w'. cn_aborted S w = (r, w') \<longrightarrow> clk w \<le> clk w') \<and> (\<forall>u w r w'. cn_request S u w = (r, w') \<longrightarrow> clk w \<le> clk w')"

lemma on_console_run [run_simps]:
  "on_console m x = (r, x') \<longleftrightarrow> (\<exists>w. m (cl_world x) = (r, w) \<and> x' = x\<lparr>cl_world := w\<rparr>)"
  by (auto simp: on_console_def split: prod.splits)

lemma console_aborted_Inr:
  assumes "clock_law S clk" and "console_aborted S x = (Inr u, x')"
  shows "clk (cl_world x) \<le> clk (cl_world x') \<and> cl_cached x' = cl_cached x \<and> cl_cacheUntil x' = cl_cacheUntil x"
  using assms by (fastforce simp: console_aborted_def run_simps clock_law_def split: if_splits)

lemma console_get_Inr:
  assumes "clock_law S clk" and "console_get S C path revision x = (Inr v, x')"
  shows "clk (cl_world x) \<le> clk (cl_world x') \<and> cl_cached x' = cl_cached x \<and> cl_cacheUntil x' = cl_cacheUntil x"
proof -
  from assms(2) obtain u x1 where a: "console_aborted S x = (Inr u, x1)"
    and q: "\<exists>ok. on_console (cn_request S (console_url C path revision)) x1 = (Inr (ok, Inr v), x')"
    by (auto simp: console_get_def run_simps split: if_splits)
  from q assms(1) have "clk (cl_world x1) \<le> clk (cl_world x') \<and> cl_cached x' = cl_cached x1 \<and> cl_cacheUntil x' = cl_cacheUntil x1"
    by (auto simp: run_simps clock_law_def)
  with console_aborted_Inr[OF assms(1) a] show ?thesis by auto
qed

text \<open>A token that is handed out outlives the start of the call by thirty seconds, and is cached until thirty seconds before its end and
  four minutes from now at most.\<close>

definition handed_out :: "'c console_services \<Rightarrow> ('c \<Rightarrow> int) \<Rightarrow> int \<Rightarrow> 'c console \<Rightarrow> string \<Rightarrow> bool" where
  "handed_out S clk began x tk \<longleftrightarrow> cache_ok S x \<and> (\<exists>t. cl_cached x = Some t \<and> ot_accessToken t = tk
     \<and> (\<forall>e. cn_parseTime S (ot_expiresAt t) = Some e \<longrightarrow> began + 30000 < e))"

lemma fresh_token_out:
  assumes law: "clock_law S clk" and run: "fresh_token S C x = (Inr tk, x')"
  shows "handed_out S clk (clk (cl_world x)) x' tk \<and> (\<forall>u. cl_cacheUntil x' = Some u \<longrightarrow> u \<le> clk (cl_world x') + 240000)"
proof -
  from run obtain v x1 t now w1 now' w2 where got: "console_get S C ''reverse-sync-oauth'' True (x\<lparr>cl_cached := None\<rparr>) = (Inr v, x1)"
    and t: "token_schema v = Some t" and now: "cn_now S (cl_world x1) = (Inr now, w1)" and now': "cn_now S w1 = (Inr now', w2)"
    and valid: "\<forall>u \<le> now'. cache_limit (cn_parseTime S (ot_expiresAt t)) now \<noteq> Some u"
    and x': "x' = x1\<lparr>cl_cacheUntil := cache_limit (cn_parseTime S (ot_expiresAt t)) now, cl_world := w2, cl_cached := Some t\<rparr>" and tk: "tk = ot_accessToken t"
    unfolding fresh_token_def by (auto simp: run_simps Let_def split: option.splits if_splits)
  have le: "clk (cl_world x) \<le> clk (cl_world x1)" using console_get_Inr[OF law got] by simp
  have n: "clk (cl_world x1) \<le> now" "now \<le> clk w1" using law now unfolding clock_law_def by blast+
  have n': "clk w1 \<le> now'" "now' \<le> clk w2" "clk w1 \<le> clk w2" using law now' unfolding clock_law_def by blast+
  have "now' < min (e - 30000) (now + 240000)" if "cn_parseTime S (ot_expiresAt t) = Some e" for e
    using valid that by (auto simp: cache_limit_def simp flip: not_le)
  with le n n' show ?thesis unfolding handed_out_def cache_ok_def x' tk
    by (cases "cn_parseTime S (ot_expiresAt t)") (fastforce simp: cache_limit_def)+
qed

lemma accessToken_out:
  assumes law: "clock_law S clk" and ok: "cache_ok S x" and run: "accessToken S C x = (Inr tk, x')"
  shows "handed_out S clk (clk (cl_world x)) x' tk"
proof -
  from run obtain u x1 where a: "console_aborted S x = (Inr u, x1)" and rest: "bindE (getE cl_cached) (\<lambda>cached. case cached of
        None \<Rightarrow> fresh_token S C
      | Some t \<Rightarrow> bindE (on_console (cn_now S)) (\<lambda>now. bindE (getE cl_cacheUntil) (\<lambda>until.
          if still now until then returnE (ot_accessToken t) else fresh_token S C))) x1 = (Inr tk, x')"
    unfolding accessToken_def thenE_Inr by blast
  note le = console_aborted_Inr[OF law a]
  have later: "handed_out S clk (clk (cl_world x)) x' tk" if "handed_out S clk began x' tk" "clk (cl_world x) \<le> began" for began
    using that by (force simp: handed_out_def)
  show ?thesis
  proof (cases "cl_cached x1")
    case None
    with rest have "fresh_token S C x1 = (Inr tk, x')" by (simp add: bindE_def)
    from fresh_token_out[OF law this] le show ?thesis by (auto intro: later)
  next
    case (Some t)
    with rest obtain now w where now: "cn_now S (cl_world x1) = (Inr now, w)"
      and out: "(if still now (cl_cacheUntil x1) then returnE (ot_accessToken t) else fresh_token S C) (x1\<lparr>cl_world := w\<rparr>) = (Inr tk, x')"
      by (auto simp: run_simps)
    have n: "clk (cl_world x1) \<le> now" "clk (cl_world x1) \<le> clk w" using law now unfolding clock_law_def by blast+
    show ?thesis
    proof (cases "still now (cl_cacheUntil x1)")
      case True
      with out have "x' = x1\<lparr>cl_world := w\<rparr>" "tk = ot_accessToken t" by simp_all
      with True Some ok le n show ?thesis by (auto simp: handed_out_def cache_ok_def still_def split: option.splits)
    next
      case False
      with out have "fresh_token S C (x1\<lparr>cl_world := w\<rparr>) = (Inr tk, x')" by simp
      from fresh_token_out[OF law this] le n show ?thesis by (auto intro: later)
    qed
  qed
qed

end
