(* ===== verification/GoogleExamples.thy ===== *)
theory GoogleExamples
  imports GoogleBinding GoogleConversionFacts GoogleRowFacts Console Examples
begin

text \<open>A sync with its audience, Google and the console as concrete data, for the witnesses.\<close>

subsection \<open>An audience\<close>

definition zero_digest :: "string \<Rightarrow> string" where
  "zero_digest t = replicate 64 (CHR ''0'')"

lemma zero_digest_ok: "digest_ok zero_digest"
  by (simp add: digest_ok_def zero_digest_def hex64_def hex_char_def list_all_iff char_code_def)

definition audience_destination :: json where
  "audience_destination = JObj [(''authorized'', JBool True), (''oauthConnectionId'', JStr ''destination.d''), (''customerId'', JStr ''123-456-7890'')]"

definition audience_settings_json :: json where
  "audience_settings_json = JObj [(''audience'', JObj [(''kind'', JStr ''managed''), (''displayName'', JStr '' VIPs '')]),
     (''customerMatchTermsAccepted'', JBool True), (''exclusiveManagementConfirmed'', JBool True)]"

definition audience_config :: destination_config where
  "audience_config = \<lparr>cf_id = ''s'', cf_workspaceId = ''w'', cf_revision = ''v1'', cf_disabled = False, cf_destinationType = ''google-ads'', cf_stream = ''audience'',
     cf_mode = ModeMirror, cf_cursor = False, cf_primaryKey = [''id''], cf_mapping = [], cf_checkpointEvery = 1, cf_streamOptions = audience_settings_json,
     dc_toId = ''d'', dc_destination = audience_destination, dc_deleteColumn = False\<rparr>"

definition found_list :: json where
  "found_list = JObj [(''name'', JStr ''accountTypes/GOOGLE_ADS/accounts/1234567890/userLists/77''), (''id'', JStr ''77''),
     (''displayName'', JStr (''VIPs [Jitsu '' @ replicate 12 (CHR ''0'') @ '']'')), (''integrationCode'', JStr (''jitsu-retl-'' @ replicate 64 (CHR ''0''))),
     (''membershipDuration'', JStr ''46656000s''), (''membershipStatus'', JStr ''OPEN''), (''accessReason'', JStr ''OWNED''),
     (''ingestedUserListInfo'', JObj [(''uploadKeyTypes'', json_of_strings [''CONTACT_ID'']),
        (''contactIdInfo'', JObj [(''dataSourceType'', JStr ''DATA_SOURCE_TYPE_FIRST_PARTY'')])])]"

definition answering :: "(http_request \<Rightarrow> json) \<Rightarrow> unit services" where
  "answering f = \<lparr>sv_token = returnE ''token'', sv_fetch = (\<lambda>q. returnE \<lparr>hs_ok = True, hs_status = 200, hs_date = None, hs_json = Inr (f q)\<rparr>),
     sv_aborted = returnE False, sv_isoTime = (\<lambda>_. None)\<rparr>"

definition quiet_google :: "unit google" where
  "quiet_google = \<lparr>gg_log = [], gg_world = ()\<rparr>"

definition unprovisioned :: "unit provisioning" where
  "unprovisioned = \<lparr>pv_google = quiet_google, pv_world = empty_world\<rparr>"

definition zero_nonce :: string where
  "zero_nonce = replicate 64 (CHR ''0'')"

abbreviation say_nothing :: "string \<Rightarrow> (unit, unit) oper" where
  "say_nothing \<equiv> \<lambda>_. returnE ()"

definition first_resolution :: "destination_config result \<times> unit provisioning" where
  "first_resolution = resolveGoogleAudience zero_digest (answering (\<lambda>_. found_list)) say_nothing zero_nonce audience_config unprovisioned"

lemma resolution_returns: "case fst first_resolution of Inr _ \<Rightarrow> True | Inl _ \<Rightarrow> False"
  by code_simp

lemma resolution_result: "\<exists>cfg'. first_resolution = (Inr cfg', snd first_resolution)"
  using resolution_returns by (cases "fst first_resolution") (auto intro: returned)

definition second_resolution :: "unit provisioning" where
  "second_resolution = snd (resolveGoogleAudience zero_digest (answering (\<lambda>_. found_list)) say_nothing zero_nonce audience_config (snd first_resolution))"

lemma two_resolutions: "provisioned zero_digest ''s'' unprovisioned second_resolution"
proof -
  have "provisioned zero_digest ''s'' unprovisioned (snd first_resolution)"
    unfolding first_resolution_def by (rule provisioned.attempt[OF provisioned.none]) (simp add: audience_config_def)
  then show ?thesis unfolding second_resolution_def by (rule provisioned.attempt) (simp add: audience_config_def)
qed

subsection \<open>A batch of members\<close>

definition sample_member_row :: json where
  "sample_member_row = JObj [(''email'', JStr '' A.b@gmail.com''), (''adUserData'', JStr ''GRANTED'')]"

definition member_payload :: json where
  "member_payload = json_of_audience_member Upsert (UserData [EmailAddress (zero_digest [])])"

lemma member_row_type: "audience_row_type zero_digest Upsert sample_member_row = Some member_payload"
  by code_simp

definition audience_batch :: write_batch where
  "audience_batch = \<lparr>wb_id = ''b'', wb_records = [\<lparr>rec_key = ''k'', rec_seq = 1, rec_row = member_payload, rec_op = ''o1''\<rparr>]\<rparr>"

definition audience_context :: google_context where
  "audience_context = \<lparr>gc_credentials = audience_destination, gc_options = JObj [(''audienceId'', JStr ''77''), (''customerMatchTermsAccepted'', JBool True)],
     gc_syncId = ''s'', gc_logicalRunId = ''r'', gc_configRevision = ''v1'', gc_mirror = False, gc_targetIdentity = ''google-data-manager:1234567890:77''\<rparr>"

definition audience_env :: google_env where
  "audience_env = \<lparr>ge_sha = zero_digest, ge_managed = None, ge_replacement = False\<rparr>"

definition audience_reply :: "http_request \<Rightarrow> json" where
  "audience_reply q = (if hq_post q then JObj [(''requestId'', JStr ''r1'')]
     else JObj [(''requestStatusPerDestination'', JArr [JObj [(''destination'', target_json ''1234567890'' [] ''77''), (''requestStatus'', JStr ''SUCCESS''),
       (''audienceMembersIngestionStatus'', JObj [(''userDataIngestionStatus'', JObj [(''recordCount'', JStr ''1'')])])]])])"

definition quiet_store :: sync_store where
  "quiet_store = \<lparr>ss_state = [], ss_maxBytes = 65536\<rparr>"

definition submitted :: batch_result where
  "submitted = staged_result audience_batch Upsert ''r1'' (zero_digest []) False"

lemma audience_submits:
  "fst (submit audience_env (answering audience_reply) audience_context audience_batch Upsert (quiet_google, quiet_store)) = Inr submitted"
  by code_simp

lemma audience_settles:
  "fst (reconcileBatch audience_env (answering audience_reply) audience_context audience_batch Upsert (Some submitted) (quiet_google, quiet_store))
     = Inr (submitted\<lparr>br_outcomes := [Accepted ''o1'']\<rparr>)"
  by code_simp

lemma audience_batch_shape: "batch_shape audience_batch"
  by (simp add: batch_shape_def audience_batch_def)

subsection \<open>Conversions\<close>

definition conversion_sample :: conversion_env where
  "conversion_sample = \<lparr>ce_sha = zero_digest, ce_stream = ClickConversions,
     ce_credentials = \<lparr>cr_oauthConnectionId = ''destination.d'', cr_customerId = ''1234567890'', cr_loginCustomerId = []\<rparr>,
     ce_options = \<lparr>co_conversionActionId = ''5'', co_api = Some ''google-ads'', co_adjustmentType = None, co_dataSource = None\<rparr>,
     ce_dataManager = False, ce_developerToken = ''dev''\<rparr>"

definition conversion_record :: "string \<Rightarrow> int \<Rightarrow> batch_record" where
  "conversion_record i n = \<lparr>rec_key = i, rec_seq = n, rec_row = JObj [(''key'', JStr (zero_digest [])), (''payload'', JObj [(''gclid'', JStr i)])], rec_op = i\<rparr>"

definition conversion_batch :: write_batch where
  "conversion_batch = \<lparr>wb_id = ''b'', wb_records = [conversion_record ''o1'' 1, conversion_record ''o2'' 2]\<rparr>"

definition conversion_answer :: json where
  "conversion_answer = JObj [(''results'', JArr [JObj [(''gclid'', JStr ''o1'')], JObj []]),
     (''partialFailureError'', JObj [(''code'', JInt 3), (''details'', JArr [JObj [(''errors'', JArr [JObj
        [(''errorCode'', JObj [(''conversionUploadError'', JStr ''EXPIRED_EVENT'')]),
         (''location'', JObj [(''fieldPathElements'', JArr [JObj [(''fieldName'', JStr ''conversions''), (''index'', JInt 1)]])])]])]])])]"

definition conversion_result :: batch_result where
  "conversion_result = \<lparr>br_outcomes = [Accepted ''o1'', conversion_rejected ''o2'' ''EXPIRED_EVENT''], br_jobs = None, br_checkpoint = None\<rparr>"

lemma conversion_positions: "googleAdsOutcomes conversion_batch conversion_answer = Inr conversion_result"
  by code_simp

lemma conversion_submits:
  "fst (submit_conversions conversion_sample (answering (\<lambda>_. conversion_answer)) audience_context conversion_batch quiet_google) = Inr conversion_result"
  by code_simp

lemma conversion_batch_shape: "batch_shape conversion_batch"
  by (simp add: batch_shape_def conversion_batch_def conversion_record_def)

definition engine :: js_values where
  "engine = \<lparr>jv_time = (\<lambda>t. if t = ''2024-02-29T12:34:56Z'' then Some 1709210096000 else None), jv_number = (\<lambda>t. if t = ''12.50'' then Some ''12.5'' else None), jv_parse = (\<lambda>_. None), jv_string = int_text\<rparr>"

definition conversion_source :: json where
  "conversion_source = JObj [(''conversionTimestamp'', JStr ''2024-02-29T12:34:56Z''), (''value'', JStr ''12.50''), (''email'', JStr ''A@b.c''),
     (''adUserData'', JNull), (''__sourceKey'', JStr zero_nonce)]"

definition conversion_mapped :: json where
  "conversion_mapped = JObj [(''key'', JStr zero_nonce), (''payload'', JObj
     [(''conversionAction'', JStr ''customers/1234567890/conversionActions/5''), (''conversionDateTime'', JStr ''2024-02-29 12:34:56+00:00''),
      (''orderId'', JStr (''jitsu-'' @ zero_digest [])), (''conversionValue'', JNum ''12.5''),
      (''userIdentifiers'', JArr [JObj [(''hashedEmail'', JStr (zero_digest []))]]),
      (''consent'', JObj [(''adUserData'', JStr ''UNSPECIFIED''), (''adPersonalization'', JStr ''GRANTED'')])])]"

lemma conversion_maps: "conversion_row engine conversion_sample ''s'' 0 conversion_source = Inr conversion_mapped"
  by code_simp

text \<open>The column of a hashed street address is not checked to be a digest: a plain address in it is sent.\<close>

definition adjustment_sample :: conversion_env where
  "adjustment_sample = conversion_sample\<lparr>ce_stream := ConversionAdjustments,
     ce_options := \<lparr>co_conversionActionId = ''5'', co_api = None, co_adjustmentType = Some ''ENHANCEMENT'', co_dataSource = None\<rparr>\<rparr>"

definition adjustment_source :: json where
  "adjustment_source = JObj [(''__sourceKey'', JStr zero_nonce), (''orderId'', JStr ''7''), (''adjustmentTimestamp'', JStr ''2024-02-29T12:34:56Z''),
     (''firstName'', JStr ''A''), (''lastName'', JStr ''B''), (''countryCode'', JStr ''us''), (''postalCode'', JStr ''1''),
     (''hashedStreetAddress'', JStr ''1 Main St'')]"

lemma street_address_unhashed:
  "case conversion_row engine adjustment_sample ''s'' 0 adjustment_source of
     Inl _ \<Rightarrow> False
   | Inr v \<Rightarrow> map (\<lambda>i. member (member i ''addressInfo'') ''hashedStreetAddress'') (payload_identifiers (snd (the (conversion_wire v)))) = [JStr ''1 main st'']"
  by code_simp

definition fading :: "nat services" where
  "fading = \<lparr>sv_token = (\<lambda>w. if w = 0 then (Inl (PlainError ''denied''), w) else (Inr ''token'', w - 1)),
     sv_fetch = (\<lambda>_. throwE (PlainError ''unreachable'')), sv_aborted = returnE False, sv_isoTime = (\<lambda>_. None)\<rparr>"

text \<open>
  A token that is refused to the upload itself, after the setup had one, is thrown: the batch is left without an answer although no request
  was made for it.
\<close>

lemma lost_token_leaves_batch_open:
  "submit_conversions conversion_sample fading audience_context conversion_batch \<lparr>gg_log = [], gg_world = 1\<rparr>
     = (Inl (PlainError ''denied''), \<lparr>gg_log = [], gg_world = 0\<rparr>)"
  by code_simp

subsection \<open>The console\<close>

definition ticking :: "int console_services" where
  "ticking = \<lparr>cn_now = (\<lambda>w. (Inr w, w + 1)), cn_aborted = returnE False,
     cn_request = (\<lambda>u. returnE (True, Inr (JObj [(''accessToken'', JStr ''t''), (''expiresAt'', JStr ''2024-01-01T00:00:00Z'')]))),
     cn_parseTime = (\<lambda>_. Some 1000000)\<rparr>"

definition console_sample :: console_settings where
  "console_sample = \<lparr>cc_baseUrl = ''https://console'', cc_id = ''s'', cc_workspaceId = ''w'', cc_configRevision = ''v1'', cc_refreshTaskId = None\<rparr>"

definition empty_console :: "int console" where
  "empty_console = \<lparr>cl_cached = None, cl_cacheUntil = None, cl_world = 0\<rparr>"

lemma ticking_law: "clock_law ticking id"
  by (auto simp: clock_law_def ticking_def)

lemma console_hands_out: "fst (accessToken ticking console_sample empty_console) = Inr ''t''"
  by code_simp

end
