(* ===== verification/Spec2Isabelle.thy ===== *)
theory Spec2Isabelle
  imports ExecuteExamples WarehouseExamples GoogleExamples
begin

text \<open>
  \<^bold>\<open>The reverse ETL runner of Jitsu.\<close> The runner reads rows of a warehouse and delivers them to a
  destination (an ad audience, a CRM) through a provider, so that after any crash, cancellation or lost reply
  the run can be recovered without sending an unjournaled batch and without claiming work that was not accepted. This
  development models its core and its first destination, Google Ads: \<open>libs/destination-functions/src/reverse-etl/\<close>,
  \<open>libs/destination-functions/src/functions/google-ads/\<close>, \<open>libs/warehouse-query/src/\<close> and \<open>services/retl-runner/src/\<close> under \<open>src/\<close>.

  \<^bold>\<open>Parts and theories.\<close>
  \<^item> \<open>Prelude\<close>: errors as values, state-and-error operations (\<open>oper\<close>, \<open>bindE\<close>, \<open>catchE\<close>,
    \<open>forE\<close>), the rule collections \<open>run_simps\<close> and \<open>wp_simps\<close>, frames (locale \<open>frame\<close>) and weakest preconditions.
  \<^item> \<open>JsonValue\<close>, \<open>JsonText\<close>: canonical JSON, digests of it, record keys and the buffered sync store
    (\<open>identity.ts\<close>); a parser for canonical text and its round trip.
  \<^item> \<open>Serialization\<close>: the envelopes of the database columns (\<open>persistence/serialization.ts\<close>).
  \<^item> \<open>Protocol\<close>, \<open>Failure\<close>: results of providers and their validation, stream and configuration checks
    (\<open>meta.ts\<close>); failure reasons and redacted diagnostics (\<open>failure.ts\<close>, \<open>diagnostics.ts\<close>).
  \<^item> \<open>LocalIndex\<close>, \<open>LocalFacts\<close>: the SQLite index of a session (\<open>artifacts/local.ts\<close>) as association lists, its
    invariant, its pages and its baseline.
  \<^item> \<open>Artifacts\<close>, \<open>ArtifactState\<close>: the content-addressed store over GCS and S3 (\<open>artifacts/store.ts\<close>, \<open>cloud.ts\<close>,
    \<open>config.ts\<close>) and the JSON forms of heads, batches, receipts and snapshots (\<open>state.ts\<close>).
  \<^item> \<open>RunState\<close>, \<open>Admission\<close>: transactions with their faults, the control cache, the admission of a run
    (\<open>persistence/database.ts\<close>, \<open>control-cache.ts\<close>, \<open>run-state.ts\<close>) and the invariant of the shared tables.
  \<^item> \<open>Journal\<close>, \<open>Delivery\<close>, \<open>Lifecycle\<close>: the fenced delivery journal (\<open>artifacts/journal.ts\<close>,
    \<open>snapshots.ts\<close>): opening, publishing, snapshots, batches, receipts, finish, checkpoint, cleanup.
  \<^item> \<open>JournalFacts\<close>, \<open>PhaseMachine\<close>, \<open>DeliveryFacts\<close>, \<open>Checkpoints\<close>, \<open>Reopen\<close>, \<open>Invariant\<close>,
    \<open>Availability\<close>: what publishing guarantees, the phase machine as an inductive step relation that every operation
    respects, the contract of each operation, the saved state, reopening, the invariant of a session, and what returns.
  \<^item> \<open>Runner\<close>, \<open>RunnerFacts\<close>, \<open>Run\<close>, \<open>RunFacts\<close>: one attempt with its provider, signal and trace of calls; the
    upsert run (\<open>run.ts\<close>), its protocol as an automaton over the trace, the limits of its batches.
  \<^item> \<open>Mirror\<close>, \<open>MirrorFacts\<close>, \<open>Recovery\<close>: the snapshot mirror, its resumption (\<open>mirror.ts\<close>) and the recovery of
    any run (\<open>recovery.ts\<close>).
  \<^item> \<open>Facade\<close>, \<open>RunJournal\<close>, \<open>MirrorJournal\<close>: the interface between an attempt and its journal as the locales
    \<open>delivery_journal\<close> and \<open>core_journal\<close>, interpreted on the fenced journal once with the phase machine and once with
    the invariant of the session; the runs as their clients.
  \<^item> \<open>Schedule\<close>, \<open>Lease\<close>, \<open>Progress\<close>: the recovery schedule and target state (\<open>recovery-schedule.ts\<close>,
    \<open>target-state.ts\<close>), the Kubernetes lease (\<open>lease.ts\<close>), progress messages and statistics (\<open>progress.ts\<close>).
  \<^item> \<open>Completion\<close>, \<open>Watch\<close>: an accepted run has a committed checkpoint (locale \<open>completing_journal\<close>); the observer of
    \<open>publish\<close> and the progress it keeps, as a journal over sessions and progress (locale \<open>session_journal\<close>).
  \<^item> \<open>Tasks\<close>, \<open>Execute\<close>: the statements on the task rows (\<open>tasks.ts\<close>) and the execution of a task (\<open>execute.ts\<close>): lease,
    start, admission, adapter, open, delivery, settling, failures and release.
  \<^item> \<open>Beside\<close>, \<open>Pod\<close>, \<open>ExecuteFacts\<close>, \<open>Committed\<close>, \<open>Refresh\<close>: a runner leaves the component of the tasks alone; what every task
    statement keeps is kept by an execution (locale \<open>pod_steps\<close>, interpreted for a worker's own task and for well-formed rows);
    without the lease nothing happens; a completed task is committed; a failed check keeps the delivery.
  \<^item> \<open>Patterns\<close>, \<open>WarehouseSql\<close>, \<open>WarehouseDialects\<close>: regular expressions by derivatives; the query of a model (\<open>sql.ts\<close>) over the rules
    of a dialect, a record; the rules of PostgreSQL, ClickHouse and BigQuery (\<open>postgres.ts\<close>, \<open>clickhouse.ts\<close>, \<open>bigquery.ts\<close>, \<open>index.ts\<close>).
  \<^item> \<open>WarehouseReader\<close>: the schema of a model, records and previews (\<open>schema.ts\<close>, \<open>reader.ts\<close>), the temporary file
    (\<open>stream-spool.ts\<close>) and the streams of PostgreSQL and ClickHouse.
  \<^item> \<open>WarehouseFacts\<close>, \<open>WarehouseResume\<close>: tokens and quoted names, plain types, the read-only policy, the predicate of a checkpoint as
    a lexicographic order; resuming an extraction, the temporary file, bound values.
  \<^item> \<open>GoogleIdentifiers\<close>, \<open>GoogleAudience\<close>, \<open>GoogleWriter\<close>: the identifiers of a row and their hashes (\<open>shared/identifiers.ts\<close>);
    credentials, options, members and payloads of an audience (\<open>credentials.ts\<close>, \<open>audience/meta.ts\<close>); requests, submission, reconciliation
    and replacement (\<open>audience/runtime.ts\<close>).
  \<^item> \<open>GoogleManagement\<close>, \<open>GoogleProvisioning\<close>, \<open>GoogleAdapter\<close>: the lists of users (\<open>audience/management.ts\<close>), their creation with its
    saved state (\<open>audience/provisioning.ts\<close>, \<open>state.ts\<close>), the adapter and the registry (\<open>google-ads/runtime.ts\<close>, \<open>reverse-etl/index.ts\<close>).
  \<^item> \<open>GoogleConversionRows\<close>, \<open>GoogleConversions\<close>: the rows of conversions and their payloads (\<open>conversions/meta.ts\<close>, \<open>normalize\<close> of
    \<open>conversions/runtime.ts\<close>); the upload of conversions and the adapter (\<open>conversions/runtime.ts\<close>).
  \<^item> \<open>GoogleFacts\<close>, \<open>GoogleCreation\<close>, \<open>GoogleBinding\<close>, \<open>GoogleRowFacts\<close>, \<open>GoogleConversionFacts\<close>: the adapter meets the contract that an attempt assumes of a
    provider; submissions and receipts; an audience is created once (an inductive relation of attempts and of what happens in between); what the
    provisioning resolves is bound; rows, outcomes and uploads of conversions.
  \<^item> \<open>Console\<close>: the client of the console with its cached token (\<open>console-client.ts\<close>).
  \<^item> \<open>Evaluation\<close>, \<open>Examples\<close>, \<open>ExecuteExamples\<close>, \<open>WarehouseExamples\<close>, \<open>GoogleExamples\<close>: code equations and concrete data for the witnesses.

  \<^bold>\<open>State.\<close> A \<open>session\<close> is an open \<open>ObjectJournal\<close>: its scope, index, head, the bytes of the durable head it read, the
  pending snapshot, whether it is broken, and the \<open>world\<close> (bucket, database, control cache, clock) it acts on. Other
  processes act on the same database and bucket; the cache is private to the process, so it may be stale:
  \<open>coherent\<close> says that it is not. A transaction or an upload takes its fault from a list in the world: no connection,
  rolled back, or committed with the reply lost. An \<open>execution\<close> is a worker pod: its lease, the tables of tasks and runs, the session, the
  progress, the observations of the signal and the flags of \<open>execute\<close>.

  \<^bold>\<open>Parameters.\<close> SHA-256, gzip, the projection of a row, row schemas, the provider and its recovery
  hooks, the adapters, the source, the signal, the progress callback, the admission by the console, the Kubernetes API, the SQL parser,
  the database clients, and the services of the host (access tokens, \<open>fetch\<close>, clocks, random bytes) and of the engine (the reading of dates, decimals and JSON) are arguments. What is assumed of them is
  named: \<open>sha_ok\<close> and \<open>digest_ok\<close> (64 hexadecimal digits), \<open>gzip_ok\<close> (decompression inverts compression), \<open>collision_free\<close> (on one
  text), \<open>lease_api\<close> (resource versions), \<open>column_orders\<close>, \<open>counted\<close> and \<open>cursor_answers\<close> (the warehouse: strict total orders, the
  count of a key, the selected rows in order), \<open>clock_law\<close> (a clock does not go back), \<open>provider_keeps\<close>, \<open>hooks_keep\<close> and \<open>adapters_keep\<close> (a provider reaches the journal only
  through its operations).

  \<^bold>\<open>Fuel.\<close> The page loops of a mirror and of a recovery are \<open>for (;;)\<close> in the source; they take fuel here and
  return \<open>None\<close> when it runs out. More fuel does not change a loop that ended (\<open>loopE_more\<close>), and the walk over the pages
  of an index ends after at most as many pages as the index has rows (C37). Everything else is total.

  \<^bold>\<open>Properties.\<close> C1, C2: the calls that cross the interfaces. C3 to C7: the execution of a task. C8 to C12: reading a warehouse. C13 to C20:
  delivery to Google. C21: access tokens. C22: the invariant of the session. C23: the phase machine. C24 to C29: the contract of delivery,
  checkpoints and removals. C30: admission. C31, C32: publishing, its failures, and reopening. C33 to C35: bounds. C36: the round trip of
  canonical text. C37: pages. C38: the lease. C39: redaction. C40: a transition that is not fenced.

  \<^bold>\<open>Not modelled.\<close> The entry point of the process (\<open>main.ts\<close>) and the tables that bind its services to the destinations
  (\<open>adapters.ts\<close>) are glue. The schema of the configuration that the console admits is an argument; the function for single events and the forms of Google Ads are left out. Of the warehouse
  readers the connections, the previews of the clients, the BigQuery reader and the stream deadline are left out. In an execution the heartbeat
  fires where the function awaits it; the log lines about an extraction, the resources of the reader and the error stream are left out. The
  connection pool and timeouts of the database have no counterpart. Strings are lists of code units below 256. The other products of the
  repository (the Go services, the console, the function runtime, the browser libraries, the command line) are outside this development.
\<close>

section \<open>Calls across the interfaces\<close>

text \<open>C1. Whatever the provider, the journal, the source and the signal do, the calls an upsert run makes
  follow the delivery protocol: the writer is created only after the initialization is journaled, a batch is
  sent only directly after the same batch was journaled, \<open>finish\<close> is called only after it was prepared, and a
  cleanup runs only when no call is left unacknowledged.\<close>

theorem run_follows_protocol:
  "\<exists>st. follow Idle (r_trace (snd (runReverseEtl sha J P opts src (initial_state j p store signal)))) = Some st"
  by (rule run_trace)

text \<open>C2. In a snapshot mirror nothing is sent to the provider before the snapshot of the source is sealed, every
  batch is journaled directly before it is sent, and no addition follows a removal, whatever the provider, the
  journal, the source, the progress callback and the signal do.\<close>

theorem mirror_sends_in_order:
  "let evs = r_trace (snd (runSnapshotMirror fuel sha K P opts report src (mirror_start j p signal)))
   in sealed_before evs \<and> removals_last (sent_batches evs) \<and> calls_prepared None evs"
proof -
  let ?evs = "r_trace (snd (runSnapshotMirror fuel sha K P opts report src (mirror_start j p signal)))"
  obtain st where st: "mirror_follow MIdle ?evs = Some st" by (rule exE[OF mirror_trace])
  have "sealed_before ?evs \<and> removals_last (sent_batches ?evs)" by (rule mirror_follow_order[OF st]) (simp add: before_seal_def)
  with mirror_calls_prepared[OF st] show ?thesis by (simp add: Let_def)
qed

section \<open>The execution of a task\<close>

text \<open>C3. When the execution of a task returns COMPLETE, a run of its sync is committed in the database and the row of the
  task is COMPLETE with no worker left on it, as long as the adapter reaches the journal only through its operations.\<close>

theorem completed_task_is_committed:
  assumes "execute opts x = (Inr (Some ''COMPLETE''), y)" and "adapters_keep (on_session reach.on_track) opts"
  shows "(\<exists>c \<in> set (db_controls (tw_db (x_tasks y))). c_workspace c = cf_workspaceId (ei_config opts) \<and> c_sync c = cf_id (ei_config opts)
        \<and> c_phase c = PComplete)
     \<and> (\<exists>t \<in> set (td_tasks (tw_db (x_tasks y))). own_row (task_of opts) t \<and> t_status t = ''COMPLETE'' \<and> \<not> worker_active t)"
  by (rule execute_complete[OF assms])

theorem completed_task_is_committed_witness:
  "\<exists>y. execute sample_refresh (sample_state None) = (Inr (Some ''COMPLETE''), y)
     \<and> (\<exists>c \<in> set (db_controls (tw_db (x_tasks y))). c_phase c = PComplete)"
proof -
  obtain y where "execute sample_refresh (sample_state None) = (Inr (Some ''COMPLETE''), y)" using sample_execute by blast
  with completed_task_is_committed[OF this sample_adapters_keep] show ?thesis by blast
qed



text \<open>C5. An execution that does not get the lease changes no table: not the tasks, not the log, not the runs.\<close>

theorem nothing_without_lease:
  assumes "\<not> x_timing x" and "\<not> x_started x" and "execute opts x = (r, y)" and "\<not> x_held y"
  shows "tw_db (x_tasks y) = tw_db (x_tasks x)"
  by (rule execute_without_lease[OF assms])

theorem nothing_without_lease_witness:
  "tw_db (x_tasks (snd (execute sample_refresh (sample_state (Some sample_foreign))))) = tw_db (x_tasks (sample_state (Some sample_foreign)))"
  using nothing_without_lease[of "sample_state (Some sample_foreign)" sample_refresh, OF _ _ prod.collapse[symmetric]] sample_excluded
  by (simp add: sample_state_def)





section \<open>Reading a warehouse\<close>



text \<open>C9. The values of a checkpoint are never part of the text of a query: with any other checkpoint of the model the query has the same text. The
  type that ClickHouse writes into the text beside a bound value has only plain characters, no brace, semicolon or backslash among them.\<close>

theorem checkpoint_values_are_bound:
  assumes "R \<in> set (dialects astify)" and "length (cur_keys a) = length (cur_keys b)"
  shows "(\<forall>q. compileModel R m columns (Some a) = Inr q \<longrightarrow> (\<exists>q'. compileModel R m columns (Some b) = Inr q' \<and> cq_query q' = cq_query q))
     \<and> (\<forall>type t. checkpointType type = Inr t \<longrightarrow> list_all plain_char t)"
  using compiled_by_place[OF dialects_bind_by_place[OF assms(1)] assms(2)] checkpointType_plain by blast

theorem checkpoint_values_are_bound_witness:
  "\<exists>q q'. compileModel (postgresSql select_parser) people_model people_columns (Some first_checkpoint) = Inr q
     \<and> compileModel (postgresSql select_parser) people_model people_columns (Some (first_checkpoint\<lparr>cur_value := [CHR 0x27, CHR '';'']\<rparr>)) = Inr q'
     \<and> cq_query q' = cq_query q"
proof -
  obtain q where "compileModel (postgresSql select_parser) people_model people_columns (Some first_checkpoint) = Inr q"
    using people_query postgres_compiles[of select_parser people_model people_columns _ _ first_checkpoint]
    by (auto simp: people_model_def first_checkpoint_def)
  then show ?thesis
    using checkpoint_values_are_bound[of "postgresSql select_parser" select_parser first_checkpoint
        "first_checkpoint\<lparr>cur_value := [CHR 0x27, CHR '';'']\<rparr>" people_model people_columns]
    by (auto simp: dialects_def)
qed



text \<open>C11. In each of the three dialects the quoted name of a column is one token of the query, whatever characters the name has: it cannot end
  early and let the rest of the name act as SQL; and different names are quoted differently.\<close>

theorem column_name_is_one_token:
  assumes "R \<in> set (dialects astify)" and "ends_name (dl_quoteColumn R n) rest"
  shows "sql_tokens R before (dl_quoteColumn R n @ rest)
       = bindR (sql_tokens R (rev (dl_quoteColumn R n) @ before) rest) (\<lambda>ts. Inr ((False, dl_quoteColumn R n) # ts))
     \<and> (\<forall>n'. dl_quoteColumn R n' = dl_quoteColumn R n \<longleftrightarrow> n' = n)"
proof
  have "dl_quoteColumn R n \<noteq> []" using assms(1) by (auto simp: dialects_def column_forms)
  then show "sql_tokens R before (dl_quoteColumn R n @ rest)
       = bindR (sql_tokens R (rev (dl_quoteColumn R n) @ before) rest) (\<lambda>ts. Inr ((False, dl_quoteColumn R n) # ts))"
    by (rule token_step[OF column_token[OF assms]])
  show "\<forall>n'. dl_quoteColumn R n' = dl_quoteColumn R n \<longleftrightarrow> n' = n" using column_injective[OF assms(1)] by blast
qed

theorem column_name_is_one_token_witness:
  "sql_tokens (clickhouseSql select_parser) [] (clickhouse_column [CHR 0x60, CHR '';'', CHR 0x5C])
     = Inr [(False, clickhouse_column [CHR 0x60, CHR '';'', CHR 0x5C])]"
  using column_name_is_one_token[of "clickhouseSql select_parser" select_parser "[CHR 0x60, CHR '';'', CHR 0x5C]" "[]" "[]"]
  by (simp add: dialects_def ends_name_def bindR_def)

text \<open>C12. The temporary file of an extraction gives back exactly the rows that were written, in order, when none has a line end and they fit its
  budget; rows that exceed the budget end the extraction before any of them is handed on.\<close>

theorem spooled_rows_come_back:
  assumes "\<And>i. \<not> sig i"
  shows "(list_all (list_all (\<lambda>c. \<not> newline c)) rows \<longrightarrow> line_bytes rows \<le> maxBytes \<longrightarrow> mapR parse rows = Inr vs \<longrightarrow>
       spoolJsonRows sig maxBytes parse (rows, Inr ()) = (vs, Inr ()))
     \<and> (maxBytes < line_bytes rows \<longrightarrow> spoolJsonRows sig maxBytes parse (rows, ending) = ([], Inl spool_error))"
  using assms by (simp add: spool_returns spool_overflows)

theorem spooled_rows_come_back_witness:
  "spoolJsonRows unaborted 8 Inr ([''{}'', ''[]''], Inr ()) = ([''{}'', ''[]''], Inr ())
     \<and> spoolJsonRows unaborted 5 Inr ([''{}'', ''[]''], Inr ()) = ([] :: string list, Inl spool_error)"
  using spooled_rows_come_back[of unaborted "[''{}'', ''[]'']" 8 Inr "[''{}'', ''[]'']"] spooled_rows_come_back[of unaborted "[''{}'', ''[]'']" 5 Inr]
  by (simp add: newline_def char_code_def line_bytes_def char_bytes_def)

section \<open>Delivery to Google\<close>

text \<open>C13. An audience that Jitsu manages is created at most once: over any number of attempts to provision the audience of a sync, with any settings,
  whatever Google answers, whenever the signal aborts and whatever the database loses, there is at most one request that creates an audience.
  In between anything may happen as long as the saved state of the audience stays.\<close>

theorem audience_is_created_once:
  assumes "provisioned sha y s t"
  shows "posts (pv_google t) \<le> posts (pv_google s) + 1"
  by (rule one_creation[OF assms])

theorem audience_is_created_once_witness:
  "posts (pv_google second_resolution) \<le> 1"
  using audience_is_created_once[OF two_resolutions] by (simp add: unprovisioned_def quiet_google_def posts_def)

text \<open>C14. A batch of an audience is accepted only on Google's word: when a reconciliation returns an accepted operation, the receipt is the one of
  this batch, and the answer to the request for its status names the same target and says that the whole request succeeded, without warnings or
  errors, for exactly as many members as the batch has. Then every operation of the batch is accepted.\<close>

theorem accepted_only_when_verified:
  assumes "reconcileBatch E S ctx b act prior x = (Inr res, x')" and "Accepted i \<in> set (br_outcomes res)"
  shows "\<exists>p r reply date g status counted. prior = Some p \<and> br_checkpoint p \<bind> receipt_schema = Some r \<and> gr_action r = act
    \<and> binding E ctx b act = Inr (gr_binding r)
    \<and> request S ctx (retrieve_path (gr_requestId r)) None None (fst x) = (Inr (reply, date), g)
    \<and> statusResponse reply = Some status \<and> same_target E ctx status = Inr True \<and> expected_count ctx act status = Inr counted
    \<and> sx_requestStatus status = ''SUCCESS'' \<and> \<not> gr_warnings r \<and> \<not> sx_errorInfo status \<and> \<not> sx_warningInfo status
    \<and> \<not> sx_removeAll status \<and> \<not> sx_events status \<and> counted = Some (nat_text (length (wb_records b)))
    \<and> (if act = Upsert then sx_removal status = None else sx_ingestion status = None)
    \<and> br_outcomes res = outcomes_all Accepted b"
  using accepted_verified[OF assms] unfolding verified_def by blast

theorem accepted_only_when_verified_witness:
  "\<exists>r reply date g status. br_checkpoint submitted \<bind> receipt_schema = Some r
     \<and> request (answering audience_reply) audience_context (retrieve_path (gr_requestId r)) None None quiet_google = (Inr (reply, date), g)
     \<and> statusResponse reply = Some status \<and> sx_requestStatus status = ''SUCCESS'' \<and> \<not> gr_warnings r"
  using accepted_only_when_verified[OF returned[OF audience_settles], of "''o1''"] by fastforce

text \<open>C15. A submission to an audience answers every operation of its batch, with one request to Google when they are staged and with none when
  they are rejected because there is no token. The receipt it leaves is the one the reconciliation of the batch recognises.\<close>

theorem submission_answers_batch:
  assumes "digest_ok (ge_sha E)" and "batch_shape b" and "submit E S ctx b act x = (Inr res, x')"
  shows "validateBatchResult (prepared_of b act) (json_of_batch_result res) = Inr res
    \<and> (if br_jobs res = None then res = rejected_result b \<and> posts (fst x') = posts (fst x)
       else list_all is_staged (br_outcomes res) \<and> posts (fst x') = posts (fst x) + 1
         \<and> (\<exists>r. br_checkpoint res \<bind> receipt_schema = Some r \<and> gr_action r = act \<and> br_jobs res = Some [gr_requestId r]
              \<and> check_receipt E ctx b act res r = Inr ()))"
  using submit_answers[OF assms] submit_receipt[OF assms] by auto

theorem submission_answers_batch_witness:
  "validateBatchResult (prepared_of audience_batch Upsert) (json_of_batch_result submitted) = Inr submitted
   \<and> (\<exists>r. br_checkpoint submitted \<bind> receipt_schema = Some r \<and> check_receipt audience_env audience_context audience_batch Upsert submitted r = Inr ())"
proof -
  have "digest_ok (ge_sha audience_env)" using zero_digest_ok by (simp add: audience_env_def)
  from submission_answers_batch[OF this audience_batch_shape returned[OF audience_submits]] show ?thesis
    by (auto simp: submitted_def staged_result_def)
qed

text \<open>C16. What the provisioning resolves, the adapter binds: the options parse, and the configuration is refused only where it asks for a full
  replacement outside mirror mode. Otherwise the adapter passes the checks of an execution (its stream, a verified mirror), reaches the journal
  only through its operations, and creates its writer.\<close>

theorem provisioned_audience_binds:
  assumes "resolveGoogleAudience sha S tell nonce cfg x = (Inr cfg', t)"
  shows "\<exists>opts. GoogleAudienceOptions (cf_streamOptions cfg') = Some opts
    \<and> (bound_well sha S run cfg' \<longleftrightarrow> (ao_fullReplace opts \<longrightarrow> cf_mode cfg' = ModeMirror))"
  by (rule resolved_binds[OF assms])

theorem provisioned_audience_binds_witness:
  "\<exists>cfg' opts. fst first_resolution = Inr cfg' \<and> GoogleAudienceOptions (cf_streamOptions cfg') = Some opts
     \<and> (bound_well zero_digest (answering (\<lambda>_. found_list)) ''r'' cfg' \<longleftrightarrow> (ao_fullReplace opts \<longrightarrow> cf_mode cfg' = ModeMirror))"
proof -
  obtain cfg' where run: "first_resolution = (Inr cfg', snd first_resolution)" using resolution_result by blast
  from provisioned_audience_binds[OF run[unfolded first_resolution_def], of "''r''"] run show ?thesis by (metis fst_conv)
qed

text \<open>C17. Every row that the schema of the audience stream takes becomes a member whose personal identifiers are digests, with one kind of identifier
  and at most ten of them; its payload and the payloads of its identities, for additions and for removals, are payloads that the writer takes.\<close>

theorem rows_become_hashed_members:
  assumes "digest_ok sha" and "audience_row_type sha act row = Some v"
  shows "\<exists>m. audience_member_ok m \<and> v = json_of_audience_member act m \<and> wire act v = Inr m
    \<and> (\<exists>ids. projectGoogleAudience act v = Inr ids
         \<and> list_all (\<lambda>i. \<exists>one. wire Upsert (id_upsert i) = Inr one \<and> wire Remove (id_remove i) = Inr one) ids)"
proof -
  from audience_row_wire[OF assms] obtain m where m: "audience_member_ok m" "v = json_of_audience_member act m" "wire act v = Inr m" by blast
  then obtain ids where "projectGoogleAudience act v = Inr ids" by (simp add: projectGoogleAudience_def)
  with projected_payloads[OF m(1)] m show ?thesis by (auto simp: list_all_iff)
qed

theorem rows_become_hashed_members_witness:
  "\<exists>m. audience_member_ok m \<and> wire Upsert member_payload = Inr m"
  using rows_become_hashed_members[OF zero_digest_ok member_row_type] by blast



text \<open>C19. The outcome of an uploaded conversion is the one Google reports for its position: a row is rejected, with the code of the failure, exactly
  when a failure of the response names its position; every other row is accepted, and only when its result is not empty. The result answers every
  operation of the batch.\<close>

theorem conversion_outcomes_by_position:
  assumes "googleAdsOutcomes b v = Inr res" and "batch_shape b" and "length (wb_records b) \<le> 2000"
  shows "validateBatchResult (prepared_of b act) (json_of_batch_result res) = Inr res
    \<and> (\<exists>r errors. upload_schema v = Some r \<and> row_failures (length (wb_records b)) r = Inr errors \<and> length (br_outcomes res) = length (wb_records b)
    \<and> (\<forall>i < length (wb_records b).
        (case map_of errors i of
           Some code \<Rightarrow> br_outcomes res ! i = conversion_rejected (rec_op (wb_records b ! i)) code \<and> error_code code
         | None \<Rightarrow> br_outcomes res ! i = Accepted (rec_op (wb_records b ! i)) \<and> (\<exists>rs. ur_results r = Some rs \<and> i < length rs \<and> rs ! i \<noteq> []))
        \<and> (map_of errors i \<noteq> None \<longleftrightarrow> (\<exists>es. ur_failures r = Some es \<and> i \<in> failed_row ` set es))))"
  using outcomes_answer[OF assms] outcome_by_position[OF assms(1)] by blast

theorem conversion_outcomes_by_position_witness:
  "validateBatchResult (prepared_of conversion_batch Upsert) (json_of_batch_result conversion_result) = Inr conversion_result"
  using conversion_outcomes_by_position[OF conversion_positions conversion_batch_shape] by (simp add: conversion_batch_def)



text \<open>C21. An access token that the client of the console hands out, cached or fresh, expires more than thirty seconds after the call began, when its
  expiry is a time; and the cache is kept within its bounds.\<close>

theorem token_outlives_call:
  assumes "clock_law S clk" and "cache_ok S x" and "accessToken S C x = (Inr tk, x')"
  shows "cache_ok S x' \<and> (\<exists>t. cl_cached x' = Some t \<and> ot_accessToken t = tk
    \<and> (\<forall>e. cn_parseTime S (ot_expiresAt t) = Some e \<longrightarrow> clk (cl_world x) + 30000 < e))"
  using accessToken_out[OF assms] by (simp add: handed_out_def)

theorem token_outlives_call_witness:
  "\<exists>t. cl_cached (snd (accessToken ticking console_sample empty_console)) = Some t \<and> ot_accessToken t = ''t''"
proof -
  have "cache_ok ticking empty_console" by (simp add: cache_ok_def empty_console_def)
  from token_outlives_call[OF ticking_law this returned[OF console_hands_out]] show ?thesis by blast
qed

section \<open>The invariant of a session\<close>

text \<open>C22. An upsert run, a snapshot mirror, the resumption of a sealed mirror and the recovery of any run keep the invariant of the session
  (a well-formed index, batch counts that fit their batches, base \<open>\<le>\<close> checkpoint \<open>\<le>\<close> next sequence), whether they return or throw, as
  long as the provider and its recovery hooks do not break it.\<close>

theorem attempts_keep_session_sound:
  assumes "provider_keeps (\<lambda>_. sound) P" and "hooks_keep (\<lambda>_. sound) H" and "sound (r_journal s)" and "sound (r_journal m)" and "sound (r_journal a)"
  shows "sound (r_journal (snd (runReverseEtl sha (delivery_facade env) P opts src s)))
     \<and> sound (r_journal (snd (runSnapshotMirror fuel sha (core_facade env ago) P mopts report rows m)))
     \<and> sound (r_journal (snd (resumeSnapshotMirror fuel sha (core_facade env ago) P H mopts recovery m)))
     \<and> sound (r_journal (snd (recoverRun fuel sha (core_facade env ago) P (Some H) sc independent a)))"
  using run_keeps_sound[OF assms(1,3)] mirror_keeps_sound[OF assms(1,4)] resume_keeps_sound[OF assms(1,2,4)] recover_keeps_sound[OF assms(1) _ assms(5)]
    assms(2) by (simp add: optional_hooks_keep_def)

theorem attempts_keep_session_sound_witness:
  "sound (r_journal (snd (runReverseEtl example_sha (delivery_facade example_env) example_provider example_options (\<lambda>_. example_source)
       (example_run_state PNew))))
   \<and> sound (r_journal (snd (recoverRun 10 example_sha (core_facade example_env (\<lambda>_. [])) example_provider (Some example_hooks) example_scope
       False (example_attempt PRunning))))"
  using attempts_keep_session_sound[OF example_provider_keeps(1,2), of "example_run_state PNew" "example_mirror_state PNew" "example_attempt PRunning"]
  by (simp add: example_sound)

section \<open>The phase machine\<close>



section \<open>Delivery\<close>






text \<open>C27. A checkpoint that \<open>commitCheckpoint\<close> commits covers only accepted work: every sequence between the base of the run
  and the point belongs to an operation that the provider accepted; the checkpoint does not move back and does not pass
  the next sequence, and only an accepted finish completes the run.\<close>

theorem checkpoint_covers_accepted:
  assumes "sound s" and "commitCheckpoint env point store whole s = (Inr u, s')"
  shows "\<exists>old new. control s = Some old \<and> control s' = Some new \<and> c_checkpoint new = rp_seq point
     \<and> c_checkpoint old \<le> rp_seq point \<and> rp_seq point \<le> c_next old
     \<and> (whole \<longrightarrow> c_phase old = PFinishAccepted \<and> c_phase new = PComplete \<and> rp_seq point = c_next old)
     \<and> (\<forall>k. c_base old < k \<and> k \<le> rp_seq point \<longrightarrow> (\<exists>op r. (op, r) \<in> set (li_ops (s_local s)) \<and> o_seq r = k \<and> o_status r = OpAccepted))"
proof -
  from assms(1) have s: "coherent s" "index_ok (s_local s)" by (simp_all add: sound_def)
  from commitCheckpoint_Inr[OF assms(2) s(1)] obtain old new where
    "control s = Some old" "control s' = Some new" "c_checkpoint old \<le> c_checkpoint new" "c_checkpoint new = rp_seq point"
    "rp_seq point \<le> c_next old" "int (accepted_between (c_base old) (rp_seq point) (s_local s)) = rp_seq point - c_base old"
    "whole \<longrightarrow> c_phase old = PFinishAccepted \<and> c_phase new = PComplete \<and> rp_seq point = c_next old"
    by (auto split: if_splits)
  with accepted_prefix[OF s(2)] show ?thesis by fastforce
qed

theorem checkpoint_covers_accepted_witness:
  "\<exists>s' new. commitCheckpoint tiny_env \<lparr>rp_seq = 0, rp_cursor = None\<rparr> (JObj []) True (example_session PFinishAccepted 0) = (Inr (), s')
     \<and> control s' = Some new \<and> c_phase new = PComplete"
proof -
  let ?run = "commitCheckpoint tiny_env \<lparr>rp_seq = 0, rp_cursor = None\<rparr> (JObj []) True (example_session PFinishAccepted 0)"
  have "fst ?run = Inr ()" by code_simp
  note run = returned[OF this]
  from checkpoint_covers_accepted[OF example_sound run] run show ?thesis by (auto simp: prod_eq_iff)
qed

text \<open>C28. \<open>snapshots.page\<close> hands out removals only when every desired member is a live member with its desired payload that
  is neither uncertain nor due for a refresh, and it only hands out members the source no longer has.\<close>

theorem removals_after_additions:
  assumes "[] \<notin> fst ` set (li_desired (s_local s))" and "snapshot_page Removals after n s = (Inr es, s')"
  shows "s' = s \<and> sealed_snapshot (s_head s)
     \<and> (\<forall>d \<in> set (li_desired (s_local s)). member_current (s_local s) (refresh_before (s_head s)) d)
     \<and> (\<forall>e \<in> set es. \<exists>i m. (i, m) \<in> set (li_members (s_local s)) \<and> m_value m = Some e \<and> map_of (li_desired (s_local s)) i = None)"
  by (rule snapshot_page_removals[OF assms(2,1)])

theorem removals_after_additions_witness:
  "snapshot_page Removals [] 10 (example_mirror_session PRunning [example_member])
     = (Inr [hd (hd example_effects)], example_mirror_session PRunning [example_member])
   \<and> sealed_snapshot (s_head (example_mirror_session PRunning [example_member]))"
proof -
  let ?s = "example_mirror_session PRunning [example_member]"
  have es: "fst (snapshot_page Removals [] 10 ?s) = Inr [hd (hd example_effects)]" by code_simp
  note run = returned[OF es]
  have "[] \<notin> fst ` set (li_desired (s_local ?s))" by (simp add: create_index_def)
  from removals_after_additions[OF this run] run show ?thesis by simp
qed

text \<open>C29. When a differential mirror completes, the live members of its audience are exactly the desired members of the
  snapshot, each with the desired payload and none uncertain.\<close>

theorem completed_mirror_matches_snapshot:
  assumes "sound s" and "sc_mode (s_scope s) = ModeMirror" and "\<not> native_snapshot (s_head s)"
    and "[] \<notin> fst ` set (li_desired (s_local s))" and "[] \<notin> fst ` set (li_members (s_local s))"
    and "commitCheckpoint env point store True s = (Inr u, s')"
  shows "(live_member (s_local s') i \<noteq> None) = (map_of (li_desired (s_local s')) i \<noteq> None)
     \<and> (\<forall>d m. map_of (li_desired (s_local s')) i = Some d \<and> live_member (s_local s') i = Some m \<longrightarrow>
          m_payload m = Some (d_payload d) \<and> \<not> m_uncertain m)"
proof -
  from assms(1) have s: "coherent s" "index_ok (s_local s)" by (simp_all add: sound_def)
  from commitCheckpoint_Inr[OF assms(6) s(1)] assms(2) have "promotable (s_head s) (s_local s) = Inr ()" "s_local s' = s_local s" by auto
  with promotable_members[OF _ assms(3) s(2) assms(4,5)] show ?thesis by simp
qed

theorem completed_mirror_matches_snapshot_witness:
  "\<exists>s'. commitCheckpoint tiny_env \<lparr>rp_seq = 0, rp_cursor = None\<rparr> (JObj []) True (example_mirror_session PFinishAccepted []) = (Inr (), s')
     \<and> live_member (s_local s') ''2'' = None"
proof -
  let ?s = "example_mirror_session PFinishAccepted []"
  let ?run = "commitCheckpoint tiny_env \<lparr>rp_seq = 0, rp_cursor = None\<rparr> (JObj []) True ?s"
  have "fst ?run = Inr ()" by code_simp
  note run = returned[OF this]
  have native: "\<not> native_snapshot (s_head ?s)" by (simp add: native_snapshot_def example_sealed_def)
  have mode: "sc_mode (s_scope ?s) = ModeMirror" by (simp add: example_mirror_session_def)
  have "map_of (li_desired (s_local (snd ?run))) ''2'' = None"
    using commitCheckpoint_Inr[OF run] by (auto simp: example_coherent create_index_def)
  with completed_mirror_matches_snapshot[OF example_mirror_sound mode native _ _ run, of "''2''"] run show ?thesis
    by (auto simp: create_index_def prod_eq_iff)
qed

section \<open>Shared tables\<close>

text \<open>C30. Admission of a run keeps the tables sound: one row per run, at most one active run per sync, strictly
  ordered runs, one owner per audience and one audience per owner, whatever fault hits the transaction.\<close>

theorem admission_keeps_tables:
  assumes "db_ok (w_db w)"
  shows "db_ok (w_db (snd (openRun sha sc initialHead w)))"
  using openRun_db_ok[OF assms] by (metis prod.collapse)

theorem admission_keeps_tables_witness:
  "db_ok (w_db (snd (openRun example_sha example_scope ''h'' empty_world)))"
  by (rule admission_keeps_tables[OF empty_world_ok])

section \<open>Publishing a head\<close>

text \<open>C31. \<open>publish\<close> is a compare-and-swap: it succeeds only when the durable row still has the head this session read (and the
  expected phase), and then the row, the cache and the session carry exactly the new head. When it throws, the session keeps its head and
  index; either nothing was committed, or the commit happened and only its reply was lost, and then the session is marked broken. A
  rejected transition commits nothing and leaves the session usable.\<close>

theorem publish_is_fenced:
  assumes "keeps_key changes" and "publish env h changes cp ex s = (r, s')"
  shows "case r of
      Inr _ \<Rightarrow> \<exists>old hb. published s h changes ex old hb s' \<and> \<not> w_aborted (s_world s)
        \<and> (cp = None \<longrightarrow> db_states (w_db (s_world s')) = db_states (w_db (s_world s)))
    | Inl e \<Rightarrow> s_head s' = s_head s \<and> s_headBytes s' = s_headBytes s \<and> s_local s' = s_local s
        \<and> (w_db (s_world s') = w_db (s_world s) \<or> s_broken s')
        \<and> (is_conflict e \<longrightarrow> s_broken s' = s_broken s \<and> w_db (s_world s') = w_db (s_world s))"
proof (cases r)
  case (Inl e)
  with assms(2) have "publish env h changes cp ex s = (Inl e, s')" by simp
  from publish_Inl[OF this assms(1)] Inl show ?thesis by auto
next
  case (Inr u)
  with assms(2) have "publish env h changes cp ex s = (Inr u, s')" by simp
  from publish_Inr[OF this assms(1)] Inr show ?thesis by simp
qed

theorem publish_is_fenced_witness:
  "(\<exists>s' hb. publish tiny_env example_head id None (Some PNew) (example_session PNew 0) = (Inr (), s') \<and> s_headBytes s' = Some hb)
   \<and> (\<exists>e s'. publish tiny_env example_head id None (Some PNew) (example_unlucky PNew) = (Inl e, s') \<and> s_broken s' \<and> s_headBytes s' = None)"
proof
  let ?run = "publish tiny_env example_head id None (Some PNew) (example_session PNew 0)"
  have key: "keeps_key id" by (rule keeps_keyI) simp
  have "fst ?run = Inr ()" by code_simp
  note run = returned[OF this]
  from publish_is_fenced[OF key run] run
  show "\<exists>s' hb. publish tiny_env example_head id None (Some PNew) (example_session PNew 0) = (Inr (), s') \<and> s_headBytes s' = Some hb"
    by (auto simp: published_def prod_eq_iff)
  let ?bad = "publish tiny_env example_head id None (Some PNew) (example_unlucky PNew)"
  have "(case fst ?bad of Inl _ \<Rightarrow> True | Inr _ \<Rightarrow> False) \<and> s_broken (snd ?bad)" by code_simp
  then obtain e s' where bad: "?bad = (Inl e, s')" "s_broken s'" by (cases ?bad) (auto split: sum.splits)
  from publish_is_fenced[OF key bad(1)] bad
  show "\<exists>e s'. publish tiny_env example_head id None (Some PNew) (example_unlucky PNew) = (Inl e, s') \<and> s_broken s' \<and> s_headBytes s' = None"
    by (simp add: example_unlucky_def)
qed

text \<open>C32. Any other process that opens the run after a publish, with empty caches and a served database, opens it on the
  published head: what was acknowledged to the caller is what recovery sees. The digest is assumed not to collide on the
  text of the head, and the compression to be reversible.\<close>

theorem published_head_reopens:
  assumes "gzip_ok env" and "sha_ok env" and "collision_free env (json_text (versioned (json_of_head h)))" and "head_readable env s"
    and "keeps_key changes" and "publish env h changes cp ex s = (Inr u, s')"
  shows "\<exists>hb w1. w_db w1 = w_db (s_world s') \<and> open_journal env (s_scope s') recovery (other_process (s_world s')) =
     (case open_session env (opened_on (s_scope s') recovery h hb w1) of (Inl e, t) \<Rightarrow> (Inl e, s_world t) | (Inr _, t) \<Rightarrow> (Inr t, s_world t))"
  by (rule publish_reopens[OF assms(6,5,1,2,4,3)])

theorem published_head_reopens_witness:
  "\<exists>s' hb w1. publish marked_env example_head id None None (example_session PNew 0) = (Inr (), s')
     \<and> open_journal marked_env (s_scope s') True (other_process (s_world s')) =
     (case open_session marked_env (opened_on (s_scope s') True example_head hb w1) of (Inl e, t) \<Rightarrow> (Inl e, s_world t) | (Inr _, t) \<Rightarrow> (Inr t, s_world t))"
proof -
  have key: "keeps_key id" by (rule keeps_keyI) simp
  have free: "collision_free marked_env (json_text (versioned (json_of_head example_head)))"
    using marked_env_ok(3) by (simp add: example_text_def)
  have readable: "head_readable marked_env (example_session PNew 0)" by (simp add: head_readable_def)
  obtain s' where run: "publish marked_env example_head id None None (example_session PNew 0) = (Inr (), s')"
    using publish_returns[OF marked_publishable example_control _ _ key] by auto
  from published_head_reopens[OF marked_env_ok(1,2) free readable key run] run show ?thesis by blast
qed

section \<open>Bounds\<close>

text \<open>C33. The batches a run journals stay within the limits of the stream (records and serialized bytes, each record with its
  own operation id), and together they carry consecutive source sequences from the point the run started at.\<close>

theorem run_batches_within_limits:
  assumes "\<forall>t. hex64 (sha t)"
  shows "run_batches_ok sha opts (journaled_batches (r_trace (snd (runReverseEtl sha J P opts src (initial_state j p store signal)))))"
  using run_batches[of sha J P opts src j p store signal] assms by (simp add: wp_always)

theorem run_batches_within_limits_witness:
  "run_batches_ok example_sha example_options (journaled_batches (r_trace (snd (runReverseEtl example_sha (delivery_facade example_env)
     example_provider example_options (\<lambda>_. example_source) (initial_state (example_session PNew 0) () example_store [])))))"
  by (rule run_batches_within_limits) (simp add: example_sha_hex)



text \<open>C35. The provider's buffered store never exceeds its byte budget: a write that would is refused, a deletion never grows it,
  a value read back is the canonical form of the value written, and the snapshot of a bounded store always fits the row.\<close>

theorem sync_store_stays_bounded:
  assumes "store_bounded s" and "wf_json v" and "store_set k v s = Inr t"
  shows "store_bounded t \<and> store_bounded (store_delete k' t) \<and> store_get k t = Some (canon (canon v))
     \<and> encodeJson (store_snapshot t) 65536 = Inr (envelope_text (json_text (JObj (ss_state t))))"
  using store_set_bounded[OF assms] store_get_set[OF assms(3), of k] store_delete_bounded store_snapshot_encodes by simp

theorem sync_store_stays_bounded_witness:
  "\<exists>t. store_set ''k'' (JInt 1) example_store = Inr t \<and> store_bounded t"
proof -
  have set: "store_set ''k'' (JInt 1) example_store = Inr \<lparr>ss_state = [(''k'', JInt 1)], ss_maxBytes = 65536\<rparr>" by code_simp
  have "store_bounded example_store" by code_simp
  from sync_store_stays_bounded[OF this _ set] set show ?thesis by simp
qed

section \<open>Texts\<close>

text \<open>C36. The text of a value, escapes and numbers included, parses back to its canonical form; so two values have the same
  canonical text, and the same digest input, exactly when their canonical forms agree.\<close>

theorem canonical_text_is_faithful:
  assumes "wf_json u" and "wf_json v"
  shows "json_parse (json_text u) = Some (canon u) \<and> (json_text u = json_text v \<longleftrightarrow> canon u = canon v)"
  using json_parse_text[OF assms(1)] json_text_eq_iff[OF assms] by simp

theorem canonical_text_is_faithful_witness:
  "json_parse (json_text (JObj [(''b'', JInt 1), (''a'', JStr ''x'')])) = Some (canon (JObj [(''b'', JInt 1), (''a'', JStr ''x'')]))"
proof -
  have "wf_json (JObj [(''b'', JInt 1), (''a'', JStr ''x'')])" by code_simp
  from canonical_text_is_faithful[OF this this] show ?thesis by simp
qed

section \<open>Pages\<close>



section \<open>Ownership of a run\<close>

text \<open>C38. While the Kubernetes lease of one worker is active, no other worker acquires it; an acquired lease is the caller's own,
  fresh lease. The API is assumed to follow its documented rules on resource versions.\<close>

theorem lease_is_exclusive:
  assumes "lease_api call view"
  shows "case acquire call holder now c of
      (Inr _, c') \<Rightarrow> (case view (kl_api c) of None \<Rightarrow> True | Some l \<Rightarrow> \<not> Lease.active now l)
        \<and> (\<exists>l. view (kl_api c') = Some l \<and> same_spec l (lease_for holder now 0)) \<and> kl_held c'
    | (Inl _, _) \<Rightarrow> True"
  using acquire_Inr[OF assms, of holder now c] by (auto split: prod.splits sum.splits option.splits)

theorem lease_is_exclusive_witness:
  "\<exists>l. kl_api (snd (acquire etcd_call ''me'' 5 \<lparr>kl_held = False, kl_api = None\<rparr>)) = Some l \<and> l_holder l = ''me''"
proof -
  let ?run = "acquire etcd_call ''me'' 5 \<lparr>kl_held = False, kl_api = None\<rparr>"
  have "fst ?run = Inr ()" by code_simp
  note run = returned[OF this]
  from lease_is_exclusive[OF etcd_obeys, where holder = "''me''" and now = 5 and c = "\<lparr>kl_held = False, kl_api = None\<rparr>"] show ?thesis
    by (subst (asm) run) (auto simp: same_spec_def lease_for_def)
qed

section \<open>What leaves the runner\<close>

text \<open>C39. A failure diagnostic carries only allowlisted reasons and codes, whatever error chain the provider threw: no foreign error
  text gets out.\<close>

theorem diagnostics_are_redacted: "redacted (failureDiagnostic stage e)"
  by (rule failureDiagnostic_redacted)

section \<open>A transition that is not fenced\<close>


end
